(* ===== verification/Prelude.thy ===== *)
theory Prelude
  imports Main "HOL-Library.Word"
begin

text \<open>
  The shared vocabulary of the development: UEFI status codes, the outcome of running a piece of
  firmware (it returns, or it stops for a named reason), the state-passing programs built from
  them, and the small program logic (\<open>safe\<close>, \<open>hoare\<close>, \<open>keeps\<close>, \<open>below\<close>) with which every
  component theory proves its frame, termination and functional facts.
\<close>

unbundle bit_operations_syntax

named_theorems safe_intros \<open>introduction rules for safe programs\<close>
named_theorems below_intros \<open>introduction rules for the fuel ordering\<close>
named_theorems prog_defs \<open>definitions of the primitive programs\<close>

type_synonym u8 = "8 word"
type_synonym u16 = "16 word"
type_synonym u32 = "32 word"
type_synonym u64 = "64 word"

section \<open>UEFI status codes\<close>

text \<open>
  \<open>EFI_STATUS\<close> is a machine word whose top bit marks an error. The codes the sources name are
  constructors; every other warning or error a service may hand back is carried by number.
\<close>

datatype EFI_STATUS =
    EFI_SUCCESS
  | EFI_WARNING nat
  | EFI_LOAD_ERROR
  | EFI_INVALID_PARAMETER
  | EFI_UNSUPPORTED
  | EFI_BAD_BUFFER_SIZE
  | EFI_BUFFER_TOO_SMALL
  | EFI_NOT_READY
  | EFI_DEVICE_ERROR
  | EFI_WRITE_PROTECTED
  | EFI_OUT_OF_RESOURCES
  | EFI_NO_MEDIA
  | EFI_MEDIA_CHANGED
  | EFI_NOT_FOUND
  | EFI_ACCESS_DENIED
  | EFI_TIMEOUT
  | EFI_ALREADY_STARTED
  | EFI_ABORTED
  | EFI_PROTOCOL_ERROR
  | EFI_SECURITY_VIOLATION
  | EFI_VOLUME_FULL
  | EFI_OTHER_ERROR nat

fun EFI_ERROR :: "EFI_STATUS \<Rightarrow> bool" where
  "EFI_ERROR EFI_SUCCESS = False"
| "EFI_ERROR (EFI_WARNING _) = False"
| "EFI_ERROR _ = True"

section \<open>Programs\<close>

text \<open>
  A run either returns a value or stops. \<open>AssertFailed\<close> is the dead loop of a failed \<open>ASSERT\<close> in
  a DEBUG build, the next five are C's undefined behaviour at the place where the code would meet
  it, and \<open>OutOfFuel\<close> marks a recursion cut off by the depth bound of the model.
\<close>

datatype stop =
    AssertFailed
  | NullDereference
  | DivideByZero
  | UseAfterFree
  | UninitializedRead
  | OutOfBounds
  | OutOfFuel

datatype 'a outcome = Ret 'a | Stop stop

type_synonym ('s, 'a) prog = "'s \<Rightarrow> ('a \<times> 's) outcome"

definition ret :: "'a \<Rightarrow> ('s, 'a) prog" where
  [prog_defs]: "ret x = (\<lambda>s. Ret (x, s))"

definition stopM :: "stop \<Rightarrow> ('s, 'a) prog" where
  [prog_defs]: "stopM r = (\<lambda>s. Stop r)"

definition bindM :: "('s, 'a) prog \<Rightarrow> ('a \<Rightarrow> ('s, 'b) prog) \<Rightarrow> ('s, 'b) prog" where
  [prog_defs]: "bindM m f = (\<lambda>s. case m s of Ret (x, s') \<Rightarrow> f x s' | Stop r \<Rightarrow> Stop r)"

definition gets :: "('s \<Rightarrow> 'a) \<Rightarrow> ('s, 'a) prog" where
  [prog_defs]: "gets f = (\<lambda>s. Ret (f s, s))"

definition modify :: "('s \<Rightarrow> 's) \<Rightarrow> ('s, unit) prog" where
  [prog_defs]: "modify f = (\<lambda>s. Ret ((), f s))"

definition ASSERT :: "bool \<Rightarrow> ('s, unit) prog" where
  [prog_defs]: "ASSERT b = (if b then ret () else stopM AssertFailed)"

text \<open>\<open>Status = m; if (EFI_ERROR (Status)) return Status; k\<close>\<close>

definition tryE :: "('s, EFI_STATUS) prog \<Rightarrow> ('s, EFI_STATUS) prog \<Rightarrow> ('s, EFI_STATUS) prog" where
  [prog_defs]: "tryE m k = bindM m (\<lambda>Status. if EFI_ERROR Status then ret Status else k)"

text \<open>A straight line of calls, each followed by that early return, ending in \<open>EFI_SUCCESS\<close>.\<close>

primrec runE :: "('s, EFI_STATUS) prog list \<Rightarrow> ('s, EFI_STATUS) prog" where
  "runE [] = ret EFI_SUCCESS"
| "runE (m # ms) = tryE m (runE ms)"

lemma bindM_ret [simp]: "bindM (ret x) f = f x"
  by (simp add: bindM_def ret_def)

lemma bindM_ret_right [simp]: "bindM m ret = m"
  by (rule ext) (auto simp: bindM_def ret_def split: outcome.splits)

lemma bindM_assoc: "bindM (bindM m f) g = bindM m (\<lambda>x. bindM (f x) g)"
  by (rule ext) (auto simp: bindM_def split: outcome.splits)

lemma bindM_Ret:
  "bindM m f s = Ret (y, t) \<longleftrightarrow> (\<exists>x s'. m s = Ret (x, s') \<and> f x s' = Ret (y, t))"
  by (auto simp: bindM_def split: outcome.splits)

lemma bindM_eqI: "m s = Ret (x, s') \<Longrightarrow> bindM m f s = f x s'"
  by (simp add: bindM_def)

lemma bindM_gets [simp]: "bindM (gets g) f s = f (g s) s"
  by (simp add: bindM_def gets_def)

lemma bindM_modify [simp]: "bindM (modify g) f s = f () (g s)"
  by (simp add: bindM_def modify_def)

lemma bindM_ASSERT: "bindM (ASSERT b) f s = (if b then f () s else Stop AssertFailed)"
  by (simp add: ASSERT_def bindM_def ret_def stopM_def)

lemma tryE_Ret:
  "tryE m k s = Ret (st, t) \<longleftrightarrow>
     (\<exists>st' s'. m s = Ret (st', s') \<and>
        (if EFI_ERROR st' then st = st' \<and> t = s' else k s' = Ret (st, t)))"
  by (auto simp: tryE_def bindM_Ret ret_def split: if_splits)

section \<open>Safe programs: an invariant kept and no depth bound met\<close>

text \<open>
  \<open>safe P m\<close>: started where \<open>P\<close> holds, \<open>m\<close> either returns with \<open>P\<close> again or stops for one of the
  reasons the code itself can meet; it never runs out of the model's fuel.
\<close>

definition safe :: "('s \<Rightarrow> bool) \<Rightarrow> ('s, 'a) prog \<Rightarrow> bool" where
  "safe P m \<longleftrightarrow> (\<forall>s. P s \<longrightarrow> (case m s of Ret (x, s') \<Rightarrow> P s' | Stop r \<Rightarrow> r \<noteq> OutOfFuel))"

lemma safeI:
  assumes "\<And>s x s'. P s \<Longrightarrow> m s = Ret (x, s') \<Longrightarrow> P s'"
    and "\<And>s. P s \<Longrightarrow> m s \<noteq> Stop OutOfFuel"
  shows "safe P m"
  using assms by (auto simp: safe_def split: outcome.splits)

lemma safe_Ret: "safe P m \<Longrightarrow> P s \<Longrightarrow> m s = Ret (x, s') \<Longrightarrow> P s'"
  unfolding safe_def by (auto dest: spec [of _ s])

lemma safe_fuel: "safe P m \<Longrightarrow> P s \<Longrightarrow> m s \<noteq> Stop OutOfFuel"
  unfolding safe_def by (auto dest: spec [of _ s])

lemma safe_case:
  "safe P m \<Longrightarrow> P s \<Longrightarrow> (case m s of Ret (x, s') \<Rightarrow> P s' | Stop r \<Rightarrow> r \<noteq> OutOfFuel)"
  by (simp add: safe_def)

lemma safe_ret [safe_intros]: "safe P (ret x)"
  by (simp add: safe_def ret_def)

lemma safe_stopM [safe_intros]: "r \<noteq> OutOfFuel \<Longrightarrow> safe P (stopM r)"
  by (simp add: safe_def stopM_def)

lemma safe_gets [safe_intros]: "safe P (gets f)"
  by (simp add: safe_def gets_def)

lemma safe_modify [safe_intros]: "(\<And>s. P s \<Longrightarrow> P (f s)) \<Longrightarrow> safe P (modify f)"
  by (simp add: safe_def modify_def)

lemma safe_ASSERT [safe_intros]: "safe P (ASSERT b)"
  by (simp add: safe_def ASSERT_def ret_def stopM_def)

lemma safe_bindM [safe_intros]: "safe P m \<Longrightarrow> (\<And>x. safe P (f x)) \<Longrightarrow> safe P (bindM m f)"
proof (rule safeI)
  assume m: "safe P m" and f: "\<And>x. safe P (f x)"
  show "P s'" if "P s" and "bindM m f s = Ret (x, s')" for s x s'
    using that(2) by (auto simp: bindM_Ret dest: safe_Ret [OF m that(1)] safe_Ret [OF f])
  show "bindM m f s \<noteq> Stop OutOfFuel" if s: "P s" for s
    using safe_fuel [OF m s] safe_Ret [OF m s] safe_fuel [OF f]
    by (auto simp: bindM_def split: outcome.splits)
qed

lemma safe_if [safe_intros]: "(b \<Longrightarrow> safe P m) \<Longrightarrow> (\<not> b \<Longrightarrow> safe P n) \<Longrightarrow> safe P (if b then m else n)"
  by simp

lemma safe_case_option [safe_intros]:
  "(x = None \<Longrightarrow> safe P m) \<Longrightarrow> (\<And>y. x = Some y \<Longrightarrow> safe P (f y)) \<Longrightarrow>
   safe P (case x of None \<Rightarrow> m | Some y \<Rightarrow> f y)"
  by (cases x) auto

lemma safe_case_prod [safe_intros]: "(\<And>a b. safe P (f a b)) \<Longrightarrow> safe P (case p of (a, b) \<Rightarrow> f a b)"
  by (cases p) auto

lemma safe_tryE [safe_intros]: "safe P m \<Longrightarrow> safe P k \<Longrightarrow> safe P (tryE m k)"
  unfolding tryE_def by (intro safe_intros)

lemma safe_runE [safe_intros]: "(\<And>m. m \<in> set ms \<Longrightarrow> safe P m) \<Longrightarrow> safe P (runE ms)"
  by (induction ms) (auto intro!: safe_intros)

section \<open>Partial-correctness triples\<close>

definition hoare :: "('s \<Rightarrow> bool) \<Rightarrow> ('s, 'a) prog \<Rightarrow> ('a \<Rightarrow> 's \<Rightarrow> bool) \<Rightarrow> bool" where
  "hoare P m Q \<longleftrightarrow> (\<forall>s x s'. P s \<longrightarrow> m s = Ret (x, s') \<longrightarrow> Q x s')"

lemma hoareI: "(\<And>s x s'. P s \<Longrightarrow> m s = Ret (x, s') \<Longrightarrow> Q x s') \<Longrightarrow> hoare P m Q"
  by (auto simp: hoare_def)

lemma hoareD: "hoare P m Q \<Longrightarrow> P s \<Longrightarrow> m s = Ret (x, s') \<Longrightarrow> Q x s'"
  by (auto simp: hoare_def)

lemma hoare_ret: "(\<And>s. P s \<Longrightarrow> Q x s) \<Longrightarrow> hoare P (ret x) Q"
  by (auto simp: hoare_def ret_def)

lemma hoare_stopM: "hoare P (stopM r) Q"
  by (simp add: hoare_def stopM_def)

lemma hoare_bindM:
  "hoare P m R \<Longrightarrow> (\<And>x. hoare (R x) (f x) Q) \<Longrightarrow> hoare P (bindM m f) Q"
  by (fastforce simp: hoare_def bindM_Ret)

lemma hoare_if:
  "(b \<Longrightarrow> hoare P m Q) \<Longrightarrow> (\<not> b \<Longrightarrow> hoare P n Q) \<Longrightarrow> hoare P (if b then m else n) Q"
  by simp

lemma hoare_weaken:
  "hoare P' m Q' \<Longrightarrow> (\<And>s. P s \<Longrightarrow> P' s) \<Longrightarrow> (\<And>x s. Q' x s \<Longrightarrow> Q x s) \<Longrightarrow> hoare P m Q"
  by (fastforce simp: hoare_def)

text \<open>\<open>keeps R m\<close>: the states before and after \<open>m\<close> are related by \<open>R\<close> whenever \<open>m\<close> returns.\<close>

definition keeps :: "('s \<Rightarrow> 's \<Rightarrow> bool) \<Rightarrow> ('s, 'a) prog \<Rightarrow> bool" where
  "keeps R m \<longleftrightarrow> (\<forall>s x s'. m s = Ret (x, s') \<longrightarrow> R s s')"

lemma keepsD: "keeps R m \<Longrightarrow> m s = Ret (x, s') \<Longrightarrow> R s s'"
  by (auto simp: keeps_def)

lemma safe_keeps: "(\<And>c. safe (\<lambda>s. f s = c) m) \<Longrightarrow> keeps (\<lambda>s s'. f s' = f s) m"
  by (auto simp: keeps_def dest: safe_Ret)

section \<open>The fuel ordering\<close>

text \<open>
  \<open>below m n\<close>: wherever \<open>m\<close> does not run out of fuel, \<open>n\<close> gives the same result. More recursion
  depth moves a program up this order, so a result reached at one depth is the result at every
  greater depth.
\<close>

definition below :: "('s, 'a) prog \<Rightarrow> ('s, 'a) prog \<Rightarrow> bool" where
  "below m n \<longleftrightarrow> (\<forall>s. m s = Stop OutOfFuel \<or> m s = n s)"

lemma below_eq: "below m n \<Longrightarrow> m s \<noteq> Stop OutOfFuel \<Longrightarrow> n s = m s"
  by (auto simp: below_def dest: spec [of _ s])

lemma below_refl [below_intros]: "below m m"
  by (simp add: below_def)

lemma below_trans: "below m n \<Longrightarrow> below n k \<Longrightarrow> below m k"
  unfolding below_def by metis

lemma below_out_of_fuel [below_intros]: "below (stopM OutOfFuel) m"
  by (simp add: below_def stopM_def)

lemma below_bindM [below_intros]:
  "below m n \<Longrightarrow> (\<And>x. below (f x) (g x)) \<Longrightarrow> below (bindM m f) (bindM n g)"
proof -
  assume m: "below m n" and f: "\<And>x. below (f x) (g x)"
  have "bindM m f s = Stop OutOfFuel \<or> bindM m f s = bindM n g s" for s
  proof (cases "m s = Stop OutOfFuel")
    case True
    then show ?thesis by (simp add: bindM_def)
  next
    case False
    then have "n s = m s" by (rule below_eq [OF m])
    with f show ?thesis by (auto simp: bindM_def below_def split: outcome.splits)
  qed
  then show ?thesis by (simp add: below_def)
qed

lemma below_if [below_intros]:
  "below m m' \<Longrightarrow> below n n' \<Longrightarrow> below (if b then m else n) (if b then m' else n')"
  by simp

lemma below_case_option [below_intros]:
  "below m m' \<Longrightarrow> (\<And>y. below (f y) (f' y)) \<Longrightarrow>
   below (case x of None \<Rightarrow> m | Some y \<Rightarrow> f y) (case x of None \<Rightarrow> m' | Some y \<Rightarrow> f' y)"
  by (cases x) auto

lemma below_case_prod [below_intros]:
  "(\<And>a b. below (f a b) (g a b)) \<Longrightarrow>
   below (case p of (a, b) \<Rightarrow> f a b) (case p of (a, b) \<Rightarrow> g a b)"
  by (cases p) auto

lemma below_tryE [below_intros]:
  "below m n \<Longrightarrow> below k l \<Longrightarrow> below (tryE m k) (tryE n l)"
  unfolding tryE_def by (intro below_intros)

lemma below_runE [below_intros]: "list_all2 below ms ns \<Longrightarrow> below (runE ms) (runE ns)"
  by (induction ms ns rule: list_all2_induct) (auto intro!: below_intros)

section \<open>Lists of bytes and words\<close>

text \<open>Little-endian reading, as the ARM cores of these boards load 16, 32 and 64-bit fields.\<close>

definition splice :: "nat \<Rightarrow> 'a list \<Rightarrow> 'a list \<Rightarrow> 'a list" where
  "splice off new xs = take off xs @ new @ drop (off + length new) xs"

lemma length_splice [simp]:
  "off + length new \<le> length xs \<Longrightarrow> length (splice off new xs) = length xs"
  by (simp add: splice_def)

lemma take_splice_before: "n \<le> off \<Longrightarrow> off \<le> length xs \<Longrightarrow> take n (splice off new xs) = take n xs"
  by (simp add: splice_def min_def)

lemma splice_window:
  "off \<le> length xs \<Longrightarrow> take (length new) (drop off (splice off new xs)) = new"
  by (simp add: splice_def)

lemma drop_splice_after:
  "off + length new \<le> n \<Longrightarrow> off + length new \<le> length xs \<Longrightarrow>
   drop n (splice off new xs) = drop n xs"
  by (simp add: splice_def min_def)

primrec le_nat :: "u8 list \<Rightarrow> nat" where
  "le_nat [] = 0"
| "le_nat (b # bs) = unat b + 256 * le_nat bs"

definition le_bytes :: "nat \<Rightarrow> 'a::len word \<Rightarrow> u8 list" where
  "le_bytes n w = map (\<lambda>i. ucast (drop_bit (8 * i) w)) [0..<n]"

lemma length_le_bytes [simp]: "length (le_bytes n w) = n"
  by (simp add: le_bytes_def)

lemma le_nat_append: "le_nat (xs @ ys) = le_nat xs + 256 ^ length xs * le_nat ys"
  by (induction xs) (simp_all add: algebra_simps)

lemma le_nat_bound: "le_nat bs < 256 ^ length bs"
proof (induction bs)
  case (Cons b bs)
  have "unat b < 256"
    using unsigned_less [of b] by simp
  with Cons show ?case
    by simp
qed simp

end
