(* ===== verification/BitFields.thy ===== *)
theory BitFields
  imports Prelude
begin

text \<open>
  C bit-field structures as data. A \<open>layout\<close> lists the fields of a packed structure with their
  widths, in declaration order; the compilers of these boards allocate them from the least
  significant bit up. \<open>get_field\<close> and \<open>set_field\<close> read and write one member of the overlaid word,
  as the unions \<open>AsUint32\<close> / \<open>Fields\<close> of the sources do.
\<close>

type_synonym layout = "(string \<times> nat) list"

fun layout_bits :: "layout \<Rightarrow> nat" where
  "layout_bits [] = 0"
| "layout_bits ((_, k) # l) = k + layout_bits l"

fun field_offset :: "layout \<Rightarrow> string \<Rightarrow> nat" where
  "field_offset [] f = 0"
| "field_offset ((g, k) # l) f = (if g = f then 0 else k + field_offset l f)"

fun field_width :: "layout \<Rightarrow> string \<Rightarrow> nat" where
  "field_width [] f = 0"
| "field_width ((g, k) # l) f = (if g = f then k else field_width l f)"

definition get_field :: "layout \<Rightarrow> string \<Rightarrow> 'a::len word \<Rightarrow> 'a word" where
  "get_field l f w = take_bit (field_width l f) (drop_bit (field_offset l f) w)"

definition set_field :: "layout \<Rightarrow> string \<Rightarrow> 'a::len word \<Rightarrow> 'a word \<Rightarrow> 'a word" where
  "set_field l f v w =
     (w AND NOT (push_bit (field_offset l f) (mask (field_width l f))))
     OR push_bit (field_offset l f) (take_bit (field_width l f) v)"

definition fields :: "layout \<Rightarrow> string set" where
  "fields l = fst ` set l"

lemma fields_simps [simp]:
  "fields [] = {}"
  "fields ((f, k) # l) = insert f (fields l)"
  by (auto simp: fields_def)

text \<open>A field lies inside its structure, and two different fields do not overlap.\<close>

lemma field_inside: "field_offset l f + field_width l f \<le> layout_bits l"
  by (induction l) auto

lemma field_disjoint:
  assumes "f \<in> fields l" "g \<in> fields l" "f \<noteq> g"
  shows "field_offset l f + field_width l f \<le> field_offset l g \<or>
         field_offset l g + field_width l g \<le> field_offset l f"
  using assms field_inside
proof (induction l)
  case (Cons p l)
  obtain h k where p: "p = (h, k)" by (cases p)
  show ?case
    using Cons.IH Cons.prems(1-3) field_inside by (auto simp: p)
qed simp

lemma get_set_same:
  fixes w :: "'a::len word"
  assumes "layout_bits l \<le> LENGTH('a)"
  shows "get_field l f (set_field l f v w) = take_bit (field_width l f) v"
proof -
  have "field_offset l f + field_width l f \<le> LENGTH('a)"
    using assms field_inside [of l f] by simp
  then show ?thesis
    by (auto intro!: bit_word_eqI simp: get_field_def set_field_def bit_simps)
qed

lemma get_set_other:
  fixes w :: "'a::len word"
  assumes "f \<in> fields l" "g \<in> fields l" "f \<noteq> g"
  shows "get_field l g (set_field l f v w) = get_field l g w"
proof (rule bit_word_eqI)
  fix n
  have "\<not> (field_offset l f \<le> field_offset l g + n \<and>
           field_offset l g + n - field_offset l f < field_width l f)" if "n < field_width l g"
    using field_disjoint [OF assms] that by linarith
  then show "bit (get_field l g (set_field l f v w)) n = bit (get_field l g w) n"
    unfolding get_field_def set_field_def
    by (cases "n < field_width l g") (auto simp: bit_simps dest: bit_imp_le_length)
qed

lemma get_field_less:
  fixes w :: "'a::len word"
  shows "unat (get_field l f w) < 2 ^ field_width l f"
proof -
  have "unat (get_field l f w) = take_bit (field_width l f) (unat (drop_bit (field_offset l f) w))"
    unfolding get_field_def by (simp add: unsigned_take_bit_eq)
  then show ?thesis by (simp add: take_bit_nat_less_exp)
qed

lemma get_field_zero [simp]: "get_field l f 0 = 0"
  by (simp add: get_field_def)

end
