(* ===== verification/SdHw.thy ===== *)
theory SdHw
  imports BitFields
begin

text \<open>
  The hardware vocabulary of the SD/MMC driver (\<open>Microsoft/Drivers/SdMmcDxe/SdMmcHw.h\<close>): card
  states and functions, the packed register structures as layouts, the card information record,
  and the arithmetic the driver does on them (capacity, maximum clock, status errors).
\<close>

section \<open>Enumerations\<close>

datatype CARD_SPEED_MODE =
    CardSpeedModeUndefined | CardSpeedModeNormalSpeed | CardSpeedModeHighSpeed

datatype CARD_FUNCTION =
    CardFunctionUnknown | CardFunctionSd | CardFunctionSdio | CardFunctionComboSdSdio
  | CardFunctionMmc

datatype CARD_STATE =
    CardStateIdle | CardStateReady | CardStateIdent | CardStateStdby | CardStateTran
  | CardStateData | CardStateRcv | CardStatePrg | CardStateDis | CardStateBtst | CardStateSlp

fun CARD_STATE_code :: "CARD_STATE \<Rightarrow> u32" where
  "CARD_STATE_code CardStateIdle = 0"
| "CARD_STATE_code CardStateReady = 1"
| "CARD_STATE_code CardStateIdent = 2"
| "CARD_STATE_code CardStateStdby = 3"
| "CARD_STATE_code CardStateTran = 4"
| "CARD_STATE_code CardStateData = 5"
| "CARD_STATE_code CardStateRcv = 6"
| "CARD_STATE_code CardStatePrg = 7"
| "CARD_STATE_code CardStateDis = 8"
| "CARD_STATE_code CardStateBtst = 9"
| "CARD_STATE_code CardStateSlp = 10"

datatype MMC_EXT_CSD_PARTITION_ACCESS =
    MmcExtCsdPartitionAccessUserArea
  | MmcExtCsdPartitionAccessBootPartition1
  | MmcExtCsdPartitionAccessBootPartition2
  | MmcExtCsdPartitionAccessRpmb
  | MmcExtCsdPartitionAccessGpp1
  | MmcExtCsdPartitionAccessGpp2
  | MmcExtCsdPartitionAccessGpp3
  | MmcExtCsdPartitionAccessGpp4

fun partition_code :: "MMC_EXT_CSD_PARTITION_ACCESS \<Rightarrow> u8" where
  "partition_code MmcExtCsdPartitionAccessUserArea = 0"
| "partition_code MmcExtCsdPartitionAccessBootPartition1 = 1"
| "partition_code MmcExtCsdPartitionAccessBootPartition2 = 2"
| "partition_code MmcExtCsdPartitionAccessRpmb = 3"
| "partition_code MmcExtCsdPartitionAccessGpp1 = 4"
| "partition_code MmcExtCsdPartitionAccessGpp2 = 5"
| "partition_code MmcExtCsdPartitionAccessGpp3 = 6"
| "partition_code MmcExtCsdPartitionAccessGpp4 = 7"

text \<open>The cast of the three-bit field back to the enumeration; every value has a constructor.\<close>

definition partition_of :: "u8 \<Rightarrow> MMC_EXT_CSD_PARTITION_ACCESS" where
  "partition_of b =
     (if b = 0 then MmcExtCsdPartitionAccessUserArea
      else if b = 1 then MmcExtCsdPartitionAccessBootPartition1
      else if b = 2 then MmcExtCsdPartitionAccessBootPartition2
      else if b = 3 then MmcExtCsdPartitionAccessRpmb
      else if b = 4 then MmcExtCsdPartitionAccessGpp1
      else if b = 5 then MmcExtCsdPartitionAccessGpp2
      else if b = 6 then MmcExtCsdPartitionAccessGpp3
      else MmcExtCsdPartitionAccessGpp4)"

section \<open>Packed structures\<close>

definition CARD_STATUS_layout :: layout where
  "CARD_STATUS_layout =
    [(''RESERVED_1'', 2), (''RESERVED_2'', 1), (''AKE_SEQ_ERROR'', 1),
     (''RESERVED_3'', 1), (''APP_CMD'', 1), (''URGENT_BKOPS'', 1), (''SWITCH_ERROR'', 1),
     (''READY_FOR_DATA'', 1), (''CURRENT_STATE'', 4), (''ERASE_RESET'', 1),
     (''RESERVED_4'', 1), (''WP_ERASE_SKIP'', 1), (''CID_CSD_OVERWRITE'', 1),
     (''OVERRUN'', 1), (''UNDERRUN'', 1), (''ERROR'', 1), (''CC_ERROR'', 1),
     (''CARD_ECC_FAILED'', 1), (''ILLEGAL_COMMAND'', 1), (''COM_CRC_ERROR'', 1),
     (''LOCK_UNLOCK_FAILED'', 1), (''CARD_IS_LOCKED'', 1), (''WP_VIOLATION'', 1),
     (''ERASE_PARAM'', 1), (''ERASE_SEQ_ERROR'', 1), (''BLOCK_LEN_ERROR'', 1),
     (''ADDRESS_MISALIGN'', 1), (''ADDRESS_OUT_OF_RANGE'', 1)]"

definition SEND_IF_COND_ARG_layout :: layout where
  "SEND_IF_COND_ARG_layout =
    [(''CheckPattern'', 8), (''VoltageSupplied'', 4),
     (''RESERVED_1'', 16), (''CommandIndex'', 6)]"

definition SD_SEND_OP_COND_ARG_layout :: layout where
  "SD_SEND_OP_COND_ARG_layout =
    [(''VoltageWindow'', 24), (''S18R'', 1), (''RESERVED_1'', 3),
     (''XPC'', 1), (''RESERVED_2'', 1), (''HCS'', 1), (''RESERVED_3'', 1)]"

definition SD_OCR_layout :: layout where
  "SD_OCR_layout =
    [(''VoltageWindow'', 24), (''RESERVED_1'', 5), (''AccessMode'', 2),
     (''PowerUp'', 1)]"

definition SD_OCR_EX_layout :: layout where
  "SD_OCR_EX_layout =
    [(''VoltageWindow'', 24), (''S18A'', 1), (''RESERVED_1'', 5),
     (''CCS'', 1), (''PowerUp'', 1)]"

definition SD_CID_layout :: layout where
  "SD_CID_layout =
    [(''MDT'', 12), (''RESERVED_1'', 4), (''PSN'', 32), (''PRV'', 8), (''PNM'', 40),
     (''OID'', 16), (''MID'', 8)]"

definition MMC_CID_layout :: layout where
  "MMC_CID_layout =
    [(''MDT'', 8), (''PSN'', 32), (''PRV'', 8), (''PNM'', 48), (''OID'', 8), (''CBX'', 2),
     (''RESERVED_1'', 6), (''MID'', 8)]"

definition SD_CSD_layout :: layout where
  "SD_CSD_layout =
    [(''RESERVED_1'', 2), (''FILE_FORMAT'', 2), (''TMP_WRITE_PROTECT'', 1),
     (''PERM_WRITE_PROTECT'', 1), (''COPY'', 1), (''FILE_FORMAT_GRP'', 1),
     (''RESERVED_2'', 5), (''WRITE_BL_PARTIAL'', 1), (''WRITE_BL_LEN'', 4),
     (''R2W_FACTOR'', 3), (''RESERVED_3'', 2), (''WP_GRP_ENABLE'', 1), (''WP_GRP_SIZE'', 7),
     (''SECTOR_SIZE'', 7), (''ERASE_BLK_EN'', 1), (''C_SIZE_MULT'', 3),
     (''VDD_W_CURR_MAX'', 3), (''VDD_W_CURR_MIN'', 3), (''VDD_R_CURR_MAX'', 3),
     (''VDD_R_CURR_MIN'', 3), (''C_SIZELow2'', 2), (''C_SIZEHigh10'', 10),
     (''RESERVED_4'', 2), (''DSR_IMP'', 1), (''READ_BLK_MISALIGN'', 1),
     (''WRITE_BLK_MISALIGN'', 1), (''READ_BL_PARTIAL'', 1), (''READ_BL_LEN'', 4),
     (''CCC'', 12), (''TRAN_SPEED'', 8), (''NSAC'', 8), (''TAAC'', 8), (''RESERVED_5'', 6),
     (''CSD_STRUCTURE'', 2)]"

definition SD_CSD_2_layout :: layout where
  "SD_CSD_2_layout =
    [(''RESERVED_1'', 2), (''FILE_FORMAT'', 2), (''TMP_WRITE_PROTECT'', 1),
     (''PERM_WRITE_PROTECT'', 1), (''COPY'', 1), (''FILE_FORMAT_GRP'', 1),
     (''RESERVED_2'', 5), (''WRITE_BL_PARTIAL'', 1), (''WRITE_BL_LEN'', 4),
     (''R2W_FACTOR'', 3), (''RESERVED_3'', 2), (''WP_GRP_ENABLE'', 1), (''WP_GRP_SIZE'', 7),
     (''SECTOR_SIZE'', 7), (''ERASE_BLK_EN'', 1), (''RESERVED_4'', 1), (''C_SIZE'', 22),
     (''RESERVED_5'', 6), (''DSR_IMP'', 1), (''READ_BLK_MISALIGN'', 1),
     (''WRITE_BLK_MISALIGN'', 1), (''READ_BL_PARTIAL'', 1), (''READ_BL_LEN'', 4),
     (''CCC'', 12), (''TRAN_SPEED'', 8), (''NSAC'', 8), (''TAAC'', 8), (''RESERVED_6'', 6),
     (''CSD_STRUCTURE'', 2)]"

definition MMC_CSD_layout :: layout where
  "MMC_CSD_layout =
    [(''ECC'', 2), (''FILE_FORMAT'', 2), (''TMP_WRITE_PROTECT'', 1),
     (''PERM_WRITE_PROTECT'', 1), (''COPY'', 1), (''FILE_FORMAT_GRP'', 1),
     (''CONTENT_PROT_APP'', 1), (''RESERVED_1'', 4), (''WRITE_BL_PARTIAL'', 1),
     (''WRITE_BL_LEN'', 4), (''R2W_FACTOR'', 3), (''DEFAULT_ECC'', 2), (''WP_GRP_ENABLE'', 1),
     (''WP_GRP_SIZE'', 5), (''ERASE_GRP_MULT'', 5), (''ERASE_GRP_SIZE'', 5),
     (''C_SIZE_MULT'', 3), (''VDD_W_CURR_MAX'', 3), (''VDD_W_CURR_MIN'', 3),
     (''VDD_R_CURR_MAX'', 3), (''VDD_R_CURR_MIN'', 3), (''C_SIZELow2'', 2),
     (''C_SIZEHigh10'', 10), (''RESERVED_4'', 2), (''DSR_IMP'', 1),
     (''READ_BLK_MISALIGN'', 1), (''WRITE_BLK_MISALIGN'', 1), (''READ_BL_PARTIAL'', 1),
     (''READ_BL_LEN'', 4), (''CCC'', 12), (''TRAN_SPEED'', 8), (''NSAC'', 8), (''TAAC'', 8),
     (''RESERVED_5'', 2), (''SPEC_VERS'', 4), (''CSD_STRUCTURE'', 2)]"

definition MMC_EXT_CSD_PARTITION_CONFIG_layout :: layout where
  "MMC_EXT_CSD_PARTITION_CONFIG_layout =
    [(''PARTITION_ACCESS'', 3), (''BOOT_PARTITION_ENABLE'', 3),
     (''BOOT_ACK'', 1), (''RESERVED_1'', 1)]"

definition MMC_SWITCH_CMD_ARG_layout :: layout where
  "MMC_SWITCH_CMD_ARG_layout =
    [(''CmdSet'', 3), (''RESERVED_1'', 5), (''Value'', 8), (''Index'', 8),
     (''Access'', 2), (''RESERVED_2'', 6)]"

definition SD_SCR_layout :: layout where
  "SD_SCR_layout =
    [(''RESERVED_1'', 32), (''CMD_SUPPORT'', 2), (''RESERVED_2'', 9), (''EX_SECURITY'', 4),
     (''SD_SPEC3'', 1), (''SD_BUS_WIDTH'', 4), (''SD_SECURITY'', 3),
     (''DATA_STAT_AFTER_ERASE'', 1), (''SD_SPEC'', 4), (''SCR_STRUCTURE'', 4)]"

definition MMC_EXT_CSD_layout :: layout where
  "MMC_EXT_CSD_layout =
    [(''Reserved26'', 134), (''BadBlockManagement'', 1), (''Reserved25'', 1),
     (''EnhancedUserDataStartAddress'', 4), (''EnhancedUserDataAreaSize'', 3),
     (''GpPartSizeMult'', 12), (''PartitioningSetting'', 1), (''PartitionsAttribute'', 1),
     (''MaxEnhancedAreaSize'', 3), (''PartitioningSupport'', 1), (''Reserved24'', 1),
     (''HwResetFunc'', 1), (''Reserved23'', 5), (''RpmbSizeMult'', 1), (''FwConfig'', 1),
     (''Reserved22'', 1), (''UserWriteProt'', 1), (''Reserved21'', 1), (''BootWriteProt'', 1),
     (''Reserved20'', 1), (''EraseGroupDef'', 1), (''Reserved19'', 1), (''BootBusWidth'', 1),
     (''BootConfigProt'', 1), (''PartitionConfig'', 1), (''Reserved18'', 1),
     (''ErasedMemContent'', 1), (''Reserved17'', 1), (''BusWidth'', 1), (''Reserved16'', 1),
     (''HighSpeedTiming'', 1), (''Reserved15'', 1), (''PowerClass'', 1), (''Reserved14'', 1),
     (''CmdSetRevision'', 1), (''Reserved13'', 1), (''CmdSet'', 1),
     (''ExtendedCsdRevision'', 1), (''Reserved12'', 1), (''CsdStructureVersion'', 1),
     (''Reserved11'', 1), (''CardType'', 1), (''Reserved10'', 3),
     (''PowerClass52Mhz195V'', 1), (''PowerClass26Mhz195V'', 1), (''PowerClass52Mhz36V'', 1),
     (''PowerClass26Mhz36V'', 1), (''Reserved9'', 1), (''MinReadPerf4bit26Mhz'', 1),
     (''MinWritePerf4bit26Mhz'', 1), (''MinReadPerf8bit26Mhz'', 1),
     (''MinWritePerf8bit26Mhz'', 1), (''MinReadPerf8bit52Mhz'', 1),
     (''MinWritePerf8bit52Mhz'', 1), (''Reserved8'', 1), (''SectorCount'', 4),
     (''Reserved7'', 1), (''SleepAwakeTimeout'', 1), (''Reserved6'', 1),
     (''SleepCurrentVccq'', 1), (''SleepCurrentVcc'', 1),
     (''HighCapacityWriteProtectSize'', 1), (''ReliableWriteSectorCount'', 1),
     (''HighCapacityEraseTimeout'', 1), (''HighCapacityEraseSize'', 1), (''AccessSize'', 1),
     (''BootPartitionSize'', 1), (''Reserved5'', 1), (''BootInfo'', 1),
     (''SecureTrimMultiplier'', 1), (''SecureEraseMultiplier'', 1),
     (''SecureFeatureSupport'', 1), (''TrimMultiplier'', 1), (''Reserved4'', 1),
     (''MinReadPerf8bit52MhzDdr'', 1), (''MinWritePerf8bit52MhzDdr'', 1), (''Reserved3'', 2),
     (''PowerClass52MhzDdr36V'', 1), (''PowerClass52MhzDdr195V'', 1), (''Reserved2'', 1),
     (''InitTimeoutAfterPartitioning'', 1), (''Reserved1'', 262), (''SupportedCmdSets'', 1),
     (''Reserved'', 7)]"

section \<open>Constants\<close>

definition SD_BLOCK_LENGTH_BYTES :: u32 where "SD_BLOCK_LENGTH_BYTES = 512"
definition SD_IDENT_MODE_CLOCK_FREQ_HZ :: u32 where "SD_IDENT_MODE_CLOCK_FREQ_HZ = 400000"
definition MMC_HIGH_SPEED_MODE_CLOCK_FREQ_HZ :: u32 where
  "MMC_HIGH_SPEED_MODE_CLOCK_FREQ_HZ = 52000000"
definition MMC_MIN_SUPPORTED_SPEC_VERS :: nat where "MMC_MIN_SUPPORTED_SPEC_VERS = 4"
definition SD_CMD8_VOLTAGE_27_36 :: u32 where "SD_CMD8_VOLTAGE_27_36 = 0x01"
definition SD_OCR_HIGH_VOLTAGE_WINDOW :: u32 where "SD_OCR_HIGH_VOLTAGE_WINDOW = 0x00FF8000"
definition SdOcrAccessSectorMode :: u32 where "SdOcrAccessSectorMode = 2"
definition MmcExtCsdBitIndexPartitionConfig :: u32 where "MmcExtCsdBitIndexPartitionConfig = 179"
definition MmcExtCsdBitIndexBusWidth :: u32 where "MmcExtCsdBitIndexBusWidth = 183"
definition MmcExtCsdBitIndexHsTiming :: u32 where "MmcExtCsdBitIndexHsTiming = 185"
definition MmcSwitchCmdAccessTypeWriteByte :: u32 where "MmcSwitchCmdAccessTypeWriteByte = 3"
definition MmcExtCsdBusWidth4Bit :: u32 where "MmcExtCsdBusWidth4Bit = 1"
definition MmcExtCsdBusWidth8Bit :: u32 where "MmcExtCsdBusWidth8Bit = 2"

definition BITS :: "nat list \<Rightarrow> u32" where
  "BITS is = foldr (\<lambda>i m. push_bit i 1 OR m) is 0"

definition MMC_CARD_STATUS_ERROR_MASK :: u32 where
  "MMC_CARD_STATUS_ERROR_MASK =
     BITS [7, 13, 15, 16, 17, 18, 19, 20, 21, 22, 23, 24, 26, 27, 28, 29, 30, 31]"

definition SD_CARD_STATUS_ERROR_MASK :: u32 where
  "SD_CARD_STATUS_ERROR_MASK =
     BITS [3, 13, 15, 16, 19, 20, 21, 22, 23, 24, 26, 27, 28, 29, 30, 31]"

definition MMC_EXT_CSD_POWER_CLASS_4BIT :: "u8 \<Rightarrow> u8" where
  "MMC_EXT_CSD_POWER_CLASS_4BIT x = x AND 0xF"

definition MMC_EXT_CSD_POWER_CLASS_8BIT :: "u8 \<Rightarrow> u8" where
  "MMC_EXT_CSD_POWER_CLASS_8BIT x = drop_bit 4 x"

section \<open>Card information\<close>

text \<open>
  \<open>CARD_INFO.Registers\<close> is a union of the SD and the MMC register files. Both start with the OCR
  word and the packed 15-byte CID and CSD, so the overlay is one OCR, one CID and one CSD, and a
  tail that is the SCR (its first eight bytes) or the extended CSD (all 512).
\<close>

record CARD_REGISTERS =
  RegOcr :: u32
  RegCid :: "120 word"
  RegCsd :: "120 word"
  RegTail :: "u8 list"

record CARD_INFO =
  RCA :: u32
  CardFunction :: CARD_FUNCTION
  HasExtendedOcr :: bool
  HighCapacity :: bool
  ByteCapacity :: u64
  CurrentSpeedMode :: CARD_SPEED_MODE
  Registers :: CARD_REGISTERS

definition zero_CARD_INFO :: CARD_INFO where
  "zero_CARD_INFO =
     \<lparr>RCA = 0, CardFunction = CardFunctionUnknown, HasExtendedOcr = False, HighCapacity = False,
      ByteCapacity = 0, CurrentSpeedMode = CardSpeedModeUndefined,
      Registers = \<lparr>RegOcr = 0, RegCid = 0, RegCsd = 0, RegTail = replicate 512 0\<rparr>\<rparr>"

definition ext_csd_byte :: "string \<Rightarrow> u8 list \<Rightarrow> u8" where
  "ext_csd_byte f bs = bs ! field_offset MMC_EXT_CSD_layout f"

definition ext_csd_SectorCount :: "u8 list \<Rightarrow> u32" where
  "ext_csd_SectorCount bs =
     of_nat (le_nat (take 4 (drop (field_offset MMC_EXT_CSD_layout ''SectorCount'') bs)))"

text \<open>
  The first fifteen bytes of the four response words, as \<open>CopyMem\<close> moves them into a CID or CSD.
\<close>

definition response_register :: "u32 list \<Rightarrow> 120 word" where
  "response_register r =
     ucast (r ! 0) OR push_bit 32 (ucast (r ! 1)) OR push_bit 64 (ucast (r ! 2))
       OR push_bit 96 (ucast (r ! 3))"

section \<open>Status errors\<close>

text \<open>
  \<open>IsCardStatusError\<close> returns the masked status as a \<open>BOOLEAN\<close>, which is one byte in UEFI: C
  converts the 32-bit value modulo 256 on return. \<open>None\<close> is the failed \<open>ASSERT (FALSE)\<close> of the
  default branch.
\<close>

definition IsCardStatusError :: "CARD_FUNCTION \<Rightarrow> u32 \<Rightarrow> u8 option" where
  "IsCardStatusError cf CardStatus =
     (case cf of
        CardFunctionSd \<Rightarrow> Some (ucast (CardStatus AND SD_CARD_STATUS_ERROR_MASK))
      | CardFunctionMmc \<Rightarrow> Some (ucast (CardStatus AND MMC_CARD_STATUS_ERROR_MASK))
      | _ \<Rightarrow> None)"

definition READY_FOR_DATA :: "u32 \<Rightarrow> bool" where
  "READY_FOR_DATA st = (get_field CARD_STATUS_layout ''READY_FOR_DATA'' st \<noteq> 0)"

definition CURRENT_STATE :: "u32 \<Rightarrow> u32" where
  "CURRENT_STATE st = get_field CARD_STATUS_layout ''CURRENT_STATE'' st"

section \<open>Capacity\<close>

text \<open>
  The version 1 capacity computation, in 32-bit arithmetic as the code does it: the SD (CSD 1.0)
  and the standard-capacity MMC branches of \<open>SdhcSendCsd\<close> share it.
\<close>

definition csd1_DeviceSize :: "u32 \<Rightarrow> u32 \<Rightarrow> u32" where
  "csd1_DeviceSize high10 low2 = push_bit 2 high10 OR low2"

definition csd1_ByteCapacity :: "u32 \<Rightarrow> u32 \<Rightarrow> u32 \<Rightarrow> u32 \<Rightarrow> u64" where
  "csd1_ByteCapacity high10 low2 mult read_bl_len =
     (let DeviceSize = csd1_DeviceSize high10 low2;
          Mult = push_bit (unat mult + 2) 1;
          BlockNr = (DeviceSize + 1) * Mult;
          MaxBlockLen = push_bit (unat read_bl_len) 1
      in ucast (BlockNr * MaxBlockLen))"

definition csd2_ByteCapacity :: "u32 \<Rightarrow> u64" where
  "csd2_ByteCapacity c_size = ucast (c_size + 1) * 512 * 1024"

definition csd_u32 :: "layout \<Rightarrow> string \<Rightarrow> 120 word \<Rightarrow> u32" where
  "csd_u32 l f r = ucast (get_field l f r)"

section \<open>Maximum card clock\<close>

definition TransferRateUnit :: "u32 \<Rightarrow> u32 option" where
  "TransferRateUnit unit_id =
     (if unit_id = 0 then Some (100 * 1000)
      else if unit_id = 1 then Some (1 * 1000 * 1000)
      else if unit_id = 2 then Some (10 * 1000 * 1000)
      else if unit_id = 3 then Some (100 * 1000 * 1000)
      else None)"

definition TransferTimeValue :: "CARD_FUNCTION \<Rightarrow> u32 \<Rightarrow> u32 option" where
  "TransferTimeValue cf v =
     (if v = 0x1 then Some 10
      else if v = 0x2 then Some 12
      else if v = 0x3 then Some 13
      else if v = 0x4 then Some 15
      else if v = 0x5 then Some 20
      else if v = 0x6 then Some (if cf = CardFunctionSd then 25 else 26)
      else if v = 0x7 then Some 30
      else if v = 0x8 then Some 35
      else if v = 0x9 then Some 40
      else if v = 0xA then Some 45
      else if v = 0xB then Some (if cf = CardFunctionSd then 50 else 52)
      else if v = 0xC then Some 55
      else if v = 0xD then Some 60
      else if v = 0xE then Some 70
      else if v = 0xF then Some 80
      else None)"

text \<open>\<open>None\<close> is the \<open>ASSERT (FALSE)\<close> of the two default branches.\<close>

definition CalculateCardMaxFreq :: "CARD_INFO \<Rightarrow> u32 option" where
  "CalculateCardMaxFreq ci =
     (let TranSpeed =
            (if CardFunction ci = CardFunctionSd
             then csd_u32 SD_CSD_layout ''TRAN_SPEED'' (RegCsd (Registers ci))
             else csd_u32 MMC_CSD_layout ''TRAN_SPEED'' (RegCsd (Registers ci)))
      in case TransferRateUnit (TranSpeed AND 0x7) of
           None \<Rightarrow> None
         | Some TransferRateBitPerSecond \<Rightarrow>
             (case TransferTimeValue (CardFunction ci) (drop_bit 3 TranSpeed AND 0xF) of
                None \<Rightarrow> None
              | Some TimeValue \<Rightarrow> Some ((TransferRateBitPerSecond * TimeValue) div 10)))"

section \<open>Layout facts\<close>

lemma register_layout_bits:
  "layout_bits SD_CID_layout = 120" "layout_bits MMC_CID_layout = 120"
  "layout_bits SD_CSD_layout = 120" "layout_bits SD_CSD_2_layout = 120"
  "layout_bits MMC_CSD_layout = 120"
  by (simp_all add: SD_CID_layout_def MMC_CID_layout_def SD_CSD_layout_def SD_CSD_2_layout_def
      MMC_CSD_layout_def)

lemma card_status_fields [simp]:
  "field_offset CARD_STATUS_layout ''READY_FOR_DATA'' = 8"
  "field_width CARD_STATUS_layout ''READY_FOR_DATA'' = 1"
  "field_offset CARD_STATUS_layout ''CURRENT_STATE'' = 9"
  "field_width CARD_STATUS_layout ''CURRENT_STATE'' = 4"
  by (simp_all add: CARD_STATUS_layout_def)

lemma switch_arg_fields [simp]:
  "field_offset MMC_SWITCH_CMD_ARG_layout ''Value'' = 8"
  "field_width MMC_SWITCH_CMD_ARG_layout ''Value'' = 8"
  "field_offset MMC_SWITCH_CMD_ARG_layout ''Index'' = 16"
  "field_width MMC_SWITCH_CMD_ARG_layout ''Index'' = 8"
  "field_offset MMC_SWITCH_CMD_ARG_layout ''Access'' = 24"
  "field_width MMC_SWITCH_CMD_ARG_layout ''Access'' = 2"
  "layout_bits MMC_SWITCH_CMD_ARG_layout = 32"
  by (simp_all add: MMC_SWITCH_CMD_ARG_layout_def)

lemma partition_config_fields [simp]:
  "field_offset MMC_EXT_CSD_PARTITION_CONFIG_layout ''PARTITION_ACCESS'' = 0"
  "field_width MMC_EXT_CSD_PARTITION_CONFIG_layout ''PARTITION_ACCESS'' = 3"
  "layout_bits MMC_EXT_CSD_PARTITION_CONFIG_layout = 8"
  by (simp_all add: MMC_EXT_CSD_PARTITION_CONFIG_layout_def)

lemma ext_csd_offsets [simp]:
  "field_offset MMC_EXT_CSD_layout ''RpmbSizeMult'' = 168"
  "field_offset MMC_EXT_CSD_layout ''PartitionConfig'' = 179"
  "field_offset MMC_EXT_CSD_layout ''BusWidth'' = 183"
  "field_offset MMC_EXT_CSD_layout ''HighSpeedTiming'' = 185"
  "field_offset MMC_EXT_CSD_layout ''PowerClass'' = 187"
  "field_offset MMC_EXT_CSD_layout ''PowerClass52Mhz36V'' = 202"
  "field_offset MMC_EXT_CSD_layout ''PowerClass26Mhz36V'' = 203"
  "field_offset MMC_EXT_CSD_layout ''SectorCount'' = 212"
  "field_offset MMC_EXT_CSD_layout ''ReliableWriteSectorCount'' = 222"
  "layout_bits MMC_EXT_CSD_layout = 512"
  by (simp_all add: MMC_EXT_CSD_layout_def)

lemma csd_speed_fields [simp]:
  "field_offset SD_CSD_layout ''TRAN_SPEED'' = 88" "field_width SD_CSD_layout ''TRAN_SPEED'' = 8"
  "field_offset MMC_CSD_layout ''TRAN_SPEED'' = 88" "field_width MMC_CSD_layout ''TRAN_SPEED'' = 8"
  by (simp_all add: SD_CSD_layout_def MMC_CSD_layout_def)

lemma csd_capacity_fields [simp]:
  "field_width SD_CSD_layout ''C_SIZEHigh10'' = 10" "field_width MMC_CSD_layout ''C_SIZEHigh10'' = 10"
  "field_width SD_CSD_layout ''C_SIZELow2'' = 2" "field_width MMC_CSD_layout ''C_SIZELow2'' = 2"
  "field_width SD_CSD_layout ''C_SIZE_MULT'' = 3" "field_width MMC_CSD_layout ''C_SIZE_MULT'' = 3"
  "field_width SD_CSD_layout ''READ_BL_LEN'' = 4" "field_width MMC_CSD_layout ''READ_BL_LEN'' = 4"
  "field_width SD_CSD_2_layout ''C_SIZE'' = 22"
  by (simp_all add: SD_CSD_layout_def MMC_CSD_layout_def SD_CSD_2_layout_def)

lemma unat_csd_u32:
  assumes "field_width l f \<le> 32"
  shows "unat (csd_u32 l f r) < 2 ^ field_width l f"
proof -
  have "unat (csd_u32 l f r) = take_bit 32 (unat (get_field l f r))"
    by (simp add: csd_u32_def unsigned_ucast_eq)
  also have "\<dots> \<le> unat (get_field l f r)"
    by (rule take_bit_nat_less_eq_self)
  finally show ?thesis
    using get_field_less [of l f r] by simp
qed

text \<open>
  The packed structures have the sizes the comments in the header give: each CID and CSD is exactly the 120 bits [127:8], the extended CSD is exactly one 512-byte block, and
  the three EXT_CSD bytes the driver switches lie at the byte numbers it sends to the card.
\<close>

lemma register_layout_sizes:
  "layout_bits SD_CID_layout = 120 \<and> layout_bits MMC_CID_layout = 120 \<and>
   layout_bits SD_CSD_layout = 120 \<and> layout_bits SD_CSD_2_layout = 120 \<and>
   layout_bits MMC_CSD_layout = 120 \<and> layout_bits CARD_STATUS_layout = 32 \<and>
   layout_bits MMC_EXT_CSD_layout = unat SD_BLOCK_LENGTH_BYTES \<and>
   field_offset MMC_EXT_CSD_layout ''PartitionConfig'' = unat MmcExtCsdBitIndexPartitionConfig \<and>
   field_offset MMC_EXT_CSD_layout ''BusWidth'' = unat MmcExtCsdBitIndexBusWidth \<and>
   field_offset MMC_EXT_CSD_layout ''HighSpeedTiming'' = unat MmcExtCsdBitIndexHsTiming"
  by (simp add: register_layout_bits CARD_STATUS_layout_def SD_BLOCK_LENGTH_BYTES_def
      MmcExtCsdBitIndexPartitionConfig_def MmcExtCsdBitIndexBusWidth_def
      MmcExtCsdBitIndexHsTiming_def)

section \<open>Partition numbers\<close>

lemma partition_of_code [simp]: "partition_of (partition_code p) = p"
  by (cases p) (simp_all add: partition_of_def)

lemma partition_code_bound: "unat (partition_code p) < 8"
  by (cases p) simp_all

lemma take_bit_partition_code [simp]: "take_bit 3 (partition_code p) = partition_code p"
  by (cases p) simp_all

lemma partition_code_inject [simp]: "partition_code p = partition_code q \<longleftrightarrow> p = q"
  by (metis partition_of_code)

section \<open>What the status check detects\<close>

lemma bit_BITS: "bit (BITS is) n \<longleftrightarrow> n \<in> set is \<and> n < 32"
  by (induction "is") (auto simp: BITS_def bit_simps)

lemma status_byte_nonzero:
  assumes "\<And>n. n < 8 \<Longrightarrow> n \<in> set is \<longleftrightarrow> n = k" and "k < 8"
  shows "(ucast (st AND BITS is) :: u8) \<noteq> 0 \<longleftrightarrow> bit st k"
proof -
  have eq: "(ucast (st AND BITS is) :: u8) = (if bit st k then push_bit k 1 else 0)"
    using assms by (intro bit_word_eqI) (auto simp: bit_simps bit_BITS)
  have "bit (push_bit k 1 :: u8) k"
    using assms(2) by (simp add: bit_simps)
  then have "(push_bit k 1 :: u8) \<noteq> 0"
    by (metis bit_0_eq bot_apply bot_bool_def)
  then show ?thesis
    by (simp add: eq)
qed

text \<open>
  The truncation of the masked status to a one-byte \<open>BOOLEAN\<close> leaves a single
  detectable error per card kind: bit 3 (AKE_SEQ_ERROR) of an SD card status, bit 7 (SWITCH_ERROR)
  of an MMC card status. None of the errors in bits 8 to 31 (address, ECC, CRC, illegal command,
  write protection and so on) can make the check true.
\<close>

theorem IsCardStatusError_detects:
  "(\<exists>b. IsCardStatusError CardFunctionSd st = Some b \<and> (b \<noteq> 0 \<longleftrightarrow> bit st 3)) \<and>
   (\<exists>b. IsCardStatusError CardFunctionMmc st = Some b \<and> (b \<noteq> 0 \<longleftrightarrow> bit st 7))"
proof
  have "(ucast (st AND SD_CARD_STATUS_ERROR_MASK) :: u8) \<noteq> 0 \<longleftrightarrow> bit st 3"
    unfolding SD_CARD_STATUS_ERROR_MASK_def by (rule status_byte_nonzero) auto
  then show "\<exists>b. IsCardStatusError CardFunctionSd st = Some b \<and> (b \<noteq> 0 \<longleftrightarrow> bit st 3)"
    by (simp add: IsCardStatusError_def)
  have "(ucast (st AND MMC_CARD_STATUS_ERROR_MASK) :: u8) \<noteq> 0 \<longleftrightarrow> bit st 7"
    unfolding MMC_CARD_STATUS_ERROR_MASK_def by (rule status_byte_nonzero) auto
  then show "\<exists>b. IsCardStatusError CardFunctionMmc st = Some b \<and> (b \<noteq> 0 \<longleftrightarrow> bit st 7)"
    by (simp add: IsCardStatusError_def)
qed

section \<open>Capacity facts\<close>

lemma unat_push_bit_one: "n < 32 \<Longrightarrow> unat (push_bit n 1 :: u32) = 2 ^ n"
proof -
  assume "n < 32"
  then have "push_bit n (1 :: nat) < 2 ^ 32"
    using power_strict_increasing [of n 32 "2 :: nat"] by (simp add: push_bit_eq_mult)
  with \<open>n < 32\<close> have "take_bit LENGTH(32) (push_bit n (unat (1 :: u32))) = push_bit n 1"
    by (simp add: take_bit_nat_eq_self push_bit_eq_mult)
  then have "unat (push_bit n (1 :: u32)) = push_bit n 1"
    by (simp only: unsigned_push_bit_eq)
  then show ?thesis
    by (simp only: push_bit_eq_mult mult_1)
qed

lemma unat_csd1_DeviceSize:
  assumes "unat high10 < 1024" "unat low2 < 4"
  shows "unat (csd1_DeviceSize high10 low2) = 4 * unat high10 + unat low2"
proof -
  have "push_bit 2 high10 AND low2 = 0"
  proof (rule bit_word_eqI)
    fix n assume "n < LENGTH(32)"
    have "\<not> bit low2 n" if "2 \<le> n"
    proof -
      have "low2 = take_bit 2 low2"
        using assms(2) by (simp add: word_unat_eq_iff unsigned_take_bit_eq take_bit_nat_eq_self)
      then have "bit low2 n = bit (take_bit 2 low2) n" by simp
      with that show ?thesis by (simp add: bit_simps)
    qed
    then show "bit (push_bit 2 high10 AND low2) n = bit (0 :: u32) n"
      by (auto simp: bit_simps)
  qed
  then have "csd1_DeviceSize high10 low2 = push_bit 2 high10 + low2"
    unfolding csd1_DeviceSize_def by (simp add: disjunctive_add_eq_or)
  moreover have "unat (push_bit 2 high10) = 4 * unat high10"
    using assms(1) by (simp add: push_bit_eq_mult unat_word_ariths)
  ultimately show ?thesis
    using assms by (simp add: unat_word_ariths)
qed

lemma unat_ucast_u64 [simp]: "unat (ucast (w :: u32) :: u64) = unat w"
proof -
  have "unat w < 2 ^ 64"
    using unsigned_less [of w, where 'a = nat] by simp
  then show ?thesis
    by (simp add: unsigned_ucast_eq take_bit_nat_eq_self)
qed

lemma unat_mult_exact:
  fixes a b :: u32
  shows "unat a * unat b < 2 ^ 32 \<Longrightarrow> unat (a * b) = unat a * unat b"
  by (simp add: unat_word_ariths)

text \<open>
  With a read block length code of at most 10 (1024-byte blocks) the 32-bit capacity
  computation is exact: the byte capacity is (C_SIZE + 1) * 2^(C_SIZE_MULT + 2) * 2^READ_BL_LEN.
\<close>

theorem csd1_ByteCapacity_exact:
  assumes "unat high10 < 1024" "unat low2 < 4" "unat mult < 8" "unat read_bl_len \<le> 10"
  shows "unat (csd1_ByteCapacity high10 low2 mult read_bl_len) =
           (4 * unat high10 + unat low2 + 1) * 2 ^ (unat mult + 2) * 2 ^ unat read_bl_len"
proof -
  let ?D = "csd1_DeviceSize high10 low2 + 1" and ?M = "push_bit (unat mult + 2) 1 :: u32"
    and ?L = "push_bit (unat read_bl_len) 1 :: u32"
  have D: "unat ?D = 4 * unat high10 + unat low2 + 1" "unat ?D \<le> 2 ^ 12"
    using unat_csd1_DeviceSize [OF assms(1,2)] assms(1,2) by (simp_all add: unat_word_ariths)
  have M: "unat ?M = 2 ^ (unat mult + 2)" "unat ?M \<le> 2 ^ 9"
    using assms(3) unat_push_bit_one [of "unat mult + 2"]
      power_increasing [of "unat mult + 2" 9 "2 :: nat"] by simp_all
  have L: "unat ?L = 2 ^ unat read_bl_len" "unat ?L \<le> 2 ^ 10"
    using assms(4) unat_push_bit_one [of "unat read_bl_len"]
      power_increasing [of "unat read_bl_len" 10 "2 :: nat"] by simp_all
  have DM: "unat ?D * unat ?M \<le> 2 ^ 12 * 2 ^ 9"
    using D(2) M(2) by (rule mult_le_mono)
  then have "unat (?D * ?M) = unat ?D * unat ?M"
    by (intro unat_mult_exact) simp
  moreover have "unat ?D * unat ?M * unat ?L \<le> (2 ^ 12 * 2 ^ 9) * 2 ^ 10"
    using DM L(2) by (rule mult_le_mono)
  ultimately have "unat (?D * ?M * ?L) = unat ?D * unat ?M * unat ?L"
    by (subst unat_mult_exact) simp_all
  then show ?thesis
    using D(1) M(1) L(1) by (simp add: csd1_ByteCapacity_def Let_def)
qed

theorem csd1_ByteCapacity_exact_witness:
  "unat (csd1_ByteCapacity 1023 3 7 10) = 4096 * 2 ^ 9 * 2 ^ 10"
  using csd1_ByteCapacity_exact [of 1023 3 7 10] by simp

text \<open>
  With 2048-byte read blocks (READ_BL_LEN = 11) and the largest C_SIZE and
  C_SIZE_MULT, the 32-bit product wraps: a 4 GiB card is given capacity zero.
\<close>

lemma csd1_ByteCapacity_wraps:
  "csd1_ByteCapacity 1023 3 7 11 = 0 \<and>
   (4 * unat (1023 :: u32) + unat (3 :: u32) + 1) * 2 ^ (7 + 2) * 2 ^ 11 = (2 ^ 32 :: nat)"
  by (simp add: csd1_ByteCapacity_def csd1_DeviceSize_def Let_def)

lemma csd2_ByteCapacity_exact:
  assumes "unat c_size < 2 ^ 22"
  shows "unat (csd2_ByteCapacity c_size) = (unat c_size + 1) * 524288"
proof -
  have "unat (c_size + 1) = unat c_size + 1"
    using assms by (simp add: unat_word_ariths)
  with assms show ?thesis
    by (simp add: csd2_ByteCapacity_def unat_word_ariths unsigned_ucast_eq take_bit_nat_eq_self)
qed

section \<open>Clock facts\<close>

lemma TransferRateUnit_cases:
  "TransferRateUnit u = Some r \<Longrightarrow> r \<in> {100000, 1000000, 10000000, 100000000}"
  by (auto simp: TransferRateUnit_def split: if_splits)

lemma TransferTimeValue_range:
  "TransferTimeValue cf v = Some t \<Longrightarrow> 10 \<le> unat t \<and> unat t \<le> 80"
  by (auto simp: TransferTimeValue_def split: if_splits)

lemma nibble_bound: "unat ((x :: u32) AND 15) < 16"
proof -
  have "x AND 15 = take_bit 4 x"
    by (simp add: take_bit_eq_mask mask_eq_exp_minus_1)
  then show ?thesis
    by (simp add: unsigned_take_bit_eq take_bit_nat_less_exp [of 4, simplified])
qed

lemma TransferTimeValue_None:
  "unat v < 16 \<Longrightarrow> TransferTimeValue cf v = None \<longleftrightarrow> v = 0"
proof -
  assume "unat v < 16"
  then have "unat v = 0 \<or> unat v = 1 \<or> unat v = 2 \<or> unat v = 3 \<or> unat v = 4 \<or> unat v = 5 \<or>
    unat v = 6 \<or> unat v = 7 \<or> unat v = 8 \<or> unat v = 9 \<or> unat v = 10 \<or> unat v = 11 \<or>
    unat v = 12 \<or> unat v = 13 \<or> unat v = 14 \<or> unat v = 15"
    by (simp add: eval_nat_numeral less_Suc_eq)
  then show ?thesis
    by (auto simp: TransferTimeValue_def word_unat_eq_iff)
qed

text \<open>
  Up to the 10 Mbit/s unit the maximum card clock is the exact product of rate unit
  and time value and lies between 100 kHz and 80 MHz; there is none only for the reserved time
  value 0, where the code asserts.
\<close>

theorem CalculateCardMaxFreq_range:
  assumes "speed = (if CardFunction ci = CardFunctionSd
                    then csd_u32 SD_CSD_layout ''TRAN_SPEED'' (RegCsd (Registers ci))
                    else csd_u32 MMC_CSD_layout ''TRAN_SPEED'' (RegCsd (Registers ci)))"
    and "unit_id = speed AND 7" and "unit_id \<in> {0, 1, 2}"
  shows "(case CalculateCardMaxFreq ci of
            None \<Rightarrow> drop_bit 3 speed AND 0xF = 0
          | Some f \<Rightarrow> \<exists>t. TransferTimeValue (CardFunction ci) (drop_bit 3 speed AND 0xF) = Some t \<and>
               unat f = 10 ^ 4 * 10 ^ unat unit_id * unat t \<and>
               100000 \<le> unat f \<and> unat f \<le> 80000000)"
proof (cases "TransferTimeValue (CardFunction ci) (drop_bit 3 speed AND 0xF)")
  case None
  then have "drop_bit 3 speed AND 0xF = 0"
    using TransferTimeValue_None [OF nibble_bound] by simp
  with None assms show ?thesis
    by (auto simp: CalculateCardMaxFreq_def Let_def TransferRateUnit_def)
next
  case (Some t)
  then have t: "10 \<le> unat t" "unat t \<le> 80"
    by (auto dest: TransferTimeValue_range)
  then have "unat ((100000 * t) div 10) = 10000 * unat t"
    "unat ((1000000 * t) div 10) = 100000 * unat t"
    "unat ((10000000 * t) div 10) = 1000000 * unat t"
    by (simp_all add: unat_div unat_word_ariths)
  with Some t assms show ?thesis
    by (auto simp: CalculateCardMaxFreq_def Let_def TransferRateUnit_def)
qed

theorem CalculateCardMaxFreq_range_witness:
  "CalculateCardMaxFreq (zero_CARD_INFO\<lparr>CardFunction := CardFunctionSd,
     Registers := (Registers zero_CARD_INFO)\<lparr>RegCsd := push_bit 88 0x32\<rparr>\<rparr>) = Some 25000000"
proof -
  define ci where "ci = zero_CARD_INFO\<lparr>CardFunction := CardFunctionSd,
     Registers := (Registers zero_CARD_INFO)\<lparr>RegCsd := push_bit 88 0x32\<rparr>\<rparr>"
  have speed: "csd_u32 SD_CSD_layout ''TRAN_SPEED'' (RegCsd (Registers ci)) = 0x32"
    by (simp add: ci_def csd_u32_def get_field_def)
  have "CardFunction ci = CardFunctionSd"
    by (simp add: ci_def)
  with speed CalculateCardMaxFreq_range [of "0x32" ci 2] show ?thesis
    unfolding ci_def [symmetric]
    by (auto simp: TransferTimeValue_def word_unat_eq_iff split: option.splits)
qed

text \<open>
  At the 100 Mbit/s unit the 32-bit product of unit and time value wraps: the code
  for 8.0 gives 37.05 MHz instead of 800 MHz.
\<close>

lemma CalculateCardMaxFreq_wraps:
  "CalculateCardMaxFreq (zero_CARD_INFO\<lparr>CardFunction := CardFunctionSd,
     Registers := (Registers zero_CARD_INFO)\<lparr>RegCsd := push_bit 88 0x7B\<rparr>\<rparr>) = Some 370503270"
  by (simp add: CalculateCardMaxFreq_def Let_def csd_u32_def get_field_def TransferRateUnit_def
      TransferTimeValue_def)

end
