(* ===== verification/SdCommands.thy ===== *)
theory SdCommands
  imports SdHw
begin

text \<open>
  The command vocabulary shared by the driver and the host controller protocol
  (\<open>Microsoft/Include/Protocol/Sdhc.h\<close>) and the table of SD and MMC commands the driver sends
  (\<open>Microsoft/Drivers/SdMmcDxe/Protocol.c\<close>).
\<close>

datatype SD_COMMAND_TYPE =
    SdCommandTypeUndefined | SdCommandTypeSuspend | SdCommandTypeResume | SdCommandTypeAbort

datatype SD_COMMAND_CLASS =
    SdCommandClassUndefined | SdCommandClassStandard | SdCommandClassApp

datatype SD_RESPONSE_TYPE =
    SdResponseTypeUndefined | SdResponseTypeNone | SdResponseTypeR1 | SdResponseTypeR1B
  | SdResponseTypeR2 | SdResponseTypeR3 | SdResponseTypeR4 | SdResponseTypeR5
  | SdResponseTypeR5B | SdResponseTypeR6

datatype SD_TRANSFER_TYPE =
    SdTransferTypeUndefined | SdTransferTypeNone | SdTransferTypeSingleBlock
  | SdTransferTypeMultiBlock | SdTransferTypeMultiBlockNoStop

datatype SD_TRANSFER_DIRECTION =
    SdTransferDirectionUndefined | SdTransferDirectionRead | SdTransferDirectionWrite

datatype SD_BUS_WIDTH = SdBusWidthUndefined | SdBusWidth1Bit | SdBusWidth4Bit | SdBusWidth8Bit

datatype SDHC_RESET_TYPE =
    SdhcResetTypeUndefined | SdhcResetTypeAll | SdhcResetTypeCmd | SdhcResetTypeData

record SD_COMMAND =
  CmdIndex :: u16
  CmdType :: SD_COMMAND_TYPE
  CmdClass :: SD_COMMAND_CLASS
  ResponseType :: SD_RESPONSE_TYPE
  TransferType :: SD_TRANSFER_TYPE
  TransferDirection :: SD_TRANSFER_DIRECTION

record SDHC_CAPABILITIES =
  MaximumBlockSize :: u32
  MaximumBlockCount :: u32

section \<open>The command table\<close>

named_theorems cmd_defs \<open>the command constants\<close>

definition CmdGoIdleState :: SD_COMMAND where
  [cmd_defs]: "CmdGoIdleState =
     \<lparr>CmdIndex = 0, CmdType = SdCommandTypeUndefined, CmdClass = SdCommandClassStandard,
      ResponseType = SdResponseTypeNone, TransferType = SdTransferTypeNone,
      TransferDirection = SdTransferDirectionUndefined\<rparr>"

definition CmdSendOpCondMmc :: SD_COMMAND where
  [cmd_defs]: "CmdSendOpCondMmc =
     \<lparr>CmdIndex = 1, CmdType = SdCommandTypeUndefined, CmdClass = SdCommandClassStandard,
      ResponseType = SdResponseTypeR3, TransferType = SdTransferTypeNone,
      TransferDirection = SdTransferDirectionUndefined\<rparr>"

definition CmdSendCidAll :: SD_COMMAND where
  [cmd_defs]: "CmdSendCidAll =
     \<lparr>CmdIndex = 2, CmdType = SdCommandTypeUndefined, CmdClass = SdCommandClassStandard,
      ResponseType = SdResponseTypeR2, TransferType = SdTransferTypeNone,
      TransferDirection = SdTransferDirectionUndefined\<rparr>"

definition CmdSendRelativeAddr :: SD_COMMAND where
  [cmd_defs]: "CmdSendRelativeAddr =
     \<lparr>CmdIndex = 3, CmdType = SdCommandTypeUndefined, CmdClass = SdCommandClassStandard,
      ResponseType = SdResponseTypeR6, TransferType = SdTransferTypeNone,
      TransferDirection = SdTransferDirectionUndefined\<rparr>"

definition CmdSendOpCondSdio :: SD_COMMAND where
  [cmd_defs]: "CmdSendOpCondSdio =
     \<lparr>CmdIndex = 5, CmdType = SdCommandTypeUndefined, CmdClass = SdCommandClassStandard,
      ResponseType = SdResponseTypeR4, TransferType = SdTransferTypeNone,
      TransferDirection = SdTransferDirectionUndefined\<rparr>"

definition CmdSwitchSd :: SD_COMMAND where
  [cmd_defs]: "CmdSwitchSd =
     \<lparr>CmdIndex = 6, CmdType = SdCommandTypeUndefined, CmdClass = SdCommandClassStandard,
      ResponseType = SdResponseTypeR1, TransferType = SdTransferTypeSingleBlock,
      TransferDirection = SdTransferDirectionRead\<rparr>"

definition CmdSwitchMmc :: SD_COMMAND where
  [cmd_defs]: "CmdSwitchMmc =
     \<lparr>CmdIndex = 6, CmdType = SdCommandTypeUndefined, CmdClass = SdCommandClassStandard,
      ResponseType = SdResponseTypeR1B, TransferType = SdTransferTypeNone,
      TransferDirection = SdTransferDirectionUndefined\<rparr>"

definition CmdAppSetBusWidthSd :: SD_COMMAND where
  [cmd_defs]: "CmdAppSetBusWidthSd =
     \<lparr>CmdIndex = 6, CmdType = SdCommandTypeUndefined, CmdClass = SdCommandClassApp,
      ResponseType = SdResponseTypeR1, TransferType = SdTransferTypeNone,
      TransferDirection = SdTransferDirectionUndefined\<rparr>"

definition CmdSelect :: SD_COMMAND where
  [cmd_defs]: "CmdSelect =
     \<lparr>CmdIndex = 7, CmdType = SdCommandTypeUndefined, CmdClass = SdCommandClassStandard,
      ResponseType = SdResponseTypeR1B, TransferType = SdTransferTypeNone,
      TransferDirection = SdTransferDirectionUndefined\<rparr>"

definition CmdDeselect :: SD_COMMAND where
  [cmd_defs]: "CmdDeselect =
     \<lparr>CmdIndex = 7, CmdType = SdCommandTypeUndefined, CmdClass = SdCommandClassStandard,
      ResponseType = SdResponseTypeNone, TransferType = SdTransferTypeNone,
      TransferDirection = SdTransferDirectionUndefined\<rparr>"

definition CmdSendIfCondSd :: SD_COMMAND where
  [cmd_defs]: "CmdSendIfCondSd =
     \<lparr>CmdIndex = 8, CmdType = SdCommandTypeUndefined, CmdClass = SdCommandClassStandard,
      ResponseType = SdResponseTypeR6, TransferType = SdTransferTypeNone,
      TransferDirection = SdTransferDirectionUndefined\<rparr>"

definition CmdSendExtCsdMmc :: SD_COMMAND where
  [cmd_defs]: "CmdSendExtCsdMmc =
     \<lparr>CmdIndex = 8, CmdType = SdCommandTypeUndefined, CmdClass = SdCommandClassStandard,
      ResponseType = SdResponseTypeR1, TransferType = SdTransferTypeSingleBlock,
      TransferDirection = SdTransferDirectionRead\<rparr>"

definition CmdSendCsd :: SD_COMMAND where
  [cmd_defs]: "CmdSendCsd =
     \<lparr>CmdIndex = 9, CmdType = SdCommandTypeUndefined, CmdClass = SdCommandClassStandard,
      ResponseType = SdResponseTypeR2, TransferType = SdTransferTypeNone,
      TransferDirection = SdTransferDirectionUndefined\<rparr>"

definition CmdSendCid :: SD_COMMAND where
  [cmd_defs]: "CmdSendCid =
     \<lparr>CmdIndex = 10, CmdType = SdCommandTypeUndefined, CmdClass = SdCommandClassStandard,
      ResponseType = SdResponseTypeR2, TransferType = SdTransferTypeNone,
      TransferDirection = SdTransferDirectionUndefined\<rparr>"

definition CmdSwitchVoltageSd :: SD_COMMAND where
  [cmd_defs]: "CmdSwitchVoltageSd =
     \<lparr>CmdIndex = 11, CmdType = SdCommandTypeUndefined, CmdClass = SdCommandClassStandard,
      ResponseType = SdResponseTypeR1, TransferType = SdTransferTypeNone,
      TransferDirection = SdTransferDirectionUndefined\<rparr>"

definition CmdStopTransmission :: SD_COMMAND where
  [cmd_defs]: "CmdStopTransmission =
     \<lparr>CmdIndex = 12, CmdType = SdCommandTypeAbort, CmdClass = SdCommandClassStandard,
      ResponseType = SdResponseTypeR1B, TransferType = SdTransferTypeNone,
      TransferDirection = SdTransferDirectionUndefined\<rparr>"

definition CmdSendStatus :: SD_COMMAND where
  [cmd_defs]: "CmdSendStatus =
     \<lparr>CmdIndex = 13, CmdType = SdCommandTypeUndefined, CmdClass = SdCommandClassStandard,
      ResponseType = SdResponseTypeR1, TransferType = SdTransferTypeNone,
      TransferDirection = SdTransferDirectionUndefined\<rparr>"

definition CmdBusTestReadMmc :: SD_COMMAND where
  [cmd_defs]: "CmdBusTestReadMmc =
     \<lparr>CmdIndex = 14, CmdType = SdCommandTypeUndefined, CmdClass = SdCommandClassStandard,
      ResponseType = SdResponseTypeR1, TransferType = SdTransferTypeSingleBlock,
      TransferDirection = SdTransferDirectionRead\<rparr>"

definition CmdSetBlockLength :: SD_COMMAND where
  [cmd_defs]: "CmdSetBlockLength =
     \<lparr>CmdIndex = 16, CmdType = SdCommandTypeUndefined, CmdClass = SdCommandClassStandard,
      ResponseType = SdResponseTypeR1, TransferType = SdTransferTypeNone,
      TransferDirection = SdTransferDirectionUndefined\<rparr>"

definition CmdReadSingleBlock :: SD_COMMAND where
  [cmd_defs]: "CmdReadSingleBlock =
     \<lparr>CmdIndex = 17, CmdType = SdCommandTypeUndefined, CmdClass = SdCommandClassStandard,
      ResponseType = SdResponseTypeR1, TransferType = SdTransferTypeSingleBlock,
      TransferDirection = SdTransferDirectionRead\<rparr>"

definition CmdReadMultiBlock :: SD_COMMAND where
  [cmd_defs]: "CmdReadMultiBlock =
     \<lparr>CmdIndex = 18, CmdType = SdCommandTypeUndefined, CmdClass = SdCommandClassStandard,
      ResponseType = SdResponseTypeR1, TransferType = SdTransferTypeMultiBlock,
      TransferDirection = SdTransferDirectionRead\<rparr>"

definition CmdBusTestWriteMmc :: SD_COMMAND where
  [cmd_defs]: "CmdBusTestWriteMmc =
     \<lparr>CmdIndex = 19, CmdType = SdCommandTypeUndefined, CmdClass = SdCommandClassStandard,
      ResponseType = SdResponseTypeR1, TransferType = SdTransferTypeSingleBlock,
      TransferDirection = SdTransferDirectionWrite\<rparr>"

definition CmdSetBlockCount :: SD_COMMAND where
  [cmd_defs]: "CmdSetBlockCount =
     \<lparr>CmdIndex = 23, CmdType = SdCommandTypeUndefined, CmdClass = SdCommandClassStandard,
      ResponseType = SdResponseTypeR1, TransferType = SdTransferTypeNone,
      TransferDirection = SdTransferDirectionUndefined\<rparr>"

definition CmdWriteSingleBlock :: SD_COMMAND where
  [cmd_defs]: "CmdWriteSingleBlock =
     \<lparr>CmdIndex = 24, CmdType = SdCommandTypeUndefined, CmdClass = SdCommandClassStandard,
      ResponseType = SdResponseTypeR1, TransferType = SdTransferTypeSingleBlock,
      TransferDirection = SdTransferDirectionWrite\<rparr>"

definition CmdWriteMultiBlock :: SD_COMMAND where
  [cmd_defs]: "CmdWriteMultiBlock =
     \<lparr>CmdIndex = 25, CmdType = SdCommandTypeUndefined, CmdClass = SdCommandClassStandard,
      ResponseType = SdResponseTypeR1, TransferType = SdTransferTypeMultiBlock,
      TransferDirection = SdTransferDirectionWrite\<rparr>"

definition CmdAppSendOpCondSd :: SD_COMMAND where
  [cmd_defs]: "CmdAppSendOpCondSd =
     \<lparr>CmdIndex = 41, CmdType = SdCommandTypeUndefined, CmdClass = SdCommandClassApp,
      ResponseType = SdResponseTypeR3, TransferType = SdTransferTypeNone,
      TransferDirection = SdTransferDirectionUndefined\<rparr>"

definition CmdAppSetClrCardDetectSd :: SD_COMMAND where
  [cmd_defs]: "CmdAppSetClrCardDetectSd =
     \<lparr>CmdIndex = 42, CmdType = SdCommandTypeUndefined, CmdClass = SdCommandClassApp,
      ResponseType = SdResponseTypeR1, TransferType = SdTransferTypeNone,
      TransferDirection = SdTransferDirectionUndefined\<rparr>"

definition CmdAppSendScrSd :: SD_COMMAND where
  [cmd_defs]: "CmdAppSendScrSd =
     \<lparr>CmdIndex = 51, CmdType = SdCommandTypeUndefined, CmdClass = SdCommandClassApp,
      ResponseType = SdResponseTypeR1, TransferType = SdTransferTypeSingleBlock,
      TransferDirection = SdTransferDirectionRead\<rparr>"

definition CmdAppSd :: SD_COMMAND where
  [cmd_defs]: "CmdAppSd =
     \<lparr>CmdIndex = 55, CmdType = SdCommandTypeUndefined, CmdClass = SdCommandClassApp,
      ResponseType = SdResponseTypeR1, TransferType = SdTransferTypeNone,
      TransferDirection = SdTransferDirectionUndefined\<rparr>"

section \<open>Command equality\<close>

text \<open>\<open>CmdsAreEqual\<close> compares member by member once the pointers differ.\<close>

definition CmdsAreEqual :: "SD_COMMAND \<Rightarrow> SD_COMMAND \<Rightarrow> bool" where
  "CmdsAreEqual lhs rhs \<longleftrightarrow>
     CmdClass lhs = CmdClass rhs \<and>
     CmdIndex lhs = CmdIndex rhs \<and>
     ResponseType lhs = ResponseType rhs \<and>
     TransferDirection lhs = TransferDirection rhs \<and>
     TransferType lhs = TransferType rhs \<and>
     CmdType lhs = CmdType rhs"

lemma CmdsAreEqual_eq [simp]: "CmdsAreEqual c d \<longleftrightarrow> c = d"
  by (auto simp: CmdsAreEqual_def)

definition is_switch_cmd :: "SD_COMMAND \<Rightarrow> bool" where
  "is_switch_cmd c \<longleftrightarrow> c = CmdSwitchMmc \<or> c = CmdSwitchSd"

definition is_multi_block_cmd :: "SD_COMMAND \<Rightarrow> bool" where
  "is_multi_block_cmd c \<longleftrightarrow> c = CmdWriteMultiBlock \<or> c = CmdReadMultiBlock"

lemma not_switch [simp]:
  "\<not> is_switch_cmd CmdSendStatus" "\<not> is_switch_cmd CmdStopTransmission"
  by (simp_all add: is_switch_cmd_def cmd_defs)

end
