(* ===== verification/SdHost.thy ===== *)
theory SdHost
  imports SdCommands
begin

text \<open>
  The state of one SD/MMC host instance (\<open>SDHC_INSTANCE\<close>), the two interfaces it is driven
  through (\<open>EFI_SDHC_PROTOCOL\<close>, implemented by the board's host controller driver, and the UEFI
  boot services), and the programs that touch them. Both interfaces are implemented outside this
  repository: they are records of functions over an arbitrary type \<open>'h\<close> of hardware and firmware
  state, and every definition below takes them as an argument.
\<close>

section \<open>The instance record\<close>

record EFI_BLOCK_IO_MEDIA =
  MediaId :: u32
  RemovableMedia :: bool
  MediaPresent :: bool
  LogicalPartition :: bool
  ReadOnly :: bool
  WriteCaching :: bool
  BlockSize :: u32
  IoAlign :: u32
  LastBlock :: u64
  LowestAlignedLba :: u64
  LogicalBlocksPerPhysicalBlock :: u32
  OptimalTransferLengthGranularity :: u32

definition gSdhcMediaTemplate :: EFI_BLOCK_IO_MEDIA where
  "gSdhcMediaTemplate =
     \<lparr>MediaId = 0, RemovableMedia = True, MediaPresent = False, LogicalPartition = False,
      ReadOnly = False, WriteCaching = False, BlockSize = SD_BLOCK_LENGTH_BYTES, IoAlign = 4,
      LastBlock = 0, LowestAlignedLba = 0, LogicalBlocksPerPhysicalBlock = 0,
      OptimalTransferLengthGranularity = 0\<rparr>"

datatype SLOT_NODE = SlotNodeUnset | SlotNodeSD u8 | SlotNodeMMC u8

record SDHC_INSTANCE =
  InstanceId :: u32
  MmcHandle :: nat
  SlotInitialized :: bool
  SlotNode :: SLOT_NODE
  DevicePathSdhcId :: u32
  Media :: EFI_BLOCK_IO_MEDIA
  RpmbCid :: "u8 list"
  ReliableSectorCount :: u8
  RpmbSizeMult :: u8
  HostCapabilities :: SDHC_CAPABILITIES
  DevicePathProtocolInstalled :: bool
  BlockIoProtocolInstalled :: bool
  RpmbIoProtocolInstalled :: bool
  CurrentMmcPartition :: MMC_EXT_CSD_PARTITION_ACCESS
  CardInfo :: CARD_INFO
  BlockBuffer :: "u8 list"
  CmdResponse :: "u32 list"
  PreLastSuccessfulCmd :: "SD_COMMAND option"
  LastSuccessfulCmd :: "SD_COMMAND option"
  ErrorRecoveryAttemptCount :: u32

text \<open>What \<open>AllocateZeroPool\<close> leaves in a fresh instance.\<close>

definition zero_SDHC_INSTANCE :: SDHC_INSTANCE where
  "zero_SDHC_INSTANCE =
     \<lparr>InstanceId = 0, MmcHandle = 0, SlotInitialized = False, SlotNode = SlotNodeUnset,
      DevicePathSdhcId = 0, Media = gSdhcMediaTemplate, RpmbCid = replicate 16 0,
      ReliableSectorCount = 0, RpmbSizeMult = 0,
      HostCapabilities = \<lparr>MaximumBlockSize = 0, MaximumBlockCount = 0\<rparr>,
      DevicePathProtocolInstalled = False, BlockIoProtocolInstalled = False,
      RpmbIoProtocolInstalled = False, CurrentMmcPartition = MmcExtCsdPartitionAccessUserArea,
      CardInfo = zero_CARD_INFO, BlockBuffer = replicate 512 0, CmdResponse = replicate 4 0,
      PreLastSuccessfulCmd = None, LastSuccessfulCmd = None, ErrorRecoveryAttemptCount = 0\<rparr>"

section \<open>The interfaces\<close>

text \<open>
  A transfer buffer is the instance's own block buffer, the driver's global \<open>ResultRequest\<close> packet,
  or an offset into one of the caller's buffers, which are numbered.
\<close>

datatype buf_ref = BlockBufferRef | ResultRequestRef | MemRef nat nat

record SD_COMMAND_XFR_INFO =
  XfrBlockSize :: u32
  XfrBlockCount :: u32
  XfrBuffer :: buf_ref

datatype protocol =
    gEfiBlockIoProtocolGuid | gEfiDevicePathProtocolGuid | gEfiRpmbIoProtocolGuid
  | gEfiSdhcProtocolGuid

text \<open>
  What is passed as an agent or controller handle: a controller, the driver's binding handle, or the
  address of an instance's \<open>HostExt\<close> field.
\<close>

datatype handle = Controller nat | DriverBindingHandle | HostExtAddress nat

record 'h EFI_SDHC_PROTOCOL =
  SdhcId :: u32
  GetCapabilities :: "'h \<Rightarrow> SDHC_CAPABILITIES \<times> 'h"
  SoftwareReset :: "SDHC_RESET_TYPE \<Rightarrow> 'h \<Rightarrow> EFI_STATUS \<times> 'h"
  SetClock :: "u32 \<Rightarrow> 'h \<Rightarrow> EFI_STATUS \<times> 'h"
  SetBusWidth :: "SD_BUS_WIDTH \<Rightarrow> 'h \<Rightarrow> EFI_STATUS \<times> 'h"
  IsCardPresent :: "'h \<Rightarrow> bool \<times> 'h"
  IsReadOnly :: "'h \<Rightarrow> bool \<times> 'h"
  SendCommand :: "SD_COMMAND \<Rightarrow> u32 \<Rightarrow> SD_COMMAND_XFR_INFO option \<Rightarrow> 'h \<Rightarrow> EFI_STATUS \<times> 'h"
  ReceiveResponse :: "SD_COMMAND \<Rightarrow> u32 list \<Rightarrow> 'h \<Rightarrow> (EFI_STATUS \<times> u32 list) \<times> 'h"
  ReadBlockData :: "u32 \<Rightarrow> 'h \<Rightarrow> (EFI_STATUS \<times> u8 list) \<times> 'h"
  WriteBlockData :: "u32 \<Rightarrow> u8 list \<Rightarrow> 'h \<Rightarrow> EFI_STATUS \<times> 'h"
  Cleanup :: "'h \<Rightarrow> unit \<times> 'h"

record 'h EFI_BOOT_SERVICES =
  InstallProtocol :: "nat \<Rightarrow> protocol \<Rightarrow> 'h \<Rightarrow> EFI_STATUS \<times> 'h"
  UninstallProtocol :: "nat \<Rightarrow> protocol \<Rightarrow> 'h \<Rightarrow> EFI_STATUS \<times> 'h"
  LocateProtocol :: "protocol \<Rightarrow> 'h \<Rightarrow> EFI_STATUS \<times> 'h"
  OpenProtocol :: "nat \<Rightarrow> protocol \<Rightarrow> handle \<Rightarrow> handle \<Rightarrow> 'h \<Rightarrow> EFI_STATUS \<times> 'h"
  CloseProtocol :: "nat \<Rightarrow> protocol \<Rightarrow> handle \<Rightarrow> handle \<Rightarrow> 'h \<Rightarrow> EFI_STATUS \<times> 'h"
  Stall :: "nat \<Rightarrow> 'h \<Rightarrow> unit \<times> 'h"
  ConvertDevicePathToText :: "SLOT_NODE \<Rightarrow> 'h \<Rightarrow> bool \<times> 'h"
  AllocatePool :: "'h \<Rightarrow> bool \<times> 'h"

record 'h SdEnv =
  HostExt :: "'h EFI_SDHC_PROTOCOL"
  gBS :: "'h EFI_BOOT_SERVICES"

record 'h SdState =
  Inst :: SDHC_INSTANCE
  ResultRequest :: "u8 list"
  Bufs :: "nat \<Rightarrow> u8 list"
  Hw :: 'h

type_synonym ('h, 'a) sd = "('h SdState, 'a) prog"

text \<open>\<open>ResultRequest\<close> as initialised: all zero but the request type, the last two bytes.\<close>

definition initial_ResultRequest :: "u8 list" where
  "initial_ResultRequest = replicate 510 0 @ [0x00, 0x05]"

section \<open>Access programs\<close>

definition hostM :: "('h \<Rightarrow> 'a \<times> 'h) \<Rightarrow> ('h, 'a) sd" where
  [prog_defs]: "hostM f = (\<lambda>s. case f (Hw s) of (x, h) \<Rightarrow> Ret (x, s\<lparr>Hw := h\<rparr>))"

definition modifyInst :: "(SDHC_INSTANCE \<Rightarrow> SDHC_INSTANCE) \<Rightarrow> ('h, unit) sd" where
  [prog_defs]: "modifyInst f = modify (\<lambda>s. s\<lparr>Inst := f (Inst s)\<rparr>)"

definition modifyMedia :: "(EFI_BLOCK_IO_MEDIA \<Rightarrow> EFI_BLOCK_IO_MEDIA) \<Rightarrow> ('h, unit) sd" where
  [prog_defs]: "modifyMedia f = modifyInst (\<lambda>I. I\<lparr>Media := f (Media I)\<rparr>)"

definition modifyCard :: "(CARD_INFO \<Rightarrow> CARD_INFO) \<Rightarrow> ('h, unit) sd" where
  [prog_defs]: "modifyCard f = modifyInst (\<lambda>I. I\<lparr>CardInfo := f (CardInfo I)\<rparr>)"

definition modifyRegs :: "(CARD_REGISTERS \<Rightarrow> CARD_REGISTERS) \<Rightarrow> ('h, unit) sd" where
  [prog_defs]: "modifyRegs f = modifyCard (\<lambda>c. c\<lparr>Registers := f (Registers c)\<rparr>)"

definition getInst :: "(SDHC_INSTANCE \<Rightarrow> 'a) \<Rightarrow> ('h, 'a) sd" where
  [prog_defs]: "getInst f = gets (\<lambda>s. f (Inst s))"

definition getCard :: "(CARD_INFO \<Rightarrow> 'a) \<Rightarrow> ('h, 'a) sd" where
  [prog_defs]: "getCard f = gets (\<lambda>s. f (CardInfo (Inst s)))"

definition RcaArg :: "('h, u32) sd" where
  [prog_defs]: "RcaArg = getCard (\<lambda>c. push_bit 16 (RCA c))"

definition read_buf :: "buf_ref \<Rightarrow> nat \<Rightarrow> 'h SdState \<Rightarrow> u8 list" where
  "read_buf r n s =
     (case r of
        BlockBufferRef \<Rightarrow> take n (BlockBuffer (Inst s))
    | ResultRequestRef \<Rightarrow> take n (ResultRequest s)
      | MemRef b off \<Rightarrow> take n (drop off (Bufs s b)))"

definition write_buf :: "buf_ref \<Rightarrow> u8 list \<Rightarrow> 'h SdState \<Rightarrow> 'h SdState" where
  "write_buf r bs s =
     (case r of
        BlockBufferRef \<Rightarrow> s\<lparr>Inst := (Inst s)\<lparr>BlockBuffer := splice 0 bs (BlockBuffer (Inst s))\<rparr>\<rparr>
      | ResultRequestRef \<Rightarrow> s\<lparr>ResultRequest := splice 0 bs (ResultRequest s)\<rparr>
    | MemRef b off \<Rightarrow> s\<lparr>Bufs := (Bufs s)(b := splice off bs (Bufs s b))\<rparr>)"

text \<open>\<open>HostExt->ReadBlockData\<close> fills the front of the buffer with the bytes it delivers.\<close>

definition readDataM :: "'h SdEnv \<Rightarrow> u32 \<Rightarrow> buf_ref \<Rightarrow> ('h, EFI_STATUS) sd" where
  [prog_defs]: "readDataM E n r =
     bindM (hostM (ReadBlockData (HostExt E) n)) (\<lambda>(Status, bs).
     bindM (modify (write_buf r bs)) (\<lambda>_. ret Status))"

definition writeDataM :: "'h SdEnv \<Rightarrow> u32 \<Rightarrow> buf_ref \<Rightarrow> ('h, EFI_STATUS) sd" where
  [prog_defs]: "writeDataM E n r =
     bindM (gets (read_buf r (unat n))) (\<lambda>bs. hostM (WriteBlockData (HostExt E) n bs))"

definition receiveM :: "'h SdEnv \<Rightarrow> SD_COMMAND \<Rightarrow> ('h, EFI_STATUS) sd" where
  [prog_defs]: "receiveM E Cmd =
     bindM (getInst CmdResponse) (\<lambda>r.
     bindM (hostM (ReceiveResponse (HostExt E) Cmd r)) (\<lambda>(Status, r').
     bindM (modifyInst (\<lambda>I. I\<lparr>CmdResponse := r'\<rparr>)) (\<lambda>_. ret Status)))"

text \<open>The response word every status reader uses.\<close>

definition response0 :: "('h, u32) sd" where
  [prog_defs]: "response0 = getInst (\<lambda>I. CmdResponse I ! 0)"

section \<open>What these programs leave alone\<close>

text \<open>
  Two parts of the instance are managed in a few places only: the number of error recoveries in
  progress and the three flags that record which protocols are installed. \<open>at c J\<close> fixes the first
  and constrains the second; every program of this section, and every operation built from them
  alone, is safe for it.
\<close>

definition attempts :: "'h SdState \<Rightarrow> u32" where
  "attempts s = ErrorRecoveryAttemptCount (Inst s)"

type_synonym flags = "bool \<times> bool \<times> bool"

definition flags_of :: "SDHC_INSTANCE \<Rightarrow> flags" where
  "flags_of I = (BlockIoProtocolInstalled I, DevicePathProtocolInstalled I, RpmbIoProtocolInstalled I)"

definition at :: "u32 \<Rightarrow> (flags \<Rightarrow> bool) \<Rightarrow> 'h SdState \<Rightarrow> bool" where
  "at c J s \<longleftrightarrow> attempts s = c \<and> J (flags_of (Inst s))"

lemma attempts_simps [simp]:
  "attempts (s\<lparr>Hw := h\<rparr>) = attempts s"
  "attempts (s\<lparr>Bufs := b\<rparr>) = attempts s"
  "attempts (s\<lparr>ResultRequest := rr\<rparr>) = attempts s"
  "attempts (s\<lparr>Inst := I\<rparr>) = ErrorRecoveryAttemptCount I"
  "attempts (write_buf r bs s) = attempts s"
  by (simp_all add: attempts_def write_buf_def split: buf_ref.splits)

lemma flags_write_buf [simp]: "flags_of (Inst (write_buf r bs s)) = flags_of (Inst s)"
  by (simp add: flags_of_def write_buf_def split: buf_ref.splits)

text \<open>An update of the instance that touches neither.\<close>

definition keeps_core :: "(SDHC_INSTANCE \<Rightarrow> SDHC_INSTANCE) \<Rightarrow> bool" where
  "keeps_core f \<longleftrightarrow>
     (\<forall>I. ErrorRecoveryAttemptCount (f I) = ErrorRecoveryAttemptCount I \<and> flags_of (f I) = flags_of I)"

lemma keeps_core_updates [simp]:
  "keeps_core (\<lambda>I. I\<lparr>Media := m I\<rparr>)"
  "keeps_core (\<lambda>I. I\<lparr>CardInfo := ci I\<rparr>)"
  "keeps_core (\<lambda>I. I\<lparr>CmdResponse := r\<rparr>)"
  "keeps_core (\<lambda>I. I\<lparr>RpmbCid := cid\<rparr>)"
  "keeps_core (\<lambda>I. I\<lparr>SlotNode := n\<rparr>)"
  "keeps_core (\<lambda>I. I\<lparr>SlotInitialized := b\<rparr>)"
  "keeps_core (\<lambda>I. I\<lparr>CurrentMmcPartition := p I\<rparr>)"
  "keeps_core (\<lambda>I. I\<lparr>PreLastSuccessfulCmd := pl I, LastSuccessfulCmd := l\<rparr>)"
  "keeps_core (\<lambda>I. I\<lparr>ReliableSectorCount := rc, RpmbSizeMult := rm\<rparr>)"
  by (simp_all add: keeps_core_def flags_of_def)

lemma safe_hostM [safe_intros]: "safe (at c J) (hostM f)"
  by (auto simp: safe_def hostM_def at_def split: prod.splits)

lemma safe_modifyInst [safe_intros]: "keeps_core f \<Longrightarrow> safe (at c J) (modifyInst f)"
  unfolding modifyInst_def by (intro safe_intros) (simp add: attempts_def at_def keeps_core_def)

lemma safe_modifyMedia [safe_intros]: "safe (at c J) (modifyMedia f)"
  unfolding modifyMedia_def by (intro safe_intros) simp

lemma safe_modifyCard [safe_intros]: "safe (at c J) (modifyCard f)"
  unfolding modifyCard_def by (intro safe_intros) simp

lemma safe_modifyRegs [safe_intros]: "safe (at c J) (modifyRegs f)"
  unfolding modifyRegs_def by (intro safe_intros)

lemma safe_getInst [safe_intros]: "safe P (getInst f)"
  unfolding getInst_def by (intro safe_intros)

lemma safe_getCard [safe_intros]: "safe P (getCard f)"
  unfolding getCard_def by (intro safe_intros)

lemma safe_RcaArg [safe_intros]: "safe P RcaArg"
  unfolding RcaArg_def by (intro safe_intros)

lemma safe_response0 [safe_intros]: "safe P response0"
  unfolding response0_def by (intro safe_intros)

lemma safe_readDataM [safe_intros]: "safe (at c J) (readDataM E n r)"
  unfolding readDataM_def by (intro safe_intros) (simp add: at_def)

lemma safe_writeDataM [safe_intros]: "safe (at c J) (writeDataM E n r)"
  unfolding writeDataM_def by (intro safe_intros)

lemma safe_receiveM [safe_intros]: "safe (at c J) (receiveM E Cmd)"
  unfolding receiveM_def by (intro safe_intros) simp

end
