(* ===== verification/SdProtocol.thy ===== *)
theory SdProtocol
  imports SdHost
begin

text \<open>
  The SD and MMC protocol operations of \<open>Microsoft/Drivers/SdMmcDxe/Protocol.c\<close>. In the code,
  \<open>SdhcSendCommand\<close> and \<open>SdhcSendDataCommand\<close> recover from errors by resetting and re-initialising
  the card, which sends commands again: the whole file is one recursion through these two
  functions. Here every operation takes the two entry points as a record \<open>SdCalls\<close>; the theory
  \<open>SdReset\<close> ties the knot.
\<close>

record 'h SdCalls =
  SdhcSendCommand :: "SD_COMMAND \<Rightarrow> u32 \<Rightarrow> ('h, EFI_STATUS) sd"
  SdhcSendDataCommand :: "SD_COMMAND \<Rightarrow> u32 \<Rightarrow> u32 \<Rightarrow> buf_ref \<Rightarrow> ('h, EFI_STATUS) sd"

definition SDMMC_POLL_WAIT_COUNT :: nat where "SDMMC_POLL_WAIT_COUNT = 200"
definition SDMMC_POLL_WAIT_TIME_US :: nat where "SDMMC_POLL_WAIT_TIME_US = 10000"

section \<open>Sending one command\<close>

definition check_card_status :: "SD_COMMAND \<Rightarrow> ('h, EFI_STATUS) sd" where
  "check_card_status Cmd =
     (if ResponseType Cmd = SdResponseTypeR1 \<or> ResponseType Cmd = SdResponseTypeR1B then
        bindM response0 (\<lambda>CardStatus.
        bindM (getCard CardFunction) (\<lambda>cf.
        case IsCardStatusError cf CardStatus of
          None \<Rightarrow> stopM AssertFailed
        | Some b \<Rightarrow> ret (if b \<noteq> 0 then EFI_DEVICE_ERROR else EFI_SUCCESS)))
      else ret EFI_SUCCESS)"

definition SdhcSendCommandHelper ::
    "'h SdEnv \<Rightarrow> SD_COMMAND \<Rightarrow> u32 \<Rightarrow> SD_COMMAND_XFR_INFO option \<Rightarrow> ('h, EFI_STATUS) sd" where
  "SdhcSendCommandHelper E Cmd Arg XfrInfo =
     tryE (if CmdClass Cmd = SdCommandClassApp then
             bindM RcaArg (\<lambda>CmdAppArg. hostM (SendCommand (HostExt E) CmdAppSd CmdAppArg None))
           else ret EFI_SUCCESS) (
     tryE (hostM (SendCommand (HostExt E) Cmd Arg XfrInfo)) (
     tryE (receiveM E Cmd) (
     tryE (check_card_status Cmd) (
     bindM (modifyInst (\<lambda>I. I\<lparr>PreLastSuccessfulCmd := LastSuccessfulCmd I,
                              LastSuccessfulCmd := Some Cmd\<rparr>)) (\<lambda>_.
     ret EFI_SUCCESS)))))"

section \<open>Card status and polling\<close>

text \<open>The out parameter keeps its old value \<open>old\<close> when the command fails.\<close>

definition SdhcSendStatus :: "'h SdCalls \<Rightarrow> u32 \<Rightarrow> ('h, EFI_STATUS \<times> u32) sd" where
  "SdhcSendStatus R old =
     bindM RcaArg (\<lambda>CmdArg.
     bindM (SdhcSendCommand R CmdSendStatus CmdArg) (\<lambda>Status.
     if EFI_ERROR Status then ret (Status, old)
     else bindM response0 (\<lambda>CardStatus. ret (EFI_SUCCESS, CardStatus))))"

fun wait_tran_loop :: "'h SdEnv \<Rightarrow> 'h SdCalls \<Rightarrow> nat \<Rightarrow> u32 \<Rightarrow> ('h, EFI_STATUS) sd" where
  "wait_tran_loop E R 0 CardStatus = ret EFI_TIMEOUT"
| "wait_tran_loop E R (Suc Retry) CardStatus =
     (if \<not> READY_FOR_DATA CardStatus \<or> CURRENT_STATE CardStatus \<noteq> CARD_STATE_code CardStateTran then
        bindM (hostM (Stall (gBS E) SDMMC_POLL_WAIT_TIME_US)) (\<lambda>_.
        bindM (SdhcSendStatus R CardStatus) (\<lambda>(Status, CardStatus).
        if EFI_ERROR Status then ret Status else wait_tran_loop E R Retry CardStatus))
      else ret EFI_SUCCESS)"

definition SdhcWaitForTranStateAndReadyForData ::
    "'h SdEnv \<Rightarrow> 'h SdCalls \<Rightarrow> ('h, EFI_STATUS) sd" where
  "SdhcWaitForTranStateAndReadyForData E R =
     bindM (SdhcSendStatus R 0) (\<lambda>(Status, CardStatus).
     if EFI_ERROR Status then ret Status
     else wait_tran_loop E R SDMMC_POLL_WAIT_COUNT CardStatus)"

section \<open>Single commands\<close>

definition SdhcGoIdleState :: "'h SdCalls \<Rightarrow> ('h, EFI_STATUS) sd" where
  "SdhcGoIdleState R = SdhcSendCommand R CmdGoIdleState 0"

definition SdhcSelectDevice :: "'h SdCalls \<Rightarrow> ('h, EFI_STATUS) sd" where
  "SdhcSelectDevice R = bindM RcaArg (\<lambda>CmdArg. SdhcSendCommand R CmdSelect CmdArg)"

definition SdhcDeselectDevice :: "'h SdCalls \<Rightarrow> ('h, EFI_STATUS) sd" where
  "SdhcDeselectDevice R = SdhcSendCommand R CmdDeselect 0"

definition SdhcSendAppCmd :: "'h SdCalls \<Rightarrow> ('h, EFI_STATUS) sd" where
  "SdhcSendAppCmd R = bindM RcaArg (\<lambda>CmdArg. SdhcSendCommand R CmdAppSd CmdArg)"

definition SdhcStopTransmission :: "'h SdCalls \<Rightarrow> ('h, EFI_STATUS) sd" where
  "SdhcStopTransmission R = bindM RcaArg (\<lambda>CmdArg. SdhcSendCommand R CmdStopTransmission CmdArg)"

definition SdhcSendCidAll :: "'h SdCalls \<Rightarrow> ('h, EFI_STATUS) sd" where
  "SdhcSendCidAll R = SdhcSendCommand R CmdSendCidAll 0"

definition SdhcSendRelativeAddr :: "'h SdCalls \<Rightarrow> ('h, EFI_STATUS) sd" where
  "SdhcSendRelativeAddr R =
     bindM (getCard CardFunction) (\<lambda>cf.
     bindM (if cf = CardFunctionMmc
            then bindM (modifyCard (\<lambda>c. c\<lparr>RCA := 0xCCCC\<rparr>)) (\<lambda>_. RcaArg)
            else ret 0) (\<lambda>CmdArg.
     tryE (SdhcSendCommand R CmdSendRelativeAddr CmdArg) (
     bindM (getCard CardFunction) (\<lambda>cf.
     bindM (if cf \<noteq> CardFunctionMmc
            then bindM response0 (\<lambda>r. modifyCard (\<lambda>c. c\<lparr>RCA := drop_bit 16 r\<rparr>))
            else ret ()) (\<lambda>_.
     ret EFI_SUCCESS)))))"

definition SdhcSetBlockLength :: "'h SdCalls \<Rightarrow> u32 \<Rightarrow> ('h, EFI_STATUS) sd" where
  "SdhcSetBlockLength R BlockByteLength = SdhcSendCommand R CmdSetBlockLength BlockByteLength"

definition SdhcSetBlockCount :: "'h SdCalls \<Rightarrow> u32 \<Rightarrow> bool \<Rightarrow> ('h, EFI_STATUS) sd" where
  "SdhcSetBlockCount R BlockCount ReliableWrite =
     SdhcSendCommand R CmdSetBlockCount
       (if ReliableWrite then BlockCount OR push_bit 31 1 else BlockCount)"

section \<open>Identification registers\<close>

definition SdhcSendCid :: "'h SdCalls \<Rightarrow> ('h, EFI_STATUS) sd" where
  "SdhcSendCid R =
     bindM RcaArg (\<lambda>CmdArg.
     tryE (SdhcSendCommand R CmdSendCid CmdArg) (
     bindM (getCard CardFunction) (\<lambda>cf.
     bindM (getInst CmdResponse) (\<lambda>r.
     bindM (if cf = CardFunctionSd then modifyRegs (\<lambda>g. g\<lparr>RegCid := response_register r\<rparr>)
            else if cf = CardFunctionMmc then
              bindM (modifyRegs (\<lambda>g. g\<lparr>RegCid := response_register r\<rparr>)) (\<lambda>_.
              modifyInst (\<lambda>I. I\<lparr>RpmbCid := concat (map (le_bytes 4) (take 4 r))\<rparr>))
            else ret ()) (\<lambda>_.
     ret EFI_SUCCESS)))))"

definition csd_capacity :: "CARD_INFO \<Rightarrow> u64" where
  "csd_capacity c =
     (let r = RegCsd (Registers c) in
      if CardFunction c = CardFunctionSd then
        (if csd_u32 SD_CSD_layout ''CSD_STRUCTURE'' r = 0 then
           csd1_ByteCapacity (csd_u32 SD_CSD_layout ''C_SIZEHigh10'' r)
             (csd_u32 SD_CSD_layout ''C_SIZELow2'' r) (csd_u32 SD_CSD_layout ''C_SIZE_MULT'' r)
             (csd_u32 SD_CSD_layout ''READ_BL_LEN'' r)
         else csd2_ByteCapacity (csd_u32 SD_CSD_2_layout ''C_SIZE'' r))
      else if CardFunction c = CardFunctionMmc \<and> \<not> HighCapacity c then
        csd1_ByteCapacity (csd_u32 MMC_CSD_layout ''C_SIZEHigh10'' r)
          (csd_u32 MMC_CSD_layout ''C_SIZELow2'' r) (csd_u32 MMC_CSD_layout ''C_SIZE_MULT'' r)
          (csd_u32 MMC_CSD_layout ''READ_BL_LEN'' r)
      else 0)"

definition last_block :: "u64 \<Rightarrow> u64" where
  "last_block capacity =
     (let NumBlocks = capacity div 512 in if NumBlocks > 0 then NumBlocks - 1 else 0)"

definition SdhcSendCsd :: "'h SdCalls \<Rightarrow> ('h, EFI_STATUS) sd" where
  "SdhcSendCsd R =
     bindM RcaArg (\<lambda>CmdArg.
     tryE (SdhcSendCommand R CmdSendCsd CmdArg) (
     bindM (getCard CardFunction) (\<lambda>cf.
     bindM (getInst CmdResponse) (\<lambda>r.
     bindM (if cf = CardFunctionSd \<or> cf = CardFunctionMmc
            then modifyRegs (\<lambda>g. g\<lparr>RegCsd := response_register r\<rparr>) else ret ()) (\<lambda>_.
     bindM (getCard csd_capacity) (\<lambda>cap.
     bindM (modifyCard (\<lambda>c. c\<lparr>ByteCapacity := cap\<rparr>)) (\<lambda>_.
     bindM (modifyMedia (\<lambda>m. m\<lparr>BlockSize := SD_BLOCK_LENGTH_BYTES,
                               LastBlock := last_block cap\<rparr>)) (\<lambda>_.
     ret EFI_SUCCESS))))))))"

definition SdhcSetMaxClockFrequency :: "'h SdEnv \<Rightarrow> ('h, EFI_STATUS) sd" where
  "SdhcSetMaxClockFrequency E =
     bindM (getInst CardInfo) (\<lambda>c.
     bindM (ASSERT (CurrentSpeedMode c = CardSpeedModeNormalSpeed \<or>
                    CurrentSpeedMode c = CardSpeedModeHighSpeed)) (\<lambda>_.
     bindM (if CardFunction c = CardFunctionSd \<or> CurrentSpeedMode c = CardSpeedModeNormalSpeed then
              (case CalculateCardMaxFreq c of None \<Rightarrow> stopM AssertFailed | Some f \<Rightarrow> ret f)
            else if CurrentSpeedMode c = CardSpeedModeHighSpeed
            then ret MMC_HIGH_SPEED_MODE_CLOCK_FREQ_HZ
            else ret 0) (\<lambda>MaxClkFreqHz.
     tryE (hostM (SetClock (HostExt E) MaxClkFreqHz)) (
     ret EFI_SUCCESS))))"

section \<open>SD operations\<close>

definition SdhcSendScrSd :: "'h SdCalls \<Rightarrow> ('h, EFI_STATUS) sd" where
  "SdhcSendScrSd R =
     bindM RcaArg (\<lambda>CmdArg.
     tryE (SdhcSendDataCommand R CmdAppSendScrSd CmdArg 512 BlockBufferRef) (
     bindM (getInst BlockBuffer) (\<lambda>b.
     bindM (modifyRegs (\<lambda>g. g\<lparr>RegTail := splice 0 (take 8 b) (RegTail g)\<rparr>)) (\<lambda>_.
     ret EFI_SUCCESS))))"

definition SendIfCondArg :: u32 where
  "SendIfCondArg =
     set_field SEND_IF_COND_ARG_layout ''VoltageSupplied'' SD_CMD8_VOLTAGE_27_36
       (set_field SEND_IF_COND_ARG_layout ''CheckPattern'' 0xAA 0)"

definition SdhcSendIfCondSd :: "'h SdCalls \<Rightarrow> ('h, EFI_STATUS) sd" where
  "SdhcSendIfCondSd R =
     tryE (SdhcSendCommand R CmdSendIfCondSd SendIfCondArg) (
     bindM response0 (\<lambda>CmdStatus.
     if get_field SEND_IF_COND_ARG_layout ''CheckPattern'' CmdStatus \<noteq>
          get_field SEND_IF_COND_ARG_layout ''CheckPattern'' SendIfCondArg \<or>
        get_field SEND_IF_COND_ARG_layout ''VoltageSupplied'' CmdStatus \<noteq>
          get_field SEND_IF_COND_ARG_layout ''VoltageSupplied'' SendIfCondArg
     then ret EFI_UNSUPPORTED
     else bindM (modifyCard (\<lambda>c. c\<lparr>HasExtendedOcr := True\<rparr>)) (\<lambda>_. ret EFI_SUCCESS)))"

definition SdSendOpCondArg :: "u32 \<Rightarrow> u32" where
  "SdSendOpCondArg ocr =
     set_field SD_SEND_OP_COND_ARG_layout ''HCS'' 1
       (set_field SD_SEND_OP_COND_ARG_layout ''VoltageWindow''
         (get_field SD_OCR_layout ''VoltageWindow'' ocr) 0)"

fun sd_op_cond_loop :: "'h SdEnv \<Rightarrow> 'h SdCalls \<Rightarrow> u32 \<Rightarrow> nat \<Rightarrow> ('h, EFI_STATUS) sd" where
  "sd_op_cond_loop E R CmdArg 0 = ret EFI_TIMEOUT"
| "sd_op_cond_loop E R CmdArg (Suc Retry) =
     tryE (SdhcSendCommand R CmdAppSendOpCondSd CmdArg) (
     bindM response0 (\<lambda>Ocr.
     if get_field SD_OCR_layout ''PowerUp'' Ocr \<noteq> 0 then
       bindM (modifyCard (\<lambda>c. if HasExtendedOcr c
                then c\<lparr>HighCapacity := (get_field SD_OCR_EX_layout ''CCS'' Ocr \<noteq> 0)\<rparr> else c)) (\<lambda>_.
       ret EFI_SUCCESS)
     else bindM (hostM (Stall (gBS E) SDMMC_POLL_WAIT_TIME_US)) (\<lambda>_.
       sd_op_cond_loop E R CmdArg Retry)))"

definition SdhcSendOpCondSd :: "'h SdEnv \<Rightarrow> 'h SdCalls \<Rightarrow> ('h, EFI_STATUS) sd" where
  "SdhcSendOpCondSd E R =
     tryE (SdhcSendCommand R CmdAppSendOpCondSd 0) (
     bindM response0 (\<lambda>r.
     bindM (modifyRegs (\<lambda>g. g\<lparr>RegOcr := r\<rparr>)) (\<lambda>_.
     bindM (getCard (\<lambda>c. SdSendOpCondArg (RegOcr (Registers c)))) (\<lambda>CmdArg.
     sd_op_cond_loop E R CmdArg SDMMC_POLL_WAIT_COUNT))))"

definition SdhcSwitchBusWidthSd :: "'h SdEnv \<Rightarrow> 'h SdCalls \<Rightarrow> ('h, EFI_STATUS) sd" where
  "SdhcSwitchBusWidthSd E R =
     tryE (SdhcSendCommand R CmdAppSetBusWidthSd 0x2) (
     tryE (hostM (SetBusWidth (HostExt E) SdBusWidth4Bit)) (
     ret EFI_SUCCESS))"

definition SdhcSwitchSpeedModeSd :: "('h, EFI_STATUS) sd" where
  "SdhcSwitchSpeedModeSd = ret EFI_SUCCESS"

definition SdhcSendOpCondSdio :: "'h SdCalls \<Rightarrow> ('h, EFI_STATUS) sd" where
  "SdhcSendOpCondSdio R = SdhcSendCommand R CmdSendOpCondSdio 0"

section \<open>MMC operations\<close>

definition MmcSendOpCondArg :: u32 where
  "MmcSendOpCondArg =
     set_field SD_OCR_layout ''AccessMode'' SdOcrAccessSectorMode
       (set_field SD_OCR_layout ''VoltageWindow'' SD_OCR_HIGH_VOLTAGE_WINDOW 0)"

fun mmc_op_cond_loop :: "'h SdEnv \<Rightarrow> 'h SdCalls \<Rightarrow> nat \<Rightarrow> ('h, EFI_STATUS) sd" where
  "mmc_op_cond_loop E R 0 = ret EFI_TIMEOUT"
| "mmc_op_cond_loop E R (Suc Retry) =
     tryE (SdhcSendCommand R CmdSendOpCondMmc MmcSendOpCondArg) (
     bindM response0 (\<lambda>Ocr.
     bindM (modifyRegs (\<lambda>g. g\<lparr>RegOcr := Ocr\<rparr>)) (\<lambda>_.
     if get_field SD_OCR_layout ''PowerUp'' Ocr \<noteq> 0 then
       bindM (modifyCard (\<lambda>c. c\<lparr>HighCapacity :=
                (get_field SD_OCR_layout ''AccessMode'' Ocr = SdOcrAccessSectorMode)\<rparr>)) (\<lambda>_.
       if get_field SD_OCR_layout ''VoltageWindow'' Ocr AND SD_OCR_HIGH_VOLTAGE_WINDOW
            \<noteq> SD_OCR_HIGH_VOLTAGE_WINDOW
       then ret EFI_UNSUPPORTED else ret EFI_SUCCESS)
     else bindM (hostM (Stall (gBS E) SDMMC_POLL_WAIT_TIME_US)) (\<lambda>_.
       mmc_op_cond_loop E R Retry))))"

definition SdhcSendOpCondMmc :: "'h SdEnv \<Rightarrow> 'h SdCalls \<Rightarrow> ('h, EFI_STATUS) sd" where
  "SdhcSendOpCondMmc E R = mmc_op_cond_loop E R SDMMC_POLL_WAIT_COUNT"

definition SdhcSendExtCsdMmc :: "'h SdCalls \<Rightarrow> ('h, EFI_STATUS) sd" where
  "SdhcSendExtCsdMmc R =
     bindM RcaArg (\<lambda>CmdArg.
     tryE (SdhcSendDataCommand R CmdSendExtCsdMmc CmdArg 512 BlockBufferRef) (
     bindM (getInst BlockBuffer) (\<lambda>b.
     bindM (modifyRegs (\<lambda>g. g\<lparr>RegTail := b\<rparr>)) (\<lambda>_.
     bindM (modifyCard (\<lambda>c. c\<lparr>ByteCapacity := ucast (ext_csd_SectorCount b) * 512\<rparr>)) (\<lambda>_.
     bindM (modifyMedia (\<lambda>m. m\<lparr>LastBlock := ucast (ext_csd_SectorCount b - 1)\<rparr>)) (\<lambda>_.
     bindM (modifyInst (\<lambda>I. I\<lparr>ReliableSectorCount := ext_csd_byte ''ReliableWriteSectorCount'' b,
                              RpmbSizeMult := ext_csd_byte ''RpmbSizeMult'' b\<rparr>)) (\<lambda>_.
     ret EFI_SUCCESS)))))))"

definition SwitchArg :: "u32 \<Rightarrow> u32 \<Rightarrow> u32" where
  "SwitchArg Index Value =
     set_field MMC_SWITCH_CMD_ARG_layout ''Value'' Value
       (set_field MMC_SWITCH_CMD_ARG_layout ''Index'' Index
         (set_field MMC_SWITCH_CMD_ARG_layout ''Access'' MmcSwitchCmdAccessTypeWriteByte 0))"

definition target_power_class :: "SD_BUS_WIDTH \<Rightarrow> CARD_INFO \<Rightarrow> u8 option" where
  "target_power_class BusWidth c =
     (let x = RegTail (Registers c);
          pc = (if CurrentSpeedMode c = CardSpeedModeHighSpeed
                then ext_csd_byte ''PowerClass52Mhz36V'' x else ext_csd_byte ''PowerClass26Mhz36V'' x)
      in if BusWidth = SdBusWidth8Bit then Some (MMC_EXT_CSD_POWER_CLASS_8BIT pc)
         else if BusWidth = SdBusWidth4Bit then Some (MMC_EXT_CSD_POWER_CLASS_4BIT pc)
         else None)"

definition current_power_class :: "CARD_INFO \<Rightarrow> u8" where
  "current_power_class c = ext_csd_byte ''PowerClass'' (RegTail (Registers c))"

definition switch_power_class :: "'h SdCalls \<Rightarrow> u8 \<Rightarrow> ('h, EFI_STATUS) sd" where
  "switch_power_class R ExtCsdPowerClass =
     bindM (getCard current_power_class) (\<lambda>cur.
     if ExtCsdPowerClass > cur then
       tryE (SdhcSendCommand R CmdSwitchMmc (push_bit 8 (ucast ExtCsdPowerClass) OR 0x03BB0000)) (
       tryE (SdhcSendExtCsdMmc R) (
       bindM (getCard current_power_class) (\<lambda>cur.
       if cur \<noteq> ExtCsdPowerClass then ret EFI_PROTOCOL_ERROR else ret EFI_SUCCESS)))
     else ret EFI_SUCCESS)"

definition SdhcSwitchBusWidthMmc :: "'h SdEnv \<Rightarrow> 'h SdCalls \<Rightarrow> ('h, EFI_STATUS) sd" where
  "SdhcSwitchBusWidthMmc E R =
     (let BusWidth = SdBusWidth8Bit in
      tryE (SdhcSendExtCsdMmc R) (
      bindM (getCard (target_power_class BusWidth)) (\<lambda>pc.
      case pc of
        None \<Rightarrow> ret EFI_UNSUPPORTED
      | Some ExtCsdPowerClass \<Rightarrow>
          tryE (switch_power_class R ExtCsdPowerClass) (
          tryE (SdhcSendCommand R CmdSwitchMmc
                  (SwitchArg MmcExtCsdBitIndexBusWidth
                    (if BusWidth = SdBusWidth8Bit then MmcExtCsdBusWidth8Bit
                     else MmcExtCsdBusWidth4Bit))) (
          tryE (hostM (SetBusWidth (HostExt E) BusWidth)) (
          ret EFI_SUCCESS))))))"

definition SdhcSwitchSpeedModeMmc :: "'h SdCalls \<Rightarrow> ('h, EFI_STATUS) sd" where
  "SdhcSwitchSpeedModeMmc R =
     tryE (SdhcSendCommand R CmdSwitchMmc (SwitchArg MmcExtCsdBitIndexHsTiming 1)) (
     bindM (modifyCard (\<lambda>c. c\<lparr>CurrentSpeedMode := CardSpeedModeHighSpeed\<rparr>)) (\<lambda>_.
     tryE (SdhcSendExtCsdMmc R) (
     bindM (getCard (\<lambda>c. ext_csd_byte ''HighSpeedTiming'' (RegTail (Registers c)))) (\<lambda>t.
     if t = 0 then ret EFI_PROTOCOL_ERROR else ret EFI_SUCCESS))))"

definition partition_config :: "CARD_INFO \<Rightarrow> u8" where
  "partition_config c = ext_csd_byte ''PartitionConfig'' (RegTail (Registers c))"

definition with_access :: "MMC_EXT_CSD_PARTITION_ACCESS \<Rightarrow> u8 \<Rightarrow> u8" where
  "with_access p cfg =
     set_field MMC_EXT_CSD_PARTITION_CONFIG_layout ''PARTITION_ACCESS'' (partition_code p) cfg"

definition access_of :: "u8 \<Rightarrow> MMC_EXT_CSD_PARTITION_ACCESS" where
  "access_of cfg =
     partition_of (get_field MMC_EXT_CSD_PARTITION_CONFIG_layout ''PARTITION_ACCESS'' cfg)"

definition SdhcSwitchPartitionMmc ::
    "'h SdCalls \<Rightarrow> MMC_EXT_CSD_PARTITION_ACCESS \<Rightarrow> ('h, EFI_STATUS) sd" where
  "SdhcSwitchPartitionMmc R Partition =
     bindM (getCard partition_config) (\<lambda>cfg.
     tryE (SdhcSendCommand R CmdSwitchMmc
             (SwitchArg MmcExtCsdBitIndexPartitionConfig (ucast (with_access Partition cfg)))) (
     tryE (SdhcSendExtCsdMmc R) (
     bindM (getCard partition_config) (\<lambda>cfg.
     if access_of cfg \<noteq> Partition then ret EFI_DEVICE_ERROR
     else bindM (modifyInst (\<lambda>I. I\<lparr>CurrentMmcPartition := Partition\<rparr>)) (\<lambda>_.
       ret EFI_SUCCESS)))))"

section \<open>Card type detection\<close>

definition SdhcQueryCardType :: "'h SdEnv \<Rightarrow> 'h SdCalls \<Rightarrow> ('h, EFI_STATUS) sd" where
  "SdhcQueryCardType E R =
     tryE (SdhcGoIdleState R) (
     bindM (modifyCard (\<lambda>c. c\<lparr>CardFunction := CardFunctionUnknown\<rparr>)) (\<lambda>_.
     bindM (SdhcSendIfCondSd R) (\<lambda>Status.
     bindM (if \<not> EFI_ERROR Status then modifyCard (\<lambda>c. c\<lparr>CardFunction := CardFunctionSd\<rparr>)
            else ret ()) (\<lambda>_.
     bindM (SdhcSendOpCondSdio R) (\<lambda>Status.
     bindM (if \<not> EFI_ERROR Status then
              modifyCard (\<lambda>c. c\<lparr>CardFunction :=
                (if CardFunction c = CardFunctionSd then CardFunctionComboSdSdio
                 else CardFunctionSdio)\<rparr>)
            else ret ()) (\<lambda>_.
     bindM (getCard CardFunction) (\<lambda>cf.
     tryE (if cf \<noteq> CardFunctionSd \<and> cf \<noteq> CardFunctionSdio \<and> cf \<noteq> CardFunctionComboSdSdio then
             tryE (SdhcGoIdleState R) (
             bindM (SdhcSendOpCondMmc E R) (\<lambda>Status.
             bindM (if \<not> EFI_ERROR Status then modifyCard (\<lambda>c. c\<lparr>CardFunction := CardFunctionMmc\<rparr>)
                    else ret ()) (\<lambda>_.
             ret EFI_SUCCESS)))
           else ret EFI_SUCCESS) (
     bindM (getCard CardFunction) (\<lambda>cf.
     if cf = CardFunctionUnknown then ret EFI_NO_MEDIA else ret EFI_SUCCESS)))))))))"

section \<open>Card initialisation sequences\<close>

definition InitializeSdDevice :: "'h SdEnv \<Rightarrow> 'h SdCalls \<Rightarrow> ('h, EFI_STATUS) sd" where
  "InitializeSdDevice E R =
     runE [SdhcSendOpCondSd E R, SdhcSendCidAll R, SdhcSendRelativeAddr R, SdhcSendCid R,
           SdhcSendCsd R, SdhcSelectDevice R, SdhcSwitchBusWidthSd E R, SdhcSwitchSpeedModeSd,
           SdhcSetMaxClockFrequency E]"

definition check_spec_vers :: "('h, EFI_STATUS) sd" where
  "check_spec_vers =
     bindM (getCard (\<lambda>c. csd_u32 MMC_CSD_layout ''SPEC_VERS'' (RegCsd (Registers c)))) (\<lambda>v.
     if unat v < MMC_MIN_SUPPORTED_SPEC_VERS then ret EFI_UNSUPPORTED else ret EFI_SUCCESS)"

definition InitializeMmcDevice :: "'h SdEnv \<Rightarrow> 'h SdCalls \<Rightarrow> ('h, EFI_STATUS) sd" where
  "InitializeMmcDevice E R =
     runE [SdhcSendCidAll R, SdhcSendRelativeAddr R, SdhcSendCid R, SdhcSendCsd R,
           check_spec_vers, SdhcSelectDevice R, SdhcSendExtCsdMmc R, SdhcSwitchSpeedModeMmc R,
           SdhcSwitchBusWidthMmc E R, SdhcSetMaxClockFrequency E]"

end
