(* ===== verification/SdReset.thy ===== *)
theory SdReset
  imports SdProtocol
begin

text \<open>
  Device initialisation, soft reset and error recovery, and the two command entry points that call
  them (\<open>Protocol.c\<close> and \<open>SdMmc.c\<close> of \<open>Microsoft/Drivers/SdMmcDxe\<close>). A failed command recovers by
  resetting the card, which sends commands, which may fail and recover again; the code bounds this
  with \<open>ErrorRecoveryAttemptCount\<close>. \<open>SdTop\<close> unfolds the recursion to a depth; \<open>SdRecovery\<close> proves that
  the counter bounds the depth, and that \<open>recovery_fuel\<close> always suffices.
\<close>

definition SDMMC_ERROR_RECOVERY_ATTEMPT_THRESHOLD :: u32 where
  "SDMMC_ERROR_RECOVERY_ATTEMPT_THRESHOLD = 3"

section \<open>Installing and uninstalling the instance's protocols\<close>

definition installed :: "protocol \<Rightarrow> SDHC_INSTANCE \<Rightarrow> bool" where
  "installed p I =
     (case p of
        gEfiBlockIoProtocolGuid \<Rightarrow> BlockIoProtocolInstalled I
      | gEfiRpmbIoProtocolGuid \<Rightarrow> RpmbIoProtocolInstalled I
      | gEfiDevicePathProtocolGuid \<Rightarrow> DevicePathProtocolInstalled I
      | gEfiSdhcProtocolGuid \<Rightarrow> False)"

definition set_installed :: "protocol \<Rightarrow> bool \<Rightarrow> SDHC_INSTANCE \<Rightarrow> SDHC_INSTANCE" where
  "set_installed p b I =
     (case p of
        gEfiBlockIoProtocolGuid \<Rightarrow> I\<lparr>BlockIoProtocolInstalled := b\<rparr>
      | gEfiRpmbIoProtocolGuid \<Rightarrow> I\<lparr>RpmbIoProtocolInstalled := b\<rparr>
      | gEfiDevicePathProtocolGuid \<Rightarrow> I\<lparr>DevicePathProtocolInstalled := b\<rparr>
      | gEfiSdhcProtocolGuid \<Rightarrow> I)"

definition install :: "'h SdEnv \<Rightarrow> protocol \<Rightarrow> ('h, EFI_STATUS) sd" where
  "install E p =
     bindM (getInst MmcHandle) (\<lambda>h.
     bindM (hostM (InstallProtocol (gBS E) h p)) (\<lambda>Status.
     if EFI_ERROR Status then ret Status
     else bindM (modifyInst (set_installed p True)) (\<lambda>_. ret Status)))"

text \<open>\<open>if (...Installed) { Status = uninstall; if no error, clear the flag }\<close>; \<open>old\<close> is the
  status before.\<close>

definition uninstall :: "'h SdEnv \<Rightarrow> protocol \<Rightarrow> EFI_STATUS \<Rightarrow> ('h, EFI_STATUS) sd" where
  "uninstall E p old =
     bindM (getInst (installed p)) (\<lambda>b.
     if b then
       bindM (getInst MmcHandle) (\<lambda>h.
       bindM (hostM (UninstallProtocol (gBS E) h p)) (\<lambda>Status.
       if EFI_ERROR Status then ret Status
       else bindM (modifyInst (set_installed p False)) (\<lambda>_. ret Status)))
     else ret old)"

definition UninstallAllProtocols :: "'h SdEnv \<Rightarrow> ('h, EFI_STATUS) sd" where
  "UninstallAllProtocols E =
     runE [uninstall E gEfiBlockIoProtocolGuid EFI_SUCCESS,
           uninstall E gEfiRpmbIoProtocolGuid EFI_SUCCESS,
           uninstall E gEfiDevicePathProtocolGuid EFI_SUCCESS]"

definition IsRpmbInstalledOnTheSystem :: "'h SdEnv \<Rightarrow> ('h, bool) sd" where
  "IsRpmbInstalledOnTheSystem E =
     bindM (hostM (LocateProtocol (gBS E) gEfiRpmbIoProtocolGuid)) (\<lambda>Status.
     ret (\<not> EFI_ERROR Status))"

section \<open>Device initialisation\<close>

definition initialize_by_function :: "'h SdEnv \<Rightarrow> 'h SdCalls \<Rightarrow> ('h, EFI_STATUS) sd" where
  "initialize_by_function E R =
     bindM (getCard CardFunction) (\<lambda>cf.
     case cf of
       CardFunctionComboSdSdio \<Rightarrow> ret EFI_UNSUPPORTED
     | CardFunctionSdio \<Rightarrow> ret EFI_UNSUPPORTED
     | CardFunctionSd \<Rightarrow> InitializeSdDevice E R
     | CardFunctionMmc \<Rightarrow> InitializeMmcDevice E R
     | CardFunctionUnknown \<Rightarrow> stopM AssertFailed)"

definition cid_serial :: "CARD_INFO \<Rightarrow> u32" where
  "cid_serial c =
     (if CardFunction c = CardFunctionSd
      then ucast (get_field SD_CID_layout ''PSN'' (RegCid (Registers c)))
      else ucast (get_field MMC_CID_layout ''PSN'' (RegCid (Registers c))))"

definition publish_media :: "('h, EFI_STATUS) sd" where
  "publish_media =
     bindM (getInst CardInfo) (\<lambda>c.
     bindM (ASSERT (CardFunction c = CardFunctionSd \<or> CardFunction c = CardFunctionMmc)) (\<lambda>_.
     bindM (modifyMedia (\<lambda>m. m\<lparr>RemovableMedia := (CardFunction c = CardFunctionSd),
                               MediaId := cid_serial c\<rparr>)) (\<lambda>_.
     bindM (modifyInst (\<lambda>I. I\<lparr>SlotInitialized := True\<rparr>)) (\<lambda>_.
     ret EFI_SUCCESS))))"

definition InitializeDevice :: "'h SdEnv \<Rightarrow> 'h SdCalls \<Rightarrow> ('h, EFI_STATUS) sd" where
  "InitializeDevice E R =
     bindM (getInst SlotInitialized) (\<lambda>i.
     bindM (ASSERT (\<not> i)) (\<lambda>_.
     bindM (getInst (\<lambda>I. MediaPresent (Media I))) (\<lambda>p.
     bindM (ASSERT p) (\<lambda>_.
     bindM (modifyCard (\<lambda>_. zero_CARD_INFO\<lparr>CurrentSpeedMode := CardSpeedModeNormalSpeed\<rparr>)) (\<lambda>_.
     runE [hostM (SoftwareReset (HostExt E) SdhcResetTypeAll),
           hostM (SetClock (HostExt E) SD_IDENT_MODE_CLOCK_FREQ_HZ),
           SdhcQueryCardType E R,
           initialize_by_function E R,
           SdhcSetBlockLength R SD_BLOCK_LENGTH_BYTES,
           publish_media])))))"

section \<open>Soft reset\<close>

definition clear_media :: "EFI_BLOCK_IO_MEDIA \<Rightarrow> EFI_BLOCK_IO_MEDIA" where
  "clear_media m =
     m\<lparr>MediaId := 0, RemovableMedia := False, MediaPresent := False, LogicalPartition := False,
       WriteCaching := False, BlockSize := 0, IoAlign := 4, LastBlock := 0, LowestAlignedLba := 0,
       LogicalBlocksPerPhysicalBlock := 0, OptimalTransferLengthGranularity := 0,
       ReadOnly := False\<rparr>"

definition clear_instance :: "SDHC_INSTANCE \<Rightarrow> SDHC_INSTANCE" where
  "clear_instance I =
     I\<lparr>SlotInitialized := False, Media := clear_media (Media I), ReliableSectorCount := 0,
       RpmbSizeMult := 0, RpmbCid := replicate 16 0\<rparr>"

definition set_slot_node :: "('h, unit) sd" where
  "set_slot_node =
     bindM (getCard CardFunction) (\<lambda>cf.
     if cf = CardFunctionSd then modifyInst (\<lambda>I. I\<lparr>SlotNode := SlotNodeSD 0\<rparr>)
     else bindM (ASSERT (cf = CardFunctionMmc)) (\<lambda>_.
       modifyInst (\<lambda>I. I\<lparr>SlotNode := SlotNodeMMC 0\<rparr>)))"

definition install_rpmb :: "'h SdEnv \<Rightarrow> EFI_STATUS \<Rightarrow> ('h, EFI_STATUS) sd" where
  "install_rpmb E old =
     bindM (getCard CardFunction) (\<lambda>cf.
     if cf = CardFunctionMmc then
       bindM (IsRpmbInstalledOnTheSystem E) (\<lambda>b.
       if \<not> b then
         bindM (install E gEfiRpmbIoProtocolGuid) (\<lambda>Status.
         if EFI_ERROR Status then ret Status
         else bindM (modifyInst (\<lambda>I. I\<lparr>CurrentMmcPartition :=
                access_of (partition_config (CardInfo I))\<rparr>)) (\<lambda>_. ret Status))
       else ret old)
     else ret old)"

definition install_card_protocols :: "'h SdEnv \<Rightarrow> ('h, EFI_STATUS) sd" where
  "install_card_protocols E =
     bindM set_slot_node (\<lambda>_.
     bindM (getInst SlotNode) (\<lambda>n.
     bindM (hostM (ConvertDevicePathToText (gBS E) n)) (\<lambda>DevicePathText.
     if \<not> DevicePathText then ret EFI_OUT_OF_RESOURCES
     else
       tryE (install E gEfiBlockIoProtocolGuid) (
       bindM (install E gEfiDevicePathProtocolGuid) (\<lambda>Status.
       if EFI_ERROR Status then ret Status else install_rpmb E Status)))))"

definition reset_present_card :: "'h SdEnv \<Rightarrow> 'h SdCalls \<Rightarrow> ('h, EFI_STATUS) sd" where
  "reset_present_card E R =
     bindM (hostM (IsReadOnly (HostExt E))) (\<lambda>ro.
     bindM (modifyMedia (\<lambda>m. m\<lparr>ReadOnly := ro\<rparr>)) (\<lambda>_.
     tryE (InitializeDevice E R) (install_card_protocols E)))"

definition soft_reset_main :: "'h SdEnv \<Rightarrow> 'h SdCalls \<Rightarrow> ('h, EFI_STATUS) sd" where
  "soft_reset_main E R =
     tryE (UninstallAllProtocols E) (
     bindM (modifyInst clear_instance) (\<lambda>_.
     bindM (hostM (IsCardPresent (HostExt E))) (\<lambda>present.
     bindM (modifyMedia (\<lambda>m. m\<lparr>MediaPresent := present\<rparr>)) (\<lambda>_.
     if \<not> present then install E gEfiBlockIoProtocolGuid
     else reset_present_card E R))))"

text \<open>The code after the label \<open>Exit\<close>: the status of the uninstall calls replaces the error.\<close>

definition soft_reset_exit :: "'h SdEnv \<Rightarrow> EFI_STATUS \<Rightarrow> ('h, EFI_STATUS) sd" where
  "soft_reset_exit E Status =
     (if EFI_ERROR Status then
        bindM (uninstall E gEfiRpmbIoProtocolGuid Status) (\<lambda>Status.
        uninstall E gEfiDevicePathProtocolGuid Status)
      else ret Status)"

definition SoftReset :: "'h SdEnv \<Rightarrow> 'h SdCalls \<Rightarrow> ('h, EFI_STATUS) sd" where
  "SoftReset E R = bindM (soft_reset_main E R) (soft_reset_exit E)"

section \<open>Error recovery\<close>

definition stop_open_transfer :: "'h SdCalls \<Rightarrow> ('h, EFI_STATUS) sd" where
  "stop_open_transfer R =
     bindM (SdhcSendStatus R 0) (\<lambda>(Status, CardStatus).
     if EFI_ERROR Status then ret Status
     else if CURRENT_STATE CardStatus \<noteq> CARD_STATE_code CardStateTran
     then SdhcStopTransmission R
     else ret Status)"

definition recovery_sequence :: "'h SdEnv \<Rightarrow> 'h SdCalls \<Rightarrow> SD_COMMAND \<Rightarrow> ('h, EFI_STATUS) sd" where
  "recovery_sequence E R Cmd =
     bindM (hostM (SoftwareReset (HostExt E) SdhcResetTypeCmd)) (\<lambda>Status.
     bindM (if TransferType Cmd \<noteq> SdTransferTypeNone \<and> TransferType Cmd \<noteq> SdTransferTypeUndefined
            then hostM (SoftwareReset (HostExt E) SdhcResetTypeData) else ret Status) (\<lambda>Status.
     bindM (if EFI_ERROR Status then SoftReset E R else ret Status) (\<lambda>Status.
     if EFI_ERROR Status then ret Status
     else if CmdsAreEqual Cmd CmdWriteMultiBlock \<or> CmdsAreEqual Cmd CmdReadMultiBlock
     then stop_open_transfer R
     else ret Status)))"

definition SdhcRecoverFromErrors ::
    "'h SdEnv \<Rightarrow> 'h SdCalls \<Rightarrow> SD_COMMAND \<Rightarrow> ('h, EFI_STATUS) sd" where
  "SdhcRecoverFromErrors E R Cmd =
     bindM (modifyInst (\<lambda>I. I\<lparr>ErrorRecoveryAttemptCount := ErrorRecoveryAttemptCount I + 1\<rparr>)) (\<lambda>_.
     bindM (getInst ErrorRecoveryAttemptCount) (\<lambda>n.
     bindM (if n > SDMMC_ERROR_RECOVERY_ATTEMPT_THRESHOLD then ret EFI_PROTOCOL_ERROR
            else recovery_sequence E R Cmd) (\<lambda>Status.
     bindM (modifyInst (\<lambda>I. I\<lparr>ErrorRecoveryAttemptCount := ErrorRecoveryAttemptCount I - 1\<rparr>)) (\<lambda>_.
     ret Status))))"

section \<open>The command entry points\<close>

definition SdhcSendCommand_body ::
    "'h SdEnv \<Rightarrow> 'h SdCalls \<Rightarrow> SD_COMMAND \<Rightarrow> u32 \<Rightarrow> ('h, EFI_STATUS) sd" where
  "SdhcSendCommand_body E R Cmd Arg =
     bindM (SdhcSendCommandHelper E Cmd Arg None) (\<lambda>Status.
     if EFI_ERROR Status then bindM (SdhcRecoverFromErrors E R Cmd) (\<lambda>_. ret Status)
     else if CmdsAreEqual Cmd CmdSwitchMmc \<or> CmdsAreEqual Cmd CmdSwitchSd then
       tryE (SdhcWaitForTranStateAndReadyForData E R) (ret EFI_SUCCESS)
     else ret EFI_SUCCESS)"

definition transfer_data :: "'h SdEnv \<Rightarrow> SD_COMMAND \<Rightarrow> u32 \<Rightarrow> buf_ref \<Rightarrow> ('h, EFI_STATUS) sd" where
  "transfer_data E Cmd BufferByteSize Buffer =
     (if TransferDirection Cmd = SdTransferDirectionRead then readDataM E BufferByteSize Buffer
      else bindM (ASSERT (TransferDirection Cmd = SdTransferDirectionWrite)) (\<lambda>_.
        writeDataM E BufferByteSize Buffer))"

text \<open>Whether a finished multi-block transfer was open-ended. \<open>CmdsAreEqual\<close> asserts that the
  command before the last is there.\<close>

definition open_ended :: "SD_COMMAND \<Rightarrow> ('h, bool) sd" where
  "open_ended Cmd =
     (if CmdsAreEqual Cmd CmdWriteMultiBlock \<or> CmdsAreEqual Cmd CmdReadMultiBlock then
        bindM (getInst LastSuccessfulCmd) (\<lambda>l.
        case l of
          None \<Rightarrow> ret True
        | Some _ \<Rightarrow>
            bindM (getInst PreLastSuccessfulCmd) (\<lambda>p.
            case p of
              None \<Rightarrow> stopM AssertFailed
            | Some q \<Rightarrow> ret (\<not> CmdsAreEqual q CmdSetBlockCount)))
      else ret False)"

definition SdhcSendDataCommand_body ::
    "'h SdEnv \<Rightarrow> 'h SdCalls \<Rightarrow> SD_COMMAND \<Rightarrow> u32 \<Rightarrow> u32 \<Rightarrow> buf_ref \<Rightarrow> ('h, EFI_STATUS) sd" where
  "SdhcSendDataCommand_body E R Cmd Arg BufferByteSize Buffer =
     bindM (ASSERT (BufferByteSize mod SD_BLOCK_LENGTH_BYTES = 0)) (\<lambda>_.
     bindM (
       tryE (SdhcSendCommandHelper E Cmd Arg
               (Some \<lparr>XfrBlockSize = SD_BLOCK_LENGTH_BYTES,
                      XfrBlockCount = BufferByteSize div SD_BLOCK_LENGTH_BYTES,
                      XfrBuffer = Buffer\<rparr>)) (
       tryE (transfer_data E Cmd BufferByteSize Buffer) (
       tryE (bindM (open_ended Cmd) (\<lambda>b. if b then SdhcStopTransmission R else ret EFI_SUCCESS)) (
       SdhcWaitForTranStateAndReadyForData E R)))) (\<lambda>Status.
     if EFI_ERROR Status then bindM (SdhcRecoverFromErrors E R Cmd) (\<lambda>_. ret Status)
     else ret Status))"

section \<open>The knot\<close>

primrec SdTop :: "'h SdEnv \<Rightarrow> nat \<Rightarrow> 'h SdCalls" where
  "SdTop E 0 = \<lparr>SdhcSendCommand = (\<lambda>_ _. stopM OutOfFuel),
                SdhcSendDataCommand = (\<lambda>_ _ _ _. stopM OutOfFuel)\<rparr>"
| "SdTop E (Suc n) = \<lparr>SdhcSendCommand = SdhcSendCommand_body E (SdTop E n),
                      SdhcSendDataCommand = SdhcSendDataCommand_body E (SdTop E n)\<rparr>"

declare SdTop.simps(2) [simp del]

lemma SdTop_sel [simp]:
  "SdhcSendCommand (SdTop E (Suc n)) = SdhcSendCommand_body E (SdTop E n)"
  "SdhcSendDataCommand (SdTop E (Suc n)) = SdhcSendDataCommand_body E (SdTop E n)"
  by (simp_all add: SdTop.simps)

text \<open>
  At most four nested attempts (three recoveries and the refused fourth), each adding a command
  and the status poll that follows it.
\<close>

definition recovery_fuel :: nat where "recovery_fuel = 8"

end
