(* ===== verification/SdRecovery.thy ===== *)
theory SdRecovery
  imports SdReset
begin

text \<open>
  Error recovery is bounded. The interfaces \<open>nonswitch_calls\<close> and \<open>all_calls\<close> state what an operation
  may assume of the command entry points while a given number of recoveries is in progress;
  \<open>reset_policy\<close> states a constraint on the installed protocols that a soft reset keeps. Their
  lemmas lift both to every operation of the driver, and the instances on \<open>SdTop\<close> show that eight
  levels of recursion are enough.
\<close>

section \<open>Safety of the steps that send no commands\<close>

lemma safe_IsRpmbInstalled [safe_intros]:
  "safe (at c J) (IsRpmbInstalledOnTheSystem E)"
  unfolding IsRpmbInstalledOnTheSystem_def by (intro safe_intros)

lemma safe_SetMaxClockFrequency [safe_intros]:
  "safe (at c J) (SdhcSetMaxClockFrequency E)"
  unfolding SdhcSetMaxClockFrequency_def by (intro safe_intros) simp_all

lemma safe_publish_media [safe_intros]: "safe (at c J) publish_media"
  unfolding publish_media_def by (intro safe_intros) simp

lemma safe_set_slot_node [safe_intros]: "safe (at c J) set_slot_node"
  unfolding set_slot_node_def by (intro safe_intros; simp)

lemma safe_clear_instance [safe_intros]:
  "safe (at c J) (modifyInst clear_instance)"
  by (intro safe_intros) (simp add: keeps_core_def flags_of_def clear_instance_def)

lemma safe_check_card_status [safe_intros]:
  "safe (at c J) (check_card_status Cmd)"
  unfolding check_card_status_def by (intro safe_intros) simp

lemma safe_SendCommandHelper [safe_intros]:
  "safe (at c J) (SdhcSendCommandHelper E Cmd Arg x)"
  unfolding SdhcSendCommandHelper_def by (intro safe_intros) simp

lemma safe_transfer_data [safe_intros]:
  "safe (at c J) (transfer_data E Cmd n b)"
  unfolding transfer_data_def by (intro safe_intros)

lemma safe_open_ended [safe_intros]: "safe (at c J) (open_ended Cmd)"
  unfolding open_ended_def by (intro safe_intros) simp

text \<open>
  \<open>reset_policy E J\<close>: a constraint on the installed flags that the steps of a soft reset keep.
\<close>

locale reset_policy =
  fixes E :: "'h SdEnv" and J :: "flags \<Rightarrow> bool"
  assumes policy_uninstall: "safe (at c J) (UninstallAllProtocols E)"
    and policy_absent: "safe (at c J) (install E gEfiBlockIoProtocolGuid)"
    and policy_card: "safe (at c J) (install_card_protocols E)"
    and policy_exit: "safe (at c J) (soft_reset_exit E st)"

section \<open>The recursion is bounded by the attempt counter\<close>

text \<open>
  \<open>nonswitch_calls R c J\<close>: in states with \<open>c\<close> recoveries in progress, the entry point for single
  commands is safe for every command but SWITCH. That is all the status poll and the stop command
  rely on.
\<close>

locale nonswitch_calls =
  fixes R :: "'h SdCalls" and c :: u32 and J :: "flags \<Rightarrow> bool"
  assumes send_nonswitch:
    "\<not> is_switch_cmd Cmd \<Longrightarrow> safe (at c J) (SdhcSendCommand R Cmd Arg)"
begin

lemma safe_SendStatus [safe_intros]: "safe (at c J) (SdhcSendStatus R old)"
  unfolding SdhcSendStatus_def by (intro safe_intros send_nonswitch) simp

lemma safe_StopTransmission [safe_intros]: "safe (at c J) (SdhcStopTransmission R)"
  unfolding SdhcStopTransmission_def by (intro safe_intros send_nonswitch) simp

lemma safe_wait_tran_loop [safe_intros]:
  "safe (at c J) (wait_tran_loop E R n w)"
  by (induction n arbitrary: w) (auto intro!: safe_intros simp del: split_paired_All)

lemma safe_WaitForTran [safe_intros]:
  "safe (at c J) (SdhcWaitForTranStateAndReadyForData E R)"
  unfolding SdhcWaitForTranStateAndReadyForData_def by (intro safe_intros)

lemma safe_stop_open_transfer [safe_intros]: "safe (at c J) (stop_open_transfer R)"
  unfolding stop_open_transfer_def by (intro safe_intros)

end

text \<open>\<open>all_calls R c J\<close>: both entry points are safe for every command.\<close>

locale all_calls = nonswitch_calls +
  assumes send_any: "safe (at c J) (SdhcSendCommand R Cmd Arg)"
    and data_any: "safe (at c J) (SdhcSendDataCommand R Cmd Arg n b)"
begin

lemma safe_simple [safe_intros]:
  "safe (at c J) (SdhcGoIdleState R)"
  "safe (at c J) (SdhcSelectDevice R)"
  "safe (at c J) (SdhcSendCidAll R)"
  "safe (at c J) (SdhcSetBlockLength R n)"
  "safe (at c J) (SdhcSendOpCondSdio R)"
  unfolding SdhcGoIdleState_def SdhcSelectDevice_def SdhcSendCidAll_def SdhcSetBlockLength_def
    SdhcSendOpCondSdio_def
  by (intro safe_intros send_any)+

lemma safe_registers [safe_intros]:
  "safe (at c J) (SdhcSendRelativeAddr R)"
  "safe (at c J) (SdhcSendCid R)"
  "safe (at c J) (SdhcSendCsd R)"
  unfolding SdhcSendRelativeAddr_def SdhcSendCid_def SdhcSendCsd_def
  by (intro safe_intros send_any; simp)+

lemma safe_SendExtCsd [safe_intros]: "safe (at c J) (SdhcSendExtCsdMmc R)"
  unfolding SdhcSendExtCsdMmc_def by (intro safe_intros data_any; simp)

lemma safe_SendIfCond [safe_intros]: "safe (at c J) (SdhcSendIfCondSd R)"
  unfolding SdhcSendIfCondSd_def by (intro safe_intros send_any)

lemma safe_sd_op_cond_loop [safe_intros]:
  "safe (at c J) (sd_op_cond_loop E R a n)"
  by (induction n) (auto intro!: safe_intros send_any)

lemma safe_mmc_op_cond_loop [safe_intros]: "safe (at c J) (mmc_op_cond_loop E R n)"
  by (induction n) (auto intro!: safe_intros send_any)

lemma safe_op_cond [safe_intros]:
  "safe (at c J) (SdhcSendOpCondSd E R)"
  "safe (at c J) (SdhcSendOpCondMmc E R)"
  unfolding SdhcSendOpCondSd_def SdhcSendOpCondMmc_def by (intro safe_intros send_any)+

lemma safe_switches [safe_intros]:
  "safe (at c J) (SdhcSwitchBusWidthSd E R)"
  "safe (at c J) (switch_power_class R pc)"
  "safe (at c J) (SdhcSwitchSpeedModeMmc R)"
  unfolding SdhcSwitchBusWidthSd_def switch_power_class_def SdhcSwitchSpeedModeMmc_def
  by (intro safe_intros send_any)+

lemma safe_SwitchBusWidthMmc [safe_intros]:
  "safe (at c J) (SdhcSwitchBusWidthMmc E R)"
  unfolding SdhcSwitchBusWidthMmc_def Let_def by (intro safe_intros send_any)

lemma safe_SwitchPartition [safe_intros]:
  "safe (at c J) (SdhcSwitchPartitionMmc R p)"
  unfolding SdhcSwitchPartitionMmc_def by (intro safe_intros send_any; simp)

lemma safe_QueryCardType [safe_intros]: "safe (at c J) (SdhcQueryCardType E R)"
  unfolding SdhcQueryCardType_def by (intro safe_intros)

lemma safe_InitializeSdDevice [safe_intros]:
  "safe (at c J) (InitializeSdDevice E R)"
  unfolding InitializeSdDevice_def SdhcSwitchSpeedModeSd_def by (auto intro!: safe_intros)

lemma safe_InitializeMmcDevice [safe_intros]:
  "safe (at c J) (InitializeMmcDevice E R)"
  unfolding InitializeMmcDevice_def check_spec_vers_def by (auto intro!: safe_intros)

lemma safe_initialize_by_function [safe_intros]:
  "safe (at c J) (initialize_by_function E R)"
  unfolding initialize_by_function_def
  by (intro safe_intros) (auto intro!: safe_intros split: CARD_FUNCTION.split)

lemma safe_InitializeDevice [safe_intros]: "safe (at c J) (InitializeDevice E R)"
  unfolding InitializeDevice_def by (intro safe_intros) (auto intro!: safe_intros)

lemma safe_soft_reset_main:
  assumes "reset_policy E J"
  shows "safe (at c J) (soft_reset_main E R)"
  unfolding soft_reset_main_def reset_present_card_def
  by (intro safe_intros assms [THEN reset_policy.policy_uninstall]
      assms [THEN reset_policy.policy_absent] assms [THEN reset_policy.policy_card])

lemma safe_SoftReset:
  assumes "reset_policy E J"
  shows "safe (at c J) (SoftReset E R)"
  unfolding SoftReset_def
  by (intro safe_bindM safe_soft_reset_main [OF assms] assms [THEN reset_policy.policy_exit])

lemma safe_recovery_sequence:
  "reset_policy E J \<Longrightarrow> safe (at c J) (recovery_sequence E R Cmd)"
  unfolding recovery_sequence_def by (intro safe_intros safe_SoftReset)

end

text \<open>Recovery raises the counter, runs at the raised count, and lowers it again.\<close>

lemma safe_RecoverFromErrors:
  assumes "c + 1 \<le> SDMMC_ERROR_RECOVERY_ATTEMPT_THRESHOLD \<Longrightarrow>
           safe (at (c + 1) J) (recovery_sequence E R Cmd)"
  shows "safe (at c J) (SdhcRecoverFromErrors E R Cmd)"
proof (rule safeI)
  let ?up = "\<lambda>s. s\<lparr>Inst := (Inst s)\<lparr>ErrorRecoveryAttemptCount :=
                       ErrorRecoveryAttemptCount (Inst s) + 1\<rparr>\<rparr>"
  fix s :: "'a SdState"
  assume c: "at c J s"
  then have up: "at (c + 1) J (?up s)" by (simp add: attempts_def at_def flags_of_def)
  show "SdhcRecoverFromErrors E R Cmd s \<noteq> Stop OutOfFuel"
    using c safe_fuel [OF assms up]
    by (auto simp: SdhcRecoverFromErrors_def modifyInst_def getInst_def bindM_def gets_def modify_def
        ret_def attempts_def at_def not_less split: outcome.splits)
  show "at c J s'" if "SdhcRecoverFromErrors E R Cmd s = Ret (x, s')" for x s'
    using that c safe_Ret [OF assms up]
    by (auto simp: SdhcRecoverFromErrors_def modifyInst_def getInst_def bindM_def gets_def modify_def
        ret_def attempts_def at_def flags_of_def not_less split: outcome.splits if_splits)
qed

lemma safe_recover_with:
  assumes "reset_policy E J"
    and "c + 1 \<le> SDMMC_ERROR_RECOVERY_ATTEMPT_THRESHOLD \<Longrightarrow> all_calls R (c + 1) J"
  shows "safe (at c J) (SdhcRecoverFromErrors E R Cmd)"
  by (rule safe_RecoverFromErrors) (rule all_calls.safe_recovery_sequence [OF assms(2,1)])

lemma safe_SendCommand_nonswitch:
  assumes "reset_policy E J"
    and "c + 1 \<le> SDMMC_ERROR_RECOVERY_ATTEMPT_THRESHOLD \<Longrightarrow> all_calls R (c + 1) J"
    and "\<not> is_switch_cmd Cmd"
  shows "safe (at c J) (SdhcSendCommand_body E R Cmd Arg)"
  using assms(3) unfolding SdhcSendCommand_body_def CmdsAreEqual_eq is_switch_cmd_def
  by (intro safe_intros safe_recover_with assms(1,2)) auto

lemma safe_SendCommand_any:
  assumes "reset_policy E J"
    and "c + 1 \<le> SDMMC_ERROR_RECOVERY_ATTEMPT_THRESHOLD \<Longrightarrow> all_calls R (c + 1) J"
    and "nonswitch_calls R c J"
  shows "safe (at c J) (SdhcSendCommand_body E R Cmd Arg)"
  unfolding SdhcSendCommand_body_def
  by (intro safe_intros safe_recover_with assms(1,2)
      nonswitch_calls.safe_WaitForTran [OF assms(3)])

lemma safe_SendDataCommand:
  assumes "reset_policy E J"
    and "c + 1 \<le> SDMMC_ERROR_RECOVERY_ATTEMPT_THRESHOLD \<Longrightarrow> all_calls R (c + 1) J"
    and "nonswitch_calls R c J"
  shows "safe (at c J) (SdhcSendDataCommand_body E R Cmd Arg n b)"
  unfolding SdhcSendDataCommand_body_def
  by (intro safe_intros safe_recover_with assms(1,2)
      nonswitch_calls.safe_WaitForTran [OF assms(3)]
      nonswitch_calls.safe_StopTransmission [OF assms(3)])

lemma nonswitch_calls_Suc:
  assumes "reset_policy E J"
    and "c + 1 \<le> SDMMC_ERROR_RECOVERY_ATTEMPT_THRESHOLD \<Longrightarrow> all_calls (SdTop E n) (c + 1) J"
  shows "nonswitch_calls (SdTop E (Suc n)) c J"
  by unfold_locales (simp add: safe_SendCommand_nonswitch assms)

lemma all_calls_Suc:
  assumes "reset_policy E J"
    and "c + 1 \<le> SDMMC_ERROR_RECOVERY_ATTEMPT_THRESHOLD \<Longrightarrow> all_calls (SdTop E n) (c + 1) J"
    and "nonswitch_calls (SdTop E n) c J"
  shows "all_calls (SdTop E (Suc n)) c J"
  by unfold_locales (simp_all add: safe_SendCommand_any safe_SendDataCommand assms)

lemma calls_at_depth:
  assumes policy: "reset_policy E J"
  shows "k \<le> 3 \<Longrightarrow> nonswitch_calls (SdTop E (2 * k + 1 + j)) (of_nat (3 - k)) J \<and>
                   all_calls (SdTop E (2 * k + 2 + j)) (of_nat (3 - k)) J"
proof (induction k arbitrary: j)
  case 0
  have no: "\<not> (of_nat (3 - 0) + 1 \<le> SDMMC_ERROR_RECOVERY_ATTEMPT_THRESHOLD)"
    by (simp add: SDMMC_ERROR_RECOVERY_ATTEMPT_THRESHOLD_def)
  have non: "nonswitch_calls (SdTop E (Suc n)) (of_nat (3 - 0)) J" for n
    by (rule nonswitch_calls_Suc [OF policy]) (rule notE [OF no])
  have "all_calls (SdTop E (Suc (Suc n))) (of_nat (3 - 0)) J" for n
    by (rule all_calls_Suc [OF policy _ non]) (rule notE [OF no])
  with non show ?case
    by simp
next
  case (Suc k)
  have c: "of_nat (3 - Suc k) + 1 = (of_nat (3 - k) :: u32)"
    using Suc.prems by (simp add: of_nat_diff)
  have up: "all_calls (SdTop E (2 * k + 2 + i)) (of_nat (3 - Suc k) + 1) J" for i
    unfolding c using Suc by simp
  have non: "nonswitch_calls (SdTop E (Suc (2 * k + 2 + i))) (of_nat (3 - Suc k)) J" for i
    using up [of i] by (rule nonswitch_calls_Suc [OF policy])
  have "all_calls (SdTop E (Suc (Suc (2 * k + 2 + j)))) (of_nat (3 - Suc k)) J"
    using up [of "Suc j"] by (intro all_calls_Suc [OF policy _ non]) simp
  with non [of j] show ?case
    by simp
qed

lemma all_calls_top:
  "reset_policy E J \<Longrightarrow> recovery_fuel \<le> n \<Longrightarrow> all_calls (SdTop E n) 0 J"
  using calls_at_depth [of E J 3 "n - 8"] by (simp add: recovery_fuel_def)

section \<open>Two constraints on the installed flags\<close>

text \<open>No constraint at all: what holds then holds whatever the boot services answer.\<close>

definition any_flags :: "flags \<Rightarrow> bool" where
  "any_flags f = True"

lemma safe_any_protocols:
  "safe (at c any_flags) (install E p)"
  "safe (at c any_flags) (uninstall E p old)"
proof -
  have upd: "safe (at c any_flags) (modifyInst (set_installed p b))" for b
    by (auto simp: safe_def modifyInst_def modify_def at_def any_flags_def attempts_def
        set_installed_def split: protocol.splits)
  then show "safe (at c any_flags) (install E p)" "safe (at c any_flags) (uninstall E p old)"
    unfolding install_def uninstall_def by (intro safe_intros upd)+
qed

interpretation any: reset_policy E any_flags for E :: "'h SdEnv"
  by unfold_locales
    (auto simp: UninstallAllProtocols_def install_card_protocols_def install_rpmb_def
      soft_reset_exit_def intro!: safe_intros safe_any_protocols)

text \<open>
  The order the code installs in: the device path only beside block I/O, RPMB only beside the
  device path. It needs uninstallation to succeed, since \<open>UninstallAllProtocols\<close> removes block I/O
  first.
\<close>

definition ordered_flags :: "flags \<Rightarrow> bool" where
  "ordered_flags = (\<lambda>(blk, path, rpmb). (path \<longrightarrow> blk) \<and> (rpmb \<longrightarrow> path))"

definition uninstall_succeeds :: "'h SdEnv \<Rightarrow> bool" where
  "uninstall_succeeds E \<longleftrightarrow> (\<forall>h p hw. \<not> EFI_ERROR (fst (UninstallProtocol (gBS E) h p hw)))"

interpretation top: all_calls "SdTop E recovery_fuel" 0 any_flags for E :: "'h SdEnv"
  by (rule all_calls_top) (rule any.reset_policy_axioms, simp)

interpretation leaf:
  nonswitch_calls "SdTop E (Suc n)" SDMMC_ERROR_RECOVERY_ATTEMPT_THRESHOLD any_flags
  for E :: "'h SdEnv" and n :: nat
  by (rule nonswitch_calls_Suc) (rule any.reset_policy_axioms,
      simp add: SDMMC_ERROR_RECOVERY_ATTEMPT_THRESHOLD_def)

end
