(* ===== verification/SdFuel.thy ===== *)
theory SdFuel
  imports SdRecovery
begin

text \<open>
  The recursion depth of \<open>SdTop\<close> does not matter once it is \<open>recovery_fuel\<close>: a deeper unfolding
  gives the same results, so that the depth-bounded entry points satisfy the code's own recursive
  equations. Every operation is monotone in the entry points it is given; the proofs follow the
  shape of the programs.
\<close>

locale more_calls =
  fixes R R' :: "'h SdCalls"
  assumes send_below: "below (SdhcSendCommand R Cmd Arg) (SdhcSendCommand R' Cmd Arg)"
    and data_below: "below (SdhcSendDataCommand R Cmd Arg n b) (SdhcSendDataCommand R' Cmd Arg n b)"
begin

lemma below_SendStatus [below_intros]: "below (SdhcSendStatus R old) (SdhcSendStatus R' old)"
  unfolding SdhcSendStatus_def by (intro below_intros send_below)

lemma below_wait_tran_loop [below_intros]:
  "below (wait_tran_loop E R n w) (wait_tran_loop E R' n w)"
  by (induction n arbitrary: w) (auto intro!: below_intros simp del: split_paired_All)

lemma below_WaitForTran [below_intros]:
  "below (SdhcWaitForTranStateAndReadyForData E R) (SdhcWaitForTranStateAndReadyForData E R')"
  unfolding SdhcWaitForTranStateAndReadyForData_def by (intro below_intros)

lemma below_simple [below_intros]:
  "below (SdhcGoIdleState R) (SdhcGoIdleState R')"
  "below (SdhcSelectDevice R) (SdhcSelectDevice R')"
  "below (SdhcStopTransmission R) (SdhcStopTransmission R')"
  "below (SdhcSendCidAll R) (SdhcSendCidAll R')"
  "below (SdhcSetBlockLength R n) (SdhcSetBlockLength R' n)"
  "below (SdhcSetBlockCount R n w) (SdhcSetBlockCount R' n w)"
  "below (SdhcSendOpCondSdio R) (SdhcSendOpCondSdio R')"
  unfolding SdhcGoIdleState_def SdhcSelectDevice_def SdhcStopTransmission_def SdhcSendCidAll_def
    SdhcSetBlockLength_def SdhcSetBlockCount_def SdhcSendOpCondSdio_def
  by (intro below_intros send_below)+

lemma below_stop_open_transfer [below_intros]:
  "below (stop_open_transfer R) (stop_open_transfer R')"
  unfolding stop_open_transfer_def by (intro below_intros)

lemma below_registers [below_intros]:
  "below (SdhcSendRelativeAddr R) (SdhcSendRelativeAddr R')"
  "below (SdhcSendCid R) (SdhcSendCid R')"
  "below (SdhcSendCsd R) (SdhcSendCsd R')"
  "below (SdhcSendExtCsdMmc R) (SdhcSendExtCsdMmc R')"
  unfolding SdhcSendRelativeAddr_def SdhcSendCid_def SdhcSendCsd_def SdhcSendExtCsdMmc_def
  by (intro below_intros send_below data_below)+

lemma below_SendIfCond [below_intros]: "below (SdhcSendIfCondSd R) (SdhcSendIfCondSd R')"
  unfolding SdhcSendIfCondSd_def by (intro below_intros send_below)

lemma below_sd_op_cond_loop [below_intros]:
  "below (sd_op_cond_loop E R a n) (sd_op_cond_loop E R' a n)"
  by (induction n) (auto intro!: below_intros send_below)

lemma below_mmc_op_cond_loop [below_intros]:
  "below (mmc_op_cond_loop E R n) (mmc_op_cond_loop E R' n)"
  by (induction n) (auto intro!: below_intros send_below)

lemma below_op_cond [below_intros]:
  "below (SdhcSendOpCondSd E R) (SdhcSendOpCondSd E R')"
  "below (SdhcSendOpCondMmc E R) (SdhcSendOpCondMmc E R')"
  unfolding SdhcSendOpCondSd_def SdhcSendOpCondMmc_def by (intro below_intros send_below)+

lemma below_switches [below_intros]:
  "below (SdhcSwitchBusWidthSd E R) (SdhcSwitchBusWidthSd E R')"
  "below (switch_power_class R pc) (switch_power_class R' pc)"
  "below (SdhcSwitchSpeedModeMmc R) (SdhcSwitchSpeedModeMmc R')"
  "below (SdhcSwitchPartitionMmc R p) (SdhcSwitchPartitionMmc R' p)"
  unfolding SdhcSwitchBusWidthSd_def switch_power_class_def SdhcSwitchSpeedModeMmc_def
    SdhcSwitchPartitionMmc_def
  by (intro below_intros send_below)+

lemma below_SwitchBusWidthMmc [below_intros]:
  "below (SdhcSwitchBusWidthMmc E R) (SdhcSwitchBusWidthMmc E R')"
  unfolding SdhcSwitchBusWidthMmc_def Let_def by (intro below_intros send_below)

lemma below_QueryCardType [below_intros]:
  "below (SdhcQueryCardType E R) (SdhcQueryCardType E R')"
  unfolding SdhcQueryCardType_def by (intro below_intros)

lemma below_sequences [below_intros]:
  "below (InitializeSdDevice E R) (InitializeSdDevice E R')"
  "below (InitializeMmcDevice E R) (InitializeMmcDevice E R')"
  unfolding InitializeSdDevice_def InitializeMmcDevice_def
  by (intro below_intros list_all2_Cons [THEN iffD2] conjI list_all2_Nil [THEN iffD2]; simp)+

lemma below_initialize_by_function [below_intros]:
  "below (initialize_by_function E R) (initialize_by_function E R')"
  unfolding initialize_by_function_def
  by (intro below_intros) (auto intro!: below_intros split: CARD_FUNCTION.split)

lemma below_InitializeDevice [below_intros]: "below (InitializeDevice E R) (InitializeDevice E R')"
  unfolding InitializeDevice_def by (intro below_intros) (auto intro!: below_intros)

lemma below_SoftReset [below_intros]: "below (SoftReset E R) (SoftReset E R')"
  unfolding SoftReset_def soft_reset_main_def reset_present_card_def by (intro below_intros)

lemma below_RecoverFromErrors [below_intros]:
  "below (SdhcRecoverFromErrors E R Cmd) (SdhcRecoverFromErrors E R' Cmd)"
  unfolding SdhcRecoverFromErrors_def recovery_sequence_def by (intro below_intros)

lemma below_bodies:
  "below (SdhcSendCommand_body E R Cmd Arg) (SdhcSendCommand_body E R' Cmd Arg)"
  "below (SdhcSendDataCommand_body E R Cmd Arg n b) (SdhcSendDataCommand_body E R' Cmd Arg n b)"
  unfolding SdhcSendCommand_body_def SdhcSendDataCommand_body_def by (intro below_intros)+

end

lemma more_calls_Suc: "more_calls (SdTop E n) (SdTop E (Suc n))"
proof (induction n)
  case 0
  then show ?case
    by unfold_locales (simp_all add: below_intros)
next
  case (Suc n)
  then show ?case
    by (auto simp: more_calls_def more_calls.below_bodies)
qed

lemma more_calls_trans: "more_calls R R' \<Longrightarrow> more_calls R' R'' \<Longrightarrow> more_calls R R''"
  unfolding more_calls_def by (blast intro: below_trans)

lemma more_calls_le: "n \<le> m \<Longrightarrow> more_calls (SdTop E n) (SdTop E m)"
proof (induction m rule: dec_induct)
  case base
  then show ?case
    by unfold_locales (simp_all add: below_refl)
next
  case (step m)
  then show ?case
    using more_calls_trans more_calls_Suc by blast
qed

interpretation deeper: more_calls "SdTop E recovery_fuel" "SdTop E (recovery_fuel + k)"
  for E :: "'h SdEnv" and k :: nat
  by (rule more_calls_le) simp

text \<open>The entry points of the driver.\<close>

definition Sd :: "'h SdEnv \<Rightarrow> 'h SdCalls" where
  "Sd E = SdTop E recovery_fuel"

lemma at_any [simp]: "at c any_flags s \<longleftrightarrow> attempts s = c"
  by (simp add: at_def any_flags_def)

lemma deeper_same:
  assumes "attempts s = 0"
  shows "SdhcSendCommand (SdTop E (recovery_fuel + k)) Cmd Arg s = SdhcSendCommand (Sd E) Cmd Arg s"
    and "SdhcSendDataCommand (SdTop E (recovery_fuel + k)) Cmd Arg n b s =
         SdhcSendDataCommand (Sd E) Cmd Arg n b s"
  using assms below_eq [OF deeper.send_below safe_fuel [OF top.send_any]]
    below_eq [OF deeper.data_below safe_fuel [OF top.data_any]]
  by (simp_all add: Sd_def)

section \<open>The entry points satisfy the code's equations\<close>

text \<open>
  Property C10. Error recovery terminates: from a state with no recovery in progress, a command or
  data command started through the driver's entry points never exceeds the recursion depth of the
  model, whatever the card, the controller and the boot services answer, and when it returns the
  attempt counter is back at zero.
\<close>
theorem commands_terminate:
  assumes "attempts s = 0"
  shows "(case SdhcSendCommand (Sd E) Cmd Arg s of
            Ret (st, s') \<Rightarrow> attempts s' = 0 | Stop r \<Rightarrow> r \<noteq> OutOfFuel) \<and>
         (case SdhcSendDataCommand (Sd E) Cmd Arg n b s of
            Ret (st, s') \<Rightarrow> attempts s' = 0 | Stop r \<Rightarrow> r \<noteq> OutOfFuel)"
  using safe_case [OF top.send_any, of s E Cmd Arg] safe_case [OF top.data_any, of s E Cmd Arg n b]
    assms
  by (auto simp: Sd_def split: outcome.splits)

text \<open>
  The depth-bounded entry points are the recursive functions of the code: at attempt
  count zero each equals its own body with the entry points themselves as the recursive calls.
\<close>
theorem entry_point_equations:
  assumes "attempts s = 0"
  shows "SdhcSendCommand (Sd E) Cmd Arg s = SdhcSendCommand_body E (Sd E) Cmd Arg s \<and>
         SdhcSendDataCommand (Sd E) Cmd Arg n b s = SdhcSendDataCommand_body E (Sd E) Cmd Arg n b s"
  using deeper_same [OF assms, of E 1] by (simp add: Sd_def)

end
