(* ===== verification/SdFlags.thy ===== *)
theory SdFlags
  imports SdFuel
begin

text \<open>
  The flags that record which protocols the slot has published. Installing and uninstalling are
  characterised by their result, and the order \<open>ordered_flags\<close> the code installs in is shown to be
  an instance of \<open>reset_policy\<close>, so that every operation of the driver keeps it.
\<close>

section \<open>Installing and uninstalling, by result\<close>

lemma install_Ret:
  "install E p s = Ret (st, s') \<Longrightarrow>
   Inst s' = (if EFI_ERROR st then Inst s else set_installed p True (Inst s))"
  by (auto simp: install_def getInst_def hostM_def modifyInst_def gets_def modify_def ret_def
      bindM_def split: prod.splits if_splits)

lemma uninstall_Ret:
  assumes "uninstall_succeeds E" "uninstall E p old s = Ret (st, s')"
  shows "(EFI_ERROR st \<longrightarrow> EFI_ERROR old) \<and> Inst s' = set_installed p False (Inst s)"
proof (cases "installed p (Inst s)")
  case True
  obtain st1 h1 where u: "UninstallProtocol (gBS E) (MmcHandle (Inst s)) p (Hw s) = (st1, h1)"
    by fastforce
  then have "\<not> EFI_ERROR st1"
    using assms(1) by (metis uninstall_succeeds_def fst_conv)
  with True u assms(2) show ?thesis
    by (auto simp: uninstall_def getInst_def hostM_def modifyInst_def gets_def modify_def ret_def
        bindM_def)
next
  case False
  then have "set_installed p False (Inst s) = Inst s"
    by (cases p) (simp_all add: set_installed_def installed_def)
  with False assms(2) show ?thesis
    by (auto simp: uninstall_def getInst_def gets_def ret_def bindM_def)
qed

text \<open>The same on the flags alone, as triples.\<close>

definition put_flag :: "protocol \<Rightarrow> bool \<Rightarrow> flags \<Rightarrow> flags" where
  "put_flag p v = (\<lambda>(blk, path, rpmb).
     case p of
       gEfiBlockIoProtocolGuid \<Rightarrow> (v, path, rpmb)
     | gEfiDevicePathProtocolGuid \<Rightarrow> (blk, v, rpmb)
     | gEfiRpmbIoProtocolGuid \<Rightarrow> (blk, path, v)
     | gEfiSdhcProtocolGuid \<Rightarrow> (blk, path, rpmb))"

lemma flags_set_installed [simp]: "flags_of (set_installed p b I) = put_flag p b (flags_of I)"
  by (cases p) (simp_all add: flags_of_def set_installed_def put_flag_def)

lemma hoare_tryE:
  "hoare P m (\<lambda>st s. if EFI_ERROR st then Q st s else R s) \<Longrightarrow> hoare R k Q \<Longrightarrow> hoare P (tryE m k) Q"
  by (auto simp: hoare_def tryE_Ret split: if_splits) metis+

lemma hoare_safe: "safe P m \<Longrightarrow> hoare P m (\<lambda>_. P)"
  by (auto simp: hoare_def dest: safe_Ret)

lemma attempts_set_installed [simp]:
  "ErrorRecoveryAttemptCount (set_installed p b I) = ErrorRecoveryAttemptCount I"
  by (cases p) (simp_all add: set_installed_def)

lemma install_at:
  assumes "\<And>f. J f \<Longrightarrow> K (put_flag p True f)"
  shows "hoare (at c J) (install E p) (\<lambda>st s. if EFI_ERROR st then at c J s else at c K s)"
  by (rule hoareI) (simp add: at_def attempts_def install_Ret assms)

lemma uninstall_at:
  assumes "uninstall_succeeds E" "\<And>f. J f \<Longrightarrow> K (put_flag p False f)"
  shows "hoare (at c J) (uninstall E p old) (\<lambda>st s. (EFI_ERROR st \<longrightarrow> EFI_ERROR old) \<and> at c K s)"
  by (rule hoareI, drule uninstall_Ret [OF assms(1)]) (simp add: at_def attempts_def assms(2))

lemma uninstall_step:
  assumes "uninstall_succeeds E" "\<And>f. J f \<Longrightarrow> K (put_flag p False f)" "hoare (at c K) k Q"
  shows "hoare (at c J) (tryE (uninstall E p EFI_SUCCESS) k) Q"
  by (rule hoare_tryE [OF hoare_weaken [OF uninstall_at [where J = J and K = K, OF assms(1,2)]] assms(3)])
    auto

lemma uninstall_all_at:
  assumes "uninstall_succeeds E"
  shows "hoare (at c J) (UninstallAllProtocols E)
           (\<lambda>st s. st = EFI_SUCCESS \<and> at c (\<lambda>f. f = (False, False, False)) s)"
  unfolding UninstallAllProtocols_def runE.simps
  apply (rule uninstall_step [OF assms, where K = "\<lambda>f. \<not> fst f"])
   apply (auto simp: put_flag_def)[1]
  apply (rule uninstall_step [OF assms, where K = "\<lambda>f. \<not> fst f \<and> \<not> snd (snd f)"])
   apply (auto simp: put_flag_def)[1]
  apply (rule uninstall_step [OF assms, where K = "\<lambda>f. f = (False, False, False)"])
   apply (auto simp: put_flag_def)[1]
  apply (rule hoare_ret, simp)
  done

text \<open>With uninstallation succeeding, a soft reset keeps the order of the flags.\<close>

lemma safe_hoare:
  assumes "safe (at c any_flags) m" "hoare (at c J) m (\<lambda>_. at c J)"
  shows "safe (at c J) m"
proof (rule safeI)
  show "at c J s'" if "at c J s" "m s = Ret (x, s')" for s x s'
    using hoareD [OF assms(2)] that by blast
  show "m s \<noteq> Stop OutOfFuel" if "at c J s" for s
    using safe_fuel [OF assms(1), of s] that by (simp add: at_def any_flags_def)
qed

lemma at_mono: "at c K s \<Longrightarrow> (\<And>f. K f \<Longrightarrow> L f) \<Longrightarrow> at c L s"
  by (simp add: at_def)

lemma at_pre:
  "hoare (at c L) m Q \<Longrightarrow> (\<And>f. K f \<Longrightarrow> L f) \<Longrightarrow> hoare (at c K) m Q"
  by (rule hoare_weaken [of "at c L" m Q]) (simp_all add: at_mono [of c K _ L])

definition with_block :: "flags \<Rightarrow> bool" where
  "with_block f \<longleftrightarrow> ordered_flags f \<and> fst f"

definition with_path :: "flags \<Rightarrow> bool" where
  "with_path f \<longleftrightarrow> ordered_flags f \<and> fst f \<and> fst (snd f)"

lemma flag_steps:
  "ordered_flags f \<Longrightarrow> with_block (put_flag gEfiBlockIoProtocolGuid True f)"
  "with_block f \<Longrightarrow> with_path (put_flag gEfiDevicePathProtocolGuid True f)"
  "with_path f \<Longrightarrow> with_path (put_flag gEfiRpmbIoProtocolGuid True f)"
  "with_block f \<Longrightarrow> ordered_flags f"
  "with_path f \<Longrightarrow> with_block f"
  "with_path f \<Longrightarrow> ordered_flags f"
  by (auto simp: with_block_def with_path_def ordered_flags_def put_flag_def)

lemma hoare_safe_step:
  "safe P m \<Longrightarrow> (\<And>x. hoare P (f x) Q) \<Longrightarrow> hoare P (bindM m f) Q"
  by (rule hoare_bindM [OF hoare_safe])

lemma hoare_install_step:
  assumes "\<And>f. J f \<Longrightarrow> K (put_flag p True f)"
    and "\<And>st. EFI_ERROR st \<Longrightarrow> hoare (at c J) (g st) Q"
    and "\<And>st. \<not> EFI_ERROR st \<Longrightarrow> hoare (at c K) (g st) Q"
  shows "hoare (at c J) (bindM (install E p) g) Q"
proof (rule hoare_bindM [OF install_at [where J = J and K = K, OF assms(1)]])
  show "hoare (\<lambda>s. if EFI_ERROR st then at c J s else at c K s) (g st) Q" for st
    using assms(2,3) [of st] by (cases "EFI_ERROR st") simp_all
qed

lemma install_rpmb_at:
  "hoare (at c with_path) (install_rpmb E old) (\<lambda>_. at c with_path)"
  unfolding install_rpmb_def
  by (rule hoare_safe_step [OF safe_getCard])
    (intro hoare_if hoare_ret hoare_safe_step [OF safe_IsRpmbInstalled]
      hoare_install_step [where J = with_path and K = with_path]
      hoare_safe_step [OF safe_modifyInst] flag_steps; simp)

lemma install_card_protocols_at:
  "hoare (at c ordered_flags) (install_card_protocols E) (\<lambda>_. at c ordered_flags)"
  unfolding install_card_protocols_def tryE_def
  apply (rule hoare_safe_step [OF safe_set_slot_node])
  apply (rule hoare_safe_step [OF safe_getInst])
  apply (rule hoare_safe_step [OF safe_hostM])
  apply (rule hoare_if, rule hoare_ret, assumption)
  apply (rule hoare_install_step [where K = with_block], erule flag_steps)
   apply (simp, rule hoare_ret, assumption)
  apply (simp, rule hoare_install_step [where K = with_path], erule flag_steps)
   apply (simp, rule hoare_ret, erule at_mono, erule flag_steps)
  apply (simp, rule hoare_weaken [OF install_rpmb_at], assumption, erule at_mono, erule flag_steps)
  done

lemma soft_reset_exit_at:
  assumes "uninstall_succeeds E"
  shows "hoare (at c ordered_flags) (soft_reset_exit E st) (\<lambda>_. at c ordered_flags)"
  unfolding soft_reset_exit_def
  apply (intro hoare_if hoare_ret, rule hoare_bindM)
    apply (rule uninstall_at [OF assms, where K = "\<lambda>f. ordered_flags f \<and> \<not> snd (snd f)"])
    apply (auto simp: put_flag_def ordered_flags_def)[1]
   apply (rule hoare_weaken [OF uninstall_at [OF assms, where K = ordered_flags
            and J = "\<lambda>f. ordered_flags f \<and> \<not> snd (snd f)"]])
     apply (auto simp: put_flag_def ordered_flags_def)
  done

lemma ordered_policy:
  assumes "uninstall_succeeds E"
  shows "reset_policy E ordered_flags"
proof
  show "safe (at c ordered_flags) (UninstallAllProtocols E)" for c
    by (rule safe_hoare [OF any.policy_uninstall], rule hoare_weaken [OF uninstall_all_at [OF assms]])
      (auto simp: at_def ordered_flags_def)
  show "safe (at c ordered_flags) (install E gEfiBlockIoProtocolGuid)" for c
    by (rule safe_hoare [OF any.policy_absent],
        rule hoare_weaken [OF install_at [where J = ordered_flags and K = with_block]])
      (auto simp: flag_steps elim: at_mono split: if_splits)
  show "safe (at c ordered_flags) (install_card_protocols E)" for c
    by (rule safe_hoare [OF any.policy_card install_card_protocols_at])
  show "safe (at c ordered_flags) (soft_reset_exit E st)" for c st
    by (rule safe_hoare [OF any.policy_exit soft_reset_exit_at [OF assms]])
qed

end
