(* ===== verification/SdState.thy ===== *)
theory SdState
  imports SdFlags
begin

text \<open>
  What the driver guarantees about the slot after initialisation and soft reset: the media
  description the block layer reads agrees with the card registers, and the published protocols
  with the presence of a card. Operations that report success keep or establish the description;
  this is stated once for every operation in \<open>honest_calls\<close>, from the same fact about the two
  command entry points.
\<close>

section \<open>Triples about success\<close>

definition succ :: "('s \<Rightarrow> bool) \<Rightarrow> ('s, EFI_STATUS) prog \<Rightarrow> ('s \<Rightarrow> bool) \<Rightarrow> bool" where
  "succ P m Q \<longleftrightarrow> hoare P m (\<lambda>st s. \<not> EFI_ERROR st \<longrightarrow> Q s)"

named_theorems succ_intros \<open>introduction rules for success triples\<close>

lemma succD: "succ P m Q \<Longrightarrow> P s \<Longrightarrow> m s = Ret (st, s') \<Longrightarrow> \<not> EFI_ERROR st \<Longrightarrow> Q s'"
  by (auto simp: succ_def hoare_def)

lemma succI: "(\<And>s st s'. P s \<Longrightarrow> m s = Ret (st, s') \<Longrightarrow> \<not> EFI_ERROR st \<Longrightarrow> Q s') \<Longrightarrow> succ P m Q"
  by (auto simp: succ_def hoare_def)

lemma succ_tryE: "succ P m R \<Longrightarrow> succ R k Q \<Longrightarrow> succ P (tryE m k) Q"
  by (rule succI) (auto simp: tryE_Ret split: if_splits dest: succD)

lemma succ_bindM: "hoare P m R \<Longrightarrow> (\<And>x. succ (R x) (f x) Q) \<Longrightarrow> succ P (bindM m f) Q"
  unfolding succ_def by (rule hoare_bindM)

lemma succ_ret [succ_intros]: "succ P (ret st) P"
  by (simp add: succ_def hoare_ret)

lemma succ_error: "EFI_ERROR st \<Longrightarrow> succ P (ret st) Q"
  by (simp add: succ_def hoare_ret)

lemma succ_stopM [succ_intros]: "succ P (stopM r) Q"
  by (simp add: succ_def hoare_stopM)

lemma succ_if [succ_intros]:
  "(b \<Longrightarrow> succ P m Q) \<Longrightarrow> (\<not> b \<Longrightarrow> succ P n Q) \<Longrightarrow> succ P (if b then m else n) Q"
  by simp

lemma succ_case_option [succ_intros]:
  "(x = None \<Longrightarrow> succ P m Q) \<Longrightarrow> (\<And>y. succ P (f y) Q) \<Longrightarrow>
   succ P (case x of None \<Rightarrow> m | Some y \<Rightarrow> f y) Q"
  by (cases x) auto

lemma succ_pre: "succ P' m Q \<Longrightarrow> (\<And>s. P s \<Longrightarrow> P' s) \<Longrightarrow> succ P m Q"
  by (auto simp: succ_def hoare_def)

lemma succ_post: "succ P m Q' \<Longrightarrow> (\<And>s. Q' s \<Longrightarrow> Q s) \<Longrightarrow> succ P m Q"
  by (auto simp: succ_def hoare_def)

lemma succ_conj: "succ P m Q \<Longrightarrow> succ P' m Q' \<Longrightarrow> succ (\<lambda>s. P s \<and> P' s) m (\<lambda>s. Q s \<and> Q' s)"
  by (auto simp: succ_def hoare_def)

lemma safe_succ: "safe P m \<Longrightarrow> succ P m P"
  by (auto simp: succ_def hoare_def dest: safe_Ret)

text \<open>A program that only reads: what follows sees the same state.\<close>

lemma succ_gets: "(\<And>x. succ (\<lambda>s. P s \<and> g s = x) (f x) Q) \<Longrightarrow> succ P (bindM (gets g) f) Q"
  by (auto simp: succ_def hoare_def bindM_def gets_def)

lemma succ_ASSERT: "(b \<Longrightarrow> succ P (f ()) Q) \<Longrightarrow> succ P (bindM (ASSERT b) f) Q"
  by (auto simp: succ_def hoare_def bindM_def ASSERT_def ret_def stopM_def)

lemma succ_modify: "succ R (f ()) Q \<Longrightarrow> (\<And>s. P s \<Longrightarrow> R (g s)) \<Longrightarrow> succ P (bindM (modify g) f) Q"
  by (auto simp: succ_def hoare_def bindM_def modify_def)

section \<open>The published description of the card\<close>

definition shows_card :: "(EFI_BLOCK_IO_MEDIA \<Rightarrow> CARD_INFO \<Rightarrow> bool) \<Rightarrow> 'h SdState \<Rightarrow> bool" where
  "shows_card G s \<longleftrightarrow> G (Media (Inst s)) (CardInfo (Inst s))"

lemma hoare_hostM: "hoare (shows_card G) (hostM f) (\<lambda>_. shows_card G)"
  by (auto simp: hoare_def hostM_def shows_card_def split: prod.splits)

lemma succ_hostM [succ_intros]: "succ (shows_card G) (hostM f) (shows_card G)"
  by (auto simp: succ_def hoare_def hostM_def shows_card_def split: prod.splits)

lemma succ_hostM_step [succ_intros]:
  "(\<And>x. succ (shows_card G) (f x) Q) \<Longrightarrow> succ (shows_card G) (bindM (hostM g) f) Q"
  by (rule succ_bindM [OF hoare_hostM])

lemma succ_getInst [succ_intros]:
  "(\<And>x. succ P (f x) Q) \<Longrightarrow> succ P (bindM (getInst g) f) Q"
  by (auto simp: succ_def hoare_def getInst_def)

lemma succ_getCard_any [succ_intros]:
  "(\<And>x. succ P (f x) Q) \<Longrightarrow> succ P (bindM (getCard g) f) Q"
  by (auto simp: succ_def hoare_def getCard_def)

lemma succ_read [succ_intros]:
  "(\<And>x. succ P (f x) Q) \<Longrightarrow> succ P (bindM RcaArg f) Q"
  "(\<And>x. succ P (f x) Q) \<Longrightarrow> succ P (bindM response0 f) Q"
  by (auto simp: succ_def hoare_def getInst_def getCard_def RcaArg_def response0_def)

definition keeps_view :: "(SDHC_INSTANCE \<Rightarrow> SDHC_INSTANCE) \<Rightarrow> bool" where
  "keeps_view f \<longleftrightarrow> (\<forall>I. Media (f I) = Media I \<and> CardInfo (f I) = CardInfo I)"

lemma succ_modifyInst [succ_intros]:
  "keeps_view f \<Longrightarrow> succ (shows_card G) (k ()) Q \<Longrightarrow> succ (shows_card G) (bindM (modifyInst f) k) Q"
  unfolding modifyInst_def
  by (rule succ_modify, assumption) (auto simp: shows_card_def keeps_view_def)

lemma succ_modifyCard:
  "succ (shows_card H) (k ()) Q \<Longrightarrow> (\<And>m c. G m c \<Longrightarrow> H m (f c)) \<Longrightarrow>
   succ (shows_card G) (bindM (modifyCard f) k) Q"
  unfolding modifyCard_def modifyInst_def
  by (rule succ_modify, assumption) (auto simp: shows_card_def)

lemma succ_modifyMedia:
  "succ (shows_card H) (k ()) Q \<Longrightarrow> (\<And>m c. G m c \<Longrightarrow> H (f m) c) \<Longrightarrow>
   succ (shows_card G) (bindM (modifyMedia f) k) Q"
  unfolding modifyMedia_def modifyInst_def
  by (rule succ_modify, assumption) (auto simp: shows_card_def)

text \<open>Programs without commands, as invariants of the description.\<close>

lemma succ_safe: "safe P m \<Longrightarrow> (\<And>x. succ P (f x) Q) \<Longrightarrow> succ P (bindM m f) Q"
  by (rule succ_bindM [OF hoare_safe])

lemma safe_card [safe_intros]:
  "(\<And>m c. G m c \<Longrightarrow> G m (f c)) \<Longrightarrow> safe (shows_card G) (modifyCard f)"
  unfolding modifyCard_def modifyInst_def by (intro safe_intros) (simp add: shows_card_def)

lemma safe_media [safe_intros]:
  "(\<And>m c. G m c \<Longrightarrow> G (f m) c) \<Longrightarrow> safe (shows_card G) (modifyMedia f)"
  unfolding modifyMedia_def modifyInst_def by (intro safe_intros) (simp add: shows_card_def)

lemma safe_view [safe_intros]:
  "keeps_view f \<Longrightarrow> safe (shows_card G) (modifyInst f)"
  unfolding modifyInst_def by (intro safe_intros) (simp add: shows_card_def keeps_view_def)

lemma safe_regs [safe_intros]:
  "(\<And>m c g. G m c \<Longrightarrow> G m (c\<lparr>Registers := g\<rparr>)) \<Longrightarrow> safe (shows_card G) (modifyRegs f)"
  unfolding modifyRegs_def by (intro safe_intros)

lemma keeps_view_simps [simp]:
  "keeps_view (\<lambda>I. I\<lparr>RpmbCid := cid\<rparr>)"
  "keeps_view (\<lambda>I. I\<lparr>ReliableSectorCount := rc, RpmbSizeMult := rm\<rparr>)"
  "keeps_view (\<lambda>I. I\<lparr>SlotInitialized := b\<rparr>)"
  "keeps_view (\<lambda>I. I\<lparr>SlotNode := n\<rparr>)"
  "keeps_view (\<lambda>I. I\<lparr>CurrentMmcPartition := p I\<rparr>)"
  "keeps_view (set_installed q b)"
  by (auto simp: keeps_view_def set_installed_def split: protocol.splits)

lemma succ_getCard:
  "(\<And>x. succ (shows_card (\<lambda>m c. G m c \<and> f c = x)) (k x) Q) \<Longrightarrow>
   succ (shows_card G) (bindM (getCard f) k) Q"
  by (auto simp: succ_def hoare_def getCard_def shows_card_def)

lemma shows_mono: "shows_card G s \<Longrightarrow> (\<And>m c. G m c \<Longrightarrow> H m c) \<Longrightarrow> shows_card H s"
  by (simp add: shows_card_def)

lemma succ_mono:
  "succ (shows_card G) m Q \<Longrightarrow> (\<And>a c. H a c \<Longrightarrow> G a c) \<Longrightarrow> succ (shows_card H) m Q"
  by (erule succ_pre) (erule shows_mono, blast)

text \<open>What the slot shows once the CSD of a card of function \<open>cf\<close> has been read.\<close>

definition csd_shown :: "CARD_FUNCTION \<Rightarrow> EFI_BLOCK_IO_MEDIA \<Rightarrow> CARD_INFO \<Rightarrow> bool" where
  "csd_shown cf m c \<longleftrightarrow>
     CardFunction c = cf \<and> BlockSize m = SD_BLOCK_LENGTH_BYTES \<and>
     ByteCapacity c = csd_capacity c \<and> LastBlock m = last_block (ByteCapacity c)"

text \<open>What an MMC slot shows once the extended CSD has been read.\<close>

definition ext_csd_shown :: "EFI_BLOCK_IO_MEDIA \<Rightarrow> CARD_INFO \<Rightarrow> bool" where
  "ext_csd_shown m c \<longleftrightarrow>
     CardFunction c = CardFunctionMmc \<and> BlockSize m = SD_BLOCK_LENGTH_BYTES \<and>
     ByteCapacity c = ucast (ext_csd_SectorCount (RegTail (Registers c))) * 512 \<and>
     LastBlock m = ucast (ext_csd_SectorCount (RegTail (Registers c)) - 1)"

text \<open>What an initialised slot shows.\<close>

definition card_shown :: "EFI_BLOCK_IO_MEDIA \<Rightarrow> CARD_INFO \<Rightarrow> bool" where
  "card_shown m c \<longleftrightarrow> csd_shown CardFunctionSd m c \<or> ext_csd_shown m c"

lemma csd_capacity_update [simp]: "csd_capacity (c\<lparr>ByteCapacity := b\<rparr>) = csd_capacity c"
  by (simp add: csd_capacity_def cong: if_cong)

lemma succ_SendCommandHelper [succ_intros]:
  "succ (shows_card G) (SdhcSendCommandHelper E Cmd Arg x) (shows_card G)"
  by (rule succI) (auto simp: SdhcSendCommandHelper_def tryE_Ret prog_defs check_card_status_def bindM_def
     shows_card_def split: if_splits outcome.splits option.splits prod.splits)

lemma succ_transfer_data [succ_intros]:
  "succ (shows_card G) (transfer_data E Cmd n b) (shows_card G)"
  by (rule succI)
    (auto simp: transfer_data_def prog_defs bindM_def shows_card_def write_buf_def
      split: if_splits outcome.splits prod.splits buf_ref.splits)

lemma SdhcSendStatus_Ret:
  "SdhcSendStatus R old s = Ret ((st, w), s') \<longleftrightarrow>
   (\<exists>st'. SdhcSendCommand R CmdSendStatus (push_bit 16 (RCA (CardInfo (Inst s)))) s = Ret (st', s') \<and>
      (if EFI_ERROR st' then st = st' \<and> w = old
       else st = EFI_SUCCESS \<and> w = CmdResponse (Inst s') ! 0))"
  by (auto simp: SdhcSendStatus_def RcaArg_def getCard_def response0_def getInst_def bindM_Ret
      gets_def ret_def split: if_splits)

text \<open>
  \<open>honest_calls R\<close>: a command that reports success has not changed what the slot shows.
\<close>

locale honest_calls =
  fixes R :: "'h SdCalls"
  assumes send_shows [succ_intros]:
      "succ (shows_card G) (SdhcSendCommand R Cmd Arg) (shows_card G)"
    and data_shows [succ_intros]:
      "succ (shows_card G) (SdhcSendDataCommand R Cmd Arg n b) (shows_card G)"
begin

lemma succ_send_step [succ_intros]:
  "succ (shows_card G) k Q \<Longrightarrow> succ (shows_card G) (tryE (SdhcSendCommand R Cmd Arg) k) Q"
  by (rule succ_tryE [OF send_shows])

lemma succ_data_step [succ_intros]:
  "succ (shows_card G) k Q \<Longrightarrow> succ (shows_card G) (tryE (SdhcSendDataCommand R Cmd Arg n b) k) Q"
  by (rule succ_tryE [OF data_shows])

lemma succ_SendStatus_step:
  assumes "\<And>w. succ (shows_card G) (k w) Q"
  shows "succ (shows_card G)
           (bindM (SdhcSendStatus R old) (\<lambda>(st, w). if EFI_ERROR st then ret st else k w)) Q"
proof (rule succI)
  fix s st s'
  assume s: "shows_card G s" and st: "\<not> EFI_ERROR st"
    and run: "bindM (SdhcSendStatus R old) (\<lambda>(st, w). if EFI_ERROR st then ret st else k w) s = Ret (st, s')"
  then obtain st1 w s1 where 1: "SdhcSendStatus R old s = Ret ((st1, w), s1)"
      and 2: "(if EFI_ERROR st1 then ret st1 else k w) s1 = Ret (st, s')"
    by (auto simp: bindM_Ret)
  from 2 st have ok: "\<not> EFI_ERROR st1" "k w s1 = Ret (st, s')"
    by (auto simp: ret_def split: if_splits)
  from 1 ok(1) obtain st2 where "SdhcSendCommand R CmdSendStatus (push_bit 16 (RCA (CardInfo (Inst s)))) s
      = Ret (st2, s1)" "\<not> EFI_ERROR st2"
    unfolding SdhcSendStatus_Ret by metis
  with s have "shows_card G s1"
    by (rule_tac succD [OF send_shows])
  with ok st show "Q s'"
    by (rule_tac succD [OF assms])
qed

lemma succ_wait_tran_loop:
  "succ (shows_card G) (wait_tran_loop E R n w) (shows_card G)"
  by (induction n arbitrary: w)
    (auto intro!: succ_intros succ_SendStatus_step intro: succ_error simp del: split_paired_All)

lemma succ_WaitForTran [succ_intros]:
  "succ (shows_card G) (SdhcWaitForTranStateAndReadyForData E R) (shows_card G)"
  unfolding SdhcWaitForTranStateAndReadyForData_def
  by (rule succ_SendStatus_step) (rule succ_wait_tran_loop)

lemma succ_simple [succ_intros]:
  "succ (shows_card G) (SdhcSelectDevice R) (shows_card G)"
  "succ (shows_card G) (SdhcSendCidAll R) (shows_card G)"
  "succ (shows_card G) (SdhcStopTransmission R) (shows_card G)"
  "succ (shows_card G) (SdhcSetBlockLength R n) (shows_card G)"
  "succ (shows_card G) (SdhcSetBlockCount R n rw) (shows_card G)"
  "succ (shows_card G) (SdhcSwitchBusWidthSd E R) (shows_card G)"
  unfolding SdhcSelectDevice_def SdhcSendCidAll_def SdhcStopTransmission_def SdhcSetBlockLength_def
    SdhcSetBlockCount_def SdhcSwitchBusWidthSd_def
  by (intro succ_intros succ_tryE [OF succ_hostM])+

text \<open>Before the CSD is read, all that matters is the identified function of the card.\<close>

lemma succ_SendRelativeAddr [succ_intros]:
  "succ (shows_card (\<lambda>m c. CardFunction c = cf)) (SdhcSendRelativeAddr R)
        (shows_card (\<lambda>m c. CardFunction c = cf))"
  unfolding SdhcSendRelativeAddr_def by (intro succ_intros succ_safe safe_intros; simp)

lemma succ_SendCid [succ_intros]:
  "succ (shows_card (\<lambda>m c. CardFunction c = cf)) (SdhcSendCid R)
        (shows_card (\<lambda>m c. CardFunction c = cf))"
  unfolding SdhcSendCid_def by (intro succ_intros succ_safe safe_intros; simp)

lemma succ_sd_op_cond_loop [succ_intros]:
  "succ (shows_card (\<lambda>m c. CardFunction c = cf)) (sd_op_cond_loop E R a n)
        (shows_card (\<lambda>m c. CardFunction c = cf))"
  by (induction n) (auto intro!: succ_intros succ_safe safe_intros)

lemma succ_SendOpCondSd [succ_intros]:
  "succ (shows_card (\<lambda>m c. CardFunction c = cf)) (SdhcSendOpCondSd E R)
        (shows_card (\<lambda>m c. CardFunction c = cf))"
  unfolding SdhcSendOpCondSd_def by (intro succ_intros succ_safe safe_intros; simp)

lemma succ_SendCsd:
  "succ (shows_card (\<lambda>m c. CardFunction c = cf)) (SdhcSendCsd R) (shows_card (csd_shown cf))"
  unfolding SdhcSendCsd_def
  apply (rule succ_read, rule succ_send_step, rule succ_getCard_any, rule succ_getInst)
  apply (rule succ_safe)
   apply (intro safe_intros; simp)
  apply (rule succ_getCard)
  apply (rule succ_modifyCard [where H = "\<lambda>m c. CardFunction c = cf \<and> csd_capacity c = cap \<and> ByteCapacity c = cap" for cap])
   apply (rule succ_modifyMedia [where H = "csd_shown cf"])
    apply (rule succ_ret)
   apply (auto simp: csd_shown_def)
  done

lemma succ_SetMaxClockFrequency [succ_intros]:
  "succ (shows_card G) (SdhcSetMaxClockFrequency E) (shows_card G)"
  unfolding SdhcSetMaxClockFrequency_def
  by (intro succ_intros succ_safe safe_intros succ_tryE [OF succ_hostM]) simp_all

lemma succ_InitializeSdDevice:
  "succ (shows_card (\<lambda>m c. CardFunction c = cf)) (InitializeSdDevice E R) (shows_card (csd_shown cf))"
  unfolding InitializeSdDevice_def runE.simps SdhcSwitchSpeedModeSd_def
  by (intro succ_tryE [OF succ_SendOpCondSd] succ_tryE [OF succ_simple(2)]
      succ_tryE [OF succ_SendRelativeAddr] succ_tryE [OF succ_SendCid] succ_tryE [OF succ_SendCsd]
      succ_tryE [OF succ_simple(1)] succ_tryE [OF succ_simple(6)] succ_tryE [OF succ_ret]
      succ_tryE [OF succ_SetMaxClockFrequency] succ_ret)

lemma succ_SendExtCsd:
  "succ (shows_card (\<lambda>m c. CardFunction c = CardFunctionMmc \<and> BlockSize m = SD_BLOCK_LENGTH_BYTES))
        (SdhcSendExtCsdMmc R) (shows_card ext_csd_shown)"
  unfolding SdhcSendExtCsdMmc_def modifyRegs_def
  apply (rule succ_read, rule succ_data_step, rule succ_getInst)
  subgoal for arg b
    apply (rule succ_modifyCard [where H = "\<lambda>m c. CardFunction c = CardFunctionMmc \<and>
             BlockSize m = SD_BLOCK_LENGTH_BYTES \<and> RegTail (Registers c) = b"])
     apply (rule succ_modifyCard [where H = "\<lambda>m c. CardFunction c = CardFunctionMmc \<and>
             BlockSize m = SD_BLOCK_LENGTH_BYTES \<and> RegTail (Registers c) = b \<and>
             ByteCapacity c = ucast (ext_csd_SectorCount b) * 512"])
      apply (rule succ_modifyMedia [where H = ext_csd_shown])
       apply (intro succ_intros; simp)
      apply (auto simp: ext_csd_shown_def)
    done
  done

lemma succ_SendExtCsd_again [succ_intros]:
  "succ (shows_card ext_csd_shown) (SdhcSendExtCsdMmc R) (shows_card ext_csd_shown)"
  by (rule succ_mono [OF succ_SendExtCsd]) (auto simp: ext_csd_shown_def)

lemma ext_csd_shown_speed [simp]:
  "ext_csd_shown m c \<Longrightarrow> ext_csd_shown m (c\<lparr>CurrentSpeedMode := v\<rparr>)"
  by (simp add: ext_csd_shown_def)

lemma succ_SwitchSpeedModeMmc [succ_intros]:
  "succ (shows_card ext_csd_shown) (SdhcSwitchSpeedModeMmc R) (shows_card ext_csd_shown)"
  unfolding SdhcSwitchSpeedModeMmc_def
  by (intro succ_intros succ_safe safe_intros succ_tryE [OF succ_SendExtCsd_again]; simp)

lemma succ_switch_power_class [succ_intros]:
  "succ (shows_card ext_csd_shown) (switch_power_class R pc) (shows_card ext_csd_shown)"
  unfolding switch_power_class_def
  by (intro succ_intros succ_tryE [OF succ_SendExtCsd_again])

lemma succ_SwitchBusWidthMmc [succ_intros]:
  "succ (shows_card ext_csd_shown) (SdhcSwitchBusWidthMmc E R) (shows_card ext_csd_shown)"
  unfolding SdhcSwitchBusWidthMmc_def Let_def
  by (intro succ_intros succ_tryE [OF succ_SendExtCsd_again]
      succ_tryE [OF succ_switch_power_class] succ_tryE [OF succ_hostM])

lemma succ_SwitchPartition:
  "succ (shows_card ext_csd_shown) (SdhcSwitchPartitionMmc R p) (shows_card ext_csd_shown)"
  unfolding SdhcSwitchPartitionMmc_def
  by (intro succ_intros succ_tryE [OF succ_SendExtCsd_again]; simp)

lemma succ_InitializeMmcDevice:
  "succ (shows_card (\<lambda>m c. CardFunction c = CardFunctionMmc)) (InitializeMmcDevice E R)
        (shows_card ext_csd_shown)"
  unfolding InitializeMmcDevice_def runE.simps check_spec_vers_def
  apply (rule succ_tryE [OF succ_simple(2)], rule succ_tryE [OF succ_SendRelativeAddr],
      rule succ_tryE [OF succ_SendCid], rule succ_tryE [OF succ_SendCsd])
  apply (rule succ_tryE [where R = "shows_card (csd_shown CardFunctionMmc)"], intro succ_intros)
  apply (rule succ_tryE [OF succ_simple(1)])
  apply (rule succ_tryE [OF succ_mono [OF succ_SendExtCsd]], simp add: csd_shown_def)
  apply (rule succ_tryE [OF succ_SwitchSpeedModeMmc], rule succ_tryE [OF succ_SwitchBusWidthMmc],
      rule succ_tryE [OF succ_SetMaxClockFrequency], rule succ_ret)
  done

lemma succ_initialize_by_function:
  "succ P (initialize_by_function E R) (shows_card card_shown)"
proof -
  have sd: "succ (shows_card (\<lambda>m c. CardFunction c = CardFunctionSd)) (InitializeSdDevice E R)
              (shows_card card_shown)"
    by (rule succI) (auto dest!: succD [OF succ_InitializeSdDevice] elim: shows_mono simp: card_shown_def)
  have mmc: "succ (shows_card (\<lambda>m c. CardFunction c = CardFunctionMmc)) (InitializeMmcDevice E R)
              (shows_card card_shown)"
    by (rule succI) (auto dest!: succD [OF succ_InitializeMmcDevice] elim: shows_mono simp: card_shown_def)
  have "succ (shows_card (\<lambda>m c. CardFunction c = cf))
          (case cf of CardFunctionComboSdSdio \<Rightarrow> ret EFI_UNSUPPORTED | CardFunctionSdio \<Rightarrow> ret EFI_UNSUPPORTED
           | CardFunctionSd \<Rightarrow> InitializeSdDevice E R | CardFunctionMmc \<Rightarrow> InitializeMmcDevice E R
           | CardFunctionUnknown \<Rightarrow> stopM AssertFailed) (shows_card card_shown)" for cf
    using sd mmc by (cases cf) (auto intro: succ_error succ_stopM)
  then have "succ (shows_card (\<lambda>_ _. True)) (initialize_by_function E R) (shows_card card_shown)"
    unfolding initialize_by_function_def by (intro succ_getCard) simp
  then show ?thesis
    by (rule succ_pre) (simp add: shows_card_def)
qed

end

section \<open>The driver's entry points are honest\<close>

lemma succ_recover: "EFI_ERROR st \<Longrightarrow> succ P (bindM m (\<lambda>_. ret st)) Q"
  by (auto simp: succ_def hoare_def bindM_Ret ret_def)

lemma succ_or_recover:
  assumes "succ P m R" "\<And>st. \<not> EFI_ERROR st \<Longrightarrow> succ R (k st) Q"
  shows "succ P (bindM m (\<lambda>st. if EFI_ERROR st then bindM (rec st) (\<lambda>_. ret st) else k st)) Q"
proof (rule succI)
  fix s st s'
  assume s: "P s" and ok: "\<not> EFI_ERROR st"
    and "bindM m (\<lambda>st. if EFI_ERROR st then bindM (rec st) (\<lambda>_. ret st) else k st) s = Ret (st, s')"
  then obtain st1 s1 where 1: "m s = Ret (st1, s1)"
      and 2: "(if EFI_ERROR st1 then bindM (rec st1) (\<lambda>_. ret st1) else k st1) s1 = Ret (st, s')"
    by (auto simp: bindM_Ret)
  with ok have "\<not> EFI_ERROR st1"
    by (auto simp: bindM_Ret ret_def)
  with 1 2 s ok show "Q s'"
    by (auto intro: succD [OF assms(2) succD [OF assms(1)]])
qed

lemma safe_open_ended_card: "safe (shows_card G) (open_ended Cmd)"
  unfolding open_ended_def by (intro safe_intros) simp

lemma honest_Suc:
  assumes "honest_calls R"
  shows "succ (shows_card G) (SdhcSendCommand_body E R Cmd Arg) (shows_card G)"
    and "succ (shows_card G) (SdhcSendDataCommand_body E R Cmd Arg n b) (shows_card G)"
proof -
  note wait = honest_calls.succ_WaitForTran [OF assms]
    and stop = honest_calls.succ_simple(3) [OF assms]
  show "succ (shows_card G) (SdhcSendCommand_body E R Cmd Arg) (shows_card G)"
    unfolding SdhcSendCommand_body_def
    by (rule succ_or_recover [OF succ_SendCommandHelper]) (intro succ_intros succ_tryE [OF wait])
  show "succ (shows_card G) (SdhcSendDataCommand_body E R Cmd Arg n b) (shows_card G)"
    unfolding SdhcSendDataCommand_body_def
    by (rule succ_ASSERT, rule succ_or_recover [where R = "shows_card G"])
      (intro succ_intros succ_tryE [OF succ_SendCommandHelper] succ_tryE [OF succ_transfer_data]
        succ_tryE [where R = "shows_card G"] succ_safe [OF safe_open_ended_card] stop wait)+
qed

lemma honest_top: "honest_calls (SdTop E n)"
proof (induction n)
  case 0
  show ?case
    by unfold_locales (simp_all add: succ_stopM)
next
  case (Suc n)
  show ?case
    by unfold_locales (simp_all add: honest_Suc [OF Suc.IH])
qed

interpretation honest: honest_calls "Sd E" for E :: "'h SdEnv"
  unfolding Sd_def by (rule honest_top)

section \<open>What success means\<close>

text \<open>The slot is initialised and its description agrees with the registers of the card.\<close>

definition slot_ready :: "'h SdState \<Rightarrow> bool" where
  "slot_ready s \<longleftrightarrow>
     SlotInitialized (Inst s) \<and> card_shown (Media (Inst s)) (CardInfo (Inst s)) \<and>
     MediaId (Media (Inst s)) = cid_serial (CardInfo (Inst s)) \<and>
     RemovableMedia (Media (Inst s)) = (CardFunction (CardInfo (Inst s)) = CardFunctionSd)"

lemma csd_shown_media [simp]:
  "csd_shown cf (m\<lparr>RemovableMedia := b, MediaId := i\<rparr>) c = csd_shown cf m c"
  "ext_csd_shown (m\<lparr>RemovableMedia := b, MediaId := i\<rparr>) c = ext_csd_shown m c"
  by (simp_all add: csd_shown_def ext_csd_shown_def)

lemma succ_publish_media: "succ (shows_card card_shown) publish_media slot_ready"
  by (rule succI)
    (auto simp: publish_media_def prog_defs bindM_def slot_ready_def shows_card_def card_shown_def
      split: if_splits)

lemma succ_InitializeDevice:
  assumes "honest_calls R"
  shows "succ P (InitializeDevice E R) slot_ready"
proof -
  have any: "succ P m (\<lambda>_. True)" for P and m :: "('a, EFI_STATUS) sd"
    by (simp add: succ_def hoare_def)
  have tail: "succ P (runE [hostM a, hostM b, SdhcQueryCardType E R, initialize_by_function E R,
      SdhcSetBlockLength R n, publish_media]) slot_ready" for P a b n
    unfolding runE.simps
    by (rule succ_tryE [OF any], rule succ_tryE [OF any], rule succ_tryE [OF any],
        rule succ_tryE [OF honest_calls.succ_initialize_by_function [OF assms]],
        rule succ_tryE [OF honest_calls.succ_simple(4) [OF assms]],
        rule succ_tryE [OF succ_publish_media], rule succ_ret)
  show ?thesis
    unfolding InitializeDevice_def
    by (rule succ_bindM [where R = "\<lambda>_ _. True"], simp add: hoare_def)+ (rule tail)
qed

text \<open>
  Property C9. Initialisation that reports success leaves the slot ready: for an SD card the
  published capacity, block size and last block are those of the CSD, for an MMC device those of the
  extended CSD, the media identifier is the serial number of the card and only an SD card is
  removable. It holds whatever error recovery happened on the way.
\<close>
theorem InitializeDevice_ready:
  assumes "InitializeDevice E (Sd E) s = Ret (st, s')"
    and "\<not> EFI_ERROR st"
  shows "slot_ready s'"
  using succD [OF succ_InitializeDevice [OF honest.honest_calls_axioms] TrueI assms] .

section \<open>Soft reset\<close>

lemma ready_hostM: "safe slot_ready (hostM f)"
  by (auto simp: safe_def hostM_def slot_ready_def split: prod.splits)

lemma ready_modifyInst:
  assumes "\<And>I. Media (f I) = Media I \<and> CardInfo (f I) = CardInfo I \<and> SlotInitialized (f I) = SlotInitialized I"
  shows "safe slot_ready (modifyInst f)"
  by (simp add: safe_def modifyInst_def modify_def slot_ready_def assms)

lemma ready_set_installed: "safe slot_ready (modifyInst (set_installed p b))"
  by (rule ready_modifyInst) (cases p; simp add: set_installed_def)

lemma ready_install: "safe slot_ready (install E p)"
  unfolding install_def by (intro safe_intros ready_hostM ready_set_installed)

lemma ready_install_card_protocols: "safe slot_ready (install_card_protocols E)"
  unfolding install_card_protocols_def set_slot_node_def install_rpmb_def
    IsRpmbInstalledOnTheSystem_def
  by (intro safe_intros ready_modifyInst ready_hostM ready_install; simp)

text \<open>Publishing a card sets both flags, whatever they were.\<close>

definition published :: "flags \<Rightarrow> bool" where
  "published f \<longleftrightarrow> fst f \<and> fst (snd f)"

lemma published_steps:
  "fst (put_flag gEfiBlockIoProtocolGuid True f)"
  "fst f \<Longrightarrow> published (put_flag gEfiDevicePathProtocolGuid True f)"
  "published f \<Longrightarrow> published (put_flag gEfiRpmbIoProtocolGuid True f)"
  by (auto simp: published_def put_flag_def split: prod.splits)

lemma published_rpmb: "hoare (at c published) (install_rpmb E old) (\<lambda>_. at c published)"
  unfolding install_rpmb_def
  by (rule hoare_safe_step [OF safe_getCard])
    (intro hoare_if hoare_ret hoare_safe_step [OF safe_IsRpmbInstalled]
      hoare_install_step [where J = published and K = published]
      hoare_safe_step [OF safe_modifyInst] published_steps; simp)

lemma published_install: "succ (at c any_flags) (install_card_protocols E) (at c published)"
  unfolding install_card_protocols_def tryE_def succ_def
  apply (rule hoare_safe_step [OF safe_set_slot_node])
  apply (rule hoare_safe_step [OF safe_getInst])
  apply (rule hoare_safe_step [OF safe_hostM])
  apply (rule hoare_if, rule hoare_ret, simp)
  apply (rule hoare_install_step [where K = fst], rule published_steps)
   apply (simp, rule hoare_ret, simp)
  apply (simp, rule hoare_install_step [where K = published], erule published_steps)
   apply (simp, rule hoare_ret, simp)
  apply (simp, rule hoare_weaken [OF published_rpmb], assumption, simp)
  done

text \<open>What a soft reset establishes.\<close>

definition slot_consistent :: "'h SdState \<Rightarrow> bool" where
  "slot_consistent s \<longleftrightarrow>
     BlockIoProtocolInstalled (Inst s) \<and> (DevicePathProtocolInstalled (Inst s) \<longrightarrow> slot_ready s)"

definition no_flags :: "flags \<Rightarrow> bool" where
  "no_flags f \<longleftrightarrow> f = (False, False, False)"

lemma succ_reset_absent: "succ (at c no_flags) (install E gEfiBlockIoProtocolGuid) slot_consistent"
  by (rule succI)
    (auto dest!: install_Ret simp: slot_consistent_def at_def flags_of_def set_installed_def
      no_flags_def)

lemma succ_reset_present:
  assumes "honest_calls R"
  shows "succ P (reset_present_card E R) slot_consistent"
proof -
  have "succ slot_ready (install_card_protocols E) slot_consistent"
  proof (rule succI)
    fix s st s'
    assume run: "slot_ready s" "install_card_protocols E s = Ret (st, s')" "\<not> EFI_ERROR st"
    have "at (attempts s) published s'"
      using succD [OF published_install _ run(2,3)] by simp
    moreover have "slot_ready s'"
      using safe_Ret [OF ready_install_card_protocols run(1,2)] .
    ultimately show "slot_consistent s'"
      by (simp add: slot_consistent_def at_def flags_of_def published_def)
  qed
  from succ_tryE [OF succ_InitializeDevice [OF assms] this] show ?thesis
    unfolding reset_present_card_def
    by (intro succ_bindM [where P = P and R = "\<lambda>_ _. True"]
        succ_bindM [where P = "\<lambda>_. True" and R = "\<lambda>_ _. True"]) (simp_all add: hoare_def)
qed

text \<open>An uninstallation that reports success leaves its flag clear, whatever the other ones are.\<close>

lemma uninstall_success:
  assumes "uninstall E p old s = Ret (st, s')" "\<not> EFI_ERROR st"
  shows "Inst s' = set_installed p False (Inst s) \<and> (EFI_ERROR old \<longrightarrow> installed p (Inst s))"
proof (cases "installed p (Inst s)")
  case True
  with assms show ?thesis
    by (auto simp: uninstall_def getInst_def hostM_def modifyInst_def gets_def modify_def ret_def
        bindM_def split: prod.splits if_splits)
next
  case False
  then have "set_installed p False (Inst s) = Inst s"
    by (cases p) (simp_all add: set_installed_def installed_def)
  with False assms show ?thesis
    by (auto simp: uninstall_def getInst_def gets_def ret_def bindM_def)
qed

lemma succ_uninstall:
  assumes "\<And>f. J f \<Longrightarrow> K (put_flag p False f)"
  shows "succ (at c J) (uninstall E p old) (at c K)"
  by (rule succI, drule (1) uninstall_success) (simp add: at_def attempts_def assms)

lemma succ_uninstall_all: "succ (at c any_flags) (UninstallAllProtocols E) (at c no_flags)"
  unfolding UninstallAllProtocols_def runE.simps
  by (rule succ_tryE [OF succ_uninstall [where K = "\<lambda>f. \<not> fst f"]],
      auto simp: put_flag_def any_flags_def)
    (rule succ_tryE [OF succ_uninstall [where K = "\<lambda>f. \<not> fst f \<and> \<not> snd (snd f)"]],
      auto simp: put_flag_def, rule succ_tryE [OF succ_uninstall [where K = no_flags] succ_ret],
      auto simp: put_flag_def no_flags_def)

lemma succ_soft_reset_main:
  assumes "honest_calls R"
  shows "succ (at c any_flags) (soft_reset_main E R) slot_consistent"
  unfolding soft_reset_main_def
  by (rule succ_tryE [OF succ_uninstall_all])
    (intro succ_safe [OF safe_clear_instance] succ_safe [OF safe_hostM]
      succ_safe [OF safe_modifyMedia] succ_if succ_reset_absent succ_reset_present [OF assms])

text \<open>Whatever its status, an uninstallation touches no flag but its own.\<close>

lemma uninstall_others:
  "uninstall E p old s = Ret (st, s') \<Longrightarrow> Inst s' = Inst s \<or> Inst s' = set_installed p False (Inst s)"
  by (auto simp: uninstall_def getInst_def hostM_def modifyInst_def gets_def modify_def ret_def
      bindM_def split: prod.splits if_splits)

lemma masked_exit:
  assumes "soft_reset_exit E st0 s = Ret (st, s')" "EFI_ERROR st0" "\<not> EFI_ERROR st"
  shows "\<not> DevicePathProtocolInstalled (Inst s') \<and>
    (BlockIoProtocolInstalled (Inst s') = BlockIoProtocolInstalled (Inst s)) \<and>
    (DevicePathProtocolInstalled (Inst s) \<or>
     RpmbIoProtocolInstalled (Inst s) \<and> \<not> RpmbIoProtocolInstalled (Inst s'))"
proof -
  from assms(1,2) obtain st1 s1
    where 1: "uninstall E gEfiRpmbIoProtocolGuid st0 s = Ret (st1, s1)"
      and 2: "uninstall E gEfiDevicePathProtocolGuid st1 s1 = Ret (st, s')"
    by (auto simp: soft_reset_exit_def bindM_Ret)
  have path: "Inst s' = set_installed gEfiDevicePathProtocolGuid False (Inst s1)"
      "EFI_ERROR st1 \<longrightarrow> DevicePathProtocolInstalled (Inst s1)"
    using uninstall_success [OF 2 assms(3)] by (auto simp: installed_def)
  show ?thesis
  proof (cases "EFI_ERROR st1")
    case True
    have "DevicePathProtocolInstalled (Inst s1) = DevicePathProtocolInstalled (Inst s) \<and>
        BlockIoProtocolInstalled (Inst s1) = BlockIoProtocolInstalled (Inst s)"
      using uninstall_others [OF 1] by (auto simp: set_installed_def)
    with True path show ?thesis by (simp add: set_installed_def)
  next
    case False
    from uninstall_success [OF 1 False] assms(2) path show ?thesis
      by (auto simp: set_installed_def installed_def)
  qed
qed

text \<open>
  Property C8. A soft reset that reports success, whatever the card and the boot services did,
  publishes the device path only for a slot that is ready and whose block protocol is published. When
  no step failed, the block protocol is published. When a step failed and only the clean-up at \<open>Exit\<close>
  turned the error into success, the device path is not published any more, and the clean-up has
  really taken something back: the device path, or else the RPMB protocol.
\<close>
theorem SoftReset_consistent:
  assumes "SoftReset E (Sd E) s = Ret (st, s')" "\<not> EFI_ERROR st"
  shows "(DevicePathProtocolInstalled (Inst s') \<longrightarrow> BlockIoProtocolInstalled (Inst s') \<and> slot_ready s') \<and>
    (case soft_reset_main E (Sd E) s of
       Ret (st0, s0) \<Rightarrow>
         if EFI_ERROR st0
         then \<not> DevicePathProtocolInstalled (Inst s') \<and>
           (BlockIoProtocolInstalled (Inst s') = BlockIoProtocolInstalled (Inst s0)) \<and>
           (DevicePathProtocolInstalled (Inst s0) \<or>
            RpmbIoProtocolInstalled (Inst s0) \<and> \<not> RpmbIoProtocolInstalled (Inst s'))
         else BlockIoProtocolInstalled (Inst s')
     | Stop _ \<Rightarrow> False)"
proof -
  from assms(1) obtain st0 s0 where main: "soft_reset_main E (Sd E) s = Ret (st0, s0)"
      and exit: "soft_reset_exit E st0 s0 = Ret (st, s')"
    by (auto simp: SoftReset_def bindM_Ret)
  show ?thesis
  proof (cases "EFI_ERROR st0")
    case True
    from masked_exit [OF exit True assms(2)] True main show ?thesis by simp
  next
    case False
    with exit have "s' = s0"
      by (simp add: soft_reset_exit_def ret_def)
    then have "slot_consistent s'"
      using succD [OF succ_soft_reset_main [OF honest.honest_calls_axioms] _ main False,
          of "attempts s"] by simp
    with False main show ?thesis by (simp add: slot_consistent_def)
  qed
qed

end
