(* ===== verification/SdSim.thy ===== *)
theory SdSim
  imports SdFuel
begin

text \<open>
  A simulated slot: one concrete implementation of the two interfaces, used to evaluate the
  driver's operations on real command sequences. The card answers like a 25 MHz SDHC card or like a
  sector-addressed eMMC whose extended CSD is written by SWITCH commands; commands of the other
  family time out. It is an instance of the parameters and models no code of the repository.
\<close>

text \<open>
  For evaluation: each program runs only once it is given its state, so that the bodies of loops and
  the branches not taken are left alone.
\<close>

lemmas run_code [code] =
  ret_def [THEN fun_cong] stopM_def [THEN fun_cong] bindM_def [THEN fun_cong]
  gets_def [THEN fun_cong] modify_def [THEN fun_cong] ASSERT_def [THEN fun_cong]
  tryE_def [THEN fun_cong] hostM_def [THEN fun_cong] modifyInst_def [THEN fun_cong]
  modifyMedia_def [THEN fun_cong] modifyCard_def [THEN fun_cong] modifyRegs_def [THEN fun_cong]
  getInst_def [THEN fun_cong] getCard_def [THEN fun_cong] RcaArg_def [THEN fun_cong]
  readDataM_def [THEN fun_cong] writeDataM_def [THEN fun_cong] receiveM_def [THEN fun_cong]
  response0_def [THEN fun_cong] check_card_status_def [THEN fun_cong]
  SdhcSendCommandHelper_def [THEN fun_cong] SdhcSendStatus_def [THEN fun_cong]
  wait_tran_loop.simps [THEN fun_cong] SdhcWaitForTranStateAndReadyForData_def [THEN fun_cong]
  SdhcGoIdleState_def [THEN fun_cong] SdhcSelectDevice_def [THEN fun_cong]
  SdhcDeselectDevice_def [THEN fun_cong] SdhcSendAppCmd_def [THEN fun_cong]
  SdhcStopTransmission_def [THEN fun_cong] SdhcSendCidAll_def [THEN fun_cong]
  SdhcSendRelativeAddr_def [THEN fun_cong] SdhcSetBlockLength_def [THEN fun_cong]
  SdhcSetBlockCount_def [THEN fun_cong] SdhcSendCid_def [THEN fun_cong]
  SdhcSendCsd_def [THEN fun_cong] SdhcSetMaxClockFrequency_def [THEN fun_cong]
  SdhcSendScrSd_def [THEN fun_cong] SdhcSendIfCondSd_def [THEN fun_cong]
  sd_op_cond_loop.simps [THEN fun_cong] SdhcSendOpCondSd_def [THEN fun_cong]
  SdhcSwitchBusWidthSd_def [THEN fun_cong] SdhcSwitchSpeedModeSd_def [THEN fun_cong]
  SdhcSendOpCondSdio_def [THEN fun_cong] mmc_op_cond_loop.simps [THEN fun_cong]
  SdhcSendOpCondMmc_def [THEN fun_cong] SdhcSendExtCsdMmc_def [THEN fun_cong]
  switch_power_class_def [THEN fun_cong] SdhcSwitchBusWidthMmc_def [THEN fun_cong]
  SdhcSwitchSpeedModeMmc_def [THEN fun_cong] SdhcSwitchPartitionMmc_def [THEN fun_cong]
  SdhcQueryCardType_def [THEN fun_cong] InitializeSdDevice_def [THEN fun_cong]
  check_spec_vers_def [THEN fun_cong] InitializeMmcDevice_def [THEN fun_cong]
  install_def [THEN fun_cong] uninstall_def [THEN fun_cong]
  UninstallAllProtocols_def [THEN fun_cong] IsRpmbInstalledOnTheSystem_def [THEN fun_cong]
  initialize_by_function_def [THEN fun_cong] publish_media_def [THEN fun_cong]
  InitializeDevice_def [THEN fun_cong] set_slot_node_def [THEN fun_cong]
  install_rpmb_def [THEN fun_cong] install_card_protocols_def [THEN fun_cong]
  reset_present_card_def [THEN fun_cong] soft_reset_main_def [THEN fun_cong]
  soft_reset_exit_def [THEN fun_cong] SoftReset_def [THEN fun_cong]
  stop_open_transfer_def [THEN fun_cong] recovery_sequence_def [THEN fun_cong]
  SdhcRecoverFromErrors_def [THEN fun_cong] SdhcSendCommand_body_def [THEN fun_cong]
  transfer_data_def [THEN fun_cong] open_ended_def [THEN fun_cong]
  SdhcSendDataCommand_body_def [THEN fun_cong]
  runE.simps [THEN fun_cong]

record SimHost =
  SimCard :: CARD_FUNCTION
  SimExtCsd :: "u8 list"
  SimProtocols :: "protocol list"
  SimClock :: u32

definition sim_rejects :: "CARD_FUNCTION \<Rightarrow> SD_COMMAND \<Rightarrow> bool" where
  "sim_rejects cf Cmd \<longleftrightarrow>
     cf = CardFunctionUnknown \<or> CmdIndex Cmd = 5 \<or>
     (cf = CardFunctionMmc \<and> (Cmd = CmdSendIfCondSd \<or> CmdClass Cmd = SdCommandClassApp)) \<or>
     (cf = CardFunctionSd \<and> Cmd = CmdSendOpCondMmc)"

definition sim_send ::
    "SD_COMMAND \<Rightarrow> u32 \<Rightarrow> SD_COMMAND_XFR_INFO option \<Rightarrow> SimHost \<Rightarrow> EFI_STATUS \<times> SimHost" where
  "sim_send Cmd Arg x h =
     (if sim_rejects (SimCard h) Cmd then (EFI_TIMEOUT, h)
      else if Cmd = CmdSwitchMmc then
        (EFI_SUCCESS, h\<lparr>SimExtCsd := (SimExtCsd h)
           [unat (get_field MMC_SWITCH_CMD_ARG_layout ''Index'' Arg) :=
            ucast (get_field MMC_SWITCH_CMD_ARG_layout ''Value'' Arg)]\<rparr>)
      else (EFI_SUCCESS, h))"

definition sim_response :: "CARD_FUNCTION \<Rightarrow> SD_COMMAND \<Rightarrow> u32 list" where
  "sim_response cf Cmd =
     (if Cmd = CmdSendIfCondSd then [0x1AA, 0, 0, 0]
      else if CmdIndex Cmd = 41 then [0xC0FF8000, 0, 0, 0]
      else if CmdIndex Cmd = 1 then [0xC0FF8080, 0, 0, 0]
      else if CmdIndex Cmd = 9 then
        (if cf = CardFunctionSd then [0, 0x003B3700, 0x325B5000, 0x00400000]
         else [0, 0, 0x32000000, 0x00100000])
      else if CmdIndex Cmd = 10 then [0x45670000, 0x0000AB89, 0, 0]
      else if CmdIndex Cmd = 3 then [0x12340000, 0, 0, 0]
      else [0x00000900, 0, 0, 0])"

definition sim_host :: "SimHost EFI_SDHC_PROTOCOL" where
  "sim_host =
     \<lparr>SdhcId = 1,
      GetCapabilities = (\<lambda>h. (\<lparr>MaximumBlockSize = 512, MaximumBlockCount = 4\<rparr>, h)),
      SoftwareReset = (\<lambda>_ h. (EFI_SUCCESS, h)),
      SetClock = (\<lambda>f h. (EFI_SUCCESS, h\<lparr>SimClock := f\<rparr>)),
      SetBusWidth = (\<lambda>_ h. (EFI_SUCCESS, h)),
      IsCardPresent = (\<lambda>h. (SimCard h \<noteq> CardFunctionUnknown, h)),
      IsReadOnly = (\<lambda>h. (False, h)),
      SendCommand = sim_send,
      ReceiveResponse = (\<lambda>Cmd _ h. ((EFI_SUCCESS, sim_response (SimCard h) Cmd), h)),
      ReadBlockData = (\<lambda>n h. ((EFI_SUCCESS, take (unat n) (SimExtCsd h)), h)),
      WriteBlockData = (\<lambda>_ _ h. (EFI_SUCCESS, h)),
      Cleanup = (\<lambda>h. ((), h))\<rparr>"

definition sim_gBS :: "SimHost EFI_BOOT_SERVICES" where
  "sim_gBS =
     \<lparr>InstallProtocol = (\<lambda>_ p h. (EFI_SUCCESS, h\<lparr>SimProtocols := p # SimProtocols h\<rparr>)),
      UninstallProtocol = (\<lambda>_ p h. (EFI_SUCCESS, h\<lparr>SimProtocols := remove1 p (SimProtocols h)\<rparr>)),
      LocateProtocol = (\<lambda>p h. (if p \<in> set (SimProtocols h) then EFI_SUCCESS else EFI_NOT_FOUND, h)),
      OpenProtocol = (\<lambda>_ _ _ _ h. (EFI_SUCCESS, h)),
      CloseProtocol = (\<lambda>_ _ agent _ h.
        (if agent = DriverBindingHandle then EFI_SUCCESS else EFI_NOT_FOUND, h)),
      Stall = (\<lambda>_ h. ((), h)),
      ConvertDevicePathToText = (\<lambda>_ h. (True, h)),
      AllocatePool = (\<lambda>h. (True, h))\<rparr>"

definition sim_env :: "SimHost SdEnv" where
  "sim_env = \<lparr>HostExt = sim_host, gBS = sim_gBS\<rparr>"

definition sim_start :: "CARD_FUNCTION \<Rightarrow> SimHost SdState" where
  "sim_start cf =
     \<lparr>Inst = zero_SDHC_INSTANCE\<lparr>HostCapabilities := \<lparr>MaximumBlockSize = 512, MaximumBlockCount = 4\<rparr>\<rparr>,
      ResultRequest = initial_ResultRequest,
      Bufs = (\<lambda>_. []),
      Hw = \<lparr>SimCard = cf, SimExtCsd = replicate 512 0, SimProtocols = [], SimClock = 0\<rparr>\<rparr>"

lemma sim_start_attempts [simp]: "attempts (sim_start cf) = 0"
  by (simp add: attempts_def sim_start_def zero_SDHC_INSTANCE_def)

text \<open>A slot whose card has been identified.\<close>

definition sim_ready :: "CARD_FUNCTION \<Rightarrow> SimHost SdState" where
  "sim_ready cf =
     (let s = sim_start cf in
      s\<lparr>Inst := (Inst s)\<lparr>CardInfo := zero_CARD_INFO\<lparr>CardFunction := cf,
                                      CurrentSpeedMode := CardSpeedModeNormalSpeed\<rparr>\<rparr>\<rparr>)"

lemma sim_ready_attempts [simp]: "attempts (sim_ready cf) = 0"
  by (simp add: attempts_def sim_ready_def sim_start_def zero_SDHC_INSTANCE_def)

lemma sim_ready_flags [simp]: "flags_of (Inst (sim_ready cf)) = (False, False, False)"
  by (simp add: flags_of_def sim_ready_def sim_start_def zero_SDHC_INSTANCE_def)

lemma sim_uninstall_succeeds: "uninstall_succeeds sim_env"
  by (simp add: uninstall_succeeds_def sim_env_def sim_gBS_def)

text \<open>Whether a run ends without error, as a value to evaluate.\<close>

definition succeeds :: "('s, EFI_STATUS) prog \<Rightarrow> 's \<Rightarrow> bool" where
  "succeeds m s = (case m s of Ret (st, _) \<Rightarrow> \<not> EFI_ERROR st | Stop _ \<Rightarrow> False)"

lemma succeedsE:
  assumes "succeeds m s"
  obtains st s' where "m s = Ret (st, s')" "\<not> EFI_ERROR st"
  using assms by (auto simp: succeeds_def split: outcome.splits)

text \<open>A run that succeeds at a small recursion depth is the run of the driver.\<close>

lemma below_succeeds: "below m n \<Longrightarrow> succeeds m s \<Longrightarrow> succeeds n s"
  using below_eq [of m n s] by (auto simp: succeeds_def split: outcome.splits)

lemma shallow_calls: "more_calls (SdTop E 2) (Sd E)"
  unfolding Sd_def by (rule more_calls_le) (simp add: recovery_fuel_def)

text \<open>The boot services of a firmware that refuses to uninstall the block protocol.\<close>

definition stuck_env :: "SimHost SdEnv" where
  "stuck_env = sim_env\<lparr>gBS := sim_gBS\<lparr>UninstallProtocol := (\<lambda>_ p h.
     if p = gEfiBlockIoProtocolGuid then (EFI_ACCESS_DENIED, h) else (EFI_SUCCESS, h))\<rparr>\<rparr>"

end
