(* ===== verification/SdSpec.thy ===== *)
theory SdSpec
  imports SdState SdSim
begin

text \<open>
  What the command layer promises its callers: the record of the last two successful commands, the
  status handed back after an error, the refusal of a fourth nested recovery, and the card state
  after SWITCH and data commands. The theorems are about the entry points of the driver; the
  simulated slot of \<open>SdSim\<close> supplies their witnesses.
\<close>

section \<open>Termination of recovery, at a concrete start\<close>

theorem commands_terminate_witness:
  "(case SdhcSendCommand (Sd sim_env) CmdSelect 7 (sim_start CardFunctionSd) of
      Ret (st, s') \<Rightarrow> attempts s' = 0 | Stop r \<Rightarrow> r \<noteq> OutOfFuel)"
  using commands_terminate [OF sim_start_attempts, of sim_env CmdSelect 7 CardFunctionSd] by simp

theorem entry_point_equations_witness:
  "SdhcSendCommand (Sd sim_env) CmdSelect 7 (sim_start CardFunctionSd) =
   SdhcSendCommand_body sim_env (Sd sim_env) CmdSelect 7 (sim_start CardFunctionSd)"
  using entry_point_equations [OF sim_start_attempts, of sim_env CmdSelect 7 CardFunctionSd] by simp

section \<open>One command\<close>

lemma SdhcSendCommandHelper_ok:
  assumes "SdhcSendCommandHelper E Cmd Arg x s = Ret (st, s')" "\<not> EFI_ERROR st"
  shows "st = EFI_SUCCESS" "LastSuccessfulCmd (Inst s') = Some Cmd"
    "PreLastSuccessfulCmd (Inst s') = LastSuccessfulCmd (Inst s)"
    "ResponseType Cmd = SdResponseTypeR1 \<or> ResponseType Cmd = SdResponseTypeR1B \<Longrightarrow>
       IsCardStatusError (CardFunction (CardInfo (Inst s'))) (CmdResponse (Inst s') ! 0) = Some 0"
  using assms
  by (auto simp: SdhcSendCommandHelper_def tryE_Ret prog_defs check_card_status_def bindM_def
      split: if_splits outcome.splits option.splits prod.splits)

lemma Sd_unfold:
  "SdhcSendCommand (Sd E) = SdhcSendCommand_body E (SdTop E 7)"
  "SdhcSendDataCommand (Sd E) = SdhcSendDataCommand_body E (SdTop E 7)"
  using SdTop_sel [of E 7] by (simp_all add: Sd_def recovery_fuel_def)

text \<open>
  A command that reports success (SWITCH aside, which polls the status afterwards) has
  recorded itself as the last successful command and moved its predecessor one place back, and the
  status word of an R1 or R1b response carries none of the errors the driver looks for.
\<close>
theorem SdhcSendCommand_records:
  assumes "SdhcSendCommand (Sd E) Cmd Arg s = Ret (st, s')"
    and "\<not> EFI_ERROR st" "\<not> is_switch_cmd Cmd"
  shows "st = EFI_SUCCESS \<and> LastSuccessfulCmd (Inst s') = Some Cmd \<and>
         PreLastSuccessfulCmd (Inst s') = LastSuccessfulCmd (Inst s) \<and>
         (ResponseType Cmd = SdResponseTypeR1 \<or> ResponseType Cmd = SdResponseTypeR1B \<longrightarrow>
            IsCardStatusError (CardFunction (CardInfo (Inst s'))) (CmdResponse (Inst s') ! 0) = Some 0)"
proof -
  from assms obtain st1 where run: "SdhcSendCommandHelper E Cmd Arg None s = Ret (st1, s')"
      "\<not> EFI_ERROR st1" and "st = EFI_SUCCESS"
    by (auto simp: Sd_unfold SdhcSendCommand_body_def bindM_Ret ret_def is_switch_cmd_def split: if_splits)
  then show ?thesis
    using SdhcSendCommandHelper_ok [OF run] by simp
qed

theorem SdhcSendCommand_records_witness:
  "\<exists>st s'. SdhcSendCommand (Sd sim_env) CmdGoIdleState 0 (sim_ready CardFunctionSd) = Ret (st, s') \<and>
     LastSuccessfulCmd (Inst s') = Some CmdGoIdleState"
proof -
  have "succeeds (SdhcSendCommand (Sd sim_env) CmdGoIdleState 0) (sim_ready CardFunctionSd)"
    by code_simp
  then obtain st s' where
    run: "SdhcSendCommand (Sd sim_env) CmdGoIdleState 0 (sim_ready CardFunctionSd) = Ret (st, s')"
      and ok: "\<not> EFI_ERROR st"
    by (rule succeedsE)
  have "\<not> is_switch_cmd CmdGoIdleState" by code_simp
  from SdhcSendCommand_records [OF run ok this] run show ?thesis by blast
qed

text \<open>
  A command that fails hands back its own error, whatever the recovery that follows
  reports: the result of \<open>SdhcRecoverFromErrors\<close> is not visible to the caller.
\<close>
lemma SdhcSendCommand_error:
  assumes "SdhcSendCommandHelper E Cmd Arg None s = Ret (st, s1)" "EFI_ERROR st"
    and "SdhcSendCommand (Sd E) Cmd Arg s = Ret (st', s')"
  shows "st' = st"
  using assms by (auto simp: Sd_unfold SdhcSendCommand_body_def bindM_Ret ret_def)

theorem SdhcSendCommand_error_witness:
  "\<exists>s'. SdhcSendCommand (Sd sim_env) CmdSendOpCondSdio 0 (sim_ready CardFunctionSd) = Ret (EFI_TIMEOUT, s')"
proof -
  have helper: "SdhcSendCommandHelper sim_env CmdSendOpCondSdio 0 None (sim_ready CardFunctionSd) =
      Ret (EFI_TIMEOUT, sim_ready CardFunctionSd)"
    by (simp add: SdhcSendCommandHelper_def tryE_def bindM_def ret_def hostM_def sim_env_def
        sim_host_def sim_send_def sim_rejects_def CmdSendOpCondSdio_def)
  have "(case SdhcSendCommand (Sd sim_env) CmdSendOpCondSdio 0 (sim_ready CardFunctionSd) of
           Ret _ \<Rightarrow> True | Stop _ \<Rightarrow> False)"
    by code_simp
  then obtain st s' where
    run: "SdhcSendCommand (Sd sim_env) CmdSendOpCondSdio 0 (sim_ready CardFunctionSd) = Ret (st, s')"
    by (auto split: outcome.splits)
  from SdhcSendCommand_error [OF helper _ run] run show ?thesis by auto
qed

text \<open>
  With three recoveries in progress a fourth is refused at once: it reports a protocol
  error and leaves the instance, the buffers and the hardware exactly as they were.
\<close>
theorem SdhcRecoverFromErrors_refuses:
  assumes "SDMMC_ERROR_RECOVERY_ATTEMPT_THRESHOLD \<le> attempts s" "attempts s \<noteq> - 1"
  shows "SdhcRecoverFromErrors E R Cmd s = Ret (EFI_PROTOCOL_ERROR, s)"
proof -
  have "attempts s + 1 > SDMMC_ERROR_RECOVERY_ATTEMPT_THRESHOLD"
    using assms unatSuc [of "attempts s"]
    by (simp add: word_less_nat_alt word_le_nat_alt eq_neg_iff_add_eq_0 add.commute)
  then show ?thesis
    by (simp add: SdhcRecoverFromErrors_def modifyInst_def getInst_def gets_def modify_def bindM_def
        ret_def attempts_def)
qed

theorem SdhcRecoverFromErrors_refuses_witness:
  "SdhcRecoverFromErrors sim_env (Sd sim_env) CmdSelect
     (sim_start CardFunctionSd\<lparr>Inst := zero_SDHC_INSTANCE\<lparr>ErrorRecoveryAttemptCount := 3\<rparr>\<rparr>) =
   Ret (EFI_PROTOCOL_ERROR,
     sim_start CardFunctionSd\<lparr>Inst := zero_SDHC_INSTANCE\<lparr>ErrorRecoveryAttemptCount := 3\<rparr>\<rparr>)"
  by (rule SdhcRecoverFromErrors_refuses) (simp_all add: SDMMC_ERROR_RECOVERY_ATTEMPT_THRESHOLD_def)

section \<open>Waiting for the transfer state\<close>

definition in_tran_state :: "u32 \<Rightarrow> bool" where
  "in_tran_state w \<longleftrightarrow> READY_FOR_DATA w \<and> CURRENT_STATE w = CARD_STATE_code CardStateTran"

lemma wait_tran_loop_ok:
  assumes "wait_tran_loop E R n w s = Ret (st, s')" "\<not> EFI_ERROR st" "w = CmdResponse (Inst s) ! 0"
  shows "st = EFI_SUCCESS \<and> in_tran_state (CmdResponse (Inst s') ! 0)"
  using assms
proof (induction n arbitrary: w s)
  case (Suc n)
  show ?case
  proof (cases "in_tran_state w")
    case True
    with Suc.prems show ?thesis
      by (auto simp: in_tran_state_def ret_def)
  next
    case False
    with Suc.prems obtain s1 st1 w1 s2 where "SdhcSendStatus R w s1 = Ret ((st1, w1), s2)"
        and run: "(if EFI_ERROR st1 then ret st1 else wait_tran_loop E R n w1) s2 = Ret (st, s')"
      by (auto simp: in_tran_state_def bindM_Ret)
    then have "\<not> EFI_ERROR st1 \<Longrightarrow> w1 = CmdResponse (Inst s2) ! 0"
      by (auto simp: SdhcSendStatus_Ret split: if_splits)
    with run Suc.prems(2) show ?thesis
      by (intro Suc.IH) (auto simp: ret_def split: if_splits)
  qed
qed (auto simp: ret_def)

lemma WaitForTran_ok:
  assumes "SdhcWaitForTranStateAndReadyForData E R s = Ret (st, s')" "\<not> EFI_ERROR st"
  shows "st = EFI_SUCCESS \<and> in_tran_state (CmdResponse (Inst s') ! 0)"
proof -
  from assms obtain st1 w1 s1 where "SdhcSendStatus R 0 s = Ret ((st1, w1), s1)"
      and run: "(if EFI_ERROR st1 then ret st1
                 else wait_tran_loop E R SDMMC_POLL_WAIT_COUNT w1) s1 = Ret (st, s')"
    by (auto simp: SdhcWaitForTranStateAndReadyForData_def bindM_Ret)
  then have "\<not> EFI_ERROR st1 \<Longrightarrow> w1 = CmdResponse (Inst s1) ! 0"
    by (auto simp: SdhcSendStatus_Ret split: if_splits)
  with run assms(2) show ?thesis
    by (intro wait_tran_loop_ok) (auto simp: ret_def split: if_splits)
qed

text \<open>
  Property C35. When a SWITCH command or any data command reports success, the last status the card
  sent shows it back in the transfer state and ready for data.
\<close>
theorem transfers_end_in_tran:
  assumes "\<not> EFI_ERROR st"
    and "(is_switch_cmd Cmd \<and> SdhcSendCommand (Sd E) Cmd Arg s = Ret (st, s')) \<or>
         SdhcSendDataCommand (Sd E) Cmd Arg n b s = Ret (st, s')"
  shows "st = EFI_SUCCESS \<and> in_tran_state (CmdResponse (Inst s') ! 0)"
proof -
  obtain st1 s1 where "SdhcWaitForTranStateAndReadyForData E (SdTop E 7) s1 = Ret (st1, s')"
      "\<not> EFI_ERROR st1" "st = EFI_SUCCESS \<or> st = st1"
    using assms
    by (auto simp: Sd_unfold SdhcSendCommand_body_def SdhcSendDataCommand_body_def is_switch_cmd_def
        bindM_Ret tryE_Ret ret_def ASSERT_def stopM_def split: if_splits)
  then show ?thesis
    using WaitForTran_ok by blast
qed

theorem transfers_end_in_tran_witness:
  "\<exists>st s'. SdhcSendCommand (Sd sim_env) CmdSwitchMmc 0x03B90100 (sim_ready CardFunctionMmc) =
     Ret (st, s') \<and> in_tran_state (CmdResponse (Inst s') ! 0)"
proof -
  have "succeeds (SdhcSendCommand (Sd sim_env) CmdSwitchMmc 0x03B90100) (sim_ready CardFunctionMmc)"
    by code_simp
  then obtain st s' where
    run: "SdhcSendCommand (Sd sim_env) CmdSwitchMmc 0x03B90100 (sim_ready CardFunctionMmc) = Ret (st, s')"
      and ok: "\<not> EFI_ERROR st"
    by (rule succeedsE)
  have "is_switch_cmd CmdSwitchMmc" by (simp add: is_switch_cmd_def)
  with transfers_end_in_tran [OF ok, of CmdSwitchMmc sim_env "0x03B90100"] run show ?thesis by blast
qed

text \<open>
  The answer to the last poll is thrown away: with one retry left and a card that was
  not ready, the wait reports an error even when that poll finds the card in the transfer state.
\<close>
lemma wait_ignores_last_poll:
  assumes "\<not> in_tran_state w" "wait_tran_loop E R (Suc 0) w s = Ret (st, s')"
  shows "EFI_ERROR st"
  using assms by (auto simp: in_tran_state_def bindM_Ret ret_def split: if_splits)

theorem wait_ignores_last_poll_witness:
  "\<exists>st s'. wait_tran_loop sim_env (Sd sim_env) (Suc 0) 0 (sim_ready CardFunctionSd) = Ret (st, s') \<and>
     in_tran_state (CmdResponse (Inst s') ! 0) \<and> EFI_ERROR st"
proof -
  have "(case wait_tran_loop sim_env (Sd sim_env) (Suc 0) 0 (sim_ready CardFunctionSd) of
           Ret (st, s') \<Rightarrow> in_tran_state (CmdResponse (Inst s') ! 0) | Stop _ \<Rightarrow> False)"
    by code_simp
  then obtain st s' where
    run: "wait_tran_loop sim_env (Sd sim_env) (Suc 0) 0 (sim_ready CardFunctionSd) = Ret (st, s')"
      and "in_tran_state (CmdResponse (Inst s') ! 0)"
    by (auto split: outcome.splits)
  moreover have "\<not> in_tran_state 0" by code_simp
  ultimately show ?thesis
    using wait_ignores_last_poll [OF _ run] by blast
qed

section \<open>Partitions and the extended CSD\<close>

lemma succ_any: "succ P m (\<lambda>_. True)"
  by (simp add: succ_def hoare_def)

lemma succ_switch_partition:
  "succ P (SdhcSwitchPartitionMmc R p)
     (\<lambda>s. CurrentMmcPartition (Inst s) = p \<and> access_of (partition_config (CardInfo (Inst s))) = p)"
  unfolding SdhcSwitchPartitionMmc_def
  by (rule succ_getCard_any, rule succ_tryE [OF succ_any], rule succ_tryE [OF succ_any])
    (auto simp: succ_def hoare_def getCard_def modifyInst_def modify_def ret_def bindM_Ret
      split: if_splits)

text \<open>
  A partition switch that reports success was confirmed by the device: the access
  field of the extended CSD read back is the requested partition, and the driver tracks it.
\<close>
theorem SdhcSwitchPartitionMmc_confirmed:
  assumes "SdhcSwitchPartitionMmc (Sd E) p s = Ret (st, s')" "\<not> EFI_ERROR st"
  shows "CurrentMmcPartition (Inst s') = p \<and> access_of (partition_config (CardInfo (Inst s'))) = p"
  using succD [OF succ_switch_partition TrueI assms] by simp

theorem SdhcSwitchPartitionMmc_confirmed_witness:
  "\<exists>st s'. SdhcSwitchPartitionMmc (Sd sim_env) MmcExtCsdPartitionAccessRpmb (sim_ready CardFunctionMmc) =
     Ret (st, s') \<and> CurrentMmcPartition (Inst s') = MmcExtCsdPartitionAccessRpmb"
proof -
  have "succeeds (SdhcSwitchPartitionMmc (SdTop sim_env 2) MmcExtCsdPartitionAccessRpmb)
          (sim_ready CardFunctionMmc)"
    by code_simp
  then have "succeeds (SdhcSwitchPartitionMmc (Sd sim_env) MmcExtCsdPartitionAccessRpmb)
          (sim_ready CardFunctionMmc)"
    by (rule below_succeeds [OF more_calls.below_switches(4) [OF shallow_calls]])
  then obtain st s' where
    run: "SdhcSwitchPartitionMmc (Sd sim_env) MmcExtCsdPartitionAccessRpmb (sim_ready CardFunctionMmc)
          = Ret (st, s')" and ok: "\<not> EFI_ERROR st"
    by (rule succeedsE)
  from SdhcSwitchPartitionMmc_confirmed [OF run ok] run show ?thesis by blast
qed

text \<open>
  The argument of the partition SWITCH changes the access bits and nothing else: the
  boot configuration in the other five bits of the register is written back unchanged.
\<close>
lemma with_access_keeps_boot:
  "access_of (with_access p cfg) = p \<and>
   get_field MMC_EXT_CSD_PARTITION_CONFIG_layout ''BOOT_PARTITION_ENABLE'' (with_access p cfg) =
     get_field MMC_EXT_CSD_PARTITION_CONFIG_layout ''BOOT_PARTITION_ENABLE'' cfg \<and>
   get_field MMC_EXT_CSD_PARTITION_CONFIG_layout ''BOOT_ACK'' (with_access p cfg) =
     get_field MMC_EXT_CSD_PARTITION_CONFIG_layout ''BOOT_ACK'' cfg"
  by (intro conjI; (simp add: access_of_def with_access_def get_set_same)?)
    (simp_all add: with_access_def get_set_other MMC_EXT_CSD_PARTITION_CONFIG_layout_def)

text \<open>
  For a device of standard capacity, whose extended CSD has a sector count of zero,
  a successful read of the extended CSD overwrites the capacity computed from the CSD with zero and
  the last block with 0xFFFFFFFF.
\<close>
lemma zero_sector_count_wraps:
  assumes "SdhcSendExtCsdMmc (Sd E) s = Ret (st, s')" "\<not> EFI_ERROR st"
    and "CardFunction (CardInfo (Inst s)) = CardFunctionMmc"
    and "BlockSize (Media (Inst s)) = SD_BLOCK_LENGTH_BYTES"
    and "ext_csd_SectorCount (RegTail (Registers (CardInfo (Inst s')))) = 0"
  shows "ByteCapacity (CardInfo (Inst s')) = 0 \<and> LastBlock (Media (Inst s')) = 0xFFFFFFFF"
proof -
  have "(ucast (- 1 :: u32) :: u64) = 0xFFFFFFFF"
    by code_simp
  then show ?thesis
    using succD [OF honest.succ_SendExtCsd _ assms(1,2)] assms(3-5)
    by (simp add: shows_card_def ext_csd_shown_def)
qed

theorem zero_sector_count_wraps_witness:
  "\<exists>st s'. SdhcSendExtCsdMmc (Sd sim_env) (sim_ready CardFunctionMmc) = Ret (st, s') \<and>
     LastBlock (Media (Inst s')) = 0xFFFFFFFF"
proof -
  have "(case SdhcSendExtCsdMmc (Sd sim_env) (sim_ready CardFunctionMmc) of
           Ret (st, s') \<Rightarrow> \<not> EFI_ERROR st \<and>
             ext_csd_SectorCount (RegTail (Registers (CardInfo (Inst s')))) = 0 | Stop _ \<Rightarrow> False)"
    by code_simp
  then obtain st s' where
    run: "SdhcSendExtCsdMmc (Sd sim_env) (sim_ready CardFunctionMmc) = Ret (st, s')"
      and ok: "\<not> EFI_ERROR st"
      and zero: "ext_csd_SectorCount (RegTail (Registers (CardInfo (Inst s')))) = 0"
    by (auto split: outcome.splits)
  have "CardFunction (CardInfo (Inst (sim_ready CardFunctionMmc))) = CardFunctionMmc"
    "BlockSize (Media (Inst (sim_ready CardFunctionMmc))) = SD_BLOCK_LENGTH_BYTES"
    by (simp_all add: sim_ready_def sim_start_def zero_SDHC_INSTANCE_def gSdhcMediaTemplate_def)
  from zero_sector_count_wraps [OF run ok this zero] run show ?thesis by blast
qed

section \<open>Initialisation and soft reset\<close>

definition sim_inserted :: "SimHost SdState" where
  "sim_inserted = (let s = sim_start CardFunctionSd in
     s\<lparr>Inst := (Inst s)\<lparr>Media := (Media (Inst s))\<lparr>MediaPresent := True\<rparr>\<rparr>\<rparr>)"

theorem InitializeDevice_ready_witness:
  "\<exists>st s'. InitializeDevice sim_env (Sd sim_env) sim_inserted = Ret (st, s') \<and> slot_ready s'"
proof -
  have "succeeds (InitializeDevice sim_env (SdTop sim_env 2)) sim_inserted"
    by code_simp
  then have "succeeds (InitializeDevice sim_env (Sd sim_env)) sim_inserted"
    by (rule below_succeeds [OF more_calls.below_InitializeDevice [OF shallow_calls]])
  then obtain st s' where run: "InitializeDevice sim_env (Sd sim_env) sim_inserted = Ret (st, s')"
      and ok: "\<not> EFI_ERROR st"
    by (rule succeedsE)
  from InitializeDevice_ready [OF run ok] run show ?thesis by blast
qed

theorem SoftReset_consistent_witness:
  "\<exists>st s'. SoftReset sim_env (Sd sim_env) (sim_start CardFunctionSd) = Ret (st, s') \<and>
     DevicePathProtocolInstalled (Inst s') \<and> BlockIoProtocolInstalled (Inst s') \<and> slot_ready s'"
proof -
  have "case SoftReset sim_env (SdTop sim_env 2) (sim_start CardFunctionSd) of
      Ret (st, s') \<Rightarrow> \<not> EFI_ERROR st \<and> DevicePathProtocolInstalled (Inst s') | Stop _ \<Rightarrow> False"
    by code_simp
  then obtain st s' where
    run: "SoftReset sim_env (SdTop sim_env 2) (sim_start CardFunctionSd) = Ret (st, s')"
      and ok: "\<not> EFI_ERROR st" "DevicePathProtocolInstalled (Inst s')"
    by (auto split: outcome.splits)
  have "SoftReset sim_env (Sd sim_env) (sim_start CardFunctionSd) = Ret (st, s')"
    using below_eq [OF more_calls.below_SoftReset [OF shallow_calls], of sim_env sim_env "sim_start CardFunctionSd"]
      run by simp
  from SoftReset_consistent [OF this ok(1)] this ok show ?thesis by blast
qed

text \<open>
  The masked failure is real: a soft reset can report success having done nothing. When
  the block protocol cannot be uninstalled, the clean-up at \<open>Exit\<close> removes the device path and its
  success replaces the error; the slot still counts as initialised and nothing was reset.
\<close>
theorem SoftReset_hides_failure:
  "\<exists>s'. SoftReset stuck_env R
          (sim_start cf\<lparr>Inst := zero_SDHC_INSTANCE\<lparr>SlotInitialized := True,
             BlockIoProtocolInstalled := True, DevicePathProtocolInstalled := True\<rparr>\<rparr>)
        = Ret (EFI_SUCCESS, s') \<and>
        SlotInitialized (Inst s') \<and> BlockIoProtocolInstalled (Inst s') \<and>
        \<not> DevicePathProtocolInstalled (Inst s')"
  by (simp add: SoftReset_def soft_reset_main_def soft_reset_exit_def UninstallAllProtocols_def
      tryE_def uninstall_def bindM_def getInst_def gets_def installed_def hostM_def ret_def
      modifyInst_def modify_def set_installed_def stuck_env_def zero_SDHC_INSTANCE_def)

end
