(* ===== verification/SdBlockIo.thy ===== *)
theory SdBlockIo
  imports SdSpec "HOL-Library.Multiset"
begin

text \<open>
  The block I/O protocol of the driver (\<open>Microsoft/Drivers/SdMmcDxe/BlockIo.c\<close>): the checks and the
  transfer loop of \<open>IoBlocks\<close>, its four callbacks, and the sort of the read statistics. \<open>UINTN\<close> is
  64 bits wide, as on the AArch64 boards the driver is built for.
\<close>

section \<open>The transfer loop\<close>

text \<open>A caller's buffer: its address and its number in \<open>Bufs\<close>.\<close>

type_synonym io_buffer = "u64 \<times> nat"

definition DataCommandRetryCount :: nat where "DataCommandRetryCount = 3"

fun send_retry ::
    "'h SdCalls \<Rightarrow> SD_COMMAND \<Rightarrow> u32 \<Rightarrow> u32 \<Rightarrow> buf_ref \<Rightarrow> nat \<Rightarrow> EFI_STATUS \<Rightarrow> ('h, EFI_STATUS) sd" where
  "send_retry R Cmd Lba n b 0 Status = ret Status"
| "send_retry R Cmd Lba n b (Suc Retry) Status =
     bindM (SdhcSendDataCommand R Cmd Lba n b) (\<lambda>Status.
     if \<not> EFI_ERROR Status then ret Status else send_retry R Cmd Lba n b Retry Status)"

text \<open>
  \<open>for (; BytesRemaining > 0;)\<close>. The block size is read again in every round. A status that no
  round has set is returned uninitialised.
\<close>

fun io_loop ::
    "'h SdCalls \<Rightarrow> SD_COMMAND \<Rightarrow> u32 \<Rightarrow> nat \<Rightarrow> nat \<Rightarrow> nat \<Rightarrow> u32 \<Rightarrow> u32 \<Rightarrow> EFI_STATUS option \<Rightarrow>
     ('h, EFI_STATUS) sd" where
  "io_loop R Cmd MaxTransferSize bid n off BytesRemaining CurrentLba Status =
     (if BytesRemaining = 0 then
        (case Status of None \<Rightarrow> stopM UninitializedRead | Some st \<Rightarrow> ret st)
      else case n of
        0 \<Rightarrow> stopM OutOfFuel
      | Suc m \<Rightarrow>
          (let CurrentBufferSize =
                 (if BytesRemaining < MaxTransferSize then BytesRemaining else MaxTransferSize) in
           bindM (send_retry R Cmd CurrentLba CurrentBufferSize (MemRef bid off)
                    DataCommandRetryCount EFI_SUCCESS) (\<lambda>st.
           bindM (getInst (\<lambda>I. BlockSize (Media I))) (\<lambda>bs.
           if bs = 0 then stopM DivideByZero
           else io_loop R Cmd MaxTransferSize bid m (off + unat CurrentBufferSize)
                  (BytesRemaining - CurrentBufferSize) (CurrentLba + CurrentBufferSize div bs)
                  (Some st)))))"

declare io_loop.simps [simp del]

definition io_command :: "SD_TRANSFER_DIRECTION \<Rightarrow> u32 \<Rightarrow> SD_COMMAND" where
  "io_command dir BlockCount =
     (if dir = SdTransferDirectionRead
      then (if BlockCount = 1 then CmdReadSingleBlock else CmdReadMultiBlock)
      else (if BlockCount = 1 then CmdWriteSingleBlock else CmdWriteMultiBlock))"

text \<open>\<open>(Lba + BlockCount - 1) > LastBlock\<close>, in 64 bits.\<close>

definition out_of_media :: "u64 \<Rightarrow> u32 \<Rightarrow> u64 \<Rightarrow> bool" where
  "out_of_media Lba BlockCount Last \<longleftrightarrow> Lba + ucast BlockCount - 1 > Last"

definition misaligned :: "u32 \<Rightarrow> u64 \<Rightarrow> bool" where
  "misaligned Align Buffer \<longleftrightarrow> Align > 2 \<and> Buffer AND ucast (Align - 1) \<noteq> 0"

text \<open>The loop runs at most once per byte when the transfer size is not zero.\<close>

definition io_fuel :: "u64 \<Rightarrow> nat" where
  "io_fuel BufferSize = unat (ucast BufferSize :: u32)"

definition IoBlocks ::
    "'h SdCalls \<Rightarrow> SD_TRANSFER_DIRECTION \<Rightarrow> u32 \<Rightarrow> u64 \<Rightarrow> u64 \<Rightarrow> io_buffer option \<Rightarrow> ('h, EFI_STATUS) sd" where
  "IoBlocks R dir mid Lba BufferSize Buffer =
     bindM (getInst Media) (\<lambda>m.
     if MediaId m \<noteq> mid then ret EFI_MEDIA_CHANGED
     else case Buffer of
       None \<Rightarrow> ret EFI_INVALID_PARAMETER
     | Some (address, bid) \<Rightarrow>
         if \<not> MediaPresent m then ret EFI_NO_MEDIA
         else if BufferSize = 0 then ret EFI_SUCCESS
         else if dir = SdTransferDirectionWrite \<and> ReadOnly m then ret EFI_WRITE_PROTECTED
         else if BlockSize m = 0 then stopM DivideByZero
         else if BufferSize mod ucast (BlockSize m) \<noteq> 0 then ret EFI_BAD_BUFFER_SIZE
         else
           (let BlockCount = (ucast (BufferSize div ucast (BlockSize m)) :: u32) in
            if out_of_media Lba BlockCount (LastBlock m) then ret EFI_INVALID_PARAMETER
            else if misaligned (IoAlign m) address then ret EFI_INVALID_PARAMETER
            else
              bindM (getInst (\<lambda>I. MaximumBlockCount (HostCapabilities I) * BlockSize (Media I)))
                (\<lambda>MaxTransferSize.
              io_loop R (io_command dir BlockCount) MaxTransferSize bid
                (io_fuel BufferSize) 0 (ucast BufferSize) (ucast Lba) None)))"

definition BlockIoReset :: "'h SdEnv \<Rightarrow> 'h SdCalls \<Rightarrow> ('h, EFI_STATUS) sd" where
  "BlockIoReset E R = SoftReset E R"

definition BlockIoReadBlocks ::
    "'h SdCalls \<Rightarrow> u32 \<Rightarrow> u64 \<Rightarrow> u64 \<Rightarrow> io_buffer option \<Rightarrow> ('h, EFI_STATUS) sd" where
  "BlockIoReadBlocks R mid Lba BufferSize Buffer =
     IoBlocks R SdTransferDirectionRead mid Lba BufferSize Buffer"

definition BlockIoWriteBlocks ::
    "'h SdCalls \<Rightarrow> u32 \<Rightarrow> u64 \<Rightarrow> u64 \<Rightarrow> io_buffer option \<Rightarrow> ('h, EFI_STATUS) sd" where
  "BlockIoWriteBlocks R mid Lba BufferSize Buffer =
     IoBlocks R SdTransferDirectionWrite mid Lba BufferSize Buffer"

definition BlockIoFlushBlocks :: "('h, EFI_STATUS) sd" where
  "BlockIoFlushBlocks = ret EFI_SUCCESS"

section \<open>The read statistics\<close>

record IoReadStatsEntry =
  NumBlocks :: u16
  ReadCount :: u16
  TotalTransferTimeUs :: u32

fun shift_down :: "IoReadStatsEntry list \<Rightarrow> nat \<Rightarrow> IoReadStatsEntry \<Rightarrow> IoReadStatsEntry list" where
  "shift_down Table 0 CurrEntry = Table[0 := CurrEntry]"
| "shift_down Table (Suc J) CurrEntry =
     (if TotalTransferTimeUs (Table ! J) < TotalTransferTimeUs CurrEntry
      then shift_down (Table[Suc J := Table ! J]) J CurrEntry
      else Table[Suc J := CurrEntry])"

definition SortIoReadStatsByTotalTransferTime ::
    "IoReadStatsEntry list \<Rightarrow> nat \<Rightarrow> IoReadStatsEntry list" where
  "SortIoReadStatsByTotalTransferTime Table NumEntries =
     fold (\<lambda>Idx T. shift_down T Idx (T ! Idx)) [1..<NumEntries] Table"

abbreviation (input) slower :: "IoReadStatsEntry \<Rightarrow> IoReadStatsEntry \<Rightarrow> bool" where
  "slower a b \<equiv> TotalTransferTimeUs b \<le> TotalTransferTimeUs a"

lemma shift_down_shape:
  "j < length T \<Longrightarrow> sorted_wrt slower (take j T) \<Longrightarrow>
   \<exists>k\<le>j. shift_down T j e = take k T @ e # drop k (take j T) @ drop (Suc j) T \<and>
     (\<forall>x\<in>set (take k T). slower x e) \<and> (\<forall>x\<in>set (drop k (take j T)). slower e x)"
proof (induction j arbitrary: T)
  case 0
  then show ?case by (cases T) auto
next
  case (Suc j)
  have split: "take (Suc j) T = take j T @ [T ! j]" "drop (Suc j) (T[Suc j := T ! j]) = T ! j # drop (Suc (Suc j)) T"
      "min (length T) j = j"
    using Suc.prems(1) by (simp_all add: take_Suc_conv_app_nth list_eq_iff_nth_eq nth_Cons split: nat.splits)
  show ?case
  proof (cases "TotalTransferTimeUs (T ! j) < TotalTransferTimeUs e")
    case True
    have "sorted_wrt slower (take j (T[Suc j := T ! j]))"
      using Suc.prems(2) split(1) by (simp add: sorted_wrt_append)
    then obtain k where k: "k \<le> j"
        "shift_down (T[Suc j := T ! j]) j e =
           take k (T[Suc j := T ! j]) @ e # drop k (take j (T[Suc j := T ! j])) @ drop (Suc j) (T[Suc j := T ! j])"
        "\<forall>x\<in>set (take k (T[Suc j := T ! j])). slower x e"
        "\<forall>x\<in>set (drop k (take j (T[Suc j := T ! j]))). slower e x"
      using Suc.IH [of "T[Suc j := T ! j]"] Suc.prems(1) by auto
    with True split show ?thesis
      by (intro exI [of _ k]) (auto simp: less_imp_le)
  next
    case False
    have "slower x e" if "x \<in> set (take (Suc j) T)" for x
      using that False Suc.prems(2) unfolding split(1) by (auto simp: sorted_wrt_append)
    with False Suc.prems(1) show ?thesis
      by (intro exI [of _ "Suc j"]) (auto simp: upd_conv_take_nth_drop)
  qed
qed

lemma shift_down_step:
  assumes "j < length T" "sorted_wrt slower (take j T)"
  defines "T' \<equiv> shift_down T j (T ! j)"
  shows "mset T' = mset T" "drop (Suc j) T' = drop (Suc j) T" "sorted_wrt slower (take (Suc j) T')"
    "length T' = length T"
proof -
  obtain k where k: "k \<le> j" "T' = take k T @ T ! j # drop k (take j T) @ drop (Suc j) T"
      "\<forall>x\<in>set (take k T). slower x (T ! j)" "\<forall>x\<in>set (drop k (take j T)). slower (T ! j) x"
    using shift_down_shape [OF assms(1,2)] unfolding T'_def by blast
  have front: "take k T @ drop k (take j T) = take j T"
    using k(1) by (metis append_take_drop_id min.absorb1 take_take)
  then have "mset (take k T) + mset (drop k (take j T)) = mset (take j T)"
    by (metis mset_append)
  then have "mset T' = mset (take j T) + {# T ! j #} + mset (drop (Suc j) T)"
    using k(2) by (simp add: ac_simps)
  also have "\<dots> = mset T"
    using id_take_nth_drop [OF assms(1)]
    by (metis add_mset_add_single mset.simps(2) mset_append union_assoc union_mset_add_mset_left
        union_mset_add_mset_right add.commute empty_neutral(1))
  finally show "mset T' = mset T" .
  then show "length T' = length T" by (metis size_mset)
  have len: "length (take k T @ T ! j # drop k (take j T)) = Suc j"
    using k(1) assms(1) by simp
  have "take (Suc j) T' = take k T @ T ! j # drop k (take j T)" "drop (Suc j) T' = drop (Suc j) T"
    using len k(2) by (metis append.assoc append_Cons append_eq_conv_conj)+
  moreover have "sorted_wrt slower (take k T @ drop k (take j T))"
    using front assms(2) by simp
  ultimately show "drop (Suc j) T' = drop (Suc j) T" "sorted_wrt slower (take (Suc j) T')"
    using k(3,4) by (auto simp: sorted_wrt_append)
qed

text \<open>
  The insertion sort of the read statistics is correct: of the first \<open>NumEntries\<close>
  entries it makes a permutation in order of falling transfer time, and it leaves the rest of the
  table alone.
\<close>
theorem SortIoReadStats_sorts:
  assumes "NumEntries \<le> length Table"
  shows "mset (SortIoReadStatsByTotalTransferTime Table NumEntries) = mset Table \<and>
         sorted_wrt slower (take NumEntries (SortIoReadStatsByTotalTransferTime Table NumEntries)) \<and>
         drop NumEntries (SortIoReadStatsByTotalTransferTime Table NumEntries) = drop NumEntries Table"
  using assms
proof (induction NumEntries)
  case (Suc n)
  let ?T = "SortIoReadStatsByTotalTransferTime Table n"
  have IH: "mset ?T = mset Table" "sorted_wrt slower (take n ?T)" "drop n ?T = drop n Table"
    using Suc by simp_all
  then have len: "n < length ?T"
    using Suc.prems by (metis Suc_le_lessD size_mset)
  show ?case
  proof (cases n)
    case 0
    with len show ?thesis
      by (cases Table) (auto simp: SortIoReadStatsByTotalTransferTime_def)
  next
    case (Suc m)
    then have step: "SortIoReadStatsByTotalTransferTime Table (Suc n) = shift_down ?T n (?T ! n)"
      by (simp add: SortIoReadStatsByTotalTransferTime_def)
    have "drop (Suc n) ?T = drop (Suc n) Table"
      using IH(3) by (metis drop_drop plus_1_eq_Suc)
    with IH shift_down_step [OF len IH(2)] show ?thesis
      unfolding step by simp
  qed
qed (simp add: SortIoReadStatsByTotalTransferTime_def)

theorem SortIoReadStats_sorts_witness:
  "sorted_wrt slower (take 3 (SortIoReadStatsByTotalTransferTime
     [\<lparr>NumBlocks = 1, ReadCount = 1, TotalTransferTimeUs = 5\<rparr>, \<lparr>NumBlocks = 2, ReadCount = 1, TotalTransferTimeUs = 9\<rparr>,
      \<lparr>NumBlocks = 8, ReadCount = 3, TotalTransferTimeUs = 7\<rparr>, \<lparr>NumBlocks = 0, ReadCount = 0, TotalTransferTimeUs = 0\<rparr>] 3))"
  using SortIoReadStats_sorts [of 3 "[\<lparr>NumBlocks = 1, ReadCount = 1, TotalTransferTimeUs = 5\<rparr>,
     \<lparr>NumBlocks = 2, ReadCount = 1, TotalTransferTimeUs = 9\<rparr>, \<lparr>NumBlocks = 8, ReadCount = 3, TotalTransferTimeUs = 7\<rparr>,
     \<lparr>NumBlocks = 0, ReadCount = 0, TotalTransferTimeUs = 0\<rparr>]"] by simp

section \<open>Termination of the transfer loop\<close>

context all_calls
begin

lemma safe_send_retry: "safe (at c J) (send_retry R Cmd Lba n b k st)"
  by (induction k arbitrary: st) (auto intro!: safe_intros data_any)

lemma safe_io_loop:
  "MaxTransferSize \<noteq> 0 \<Longrightarrow> unat BytesRemaining \<le> n \<Longrightarrow>
   safe (at c J) (io_loop R Cmd MaxTransferSize bid n off BytesRemaining Lba st)"
proof (induction n arbitrary: off BytesRemaining Lba st)
  case 0
  then show ?case
    by (auto simp: io_loop.simps unat_eq_0 intro!: safe_intros)
next
  case (Suc n)
  let ?size = "if BytesRemaining < MaxTransferSize then BytesRemaining else MaxTransferSize"
  have "unat (BytesRemaining - ?size) \<le> n" if "BytesRemaining \<noteq> 0"
  proof -
    have "?size \<le> BytesRemaining" "?size \<noteq> 0"
      using that Suc.prems(1) by auto
    then have "unat (BytesRemaining - ?size) = unat BytesRemaining - unat ?size" "unat ?size > 0"
      by (simp_all only: unat_sub unat_gt_0) simp
    with Suc.prems(2) show ?thesis by linarith
  qed
  with Suc show ?case
    by (subst io_loop.simps) (auto simp: Let_def intro!: safe_intros safe_send_retry)
qed

end

definition max_transfer :: "SDHC_INSTANCE \<Rightarrow> u32" where
  "max_transfer I = MaximumBlockCount (HostCapabilities I) * BlockSize (Media I)"

text \<open>
  Block I/O terminates: unless the product of the controller's block count and the
  block size is zero modulo \<open>2 ^ 32\<close>, a request either returns or stops for a reason of the code's
  own, and it leaves no error recovery open.
\<close>
theorem IoBlocks_terminates:
  assumes "attempts s = 0" "max_transfer (Inst s) \<noteq> 0"
  shows "case IoBlocks (Sd E) dir mid Lba BufferSize Buffer s of
           Ret (st, s') \<Rightarrow> attempts s' = 0 | Stop r \<Rightarrow> r \<noteq> OutOfFuel"
proof -
  have safe: "safe (at 0 any_flags) (io_loop (Sd E) Cmd (max_transfer (Inst s)) bid
      (io_fuel BufferSize) 0 (ucast BufferSize) lba None)" for Cmd bid lba
    unfolding Sd_def by (rule top.safe_io_loop [OF assms(2)]) (simp add: io_fuel_def)
  have stop: "io_loop (Sd E) Cmd (max_transfer (Inst s)) bid (io_fuel BufferSize) 0 (ucast BufferSize)
      lba None s \<noteq> Stop OutOfFuel" for Cmd bid lba
    using safe_fuel [OF safe] assms(1) by simp
  have ok: "attempts s' = 0" if "io_loop (Sd E) Cmd (max_transfer (Inst s)) bid (io_fuel BufferSize) 0
      (ucast BufferSize) lba None s = Ret (x, s')" for Cmd bid lba x s'
    using safe_Ret [OF safe _ that] assms(1) by simp
  show ?thesis
    using stop ok assms(1)
    by (auto simp: IoBlocks_def getInst_def ret_def stopM_def Let_def max_transfer_def
        split: option.splits prod.splits outcome.splits)
qed

theorem IoBlocks_terminates_witness:
  "case IoBlocks (Sd sim_env) SdTransferDirectionRead 0 0 512 (Some (0x1000, 1)) (sim_start CardFunctionSd) of
     Ret (st, s') \<Rightarrow> attempts s' = 0 | Stop r \<Rightarrow> r \<noteq> OutOfFuel"
  by (rule IoBlocks_terminates [OF sim_start_attempts])
    (simp add: max_transfer_def sim_start_def zero_SDHC_INSTANCE_def gSdhcMediaTemplate_def
      SD_BLOCK_LENGTH_BYTES_def)

text \<open>
  With a transfer size of zero the loop makes no progress: whatever the bound on its
  rounds, it does not return.
\<close>
theorem io_loop_zero_transfer_diverges:
  assumes "BytesRemaining \<noteq> 0"
  shows "io_loop R Cmd 0 bid n off BytesRemaining Lba st s \<noteq> Ret r"
  using assms
proof (induction n arbitrary: off Lba st s)
  case 0
  then show ?case by (simp add: io_loop.simps stopM_def)
next
  case (Suc n)
  then show ?case
    by (cases r, subst io_loop.simps)
      (auto simp: Let_def bindM_Ret getInst_def gets_def stopM_def split: if_splits)
qed

theorem io_loop_zero_transfer_diverges_witness:
  "io_loop (Sd sim_env) CmdReadSingleBlock 0 1 100 0 512 0 None (sim_start CardFunctionSd) \<noteq>
   Ret (EFI_SUCCESS, sim_start CardFunctionSd)"
  by (rule io_loop_zero_transfer_diverges) simp

section \<open>The transfers of a request\<close>

text \<open>
  The sizes a request of \<open>n\<close> bytes is cut into, and the data commands for a list of sizes, one after
  the other, each of which has to succeed. This is what the loop does when no command fails.
\<close>

function io_chunks :: "nat \<Rightarrow> nat \<Rightarrow> nat list" where
  "io_chunks m n = (if m = 0 \<or> n = 0 then [] else min m n # io_chunks m (n - min m n))"
  by auto
termination
  by (relation "measure snd") auto

declare io_chunks.simps [simp del]

fun transfer_all ::
    "'h SdCalls \<Rightarrow> SD_COMMAND \<Rightarrow> nat \<Rightarrow> u32 \<Rightarrow> nat \<Rightarrow> u32 \<Rightarrow> nat list \<Rightarrow> ('h, EFI_STATUS) sd" where
  "transfer_all R Cmd bid bs off Lba [] = ret EFI_SUCCESS"
| "transfer_all R Cmd bid bs off Lba (n # ns) =
     tryE (SdhcSendDataCommand R Cmd Lba (of_nat n) (MemRef bid off))
       (transfer_all R Cmd bid bs (off + n) (Lba + of_nat n div bs) ns)"

text \<open>
  The chunks of a request cover it exactly: their sizes add up to the size of the
  request, none exceeds the maximum transfer, all but the last have that size, and each is a whole
  number of blocks when the request and the maximum are.
\<close>
lemma io_chunks_cover:
  assumes "0 < m"
  shows "sum_list (io_chunks m n) = n \<and>
         (\<forall>c\<in>set (io_chunks m n). 0 < c \<and> c \<le> m) \<and>
         (\<forall>c\<in>set (butlast (io_chunks m n)). c = m) \<and>
         (bs dvd m \<longrightarrow> bs dvd n \<longrightarrow> (\<forall>c\<in>set (io_chunks m n). bs dvd c))"
proof (induction n rule: less_induct)
  case (less n)
  consider "n = 0" | "0 < n" "n < m" | "m \<le> n" "0 < n" by linarith
  then show ?case
  proof cases
    case 1
    then show ?thesis by (simp add: io_chunks.simps)
  next
    case 2
    then have "io_chunks m n = [n]"
      by (simp add: io_chunks.simps [of m n] io_chunks.simps [of m 0])
    with 2 show ?thesis by simp
  next
    case 3
    have unfold: "io_chunks m n = m # io_chunks m (n - m)"
      using 3 assms by (simp add: io_chunks.simps [of m n] min_absorb1)
    have "n - m < n"
      using 3 assms by simp
    define L where "L = io_chunks m (n - m)"
    have sum: "sum_list L = n - m" and pos: "\<forall>c\<in>set L. 0 < c \<and> c \<le> m"
      and full: "\<forall>c\<in>set (butlast L). c = m"
      and whole: "bs dvd m \<longrightarrow> bs dvd n - m \<longrightarrow> (\<forall>c\<in>set L. bs dvd c)"
      using less [OF \<open>n - m < n\<close>] unfolding L_def by blast+
    have div: "bs dvd n - m" if "bs dvd m" "bs dvd n"
      using that by (simp add: dvd_diff_nat)
    show ?thesis
      unfolding unfold L_def [symmetric]
    proof (intro conjI impI)
      show "sum_list (m # L) = n" using sum 3 by simp
      show "\<forall>c\<in>set (m # L). 0 < c \<and> c \<le> m" using pos assms by simp
      show "\<forall>c\<in>set (butlast (m # L)). c = m" using full by simp
      show "\<forall>c\<in>set (m # L). bs dvd c" if "bs dvd m" "bs dvd n"
        using whole div [OF that] that by simp
    qed
  qed
qed

theorem io_chunks_cover_witness:
  "sum_list (io_chunks 2048 5120) = 5120 \<and> (\<forall>c\<in>set (io_chunks 2048 5120). c \<le> 2048)"
  using io_chunks_cover [of 2048 5120 512] by simp

lemma send_retry_first:
  assumes "SdhcSendDataCommand R Cmd Lba n b s = Ret (w, s')" "\<not> EFI_ERROR w"
  shows "send_retry R Cmd Lba n b DataCommandRetryCount st s = Ret (w, s')"
  using assms by (simp add: DataCommandRetryCount_def numeral_3_eq_3 bindM_def ret_def)

lemma unat_min_transfer:
  "unat (if a < b then a else b :: u32) = min (unat b) (unat a)"
  by (auto simp: min_def word_less_nat_alt)

lemma io_loop_transfer_all:
  assumes "honest_calls R" "MaxTransferSize \<noteq> 0" "unat BytesRemaining \<le> n"
    and "BlockSize (Media (Inst s)) = bs" "bs \<noteq> 0"
    and "transfer_all R Cmd bid bs off Lba (io_chunks (unat MaxTransferSize) (unat BytesRemaining)) s
         = Ret (w, s')" "\<not> EFI_ERROR w"
    and "BytesRemaining = 0 \<Longrightarrow> \<exists>v. st = Some v \<and> \<not> EFI_ERROR v"
  shows "\<exists>w'. io_loop R Cmd MaxTransferSize bid n off BytesRemaining Lba st s = Ret (w', s') \<and> \<not> EFI_ERROR w'"
  using assms(3-)
proof (induction n arbitrary: off BytesRemaining Lba st s)
  case 0
  then show ?case
    by (auto simp: unat_eq_0 io_loop.simps io_chunks.simps ret_def)
next
  case (Suc n)
  show ?case
  proof (cases "BytesRemaining = 0")
    case True
    with Suc.prems show ?thesis
      by (auto simp: io_loop.simps io_chunks.simps ret_def)
  next
    case False
    define size where "size = (if BytesRemaining < MaxTransferSize then BytesRemaining else MaxTransferSize)"
    have usize: "unat size = min (unat MaxTransferSize) (unat BytesRemaining)"
      by (simp only: size_def unat_min_transfer)
    have size: "size \<le> BytesRemaining" "0 < unat size"
      using False assms(2) by (auto simp: size_def unat_gt_0)
    have left: "unat (BytesRemaining - size) = unat BytesRemaining - min (unat MaxTransferSize) (unat BytesRemaining)"
      using size(1) usize by (simp add: unat_sub)
    have "io_chunks (unat MaxTransferSize) (unat BytesRemaining) =
        unat size # io_chunks (unat MaxTransferSize) (unat (BytesRemaining - size))"
      unfolding left usize using False assms(2) by (simp add: io_chunks.simps [of _ "unat BytesRemaining"] unat_eq_0)
    with Suc.prems(4,5) obtain w1 s1
      where first: "SdhcSendDataCommand R Cmd Lba size (MemRef bid off) s = Ret (w1, s1)" "\<not> EFI_ERROR w1"
        and rest: "transfer_all R Cmd bid bs (off + unat size) (Lba + size div bs)
          (io_chunks (unat MaxTransferSize) (unat (BytesRemaining - size))) s1 = Ret (w, s')"
      by (auto simp: tryE_Ret split: if_splits)
    have bs1: "BlockSize (Media (Inst s1)) = bs"
      using succD [OF honest_calls.data_shows [OF assms(1), of "\<lambda>m c. BlockSize m = bs"] _ first]
        Suc.prems(2) by (simp add: shows_card_def)
    have "unat (BytesRemaining - size) \<le> n"
      using left usize size(2) Suc.prems(1) by linarith
    from Suc.IH [OF this bs1 Suc.prems(3) rest Suc.prems(5), of "Some w1"] first(2)
    obtain w' where "io_loop R Cmd MaxTransferSize bid n (off + unat size) (BytesRemaining - size)
        (Lba + size div bs) (Some w1) s1 = Ret (w', s')" "\<not> EFI_ERROR w'"
      by auto
    with False send_retry_first [OF first] bs1 Suc.prems(3) show ?thesis
      by (subst io_loop.simps) (simp add: Let_def size_def [symmetric] bindM_def getInst_def gets_def)
  qed
qed

text \<open>The checks of \<open>IoBlocks\<close>, all passed.\<close>

definition io_accepts ::
    "SDHC_INSTANCE \<Rightarrow> SD_TRANSFER_DIRECTION \<Rightarrow> u32 \<Rightarrow> u64 \<Rightarrow> u64 \<Rightarrow> u64 \<Rightarrow> bool" where
  "io_accepts I dir mid Lba BufferSize address \<longleftrightarrow>
     MediaId (Media I) = mid \<and> MediaPresent (Media I) \<and> BufferSize \<noteq> 0 \<and>
     (dir = SdTransferDirectionWrite \<longrightarrow> \<not> ReadOnly (Media I)) \<and> BlockSize (Media I) \<noteq> 0 \<and>
     BufferSize mod ucast (BlockSize (Media I)) = 0 \<and>
     \<not> out_of_media Lba (ucast (BufferSize div ucast (BlockSize (Media I)))) (LastBlock (Media I)) \<and>
     \<not> misaligned (IoAlign (Media I)) address"

lemma IoBlocks_accepted:
  assumes "io_accepts (Inst s) dir mid Lba BufferSize address"
  shows "IoBlocks R dir mid Lba BufferSize (Some (address, bid)) s =
     io_loop R (io_command dir (ucast (BufferSize div ucast (BlockSize (Media (Inst s))))))
       (max_transfer (Inst s)) bid (io_fuel BufferSize) 0 (ucast BufferSize) (ucast Lba) None s"
  using assms
  by (auto simp: IoBlocks_def io_accepts_def getInst_def Let_def max_transfer_def)

text \<open>
  What a request may do to the card, without the loops: \<open>chunk_tried\<close> is one chunk, sent until it
  succeeds and at most \<open>k\<close> times; \<open>chunks_sent\<close> is a list of chunks, one after the other, whatever
  becomes of each, with the status of the last try of each. The next chunk starts where the present
  one ends, by the block size of the slot after it.
\<close>

inductive chunk_tried ::
    "'h SdCalls \<Rightarrow> SD_COMMAND \<Rightarrow> u32 \<Rightarrow> u32 \<Rightarrow> buf_ref \<Rightarrow> nat \<Rightarrow> 'h SdState \<Rightarrow> EFI_STATUS \<Rightarrow> 'h SdState \<Rightarrow> bool"
  for R Cmd Lba n b where
  success: "SdhcSendDataCommand R Cmd Lba n b s = Ret (st, s') \<Longrightarrow> \<not> EFI_ERROR st \<Longrightarrow>
    chunk_tried R Cmd Lba n b (Suc k) s st s'"
| given_up: "SdhcSendDataCommand R Cmd Lba n b s = Ret (st, s') \<Longrightarrow> EFI_ERROR st \<Longrightarrow>
    chunk_tried R Cmd Lba n b (Suc 0) s st s'"
| again: "SdhcSendDataCommand R Cmd Lba n b s = Ret (st1, s1) \<Longrightarrow> EFI_ERROR st1 \<Longrightarrow>
    chunk_tried R Cmd Lba n b (Suc k) s1 st s' \<Longrightarrow> chunk_tried R Cmd Lba n b (Suc (Suc k)) s st s'"

inductive_simps chunk_tried_once: "chunk_tried R Cmd Lba n b (Suc 0) s st s'"
inductive_simps chunk_tried_more: "chunk_tried R Cmd Lba n b (Suc (Suc k)) s st s'"

inductive chunks_sent ::
    "'h SdCalls \<Rightarrow> SD_COMMAND \<Rightarrow> nat \<Rightarrow> nat \<Rightarrow> u32 \<Rightarrow> nat list \<Rightarrow> 'h SdState \<Rightarrow> EFI_STATUS list \<Rightarrow> 'h SdState \<Rightarrow> bool"
  for R Cmd bid where
  all_sent: "chunks_sent R Cmd bid off Lba [] s [] s"
| next_chunk: "chunk_tried R Cmd Lba (of_nat n) (MemRef bid off) 3 s st s1 \<Longrightarrow>
    BlockSize (Media (Inst s1)) = bs \<Longrightarrow> bs \<noteq> 0 \<Longrightarrow>
    chunks_sent R Cmd bid (off + n) (Lba + of_nat n div bs) ns s1 sts s' \<Longrightarrow>
    chunks_sent R Cmd bid off Lba (n # ns) s (st # sts) s'"

inductive_simps chunks_sent_simps [simp]:
  "chunks_sent R Cmd bid off Lba [] s sts s'"
  "chunks_sent R Cmd bid off Lba (n # ns) s sts s'"

lemma send_retry_tried:
  "send_retry R Cmd Lba n b (Suc k) st s = Ret (w, s') \<longleftrightarrow> chunk_tried R Cmd Lba n b (Suc k) s w s'"
proof (induction k arbitrary: st s)
  case 0
  show ?case by (auto simp: bindM_Ret ret_def chunk_tried_once split: if_splits)
next
  case (Suc k)
  have "send_retry R Cmd Lba n b (Suc (Suc k)) st s = Ret (w, s') \<longleftrightarrow>
      (\<exists>st1 s1. SdhcSendDataCommand R Cmd Lba n b s = Ret (st1, s1) \<and>
        (if EFI_ERROR st1 then chunk_tried R Cmd Lba n b (Suc k) s1 w s' else w = st1 \<and> s' = s1))"
    unfolding send_retry.simps(2) [of R Cmd Lba n b "Suc k"] bindM_Ret
    by (auto simp: Suc.IH ret_def simp del: send_retry.simps split: if_splits)
  also have "\<dots> \<longleftrightarrow> chunk_tried R Cmd Lba n b (Suc (Suc k)) s w s'"
    unfolding chunk_tried_more by (auto split: if_splits)
  finally show ?case .
qed

lemma io_loop_sent:
  assumes "MaxTransferSize \<noteq> 0" "unat BytesRemaining \<le> n"
  shows "io_loop R Cmd MaxTransferSize bid n off BytesRemaining Lba st s = Ret (w, s') \<longleftrightarrow>
    (\<exists>sts. chunks_sent R Cmd bid off Lba (io_chunks (unat MaxTransferSize) (unat BytesRemaining)) s sts s' \<and>
       (if sts = [] then st = Some w else w = last sts))"
  using assms(2)
proof (induction n arbitrary: off BytesRemaining Lba st s)
  case 0
  then show ?case
    by (auto simp: unat_eq_0 io_loop.simps io_chunks.simps ret_def stopM_def split: option.splits)
next
  case (Suc n)
  show ?case
  proof (cases "BytesRemaining = 0")
    case True
    then show ?thesis
      by (auto simp: io_loop.simps io_chunks.simps ret_def stopM_def split: option.splits)
  next
    case False
    define size where "size = (if BytesRemaining < MaxTransferSize then BytesRemaining else MaxTransferSize)"
    let ?rest = "io_chunks (unat MaxTransferSize) (unat (BytesRemaining - size))"
    have usize: "unat size = min (unat MaxTransferSize) (unat BytesRemaining)"
      by (simp only: size_def unat_min_transfer)
    have size: "size \<le> BytesRemaining" "0 < unat size"
      using False assms(1) by (auto simp: size_def unat_gt_0)
    have left: "unat (BytesRemaining - size) = unat BytesRemaining - min (unat MaxTransferSize) (unat BytesRemaining)"
      using size(1) usize by (simp add: unat_sub)
    have chunks: "io_chunks (unat MaxTransferSize) (unat BytesRemaining) = unat size # ?rest"
      unfolding left usize using False assms(1) by (simp add: io_chunks.simps [of _ "unat BytesRemaining"] unat_eq_0)
    have fuel: "unat (BytesRemaining - size) \<le> n"
      using left usize size(2) Suc.prems by linarith
    have three: "DataCommandRetryCount = Suc 2" by (simp add: DataCommandRetryCount_def)
    have "io_loop R Cmd MaxTransferSize bid (Suc n) off BytesRemaining Lba st s = Ret (w, s') \<longleftrightarrow>
      (\<exists>st1 s1. chunk_tried R Cmd Lba size (MemRef bid off) 3 s st1 s1 \<and> BlockSize (Media (Inst s1)) \<noteq> 0 \<and>
        io_loop R Cmd MaxTransferSize bid n (off + unat size) (BytesRemaining - size)
          (Lba + size div BlockSize (Media (Inst s1))) (Some st1) s1 = Ret (w, s'))"
      using False send_retry_tried [of R Cmd Lba size "MemRef bid off" 2]
      by (subst io_loop.simps) (auto simp: Let_def size_def [symmetric] bindM_Ret getInst_def stopM_def three
          numeral_3_eq_3 numeral_2_eq_2 split: if_splits)
    also have "\<dots> \<longleftrightarrow> (\<exists>st1 s1 sts. chunk_tried R Cmd Lba size (MemRef bid off) 3 s st1 s1 \<and>
        BlockSize (Media (Inst s1)) \<noteq> 0 \<and>
        chunks_sent R Cmd bid (off + unat size) (Lba + size div BlockSize (Media (Inst s1))) ?rest s1 sts s' \<and>
        w = last (st1 # sts))"
      by (auto simp: Suc.IH [OF fuel] split: if_splits)
    also have "\<dots> \<longleftrightarrow> (\<exists>sts. chunks_sent R Cmd bid off Lba (unat size # ?rest) s sts s' \<and>
       (if sts = [] then st = Some w else w = last sts))" (is "?L \<longleftrightarrow> ?R")
    proof
      assume ?L
      then obtain st1 s1 sts where "chunks_sent R Cmd bid off Lba (unat size # ?rest) s (st1 # sts) s'"
          "w = last (st1 # sts)"
        by (auto simp del: last.simps)
      then show ?R by (intro exI [of _ "st1 # sts"]) (simp del: last.simps chunks_sent_simps)
    next
      assume ?R
      then obtain st1 s1 sts where "chunk_tried R Cmd Lba size (MemRef bid off) 3 s st1 s1"
          "BlockSize (Media (Inst s1)) \<noteq> 0"
          "chunks_sent R Cmd bid (off + unat size) (Lba + size div BlockSize (Media (Inst s1))) ?rest s1 sts s'"
          "w = last (st1 # sts)"
        by (auto simp del: last.simps)
      then show ?L by blast
    qed
    finally show ?thesis unfolding chunks .
  qed
qed

text \<open>
  Property C32. What a request that passes the checks does, and reports, in every case: its bytes are
  cut into chunks of at most the maximum transfer; the chunks are sent in order, each up to three
  times until it succeeds, at the block and at the place in the buffer where the chunk before ended,
  and the next one is sent whether or not this one got through; the status is that of the last try of
  the last chunk alone. When no command fails, at the block size of the slot the commands are exactly
  those of the chunks at consecutive addresses, and \<open>IoBlocks\<close> reports success.
\<close>
theorem IoBlocks_transfers_chunks:
  assumes acc: "io_accepts (Inst s) dir mid Lba BufferSize address"
    and small: "unat BufferSize < 2 ^ 32" and some: "max_transfer (Inst s) \<noteq> 0"
    and cmd: "Cmd = io_command dir (ucast (BufferSize div ucast (BlockSize (Media (Inst s)))))"
    and cut: "ns = io_chunks (unat (max_transfer (Inst s))) (unat BufferSize)"
  shows "(IoBlocks (Sd E) dir mid Lba BufferSize (Some (address, bid)) s = Ret (w, s') \<longleftrightarrow>
      (\<exists>sts. chunks_sent (Sd E) Cmd bid 0 (ucast Lba) ns s sts s' \<and> sts \<noteq> [] \<and> w = last sts)) \<and>
    (transfer_all (Sd E) Cmd bid (BlockSize (Media (Inst s))) 0 (ucast Lba) ns s = Ret (v, t) \<longrightarrow> \<not> EFI_ERROR v \<longrightarrow>
      (\<exists>w'. IoBlocks (Sd E) dir mid Lba BufferSize (Some (address, bid)) s = Ret (w', t) \<and> \<not> EFI_ERROR w'))"
proof -
  have bytes: "unat (ucast BufferSize :: u32) = unat BufferSize"
    using small by (simp add: unsigned_ucast_eq take_bit_nat_eq_self)
  have "BufferSize \<noteq> 0" and bs: "BlockSize (Media (Inst s)) \<noteq> 0"
    using acc by (simp_all add: io_accepts_def)
  then have "(ucast BufferSize :: u32) \<noteq> 0"
    using bytes by (metis unat_0 unat_eq_0)
  then have clean: "\<exists>w'. IoBlocks (Sd E) dir mid Lba BufferSize (Some (address, bid)) s = Ret (w', t) \<and> \<not> EFI_ERROR w'"
    if "transfer_all (Sd E) Cmd bid (BlockSize (Media (Inst s))) 0 (ucast Lba) ns s = Ret (v, t)" "\<not> EFI_ERROR v"
    unfolding IoBlocks_accepted [OF acc] using that bs unfolding cmd cut
    by (intro io_loop_transfer_all [OF honest.honest_calls_axioms some]) (simp_all add: io_fuel_def bytes)
  have "IoBlocks (Sd E) dir mid Lba BufferSize (Some (address, bid)) s = Ret (w, s') \<longleftrightarrow>
      (\<exists>sts. chunks_sent (Sd E) Cmd bid 0 (ucast Lba) ns s sts s' \<and> sts \<noteq> [] \<and> w = last sts)"
    unfolding IoBlocks_accepted [OF acc] cmd [symmetric] cut
    using io_loop_sent [OF some, of "ucast BufferSize" "unat BufferSize" "Sd E" Cmd bid 0 "ucast Lba" None s w s']
    by (simp add: io_fuel_def bytes cong: conj_cong) blast
  with clean show ?thesis by blast
qed

context more_calls
begin

lemma below_transfer_all: "below (transfer_all R Cmd bid bs off Lba ns) (transfer_all R' Cmd bid bs off Lba ns)"
  by (induction ns arbitrary: off Lba) (auto intro!: below_intros data_below)

end

text \<open>A slot holding an initialised card of sixteen blocks, four to a transfer.\<close>

definition sim_small :: "SimHost SdState" where
  "sim_small = (let s = sim_ready CardFunctionSd in
     s\<lparr>Inst := (Inst s)\<lparr>Media := (Media (Inst s))\<lparr>MediaPresent := True, LastBlock := 15\<rparr>,
                        LastSuccessfulCmd := Some CmdSelect, PreLastSuccessfulCmd := Some CmdSelect\<rparr>,
       Bufs := (\<lambda>_. replicate 4 0)\<rparr>)"

theorem IoBlocks_transfers_chunks_witness:
  "\<exists>sts s'. IoBlocks (Sd sim_env) SdTransferDirectionWrite 0 2 2560 (Some (0x1000, 1)) sim_small = Ret (last sts, s') \<and>
     chunks_sent (Sd sim_env) CmdWriteMultiBlock 1 0 2 [2048, 512] sim_small sts s' \<and> \<not> EFI_ERROR (last sts)"
proof -
  have bs: "BlockSize (Media (Inst sim_small)) = 512" "max_transfer (Inst sim_small) = 2048"
    by code_simp+
  have cmd: "io_command SdTransferDirectionWrite 5 = CmdWriteMultiBlock"
    by code_simp
  have "succeeds (transfer_all (SdTop sim_env 2) CmdWriteMultiBlock 1 512 0 2 [2048, 512]) sim_small"
    by code_simp
  then have "succeeds (transfer_all (Sd sim_env) CmdWriteMultiBlock 1 512 0 2 [2048, 512]) sim_small"
    by (rule below_succeeds [OF more_calls.below_transfer_all [OF shallow_calls]])
  then obtain w s' where
    run: "transfer_all (Sd sim_env) CmdWriteMultiBlock 1 512 0 2 [2048, 512] sim_small = Ret (w, s')"
      and ok: "\<not> EFI_ERROR w"
    by (rule succeedsE)
  have acc: "io_accepts (Inst sim_small) SdTransferDirectionWrite 0 2 2560 0x1000"
    by code_simp
  have chunks: "io_chunks 2048 2560 = [2048, 512]"
    by (simp add: io_chunks.simps)
  have len: "unat (2560 :: u64) < 2 ^ 32" "max_transfer (Inst sim_small) \<noteq> 0"
    and cmd': "CmdWriteMultiBlock = io_command SdTransferDirectionWrite (ucast (2560 div ucast (BlockSize (Media (Inst sim_small))) :: u64))"
    and cut: "[2048, 512] = io_chunks (unat (max_transfer (Inst sim_small))) (unat (2560 :: u64))"
    by (simp_all add: bs cmd chunks)
  note all = IoBlocks_transfers_chunks [OF acc len cmd' cut, of sim_env 1, unfolded bs]
  have "transfer_all (Sd sim_env) CmdWriteMultiBlock 1 512 0 (ucast (2 :: u64)) [2048, 512] sim_small = Ret (w, s')"
    using run by simp
  from mp [OF mp [OF conjunct2 [OF all] this] ok] obtain w' where
    got: "IoBlocks (Sd sim_env) SdTransferDirectionWrite 0 2 2560 (Some (0x1000, 1)) sim_small = Ret (w', s')"
      and fine: "\<not> EFI_ERROR w'"
    by blast
  from iffD1 [OF conjunct1 [OF all] got] obtain sts where
    "chunks_sent (Sd sim_env) CmdWriteMultiBlock 1 0 2 [2048, 512] sim_small sts s'" "w' = last sts"
    by (auto simp del: chunks_sent_simps)
  with got fine show ?thesis by blast
qed

section \<open>The checks of a request\<close>

text \<open>
  A request that fails a check never reaches the card: the state is unchanged, whatever
  the command entry points do, and the status is one of those the interface documents. The one other
  outcome is the division by a block size of zero.
\<close>
theorem IoBlocks_rejects_quietly:
  assumes "Buffer = None \<or> \<not> io_accepts (Inst s) dir mid Lba BufferSize (fst (the Buffer))"
  shows "IoBlocks R dir mid Lba BufferSize Buffer s = Stop DivideByZero \<or>
    (\<exists>st\<in>{EFI_MEDIA_CHANGED, EFI_INVALID_PARAMETER, EFI_NO_MEDIA, EFI_SUCCESS, EFI_WRITE_PROTECTED,
           EFI_BAD_BUFFER_SIZE}.
       IoBlocks R dir mid Lba BufferSize Buffer s = Ret (st, s) \<and> (st = EFI_SUCCESS \<longrightarrow> BufferSize = 0))"
  using assms
  by (auto simp: IoBlocks_def io_accepts_def getInst_def Let_def ret_def stopM_def
      split: option.splits)

theorem IoBlocks_rejects_quietly_witness:
  "\<exists>st. IoBlocks (Sd sim_env) SdTransferDirectionRead 0 14 2048 (Some (0x1000, 1)) sim_small = Ret (st, sim_small)"
proof -
  have "\<not> io_accepts (Inst sim_small) SdTransferDirectionRead 0 14 2048 (fst (the (Some (0x1000, 1 :: nat))))"
    by code_simp
  moreover have "IoBlocks (Sd sim_env) SdTransferDirectionRead 0 14 2048 (Some (0x1000, 1)) sim_small \<noteq>
      Stop DivideByZero"
    by (simp add: IoBlocks_def getInst_def sim_small_def sim_ready_def sim_start_def Let_def ret_def
        zero_SDHC_INSTANCE_def gSdhcMediaTemplate_def SD_BLOCK_LENGTH_BYTES_def out_of_media_def)
  ultimately show ?thesis
    using IoBlocks_rejects_quietly [of "Some (0x1000, 1)" sim_small SdTransferDirectionRead 0 14 2048 "Sd sim_env"]
    by blast
qed

text \<open>
  The range check is exact as long as the end of the request fits 64 bits: a request is
  let through just when its last block lies on the medium.
\<close>
theorem out_of_media_exact:
  assumes "0 < unat BlockCount" "unat Lba + unat BlockCount \<le> 2 ^ 64"
  shows "out_of_media Lba BlockCount Last \<longleftrightarrow> unat Last < unat Lba + unat BlockCount - 1"
proof -
  have "unat (Lba + (ucast BlockCount - 1)) = unat Lba + (unat BlockCount - 1)"
  proof -
    have "unat (ucast BlockCount - 1 :: u64) = unat BlockCount - 1"
      using assms(1) by (subst unat_sub) (auto simp: word_le_nat_alt Suc_leI)
    then show ?thesis
      using assms by (subst unat_add_lem [THEN iffD1]) auto
  qed
  then show ?thesis
    using assms(1) by (simp add: out_of_media_def word_less_nat_alt algebra_simps)
qed

theorem out_of_media_exact_witness:
  "out_of_media 15 2 15 \<longleftrightarrow> (15::nat) < 16"
  using out_of_media_exact [of 2 15 15] by simp

text \<open>
  Past that the check wraps: two blocks at the last 64-bit address pass the check on a
  medium of a single block.
\<close>
lemma out_of_media_wraps: "\<not> out_of_media 0xFFFFFFFFFFFFFFFF 2 0"
  by (simp add: out_of_media_def)

section \<open>A chunk that cannot be transferred\<close>

text \<open>Entry points of a card with a defect below block 4.\<close>

definition defective_calls :: "'h SdCalls" where
  "defective_calls =
     \<lparr>SdhcSendCommand = (\<lambda>_ _. ret EFI_SUCCESS),
      SdhcSendDataCommand = (\<lambda>_ Lba _ _. ret (if Lba < 4 then EFI_DEVICE_ERROR else EFI_SUCCESS))\<rparr>"

text \<open>
  A chunk that fails all three attempts is skipped: a write of eight blocks whose first
  half never reaches the card is reported as a success, although the interface documents that all
  blocks are written or an error is returned.
\<close>
theorem IoBlocks_skips_failed_chunk:
  "IoBlocks defective_calls SdTransferDirectionWrite 0 0 4096 (Some (0x1000, 1)) sim_small =
   Ret (EFI_SUCCESS, sim_small) \<and>
   (\<forall>n b s. SdhcSendDataCommand defective_calls CmdWriteMultiBlock 0 n b s = Ret (EFI_DEVICE_ERROR, s))"
proof
  have acc: "io_accepts (Inst sim_small) SdTransferDirectionWrite 0 0 4096 0x1000"
    "max_transfer (Inst sim_small) = 2048" "BlockSize (Media (Inst sim_small)) = 512"
    by code_simp+
  show "IoBlocks defective_calls SdTransferDirectionWrite 0 0 4096 (Some (0x1000, 1)) sim_small =
      Ret (EFI_SUCCESS, sim_small)"
    unfolding IoBlocks_accepted [OF acc(1)]
    by (simp add: acc(2,3) io_fuel_def io_loop.simps defective_calls_def DataCommandRetryCount_def
        numeral_3_eq_3 bindM_def ret_def getInst_def gets_def split: nat.splits)
  show "\<forall>n b s. SdhcSendDataCommand defective_calls CmdWriteMultiBlock 0 n b s = Ret (EFI_DEVICE_ERROR, s)"
    by (simp add: defective_calls_def ret_def)
qed

end
