(* ===== verification/SdRpmb.thy ===== *)
theory SdRpmb
  imports SdSpec
begin

text \<open>
  The replay protected memory block protocol of the driver (\<open>Microsoft/Drivers/SdMmcDxe/RpmbIo.c\<close>
  and \<open>Microsoft/Include/Protocol/RpmbIo.h\<close>): the packet layout, the two-byte codecs, the request
  and response transfers, and the four callbacks. A packet pointer is the number of a caller's
  buffer; a \<open>NULL\<close> pointer is \<open>None\<close>.
\<close>

section \<open>Packets\<close>

definition EFI_RPMB_DATA_PACKET_layout :: layout where
  "EFI_RPMB_DATA_PACKET_layout =
    [(''Stuff'', 196), (''KeyOrMAC'', 32), (''PacketData'', 256), (''Nonce'', 16),
     (''WriteCounter'', 4), (''Address'', 2), (''BlockCount'', 2), (''OperationResult'', 2),
     (''RequestOrResponseType'', 2)]"

definition sizeof_packet :: u64 where "sizeof_packet = 512"

definition EFI_RPMB_REQUEST_PROGRAM_KEY :: u16 where "EFI_RPMB_REQUEST_PROGRAM_KEY = 0x0001"
definition EFI_RPMB_REQUEST_COUNTER_VALUE :: u16 where "EFI_RPMB_REQUEST_COUNTER_VALUE = 0x0002"
definition EFI_RPMB_REQUEST_AUTH_WRITE :: u16 where "EFI_RPMB_REQUEST_AUTH_WRITE = 0x0003"
definition EFI_RPMB_REQUEST_AUTH_READ :: u16 where "EFI_RPMB_REQUEST_AUTH_READ = 0x0004"
definition EFI_RPMB_REQUEST_RESULT_REQUEST :: u16 where "EFI_RPMB_REQUEST_RESULT_REQUEST = 0x0005"

lemmas rpmb_requests =
  EFI_RPMB_REQUEST_PROGRAM_KEY_def EFI_RPMB_REQUEST_COUNTER_VALUE_def
  EFI_RPMB_REQUEST_AUTH_WRITE_def EFI_RPMB_REQUEST_AUTH_READ_def
  EFI_RPMB_REQUEST_RESULT_REQUEST_def

definition Uint16ToRpmbBytes :: "u16 \<Rightarrow> u8 \<times> u8" where
  "Uint16ToRpmbBytes Value = (ucast (drop_bit 8 Value), ucast (Value AND 0xF))"

definition RpmbBytesToUint16 :: "u8 \<times> u8 \<Rightarrow> u16" where
  "RpmbBytesToUint16 b = push_bit 8 (ucast (fst b)) OR ucast (snd b)"

type_synonym packet_ref = nat

record EFI_RPMB_DATA_BUFFER =
  Packets :: "packet_ref option"
  PacketCount :: u64

text \<open>The request type of the first packet of a buffer.\<close>

definition packet_type :: "u8 list \<Rightarrow> u16" where
  "packet_type p =
     (let off = field_offset EFI_RPMB_DATA_PACKET_layout ''RequestOrResponseType''
      in RpmbBytesToUint16 (p ! off, p ! Suc off))"

definition request_type :: "packet_ref \<Rightarrow> ('h, u16) sd" where
  "request_type b = gets (\<lambda>s. packet_type (Bufs s b))"

section \<open>Transfers\<close>

definition RpmbRead :: "'h SdCalls \<Rightarrow> buf_ref \<Rightarrow> packet_ref \<Rightarrow> u64 \<Rightarrow> ('h, EFI_STATUS) sd" where
  "RpmbRead R Request Response ResponseCount =
     tryE (SdhcSetBlockCount R 1 False) (
     tryE (SdhcSendDataCommand R CmdWriteMultiBlock 0 (ucast sizeof_packet) Request) (
     tryE (SdhcSetBlockCount R (ucast ResponseCount) False) (
     tryE (SdhcSendDataCommand R CmdReadMultiBlock 0 (ucast (ResponseCount * sizeof_packet))
             (MemRef Response 0)) (
     ret EFI_SUCCESS))))"

definition RpmbWrite :: "'h SdCalls \<Rightarrow> packet_ref \<Rightarrow> u64 \<Rightarrow> ('h, EFI_STATUS) sd" where
  "RpmbWrite R Request RequestCount =
     tryE (SdhcSetBlockCount R (ucast RequestCount) True) (
     tryE (SdhcSendDataCommand R CmdWriteMultiBlock 0 (ucast (RequestCount * sizeof_packet))
             (MemRef Request 0)) (
     ret EFI_SUCCESS))"

definition RpmbQueryResult :: "'h SdCalls \<Rightarrow> packet_ref \<Rightarrow> ('h, EFI_STATUS) sd" where
  "RpmbQueryResult R Response = tryE (RpmbRead R ResultRequestRef Response 1) (ret EFI_SUCCESS)"

definition RpmbProgramKeyRequest ::
    "'h SdCalls \<Rightarrow> packet_ref \<Rightarrow> packet_ref \<Rightarrow> ('h, EFI_STATUS) sd" where
  "RpmbProgramKeyRequest R Request Response =
     tryE (RpmbWrite R Request 1) (tryE (RpmbQueryResult R Response) (ret EFI_SUCCESS))"

definition RpmbReadCounterRequest ::
    "'h SdCalls \<Rightarrow> packet_ref \<Rightarrow> packet_ref \<Rightarrow> ('h, EFI_STATUS) sd" where
  "RpmbReadCounterRequest R Request Response =
     tryE (RpmbRead R (MemRef Request 0) Response 1) (ret EFI_SUCCESS)"

definition RpmbAuthenticatedWriteRequest ::
    "'h SdCalls \<Rightarrow> packet_ref \<Rightarrow> u64 \<Rightarrow> packet_ref \<Rightarrow> ('h, EFI_STATUS) sd" where
  "RpmbAuthenticatedWriteRequest R Request RequestCount Response =
     tryE (RpmbWrite R Request RequestCount) (tryE (RpmbQueryResult R Response) (ret EFI_SUCCESS))"

definition RpmbAuthenticatedReadRequest ::
    "'h SdCalls \<Rightarrow> packet_ref \<Rightarrow> packet_ref \<Rightarrow> u64 \<Rightarrow> ('h, EFI_STATUS) sd" where
  "RpmbAuthenticatedReadRequest R Request Response ResponseCount =
     tryE (RpmbRead R (MemRef Request 0) Response ResponseCount) (ret EFI_SUCCESS)"

section \<open>Requests\<close>

text \<open>The \<open>switch\<close> over the request type; the default case is \<open>ASSERT (FALSE)\<close>.\<close>

definition rpmb_dispatch ::
    "'h SdCalls \<Rightarrow> EFI_RPMB_DATA_BUFFER \<Rightarrow> EFI_RPMB_DATA_BUFFER \<Rightarrow> ('h, EFI_STATUS) sd" where
  "rpmb_dispatch R Request Response =
     bindM (ASSERT (PacketCount Request > 0)) (\<lambda>_.
     case Packets Request of
       None \<Rightarrow> stopM AssertFailed
     | Some req \<Rightarrow>
         bindM (request_type req) (\<lambda>RequestType.
         case Packets Response of
           None \<Rightarrow> stopM NullDereference
         | Some rsp \<Rightarrow>
             if RequestType = EFI_RPMB_REQUEST_PROGRAM_KEY then RpmbProgramKeyRequest R req rsp
             else if RequestType = EFI_RPMB_REQUEST_COUNTER_VALUE then RpmbReadCounterRequest R req rsp
             else if RequestType = EFI_RPMB_REQUEST_AUTH_READ
             then RpmbAuthenticatedReadRequest R req rsp (PacketCount Response)
             else if RequestType = EFI_RPMB_REQUEST_AUTH_WRITE
             then RpmbAuthenticatedWriteRequest R req (PacketCount Request) rsp
             else stopM AssertFailed))"

definition RpmbRequest ::
    "'h SdCalls \<Rightarrow> EFI_RPMB_DATA_BUFFER \<Rightarrow> EFI_RPMB_DATA_BUFFER \<Rightarrow> ('h, EFI_STATUS) sd" where
  "RpmbRequest R Request Response =
     bindM (getInst CurrentMmcPartition) (\<lambda>CurrentPartition.
     bindM (SdhcSwitchPartitionMmc R MmcExtCsdPartitionAccessRpmb) (\<lambda>SwitchStatus.
     if EFI_ERROR SwitchStatus then ret SwitchStatus
     else
       bindM (rpmb_dispatch R Request Response) (\<lambda>Status.
       bindM (SdhcSwitchPartitionMmc R CurrentPartition) (\<lambda>SwitchStatus.
       ret (if EFI_ERROR Status then Status else SwitchStatus)))))"

definition RpmbIoProgramKey ::
    "'h SdCalls \<Rightarrow> packet_ref option \<Rightarrow> packet_ref option \<Rightarrow> ('h, EFI_STATUS) sd" where
  "RpmbIoProgramKey R ProgrammingRequest ResultResponse =
     (case (ProgrammingRequest, ResultResponse) of
        (Some req, Some rsp) \<Rightarrow>
          bindM (request_type req) (\<lambda>t.
          if t \<noteq> EFI_RPMB_REQUEST_PROGRAM_KEY then ret EFI_INVALID_PARAMETER
          else RpmbRequest R \<lparr>Packets = Some req, PacketCount = 1\<rparr> \<lparr>Packets = Some rsp, PacketCount = 1\<rparr>)
      | _ \<Rightarrow> ret EFI_INVALID_PARAMETER)"

definition RpmbIoReadCounter ::
    "'h SdCalls \<Rightarrow> packet_ref option \<Rightarrow> packet_ref option \<Rightarrow> ('h, EFI_STATUS) sd" where
  "RpmbIoReadCounter R ReadRequest ReadResponse =
     (case (ReadRequest, ReadResponse) of
        (Some req, Some rsp) \<Rightarrow>
          bindM (request_type req) (\<lambda>t.
          if t \<noteq> EFI_RPMB_REQUEST_COUNTER_VALUE then ret EFI_INVALID_PARAMETER
          else RpmbRequest R \<lparr>Packets = Some req, PacketCount = 1\<rparr> \<lparr>Packets = Some rsp, PacketCount = 1\<rparr>)
      | _ \<Rightarrow> ret EFI_INVALID_PARAMETER)"

definition RpmbIoAuthenticatedWrite ::
    "'h SdCalls \<Rightarrow> EFI_RPMB_DATA_BUFFER option \<Rightarrow> packet_ref option \<Rightarrow> ('h, EFI_STATUS) sd" where
  "RpmbIoAuthenticatedWrite R Request Response =
     (case (Request, Response) of
        (Some buf, Some rsp) \<Rightarrow>
          (case Packets buf of
             None \<Rightarrow> ret EFI_INVALID_PARAMETER
           | Some req \<Rightarrow>
               if PacketCount buf = 0 then ret EFI_INVALID_PARAMETER
               else bindM (request_type req) (\<lambda>t.
                 if t \<noteq> EFI_RPMB_REQUEST_AUTH_WRITE then ret EFI_INVALID_PARAMETER
                 else RpmbRequest R buf \<lparr>Packets = Some rsp, PacketCount = 1\<rparr>))
      | _ \<Rightarrow> ret EFI_INVALID_PARAMETER)"

definition RpmbIoAuthenticatedRead ::
    "'h SdCalls \<Rightarrow> packet_ref option \<Rightarrow> EFI_RPMB_DATA_BUFFER option \<Rightarrow> ('h, EFI_STATUS) sd" where
  "RpmbIoAuthenticatedRead R ReadRequest ReadResponse =
     (case (ReadRequest, ReadResponse) of
        (Some req, Some buf) \<Rightarrow>
          (case Packets buf of
             None \<Rightarrow> ret EFI_INVALID_PARAMETER
           | Some _ \<Rightarrow>
               if PacketCount buf = 0 then ret EFI_INVALID_PARAMETER
               else bindM (request_type req) (\<lambda>t.
                 if t \<noteq> EFI_RPMB_REQUEST_AUTH_READ then ret EFI_INVALID_PARAMETER
                 else RpmbRequest R \<lparr>Packets = Some req, PacketCount = 1\<rparr> buf))
      | _ \<Rightarrow> ret EFI_INVALID_PARAMETER)"

section \<open>The packet and its two-byte fields\<close>

text \<open>
  The data frame is one 512-byte block, as the compile-time assertion demands, and
  every field lies where the JEDEC frame has it: the MAC at 196, the data at 228, the nonce at 484,
  the request type in the last two bytes.
\<close>
lemma rpmb_packet_frame:
  "layout_bits EFI_RPMB_DATA_PACKET_layout = unat sizeof_packet \<and>
   map (field_offset EFI_RPMB_DATA_PACKET_layout)
     [''Stuff'', ''KeyOrMAC'', ''PacketData'', ''Nonce'', ''WriteCounter'', ''Address'', ''BlockCount'',
      ''OperationResult'', ''RequestOrResponseType''] = [0, 196, 228, 484, 500, 504, 506, 508, 510] \<and>
   packet_type initial_ResultRequest = EFI_RPMB_REQUEST_RESULT_REQUEST"
proof (intro conjI)
  have off: "field_offset EFI_RPMB_DATA_PACKET_layout ''RequestOrResponseType'' = 510"
    by (simp add: EFI_RPMB_DATA_PACKET_layout_def)
  show "packet_type initial_ResultRequest = EFI_RPMB_REQUEST_RESULT_REQUEST"
    by (simp add: packet_type_def off initial_ResultRequest_def nth_append RpmbBytesToUint16_def
        EFI_RPMB_REQUEST_RESULT_REQUEST_def)
qed (simp_all add: EFI_RPMB_DATA_PACKET_layout_def sizeof_packet_def)

text \<open>
  The encoder loses bits: it masks the low byte with \<open>0xF\<close>, so that writing a value
  and reading it back gives the value just when bits 4 to 7 are clear.
\<close>
theorem rpmb_uint16_roundtrip:
  "RpmbBytesToUint16 (Uint16ToRpmbBytes v) = v \<longleftrightarrow> v AND 0xF0 = 0"
proof -
  have masks: "(0xF :: u16) = mask 4" "(0xF0 :: u16) = push_bit 4 (mask 4)"
    by (simp_all add: mask_eq_exp_minus_1)
  have "RpmbBytesToUint16 (Uint16ToRpmbBytes v) = v AND NOT (push_bit 4 (mask 4))"
    unfolding RpmbBytesToUint16_def Uint16ToRpmbBytes_def masks
    by (rule bit_word_eqI) (auto simp: bit_simps)
  moreover have "v AND NOT m = v \<longleftrightarrow> v AND m = 0" for m
    by (auto simp: bit_eq_iff bit_simps)
  ultimately show ?thesis by (simp add: masks)
qed

section \<open>Requests\<close>

text \<open>
  Property C36. An RPMB request that reports success leaves the device on the partition it was on:
  the switch back was confirmed by the extended CSD, whatever the transfers in between did.
\<close>
theorem RpmbRequest_restores_partition:
  assumes "RpmbRequest (Sd E) Request Response s = Ret (st, s')" "\<not> EFI_ERROR st"
  shows "CurrentMmcPartition (Inst s') = CurrentMmcPartition (Inst s) \<and>
         access_of (partition_config (CardInfo (Inst s'))) = CurrentMmcPartition (Inst s)"
proof -
  from assms obtain st1 s1 where
    "SdhcSwitchPartitionMmc (Sd E) (CurrentMmcPartition (Inst s)) s1 = Ret (st1, s')" "\<not> EFI_ERROR st1"
    by (auto simp: RpmbRequest_def bindM_Ret getInst_def ret_def split: if_splits)
  from succD [OF succ_switch_partition TrueI this] show ?thesis
    by simp
qed

text \<open>
  A request with a missing pointer, an empty packet list or the wrong request type is
  refused before anything is sent: the state is unchanged and the status is
  \<open>EFI_INVALID_PARAMETER\<close>, for each of the four callbacks.
\<close>
theorem rpmb_callbacks_check_request:
  "(req = None \<or> rsp = None \<or> packet_type (Bufs s (the req)) \<noteq> EFI_RPMB_REQUEST_PROGRAM_KEY \<longrightarrow>
      RpmbIoProgramKey R req rsp s = Ret (EFI_INVALID_PARAMETER, s)) \<and>
   (req = None \<or> rsp = None \<or> packet_type (Bufs s (the req)) \<noteq> EFI_RPMB_REQUEST_COUNTER_VALUE \<longrightarrow>
      RpmbIoReadCounter R req rsp s = Ret (EFI_INVALID_PARAMETER, s)) \<and>
   (buf = None \<or> rsp = None \<or> Packets (the buf) = None \<or> PacketCount (the buf) = 0 \<or>
      packet_type (Bufs s (the (Packets (the buf)))) \<noteq> EFI_RPMB_REQUEST_AUTH_WRITE \<longrightarrow>
      RpmbIoAuthenticatedWrite R buf rsp s = Ret (EFI_INVALID_PARAMETER, s)) \<and>
   (req = None \<or> buf = None \<or> Packets (the buf) = None \<or> PacketCount (the buf) = 0 \<or>
      packet_type (Bufs s (the req)) \<noteq> EFI_RPMB_REQUEST_AUTH_READ \<longrightarrow>
      RpmbIoAuthenticatedRead R req buf s = Ret (EFI_INVALID_PARAMETER, s))"
  by (auto simp: RpmbIoProgramKey_def RpmbIoReadCounter_def RpmbIoAuthenticatedWrite_def
      RpmbIoAuthenticatedRead_def request_type_def ret_def split: option.splits)

text \<open>
  The data transfers of an RPMB access have a predefined block count: once
  \<open>SdhcSetBlockCount\<close> and the command of a multi-block transfer have succeeded, the transfer is not
  treated as open-ended, so no STOP_TRANSMISSION interrupts the access.
\<close>
theorem predefined_transfer_not_stopped:
  assumes "SdhcSetBlockCount (Sd E) n rw s = Ret (st1, s1)" "\<not> EFI_ERROR st1"
    and "SdhcSendCommandHelper E Cmd Arg x s1 = Ret (st2, s2)" "\<not> EFI_ERROR st2"
  shows "open_ended Cmd s2 = Ret (False, s2)"
proof -
  have "\<not> is_switch_cmd CmdSetBlockCount"
    by (simp add: is_switch_cmd_def cmd_defs)
  with assms(1,2) have "LastSuccessfulCmd (Inst s1) = Some CmdSetBlockCount"
    by (auto simp: SdhcSetBlockCount_def Sd_unfold SdhcSendCommand_body_def bindM_Ret ret_def
        is_switch_cmd_def dest!: SdhcSendCommandHelper_ok(2) split: if_splits)
  then show ?thesis
    using SdhcSendCommandHelper_ok(2,3) [OF assms(3,4)]
    by (simp add: open_ended_def bindM_def getInst_def gets_def ret_def)
qed

section \<open>Concrete requests\<close>

context more_calls
begin

lemma below_rpmb [below_intros]:
  "below (RpmbRead R a b n) (RpmbRead R' a b n)"
  "below (RpmbWrite R c n) (RpmbWrite R' c n)"
  unfolding RpmbRead_def RpmbWrite_def by (intro below_intros data_below)+

lemma below_rpmb_dispatch [below_intros]: "below (rpmb_dispatch R a b) (rpmb_dispatch R' a b)"
  unfolding rpmb_dispatch_def RpmbProgramKeyRequest_def RpmbReadCounterRequest_def
    RpmbAuthenticatedReadRequest_def RpmbAuthenticatedWriteRequest_def RpmbQueryResult_def
  by (intro below_intros)

lemma below_RpmbRequest: "below (RpmbRequest R a b) (RpmbRequest R' a b)"
  unfolding RpmbRequest_def by (intro below_intros)

end

lemmas rpmb_run_code [code] =
  request_type_def [THEN fun_cong] RpmbRead_def [THEN fun_cong] RpmbWrite_def [THEN fun_cong]
  RpmbQueryResult_def [THEN fun_cong] RpmbReadCounterRequest_def [THEN fun_cong]
  RpmbProgramKeyRequest_def [THEN fun_cong] RpmbAuthenticatedWriteRequest_def [THEN fun_cong]
  RpmbAuthenticatedReadRequest_def [THEN fun_cong] rpmb_dispatch_def [THEN fun_cong]
  RpmbRequest_def [THEN fun_cong]

text \<open>An eMMC slot with a counter request in every buffer.\<close>

definition counter_request :: EFI_RPMB_DATA_BUFFER where
  "counter_request = \<lparr>Packets = Some 0, PacketCount = 1\<rparr>"

definition counter_state :: "SimHost SdState" where
  "counter_state = (sim_ready CardFunctionMmc)\<lparr>Bufs := (\<lambda>b. replicate 510 0 @ [0, 2])\<rparr>"

theorem RpmbRequest_restores_partition_witness:
  "\<exists>st s'. RpmbRequest (Sd sim_env) counter_request counter_request counter_state = Ret (st, s') \<and>
     CurrentMmcPartition (Inst s') = MmcExtCsdPartitionAccessUserArea"
proof -
  have "succeeds (RpmbRequest (SdTop sim_env 2) counter_request counter_request) counter_state"
    by code_simp
  then have "succeeds (RpmbRequest (Sd sim_env) counter_request counter_request) counter_state"
    by (rule below_succeeds [OF more_calls.below_RpmbRequest [OF shallow_calls]])
  then obtain st s' where
    run: "RpmbRequest (Sd sim_env) counter_request counter_request counter_state = Ret (st, s')"
      and ok: "\<not> EFI_ERROR st"
    by (rule succeedsE)
  have "CurrentMmcPartition (Inst counter_state) = MmcExtCsdPartitionAccessUserArea"
    by (simp add: counter_state_def sim_ready_def sim_start_def Let_def zero_SDHC_INSTANCE_def)
  with RpmbRequest_restores_partition [OF run ok] run show ?thesis by auto
qed

theorem rpmb_callbacks_check_request_witness:
  "RpmbIoProgramKey (Sd sim_env) (Some 0) (Some 1) counter_state = Ret (EFI_INVALID_PARAMETER, counter_state)"
proof -
  have "packet_type (Bufs counter_state 0) = 2"
    by (simp add: counter_state_def packet_type_def EFI_RPMB_DATA_PACKET_layout_def nth_append
        RpmbBytesToUint16_def)
  then show ?thesis
    using rpmb_callbacks_check_request [of "Some 0" "Some 1" counter_state "Sd sim_env"]
    by (simp add: EFI_RPMB_REQUEST_PROGRAM_KEY_def)
qed

theorem predefined_transfer_not_stopped_witness:
  "\<exists>s :: SimHost SdState. open_ended CmdReadMultiBlock s = Ret (False, s) \<and> LastSuccessfulCmd (Inst s) = Some CmdReadMultiBlock"
proof -
  have "succeeds (SdhcSetBlockCount (Sd sim_env) 1 False) (sim_ready CardFunctionMmc)"
    by code_simp
  then obtain st1 s1 where
    1: "SdhcSetBlockCount (Sd sim_env) 1 False (sim_ready CardFunctionMmc) = Ret (st1, s1)" "\<not> EFI_ERROR st1"
    by (rule succeedsE)
  have "succeeds (tryE (SdhcSetBlockCount (SdTop sim_env 2) 1 False)
          (SdhcSendCommandHelper sim_env CmdReadMultiBlock 0 None)) (sim_ready CardFunctionMmc)"
    by code_simp
  then have "succeeds (tryE (SdhcSetBlockCount (Sd sim_env) 1 False)
          (SdhcSendCommandHelper sim_env CmdReadMultiBlock 0 None)) (sim_ready CardFunctionMmc)"
    by (rule below_succeeds [OF below_tryE [OF more_calls.below_simple(6) [OF shallow_calls] below_refl]])
  then obtain st2 s2 where "SdhcSendCommandHelper sim_env CmdReadMultiBlock 0 None s1 = Ret (st2, s2)"
      "\<not> EFI_ERROR st2"
    using 1 by (auto simp: succeeds_def tryE_def bindM_def split: outcome.splits)
  from predefined_transfer_not_stopped [OF 1 this] SdhcSendCommandHelper_ok(2) [OF this]
  show ?thesis by blast
qed

end
