(* ===== verification/SdCards.thy ===== *)
theory SdCards
  imports SdBlockIo SdRpmb
begin

text \<open>
  The driver around the slots (\<open>Microsoft/Drivers/SdMmcDxe/SdMmc.c\<close>): the pool of instances, their
  creation and destruction, the driver binding callbacks, the periodic card check and the entry
  point. An instance is a numbered allocation; the pool is the list of the numbers linked into it.
  Running an instance operation on an allocation that has been freed stops with \<open>UseAfterFree\<close>.
\<close>

section \<open>Driver state\<close>

text \<open>An allocated instance: the controller behind its \<open>HostExt\<close> and the instance data.\<close>

record NODE =
  HostExtOf :: nat
  NodeInst :: SDHC_INSTANCE

record 'h Driver =
  gSdhcInstancePool :: "nat list"
  Allocations :: "nat \<Rightarrow> NODE option"
  NextAllocation :: nat
  gNextSdhcInstanceId :: u32
  DriverPacket :: "u8 list"
  DriverBufs :: "nat \<Rightarrow> u8 list"
  DriverHw :: 'h

type_synonym ('h, 'a) drv = "('h Driver, 'a) prog"

text \<open>The controllers of the system, and the boot services they share.\<close>

record 'h System =
  Controllers :: "nat \<Rightarrow> 'h EFI_SDHC_PROTOCOL"
  BootServices :: "'h EFI_BOOT_SERVICES"

definition env_of :: "'h System \<Rightarrow> NODE \<Rightarrow> 'h SdEnv" where
  "env_of Y nd = \<lparr>HostExt = Controllers Y (HostExtOf nd), gBS = BootServices Y\<rparr>"

definition drvHost :: "('h \<Rightarrow> 'a \<times> 'h) \<Rightarrow> ('h, 'a) drv" where
  [prog_defs]: "drvHost f = (\<lambda>d. case f (DriverHw d) of (x, h) \<Rightarrow> Ret (x, d\<lparr>DriverHw := h\<rparr>))"

text \<open>Run an operation of the slot on allocation \<open>i\<close>.\<close>

definition slot_state :: "'h Driver \<Rightarrow> NODE \<Rightarrow> 'h SdState" where
  "slot_state d nd =
     \<lparr>Inst = NodeInst nd, ResultRequest = DriverPacket d, Bufs = DriverBufs d, Hw = DriverHw d\<rparr>"

definition put_slot :: "nat \<Rightarrow> NODE \<Rightarrow> 'h SdState \<Rightarrow> 'h Driver \<Rightarrow> 'h Driver" where
  "put_slot i nd s d =
     d\<lparr>Allocations := (Allocations d)(i \<mapsto> nd\<lparr>NodeInst := Inst s\<rparr>), DriverPacket := ResultRequest s,
       DriverBufs := Bufs s, DriverHw := Hw s\<rparr>"

definition on_slot :: "'h System \<Rightarrow> nat \<Rightarrow> ('h SdEnv \<Rightarrow> ('h, 'a) sd) \<Rightarrow> ('h, 'a) drv" where
  "on_slot Y i m = (\<lambda>d.
     case Allocations d i of
       None \<Rightarrow> Stop UseAfterFree
     | Some nd \<Rightarrow>
         (case m (env_of Y nd) (slot_state d nd) of
            Ret (x, s) \<Rightarrow> Ret (x, put_slot i nd s d)
          | Stop r \<Rightarrow> Stop r))"

section \<open>The pool\<close>

definition InitializeSdhcPool :: "('h, unit) drv" where
  "InitializeSdhcPool = modify (\<lambda>d. d\<lparr>gSdhcInstancePool := []\<rparr>)"

definition InsertSdhcInstance :: "nat \<Rightarrow> ('h, unit) drv" where
  "InsertSdhcInstance i = modify (\<lambda>d. d\<lparr>gSdhcInstancePool := gSdhcInstancePool d @ [i]\<rparr>)"

definition RemoveSdhcInstance :: "nat \<Rightarrow> ('h, unit) drv" where
  "RemoveSdhcInstance i = (\<lambda>d.
     case Allocations d i of
       None \<Rightarrow> Stop UseAfterFree
     | Some _ \<Rightarrow> Ret ((), d\<lparr>gSdhcInstancePool := remove1 i (gSdhcInstancePool d)\<rparr>))"

section \<open>Instances\<close>

definition free_allocation :: "nat \<Rightarrow> ('h, unit) drv" where
  "free_allocation i = modify (\<lambda>d. d\<lparr>Allocations := (Allocations d)(i := None)\<rparr>)"

definition allocate :: "NODE \<Rightarrow> ('h, nat) drv" where
  "allocate nd = (\<lambda>d.
     Ret (NextAllocation d, d\<lparr>Allocations := (Allocations d)(NextAllocation d \<mapsto> nd),
                             NextAllocation := Suc (NextAllocation d)\<rparr>))"

definition new_instance :: "u32 \<Rightarrow> SDHC_CAPABILITIES \<Rightarrow> u32 \<Rightarrow> SDHC_INSTANCE" where
  "new_instance iid caps sdhc =
     zero_SDHC_INSTANCE\<lparr>InstanceId := iid, HostCapabilities := caps, DevicePathSdhcId := sdhc,
       Media := gSdhcMediaTemplate\<rparr>"

text \<open>
  The part after the capabilities have been read; \<open>None\<close> is the \<open>NULL\<close> result, with the instance
  freed at \<open>Exit\<close>.
\<close>

definition finish_instance :: "'h System \<Rightarrow> nat \<Rightarrow> SDHC_CAPABILITIES \<Rightarrow> ('h, nat option) drv" where
  "finish_instance Y i caps =
     bindM (ASSERT (MaximumBlockSize caps > 0)) (\<lambda>_.
     bindM (ASSERT (MaximumBlockCount caps > 0)) (\<lambda>_.
     if MaximumBlockSize caps < SD_BLOCK_LENGTH_BYTES
     then bindM (free_allocation i) (\<lambda>_. ret None)
     else
       bindM (drvHost (AllocatePool (BootServices Y))) (\<lambda>ok.
       if \<not> ok then bindM (free_allocation i) (\<lambda>_. ret None)
       else
         bindM (on_slot Y i (\<lambda>E. modifyInst (\<lambda>I. I\<lparr>DevicePathSdhcId := SdhcId (HostExt E)\<rparr>))) (\<lambda>_.
         bindM (modify (\<lambda>d. d\<lparr>gNextSdhcInstanceId := gNextSdhcInstanceId d + 1\<rparr>)) (\<lambda>_.
         ret (Some i))))))"

definition CreateSdhcInstance :: "'h System \<Rightarrow> nat \<Rightarrow> ('h, nat option) drv" where
  "CreateSdhcInstance Y ctl =
     bindM (drvHost (AllocatePool (BootServices Y))) (\<lambda>ok.
     if \<not> ok then ret None
     else
       bindM (gets gNextSdhcInstanceId) (\<lambda>iid.
       bindM (drvHost (GetCapabilities (Controllers Y ctl))) (\<lambda>caps.
       bindM (allocate \<lparr>HostExtOf = ctl, NodeInst = new_instance iid caps 0\<rparr>) (\<lambda>i.
       finish_instance Y i caps))))"

definition DestroySdhcInstance :: "'h System \<Rightarrow> nat \<Rightarrow> ('h, EFI_STATUS) drv" where
  "DestroySdhcInstance Y i =
     tryE (on_slot Y i UninstallAllProtocols) (
     bindM (on_slot Y i (\<lambda>E. hostM (Cleanup (HostExt E)))) (\<lambda>_.
     bindM (free_allocation i) (\<lambda>_.
     ret EFI_SUCCESS)))"

section \<open>The card check\<close>

definition check_card :: "'h System \<Rightarrow> nat \<Rightarrow> ('h, unit) drv" where
  "check_card Y i =
     on_slot Y i (\<lambda>E.
       bindM (hostM (IsCardPresent (HostExt E))) (\<lambda>present.
       bindM (getInst (\<lambda>I. MediaPresent (Media I))) (\<lambda>known.
       if (known \<and> \<not> present) \<or> (\<not> known \<and> present)
       then bindM (SoftReset E (Sd E)) (\<lambda>_. ret ())
       else ret ())))"

fun check_cards :: "'h System \<Rightarrow> nat list \<Rightarrow> ('h, unit) drv" where
  "check_cards Y [] = ret ()"
| "check_cards Y (i # is) = bindM (check_card Y i) (\<lambda>_. check_cards Y is)"

definition CheckCardsCallback :: "'h System \<Rightarrow> ('h, unit) drv" where
  "CheckCardsCallback Y = bindM (gets gSdhcInstancePool) (check_cards Y)"

section \<open>Driver binding\<close>

text \<open>The first node of a remaining device path.\<close>

datatype path_node = DevicePathEnd | PathNode nat nat nat

definition vendor_node :: "path_node \<Rightarrow> bool" where
  "vendor_node p = (case p of DevicePathEnd \<Rightarrow> False
     | PathNode ty sub len \<Rightarrow> ty = 1 \<and> sub = 4 \<and> len = 20)"

definition open_sdhc :: "'h System \<Rightarrow> nat \<Rightarrow> ('h, EFI_STATUS) drv" where
  "open_sdhc Y ctl =
     drvHost (OpenProtocol (BootServices Y) ctl gEfiSdhcProtocolGuid DriverBindingHandle (Controller ctl))"

definition SdMmcDriverSupported :: "'h System \<Rightarrow> nat \<Rightarrow> path_node option \<Rightarrow> ('h, EFI_STATUS) drv" where
  "SdMmcDriverSupported Y ctl RemainingDevicePath =
     (if (case RemainingDevicePath of None \<Rightarrow> False
            | Some p \<Rightarrow> p \<noteq> DevicePathEnd \<and> \<not> vendor_node p)
      then ret EFI_UNSUPPORTED
      else
        bindM (open_sdhc Y ctl) (\<lambda>Status.
        if Status = EFI_ALREADY_STARTED then ret EFI_SUCCESS
        else if EFI_ERROR Status then ret Status
        else
          bindM (drvHost (CloseProtocol (BootServices Y) ctl gEfiSdhcProtocolGuid DriverBindingHandle
                   (Controller ctl))) (\<lambda>_.
          ret Status)))"

definition SdMmcDriverStart :: "'h System \<Rightarrow> nat \<Rightarrow> path_node option \<Rightarrow> ('h, EFI_STATUS) drv" where
  "SdMmcDriverStart Y ctl RemainingDevicePath =
     (if RemainingDevicePath = Some DevicePathEnd then ret EFI_SUCCESS
      else
        bindM (open_sdhc Y ctl) (\<lambda>Status.
        if EFI_ERROR Status
        then ret (if Status = EFI_ALREADY_STARTED then EFI_SUCCESS else Status)
        else
          bindM (CreateSdhcInstance Y ctl) (\<lambda>HostInst.
          case HostInst of
            None \<Rightarrow> ret Status
          | Some i \<Rightarrow>
              bindM (on_slot Y i (\<lambda>E. modifyInst (\<lambda>I. I\<lparr>MmcHandle := ctl\<rparr>))) (\<lambda>_.
              bindM (InsertSdhcInstance i) (\<lambda>_.
              bindM (CheckCardsCallback Y) (\<lambda>_.
              ret Status))))))"

text \<open>
  One round of the \<open>while\<close> loop of \<open>SdMmcDriverStop\<close>: the current link stays the same, so that every
  round works on the same instance. The protocol is closed with the address of the instance's
  \<open>HostExt\<close> field as agent and the driver binding handle as controller.
\<close>

fun stop_loop :: "'h System \<Rightarrow> nat \<Rightarrow> nat \<Rightarrow> nat \<Rightarrow> ('h, EFI_STATUS) drv" where
  "stop_loop Y ctl i 0 = stopM OutOfFuel"
| "stop_loop Y ctl i (Suc n) =
     bindM (drvHost (CloseProtocol (BootServices Y) ctl gEfiSdhcProtocolGuid (HostExtAddress i)
              DriverBindingHandle)) (\<lambda>Status.
     bindM (RemoveSdhcInstance i) (\<lambda>_.
     bindM (DestroySdhcInstance Y i) (\<lambda>_.
     if Status = EFI_SUCCESS then stop_loop Y ctl i n else ret Status)))"

definition SdMmcDriverStop :: "'h System \<Rightarrow> nat \<Rightarrow> nat \<Rightarrow> ('h, EFI_STATUS) drv" where
  "SdMmcDriverStop Y ctl n =
     bindM (gets gSdhcInstancePool) (\<lambda>p.
     case p of [] \<Rightarrow> ret EFI_SUCCESS | i # _ \<Rightarrow> stop_loop Y ctl i n)"

section \<open>Entry point\<close>

definition ASSERT_EFI_ERROR :: "EFI_STATUS \<Rightarrow> ('s, unit) prog" where
  "ASSERT_EFI_ERROR Status = ASSERT (\<not> EFI_ERROR Status)"

text \<open>The four services the entry point calls, as their results.\<close>

definition SdMmcDxeInitialize ::
    "('h \<Rightarrow> EFI_STATUS \<times> 'h) \<Rightarrow> ('h \<Rightarrow> EFI_STATUS \<times> 'h) \<Rightarrow> (u64 \<Rightarrow> 'h \<Rightarrow> EFI_STATUS \<times> 'h) \<Rightarrow>
     ('h \<Rightarrow> u64 \<times> 'h) \<Rightarrow> ('h, EFI_STATUS) drv" where
  "SdMmcDxeInitialize InstallDriverBinding CreateEvent SetTimer GetPerformanceCounterProperties =
     bindM InitializeSdhcPool (\<lambda>_.
     bindM (drvHost InstallDriverBinding) (\<lambda>Status.
     bindM (ASSERT_EFI_ERROR Status) (\<lambda>_.
     bindM (drvHost CreateEvent) (\<lambda>Status.
     bindM (ASSERT_EFI_ERROR Status) (\<lambda>_.
     bindM (drvHost (SetTimer (10 * 1000 * 1000))) (\<lambda>Status.
     bindM (ASSERT_EFI_ERROR Status) (\<lambda>_.
     bindM (drvHost GetPerformanceCounterProperties) (\<lambda>gHpcTicksPerSeconds.
     bindM (ASSERT (gHpcTicksPerSeconds \<noteq> 0)) (\<lambda>_.
     ret Status)))))))))"

section \<open>The driver's invariant\<close>

text \<open>
  The pool holds no instance twice, only live allocations, and no live instance has an error
  recovery open between two calls into the driver.
\<close>

definition driver_ok :: "'h Driver \<Rightarrow> bool" where
  "driver_ok d \<longleftrightarrow>
     distinct (gSdhcInstancePool d) \<and>
     (\<forall>i\<in>set (gSdhcInstancePool d). Allocations d i \<noteq> None) \<and>
     (\<forall>i nd. Allocations d i = Some nd \<longrightarrow>
        i < NextAllocation d \<and> ErrorRecoveryAttemptCount (NodeInst nd) = 0)"

text \<open>The same pool and the same allocations.\<close>

definition same_shape :: "'h Driver \<Rightarrow> 'h Driver \<Rightarrow> bool" where
  "same_shape d d' \<longleftrightarrow>
     gSdhcInstancePool d' = gSdhcInstancePool d \<and> dom (Allocations d') = dom (Allocations d) \<and>
     NextAllocation d' = NextAllocation d"

lemma same_shape_refl [simp]: "same_shape d d"
  by (simp add: same_shape_def)

lemma same_shape_alive: "same_shape d d' \<Longrightarrow> Allocations d i \<noteq> None \<Longrightarrow> Allocations d' i \<noteq> None"
  unfolding same_shape_def domIff [symmetric] by blast

lemma same_shape_trans: "same_shape d d' \<Longrightarrow> same_shape d' d'' \<Longrightarrow> same_shape d d''"
  by (simp add: same_shape_def)

lemma drvHost_Ret: "drvHost f d = Ret (x, d') \<Longrightarrow> \<exists>h. d' = d\<lparr>DriverHw := h\<rparr>"
  by (auto simp: drvHost_def split: prod.splits)

lemma driver_ok_hw [simp]: "driver_ok (d\<lparr>DriverHw := h\<rparr>) = driver_ok d"
  by (simp add: driver_ok_def)

text \<open>Operations of a slot that close every recovery they open.\<close>

definition closes_recovery :: "('h, 'a) sd \<Rightarrow> bool" where
  "closes_recovery m \<longleftrightarrow> hoare (at 0 any_flags) m (\<lambda>_. at 0 any_flags)"

lemma closes_safe: "safe (at 0 any_flags) m \<Longrightarrow> closes_recovery m"
  unfolding closes_recovery_def by (rule hoare_safe)

lemma on_slot_ok:
  assumes "on_slot Y i m d = Ret (x, d')" "driver_ok d" "\<And>E. closes_recovery (m E)"
  shows "driver_ok d' \<and> same_shape d d'"
proof -
  from assms(1) obtain nd s where nd: "Allocations d i = Some nd"
      and run: "m (env_of Y nd) (slot_state d nd) = Ret (x, s)" and d': "d' = put_slot i nd s d"
    by (auto simp: on_slot_def split: option.splits outcome.splits)
  from assms(2) nd have "attempts (slot_state d nd) = 0"
    by (auto simp: driver_ok_def slot_state_def attempts_def)
  with run assms(3) have "attempts s = 0"
    using hoareD [OF assms(3) [unfolded closes_recovery_def] _ run] by simp
  then show ?thesis
    using assms(2) nd
    by (auto simp: d' driver_ok_def same_shape_def put_slot_def attempts_def)
qed

lemma closes_SoftReset: "closes_recovery (SoftReset E (Sd E))"
  unfolding Sd_def by (rule closes_safe) (rule top.safe_SoftReset [OF any.reset_policy_axioms])

lemma closes_UninstallAll: "closes_recovery (UninstallAllProtocols E)"
  by (rule closes_safe) (rule any.policy_uninstall)

lemma closes_check:
  "closes_recovery
     (bindM (hostM (IsCardPresent (HostExt E))) (\<lambda>present.
      bindM (getInst (\<lambda>I. MediaPresent (Media I))) (\<lambda>known.
      if (known \<and> \<not> present) \<or> (\<not> known \<and> present)
      then bindM (SoftReset E (Sd E)) (\<lambda>_. ret ()) else ret ())))"
  unfolding Sd_def
  by (rule closes_safe) (intro safe_intros top.safe_SoftReset [OF any.reset_policy_axioms])

lemma check_cards_ok:
  "check_cards Y is d = Ret (u, d') \<Longrightarrow> driver_ok d \<Longrightarrow> driver_ok d' \<and> same_shape d d'"
proof (induction "is" arbitrary: d)
  case (Cons i "is")
  from Cons.prems(1) obtain d1 where 1: "check_card Y i d = Ret ((), d1)" "check_cards Y is d1 = Ret (u, d')"
    by (auto simp: bindM_Ret)
  from on_slot_ok [OF 1(1) [unfolded check_card_def] Cons.prems(2) closes_check]
  show ?case
    using Cons.IH [OF 1(2)] same_shape_trans by blast
qed (simp add: ret_def)

lemma CheckCards_ok:
  "CheckCardsCallback Y d = Ret (u, d') \<Longrightarrow> driver_ok d \<Longrightarrow> driver_ok d' \<and> same_shape d d'"
  by (simp add: CheckCardsCallback_def check_cards_ok)

lemma allocate_ok:
  assumes "driver_ok d" "ErrorRecoveryAttemptCount (NodeInst nd) = 0" "allocate nd d = Ret (i, d')"
  shows "driver_ok d' \<and> i = NextAllocation d \<and> gSdhcInstancePool d' = gSdhcInstancePool d \<and>
         Allocations d' = (Allocations d)(i \<mapsto> nd)"
  using assms by (auto simp: allocate_def driver_ok_def less_Suc_eq split: if_splits)

lemma free_allocation_ok:
  assumes "driver_ok d" "i \<notin> set (gSdhcInstancePool d)" "free_allocation i d = Ret (u, d')"
  shows "driver_ok d' \<and> gSdhcInstancePool d' = gSdhcInstancePool d \<and>
         Allocations d' = (Allocations d)(i := None)"
  using assms by (auto simp: free_allocation_def modify_def driver_ok_def split: if_splits)

lemma fresh_not_in_pool: "driver_ok d \<Longrightarrow> NextAllocation d \<notin> set (gSdhcInstancePool d)"
  unfolding driver_ok_def by force

lemma fresh_not_allocated: "driver_ok d \<Longrightarrow> Allocations d (NextAllocation d) = None"
  unfolding driver_ok_def by (metis less_irrefl not_None_eq)

lemma closes_modifyInst: "keeps_core f \<Longrightarrow> closes_recovery (modifyInst f)"
  by (intro closes_safe safe_intros)

lemma keeps_core_ids [simp]:
  "keeps_core (\<lambda>I. I\<lparr>DevicePathSdhcId := n\<rparr>)" "keeps_core (\<lambda>I. I\<lparr>MmcHandle := h\<rparr>)"
  by (simp_all add: keeps_core_def flags_of_def)

lemma new_instance_attempts [simp]: "ErrorRecoveryAttemptCount (new_instance iid caps n) = 0"
  by (simp add: new_instance_def zero_SDHC_INSTANCE_def)

lemma driver_ok_id [simp]: "driver_ok (d\<lparr>gNextSdhcInstanceId := n\<rparr>) = driver_ok d"
  by (simp add: driver_ok_def)

lemma finish_instance_Ret:
  assumes "finish_instance Y i caps d = Ret (r, d')"
  shows "(r = None \<and> (\<exists>h. free_allocation i (d\<lparr>DriverHw := h\<rparr>) = Ret ((), d'))) \<or>
    (r = Some i \<and> (\<exists>h d1. on_slot Y i (\<lambda>E. modifyInst (\<lambda>I. I\<lparr>DevicePathSdhcId := SdhcId (HostExt E)\<rparr>))
        (d\<lparr>DriverHw := h\<rparr>) = Ret ((), d1) \<and> d' = d1\<lparr>gNextSdhcInstanceId := gNextSdhcInstanceId d1 + 1\<rparr>))"
proof -
  obtain ok h where pool: "AllocatePool (BootServices Y) (DriverHw d) = (ok, h)"
    by fastforce
  have d: "d = d\<lparr>DriverHw := DriverHw d\<rparr>"
    by simp
  let ?m = "on_slot Y i (\<lambda>E. modifyInst (\<lambda>I. I\<lparr>DevicePathSdhcId := SdhcId (HostExt E)\<rparr>))"
  consider "MaximumBlockSize caps = 0 \<or> MaximumBlockCount caps = 0"
    | "MaximumBlockSize caps < SD_BLOCK_LENGTH_BYTES" "MaximumBlockSize caps \<noteq> 0" "MaximumBlockCount caps \<noteq> 0"
    | "\<not> MaximumBlockSize caps < SD_BLOCK_LENGTH_BYTES" "MaximumBlockSize caps \<noteq> 0" "MaximumBlockCount caps \<noteq> 0"
    by blast
  then show ?thesis
  proof cases
    case 1
    with assms show ?thesis
      by (auto simp: finish_instance_def ASSERT_def bindM_def ret_def stopM_def word_gt_0
          split: if_splits)
  next
    case 2
    with assms have "free_allocation i d = Ret ((), d') \<and> r = None"
      by (simp add: finish_instance_def ASSERT_def ret_def word_gt_0 bindM_def free_allocation_def modify_def)
    with d show ?thesis by metis
  next
    case 3
    then show ?thesis
    proof (cases ok)
      case True
      with 3 assms pool obtain d1 where "?m (d\<lparr>DriverHw := h\<rparr>) = Ret ((), d1)"
          "r = Some i" "d' = d1\<lparr>gNextSdhcInstanceId := gNextSdhcInstanceId d1 + 1\<rparr>"
        by (auto simp: finish_instance_def ASSERT_def ret_def word_gt_0 bindM_def drvHost_def modify_def
            split: outcome.splits)
      then show ?thesis by blast
    next
      case False
      with 3 assms pool show ?thesis
        by (auto simp: finish_instance_def ASSERT_def ret_def word_gt_0 bindM_def drvHost_def modify_def
            free_allocation_def)
    qed
  qed
qed

lemma finish_instance_ok:
  assumes "finish_instance Y i caps d = Ret (r, d')" "driver_ok d" "i \<notin> set (gSdhcInstancePool d)"
  shows "driver_ok d' \<and> gSdhcInstancePool d' = gSdhcInstancePool d \<and>
         (case r of None \<Rightarrow> Allocations d' = (Allocations d)(i := None)
          | Some j \<Rightarrow> j = i \<and> dom (Allocations d') = dom (Allocations d))"
  using finish_instance_Ret [OF assms(1)]
proof (elim disjE exE conjE)
  fix h
  assume "r = None" and free: "free_allocation i (d\<lparr>DriverHw := h\<rparr>) = Ret ((), d')"
  with free_allocation_ok [OF _ _ free] assms(2,3) show ?thesis by simp
next
  fix h d1
  assume r: "r = Some i" and d': "d' = d1\<lparr>gNextSdhcInstanceId := gNextSdhcInstanceId d1 + 1\<rparr>"
    and run: "on_slot Y i (\<lambda>E. modifyInst (\<lambda>I. I\<lparr>DevicePathSdhcId := SdhcId (HostExt E)\<rparr>)) (d\<lparr>DriverHw := h\<rparr>)
      = Ret ((), d1)"
  from on_slot_ok [OF run _ closes_modifyInst] assms(2) r d' show ?thesis
    by (simp add: same_shape_def)
qed

lemma CreateSdhcInstance_Ret:
  assumes "CreateSdhcInstance Y ctl d = Ret (r, d')"
  shows "(\<exists>h. d' = d\<lparr>DriverHw := h\<rparr> \<and> r = None) \<or>
    (\<exists>h caps i d1. allocate \<lparr>HostExtOf = ctl, NodeInst = new_instance (gNextSdhcInstanceId d) caps 0\<rparr>
       (d\<lparr>DriverHw := h\<rparr>) = Ret (i, d1) \<and> finish_instance Y i caps d1 = Ret (r, d'))"
proof -
  obtain ok h where pool: "AllocatePool (BootServices Y) (DriverHw d) = (ok, h)"
    by fastforce
  obtain caps h1 where caps: "GetCapabilities (Controllers Y ctl) h = (caps, h1)"
    by fastforce
  show ?thesis
  proof (cases ok)
    case True
    let ?nd = "\<lparr>HostExtOf = ctl, NodeInst = new_instance (gNextSdhcInstanceId d) caps 0\<rparr>"
    obtain i d1 where alloc: "allocate ?nd (d\<lparr>DriverHw := h1\<rparr>) = Ret (i, d1)"
      by (simp add: allocate_def)
    with assms pool caps True have "finish_instance Y i caps d1 = Ret (r, d')"
      by (simp add: CreateSdhcInstance_def bindM_def drvHost_def gets_def)
    with alloc show ?thesis by blast
  next
    case False
    with assms pool show ?thesis
      by (auto simp: CreateSdhcInstance_def bindM_def drvHost_def ret_def)
  qed
qed

lemma CreateSdhcInstance_ok:
  assumes "CreateSdhcInstance Y ctl d = Ret (r, d')" "driver_ok d"
  shows "driver_ok d' \<and> gSdhcInstancePool d' = gSdhcInstancePool d \<and>
         (case r of None \<Rightarrow> Allocations d' = Allocations d
          | Some i \<Rightarrow> i \<notin> set (gSdhcInstancePool d) \<and> Allocations d' i \<noteq> None)"
  using CreateSdhcInstance_Ret [OF assms(1)]
proof (elim disjE exE conjE)
  fix h
  assume "d' = d\<lparr>DriverHw := h\<rparr>" "r = None"
  with assms(2) show ?thesis by simp
next
  fix h caps i d1
  assume 1: "allocate \<lparr>HostExtOf = ctl, NodeInst = new_instance (gNextSdhcInstanceId d) caps 0\<rparr>
       (d\<lparr>DriverHw := h\<rparr>) = Ret (i, d1)" and 2: "finish_instance Y i caps d1 = Ret (r, d')"
  from allocate_ok [OF _ _ 1] assms(2) have a: "driver_ok d1" "i = NextAllocation d"
    "gSdhcInstancePool d1 = gSdhcInstancePool d" "Allocations d1 i \<noteq> None"
    "(Allocations d1)(i := None) = (Allocations d)(i := None)"
    by simp_all
  have i: "i \<notin> set (gSdhcInstancePool d1)" "(Allocations d)(i := None) = Allocations d"
    using a fresh_not_in_pool [OF assms(2)] fresh_not_allocated [OF assms(2)] by auto
  show ?thesis
  proof (cases r)
    case None
    with finish_instance_ok [OF 2 a(1) i(1)] a i show ?thesis by simp
  next
    case (Some j)
    with finish_instance_ok [OF 2 a(1) i(1)] have "driver_ok d'" "gSdhcInstancePool d' = gSdhcInstancePool d1"
        "j = i" "dom (Allocations d') = dom (Allocations d1)"
      by simp_all
    moreover have "i \<in> dom (Allocations d1)"
      using a(4) by (rule iffD2 [OF domIff])
    ultimately have "i \<in> dom (Allocations d')"
      by simp
    then have "Allocations d' i \<noteq> None"
      by (rule iffD1 [OF domIff])
    with Some a(3) i(1) \<open>driver_ok d'\<close> \<open>gSdhcInstancePool d' = gSdhcInstancePool d1\<close> \<open>j = i\<close>
    show ?thesis by simp
  qed
qed

lemma Insert_ok:
  assumes "InsertSdhcInstance i d = Ret (u, d')" "driver_ok d" "i \<notin> set (gSdhcInstancePool d)"
    and "Allocations d i \<noteq> None"
  shows "driver_ok d' \<and> gSdhcInstancePool d' = gSdhcInstancePool d @ [i] \<and> Allocations d' = Allocations d"
  using assms by (auto simp: InsertSdhcInstance_def modify_def driver_ok_def)

lemma SdMmcDriverStart_ok:
  assumes "SdMmcDriverStart Y ctl p d = Ret (st, d')" "driver_ok d"
  shows "driver_ok d'"
proof (cases "p = Some DevicePathEnd")
  case True
  with assms show ?thesis by (simp add: SdMmcDriverStart_def ret_def)
next
  case False
  obtain st1 h where "open_sdhc Y ctl d = Ret (st1, d\<lparr>DriverHw := h\<rparr>)"
    by (cases "OpenProtocol (BootServices Y) ctl gEfiSdhcProtocolGuid DriverBindingHandle (Controller ctl)
          (DriverHw d)") (simp add: open_sdhc_def drvHost_def)
  with assms(1) False have rest: "(if EFI_ERROR st1 then d' = d\<lparr>DriverHw := h\<rparr>
      else \<exists>r d1. CreateSdhcInstance Y ctl (d\<lparr>DriverHw := h\<rparr>) = Ret (r, d1) \<and>
        (case r of None \<Rightarrow> d' = d1
         | Some i \<Rightarrow> \<exists>d2 d3. on_slot Y i (\<lambda>E. modifyInst (\<lambda>I. I\<lparr>MmcHandle := ctl\<rparr>)) d1 = Ret ((), d2) \<and>
             InsertSdhcInstance i d2 = Ret ((), d3) \<and> CheckCardsCallback Y d3 = Ret ((), d')))"
    by (simp add: SdMmcDriverStart_def bindM_Ret ret_def split: if_splits)
      (fastforce simp: bindM_Ret ret_def split: option.splits)
  show ?thesis
  proof (cases "EFI_ERROR st1")
    case True
    with rest assms(2) show ?thesis by simp
  next
    case False
    with rest obtain r d1 where create: "CreateSdhcInstance Y ctl (d\<lparr>DriverHw := h\<rparr>) = Ret (r, d1)"
        and post: "case r of None \<Rightarrow> d' = d1
         | Some i \<Rightarrow> \<exists>d2 d3. on_slot Y i (\<lambda>E. modifyInst (\<lambda>I. I\<lparr>MmcHandle := ctl\<rparr>)) d1 = Ret ((), d2) \<and>
             InsertSdhcInstance i d2 = Ret ((), d3) \<and> CheckCardsCallback Y d3 = Ret ((), d')"
      by auto
    note c = CreateSdhcInstance_ok [OF create, simplified, OF assms(2)]
    show ?thesis
    proof (cases r)
      case None
      with c post show ?thesis by simp
    next
      case (Some i)
      with post obtain d2 d3 where
        2: "on_slot Y i (\<lambda>E. modifyInst (\<lambda>I. I\<lparr>MmcHandle := ctl\<rparr>)) d1 = Ret ((), d2)" and
        3: "InsertSdhcInstance i d2 = Ret ((), d3)" and 4: "CheckCardsCallback Y d3 = Ret ((), d')"
        by auto
      have ok2: "driver_ok d2 \<and> same_shape d1 d2"
        using on_slot_ok [OF 2 _ closes_modifyInst] c by simp
      have "Allocations d2 i \<noteq> None"
        using same_shape_alive [of d1 d2] ok2 c Some by simp
      then have "driver_ok d3"
        using Insert_ok [OF 3] ok2 c Some by (simp add: same_shape_def)
      then show ?thesis
        using CheckCards_ok [OF 4] by simp
    qed
  qed
qed

lemma Remove_ok:
  assumes "RemoveSdhcInstance i d = Ret (u, d')" "driver_ok d"
  shows "driver_ok d' \<and> i \<notin> set (gSdhcInstancePool d')"
  using assms by (auto simp: RemoveSdhcInstance_def driver_ok_def split: option.splits dest: in_set_remove1)

lemma closes_host: "closes_recovery (hostM f)"
  by (intro closes_safe safe_intros)

lemma Destroy_ok:
  assumes "DestroySdhcInstance Y i d = Ret (st, d')" "driver_ok d" "i \<notin> set (gSdhcInstancePool d)"
  shows "driver_ok d' \<and> gSdhcInstancePool d' = gSdhcInstancePool d"
proof -
  from assms(1) obtain st1 d1 where 1: "on_slot Y i UninstallAllProtocols d = Ret (st1, d1)"
      and rest: "d' = d1 \<or> (\<exists>d2. on_slot Y i (\<lambda>E. hostM (Cleanup (HostExt E))) d1 = Ret ((), d2) \<and>
        free_allocation i d2 = Ret ((), d'))"
    by (auto simp: DestroySdhcInstance_def tryE_Ret bindM_Ret ret_def split: if_splits)
  have ok1: "driver_ok d1 \<and> same_shape d d1"
    by (rule on_slot_ok [OF 1 assms(2) closes_UninstallAll])
  from rest show ?thesis
  proof (elim disjE exE conjE)
    assume "d' = d1"
    with ok1 show ?thesis by (simp add: same_shape_def)
  next
    fix d2
    assume 2: "on_slot Y i (\<lambda>E. hostM (Cleanup (HostExt E))) d1 = Ret ((), d2)"
      and 3: "free_allocation i d2 = Ret ((), d')"
    have "driver_ok d2 \<and> same_shape d1 d2"
      using on_slot_ok [OF 2 _ closes_host] ok1 by simp
    with free_allocation_ok [OF _ _ 3] ok1 assms(3) show ?thesis
      by (simp add: same_shape_def)
  qed
qed

lemma stop_loop_ok:
  "stop_loop Y ctl i n d = Ret (st, d') \<Longrightarrow> driver_ok d \<Longrightarrow> driver_ok d'"
proof (induction n arbitrary: d)
  case (Suc n)
  from Suc.prems(1) obtain h d1 st1 d2 st2 where 1: "RemoveSdhcInstance i (d\<lparr>DriverHw := h\<rparr>) = Ret ((), d1)"
      and 2: "DestroySdhcInstance Y i d1 = Ret (st1, d2)"
      and 3: "d' = d2 \<or> stop_loop Y ctl i n d2 = Ret (st, d')"
    by (auto simp: bindM_Ret ret_def dest!: drvHost_Ret split: if_splits)
  have "driver_ok d1 \<and> i \<notin> set (gSdhcInstancePool d1)"
    using Remove_ok [OF 1] Suc.prems(2) by simp
  then have "driver_ok d2"
    using Destroy_ok [OF 2] by simp
  with 3 Suc.IH show ?case by blast
qed (simp add: stopM_def)

lemma SdMmcDriverStop_ok:
  "SdMmcDriverStop Y ctl n d = Ret (st, d') \<Longrightarrow> driver_ok d \<Longrightarrow> driver_ok d'"
  by (auto simp: SdMmcDriverStop_def ret_def split: list.splits dest: stop_loop_ok)

section \<open>Requests to a slot\<close>

lemma closes_bindM:
  "closes_recovery m \<Longrightarrow> (\<And>x. closes_recovery (f x)) \<Longrightarrow> closes_recovery (bindM m f)"
  unfolding closes_recovery_def by (rule hoare_bindM)

lemma closes_stop: "closes_recovery (stopM r)"
  by (simp add: closes_recovery_def hoare_stopM)

lemma closes_send_retry: "closes_recovery (send_retry (Sd E) Cmd Lba n b k st)"
  unfolding Sd_def by (rule closes_safe) (rule top.safe_send_retry)

lemma closes_io_loop: "closes_recovery (io_loop (Sd E) Cmd m bid n off rem Lba st)"
proof (induction n arbitrary: off rem Lba st)
  case 0
  then show ?case
    by (auto simp: io_loop.simps closes_stop split: option.splits intro!: closes_safe safe_intros)
next
  case (Suc n)
  have "closes_recovery (case st of None \<Rightarrow> stopM UninitializedRead | Some x \<Rightarrow> ret x)"
    by (cases st) (auto simp: closes_stop intro!: closes_safe safe_intros)
  with Suc show ?case
    by (subst io_loop.simps)
      (auto simp: Let_def closes_stop intro!: closes_bindM closes_send_retry
        closes_safe [OF safe_getInst])
qed

lemma closes_IoBlocks: "closes_recovery (IoBlocks (Sd E) dir mid Lba n b)"
  unfolding IoBlocks_def Let_def
  by (rule closes_bindM [OF closes_safe [OF safe_getInst]])
    (auto simp: closes_stop split: option.splits
      intro!: closes_bindM closes_io_loop closes_safe [OF safe_getInst] closes_safe [OF safe_ret])

context all_calls
begin

lemma safe_rpmb_transfers [safe_intros]:
  "safe (at c J) (RpmbRead R a b n)"
  "safe (at c J) (RpmbWrite R k n)"
  unfolding RpmbRead_def RpmbWrite_def SdhcSetBlockCount_def
  by (intro safe_intros send_any data_any)+

lemma safe_rpmb_dispatch [safe_intros]: "safe (at c J) (rpmb_dispatch R a b)"
  unfolding rpmb_dispatch_def RpmbProgramKeyRequest_def RpmbReadCounterRequest_def
    RpmbAuthenticatedReadRequest_def RpmbAuthenticatedWriteRequest_def RpmbQueryResult_def
    request_type_def
  by (intro safe_intros) simp_all

lemma safe_RpmbRequest [safe_intros]: "safe (at c J) (RpmbRequest R a b)"
  unfolding RpmbRequest_def by (intro safe_intros)

end

text \<open>A request a client can make through the protocols of a slot.\<close>

datatype request =
    ResetRequest
  | ReadRequest u32 u64 u64 "io_buffer option"
  | WriteRequest u32 u64 u64 "io_buffer option"
  | FlushRequest
  | ProgramKeyRequest "packet_ref option" "packet_ref option"
  | ReadCounterRequest "packet_ref option" "packet_ref option"
  | AuthenticatedWriteRequest "EFI_RPMB_DATA_BUFFER option" "packet_ref option"
  | AuthenticatedReadRequest "packet_ref option" "EFI_RPMB_DATA_BUFFER option"

fun serve :: "request \<Rightarrow> 'h SdEnv \<Rightarrow> ('h, EFI_STATUS) sd" where
  "serve ResetRequest E = BlockIoReset E (Sd E)"
| "serve (ReadRequest mid Lba n b) E = BlockIoReadBlocks (Sd E) mid Lba n b"
| "serve (WriteRequest mid Lba n b) E = BlockIoWriteBlocks (Sd E) mid Lba n b"
| "serve FlushRequest E = BlockIoFlushBlocks"
| "serve (ProgramKeyRequest a b) E = RpmbIoProgramKey (Sd E) a b"
| "serve (ReadCounterRequest a b) E = RpmbIoReadCounter (Sd E) a b"
| "serve (AuthenticatedWriteRequest a b) E = RpmbIoAuthenticatedWrite (Sd E) a b"
| "serve (AuthenticatedReadRequest a b) E = RpmbIoAuthenticatedRead (Sd E) a b"

lemma closes_RpmbRequest: "closes_recovery (RpmbRequest (Sd E) a b)"
  unfolding Sd_def by (rule closes_safe) (rule top.safe_RpmbRequest)

lemma closes_serve: "closes_recovery (serve q E)"
proof -
  have t: "closes_recovery (request_type b)" for b :: nat
    unfolding request_type_def by (intro closes_safe safe_intros)
  show ?thesis
    by (cases q)
      (auto simp: BlockIoReset_def BlockIoReadBlocks_def BlockIoWriteBlocks_def BlockIoFlushBlocks_def
        RpmbIoProgramKey_def RpmbIoReadCounter_def RpmbIoAuthenticatedWrite_def RpmbIoAuthenticatedRead_def
        split: option.splits
        intro!: closes_SoftReset closes_IoBlocks closes_RpmbRequest closes_bindM t closes_safe [OF safe_ret])
qed

section \<open>The driver as a state machine\<close>

text \<open>
  What the firmware can do to the loaded driver: start and stop it on a controller, let the card
  timer fire, and send a request to an instance of the pool. Calls that stop have no successor.
\<close>

inductive driver_step :: "'h System \<Rightarrow> 'h Driver \<Rightarrow> 'h Driver \<Rightarrow> bool" for Y where
  start: "SdMmcDriverStart Y ctl p d = Ret (st, d') \<Longrightarrow> driver_step Y d d'"
| stop: "SdMmcDriverStop Y ctl n d = Ret (st, d') \<Longrightarrow> driver_step Y d d'"
| timer: "CheckCardsCallback Y d = Ret (u, d') \<Longrightarrow> driver_step Y d d'"
| serve: "i \<in> set (gSdhcInstancePool d) \<Longrightarrow> on_slot Y i (serve q) d = Ret (st, d') \<Longrightarrow> driver_step Y d d'"

inductive driver_reachable :: "'h System \<Rightarrow> 'h Driver \<Rightarrow> 'h Driver \<Rightarrow> bool" for Y d where
  initial: "driver_reachable Y d d"
| later: "driver_reachable Y d d' \<Longrightarrow> driver_step Y d' d'' \<Longrightarrow> driver_reachable Y d d''"

inductive_cases driver_stepE: "driver_step Y d d'"

lemma driver_step_ok: "driver_step Y d d' \<Longrightarrow> driver_ok d \<Longrightarrow> driver_ok d'"
  by (erule driver_stepE)
    (auto dest: SdMmcDriverStart_ok SdMmcDriverStop_ok CheckCards_ok on_slot_ok [OF _ _ closes_serve])

text \<open>The driver just loaded.\<close>

definition loaded :: "'h \<Rightarrow> 'h Driver" where
  "loaded h =
     \<lparr>gSdhcInstancePool = [], Allocations = Map.empty, NextAllocation = 0, gNextSdhcInstanceId = 0,
      DriverPacket = initial_ResultRequest, DriverBufs = (\<lambda>_. []), DriverHw = h\<rparr>"

text \<open>
  Property C1. In every state the loaded driver can reach, through any sequence of starts, stops,
  card checks and requests, the pool is free of duplicates and of freed instances, and no instance
  is left inside an error recovery.
\<close>
theorem driver_reachable_ok:
  assumes "driver_reachable Y (loaded h) d"
  shows "driver_ok d"
  using assms
proof induction
  case initial
  show ?case by (simp add: driver_ok_def loaded_def)
next
  case (later d' d'')
  then show ?case by (blast intro: driver_step_ok)
qed

definition sim_system :: "SimHost System" where
  "sim_system = \<lparr>Controllers = (\<lambda>_. sim_host), BootServices = sim_gBS\<rparr>"

definition empty_slot_hw :: SimHost where
  "empty_slot_hw = Hw (sim_start CardFunctionUnknown)"

theorem driver_reachable_ok_witness:
  "\<exists>d. driver_reachable sim_system (loaded empty_slot_hw) d \<and> length (gSdhcInstancePool d) = 1 \<and> driver_ok d"
proof -
  have "(case SdMmcDriverStart sim_system 7 None (loaded empty_slot_hw) of
           Ret (st, d) \<Rightarrow> length (gSdhcInstancePool d) = 1 | Stop _ \<Rightarrow> False)"
    by code_simp
  then obtain st d where "SdMmcDriverStart sim_system 7 None (loaded empty_slot_hw) = Ret (st, d)"
      and len: "length (gSdhcInstancePool d) = 1"
    by (auto split: outcome.splits)
  then have "driver_reachable sim_system (loaded empty_slot_hw) d"
    by (intro driver_reachable.later [OF driver_reachable.initial] driver_step.start)
  with driver_reachable_ok [OF this] len show ?thesis by blast
qed

section \<open>Creation and destruction\<close>

text \<open>
  A creation that returns \<open>NULL\<close> leaks nothing: whichever check or allocation failed,
  the live allocations are those from before, and the pool is untouched.
\<close>
theorem CreateSdhcInstance_no_leak:
  assumes "CreateSdhcInstance Y ctl d = Ret (None, d')" "driver_ok d"
  shows "Allocations d' = Allocations d \<and> gSdhcInstancePool d' = gSdhcInstancePool d"
  using CreateSdhcInstance_ok [OF assms] by simp

definition small_block_system :: "SimHost System" where
  "small_block_system = sim_system\<lparr>Controllers :=
     (\<lambda>_. sim_host\<lparr>GetCapabilities := (\<lambda>h. (\<lparr>MaximumBlockSize = 256, MaximumBlockCount = 1\<rparr>, h))\<rparr>)\<rparr>"

lemma small_block_create:
  "CreateSdhcInstance small_block_system 7 (loaded h) = Ret (None, (loaded h)\<lparr>NextAllocation := 1\<rparr>)"
  by (simp add: CreateSdhcInstance_def finish_instance_def small_block_system_def sim_system_def
      sim_gBS_def bindM_def drvHost_def gets_def allocate_def ASSERT_def ret_def free_allocation_def
      modify_def SD_BLOCK_LENGTH_BYTES_def loaded_def)

theorem CreateSdhcInstance_no_leak_witness:
  "Allocations ((loaded empty_slot_hw)\<lparr>NextAllocation := 1\<rparr>) = Allocations (loaded empty_slot_hw)"
proof -
  have "driver_ok (loaded empty_slot_hw)"
    by (simp add: driver_ok_def loaded_def)
  from CreateSdhcInstance_no_leak [OF small_block_create this] show ?thesis by simp
qed

text \<open>
  Starting the driver on a controller it cannot handle still reports success: with 256-byte
  blocks no instance is created, and the status is that of opening the protocol.
\<close>
lemma SdMmcDriverStart_hides_failure:
  "\<exists>d. SdMmcDriverStart small_block_system 7 None (loaded h) = Ret (EFI_SUCCESS, d) \<and>
       gSdhcInstancePool d = []"
  using small_block_create [of h]
  by (simp add: SdMmcDriverStart_def open_sdhc_def small_block_system_def sim_system_def sim_gBS_def
      bindM_def drvHost_def ret_def loaded_def)

lemma uninstall_runs: "\<exists>st s'. uninstall E p old s = Ret (st, s')"
  by (cases "UninstallProtocol (gBS E) (MmcHandle (Inst s)) p (Hw s)")
    (auto simp: uninstall_def getInst_def bindM_def hostM_def modifyInst_def modify_def ret_def gets_def)

lemma UninstallAllProtocols_runs:
  assumes "uninstall_succeeds E"
  shows "\<exists>s'. UninstallAllProtocols E s = Ret (EFI_SUCCESS, s')"
proof -
  have step: "\<exists>st s'. uninstall E p EFI_SUCCESS s = Ret (st, s') \<and> \<not> EFI_ERROR st" for p s
    using uninstall_runs [of E p EFI_SUCCESS s] uninstall_Ret [OF assms, of p EFI_SUCCESS s] by auto
  have chain: "\<exists>s'. tryE (uninstall E p EFI_SUCCESS) k s = Ret (EFI_SUCCESS, s')"
    if "\<And>s. \<exists>s'. k s = Ret (EFI_SUCCESS, s')" for p k s
    using step [of p s] that by (auto simp: tryE_def bindM_def)
  show ?thesis
    unfolding UninstallAllProtocols_def runE.simps by (intro chain) (simp add: ret_def)
qed

lemma Destroy_frees:
  assumes "Allocations d i = Some nd" "uninstall_succeeds (env_of Y nd)"
  shows "\<exists>d'. DestroySdhcInstance Y i d = Ret (EFI_SUCCESS, d') \<and> Allocations d' i = None"
proof -
  obtain s' where "UninstallAllProtocols (env_of Y nd) (slot_state d nd) = Ret (EFI_SUCCESS, s')"
    using UninstallAllProtocols_runs [OF assms(2)] by blast
  then have "on_slot Y i UninstallAllProtocols d = Ret (EFI_SUCCESS, put_slot i nd s' d)"
    using assms(1) by (simp add: on_slot_def)
  moreover have "\<exists>d2. on_slot Y i (\<lambda>E. hostM (Cleanup (HostExt E))) (put_slot i nd s' d) = Ret ((), d2)"
    by (simp add: on_slot_def put_slot_def hostM_def split: prod.split)
  ultimately show ?thesis
    by (auto simp: DestroySdhcInstance_def tryE_def bindM_def free_allocation_def modify_def ret_def)
qed

text \<open>
  The loop of \<open>SdMmcDriverStop\<close> never moves on to the next link: when closing the
  protocol and uninstalling succeed, its second round touches the instance the first one freed.
\<close>
theorem SdMmcDriverStop_use_after_free:
  assumes "driver_ok d" "gSdhcInstancePool d = i # rest"
    and "\<And>h. fst (CloseProtocol (BootServices Y) ctl gEfiSdhcProtocolGuid (HostExtAddress i)
                   DriverBindingHandle h) = EFI_SUCCESS"
    and "\<And>p hd h. \<not> EFI_ERROR (fst (UninstallProtocol (BootServices Y) hd p h))"
  shows "SdMmcDriverStop Y ctl (Suc (Suc n)) d = Stop UseAfterFree"
proof -
  have close: "\<exists>h. drvHost (CloseProtocol (BootServices Y) ctl gEfiSdhcProtocolGuid (HostExtAddress i)
      DriverBindingHandle) e = Ret (EFI_SUCCESS, e\<lparr>DriverHw := h\<rparr>)" for e :: "'a Driver"
    using assms(3) [of "DriverHw e"]
    by (cases "CloseProtocol (BootServices Y) ctl gEfiSdhcProtocolGuid (HostExtAddress i)
          DriverBindingHandle (DriverHw e)") (auto simp: drvHost_def)
  obtain nd where nd: "Allocations d i = Some nd"
    using assms(1,2) by (auto simp: driver_ok_def)
  obtain h where h: "drvHost (CloseProtocol (BootServices Y) ctl gEfiSdhcProtocolGuid (HostExtAddress i)
      DriverBindingHandle) d = Ret (EFI_SUCCESS, d\<lparr>DriverHw := h\<rparr>)"
    using close by blast
  define d1 where "d1 = d\<lparr>DriverHw := h, gSdhcInstancePool := remove1 i (gSdhcInstancePool d)\<rparr>"
  have rem: "RemoveSdhcInstance i (d\<lparr>DriverHw := h\<rparr>) = Ret ((), d1)"
    by (simp add: RemoveSdhcInstance_def nd d1_def)
  have "uninstall_succeeds (env_of Y nd)"
    using assms(4) by (simp add: uninstall_succeeds_def env_of_def)
  then obtain d2 where des: "DestroySdhcInstance Y i d1 = Ret (EFI_SUCCESS, d2)" "Allocations d2 i = None"
    using Destroy_frees [of d1 i nd Y] nd by (auto simp: d1_def)
  obtain h2 where h2: "drvHost (CloseProtocol (BootServices Y) ctl gEfiSdhcProtocolGuid (HostExtAddress i)
      DriverBindingHandle) d2 = Ret (EFI_SUCCESS, d2\<lparr>DriverHw := h2\<rparr>)"
    using close by blast
  have "stop_loop Y ctl i (Suc n) d2 = Stop UseAfterFree"
    using h2 des(2) by (simp add: bindM_def RemoveSdhcInstance_def)
  then show ?thesis
    using h rem des assms(2) by (simp add: SdMmcDriverStop_def gets_def bindM_def)
qed

definition open_system :: "SimHost System" where
  "open_system = sim_system\<lparr>BootServices :=
     sim_gBS\<lparr>CloseProtocol := (\<lambda>_ _ _ _ h. (EFI_SUCCESS, h))\<rparr>\<rparr>"

definition one_instance :: "SimHost Driver" where
  "one_instance = (loaded empty_slot_hw)\<lparr>gSdhcInstancePool := [0], NextAllocation := 1,
     Allocations := [0 \<mapsto> \<lparr>HostExtOf = 7, NodeInst = zero_SDHC_INSTANCE\<rparr>]\<rparr>"

theorem SdMmcDriverStop_use_after_free_witness:
  "SdMmcDriverStop open_system 7 (Suc (Suc 0)) one_instance = Stop UseAfterFree"
  by (rule SdMmcDriverStop_use_after_free [where i = 0 and rest = "[]"])
    (auto simp: open_system_def sim_system_def sim_gBS_def one_instance_def loaded_def driver_ok_def
      zero_SDHC_INSTANCE_def)

section \<open>The card check\<close>

text \<open>
  A card that is present but failed to initialise is never tried again: as soon as the
  recorded presence agrees with the slot, the card check only queries the slot, whether or not the
  instance is initialised. The table in the code's comment resets such a slot.
\<close>
lemma check_card_no_retry:
  assumes "Allocations d i = Some nd"
    and "IsCardPresent (Controllers Y (HostExtOf nd)) (DriverHw d) = (MediaPresent (Media (NodeInst nd)), h)"
  shows "\<exists>d'. check_card Y i d = Ret ((), d') \<and> Allocations d' = Allocations d \<and> DriverHw d' = h"
  using assms
  by (auto simp: check_card_def on_slot_def slot_state_def env_of_def bindM_def hostM_def getInst_def
      gets_def ret_def put_slot_def)

theorem check_card_no_retry_witness:
  "\<exists>d'. check_card sim_system 0 one_instance = Ret ((), d') \<and> Allocations d' = Allocations one_instance"
  using check_card_no_retry [of one_instance 0 "\<lparr>HostExtOf = 7, NodeInst = zero_SDHC_INSTANCE\<rparr>"
      sim_system empty_slot_hw]
  by (auto simp: one_instance_def sim_system_def sim_host_def loaded_def empty_slot_hw_def
      sim_start_def zero_SDHC_INSTANCE_def gSdhcMediaTemplate_def)

end
