(* ===== verification/ByteMem.thy ===== *)
theory ByteMem
  imports Prelude
begin

text \<open>
  Byte-addressed memory with 64-bit addresses, for the code that reads and writes through raw
  pointers: little-endian fields, blocks of addresses, and the facts on writes that stay inside or
  outside a block. Address arithmetic wraps, as pointer arithmetic on \<open>UINTN\<close> does.
\<close>

named_theorems block_simps \<open>membership in blocks of addresses\<close>

type_synonym memory = "u64 \<Rightarrow> u8"

definition peek :: "nat \<Rightarrow> u64 \<Rightarrow> memory \<Rightarrow> u8 list" where
  "peek n a m = map (\<lambda>i. m (a + of_nat i)) [0..<n]"

definition poke :: "u64 \<Rightarrow> u8 list \<Rightarrow> memory \<Rightarrow> memory" where
  "poke a bs m = (\<lambda>x. if unat (x - a) < length bs then bs ! unat (x - a) else m x)"

definition read_u32 :: "u64 \<Rightarrow> memory \<Rightarrow> u32" where
  "read_u32 a m = of_nat (le_nat (peek 4 a m))"

definition read_u64 :: "u64 \<Rightarrow> memory \<Rightarrow> u64" where
  "read_u64 a m = of_nat (le_nat (peek 8 a m))"

text \<open>The addresses of the block of \<open>l\<close> bytes at \<open>b\<close>.\<close>

definition blk :: "u64 \<Rightarrow> u64 \<Rightarrow> u64 set" where
  "blk b l = {x. x - b < l}"

section \<open>Little-endian fields\<close>

lemma le_nat_le_bytes: "le_nat (le_bytes n w) = take_bit (8 * n) (unat w)"
proof (induction n)
  case 0
  show ?case by (simp add: le_bytes_def)
next
  case (Suc n)
  have step: "le_bytes (Suc n) w = le_bytes n w @ [ucast (drop_bit (8 * n) w)]"
    by (simp add: le_bytes_def)
  have "unat (ucast (drop_bit (8 * n) w) :: u8) = (unat w div 2 ^ (8 * n)) mod 2 ^ 8"
    by (simp only: unsigned_ucast_eq unsigned_drop_bit_eq)
      (simp add: take_bit_eq_mod drop_bit_eq_div)
  with Suc have "le_nat (le_bytes (Suc n) w)
      = unat w mod 2 ^ (8 * n) + 2 ^ (8 * n) * ((unat w div 2 ^ (8 * n)) mod 2 ^ 8)"
    unfolding step le_nat_append by (simp add: take_bit_eq_mod power_mult)
  also have "\<dots> = unat w mod (2 ^ (8 * n) * 2 ^ 8)"
    by (simp add: mod_mult2_eq add.commute)
  also have "\<dots> = take_bit (8 * Suc n) (unat w)"
    by (simp add: take_bit_eq_mod power_add mult.commute)
  finally show ?case .
qed

lemma of_nat_le_bytes: "of_nat (le_nat (le_bytes 8 w)) = (w :: u64)"
  by (simp add: le_nat_le_bytes take_bit_nat_eq_self unsigned_less [of w, simplified])

lemma of_nat_le_bytes32: "of_nat (le_nat (le_bytes 4 w)) = (w :: u32)"
  by (simp add: le_nat_le_bytes take_bit_nat_eq_self unsigned_less [of w, simplified])

section \<open>Blocks of addresses\<close>

lemma blk_iff [block_simps]: "x \<in> blk b l \<longleftrightarrow> unat (x - b) < unat l"
  by (simp add: blk_def word_less_nat_alt)

lemma sub_block:
  assumes "unat d + unat k \<le> unat l"
  shows "blk (b + d) k \<subseteq> blk b l"
proof
  fix x
  assume "x \<in> blk (b + d) k"
  then have lt: "unat (x - (b + d)) < unat k"
    by (simp add: blk_iff)
  have "x - b = (x - (b + d)) + d"
    by simp
  then have "unat (x - b) \<le> unat (x - (b + d)) + unat d"
    by (metis unat_word_ariths(1) mod_less_eq_dividend)
  with lt assms show "x \<in> blk b l"
    by (simp add: blk_iff)
qed

section \<open>Reads after writes\<close>

lemma length_peek [simp]: "length (peek n a m) = n"
  by (simp add: peek_def)

lemma peek_cong: "(\<And>i. i < n \<Longrightarrow> m (a + of_nat i) = m' (a + of_nat i)) \<Longrightarrow> peek n a m = peek n a m'"
  by (simp add: peek_def)

lemma poke_outside: "\<not> unat (x - a) < length bs \<Longrightarrow> poke a bs m x = m x"
  by (simp add: poke_def)

lemma poke_poke:
  "length bs = length cs \<Longrightarrow> poke a cs (poke a bs m) = poke a cs m"
  by (rule ext) (simp add: poke_def)

lemma peek_poke:
  assumes "length bs \<le> 2 ^ 63" and "i + n \<le> length bs"
  shows "peek n (a + of_nat i) (poke a bs m) = take n (drop i bs)"
proof (rule nth_equalityI)
  show "length (peek n (a + of_nat i) (poke a bs m)) = length (take n (drop i bs))"
    using assms by simp
  fix j
  assume "j < length (peek n (a + of_nat i) (poke a bs m))"
  then have j: "j < n" by simp
  have "unat (of_nat (i + j) :: u64) = i + j"
    using assms j by (simp add: unat_of_nat del: of_nat_add)
  then have "unat (of_nat i + of_nat j :: u64) = i + j"
    by simp
  with j assms show "peek n (a + of_nat i) (poke a bs m) ! j = take n (drop i bs) ! j"
    by (simp add: peek_def poke_def)
qed

lemma peek_poke_before:
  assumes "i + n \<le> k" and "k + length bs \<le> 2 ^ 63"
  shows "peek n (a + of_nat i) (poke (a + of_nat k) bs m) = peek n (a + of_nat i) m"
proof (rule peek_cong, rule poke_outside)
  fix j
  assume j: "j < n"
  define d where "d = k - (i + j)"
  have d: "0 < d" "d + length bs \<le> 2 ^ 63" "k = i + j + d"
    using assms j by (simp_all add: d_def)
  have "(a + of_nat i + of_nat j) - (a + of_nat k) = - (of_nat d :: u64)"
    by (simp add: d(3))
  moreover have "of_nat (2 ^ 64 - d) = - (of_nat d :: u64)"
    using d(2) by (simp add: of_nat_diff)
  ultimately have "unat ((a + of_nat i + of_nat j) - (a + of_nat k)) = unat (of_nat (2 ^ 64 - d) :: u64)"
    by simp
  then have "unat ((a + of_nat i + of_nat j) - (a + of_nat k)) = (2 ^ 64 - d) mod 2 ^ 64"
    by (simp only: unat_of_nat) simp
  then have "unat ((a + of_nat i + of_nat j) - (a + of_nat k)) = 2 ^ 64 - d"
    using d(1) by simp
  then show "\<not> unat ((a + of_nat i + of_nat j) - (a + of_nat k)) < length bs"
    using d by simp
qed

lemma blk_disjoint_after:
  assumes "unat d + unat k \<le> 2 ^ 64 - 1"
  shows "blk a d \<inter> blk (a + d) k = {}"
proof (rule equals0I)
  fix x
  assume "x \<in> blk a d \<inter> blk (a + d) k"
  then have x: "unat (x - a) < unat d" "unat (x - (a + d)) < unat k"
    by (simp_all add: blk_iff)
  have "x - a = (x - (a + d)) + d" by simp
  moreover have "unat ((x - (a + d)) + d) = unat (x - (a + d)) + unat d"
    using x assms by (intro iffD1 [OF unat_add_lem]) simp
  ultimately show False
    using x by simp
qed

section \<open>Byte strings in a block\<close>

lemma peek_eq_on_blk:
  assumes "\<And>x. x \<in> blk a l \<Longrightarrow> m x = m' x" and "n \<le> unat l"
  shows "peek n a m = peek n a m'"
proof (rule peek_cong)
  fix i
  assume "i < n"
  then have "i < 2 ^ 64" "i < unat l"
    using assms(2) unsigned_less [of l, where 'a = nat] by simp_all
  then show "m (a + of_nat i) = m' (a + of_nat i)"
    by (intro assms(1)) (simp add: blk_iff unat_of_nat)
qed

lemma peek_sub: "i + k \<le> n \<Longrightarrow> peek k (a + of_nat i) m = take k (drop i (peek n a m))"
  by (rule nth_equalityI) (simp_all add: peek_def add.assoc flip: of_nat_add)

lemma peek_poke_splice:
  assumes "i + length bs \<le> n" and "n < 2 ^ 64"
  shows "peek n a (poke (a + of_nat i) bs m) = splice i bs (peek n a m)"
proof (rule nth_equalityI)
  show "length (peek n a (poke (a + of_nat i) bs m)) = length (splice i bs (peek n a m))"
    using assms(1) by simp
  fix j
  assume "j < length (peek n a (poke (a + of_nat i) bs m))"
  then have j: "j < n" by simp
  have "unat ((a + of_nat j) - (a + of_nat i) :: u64) = (if i \<le> j then j - i else 2 ^ 64 - (i - j))"
  proof (cases "i \<le> j")
    case True
    then have "(a + of_nat j) - (a + of_nat i) = (of_nat (j - i) :: u64)"
      by (simp add: of_nat_diff)
    with True j assms(2) show ?thesis by (simp only: unat_of_nat) simp
  next
    case False
    have "(of_nat (2 ^ 64 - (i - j)) :: u64) = of_nat (2 ^ 64) - of_nat (i - j)"
      using False assms j by (intro of_nat_diff) simp
    then have "(a + of_nat j) - (a + of_nat i) = (of_nat (2 ^ 64 - (i - j)) :: u64)"
      using False by (simp add: of_nat_diff)
    with False j assms show ?thesis by (simp only: unat_of_nat) simp
  qed
  then show "peek n a (poke (a + of_nat i) bs m) ! j = splice i bs (peek n a m) ! j"
    using assms j by (auto simp: peek_def poke_def splice_def nth_append)
qed

lemma peek_poke_apart:
  assumes "blk a l \<inter> blk b k = {}" and "n \<le> unat l" and "length bs \<le> unat k"
  shows "peek n a (poke b bs m) = peek n a m"
  using assms by (intro peek_eq_on_blk [of a l] poke_outside) (auto simp: blk_iff)

lemma peek_poke_here: "length bs = n \<Longrightarrow> n \<le> 2 ^ 63 \<Longrightarrow> peek n a (poke a bs m) = bs"
  using peek_poke [of bs 0 n a m] by simp

lemma of_nat_le_bytes16: "of_nat (le_nat (le_bytes 2 w)) = (w :: u16)"
  by (simp add: le_nat_le_bytes take_bit_nat_eq_self unsigned_less [of w, simplified])

end
