(* ===== verification/OpteeMem.thy ===== *)
theory OpteeMem
  imports ByteMem
begin

text \<open>
  The OP-TEE shared memory allocator (\<open>OpteeClientPkg/Library/OpteeClientApiLib/OpteeClientMem.c\<close>):
  a window of reserved memory, filled with a fence value while free, from which blocks with a
  header are handed out through the DXE services. The services and the two fixed PCDs that place
  the window are parameters; the memory itself is part of the state, byte by byte.
\<close>

section \<open>State and environment\<close>

text \<open>The memory types and the two kinds of allocation of the DXE services table (PI, volume 2).\<close>

datatype EFI_GCD_MEMORY_TYPE =
    EfiGcdMemoryTypeNonExistent | EfiGcdMemoryTypeReserved | EfiGcdMemoryTypeSystemMemory
  | EfiGcdMemoryTypeMemoryMappedIo | EfiGcdMemoryTypePersistentMemory | EfiGcdMemoryTypeMoreReliable

datatype EFI_GCD_ALLOCATE_TYPE = EfiGcdAllocateAddress | EfiGcdAllocateMaxAddressSearchTopDown

record EFI_GCD_MEMORY_SPACE_DESCRIPTOR =
  GcdBaseAddress :: u64
  GcdMemoryType :: EFI_GCD_MEMORY_TYPE

record 'g EFI_DXE_SERVICES =
  AddMemorySpace :: "EFI_GCD_MEMORY_TYPE \<Rightarrow> u64 \<Rightarrow> u64 \<Rightarrow> u64 \<Rightarrow> 'g \<Rightarrow> EFI_STATUS \<times> 'g"
  AllocateMemorySpace ::
    "EFI_GCD_ALLOCATE_TYPE \<Rightarrow> EFI_GCD_MEMORY_TYPE \<Rightarrow> u64 \<Rightarrow> u64 \<Rightarrow> u64 \<Rightarrow> 'g \<Rightarrow> (EFI_STATUS \<times> u64) \<times> 'g"
  FreeMemorySpace :: "u64 \<Rightarrow> u64 \<Rightarrow> 'g \<Rightarrow> EFI_STATUS \<times> 'g"
  GetMemorySpaceDescriptor ::
    "u64 \<Rightarrow> 'g \<Rightarrow> (EFI_STATUS \<times> EFI_GCD_MEMORY_SPACE_DESCRIPTOR) \<times> 'g"

record 'g ShmEnv =
  gDS :: "'g EFI_DXE_SERVICES"
  PcdTrustZoneSharedMemoryBase :: u64
  PcdTrustZoneSharedMemorySize :: u64

record 'g ShmState =
  Memory :: memory
  mSharedMemAllocationCount :: u64
  mSharedMemAllocSize :: u64
  gDriverImageHandle :: u64
  Gcd :: 'g

type_synonym ('g, 'a) shm = "('g ShmState, 'a) prog"

definition gcdM :: "('g \<Rightarrow> 'a \<times> 'g) \<Rightarrow> ('g, 'a) shm" where
  [prog_defs]: "gcdM f = (\<lambda>s. case f (Gcd s) of (x, g) \<Rightarrow> Ret (x, s\<lparr>Gcd := g\<rparr>))"

definition modifyMemory :: "(memory \<Rightarrow> memory) \<Rightarrow> ('g, unit) shm" where
  [prog_defs]: "modifyMemory f = modify (\<lambda>s. s\<lparr>Memory := f (Memory s)\<rparr>)"

section \<open>Constants\<close>

definition EFI_PAGE_SIZE :: u64 where "EFI_PAGE_SIZE = 4096"
definition OPTEE_CLIENT_MEM_BYTE_ALIGNMENT :: u64 where "OPTEE_CLIENT_MEM_BYTE_ALIGNMENT = 16"
definition OPTEE_SHM_RESERVED_SIZE :: u64 where "OPTEE_SHM_RESERVED_SIZE = EFI_PAGE_SIZE"

definition OPTEE_SHM_START :: "'g ShmEnv \<Rightarrow> u64" where
  "OPTEE_SHM_START E = PcdTrustZoneSharedMemoryBase E + OPTEE_SHM_RESERVED_SIZE"

definition OPTEE_SHM_SIZE :: "'g ShmEnv \<Rightarrow> u64" where
  "OPTEE_SHM_SIZE E = PcdTrustZoneSharedMemorySize E - OPTEE_SHM_RESERVED_SIZE"

definition OPTEE_SHM_END :: "'g ShmEnv \<Rightarrow> u64" where
  "OPTEE_SHM_END E = OPTEE_SHM_START E + OPTEE_SHM_SIZE E"

definition OPTEE_SHM_TYPE :: EFI_GCD_MEMORY_TYPE where "OPTEE_SHM_TYPE = EfiGcdMemoryTypeReserved"

text \<open>\<open>EFI_MEMORY_PRESENT\<close>, \<open>EFI_MEMORY_INITIALIZED\<close>, \<open>EFI_MEMORY_TESTED\<close> and \<open>EFI_MEMORY_WB\<close>.\<close>

definition OPTEE_SHM_CAPS :: u64 where
  "OPTEE_SHM_CAPS =
     0x0100000000000000 OR 0x0200000000000000 OR 0x0400000000000000 OR 0x8"

text \<open>\<open>SIGNATURE_32 ('T', 'E', 'E', 'C')\<close>: the first letter in the lowest byte.\<close>

definition OPTEE_SHM_SIGNATURE :: u32 where "OPTEE_SHM_SIGNATURE = 0x43454554"
definition OPTEE_SHM_FREE_FENCE :: u8 where "OPTEE_SHM_FREE_FENCE = 0xCC"
definition OPTEE_SHM_ALLOC_ALIGN :: u64 where "OPTEE_SHM_ALLOC_ALIGN = EFI_PAGE_SIZE"
definition OPTEE_SHM_ALLOC_ALIGN_SHIFT :: u64 where "OPTEE_SHM_ALLOC_ALIGN_SHIFT = 12"

lemmas shm_consts = EFI_PAGE_SIZE_def OPTEE_CLIENT_MEM_BYTE_ALIGNMENT_def OPTEE_SHM_RESERVED_SIZE_def
  OPTEE_SHM_SIGNATURE_def OPTEE_SHM_FREE_FENCE_def OPTEE_SHM_ALLOC_ALIGN_def
  OPTEE_SHM_ALLOC_ALIGN_SHIFT_def OPTEE_SHM_TYPE_def

text \<open>
  The header in front of every block, with the padding of a 64-bit target: \<open>Signature\<close> at 0,
  \<open>Owner\<close> at 8, \<open>Size\<close> at 16, \<open>Address\<close> at 24.
\<close>

definition sizeof_HEADER :: u64 where "sizeof_HEADER = 32"

record OPTEE_CLIENT_MEM_HEADER =
  Signature :: u32
  Owner :: u64
  HeaderSize :: u64
  HeaderAddress :: u64

definition read_header :: "u64 \<Rightarrow> memory \<Rightarrow> OPTEE_CLIENT_MEM_HEADER" where
  "read_header a m =
     \<lparr>Signature = read_u32 a m, Owner = read_u64 (a + 8) m, HeaderSize = read_u64 (a + 16) m,
      HeaderAddress = read_u64 (a + 24) m\<rparr>"

text \<open>\<open>ZeroMem (Header, sizeof (*Header))\<close> and the three assignments; \<open>Owner\<close> stays zero.\<close>

definition write_header :: "u64 \<Rightarrow> u64 \<Rightarrow> u64 \<Rightarrow> memory \<Rightarrow> memory" where
  "write_header a Len Address m =
     poke (a + 24) (le_bytes 8 Address) (poke (a + 16) (le_bytes 8 Len)
       (poke a (le_bytes 4 OPTEE_SHM_SIGNATURE) (poke a (replicate 32 0) m)))"

section \<open>Powers of two\<close>

definition IsPowerOf2 :: "u64 \<Rightarrow> bool" where
  "IsPowerOf2 Num \<longleftrightarrow> Num \<noteq> 0 \<and> Num AND (NOT Num + 1) = Num"

function exponent_loop :: "u64 \<Rightarrow> u64 \<Rightarrow> u64" where
  "exponent_loop Num Exponent =
     (if Num AND 1 = 0 \<and> Num > 1 then exponent_loop (drop_bit 1 Num) (Exponent + 1) else Exponent)"
  by auto
termination
proof (relation "measure (\<lambda>(n, e). unat n)", simp, clarsimp)
  fix n :: u64
  assume "1 < n"
  moreover have "take_bit 64 (unat n) = unat n"
    by (rule take_bit_nat_eq_self, rule less_le_trans, rule unsigned_less) simp
  ultimately show "unat (drop_bit (Suc 0) n) < unat n"
    by (simp only: unsigned_drop_bit_eq) (simp add: drop_bit_Suc word_less_nat_alt)
qed

definition GetPowerOf2Exponent :: "u64 \<Rightarrow> ('g, u64) shm" where
  "GetPowerOf2Exponent Num =
     bindM (ASSERT (IsPowerOf2 Num)) (\<lambda>_. ret (exponent_loop Num 0))"

section \<open>The fence\<close>

text \<open>Both loops walk the pointer \<open>Mem\<close> up to \<open>End\<close>; they end because the pointer comes round.\<close>

lemma pointer_progress: "Mem \<noteq> End \<Longrightarrow> unat (End - (Mem + 1)) < unat (End - (Mem :: u64))"
proof -
  assume "Mem \<noteq> End"
  then have "unat ((End - Mem) - 1) < unat (End - Mem)"
    by (intro measure_unat) auto
  also have "(End - Mem) - 1 = End - (Mem + 1)"
    by (simp add: algebra_simps)
  finally show ?thesis .
qed

function mark_loop :: "u64 \<Rightarrow> u64 \<Rightarrow> memory \<Rightarrow> memory" where
  "mark_loop Mem End m =
     (if Mem = End then m else mark_loop (Mem + 1) End (m(Mem := OPTEE_SHM_FREE_FENCE)))"
  by auto
termination
  by (relation "measure (\<lambda>(a, e, m). unat (e - a))") (auto dest: pointer_progress)

function check_loop :: "u64 \<Rightarrow> u64 \<Rightarrow> memory \<Rightarrow> bool" where
  "check_loop Mem End m =
     (if Mem = End then True
      else if m Mem \<noteq> OPTEE_SHM_FREE_FENCE then False
      else check_loop (Mem + 1) End m)"
  by auto
termination
  by (relation "measure (\<lambda>(a, e, m). unat (e - a))") (auto dest: pointer_progress)

declare exponent_loop.simps [simp del] mark_loop.simps [simp del] check_loop.simps [simp del]

definition MarkSharedMemoryRegionAsFree :: "u64 \<Rightarrow> u64 \<Rightarrow> memory \<Rightarrow> memory" where
  "MarkSharedMemoryRegionAsFree Address Len = mark_loop Address (Address + Len)"

definition IsSharedMemoryRegionFree :: "u64 \<Rightarrow> u64 \<Rightarrow> memory \<Rightarrow> bool" where
  "IsSharedMemoryRegionFree Address Len = check_loop Address (Address + Len)"

section \<open>Initialisation\<close>

text \<open>
  The status of the \<open>FreeMemorySpace\<close> call is never stored, so the test after it sees the status
  of the allocation.
\<close>

definition GcdSharedMemoryInit :: "'g ShmEnv \<Rightarrow> ('g, EFI_STATUS) shm" where
  "GcdSharedMemoryInit E =
     bindM (ASSERT (OPTEE_SHM_START E mod EFI_PAGE_SIZE = 0)) (\<lambda>_.
     bindM (ASSERT (OPTEE_SHM_SIZE E mod EFI_PAGE_SIZE = 0)) (\<lambda>_.
     tryE (gcdM (AddMemorySpace (gDS E) OPTEE_SHM_TYPE (OPTEE_SHM_START E) (OPTEE_SHM_SIZE E) OPTEE_SHM_CAPS))
    (bindM (gcdM (AllocateMemorySpace (gDS E) EfiGcdAllocateAddress EfiGcdMemoryTypeReserved 0
              (OPTEE_SHM_SIZE E) (OPTEE_SHM_START E))) (\<lambda>(Status, BaseAddress).
       if EFI_ERROR Status then ret Status
       else
         bindM (ASSERT (BaseAddress = OPTEE_SHM_START E)) (\<lambda>_.
         bindM (modifyMemory (MarkSharedMemoryRegionAsFree BaseAddress (OPTEE_SHM_SIZE E))) (\<lambda>_.
         bindM (gcdM (FreeMemorySpace (gDS E) (OPTEE_SHM_START E) (OPTEE_SHM_SIZE E))) (\<lambda>_.
         ret Status)))))))"

definition check_descriptor ::
    "'g ShmEnv \<Rightarrow> EFI_GCD_MEMORY_SPACE_DESCRIPTOR \<Rightarrow> EFI_STATUS \<Rightarrow> ('g, EFI_STATUS) shm" where
  "check_descriptor E d Status =
     (if GcdMemoryType d \<noteq> OPTEE_SHM_TYPE then
        bindM (ASSERT (OPTEE_SHM_START E = GcdBaseAddress d)) (\<lambda>_. ret EFI_OUT_OF_RESOURCES)
      else ret Status)"

definition OpteeClientMemInit :: "'g ShmEnv \<Rightarrow> ('g, EFI_STATUS) shm" where
  "OpteeClientMemInit E =
     bindM (gcdM (GetMemorySpaceDescriptor (gDS E) (OPTEE_SHM_START E))) (\<lambda>(Status, d).
       if Status = EFI_NOT_FOUND
          \<or> \<not> EFI_ERROR Status \<and> GcdMemoryType d = EfiGcdMemoryTypeNonExistent then
         tryE (GcdSharedMemoryInit E)
           (bindM (gcdM (GetMemorySpaceDescriptor (gDS E) (OPTEE_SHM_START E))) (\<lambda>(Status, d).
              if EFI_ERROR Status then ret Status else check_descriptor E d Status))
       else if EFI_ERROR Status then ret EFI_OUT_OF_RESOURCES
       else check_descriptor E d Status)"

section \<open>Allocation\<close>

definition BlockSize_of :: "u64 \<Rightarrow> u64" where
  "BlockSize_of Len = sizeof_HEADER + Len + (OPTEE_SHM_ALLOC_ALIGN - 1)"

definition UserBase_of :: "u64 \<Rightarrow> u64" where
  "UserBase_of BaseAddress =
     (BaseAddress + sizeof_HEADER + (OPTEE_SHM_ALLOC_ALIGN - 1)) AND NOT (OPTEE_SHM_ALLOC_ALIGN - 1)"

text \<open>Fill in the header and account for the block.\<close>

definition claim_block :: "u64 \<Rightarrow> u64 \<Rightarrow> ('g, unit) shm" where
  "claim_block BaseAddress Len = modify (\<lambda>s. s\<lparr>
     Memory := write_header (UserBase_of BaseAddress - sizeof_HEADER) Len BaseAddress (Memory s),
     mSharedMemAllocationCount := mSharedMemAllocationCount s + 1,
     mSharedMemAllocSize := mSharedMemAllocSize s + Len\<rparr>)"

text \<open>The checks and the book-keeping once the services have handed out a block.\<close>

definition take_block :: "'g ShmEnv \<Rightarrow> u64 \<Rightarrow> u64 \<Rightarrow> ('g, u64) shm" where
  "take_block E Len BaseAddress =
     bindM (ASSERT (BaseAddress \<ge> OPTEE_SHM_START E)) (\<lambda>_.
     bindM (ASSERT (BaseAddress + BlockSize_of Len \<le> OPTEE_SHM_END E)) (\<lambda>_.
     bindM (gets (\<lambda>s. IsSharedMemoryRegionFree BaseAddress (BlockSize_of Len) (Memory s))) (\<lambda>free.
       if \<not> free then stopM AssertFailed
       else
         bindM (ASSERT (UserBase_of BaseAddress > OPTEE_SHM_START E)) (\<lambda>_.
         bindM (ASSERT (UserBase_of BaseAddress + Len \<le> OPTEE_SHM_END E)) (\<lambda>_.
         bindM (ASSERT (UserBase_of BaseAddress mod OPTEE_SHM_ALLOC_ALIGN = 0)) (\<lambda>_.
         bindM (claim_block BaseAddress (BlockSize_of Len)) (\<lambda>_.
         ret (UserBase_of BaseAddress))))))))"

definition InternalMemAlloc :: "'g ShmEnv \<Rightarrow> u64 \<Rightarrow> u64 \<Rightarrow> ('g, u64) shm" where
  "InternalMemAlloc E Len ByteAlignment =
     bindM (gets gDriverImageHandle) (\<lambda>h.
     bindM (ASSERT (h \<noteq> 0)) (\<lambda>_.
       if ByteAlignment \<noteq> 0 \<and> \<not> IsPowerOf2 ByteAlignment \<or> ByteAlignment > OPTEE_SHM_ALLOC_ALIGN
       then stopM AssertFailed
       else
         bindM (gcdM (AllocateMemorySpace (gDS E) EfiGcdAllocateMaxAddressSearchTopDown
                  EfiGcdMemoryTypeReserved OPTEE_SHM_ALLOC_ALIGN_SHIFT (BlockSize_of Len)
                  (OPTEE_SHM_END E))) (\<lambda>(Status, BaseAddress).
           if EFI_ERROR Status then ret 0 else take_block E Len BaseAddress)))"

definition OpteeClientMemAlloc :: "'g ShmEnv \<Rightarrow> u64 \<Rightarrow> ('g, u64) shm" where
  "OpteeClientMemAlloc E Len = InternalMemAlloc E Len OPTEE_CLIENT_MEM_BYTE_ALIGNMENT"

definition OpteeClientAlignedMemAlloc :: "'g ShmEnv \<Rightarrow> u64 \<Rightarrow> u64 \<Rightarrow> ('g, u64) shm" where
  "OpteeClientAlignedMemAlloc E Len ByteAlignment = InternalMemAlloc E Len ByteAlignment"

section \<open>Release\<close>

definition OpteeClientMemFree :: "'g ShmEnv \<Rightarrow> u64 \<Rightarrow> ('g, EFI_STATUS) shm" where
  "OpteeClientMemFree E Mem =
     bindM (gets (\<lambda>s. read_header (Mem - sizeof_HEADER) (Memory s))) (\<lambda>H.
       if Signature H \<noteq> OPTEE_SHM_SIGNATURE then ret EFI_INVALID_PARAMETER
       else
         bindM (modifyMemory (MarkSharedMemoryRegionAsFree (HeaderAddress H) (HeaderSize H))) (\<lambda>_.
         bindM (gcdM (FreeMemorySpace (gDS E) (HeaderAddress H) (HeaderSize H))) (\<lambda>Status.
           if EFI_ERROR Status then ret Status
           else
             bindM (modify (\<lambda>s. s\<lparr>
               mSharedMemAllocationCount := mSharedMemAllocationCount s - 1,
               mSharedMemAllocSize := mSharedMemAllocSize s - HeaderSize H\<rparr>)) (\<lambda>_.
             ret Status))))"

definition OpteeClientApiFinalize :: "('g, unit) shm" where
  "OpteeClientApiFinalize =
     bindM (gets (\<lambda>s. mSharedMemAllocationCount s \<noteq> 0 \<or> mSharedMemAllocSize s \<noteq> 0)) (\<lambda>leak.
       if leak then stopM AssertFailed else ret ())"

end
