(* ===== verification/OpteeMsg.thy ===== *)
theory OpteeMsg
  imports OpteeMem
begin

text \<open>
  The message an OP-TEE client shares with the secure world (\<open>Library/OpteeClientApiLib/Optee/optee_msg.h\<close>
  of \<open>OpteeClientPkg\<close>): its layout in shared memory, the client's operation record
  (\<open>Include/Library/tee_client_api.h\<close>), and the two routines of \<open>Arm/OpteeClientSMC.c\<close> that copy
  the parameters of an operation into a message and back.
\<close>

section \<open>Result codes and constants\<close>

type_synonym TEEC_Result = u32

definition TEEC_SUCCESS :: TEEC_Result where "TEEC_SUCCESS = 0"
definition TEEC_ERROR_GENERIC :: TEEC_Result where "TEEC_ERROR_GENERIC = 0xFFFF0000"
definition TEEC_ERROR_BAD_PARAMETERS :: TEEC_Result where "TEEC_ERROR_BAD_PARAMETERS = 0xFFFF0006"
definition TEEC_ERROR_BAD_STATE :: TEEC_Result where "TEEC_ERROR_BAD_STATE = 0xFFFF0007"
definition TEEC_ERROR_ITEM_NOT_FOUND :: TEEC_Result where "TEEC_ERROR_ITEM_NOT_FOUND = 0xFFFF0008"
definition TEEC_ERROR_NOT_IMPLEMENTED :: TEEC_Result where "TEEC_ERROR_NOT_IMPLEMENTED = 0xFFFF0009"
definition TEEC_ERROR_NOT_SUPPORTED :: TEEC_Result where "TEEC_ERROR_NOT_SUPPORTED = 0xFFFF000A"
definition TEEC_ERROR_OUT_OF_MEMORY :: TEEC_Result where "TEEC_ERROR_OUT_OF_MEMORY = 0xFFFF000C"
definition TEEC_ERROR_COMMUNICATION :: TEEC_Result where "TEEC_ERROR_COMMUNICATION = 0xFFFF000E"

definition TEEC_ORIGIN_API :: u32 where "TEEC_ORIGIN_API = 1"
definition TEEC_ORIGIN_COMMS :: u32 where "TEEC_ORIGIN_COMMS = 2"

definition TEEC_LOGIN_PUBLIC :: u32 where "TEEC_LOGIN_PUBLIC = 0"
definition TEEC_CONFIG_PAYLOAD_REF_COUNT :: nat where "TEEC_CONFIG_PAYLOAD_REF_COUNT = 4"

lemmas teec_results = TEEC_SUCCESS_def TEEC_ERROR_GENERIC_def TEEC_ERROR_BAD_PARAMETERS_def
  TEEC_ERROR_BAD_STATE_def TEEC_ERROR_ITEM_NOT_FOUND_def TEEC_ERROR_NOT_IMPLEMENTED_def
  TEEC_ERROR_NOT_SUPPORTED_def TEEC_ERROR_OUT_OF_MEMORY_def TEEC_ERROR_COMMUNICATION_def
  TEEC_ORIGIN_API_def TEEC_ORIGIN_COMMS_def

definition TEEC_NONE :: u32 where "TEEC_NONE = 0"
definition TEEC_VALUE_INPUT :: u32 where "TEEC_VALUE_INPUT = 1"
definition TEEC_VALUE_OUTPUT :: u32 where "TEEC_VALUE_OUTPUT = 2"
definition TEEC_VALUE_INOUT :: u32 where "TEEC_VALUE_INOUT = 3"
definition TEEC_MEMREF_TEMP_INPUT :: u32 where "TEEC_MEMREF_TEMP_INPUT = 5"
definition TEEC_MEMREF_TEMP_OUTPUT :: u32 where "TEEC_MEMREF_TEMP_OUTPUT = 6"
definition TEEC_MEMREF_TEMP_INOUT :: u32 where "TEEC_MEMREF_TEMP_INOUT = 7"

definition OPTEE_MSG_ATTR_TYPE_NONE :: u32 where "OPTEE_MSG_ATTR_TYPE_NONE = 0"
definition OPTEE_MSG_ATTR_TYPE_VALUE_INPUT :: u32 where "OPTEE_MSG_ATTR_TYPE_VALUE_INPUT = 1"
definition OPTEE_MSG_ATTR_TYPE_VALUE_OUTPUT :: u32 where "OPTEE_MSG_ATTR_TYPE_VALUE_OUTPUT = 2"
definition OPTEE_MSG_ATTR_TYPE_TMEM_INPUT :: u32 where "OPTEE_MSG_ATTR_TYPE_TMEM_INPUT = 9"
definition OPTEE_MSG_ATTR_TYPE_TMEM_OUTPUT :: u32 where "OPTEE_MSG_ATTR_TYPE_TMEM_OUTPUT = 10"
definition OPTEE_MSG_ATTR_TYPE_MASK :: u64 where "OPTEE_MSG_ATTR_TYPE_MASK = 0xFF"
definition OPTEE_MSG_ATTR_META :: u32 where "OPTEE_MSG_ATTR_META = 0x100"

lemmas teec_params = TEEC_NONE_def TEEC_VALUE_INPUT_def TEEC_VALUE_OUTPUT_def TEEC_VALUE_INOUT_def
  TEEC_MEMREF_TEMP_INPUT_def TEEC_MEMREF_TEMP_OUTPUT_def TEEC_MEMREF_TEMP_INOUT_def

lemmas msg_attrs = OPTEE_MSG_ATTR_TYPE_NONE_def OPTEE_MSG_ATTR_TYPE_VALUE_INPUT_def
  OPTEE_MSG_ATTR_TYPE_VALUE_OUTPUT_def OPTEE_MSG_ATTR_TYPE_TMEM_INPUT_def
  OPTEE_MSG_ATTR_TYPE_TMEM_OUTPUT_def OPTEE_MSG_ATTR_TYPE_MASK_def OPTEE_MSG_ATTR_META_def

definition OPTEE_MSG_ATTR_GET_TYPE :: "u64 \<Rightarrow> u64" where
  "OPTEE_MSG_ATTR_GET_TYPE ATTR = ATTR AND OPTEE_MSG_ATTR_TYPE_MASK"

definition OPTEE_MSG_CMD_OPEN_SESSION :: u32 where "OPTEE_MSG_CMD_OPEN_SESSION = 0"
definition OPTEE_MSG_CMD_INVOKE_COMMAND :: u32 where "OPTEE_MSG_CMD_INVOKE_COMMAND = 1"
definition OPTEE_MSG_CMD_CLOSE_SESSION :: u32 where "OPTEE_MSG_CMD_CLOSE_SESSION = 2"

lemmas msg_cmds = OPTEE_MSG_CMD_OPEN_SESSION_def OPTEE_MSG_CMD_INVOKE_COMMAND_def
  OPTEE_MSG_CMD_CLOSE_SESSION_def

section \<open>The message in memory\<close>

text \<open>
  \<open>struct optee_msg_arg\<close>: eight 32-bit fields, then the parameters of 32 bytes each: the attribute
  and three 64-bit words, which are \<open>a\<close>, \<open>b\<close>, \<open>c\<close> of a value and \<open>buf_ptr\<close>, \<open>size\<close>, \<open>shm_ref\<close> of a
  temporary memory reference.
\<close>

definition write_u32 :: "u64 \<Rightarrow> u32 \<Rightarrow> memory \<Rightarrow> memory" where
  "write_u32 a v = poke a (le_bytes 4 v)"

definition write_u64 :: "u64 \<Rightarrow> u64 \<Rightarrow> memory \<Rightarrow> memory" where
  "write_u64 a v = poke a (le_bytes 8 v)"

definition read_u16 :: "u64 \<Rightarrow> memory \<Rightarrow> u16" where
  "read_u16 a m = of_nat (le_nat (peek 2 a m))"

definition msg_cmd :: u64 where "msg_cmd = 0"
definition msg_func :: u64 where "msg_func = 4"
definition msg_session :: u64 where "msg_session = 8"
definition msg_ret :: u64 where "msg_ret = 20"
definition msg_ret_origin :: u64 where "msg_ret_origin = 24"
definition msg_num_params :: u64 where "msg_num_params = 28"
definition msg_params :: u64 where "msg_params = 32"

lemmas msg_offsets = msg_cmd_def msg_func_def msg_session_def msg_ret_def msg_ret_origin_def
  msg_num_params_def msg_params_def

definition sizeof_msg_param :: u64 where "sizeof_msg_param = 32"

definition param_attr :: u64 where "param_attr = 0"
definition param_a :: u64 where "param_a = 8"
definition param_b :: u64 where "param_b = 16"
definition param_c :: u64 where "param_c = 24"

lemmas param_offsets = param_attr_def param_a_def param_b_def param_c_def sizeof_msg_param_def

definition OPTEE_MSG_GET_ARG_SIZE :: "nat \<Rightarrow> u64" where
  "OPTEE_MSG_GET_ARG_SIZE num_params = msg_params + sizeof_msg_param * of_nat num_params"

text \<open>The address of \<open>MsgParam[i]\<close>.\<close>

definition param_at :: "u64 \<Rightarrow> nat \<Rightarrow> u64" where
  "param_at MsgParam i = MsgParam + sizeof_msg_param * of_nat i"

section \<open>The client's operation\<close>

text \<open>
  The members of the union \<open>TEEC_Parameter\<close> overlap: \<open>value.a\<close> and \<open>value.b\<close> are the two halves of
  its first word, \<open>tmpref.buffer\<close> and \<open>tmpref.size\<close> its first and second word. The third word
  belongs to the registered memory references, which this client does not support.
\<close>

record TEEC_Parameter =
  Word0 :: u64
  Word1 :: u64
  Word2 :: u64

definition value_a :: "TEEC_Parameter \<Rightarrow> u32" where "value_a p = ucast (Word0 p)"
definition value_b :: "TEEC_Parameter \<Rightarrow> u32" where "value_b p = ucast (drop_bit 32 (Word0 p))"

definition set_value :: "u32 \<Rightarrow> u32 \<Rightarrow> TEEC_Parameter \<Rightarrow> TEEC_Parameter" where
  "set_value a b p = p\<lparr>Word0 := push_bit 32 (ucast b) OR ucast a\<rparr>"

definition tmpref_buffer :: "TEEC_Parameter \<Rightarrow> u64" where "tmpref_buffer p = Word0 p"
definition tmpref_size :: "TEEC_Parameter \<Rightarrow> u64" where "tmpref_size p = Word1 p"

definition set_tmpref :: "u64 \<Rightarrow> u64 \<Rightarrow> TEEC_Parameter \<Rightarrow> TEEC_Parameter" where
  "set_tmpref buffer sz p = p\<lparr>Word0 := buffer, Word1 := sz\<rparr>"

text \<open>The two fields of an operation that the client library uses.\<close>

record TEEC_Operation =
  paramTypes :: u32
  params :: "TEEC_Parameter list"

definition zero_operation :: TEEC_Operation where
  "zero_operation = \<lparr>paramTypes = 0,
     params = replicate TEEC_CONFIG_PAYLOAD_REF_COUNT \<lparr>Word0 = 0, Word1 = 0, Word2 = 0\<rparr>\<rparr>"

record TEEC_UUID =
  timeLow :: u32
  timeMid :: u16
  timeHiAndVersion :: u16
  clockSeqAndNode :: "u8 list"

definition TEEC_PARAM_TYPE_GET :: "u32 \<Rightarrow> nat \<Rightarrow> u32" where
  "TEEC_PARAM_TYPE_GET p i = drop_bit (i * 4) p AND 0xF"

definition is_value :: "u32 \<Rightarrow> bool" where
  "is_value attr \<longleftrightarrow> attr = TEEC_VALUE_INPUT \<or> attr = TEEC_VALUE_OUTPUT \<or> attr = TEEC_VALUE_INOUT"

definition is_tmpref :: "u32 \<Rightarrow> bool" where
  "is_tmpref attr \<longleftrightarrow>
     attr = TEEC_MEMREF_TEMP_INPUT \<or> attr = TEEC_MEMREF_TEMP_OUTPUT \<or> attr = TEEC_MEMREF_TEMP_INOUT"

section \<open>Programs over the client's world\<close>

text \<open>The allocator's state with its memory, and the rest of the platform.\<close>

record ('g, 't) World =
  Shm :: "'g ShmState"
  Rest :: 't

type_synonym ('g, 't, 'a) tee = "(('g, 't) World, 'a) prog"

definition on_shm :: "('g, 'a) shm \<Rightarrow> ('g, 't, 'a) tee" where
  [prog_defs]: "on_shm m = (\<lambda>w. case m (Shm w) of
     Ret (x, s) \<Rightarrow> Ret (x, w\<lparr>Shm := s\<rparr>) | Stop r \<Rightarrow> Stop r)"

definition readM :: "(memory \<Rightarrow> 'a) \<Rightarrow> ('g, 't, 'a) tee" where
  [prog_defs]: "readM f = gets (\<lambda>w. f (Memory (Shm w)))"

definition writeM :: "(memory \<Rightarrow> memory) \<Rightarrow> ('g, 't, unit) tee" where
  [prog_defs]: "writeM f = on_shm (modifyMemory f)"

primrec for_each :: "'i list \<Rightarrow> ('i \<Rightarrow> ('s, unit) prog) \<Rightarrow> ('s, unit) prog" where
  "for_each [] body = ret ()"
| "for_each (i # is) body = bindM (body i) (\<lambda>_. for_each is body)"

section \<open>Copying the parameters\<close>

definition SetMsgParam :: "TEEC_Operation \<Rightarrow> u64 \<Rightarrow> nat \<Rightarrow> ('g, 't, unit) tee" where
  "SetMsgParam Operation MsgParam Index =
     (let attr = TEEC_PARAM_TYPE_GET (paramTypes Operation) Index;
          p = params Operation ! Index;
          q = param_at MsgParam Index
      in if attr = TEEC_NONE then writeM (write_u64 (q + param_attr) (ucast OPTEE_MSG_ATTR_TYPE_NONE))
         else if is_value attr then
           bindM (writeM (write_u64 (q + param_attr)
             (ucast (OPTEE_MSG_ATTR_TYPE_VALUE_INPUT + (attr - TEEC_VALUE_INPUT))))) (\<lambda>_.
           bindM (writeM (write_u64 (q + param_a) (ucast (value_a p)))) (\<lambda>_.
           writeM (write_u64 (q + param_b) (ucast (value_b p)))))
         else if is_tmpref attr then
           bindM (writeM (write_u64 (q + param_attr)
             (ucast (OPTEE_MSG_ATTR_TYPE_TMEM_INPUT + (attr - TEEC_MEMREF_TEMP_INPUT))))) (\<lambda>_.
           bindM (writeM (write_u64 (q + param_a) (tmpref_buffer p))) (\<lambda>_.
           writeM (write_u64 (q + param_b) (tmpref_size p))))
         else stopM AssertFailed)"

definition SetMsgParams :: "TEEC_Operation \<Rightarrow> u64 \<Rightarrow> ('g, 't, unit) tee" where
  "SetMsgParams Operation MsgParam =
     for_each [0..<TEEC_CONFIG_PAYLOAD_REF_COUNT] (SetMsgParam Operation MsgParam)"

definition update_param ::
    "nat \<Rightarrow> (TEEC_Parameter \<Rightarrow> TEEC_Parameter) \<Rightarrow> TEEC_Operation \<Rightarrow> TEEC_Operation" where
  "update_param i f op = op\<lparr>params := (params op)[i := f (params op ! i)]\<rparr>"

definition GetMsgParam :: "u64 \<Rightarrow> nat \<Rightarrow> TEEC_Operation \<Rightarrow> ('g, 't, TEEC_Operation) tee" where
  "GetMsgParam MsgParam Index Operation =
     (let attr = TEEC_PARAM_TYPE_GET (paramTypes Operation) Index;
          q = param_at MsgParam Index
      in if attr = TEEC_NONE then ret Operation
         else if is_value attr then
           bindM (readM (read_u64 (q + param_a))) (\<lambda>a.
           bindM (readM (read_u64 (q + param_b))) (\<lambda>b.
           ret (update_param Index (set_value (ucast a) (ucast b)) Operation)))
         else if is_tmpref attr then
           bindM (readM (read_u64 (q + param_a))) (\<lambda>buf_ptr.
           bindM (readM (read_u64 (q + param_b))) (\<lambda>sz.
           ret (update_param Index (set_tmpref buf_ptr sz) Operation)))
         else stopM AssertFailed)"

primrec get_loop :: "nat list \<Rightarrow> u64 \<Rightarrow> TEEC_Operation \<Rightarrow> ('g, 't, TEEC_Operation) tee" where
  "get_loop [] MsgParam Operation = ret Operation"
| "get_loop (i # is) MsgParam Operation =
     bindM (GetMsgParam MsgParam i Operation) (get_loop is MsgParam)"

definition GetMsgParams :: "u64 \<Rightarrow> TEEC_Operation \<Rightarrow> ('g, 't, TEEC_Operation) tee" where
  "GetMsgParams MsgParam = get_loop [0..<TEEC_CONFIG_PAYLOAD_REF_COUNT] MsgParam"

end
