(* ===== verification/OpteeRpc.thy ===== *)
theory OpteeRpc
  imports OpteeMsg SdRpmb
begin

text \<open>
  The requests the secure world sends back while it serves a call
  (\<open>Library/OpteeClientApiLib/Arm/OpteeClientRPC.c\<close> of \<open>OpteeClientPkg\<close>): shared memory, trusted
  application images, the RPMB partition, the time, and the wait queue. The secure monitor call, the
  firmware volumes, the RPMB protocol instance and the performance counter are parameters.
\<close>

section \<open>Environment\<close>

record ARM_SMC_ARGS =
  Arg0 :: u64
  Arg1 :: u64
  Arg2 :: u64
  Arg3 :: u64
  Arg4 :: u64
  Arg5 :: u64
  Arg6 :: u64
  Arg7 :: u64

text \<open>
  The RPMB protocol as its caller sees it: the two identity fields and the four services, which take
  the addresses of packets in memory and, where the protocol has a buffer of packets, its count.
\<close>

record 't EFI_RPMB_IO =
  IoCid :: "u8 list"
  IoReliableSectorCount :: u8
  IoRpmbSizeMult :: u8
  IoProgramKey :: "u64 \<Rightarrow> u64 \<Rightarrow> memory \<Rightarrow> 't \<Rightarrow> EFI_STATUS \<times> memory \<times> 't"
  IoReadCounter :: "u64 \<Rightarrow> u64 \<Rightarrow> memory \<Rightarrow> 't \<Rightarrow> EFI_STATUS \<times> memory \<times> 't"
  IoAuthenticatedWrite :: "u64 \<times> u64 \<Rightarrow> u64 \<Rightarrow> memory \<Rightarrow> 't \<Rightarrow> EFI_STATUS \<times> memory \<times> 't"
  IoAuthenticatedRead :: "u64 \<Rightarrow> u64 \<times> u64 \<Rightarrow> memory \<Rightarrow> 't \<Rightarrow> EFI_STATUS \<times> memory \<times> 't"

record ('g, 't) TeeEnv =
  ShmE :: "'g ShmEnv"
  ArmCallSmc :: "ARM_SMC_ARGS \<Rightarrow> memory \<Rightarrow> 't \<Rightarrow> ARM_SMC_ARGS \<times> memory \<times> 't"
  GetSectionFromAnyFv :: "TEEC_UUID \<Rightarrow> 't \<Rightarrow> (EFI_STATUS \<times> u8 list) \<times> 't"
  LocateRpmbIo :: "'t \<Rightarrow> (EFI_STATUS \<times> 't EFI_RPMB_IO) \<times> 't"
  GetPerformanceCounter :: "'t \<Rightarrow> u64 \<times> 't"
  PerformanceCounterFrequency :: u64

definition restM :: "('t \<Rightarrow> 'a \<times> 't) \<Rightarrow> ('g, 't, 'a) tee" where
  [prog_defs]: "restM f = (\<lambda>w. case f (Rest w) of (x, t) \<Rightarrow> Ret (x, w\<lparr>Rest := t\<rparr>))"

definition serviceM :: "(memory \<Rightarrow> 't \<Rightarrow> 'a \<times> memory \<times> 't) \<Rightarrow> ('g, 't, 'a) tee" where
  [prog_defs]: "serviceM f = (\<lambda>w. case f (Memory (Shm w)) (Rest w) of
     (x, m, t) \<Rightarrow> Ret (x, w\<lparr>Shm := (Shm w)\<lparr>Memory := m\<rparr>, Rest := t\<rparr>))"

section \<open>Constants\<close>

definition OPTEE_SMC_CALL_VAL :: "u64 \<Rightarrow> u64" where
  "OPTEE_SMC_CALL_VAL func_num = push_bit 24 (50 AND 0x3F) OR (func_num AND 0xFFFF)"

definition OPTEE_SMC_CALL_RETURN_FROM_RPC :: u64 where
  "OPTEE_SMC_CALL_RETURN_FROM_RPC = OPTEE_SMC_CALL_VAL 3"

definition OPTEE_SMC_CALL_WITH_ARG :: u64 where
  "OPTEE_SMC_CALL_WITH_ARG = OPTEE_SMC_CALL_VAL 4"

definition OPTEE_SMC_RETURN_UNKNOWN_FUNCTION :: u64 where "OPTEE_SMC_RETURN_UNKNOWN_FUNCTION = 0xFFFFFFFF"
definition OPTEE_SMC_RETURN_OK :: u64 where "OPTEE_SMC_RETURN_OK = 0"
definition OPTEE_SMC_RETURN_RPC_PREFIX_MASK :: u64 where "OPTEE_SMC_RETURN_RPC_PREFIX_MASK = 0xFFFF0000"
definition OPTEE_SMC_RETURN_RPC_PREFIX :: u64 where "OPTEE_SMC_RETURN_RPC_PREFIX = 0xFFFF0000"

definition OPTEE_SMC_RETURN_IS_RPC :: "u64 \<Rightarrow> bool" where
  "OPTEE_SMC_RETURN_IS_RPC r \<longleftrightarrow> r \<noteq> OPTEE_SMC_RETURN_UNKNOWN_FUNCTION \<and>
     r AND OPTEE_SMC_RETURN_RPC_PREFIX_MASK = OPTEE_SMC_RETURN_RPC_PREFIX"

definition OPTEE_SMC_RETURN_GET_RPC_FUNC :: "u64 \<Rightarrow> u64" where
  "OPTEE_SMC_RETURN_GET_RPC_FUNC r = r AND 0x0000FFFF"

definition OPTEE_SMC_RPC_FUNC_ALLOC :: u64 where "OPTEE_SMC_RPC_FUNC_ALLOC = 0"
definition OPTEE_SMC_RPC_FUNC_FREE :: u64 where "OPTEE_SMC_RPC_FUNC_FREE = 2"
definition OPTEE_SMC_RPC_FUNC_FOREIGN_INTR :: u64 where "OPTEE_SMC_RPC_FUNC_FOREIGN_INTR = 4"
definition OPTEE_SMC_RPC_FUNC_CMD :: u64 where "OPTEE_SMC_RPC_FUNC_CMD = 5"

lemmas smc_consts = OPTEE_SMC_CALL_VAL_def OPTEE_SMC_CALL_RETURN_FROM_RPC_def OPTEE_SMC_CALL_WITH_ARG_def
  OPTEE_SMC_RETURN_UNKNOWN_FUNCTION_def OPTEE_SMC_RETURN_OK_def OPTEE_SMC_RETURN_RPC_PREFIX_MASK_def
  OPTEE_SMC_RETURN_RPC_PREFIX_def OPTEE_SMC_RPC_FUNC_ALLOC_def OPTEE_SMC_RPC_FUNC_FREE_def
  OPTEE_SMC_RPC_FUNC_FOREIGN_INTR_def OPTEE_SMC_RPC_FUNC_CMD_def

definition OPTEE_MSG_RPC_CMD_LOAD_TA :: u32 where "OPTEE_MSG_RPC_CMD_LOAD_TA = 0"
definition OPTEE_MSG_RPC_CMD_RPMB :: u32 where "OPTEE_MSG_RPC_CMD_RPMB = 1"
definition OPTEE_MSG_RPC_CMD_GET_TIME :: u32 where "OPTEE_MSG_RPC_CMD_GET_TIME = 3"
definition OPTEE_MSG_RPC_CMD_WAIT_QUEUE :: u32 where "OPTEE_MSG_RPC_CMD_WAIT_QUEUE = 4"
definition OPTEE_MSG_RPC_CMD_SHM_ALLOC :: u32 where "OPTEE_MSG_RPC_CMD_SHM_ALLOC = 6"
definition OPTEE_MSG_RPC_CMD_SHM_FREE :: u32 where "OPTEE_MSG_RPC_CMD_SHM_FREE = 7"

definition OPTEE_MSG_RPC_SHM_TYPE_APPL :: u64 where "OPTEE_MSG_RPC_SHM_TYPE_APPL = 0"
definition OPTEE_MSG_RPC_SHM_TYPE_KERNEL :: u64 where "OPTEE_MSG_RPC_SHM_TYPE_KERNEL = 1"
definition OPTEE_MSG_RPC_WAIT_QUEUE_SLEEP :: u64 where "OPTEE_MSG_RPC_WAIT_QUEUE_SLEEP = 0"
definition OPTEE_MSG_RPC_WAIT_QUEUE_WAKEUP :: u64 where "OPTEE_MSG_RPC_WAIT_QUEUE_WAKEUP = 1"
definition RPMB_CMD_DATA_REQ :: u16 where "RPMB_CMD_DATA_REQ = 0"
definition RPMB_CMD_GET_DEV_INFO :: u16 where "RPMB_CMD_GET_DEV_INFO = 1"
definition RPMB_CMD_GET_DEV_INFO_RET_OK :: u8 where "RPMB_CMD_GET_DEV_INFO_RET_OK = 0"
definition NANOS_PER_SEC :: u64 where "NANOS_PER_SEC = 1000000000"

lemmas rpc_consts = OPTEE_MSG_RPC_CMD_LOAD_TA_def OPTEE_MSG_RPC_CMD_RPMB_def OPTEE_MSG_RPC_CMD_GET_TIME_def
  OPTEE_MSG_RPC_CMD_WAIT_QUEUE_def OPTEE_MSG_RPC_CMD_SHM_ALLOC_def OPTEE_MSG_RPC_CMD_SHM_FREE_def
  OPTEE_MSG_RPC_SHM_TYPE_APPL_def OPTEE_MSG_RPC_SHM_TYPE_KERNEL_def OPTEE_MSG_RPC_WAIT_QUEUE_SLEEP_def
  OPTEE_MSG_RPC_WAIT_QUEUE_WAKEUP_def RPMB_CMD_DATA_REQ_def RPMB_CMD_GET_DEV_INFO_def
  RPMB_CMD_GET_DEV_INFO_RET_OK_def NANOS_PER_SEC_def

section \<open>Addresses and byte order\<close>

text \<open>The union \<open>ADDRESS64\<close>: an address and its two halves.\<close>

definition address64 :: "u64 \<Rightarrow> u64 \<Rightarrow> u64" where
  "address64 h l = push_bit 32 (ucast (ucast h :: u32)) OR ucast (ucast l :: u32)"

definition H32 :: "u64 \<Rightarrow> u64" where "H32 p = ucast (ucast (drop_bit 32 p) :: u32)"
definition L32 :: "u64 \<Rightarrow> u64" where "L32 p = ucast (ucast p :: u32)"

definition SWAP_B16 :: "u16 \<Rightarrow> u16" where
  "SWAP_B16 x = (push_bit 8 x AND 0xFF00) OR (drop_bit 8 x AND 0x00FF)"

definition SWAP_B32 :: "u32 \<Rightarrow> u32" where
  "SWAP_B32 x = (push_bit 24 x AND 0xFF000000) OR (push_bit 8 x AND 0x00FF0000) OR
     (drop_bit 8 x AND 0x0000FF00) OR (drop_bit 24 x AND 0x000000FF)"

definition read_uuid :: "u64 \<Rightarrow> memory \<Rightarrow> TEEC_UUID" where
  "read_uuid a m = \<lparr>timeLow = read_u32 a m, timeMid = read_u16 (a + 4) m,
     timeHiAndVersion = read_u16 (a + 6) m, clockSeqAndNode = peek 8 (a + 8) m\<rparr>"

definition swap_uuid :: "TEEC_UUID \<Rightarrow> TEEC_UUID" where
  "swap_uuid u = u\<lparr>timeLow := SWAP_B32 (timeLow u), timeMid := SWAP_B16 (timeMid u),
     timeHiAndVersion := SWAP_B16 (timeHiAndVersion u)\<rparr>"

section \<open>Memory requests in registers\<close>

definition OpteeRpcAlloc :: "('g, 't) TeeEnv \<Rightarrow> ARM_SMC_ARGS \<Rightarrow> ('g, 't, TEEC_Result \<times> ARM_SMC_ARGS) tee" where
  "OpteeRpcAlloc E ArmSmcArgs =
     (let Size = Arg1 ArmSmcArgs
      in bindM (if Size \<noteq> 0 then on_shm (OpteeClientMemAlloc (ShmE E) Size) else ret 0) (\<lambda>P.
           if Size \<noteq> 0 \<and> P = 0 then ret (TEEC_ERROR_OUT_OF_MEMORY, ArmSmcArgs)
           else ret (TEEC_SUCCESS,
             ArmSmcArgs\<lparr>Arg1 := H32 P, Arg2 := L32 P, Arg4 := H32 P, Arg5 := L32 P\<rparr>)))"

definition OpteeRpcFree :: "('g, 't) TeeEnv \<Rightarrow> ARM_SMC_ARGS \<Rightarrow> ('g, 't, TEEC_Result) tee" where
  "OpteeRpcFree E ArmSmcArgs =
     bindM (on_shm (OpteeClientMemFree (ShmE E) (address64 (Arg1 ArmSmcArgs) (Arg2 ArmSmcArgs)))) (\<lambda>Status.
     ret (if EFI_ERROR Status then TEEC_ERROR_BAD_PARAMETERS else TEEC_SUCCESS))"

section \<open>Commands in a message\<close>

definition param_type :: "u64 \<Rightarrow> nat \<Rightarrow> ('g, 't, u64) tee" where
  "param_type MsgArg i =
     bindM (readM (read_u64 (param_at (MsgArg + msg_params) i + param_attr))) (\<lambda>attr.
     ret (OPTEE_MSG_ATTR_GET_TYPE attr))"

definition num_params_of :: "u64 \<Rightarrow> ('g, 't, u32) tee" where
  "num_params_of MsgArg = readM (read_u32 (MsgArg + msg_num_params))"

text \<open>The common exit of the two storage commands.\<close>

definition set_result :: "u64 \<Rightarrow> ('g, 't, TEEC_Result) tee \<Rightarrow> ('g, 't, TEEC_Result) tee" where
  "set_result MsgArg body =
     bindM body (\<lambda>TeecResult.
     bindM (writeM (write_u32 (MsgArg + msg_ret) TeecResult)) (\<lambda>_.
     bindM (writeM (write_u32 (MsgArg + msg_ret_origin) TEEC_ORIGIN_API)) (\<lambda>_.
     ret TeecResult)))"

text \<open>The parameter checks every command starts with.\<close>

definition check_one :: "u64 \<Rightarrow> u32 \<Rightarrow> ('g, 't, TEEC_Result) tee \<Rightarrow> ('g, 't, TEEC_Result) tee" where
  "check_one MsgArg t0 body =
     bindM (num_params_of MsgArg) (\<lambda>n.
     if n \<noteq> 1 then ret TEEC_ERROR_BAD_PARAMETERS
     else bindM (param_type MsgArg 0) (\<lambda>t.
       if t \<noteq> ucast t0 then ret TEEC_ERROR_BAD_PARAMETERS else body))"

definition check_two :: "u64 \<Rightarrow> u32 \<Rightarrow> u32 \<Rightarrow> ('g, 't, TEEC_Result) tee \<Rightarrow> ('g, 't, TEEC_Result) tee" where
  "check_two MsgArg t0 t1 body =
     bindM (num_params_of MsgArg) (\<lambda>n.
     if n \<noteq> 2 then ret TEEC_ERROR_BAD_PARAMETERS
     else bindM (param_type MsgArg 0) (\<lambda>t. bindM (param_type MsgArg 1) (\<lambda>t'.
       if t \<noteq> ucast t0 \<or> t' \<noteq> ucast t1 then ret TEEC_ERROR_BAD_PARAMETERS else body)))"

definition OpteeRpcCmdLoadTa :: "('g, 't) TeeEnv \<Rightarrow> u64 \<Rightarrow> ('g, 't, TEEC_Result) tee" where
  "OpteeRpcCmdLoadTa E MsgArg = set_result MsgArg (
     check_two MsgArg OPTEE_MSG_ATTR_TYPE_VALUE_INPUT OPTEE_MSG_ATTR_TYPE_TMEM_OUTPUT (
       let p0 = param_at (MsgArg + msg_params) 0; p1 = param_at (MsgArg + msg_params) 1
       in bindM (readM (read_uuid (p0 + param_a))) (\<lambda>TaUuid.
          bindM (readM (read_u64 (p1 + param_b))) (\<lambda>TaBufferSize.
          bindM (restM (GetSectionFromAnyFv E (swap_uuid TaUuid))) (\<lambda>(Status, ImageData).
            if EFI_ERROR Status then ret TEEC_ERROR_ITEM_NOT_FOUND
            else let ImageSize = of_nat (length ImageData)
              in if TaBufferSize < ImageSize then
                   bindM (writeM (write_u64 (p1 + param_b) ImageSize)) (\<lambda>_. ret TEEC_SUCCESS)
                 else
                   bindM (readM (read_u64 (p1 + param_a))) (\<lambda>buf_ptr.
                   bindM (writeM (poke buf_ptr ImageData)) (\<lambda>_. ret TEEC_SUCCESS)))))))"

section \<open>The RPMB partition\<close>

definition be_u16_at :: "u64 \<Rightarrow> memory \<Rightarrow> u16" where
  "be_u16_at a m = RpmbBytesToUint16 (m a, m (a + 1))"

definition packet_field :: "string \<Rightarrow> u64" where
  "packet_field f = of_nat (field_offset EFI_RPMB_DATA_PACKET_layout f)"

text \<open>The size of \<open>rpmb_req_t\<close>: the packets of a request follow it.\<close>

definition sizeof_rpmb_req :: u64 where "sizeof_rpmb_req = 6"

definition teec_generic :: "('g, 't, EFI_STATUS) tee \<Rightarrow> ('g, 't, TEEC_Result) tee" where
  "teec_generic service =
     bindM service (\<lambda>Status. ret (if EFI_ERROR Status then TEEC_ERROR_GENERIC else TEEC_SUCCESS))"

definition rpmb_data_request :: "'t EFI_RPMB_IO \<Rightarrow> u64 \<Rightarrow> u64 \<Rightarrow> ('g, 't, TEEC_Result) tee" where
  "rpmb_data_request RpmbProtocol Request ResponsePackets =
     (let RequestPackets = Request + sizeof_rpmb_req
      in bindM (readM (be_u16_at (RequestPackets + packet_field ''RequestOrResponseType''))) (\<lambda>RequestMsgType.
         if RequestMsgType = EFI_RPMB_REQUEST_PROGRAM_KEY then
           teec_generic (serviceM (IoProgramKey RpmbProtocol RequestPackets ResponsePackets))
         else if RequestMsgType = EFI_RPMB_REQUEST_COUNTER_VALUE then
           teec_generic (serviceM (IoReadCounter RpmbProtocol RequestPackets ResponsePackets))
         else if RequestMsgType = EFI_RPMB_REQUEST_AUTH_WRITE then
           bindM (readM (be_u16_at (RequestPackets + packet_field ''BlockCount''))) (\<lambda>BlockCount.
           teec_generic (serviceM
             (IoAuthenticatedWrite RpmbProtocol (RequestPackets, ucast BlockCount) ResponsePackets)))
         else if RequestMsgType = EFI_RPMB_REQUEST_AUTH_READ then
           bindM (readM (read_u16 (Request + 4))) (\<lambda>block_count.
           teec_generic (serviceM
             (IoAuthenticatedRead RpmbProtocol RequestPackets (ResponsePackets, ucast block_count))))
         else stopM AssertFailed))"

text \<open>\<open>rpmb_dev_info_t\<close>: the card identification, the size, the reliable write count, the code.\<close>

definition rpmb_dev_info :: "'t EFI_RPMB_IO \<Rightarrow> u64 \<Rightarrow> ('g, 't, TEEC_Result) tee" where
  "rpmb_dev_info RpmbProtocol RpmbDevInfo =
     bindM (writeM (poke RpmbDevInfo (take 16 (IoCid RpmbProtocol)))) (\<lambda>_.
     bindM (writeM (poke (RpmbDevInfo + 17) [IoReliableSectorCount RpmbProtocol])) (\<lambda>_.
     bindM (writeM (poke (RpmbDevInfo + 16) [IoRpmbSizeMult RpmbProtocol])) (\<lambda>_.
     bindM (writeM (poke (RpmbDevInfo + 18) [RPMB_CMD_GET_DEV_INFO_RET_OK])) (\<lambda>_.
     ret TEEC_SUCCESS))))"

definition OpteeRpcCmdRpmb :: "('g, 't) TeeEnv \<Rightarrow> u64 \<Rightarrow> ('g, 't, TEEC_Result) tee" where
  "OpteeRpcCmdRpmb E MsgArg = set_result MsgArg (
     check_two MsgArg OPTEE_MSG_ATTR_TYPE_TMEM_INPUT OPTEE_MSG_ATTR_TYPE_TMEM_OUTPUT (
       bindM (restM (LocateRpmbIo E)) (\<lambda>(Status, RpmbProtocol).
         if EFI_ERROR Status then ret TEEC_ERROR_NOT_SUPPORTED
         else
           bindM (readM (read_u64 (param_at (MsgArg + msg_params) 0 + param_a))) (\<lambda>Request.
           bindM (readM (read_u64 (param_at (MsgArg + msg_params) 1 + param_a))) (\<lambda>buf_ptr.
           bindM (readM (read_u16 Request)) (\<lambda>cmd.
             if cmd = RPMB_CMD_DATA_REQ then rpmb_data_request RpmbProtocol Request buf_ptr
             else if cmd = RPMB_CMD_GET_DEV_INFO then rpmb_dev_info RpmbProtocol buf_ptr
             else stopM AssertFailed))))))"

section \<open>Shared memory, time, wait queue\<close>

definition check_shm_type :: "u64 \<Rightarrow> ('g, 't, unit) tee" where
  "check_shm_type a =
     ASSERT (a = OPTEE_MSG_RPC_SHM_TYPE_APPL \<or> a = OPTEE_MSG_RPC_SHM_TYPE_KERNEL)"

definition OpteeRpcCmdShmAlloc :: "('g, 't) TeeEnv \<Rightarrow> u64 \<Rightarrow> ('g, 't, TEEC_Result) tee" where
  "OpteeRpcCmdShmAlloc E MsgArg =
     check_one MsgArg OPTEE_MSG_ATTR_TYPE_VALUE_INPUT (
       let p0 = param_at (MsgArg + msg_params) 0
       in bindM (readM (read_u64 (p0 + param_a))) (\<lambda>a.
          bindM (check_shm_type a) (\<lambda>_.
          bindM (readM (read_u64 (p0 + param_b))) (\<lambda>BufferSize.
          bindM (readM (read_u64 (p0 + param_c))) (\<lambda>BufferAlignment.
          bindM (on_shm (OpteeClientAlignedMemAlloc (ShmE E) BufferSize BufferAlignment)) (\<lambda>Buffer.
            if Buffer = 0 then ret TEEC_ERROR_OUT_OF_MEMORY
            else
              bindM (writeM (write_u64 (p0 + param_attr) (ucast OPTEE_MSG_ATTR_TYPE_TMEM_OUTPUT))) (\<lambda>_.
              bindM (writeM (write_u64 (p0 + param_a) Buffer)) (\<lambda>_.
              bindM (writeM (write_u64 (p0 + param_b) BufferSize)) (\<lambda>_.
              bindM (writeM (write_u64 (p0 + param_c) Buffer)) (\<lambda>_.
              ret TEEC_SUCCESS))))))))))"

definition OpteeRpcCmdShmFree :: "('g, 't) TeeEnv \<Rightarrow> u64 \<Rightarrow> ('g, 't, TEEC_Result) tee" where
  "OpteeRpcCmdShmFree E MsgArg =
     check_one MsgArg OPTEE_MSG_ATTR_TYPE_VALUE_INPUT (
       let p0 = param_at (MsgArg + msg_params) 0
       in bindM (readM (read_u64 (p0 + param_a))) (\<lambda>a.
          bindM (check_shm_type a) (\<lambda>_.
          bindM (readM (read_u64 (p0 + param_b))) (\<lambda>b.
          bindM (on_shm (OpteeClientMemFree (ShmE E) b)) (\<lambda>Status.
          ret (if EFI_ERROR Status then TEEC_ERROR_BAD_STATE else TEEC_SUCCESS))))))"

text \<open>Seconds and nanoseconds since the counter was at zero; the product wraps at 64 bits.\<close>

definition elapsed :: "u64 \<Rightarrow> u64 \<Rightarrow> u64 \<times> u64" where
  "elapsed Ticks Freq =
     (let ElapsedSeconds = Ticks div Freq; ElapsedNanos = (Ticks * NANOS_PER_SEC) div Freq
      in (Ticks div Freq, ElapsedNanos - ElapsedSeconds * NANOS_PER_SEC))"

definition OpteeRpcCmdGetTime :: "('g, 't) TeeEnv \<Rightarrow> u64 \<Rightarrow> ('g, 't, TEEC_Result) tee" where
  "OpteeRpcCmdGetTime E MsgArg =
     check_one MsgArg OPTEE_MSG_ATTR_TYPE_VALUE_OUTPUT (
       bindM (restM (GetPerformanceCounter E)) (\<lambda>Ticks.
       if PerformanceCounterFrequency E = 0 then stopM DivideByZero
       else
         let (s, n) = elapsed Ticks (PerformanceCounterFrequency E);
             p0 = param_at (MsgArg + msg_params) 0
         in bindM (writeM (write_u64 (p0 + param_a) s)) (\<lambda>_.
            bindM (writeM (write_u64 (p0 + param_b) n)) (\<lambda>_.
            ret TEEC_SUCCESS))))"

definition OpteeRpcCmdWaitQueue :: "u64 \<Rightarrow> ('g, 't, TEEC_Result) tee" where
  "OpteeRpcCmdWaitQueue MsgArg =
     check_one MsgArg OPTEE_MSG_ATTR_TYPE_VALUE_INPUT (
       bindM (readM (read_u64 (param_at (MsgArg + msg_params) 0 + param_a))) (\<lambda>a.
       bindM (ASSERT (a = OPTEE_MSG_RPC_WAIT_QUEUE_SLEEP \<or> a = OPTEE_MSG_RPC_WAIT_QUEUE_WAKEUP)) (\<lambda>_.
       ret TEEC_SUCCESS)))"

section \<open>The callback\<close>

definition rpc_command :: "('g, 't) TeeEnv \<Rightarrow> u64 \<Rightarrow> u32 \<Rightarrow> ('g, 't, TEEC_Result) tee" where
  "rpc_command E MsgArg cmd =
     (if cmd = OPTEE_MSG_RPC_CMD_LOAD_TA then OpteeRpcCmdLoadTa E MsgArg
      else if cmd = OPTEE_MSG_RPC_CMD_RPMB then OpteeRpcCmdRpmb E MsgArg
      else if cmd = OPTEE_MSG_RPC_CMD_GET_TIME then OpteeRpcCmdGetTime E MsgArg
      else if cmd = OPTEE_MSG_RPC_CMD_SHM_ALLOC then OpteeRpcCmdShmAlloc E MsgArg
      else if cmd = OPTEE_MSG_RPC_CMD_SHM_FREE then OpteeRpcCmdShmFree E MsgArg
      else if cmd = OPTEE_MSG_RPC_CMD_WAIT_QUEUE then OpteeRpcCmdWaitQueue MsgArg
      else stopM AssertFailed)"

definition rpc_message :: "('g, 't) TeeEnv \<Rightarrow> u64 \<Rightarrow> ('g, 't, TEEC_Result) tee" where
  "rpc_message E MsgArg =
     bindM (ASSERT (MsgArg \<noteq> 0)) (\<lambda>_.
     bindM (readM (read_u32 (MsgArg + msg_cmd))) (\<lambda>cmd.
     bindM (rpc_command E MsgArg cmd) (\<lambda>TeecResult.
     bindM (writeM (write_u32 (MsgArg + msg_ret) TeecResult)) (\<lambda>_.
     ret TeecResult))))"

definition rpc_dispatch ::
    "('g, 't) TeeEnv \<Rightarrow> ARM_SMC_ARGS \<Rightarrow> ('g, 't, TEEC_Result \<times> ARM_SMC_ARGS) tee" where
  "rpc_dispatch E ArmSmcArgs =
     (let f = OPTEE_SMC_RETURN_GET_RPC_FUNC (Arg0 ArmSmcArgs)
      in if f = OPTEE_SMC_RPC_FUNC_ALLOC then OpteeRpcAlloc E ArmSmcArgs
         else if f = OPTEE_SMC_RPC_FUNC_FREE then
           bindM (OpteeRpcFree E ArmSmcArgs) (\<lambda>r. ret (r, ArmSmcArgs))
         else if f = OPTEE_SMC_RPC_FUNC_FOREIGN_INTR then ret (TEEC_SUCCESS, ArmSmcArgs)
         else if f = OPTEE_SMC_RPC_FUNC_CMD then
           bindM (rpc_message E (address64 (Arg1 ArmSmcArgs) (Arg2 ArmSmcArgs))) (\<lambda>r. ret (r, ArmSmcArgs))
         else stopM AssertFailed)"

definition OpteeRpcCallback ::
    "('g, 't) TeeEnv \<Rightarrow> ARM_SMC_ARGS \<Rightarrow> ('g, 't, TEEC_Result \<times> ARM_SMC_ARGS) tee" where
  "OpteeRpcCallback E ArmSmcArgs =
     bindM (ASSERT (OPTEE_SMC_RETURN_IS_RPC (Arg0 ArmSmcArgs))) (\<lambda>_.
     bindM (rpc_dispatch E ArmSmcArgs) (\<lambda>(TeecResult, ArmSmcArgs').
     ret (TeecResult, ArmSmcArgs'\<lparr>Arg0 := OPTEE_SMC_CALL_RETURN_FROM_RPC\<rparr>)))"

end
