(* ===== verification/OpteeSmc.thy ===== *)
theory OpteeSmc
  imports OpteeRpc
begin

text \<open>
  The calls into the secure world (\<open>Library/OpteeClientApiLib/Arm/OpteeClientSMC.c\<close> and
  \<open>OpteeClientApiLib.c\<close> of \<open>OpteeClientPkg\<close>): the loop that answers the secure world's requests
  until the call completes, the three session operations on top of it, and the client API. The loop
  carries fuel; the caller's context, session and operation are values passed in and returned.
\<close>

section \<open>The secure monitor call\<close>

definition smcM :: "('g, 't) TeeEnv \<Rightarrow> ARM_SMC_ARGS \<Rightarrow> ('g, 't, ARM_SMC_ARGS) tee" where
  "smcM E ArmSmcArgs = serviceM (ArmCallSmc E ArmSmcArgs)"

definition zero_args :: ARM_SMC_ARGS where
  "zero_args = \<lparr>Arg0 = 0, Arg1 = 0, Arg2 = 0, Arg3 = 0, Arg4 = 0, Arg5 = 0, Arg6 = 0, Arg7 = 0\<rparr>"

primrec smc_loop :: "('g, 't) TeeEnv \<Rightarrow> nat \<Rightarrow> ARM_SMC_ARGS \<Rightarrow> ('g, 't, TEEC_Result) tee" where
  "smc_loop E 0 ArmSmcArgs = stopM OutOfFuel"
| "smc_loop E (Suc n) ArmSmcArgs =
     bindM (smcM E ArmSmcArgs) (\<lambda>ArmSmcArgs.
       if OPTEE_SMC_RETURN_IS_RPC (Arg0 ArmSmcArgs) then
         bindM (OpteeRpcCallback E ArmSmcArgs) (\<lambda>(_, ArmSmcArgs). smc_loop E n ArmSmcArgs)
       else if Arg0 ArmSmcArgs = OPTEE_SMC_RETURN_UNKNOWN_FUNCTION then ret TEEC_ERROR_NOT_IMPLEMENTED
       else if Arg0 ArmSmcArgs \<noteq> OPTEE_SMC_RETURN_OK then ret TEEC_ERROR_COMMUNICATION
       else ret TEEC_SUCCESS)"

definition call_args :: "u64 \<Rightarrow> ARM_SMC_ARGS" where
  "call_args MsgAddr = zero_args\<lparr>Arg0 := OPTEE_SMC_CALL_WITH_ARG,
     Arg1 := drop_bit 32 MsgAddr, Arg2 := MsgAddr AND 0xFFFFFFFF\<rparr>"

definition OpteeSmcCall :: "('g, 't) TeeEnv \<Rightarrow> nat \<Rightarrow> u64 \<Rightarrow> ('g, 't, TEEC_Result) tee" where
  "OpteeSmcCall E fuel MsgArg = smc_loop E fuel (call_args MsgArg)"

section \<open>Session operations\<close>

record TEEC_Session =
  session_id :: u32

text \<open>What an operation hands back: the result, \<open>*ErrorOrigin\<close>, the session and the operation.\<close>

record CallResult =
  Result :: TEEC_Result
  ErrorOrigin :: u32
  OutSession :: TEEC_Session
  OutOperation :: TEEC_Operation

text \<open>
  The frame of the three operations: take a zeroed message of \<open>n\<close> parameters from the shared pool,
  fill it, make the call, read the answer if the call came through, and free the message.
\<close>

definition with_message ::
    "('g, 't) TeeEnv \<Rightarrow> nat \<Rightarrow> nat \<Rightarrow> TEEC_Session \<Rightarrow> TEEC_Operation \<Rightarrow> (u64 \<Rightarrow> ('g, 't, unit) tee) \<Rightarrow>
     (u64 \<Rightarrow> ('g, 't, CallResult) tee) \<Rightarrow> ('g, 't, CallResult) tee" where
  "with_message E fuel n Session Operation fill answer =
     bindM (on_shm (OpteeClientMemAlloc (ShmE E) (OPTEE_MSG_GET_ARG_SIZE n))) (\<lambda>MsgArg.
     if MsgArg = 0 then ret \<lparr>Result = TEEC_ERROR_OUT_OF_MEMORY, ErrorOrigin = TEEC_ORIGIN_API,
                              OutSession = Session, OutOperation = Operation\<rparr>
     else
       bindM (writeM (poke MsgArg (replicate (unat (OPTEE_MSG_GET_ARG_SIZE n)) 0))) (\<lambda>_.
       bindM (fill MsgArg) (\<lambda>_.
       bindM (OpteeSmcCall E fuel MsgArg) (\<lambda>TeecResult.
       bindM (if TeecResult \<noteq> TEEC_SUCCESS
              then ret \<lparr>Result = TeecResult, ErrorOrigin = TEEC_ORIGIN_COMMS,
                        OutSession = Session, OutOperation = Operation\<rparr>
              else answer MsgArg) (\<lambda>r.
       bindM (on_shm (OpteeClientMemFree (ShmE E) MsgArg)) (\<lambda>_. ret r))))))"

definition uuid_bytes :: "TEEC_UUID \<Rightarrow> u8 list" where
  "uuid_bytes u = le_bytes 4 (timeLow u) @ le_bytes 2 (timeMid u) @ le_bytes 2 (timeHiAndVersion u)
     @ clockSeqAndNode u"

definition MetaParamCount :: nat where "MetaParamCount = 2"

definition fill_open :: "TEEC_UUID \<Rightarrow> TEEC_Operation \<Rightarrow> u64 \<Rightarrow> ('g, 't, unit) tee" where
  "fill_open Destination Operation MsgArg =
     (let MsgParam = MsgArg + msg_params;
          meta = ucast (OPTEE_MSG_ATTR_TYPE_VALUE_INPUT OR OPTEE_MSG_ATTR_META)
      in bindM (writeM (write_u32 (MsgArg + msg_cmd) OPTEE_MSG_CMD_OPEN_SESSION)) (\<lambda>_.
         bindM (writeM (write_u32 (MsgArg + msg_num_params)
           (of_nat (TEEC_CONFIG_PAYLOAD_REF_COUNT + MetaParamCount)))) (\<lambda>_.
         bindM (writeM (write_u64 (param_at MsgParam 0 + param_attr) meta)) (\<lambda>_.
         bindM (writeM (poke (param_at MsgParam 0 + param_a) (uuid_bytes Destination))) (\<lambda>_.
         bindM (writeM (write_u64 (param_at MsgParam 1 + param_attr) meta)) (\<lambda>_.
         bindM (writeM (write_u64 (param_at MsgParam 1 + param_c) (ucast TEEC_LOGIN_PUBLIC))) (\<lambda>_.
         SetMsgParams Operation (param_at MsgParam MetaParamCount))))))))"

text \<open>The answer is read from \<open>MsgParam\<close>, the first of the two meta parameters.\<close>

definition answer_open :: "TEEC_Session \<Rightarrow> TEEC_Operation \<Rightarrow> u64 \<Rightarrow> ('g, 't, CallResult) tee" where
  "answer_open Session Operation MsgArg =
     bindM (readM (read_u32 (MsgArg + msg_session))) (\<lambda>id.
     bindM (readM (read_u32 (MsgArg + msg_ret))) (\<lambda>r.
     bindM (readM (read_u32 (MsgArg + msg_ret_origin))) (\<lambda>origin.
     bindM (GetMsgParams (MsgArg + msg_params) Operation) (\<lambda>Operation'.
     ret \<lparr>Result = r, ErrorOrigin = origin, OutSession = Session\<lparr>session_id := id\<rparr>,
          OutOperation = Operation'\<rparr>))))"

definition TEEC_SMC_OpenSession ::
    "('g, 't) TeeEnv \<Rightarrow> nat \<Rightarrow> TEEC_Session \<Rightarrow> TEEC_UUID \<Rightarrow> TEEC_Operation \<Rightarrow> ('g, 't, CallResult) tee" where
  "TEEC_SMC_OpenSession E fuel Session Destination Operation =
     with_message E fuel (TEEC_CONFIG_PAYLOAD_REF_COUNT + MetaParamCount) Session Operation
       (fill_open Destination Operation) (answer_open Session Operation)"

definition TEEC_SMC_CloseSession ::
    "('g, 't) TeeEnv \<Rightarrow> nat \<Rightarrow> TEEC_Session \<Rightarrow> ('g, 't, CallResult) tee" where
  "TEEC_SMC_CloseSession E fuel Session =
     with_message E fuel 0 Session zero_operation
       (\<lambda>MsgArg.
          bindM (writeM (write_u32 (MsgArg + msg_cmd) OPTEE_MSG_CMD_CLOSE_SESSION)) (\<lambda>_.
          writeM (write_u32 (MsgArg + msg_session) (session_id Session))))
       (\<lambda>MsgArg.
          bindM (readM (read_u32 (MsgArg + msg_ret))) (\<lambda>r.
          bindM (readM (read_u32 (MsgArg + msg_ret_origin))) (\<lambda>origin.
          ret \<lparr>Result = r, ErrorOrigin = origin, OutSession = Session, OutOperation = zero_operation\<rparr>)))"

definition fill_invoke :: "TEEC_Session \<Rightarrow> u32 \<Rightarrow> TEEC_Operation \<Rightarrow> u64 \<Rightarrow> ('g, 't, unit) tee" where
  "fill_invoke Session CmdId Operation MsgArg =
     bindM (writeM (write_u32 (MsgArg + msg_cmd) OPTEE_MSG_CMD_INVOKE_COMMAND)) (\<lambda>_.
     bindM (writeM (write_u32 (MsgArg + msg_func) CmdId)) (\<lambda>_.
     bindM (writeM (write_u32 (MsgArg + msg_session) (session_id Session))) (\<lambda>_.
     bindM (writeM (write_u32 (MsgArg + msg_num_params) (of_nat TEEC_CONFIG_PAYLOAD_REF_COUNT))) (\<lambda>_.
     SetMsgParams Operation (MsgArg + msg_params)))))"

definition answer_invoke :: "TEEC_Session \<Rightarrow> TEEC_Operation \<Rightarrow> u64 \<Rightarrow> ('g, 't, CallResult) tee" where
  "answer_invoke Session Operation MsgArg =
     bindM (readM (read_u32 (MsgArg + msg_ret))) (\<lambda>r.
     bindM (readM (read_u32 (MsgArg + msg_ret_origin))) (\<lambda>origin.
     bindM (GetMsgParams (MsgArg + msg_params) Operation) (\<lambda>Operation'.
     ret \<lparr>Result = r, ErrorOrigin = origin, OutSession = Session, OutOperation = Operation'\<rparr>)))"

definition TEEC_SMC_InvokeCommand ::
    "('g, 't) TeeEnv \<Rightarrow> nat \<Rightarrow> TEEC_Session \<Rightarrow> u32 \<Rightarrow> TEEC_Operation \<Rightarrow> ('g, 't, CallResult) tee" where
  "TEEC_SMC_InvokeCommand E fuel Session CmdId Operation =
     with_message E fuel TEEC_CONFIG_PAYLOAD_REF_COUNT Session Operation
       (fill_invoke Session CmdId Operation) (answer_invoke Session Operation)"

end
