(* ===== verification/OpteeApi.thy ===== *)
theory OpteeApi
  imports OpteeSmc
begin

text \<open>
  The client API of the library (\<open>Library/OpteeClientApiLib/OpteeClientApiLib.c\<close> of
  \<open>OpteeClientPkg\<close>): initialisation, shared memory, sessions and commands. A pointer that may be
  \<open>NULL\<close> is an option; tracing and the byte swap done for it alone are left out.
\<close>

definition OpteeClientApiInitialize :: "('g, 't) TeeEnv \<Rightarrow> u64 \<Rightarrow> ('g, 't, EFI_STATUS) tee" where
  "OpteeClientApiInitialize E ImageHandle =
     bindM (gets (gDriverImageHandle \<circ> Shm)) (\<lambda>h.
     bindM (ASSERT (h = 0)) (\<lambda>_.
     bindM (on_shm (modify (\<lambda>s. s\<lparr>gDriverImageHandle := ImageHandle\<rparr>))) (\<lambda>_.
     on_shm (OpteeClientMemInit (ShmE E)))))"

record TEEC_Context =
  fd :: u32

definition TEEC_InitializeContext ::
    "string option \<Rightarrow> TEEC_Context option \<Rightarrow> TEEC_Result \<times> TEEC_Context option" where
  "TEEC_InitializeContext Name Context = (case Context of
     None \<Rightarrow> (TEEC_ERROR_BAD_PARAMETERS, Context)
   | Some c \<Rightarrow> if Name \<noteq> None then (TEEC_ERROR_ITEM_NOT_FOUND, Context)
               else (TEEC_SUCCESS, Some (c\<lparr>fd := 0\<rparr>)))"

section \<open>Shared memory\<close>

record TEEC_SharedMemory =
  shm_buffer :: u64
  shm_size :: u64
  shm_flags :: u32
  shm_shadow_buffer :: u64

definition TEEC_AllocateSharedMemory ::
    "('g, 't) TeeEnv \<Rightarrow> TEEC_Context option \<Rightarrow> TEEC_SharedMemory option \<Rightarrow>
     ('g, 't, TEEC_Result \<times> TEEC_SharedMemory option) tee" where
  "TEEC_AllocateSharedMemory E Context SharedMem = (case SharedMem of
     None \<Rightarrow> ret (TEEC_ERROR_BAD_PARAMETERS, SharedMem)
   | Some m \<Rightarrow>
       if Context = None then ret (TEEC_ERROR_BAD_PARAMETERS, SharedMem)
       else if shm_flags m \<noteq> 0 then ret (TEEC_ERROR_BAD_PARAMETERS, SharedMem)
       else
         bindM (on_shm (OpteeClientMemAlloc (ShmE E) (shm_size m))) (\<lambda>p.
         if p = 0 then
           ret (TEEC_ERROR_OUT_OF_MEMORY, Some (m\<lparr>shm_buffer := 0, shm_shadow_buffer := 0\<rparr>))
         else ret (TEEC_SUCCESS, Some (m\<lparr>shm_buffer := p, shm_shadow_buffer := p\<rparr>))))"

definition TEEC_ReleaseSharedMemory ::
    "('g, 't) TeeEnv \<Rightarrow> TEEC_SharedMemory option \<Rightarrow> ('g, 't, TEEC_SharedMemory option) tee" where
  "TEEC_ReleaseSharedMemory E SharedMem = (case SharedMem of
     None \<Rightarrow> ret None
   | Some m \<Rightarrow>
       if shm_buffer m = 0 then ret SharedMem
       else if shm_shadow_buffer m \<noteq> 0 then
         bindM (on_shm (OpteeClientMemFree (ShmE E) (shm_shadow_buffer m))) (\<lambda>Status.
         if EFI_ERROR Status then ret SharedMem
         else ret (Some (m\<lparr>shm_shadow_buffer := 0, shm_buffer := 0, shm_size := 0\<rparr>)))
       else ret (Some (m\<lparr>shm_buffer := 0, shm_size := 0\<rparr>)))"

definition TEEC_RegisterSharedMemory ::
    "TEEC_Context option \<Rightarrow> TEEC_SharedMemory option \<Rightarrow> TEEC_Result \<times> TEEC_SharedMemory option" where
  "TEEC_RegisterSharedMemory Context SharedMem = (TEEC_ERROR_NOT_IMPLEMENTED, SharedMem)"

section \<open>Sessions and commands\<close>

text \<open>
  What an API call hands back: the result, the origin stored through \<open>ReturnOrigin\<close> when that is
  not \<open>NULL\<close>, and the caller's session and operation when it passed them.
\<close>

record ApiResult =
  ApiCode :: TEEC_Result
  ApiOrigin :: u32
  ApiSession :: "TEEC_Session option"
  ApiOperation :: "TEEC_Operation option"

definition api_result :: "TEEC_Operation option \<Rightarrow> CallResult \<Rightarrow> ApiResult" where
  "api_result Operation r = \<lparr>ApiCode = Result r, ApiOrigin = ErrorOrigin r,
     ApiSession = Some (OutSession r),
     ApiOperation = (if Operation = None then None else Some (OutOperation r))\<rparr>"

definition or_null :: "TEEC_Operation option \<Rightarrow> TEEC_Operation" where
  "or_null Operation = (case Operation of None \<Rightarrow> zero_operation | Some op \<Rightarrow> op)"

definition api_refuse ::
    "TEEC_Result \<Rightarrow> TEEC_Session option \<Rightarrow> TEEC_Operation option \<Rightarrow> ApiResult" where
  "api_refuse code Session Operation = \<lparr>ApiCode = code, ApiOrigin = TEEC_ORIGIN_API,
     ApiSession = Session, ApiOperation = Operation\<rparr>"

definition TEEC_OpenSession ::
    "('g, 't) TeeEnv \<Rightarrow> nat \<Rightarrow> TEEC_Context option \<Rightarrow> TEEC_Session option \<Rightarrow> TEEC_UUID option \<Rightarrow> u32 \<Rightarrow>
     TEEC_Operation option \<Rightarrow> ('g, 't, ApiResult) tee" where
  "TEEC_OpenSession E fuel Context Session Destination ConnectionMethod Operation =
     (case (Context, Session, Destination) of
        (Some _, Some session, Some uuid) \<Rightarrow>
          if ConnectionMethod \<noteq> TEEC_LOGIN_PUBLIC
          then ret (api_refuse TEEC_ERROR_NOT_SUPPORTED Session Operation)
          else bindM (TEEC_SMC_OpenSession E fuel session uuid (or_null Operation)) (\<lambda>r.
               ret (api_result Operation r))
      | _ \<Rightarrow> ret (api_refuse TEEC_ERROR_BAD_PARAMETERS Session Operation))"

definition TEEC_CloseSession :: "('g, 't) TeeEnv \<Rightarrow> nat \<Rightarrow> TEEC_Session option \<Rightarrow> ('g, 't, unit) tee" where
  "TEEC_CloseSession E fuel Session = (case Session of
     None \<Rightarrow> ret ()
   | Some session \<Rightarrow> bindM (TEEC_SMC_CloseSession E fuel session) (\<lambda>_. ret ()))"

definition TEEC_InvokeCommand ::
    "('g, 't) TeeEnv \<Rightarrow> nat \<Rightarrow> TEEC_Session option \<Rightarrow> u32 \<Rightarrow> TEEC_Operation option \<Rightarrow>
     ('g, 't, ApiResult) tee" where
  "TEEC_InvokeCommand E fuel Session CommandID Operation = (case Session of
     None \<Rightarrow> ret (api_refuse TEEC_ERROR_BAD_PARAMETERS Session Operation)
   | Some session \<Rightarrow>
       bindM (TEEC_SMC_InvokeCommand E fuel session CommandID (or_null Operation)) (\<lambda>r.
       ret (api_result Operation r)))"

definition TEEC_RequestCancellation :: "TEEC_Operation option \<Rightarrow> ('g, 't, unit) tee" where
  "TEEC_RequestCancellation Operation = stopM AssertFailed"

end
