(* ===== verification/AuthVar.thy ===== *)
theory AuthVar
  imports OpteeApi
begin

text \<open>
  The UEFI variable services over the authenticated variable trusted application
  (\<open>Drivers/AuthVarOpteeRuntimeDxe\<close> of \<open>OpteeClientPkg\<close>): the request structures of
  \<open>UEFIVarServices.h\<close> at their byte offsets in the shared transport buffers, the four services, the
  measurement of secure boot variables (\<open>Measurement.c\<close>), and the driver's start and end. A pointer
  that may be \<open>NULL\<close> is an option, a string the list of its characters before the terminator, and a
  caller's buffer the list of its bytes.
\<close>

section \<open>Requests and results\<close>

datatype VARIABLE_SERVICE_OPS =
    VSGetOp | VSGetNextVarOp | VSSetOp | VSQueryInfoOp | VSSignalExitBootServicesOp

primrec op_code :: "VARIABLE_SERVICE_OPS \<Rightarrow> u32" where
  "op_code VSGetOp = 0"
| "op_code VSGetNextVarOp = 1"
| "op_code VSSetOp = 2"
| "op_code VSQueryInfoOp = 3"
| "op_code VSSignalExitBootServicesOp = 4"

record EFI_GUID =
  Data1 :: u32
  Data2 :: u16
  Data3 :: u16
  Data4 :: "u8 list"

definition guid_bytes :: "EFI_GUID \<Rightarrow> u8 list" where
  "guid_bytes g = le_bytes 4 (Data1 g) @ le_bytes 2 (Data2 g) @ le_bytes 2 (Data3 g) @ Data4 g"

type_synonym CHAR16s = "u16 list"

definition first_char :: "CHAR16s \<Rightarrow> u16" where
  "first_char name = (case name of [] \<Rightarrow> 0 | c # _ \<Rightarrow> c)"

definition StrLen :: "CHAR16s \<Rightarrow> u64" where "StrLen name = of_nat (length name)"
definition StrSize :: "CHAR16s \<Rightarrow> u64" where "StrSize name = (StrLen name + 1) * 2"

definition chars :: "CHAR16s \<Rightarrow> u8 list" where "chars name = concat (map (le_bytes 2) name)"

text \<open>The bytes of a string with its terminator.\<close>

definition name_bytes :: "CHAR16s \<Rightarrow> u8 list" where "name_bytes name = chars name @ [0, 0]"

lemma length_chars: "length (chars name) = 2 * length name"
  by (induction name) (simp_all add: chars_def)

text \<open>\<open>VARIABLE_GET_PARAM\<close>, which is also the request and the result of the name iteration.\<close>

definition get_Size :: u64 where "get_Size = 0"
definition get_VariableNameSize :: u64 where "get_VariableNameSize = 4"
definition get_VendorGuid :: u64 where "get_VendorGuid = 8"
definition get_VariableName :: u64 where "get_VariableName = 24"
definition sizeof_GET_PARAM :: u64 where "sizeof_GET_PARAM = 28"

text \<open>\<open>VARIABLE_GET_RESULT\<close>\<close>

definition res_Attributes :: u64 where "res_Attributes = 4"
definition res_DataSize :: u64 where "res_DataSize = 8"
definition res_Data :: u64 where "res_Data = 12"
definition sizeof_GET_RESULT :: u64 where "sizeof_GET_RESULT = 16"

text \<open>\<open>VARIABLE_SET_PARAM\<close>\<close>

definition set_Size :: u64 where "set_Size = 0"
definition set_VariableNameSize :: u64 where "set_VariableNameSize = 4"
definition set_VendorGuid :: u64 where "set_VendorGuid = 8"
definition set_Attributes :: u64 where "set_Attributes = 24"
definition set_DataSize :: u64 where "set_DataSize = 28"
definition set_OffsetVariableName :: u64 where "set_OffsetVariableName = 32"
definition set_OffsetData :: u64 where "set_OffsetData = 36"
definition set_Payload :: u64 where "set_Payload = 40"
definition sizeof_SET_PARAM :: u64 where "sizeof_SET_PARAM = 44"

text \<open>\<open>VARIABLE_QUERY_PARAM\<close> and \<open>VARIABLE_QUERY_RESULT\<close>\<close>

definition query_Size :: u64 where "query_Size = 0"
definition query_Attributes :: u64 where "query_Attributes = 4"
definition sizeof_QUERY_PARAM :: u64 where "sizeof_QUERY_PARAM = 8"
definition query_MaximumVariableStorageSize :: u64 where "query_MaximumVariableStorageSize = 8"
definition query_RemainingVariableStorageSize :: u64 where "query_RemainingVariableStorageSize = 16"
definition query_MaximumVariableSize :: u64 where "query_MaximumVariableSize = 24"
definition sizeof_QUERY_RESULT :: u64 where "sizeof_QUERY_RESULT = 32"

text \<open>The largest member of the union of all requests.\<close>

definition sizeof_VARIABLE_PARAM :: u64 where "sizeof_VARIABLE_PARAM = sizeof_SET_PARAM"

lemmas var_offsets = get_Size_def get_VariableNameSize_def get_VendorGuid_def get_VariableName_def
  sizeof_GET_PARAM_def res_Attributes_def res_DataSize_def res_Data_def sizeof_GET_RESULT_def
  set_Size_def set_VariableNameSize_def set_VendorGuid_def set_Attributes_def set_DataSize_def
  set_OffsetVariableName_def set_OffsetData_def set_Payload_def sizeof_SET_PARAM_def
  query_Size_def query_Attributes_def sizeof_QUERY_PARAM_def query_MaximumVariableStorageSize_def
  query_RemainingVariableStorageSize_def query_MaximumVariableSize_def sizeof_QUERY_RESULT_def
  sizeof_VARIABLE_PARAM_def

definition TEEC_ERROR_ACCESS_DENIED :: TEEC_Result where "TEEC_ERROR_ACCESS_DENIED = 0xFFFF0001"
definition TEEC_ERROR_SHORT_BUFFER :: TEEC_Result where "TEEC_ERROR_SHORT_BUFFER = 0xFFFF0010"

definition write_u16 :: "u64 \<Rightarrow> u16 \<Rightarrow> memory \<Rightarrow> memory" where
  "write_u16 a v = poke a (le_bytes 2 v)"

section \<open>The driver's state and environment\<close>

record ('g, 't) AuthVarState =
  Tee :: "('g, 't) World"
  mTeecContext :: TEEC_Context
  mTeecSession :: TEEC_Session
  mTeecSessionOpened :: bool
  mVariableParamMem :: TEEC_SharedMemory
  mVariableResultMem :: TEEC_SharedMemory
  Published :: bool
  AtRuntime :: bool

type_synonym ('g, 't, 'a) avar = "(('g, 't) AuthVarState, 'a) prog"

text \<open>
  \<open>Published\<close> tells that the services are in the runtime services table, \<open>AtRuntime\<close> is what
  \<open>EfiAtRuntime\<close> returns. The rest of the firmware is the environment: the configuration values,
  the variable service of the table before this driver replaces it, the protocol data base, the
  pools, the event service and the TPM measurement library.
\<close>

record ('g, 't) AuthVarEnv =
  TeeE :: "('g, 't) TeeEnv"
  SmcFuel :: nat
  PcdMaxVariableSize :: u32
  PcdMaxHardwareErrorVariableSize :: u32
  PcdSecureBootEnable :: bool
  PrevGetVariable :: "CHAR16s \<Rightarrow> EFI_GUID \<Rightarrow> u64 \<Rightarrow> u8 list option \<Rightarrow> 't \<Rightarrow>
    (EFI_STATUS \<times> u64 \<times> u8 list option) \<times> 't"
  LocateVariableArch :: "'t \<Rightarrow> EFI_STATUS \<times> 't"
  InstallVariableArch :: "'t \<Rightarrow> EFI_STATUS \<times> 't"
  InstallVariableWriteArch :: "'t \<Rightarrow> EFI_STATUS \<times> 't"
  CreateExitBootServicesEvent :: "'t \<Rightarrow> EFI_STATUS \<times> 't"
  ResetSystem :: "'t \<Rightarrow> unit \<times> 't"
  AllocatePool :: "u64 \<Rightarrow> 't \<Rightarrow> u8 list option \<times> 't"
  AllocateZeroPool :: "u32 \<Rightarrow> 't \<Rightarrow> bool \<times> 't"
  FreePool :: "'t \<Rightarrow> unit \<times> 't"
  TpmMeasureAndLogData :: "u32 \<Rightarrow> u32 \<Rightarrow> u8 list \<Rightarrow> u32 \<Rightarrow> 't \<Rightarrow> EFI_STATUS \<times> 't"

definition on_tee :: "('g, 't, 'a) tee \<Rightarrow> ('g, 't, 'a) avar" where
  [prog_defs]: "on_tee m = (\<lambda>s. case m (Tee s) of
     Ret (x, w) \<Rightarrow> Ret (x, s\<lparr>Tee := w\<rparr>) | Stop r \<Rightarrow> Stop r)"

definition firmware :: "('t \<Rightarrow> 'a \<times> 't) \<Rightarrow> ('g, 't, 'a) avar" where
  [prog_defs]: "firmware f = on_tee (restM f)"

definition load :: "(memory \<Rightarrow> 'a) \<Rightarrow> ('g, 't, 'a) avar" where
  [prog_defs]: "load f = on_tee (readM f)"

definition store :: "(memory \<Rightarrow> memory) \<Rightarrow> ('g, 't, unit) avar" where
  [prog_defs]: "store f = on_tee (writeM f)"

section \<open>Calling the trusted application\<close>

definition TEEC_PARAM_TYPES :: "u32 \<Rightarrow> u32 \<Rightarrow> u32 \<Rightarrow> u32 \<Rightarrow> u32" where
  "TEEC_PARAM_TYPES p0 p1 p2 p3 = p0 OR push_bit 4 p1 OR push_bit 8 p2 OR push_bit 12 p3"

definition invoke_operation :: "u64 \<Rightarrow> u32 \<Rightarrow> u64 \<Rightarrow> u32 \<Rightarrow> TEEC_Operation" where
  "invoke_operation ParamBuffer ParamSize ResultBuffer ResultSize = \<lparr>
     paramTypes = TEEC_PARAM_TYPES TEEC_MEMREF_TEMP_INPUT TEEC_MEMREF_TEMP_OUTPUT TEEC_VALUE_OUTPUT TEEC_NONE,
     params = [\<lparr>Word0 = ParamBuffer, Word1 = ucast ParamSize, Word2 = 0\<rparr>,
               \<lparr>Word0 = ResultBuffer, Word1 = ucast ResultSize, Word2 = 0\<rparr>,
               \<lparr>Word0 = 0, Word1 = 0, Word2 = 0\<rparr>, \<lparr>Word0 = 0, Word1 = 0, Word2 = 0\<rparr>]\<rparr>"

definition status_of :: "TEEC_Result \<Rightarrow> EFI_STATUS" where
  "status_of r = (if r = TEEC_SUCCESS then EFI_SUCCESS
     else if r = TEEC_ERROR_ITEM_NOT_FOUND then EFI_NOT_FOUND
     else if r = TEEC_ERROR_SHORT_BUFFER then EFI_BUFFER_TOO_SMALL
     else if r = TEEC_ERROR_OUT_OF_MEMORY then EFI_OUT_OF_RESOURCES
     else if r = TEEC_ERROR_ACCESS_DENIED then EFI_SECURITY_VIOLATION
     else EFI_PROTOCOL_ERROR)"

text \<open>Returns the status, \<open>*ResultSize\<close> and \<open>*AuthVarStatus\<close>.\<close>

definition OpteeRuntimeVariableInvokeCommand ::
    "('g, 't) AuthVarEnv \<Rightarrow> VARIABLE_SERVICE_OPS \<Rightarrow> u32 \<Rightarrow> TEEC_SharedMemory option \<Rightarrow> u32 \<Rightarrow>
     TEEC_SharedMemory option \<Rightarrow> ('g, 't, EFI_STATUS \<times> u32 \<times> u32) avar" where
  "OpteeRuntimeVariableInvokeCommand E Command ParamSize Param ResultSize Res =
     bindM (gets mVariableParamMem) (\<lambda>pm.
     bindM (gets mVariableResultMem) (\<lambda>rm.
     bindM (gets mTeecSession) (\<lambda>session.
     let (p, ps) = (case Param of None \<Rightarrow> (pm, 4) | Some p \<Rightarrow> (p, ParamSize));
         (r, rs) = (case Res of None \<Rightarrow> (rm, 4) | Some r \<Rightarrow> (r, ResultSize))
     in bindM (on_tee (TEEC_InvokeCommand (TeeE E) (SmcFuel E) (Some session) (op_code Command)
            (Some (invoke_operation (shm_buffer p) ps (shm_buffer r) rs)))) (\<lambda>a.
        let v = params (the (ApiOperation a)) ! 2
        in ret (status_of (ApiCode a), value_a v, value_b v)))))"

section \<open>Reading a variable\<close>

record GetOut =
  GetStatus :: EFI_STATUS
  GetAttributes :: "u32 option"
  GetDataSize :: "u64 option"
  GetData :: "u8 list option"

definition clear_buffers :: "TEEC_SharedMemory \<Rightarrow> TEEC_SharedMemory \<Rightarrow> ('g, 't, unit) avar" where
  "clear_buffers pm rm =
     bindM (store (poke (shm_buffer pm) (replicate (unat (shm_size pm)) 0))) (\<lambda>_.
     store (poke (shm_buffer rm) (replicate (unat (shm_size rm)) 0)))"

text \<open>The request of \<open>VSGetOp\<close> and \<open>VSGetNextVarOp\<close>; \<open>n\<close> bytes of the name are copied.\<close>

definition fill_get :: "u64 \<Rightarrow> EFI_GUID \<Rightarrow> CHAR16s \<Rightarrow> u32 \<Rightarrow> ('g, 't, unit) avar" where
  "fill_get buf guid name n =
     bindM (store (write_u32 (buf + get_Size) (ucast sizeof_GET_PARAM))) (\<lambda>_.
     bindM (store (write_u16 (buf + get_VariableNameSize) (ucast n))) (\<lambda>_.
     bindM (store (poke (buf + get_VendorGuid) (guid_bytes guid))) (\<lambda>_.
     store (poke (buf + get_VariableName) (take (unat n) (name_bytes name))))))"

text \<open>The exchange once the arguments and the session have been checked.\<close>

definition get_exchange ::
    "('g, 't) AuthVarEnv \<Rightarrow> CHAR16s \<Rightarrow> EFI_GUID \<Rightarrow> u32 option \<Rightarrow> u64 \<Rightarrow> u8 list option \<Rightarrow>
     TEEC_SharedMemory \<Rightarrow> TEEC_SharedMemory \<Rightarrow> ('g, 't, GetOut) avar" where
  "get_exchange E name guid Attributes DataSize Data pm rm =
     (let LocalVariableNameSize = ucast (StrSize name) :: u32;
          LocalDataSize = ucast DataSize :: u32;
          VariableParamSize = ucast sizeof_GET_PARAM + LocalVariableNameSize :: u32;
          VariableResultSize = ucast sizeof_GET_RESULT + LocalDataSize :: u32;
          bad = ret \<lparr>GetStatus = EFI_BAD_BUFFER_SIZE, GetAttributes = Attributes,
                     GetDataSize = Some DataSize, GetData = Data\<rparr>
      in if ucast LocalVariableNameSize \<ge> shm_size pm \<or> ucast LocalDataSize \<ge> shm_size rm then bad
         else if ucast VariableParamSize > shm_size pm \<or> ucast VariableResultSize > shm_size rm then bad
         else
           bindM (clear_buffers pm rm) (\<lambda>_.
           bindM (fill_get (shm_buffer pm) guid name LocalVariableNameSize) (\<lambda>_.
           bindM (OpteeRuntimeVariableInvokeCommand E VSGetOp VariableParamSize (Some pm)
                    VariableResultSize (Some rm)) (\<lambda>(Status, ResultSize, _).
           bindM (ASSERT (Status = EFI_BUFFER_TOO_SMALL \<longrightarrow> ucast ResultSize \<ge> sizeof_GET_RESULT)) (\<lambda>_.
           bindM (load (read_u32 (shm_buffer rm + res_Attributes))) (\<lambda>attr.
           bindM (load (read_u32 (shm_buffer rm + res_DataSize))) (\<lambda>size.
           let out = \<lparr>GetStatus = Status, GetAttributes = map_option (\<lambda>_. attr) Attributes,
                 GetDataSize = Some (if Status = EFI_BUFFER_TOO_SMALL then ucast ResultSize - sizeof_GET_RESULT
                                     else if Status = EFI_SUCCESS then ucast size else DataSize),
                 GetData = Data\<rparr>
           in if EFI_ERROR Status then ret out
              else if size > LocalDataSize then ret (out\<lparr>GetStatus := EFI_BAD_BUFFER_SIZE\<rparr>)
              else
                bindM (load (peek (unat size) (shm_buffer rm + res_Data))) (\<lambda>bytes.
                ret (out\<lparr>GetData := map_option (splice 0 bytes) Data\<rparr>)))))))))"

definition OpteeRuntimeGetVariable ::
    "('g, 't) AuthVarEnv \<Rightarrow> CHAR16s option \<Rightarrow> EFI_GUID option \<Rightarrow> u32 option \<Rightarrow> u64 option \<Rightarrow>
     u8 list option \<Rightarrow> ('g, 't, GetOut) avar" where
  "OpteeRuntimeGetVariable E VariableName VendorGuid Attributes DataSize Data =
     (let out = \<lparr>GetStatus = EFI_SUCCESS, GetAttributes = Attributes, GetDataSize = DataSize, GetData = Data\<rparr>
      in bindM (gets AtRuntime) (\<lambda>runtime.
         if runtime then ret (out\<lparr>GetStatus := EFI_NOT_FOUND\<rparr>)
         else case (VariableName, VendorGuid, DataSize) of
           (Some name, Some guid, Some sz) \<Rightarrow>
             if sz \<noteq> 0 \<and> Data = None then ret (out\<lparr>GetStatus := EFI_INVALID_PARAMETER\<rparr>)
             else if first_char name = 1 \<and> Data1 guid = 1 \<and> sz = 8 then
               bindM (gets mTeecSession) (\<lambda>session.
               ret (out\<lparr>GetData := map_option (splice 0 (le_bytes 8 (ucast (session_id session) :: u64))) Data\<rparr>))
             else
               bindM (gets mTeecSessionOpened) (\<lambda>opened.
               if \<not> opened then ret (out\<lparr>GetStatus := EFI_NOT_READY\<rparr>)
               else
                 bindM (gets mVariableParamMem) (\<lambda>pm.
                 bindM (gets mVariableResultMem) (\<lambda>rm.
                 if shm_buffer pm = 0 \<or> shm_buffer rm = 0
                 then ret (out\<lparr>GetStatus := EFI_OUT_OF_RESOURCES\<rparr>)
                 else get_exchange E name guid Attributes sz Data pm rm)))
         | _ \<Rightarrow> ret (out\<lparr>GetStatus := EFI_INVALID_PARAMETER\<rparr>)))"

section \<open>Iterating over the names\<close>

text \<open>\<open>NextName\<close> holds the bytes copied into the caller's name buffer, if any were.\<close>

record NextOut =
  NextStatus :: EFI_STATUS
  NextNameSize :: "u64 option"
  NextName :: "u8 list option"
  NextGuid :: "u8 list option"

definition next_exchange ::
    "('g, 't) AuthVarEnv \<Rightarrow> u64 \<Rightarrow> CHAR16s \<Rightarrow> EFI_GUID \<Rightarrow>
     TEEC_SharedMemory \<Rightarrow> TEEC_SharedMemory \<Rightarrow> ('g, 't, NextOut) avar" where
  "next_exchange E NameSize name guid pm rm =
     (let LocalIn = (if first_char name = 0 then 0 else ucast (StrSize name)) :: u32;
          LocalOut = ucast NameSize :: u32;
          VariableParamSize = ucast sizeof_GET_PARAM + LocalIn :: u32;
          VariableResultSize = ucast sizeof_GET_PARAM + LocalOut :: u32;
          bad = ret \<lparr>NextStatus = EFI_BAD_BUFFER_SIZE, NextNameSize = Some NameSize,
                     NextName = None, NextGuid = None\<rparr>
      in if ucast LocalIn \<ge> shm_size pm \<or> ucast LocalOut \<ge> shm_size rm then bad
         else if ucast VariableParamSize > shm_size pm \<or> ucast VariableResultSize > shm_size rm then bad
         else
           bindM (clear_buffers pm rm) (\<lambda>_.
           bindM (fill_get (shm_buffer pm) guid name LocalIn) (\<lambda>_.
           bindM (OpteeRuntimeVariableInvokeCommand E VSGetNextVarOp VariableParamSize (Some pm)
                    VariableResultSize (Some rm)) (\<lambda>(Status, ResultSize, _).
           bindM (ASSERT (Status = EFI_BUFFER_TOO_SMALL \<longrightarrow> ucast ResultSize \<ge> sizeof_GET_PARAM)) (\<lambda>_.
           bindM (load (read_u16 (shm_buffer rm + get_VariableNameSize))) (\<lambda>size.
           let out = \<lparr>NextStatus = Status,
                 NextNameSize = Some (if Status = EFI_BUFFER_TOO_SMALL then ucast ResultSize - sizeof_GET_PARAM
                                      else if Status = EFI_SUCCESS then ucast size else NameSize),
                 NextName = None, NextGuid = None\<rparr>
           in if EFI_ERROR Status then ret out
              else if ucast size > LocalOut then ret (out\<lparr>NextStatus := EFI_BAD_BUFFER_SIZE\<rparr>)
              else
                bindM (load (peek 16 (shm_buffer rm + get_VendorGuid))) (\<lambda>g.
                bindM (load (peek (unat size) (shm_buffer rm + get_VariableName))) (\<lambda>bytes.
                ret (out\<lparr>NextName := Some bytes, NextGuid := Some g\<rparr>)))))))))"

definition OpteeRuntimeGetNextVariableName ::
    "('g, 't) AuthVarEnv \<Rightarrow> u64 option \<Rightarrow> CHAR16s option \<Rightarrow> EFI_GUID option \<Rightarrow> ('g, 't, NextOut) avar" where
  "OpteeRuntimeGetNextVariableName E VariableNameSize VariableName VendorGuid =
     (let out = (\<lambda>Status. ret \<lparr>NextStatus = Status, NextNameSize = VariableNameSize,
                               NextName = None, NextGuid = None\<rparr>)
      in bindM (gets AtRuntime) (\<lambda>runtime.
         if runtime then out EFI_UNSUPPORTED
         else case (VariableNameSize, VariableName, VendorGuid) of
           (Some sz, Some name, Some guid) \<Rightarrow>
             bindM (gets mTeecSessionOpened) (\<lambda>opened.
             if \<not> opened then out EFI_NOT_READY
             else
               bindM (gets mVariableParamMem) (\<lambda>pm.
               bindM (gets mVariableResultMem) (\<lambda>rm.
               if shm_buffer pm = 0 \<or> shm_buffer rm = 0 then out EFI_OUT_OF_RESOURCES
               else next_exchange E sz name guid pm rm)))
         | _ \<Rightarrow> out EFI_INVALID_PARAMETER))"

section \<open>Measuring secure boot variables\<close>

definition ascii :: "string \<Rightarrow> CHAR16s" where "ascii s = map (\<lambda>c. of_nat (of_char c)) s"

definition EFI_SETUP_MODE_NAME :: CHAR16s where "EFI_SETUP_MODE_NAME = ascii ''SetupMode''"
definition EFI_SECURE_BOOT_MODE_NAME :: CHAR16s where "EFI_SECURE_BOOT_MODE_NAME = ascii ''SecureBoot''"
definition EFI_PLATFORM_KEY_NAME :: CHAR16s where "EFI_PLATFORM_KEY_NAME = ascii ''PK''"
definition EFI_KEY_EXCHANGE_KEY_NAME :: CHAR16s where "EFI_KEY_EXCHANGE_KEY_NAME = ascii ''KEK''"
definition EFI_IMAGE_SECURITY_DATABASE :: CHAR16s where "EFI_IMAGE_SECURITY_DATABASE = ascii ''db''"
definition EFI_IMAGE_SECURITY_DATABASE1 :: CHAR16s where "EFI_IMAGE_SECURITY_DATABASE1 = ascii ''dbx''"
definition EFI_SECURE_BOOT_ENABLE_NAME :: CHAR16s where "EFI_SECURE_BOOT_ENABLE_NAME = ascii ''SecureBootEnable''"
definition EFI_CUSTOM_MODE_NAME :: CHAR16s where "EFI_CUSTOM_MODE_NAME = ascii ''CustomMode''"

text \<open>The vendor GUIDs of the UEFI specification and of the secure boot configuration.\<close>

definition gEfiGlobalVariableGuid :: EFI_GUID where
  "gEfiGlobalVariableGuid = \<lparr>Data1 = 0x8BE4DF61, Data2 = 0x93CA, Data3 = 0x11D2,
     Data4 = [0xAA, 0x0D, 0x00, 0xE0, 0x98, 0x03, 0x2B, 0x8C]\<rparr>"

definition gEfiImageSecurityDatabaseGuid :: EFI_GUID where
  "gEfiImageSecurityDatabaseGuid = \<lparr>Data1 = 0xD719B2CB, Data2 = 0x3D3A, Data3 = 0x4596,
     Data4 = [0xA3, 0xBC, 0xDA, 0xD0, 0x0E, 0x67, 0x65, 0x6F]\<rparr>"

definition gEfiSecureBootEnableDisableGuid :: EFI_GUID where
  "gEfiSecureBootEnableDisableGuid = \<lparr>Data1 = 0xF0A30BC7, Data2 = 0xAF08, Data3 = 0x4556,
     Data4 = [0x99, 0xC4, 0x00, 0x10, 0x09, 0xC9, 0x3A, 0x44]\<rparr>"

definition gEfiCustomModeEnableGuid :: EFI_GUID where
  "gEfiCustomModeEnableGuid = \<lparr>Data1 = 0xC076EC0C, Data2 = 0x7028, Data3 = 0x4399,
     Data4 = [0xA0, 0x72, 0x71, 0xEE, 0x5C, 0x44, 0x8B, 0x9F]\<rparr>"

definition gOpteeAuthVarTaGuid :: EFI_GUID where
  "gOpteeAuthVarTaGuid = \<lparr>Data1 = 0x2D57C0F7, Data2 = 0xBDDF, Data3 = 0x48EA,
     Data4 = [0x83, 0x2F, 0xD8, 0x4A, 0x1A, 0x21, 0x93, 0x01]\<rparr>"

definition mVariableType :: "(CHAR16s \<times> EFI_GUID) list" where
  "mVariableType = [(EFI_SECURE_BOOT_MODE_NAME, gEfiGlobalVariableGuid),
     (EFI_PLATFORM_KEY_NAME, gEfiGlobalVariableGuid), (EFI_KEY_EXCHANGE_KEY_NAME, gEfiGlobalVariableGuid),
     (EFI_IMAGE_SECURITY_DATABASE, gEfiImageSecurityDatabaseGuid),
     (EFI_IMAGE_SECURITY_DATABASE1, gEfiImageSecurityDatabaseGuid)]"

definition IsSecureBootPolicyVariable :: "CHAR16s \<Rightarrow> EFI_GUID \<Rightarrow> bool" where
  "IsSecureBootPolicyVariable name guid \<longleftrightarrow> (\<exists>(n, g)\<in>set mVariableType. name = n \<and> guid = g)"

definition EV_EFI_VARIABLE_DRIVER_CONFIG :: u32 where "EV_EFI_VARIABLE_DRIVER_CONFIG = 0x80000001"

text \<open>The log entry \<open>EFI_VARIABLE_DATA_TREE\<close>: the GUID, the two lengths, the name and the data.\<close>

definition var_log :: "CHAR16s \<Rightarrow> EFI_GUID \<Rightarrow> u64 \<Rightarrow> u8 list \<Rightarrow> u8 list" where
  "var_log name guid VarSize data =
     guid_bytes guid @ le_bytes 8 (StrLen name) @ le_bytes 8 VarSize @ chars name @ data"

definition MeasureVariable ::
    "('g, 't) AuthVarEnv \<Rightarrow> CHAR16s \<Rightarrow> EFI_GUID \<Rightarrow> u8 list option \<Rightarrow> u64 \<Rightarrow> ('g, 't, EFI_STATUS) avar" where
  "MeasureVariable E VarName VendorGuid VarData VarSize =
     bindM (ASSERT (VarSize = 0 \<and> VarData = None \<or> VarSize \<noteq> 0 \<and> VarData \<noteq> None)) (\<lambda>_.
     let VarLogSize = ucast (32 + StrLen VarName * 2 + VarSize) :: u32;
         data = (case VarData of None \<Rightarrow> [] | Some d \<Rightarrow> take (unat VarSize) d)
     in bindM (firmware (AllocateZeroPool E VarLogSize)) (\<lambda>granted.
        if \<not> granted then ret EFI_OUT_OF_RESOURCES
        else
          bindM (firmware (TpmMeasureAndLogData E 7 EV_EFI_VARIABLE_DRIVER_CONFIG
                   (var_log VarName VendorGuid VarSize data) VarLogSize)) (\<lambda>Status.
          bindM (firmware (FreePool E)) (\<lambda>_. ret Status))))"

text \<open>\<open>gRT->GetVariable\<close>: this driver's service once it has been published.\<close>

definition runtime_GetVariable ::
    "('g, 't) AuthVarEnv \<Rightarrow> CHAR16s \<Rightarrow> EFI_GUID \<Rightarrow> u64 \<Rightarrow> u8 list option \<Rightarrow>
     ('g, 't, EFI_STATUS \<times> u64 \<times> u8 list option) avar" where
  "runtime_GetVariable E Name Guid BufferSize Value =
     bindM (gets Published) (\<lambda>published.
     if published then
       bindM (OpteeRuntimeGetVariable E (Some Name) (Some Guid) None (Some BufferSize) Value) (\<lambda>r.
       ret (GetStatus r, the (GetDataSize r), GetData r))
     else firmware (PrevGetVariable E Name Guid BufferSize Value))"

definition InternalGetVariable ::
    "('g, 't) AuthVarEnv \<Rightarrow> CHAR16s \<Rightarrow> EFI_GUID \<Rightarrow> ('g, 't, EFI_STATUS \<times> u8 list option \<times> u64) avar" where
  "InternalGetVariable E Name Guid =
     bindM (runtime_GetVariable E Name Guid 0 None) (\<lambda>(Status, BufferSize, _).
     if Status \<noteq> EFI_BUFFER_TOO_SMALL then ret (Status, None, 0)
     else
       bindM (firmware (AllocatePool E BufferSize)) (\<lambda>Value.
       bindM (ASSERT (Value \<noteq> None)) (\<lambda>_.
       bindM (runtime_GetVariable E Name Guid BufferSize Value) (\<lambda>(Status, BufferSize, Value).
       if EFI_ERROR Status then bindM (firmware (FreePool E)) (\<lambda>_. ret (Status, None, BufferSize))
       else ret (Status, Value, BufferSize)))))"

definition SecureBootHook :: "('g, 't) AuthVarEnv \<Rightarrow> CHAR16s \<Rightarrow> EFI_GUID \<Rightarrow> ('g, 't, unit) avar" where
  "SecureBootHook E VariableName VendorGuid =
     bindM (firmware (LocateVariableArch E)) (\<lambda>Status.
     if EFI_ERROR Status then ret ()
     else if \<not> IsSecureBootPolicyVariable VariableName VendorGuid then ret ()
     else
       bindM (InternalGetVariable E VariableName VendorGuid) (\<lambda>(Status, VariableData, VariableDataSize).
       let (data, n) = (if EFI_ERROR Status then (None, 0) else (VariableData, VariableDataSize))
       in bindM (MeasureVariable E VariableName VendorGuid data n) (\<lambda>_.
          if data \<noteq> None then firmware (FreePool E) else ret ())))"

section \<open>Writing a variable\<close>

definition fill_set ::
    "u64 \<Rightarrow> CHAR16s \<Rightarrow> EFI_GUID \<Rightarrow> u32 \<Rightarrow> u64 \<Rightarrow> u8 list \<Rightarrow> ('g, 't, unit) avar" where
  "fill_set buf name guid Attributes DataSize Data =
     bindM (store (write_u32 (buf + set_Size) (ucast sizeof_SET_PARAM))) (\<lambda>_.
     bindM (store (write_u16 (buf + set_VariableNameSize) (ucast (StrSize name)))) (\<lambda>_.
     bindM (store (write_u32 (buf + set_Attributes) Attributes)) (\<lambda>_.
     bindM (store (write_u32 (buf + set_DataSize) (ucast DataSize))) (\<lambda>_.
     bindM (store (write_u32 (buf + set_OffsetVariableName) 0)) (\<lambda>_.
     bindM (store (write_u32 (buf + set_OffsetData) (ucast (StrSize name)))) (\<lambda>_.
     bindM (store (poke (buf + set_VendorGuid) (guid_bytes guid))) (\<lambda>_.
     bindM (store (poke (buf + set_Payload) (name_bytes name))) (\<lambda>_.
     store (poke (buf + set_Payload + StrSize name) (take (unat DataSize) Data))))))))))"

definition set_exchange ::
    "('g, 't) AuthVarEnv \<Rightarrow> CHAR16s \<Rightarrow> EFI_GUID \<Rightarrow> u32 \<Rightarrow> u64 \<Rightarrow> u8 list \<Rightarrow> ('g, 't, EFI_STATUS) avar" where
  "set_exchange E name guid Attributes DataSize Data =
     bindM (gets mVariableParamMem) (\<lambda>pm.
     bindM (gets mVariableResultMem) (\<lambda>rm.
     if StrSize name \<ge> shm_size pm \<or> DataSize \<ge> shm_size pm then ret EFI_BAD_BUFFER_SIZE
     else
       let VariableParamSize = sizeof_SET_PARAM + StrSize name + DataSize
       in if VariableParamSize > shm_size pm then ret EFI_BAD_BUFFER_SIZE
          else
            bindM (clear_buffers pm rm) (\<lambda>_.
            bindM (fill_set (shm_buffer pm) name guid Attributes DataSize Data) (\<lambda>_.
            bindM (OpteeRuntimeVariableInvokeCommand E VSSetOp (ucast VariableParamSize) (Some pm) 0 None)
              (\<lambda>(Status, _). ret Status)))))"

definition OpteeRuntimeSetVariable ::
    "('g, 't) AuthVarEnv \<Rightarrow> CHAR16s option \<Rightarrow> EFI_GUID option \<Rightarrow> u32 \<Rightarrow> u64 \<Rightarrow> u8 list option \<Rightarrow>
     ('g, 't, EFI_STATUS) avar" where
  "OpteeRuntimeSetVariable E VariableName VendorGuid Attributes DataSize Data =
     bindM (gets AtRuntime) (\<lambda>runtime.
     if runtime then ret EFI_UNSUPPORTED
     else case (VariableName, VendorGuid) of
       (Some name, Some guid) \<Rightarrow>
         if first_char name = 0 then ret EFI_INVALID_PARAMETER
         else if DataSize \<noteq> 0 \<and> Data = None then ret EFI_INVALID_PARAMETER
         else
           bindM (gets mTeecSessionOpened) (\<lambda>opened.
           if \<not> opened then ret EFI_NOT_READY
           else if first_char name = 1 \<and> Data1 guid = 1 \<and> DataSize = 8 then
             bindM (modify (\<lambda>s. s\<lparr>mTeecSession := (mTeecSession s)\<lparr>session_id :=
                      ucast (of_nat (le_nat (take 8 (the Data))) :: u64)\<rparr>\<rparr>)) (\<lambda>_.
             ret EFI_SUCCESS)
           else
             bindM (set_exchange E name guid Attributes DataSize (case Data of None \<Rightarrow> [] | Some d \<Rightarrow> d))
               (\<lambda>Status.
             if EFI_ERROR Status then ret Status
             else bindM (SecureBootHook E name guid) (\<lambda>_. ret Status)))
     | _ \<Rightarrow> ret EFI_INVALID_PARAMETER)"

section \<open>Storage information\<close>

text \<open>The status, and the three sizes when the query succeeded.\<close>

definition OpteeRuntimeQueryVariableInfo ::
    "('g, 't) AuthVarEnv \<Rightarrow> u32 \<Rightarrow> bool \<Rightarrow> ('g, 't, EFI_STATUS \<times> (u64 \<times> u64 \<times> u64) option) avar" where
  "OpteeRuntimeQueryVariableInfo E Attributes pointers =
     bindM (gets AtRuntime) (\<lambda>runtime.
     if runtime then ret (EFI_UNSUPPORTED, None)
     else if \<not> pointers \<or> Attributes = 0 then ret (EFI_INVALID_PARAMETER, None)
     else
       bindM (gets mTeecSessionOpened) (\<lambda>opened.
       if \<not> opened then ret (EFI_NOT_READY, None)
       else
         bindM (gets mVariableParamMem) (\<lambda>pm.
         bindM (gets mVariableResultMem) (\<lambda>rm.
         if shm_buffer pm = 0 \<or> shm_buffer rm = 0 then ret (EFI_OUT_OF_RESOURCES, None)
         else if sizeof_QUERY_PARAM > shm_size pm \<or> sizeof_QUERY_RESULT > shm_size rm
         then ret (EFI_BAD_BUFFER_SIZE, None)
         else
           bindM (clear_buffers pm rm) (\<lambda>_.
           bindM (store (write_u32 (shm_buffer pm + query_Size) (ucast sizeof_QUERY_PARAM))) (\<lambda>_.
           bindM (store (write_u32 (shm_buffer pm + query_Attributes) Attributes)) (\<lambda>_.
           bindM (OpteeRuntimeVariableInvokeCommand E VSQueryInfoOp (ucast sizeof_QUERY_PARAM) (Some pm)
                    (ucast sizeof_QUERY_RESULT) (Some rm)) (\<lambda>(Status, _).
           if EFI_ERROR Status then ret (Status, None)
           else
             bindM (load (read_u64 (shm_buffer rm + query_MaximumVariableStorageSize))) (\<lambda>maximum.
             bindM (load (read_u64 (shm_buffer rm + query_RemainingVariableStorageSize))) (\<lambda>remaining.
             bindM (load (read_u64 (shm_buffer rm + query_MaximumVariableSize))) (\<lambda>single.
             ret (Status, Some (maximum, remaining, single)))))))))))))"

section \<open>Session and transport buffers\<close>

definition ta_uuid :: TEEC_UUID where
  "ta_uuid = swap_uuid \<lparr>timeLow = Data1 gOpteeAuthVarTaGuid, timeMid = Data2 gOpteeAuthVarTaGuid,
     timeHiAndVersion = Data3 gOpteeAuthVarTaGuid, clockSeqAndNode = Data4 gOpteeAuthVarTaGuid\<rparr>"

definition transport_size :: "('g, 't) AuthVarEnv \<Rightarrow> u64" where
  "transport_size E =
     ucast (max (PcdMaxVariableSize E) (PcdMaxHardwareErrorVariableSize E)) + sizeof_VARIABLE_PARAM"

definition TaOpenSession :: "('g, 't) AuthVarEnv \<Rightarrow> ('g, 't, EFI_STATUS) avar" where
  "TaOpenSession E =
     bindM (gets mTeecContext) (\<lambda>context.
     bindM (gets mTeecSession) (\<lambda>session.
     bindM (on_tee (TEEC_OpenSession (TeeE E) (SmcFuel E) (Some context) (Some session) (Some ta_uuid)
              TEEC_LOGIN_PUBLIC None)) (\<lambda>a.
     bindM (modify (\<lambda>s. s\<lparr>mTeecSession := the (ApiSession a)\<rparr>)) (\<lambda>_.
     if ApiCode a \<noteq> TEEC_SUCCESS then ret EFI_PROTOCOL_ERROR
     else
       bindM (modify (\<lambda>s. s\<lparr>mTeecSessionOpened := True,
                mVariableParamMem := (mVariableParamMem s)\<lparr>shm_size := transport_size E\<rparr>\<rparr>)) (\<lambda>_.
       bindM (gets mVariableParamMem) (\<lambda>pm.
       bindM (on_tee (TEEC_AllocateSharedMemory (TeeE E) (Some context) (Some pm))) (\<lambda>(r, pm').
       bindM (modify (\<lambda>s. s\<lparr>mVariableParamMem := the pm'\<rparr>)) (\<lambda>_.
       if r \<noteq> TEEC_SUCCESS then ret EFI_OUT_OF_RESOURCES
       else
         bindM (modify (\<lambda>s. s\<lparr>mVariableResultMem :=
                  (mVariableResultMem s)\<lparr>shm_size := shm_size (mVariableParamMem s)\<rparr>\<rparr>)) (\<lambda>_.
         bindM (gets mVariableResultMem) (\<lambda>rm.
         bindM (on_tee (TEEC_AllocateSharedMemory (TeeE E) (Some context) (Some rm))) (\<lambda>(r, rm').
         bindM (modify (\<lambda>s. s\<lparr>mVariableResultMem := the rm'\<rparr>)) (\<lambda>_.
         ret (if r \<noteq> TEEC_SUCCESS then EFI_OUT_OF_RESOURCES else EFI_SUCCESS)))))))))))))"

section \<open>Secure boot variables\<close>

definition EFI_VARIABLE_NON_VOLATILE :: u32 where "EFI_VARIABLE_NON_VOLATILE = 1"
definition EFI_VARIABLE_BOOTSERVICE_ACCESS :: u32 where "EFI_VARIABLE_BOOTSERVICE_ACCESS = 2"
definition EFI_VARIABLE_RUNTIME_ACCESS :: u32 where "EFI_VARIABLE_RUNTIME_ACCESS = 4"

definition USER_MODE :: u8 where "USER_MODE = 0"
definition SETUP_MODE :: u8 where "SETUP_MODE = 1"
definition SECURE_BOOT_DISABLE :: u8 where "SECURE_BOOT_DISABLE = 0"
definition SECURE_BOOT_ENABLE :: u8 where "SECURE_BOOT_ENABLE = 1"
definition SECURE_BOOT_MODE_DISABLE :: u8 where "SECURE_BOOT_MODE_DISABLE = 0"
definition SECURE_BOOT_MODE_ENABLE :: u8 where "SECURE_BOOT_MODE_ENABLE = 1"
definition STANDARD_SECURE_BOOT_MODE :: u8 where "STANDARD_SECURE_BOOT_MODE = 0"

lemmas secure_boot_modes = USER_MODE_def SETUP_MODE_def SECURE_BOOT_DISABLE_def SECURE_BOOT_ENABLE_def
  SECURE_BOOT_MODE_DISABLE_def SECURE_BOOT_MODE_ENABLE_def STANDARD_SECURE_BOOT_MODE_def

text \<open>One byte stored under a name, with the attributes volatile or not.\<close>

definition volatile_attributes :: u32 where
  "volatile_attributes = EFI_VARIABLE_BOOTSERVICE_ACCESS OR EFI_VARIABLE_RUNTIME_ACCESS"

definition stored_attributes :: u32 where
  "stored_attributes = EFI_VARIABLE_NON_VOLATILE OR EFI_VARIABLE_BOOTSERVICE_ACCESS"

definition set_byte ::
    "('g, 't) AuthVarEnv \<Rightarrow> CHAR16s \<Rightarrow> EFI_GUID \<Rightarrow> u32 \<Rightarrow> u8 \<Rightarrow> ('g, 't, EFI_STATUS) avar" where
  "set_byte E name guid Attributes v = OpteeRuntimeSetVariable E (Some name) (Some guid) Attributes 1 (Some [v])"

text \<open>The local variable \<open>Data\<close> is not initialised; its value at entry is the parameter.\<close>

definition InitSecureBootVariables :: "('g, 't) AuthVarEnv \<Rightarrow> u8 \<Rightarrow> ('g, 't, EFI_STATUS) avar" where
  "InitSecureBootVariables E Data =
     bindM (OpteeRuntimeGetVariable E (Some EFI_PLATFORM_KEY_NAME) (Some gEfiGlobalVariableGuid) None
              (Some 1) (Some [Data])) (\<lambda>pk.
     let SetupMode = (if GetStatus pk = EFI_BUFFER_TOO_SMALL then USER_MODE else SETUP_MODE)
     in tryE (set_byte E EFI_SETUP_MODE_NAME gEfiGlobalVariableGuid volatile_attributes SetupMode) (
        bindM (OpteeRuntimeGetVariable E (Some EFI_SECURE_BOOT_ENABLE_NAME)
                 (Some gEfiSecureBootEnableDisableGuid) None (Some 1) (GetData pk)) (\<lambda>en.
        let PcdEnable = (if PcdSecureBootEnable E then SECURE_BOOT_ENABLE else SECURE_BOOT_DISABLE);
            create = EFI_ERROR (GetStatus en) \<and> SetupMode = USER_MODE;
            SecureBootEnable =
              (if \<not> EFI_ERROR (GetStatus en) \<and> SetupMode = USER_MODE then hd (the (GetData en))
               else if create then PcdEnable else SECURE_BOOT_DISABLE);
            SecureBootMode = (if SecureBootEnable = SECURE_BOOT_ENABLE \<and> SetupMode = USER_MODE
              then SECURE_BOOT_MODE_ENABLE else SECURE_BOOT_MODE_DISABLE)
        in tryE (if create
                 then set_byte E EFI_SECURE_BOOT_ENABLE_NAME gEfiSecureBootEnableDisableGuid
                        stored_attributes SecureBootEnable
                 else ret EFI_SUCCESS) (
           tryE (set_byte E EFI_SECURE_BOOT_MODE_NAME gEfiGlobalVariableGuid volatile_attributes SecureBootMode) (
           set_byte E EFI_CUSTOM_MODE_NAME gEfiCustomModeEnableGuid stored_attributes
             STANDARD_SECURE_BOOT_MODE)))))"

section \<open>Start and end of the driver\<close>

definition release_buffers :: "('g, 't) AuthVarEnv \<Rightarrow> ('g, 't, unit) avar" where
  "release_buffers E =
     bindM (gets mVariableParamMem) (\<lambda>pm.
     bindM (on_tee (TEEC_ReleaseSharedMemory (TeeE E) (Some pm))) (\<lambda>pm'.
     bindM (modify (\<lambda>s. s\<lparr>mVariableParamMem := the pm'\<rparr>)) (\<lambda>_.
     bindM (gets mVariableResultMem) (\<lambda>rm.
     bindM (on_tee (TEEC_ReleaseSharedMemory (TeeE E) (Some rm))) (\<lambda>rm'.
     modify (\<lambda>s. s\<lparr>mVariableResultMem := the rm'\<rparr>))))))"

definition OpteeRuntimeOnExitBootServices :: "('g, 't) AuthVarEnv \<Rightarrow> ('g, 't, unit) avar" where
  "OpteeRuntimeOnExitBootServices E =
     bindM (OpteeRuntimeVariableInvokeCommand E VSSignalExitBootServicesOp 0 None 0 None) (\<lambda>(Status, _).
     bindM (if Status \<noteq> EFI_SUCCESS then firmware (ResetSystem E) else ret ()) (\<lambda>_.
     bindM (gets mTeecSessionOpened) (\<lambda>opened.
     bindM (if opened then
              bindM (gets mTeecSession) (\<lambda>session.
              bindM (on_tee (TEEC_CloseSession (TeeE E) (SmcFuel E) (Some session))) (\<lambda>_.
              modify (\<lambda>s. s\<lparr>mTeecSessionOpened := False\<rparr>)))
            else ret ()) (\<lambda>_.
     bindM (release_buffers E) (\<lambda>_.
     on_tee (on_shm OpteeClientApiFinalize))))))"

definition VariableAuthOpteeRuntimeInitialize ::
    "('g, 't) AuthVarEnv \<Rightarrow> u64 \<Rightarrow> u8 \<Rightarrow> ('g, 't, EFI_STATUS) avar" where
  "VariableAuthOpteeRuntimeInitialize E ImageHandle Data =
     bindM (on_tee (OpteeClientApiInitialize (TeeE E) ImageHandle)) (\<lambda>Status.
     if EFI_ERROR Status then ret Status
     else
       bindM (gets mTeecContext) (\<lambda>context.
       let (r, context') = TEEC_InitializeContext None (Some context)
       in bindM (modify (\<lambda>s. s\<lparr>mTeecContext := the context'\<rparr>)) (\<lambda>_.
          if r \<noteq> TEEC_SUCCESS then ret Status
          else
            tryE (TaOpenSession E) (
            tryE (InitSecureBootVariables E Data) (
            bindM (modify (\<lambda>s. s\<lparr>Published := True\<rparr>)) (\<lambda>_.
            tryE (firmware (InstallVariableArch E)) (
            tryE (firmware (InstallVariableWriteArch E)) (
            firmware (CreateExitBootServicesEvent E)))))))))"

end
