(* ===== verification/OpteeMemSpec.thy ===== *)
theory OpteeMemSpec
  imports OpteeMem
begin

text \<open>
  What the shared memory allocator promises: the loops over the fence are writes and tests of a
  block, a block and its header never leave the memory the services handed out, and under the
  documented contract of the services every free byte of the window always carries the fence, so
  that the overflow check of an allocation fires only on a client that wrote out of bounds.
\<close>

section \<open>Powers of two\<close>

lemma nat_and_pred: "0 < n \<Longrightarrow> n AND (n - 1) = (0 :: nat) \<longleftrightarrow> (\<exists>k. n = 2 ^ k)"
proof (induction n rule: less_induct)
  case (less n)
  show ?case
  proof (cases "even n")
    case True
    then obtain m where n: "n = 2 * m" by (auto elim: evenE)
    with less.prems have m: "0 < m" "m < n" "(2 * m - 1) div 2 = m - 1" "odd (2 * m - 1)" by auto
    have "n AND (n - 1) = 2 * (m AND (m - 1))"
      unfolding n by (subst and_rec) (use m in simp)
    moreover have "(\<exists>k. n = 2 ^ k) \<longleftrightarrow> (\<exists>k. m = 2 ^ k)"
    proof
      assume "\<exists>k. n = 2 ^ k"
      then obtain k where "n = 2 ^ k" ..
      with n m show "\<exists>k. m = 2 ^ k" by (cases k) auto
    next
      assume "\<exists>k. m = 2 ^ k"
      then show "\<exists>k. n = 2 ^ k" unfolding n by (metis power_Suc)
    qed
    ultimately show ?thesis
      using less.IH [OF m(2) m(1)] by simp
  next
    case False
    then obtain m where n: "n = 2 * m + 1" by (auto elim: oddE)
    have "n AND (n - 1) = 2 * m"
      unfolding n by (subst and_rec) simp
    moreover have "(\<exists>k. n = 2 ^ k) \<longleftrightarrow> m = 0"
    proof
      assume "\<exists>k. n = 2 ^ k"
      then obtain k where "n = 2 ^ k" ..
      moreover from this have "k = 0" using False by (cases k) auto
      ultimately show "m = 0" using n by simp
    next
      assume "m = 0"
      with n have "n = 2 ^ 0" by simp
      then show "\<exists>k. n = 2 ^ k" ..
    qed
    ultimately show ?thesis by auto
  qed
qed

lemma word_pred_unat: "x \<noteq> 0 \<Longrightarrow> unat (x - 1) = unat x - (1 :: nat)"
  by (simp add: unat_minus_one)

lemma and_neg_eq: "x AND (NOT x + 1) = x \<longleftrightarrow> x AND (x - 1) = (0 :: u64)"
proof -
  have "NOT x + 1 = NOT (x - 1)"
    by (simp add: not_eq_complement)
  moreover have "x AND NOT y = x \<longleftrightarrow> x AND y = 0" for y :: u64
    by (auto simp: bit_eq_iff bit_and_iff bit_not_iff)
  ultimately show ?thesis by simp
qed

lemma unat_pow2: "k < 64 \<Longrightarrow> unat (2 ^ k :: u64) = 2 ^ k"
proof -
  assume "k < 64"
  then have "(2 :: nat) ^ k < 2 ^ 64"
    by (intro power_strict_increasing) simp_all
  then have "unat (of_nat (2 ^ k) :: u64) = 2 ^ k"
    unfolding unat_of_nat by simp
  then show ?thesis by simp
qed

lemma exponent_loop_power: "k < 64 \<Longrightarrow> exponent_loop (2 ^ k) e = e + of_nat k"
proof (induction k arbitrary: e)
  case 0
  show ?case by (simp add: exponent_loop.simps)
next
  case (Suc k)
  have "(2 :: u64) ^ Suc k AND 1 = 0"
    by (rule bit_word_eqI) (auto simp: bit_simps)
  moreover have "(1 :: u64) < 2 ^ Suc k"
    unfolding word_less_nat_alt unat_pow2 [OF Suc.prems] unsigned_1 by (rule one_less_power) simp_all
  moreover have "drop_bit 1 ((2 :: u64) ^ Suc k) = 2 ^ k"
    by (rule bit_word_eqI) (use Suc.prems in \<open>auto simp: bit_simps simp del: power_Suc\<close>)
  ultimately show ?case
    using Suc by (subst exponent_loop.simps) (simp add: add_ac)
qed

lemma IsPowerOf2_iff: "IsPowerOf2 Num \<longleftrightarrow> (\<exists>k. k < 64 \<and> Num = 2 ^ k)"
proof (cases "Num = 0")
  case True
  then show ?thesis by (auto simp: IsPowerOf2_def dest: sym)
next
  case False
  have "IsPowerOf2 Num \<longleftrightarrow> unat (Num AND (Num - 1)) = 0"
    using False by (simp add: IsPowerOf2_def and_neg_eq unat_eq_0)
  also have "\<dots> \<longleftrightarrow> (\<exists>k. unat Num = 2 ^ k)"
    using False by (subst nat_and_pred [symmetric]) (auto simp: unat_gt_0 unsigned_and_eq word_pred_unat)
  also have "\<dots> \<longleftrightarrow> (\<exists>k. k < 64 \<and> Num = 2 ^ k)"
  proof
    assume "\<exists>k. unat Num = 2 ^ k"
    then obtain k where k: "unat Num = 2 ^ k" ..
    then have "(2 :: nat) ^ k < 2 ^ 64"
      using unsigned_less [of Num, where 'a = nat] by simp
    then have "k < 64" by (simp only: power_strict_increasing_iff)
    moreover have "Num = 2 ^ k"
      unfolding word_unat_eq_iff k unat_pow2 [OF \<open>k < 64\<close>] ..
    ultimately show "\<exists>k. k < 64 \<and> Num = 2 ^ k" by blast
  next
    assume "\<exists>k. k < 64 \<and> Num = 2 ^ k"
    then obtain k where "k < 64" "Num = 2 ^ k" by blast
    then have "unat Num = 2 ^ k" by (simp add: unat_pow2)
    then show "\<exists>k. unat Num = 2 ^ k" ..
  qed
  finally show ?thesis .
qed

text \<open>
  The bit trick of \<open>IsPowerOf2\<close> is exact and the loop computes the logarithm: the
  exponent of \<open>Num\<close> is returned for the 64 powers of two of the machine word, and every other
  argument, zero included, fails the assertion.
\<close>
theorem GetPowerOf2Exponent_log:
  "GetPowerOf2Exponent Num s = Ret (e, s') \<longleftrightarrow> (\<exists>k. k < 64 \<and> Num = 2 ^ k \<and> e = of_nat k \<and> s' = s)"
proof (cases "IsPowerOf2 Num")
  case True
  then obtain k where k: "k < 64" "Num = 2 ^ k" by (auto simp: IsPowerOf2_iff)
  have inj: "k = j" if "2 ^ k = (2 ^ j :: u64)" "j < 64" for j
  proof -
    from that k have "(2 :: nat) ^ k = 2 ^ j" by (metis unat_pow2)
    then show ?thesis by simp
  qed
  have "GetPowerOf2Exponent Num s = Ret (of_nat k, s)"
    using True k by (simp add: GetPowerOf2Exponent_def ASSERT_def ret_def bindM_def exponent_loop_power)
  with k show ?thesis by (auto dest: inj)
next
  case False
  then show ?thesis
    by (auto simp: GetPowerOf2Exponent_def ASSERT_def stopM_def bindM_def IsPowerOf2_iff)
qed

section \<open>The fence\<close>

lemma step_offset: "x \<noteq> a \<Longrightarrow> a \<noteq> e \<Longrightarrow>
    unat (x - (a + 1)) < unat (e - (a + 1)) \<longleftrightarrow> unat (x - a) < unat (e - (a :: u64))"
proof -
  assume ne: "x \<noteq> a" "a \<noteq> e"
  have "unat (x - (a + 1)) = unat (x - a) - 1" "unat (e - (a + 1)) = unat (e - a) - 1"
    using word_pred_unat [of "x - a"] word_pred_unat [of "e - a"] ne by (simp_all add: diff_diff_eq)
  moreover have "0 < unat (x - a)"
    using ne by (simp add: unat_gt_0)
  ultimately show ?thesis
    by linarith
qed

lemma mark_loop_eq:
  "mark_loop a e m = (\<lambda>x. if unat (x - a) < unat (e - a) then OPTEE_SHM_FREE_FENCE else m x)"
proof (induction a e m rule: mark_loop.induct)
  case (1 a e m)
  show ?case
  proof (cases "a = e")
    case True
    then show ?thesis by (simp add: mark_loop.simps)
  next
    case False
    then have "0 < unat (e - a)" by (auto simp: unat_gt_0)
    have "mark_loop a e m = mark_loop (a + 1) e (m(a := OPTEE_SHM_FREE_FENCE))"
      using False by (subst mark_loop.simps) simp
    also have "\<dots> = (\<lambda>x. if unat (x - (a + 1)) < unat (e - (a + 1)) then OPTEE_SHM_FREE_FENCE
        else (m(a := OPTEE_SHM_FREE_FENCE)) x)"
      by (rule 1 [OF False])
    also have "\<dots> = (\<lambda>x. if unat (x - a) < unat (e - a) then OPTEE_SHM_FREE_FENCE else m x)"
    proof
      fix x
      show "(if unat (x - (a + 1)) < unat (e - (a + 1)) then OPTEE_SHM_FREE_FENCE
          else (m(a := OPTEE_SHM_FREE_FENCE)) x)
        = (if unat (x - a) < unat (e - a) then OPTEE_SHM_FREE_FENCE else m x)"
        using \<open>0 < unat (e - a)\<close> False by (cases "x = a") (simp_all add: step_offset)
    qed
    finally show ?thesis .
  qed
qed

lemma check_loop_eq:
  "check_loop a e m \<longleftrightarrow> (\<forall>x. unat (x - a) < unat (e - a) \<longrightarrow> m x = OPTEE_SHM_FREE_FENCE)"
proof (induction a e m rule: check_loop.induct)
  case (1 a e m)
  show ?case
  proof (cases "a = e")
    case True
    then show ?thesis by (simp add: check_loop.simps)
  next
    case False
    then have z: "0 < unat (e - a)" by (auto simp: unat_gt_0)
    show ?thesis
    proof (cases "m a = OPTEE_SHM_FREE_FENCE")
      case True
      have "(\<forall>x. unat (x - a) < unat (e - a) \<longrightarrow> m x = OPTEE_SHM_FREE_FENCE)
          \<longleftrightarrow> (\<forall>x. x \<noteq> a \<longrightarrow> unat (x - (a + 1)) < unat (e - (a + 1)) \<longrightarrow> m x = OPTEE_SHM_FREE_FENCE)"
        using True False step_offset by metis
      moreover have "check_loop a e m \<longleftrightarrow>
          (\<forall>x. unat (x - (a + 1)) < unat (e - (a + 1)) \<longrightarrow> m x = OPTEE_SHM_FREE_FENCE)"
        using 1 [OF False] True False by (subst check_loop.simps) simp
      ultimately show ?thesis using True by metis
    next
      case ne: False
      then show ?thesis using False z by (subst check_loop.simps) (auto intro!: exI [of _ a])
    qed
  qed
qed

lemma Mark_eq [block_simps]:
  "MarkSharedMemoryRegionAsFree a l m = (\<lambda>x. if x \<in> blk a l then OPTEE_SHM_FREE_FENCE else m x)"
  by (simp add: MarkSharedMemoryRegionAsFree_def mark_loop_eq blk_iff)

lemma IsFree_eq [block_simps]:
  "IsSharedMemoryRegionFree a l m \<longleftrightarrow> (\<forall>x\<in>blk a l. m x = OPTEE_SHM_FREE_FENCE)"
  by (auto simp: IsSharedMemoryRegionFree_def check_loop_eq blk_iff)

section \<open>Headers\<close>

lemma read_header_cong:
  assumes "\<And>x. x \<in> blk a sizeof_HEADER \<Longrightarrow> m x = m' x"
  shows "read_header a m = read_header a m'"
proof -
  have eq: "m (a + of_nat i) = m' (a + of_nat i)" if "i < 32" for i
    using that by (intro assms) (simp add: blk_iff sizeof_HEADER_def unat_of_nat)
  have p: "peek n (a + of_nat k) m = peek n (a + of_nat k) m'" if "k + n \<le> 32" for n k
  proof (rule peek_cong)
    fix i
    assume "i < n"
    with that eq [of "k + i"] show "m (a + of_nat k + of_nat i) = m' (a + of_nat k + of_nat i)"
      by (simp add: add.assoc)
  qed
  show ?thesis
    using p [of 0 4] p [of 8 8] p [of 16 8] p [of 24 8]
    by (simp add: read_header_def read_u32_def read_u64_def)
qed

definition names_block :: "OPTEE_CLIENT_MEM_HEADER \<Rightarrow> u64 \<times> u64 \<Rightarrow> bool" where
  "names_block H r \<longleftrightarrow>
     Signature H = OPTEE_SHM_SIGNATURE \<and> HeaderSize H = snd r \<and> HeaderAddress H = fst r"

lemma names_write_header: "names_block (read_header a (write_header a l b m)) (b, l)"
proof -
  let ?z = "poke a (replicate 32 0) m"
  let ?s = "poke a (le_bytes 4 OPTEE_SHM_SIGNATURE) ?z"
  let ?l = "poke (a + of_nat 16) (le_bytes 8 l) ?s"
  let ?b = "poke (a + of_nat 24) (le_bytes 8 b) ?l"
  have w: "write_header a l b m = ?b"
    by (simp add: write_header_def)
  have "peek 4 (a + of_nat 0) ?b = peek 4 (a + of_nat 0) ?l"
    by (rule peek_poke_before) simp_all
  also have "\<dots> = peek 4 (a + of_nat 0) ?s"
    by (rule peek_poke_before) simp_all
  also have "peek 4 (a + of_nat 0) ?s = le_bytes 4 OPTEE_SHM_SIGNATURE"
    by (subst peek_poke) simp_all
  finally have 1: "peek 4 a (write_header a l b m) = le_bytes 4 OPTEE_SHM_SIGNATURE"
    unfolding w by simp
  have "peek 8 (a + of_nat 16) ?b = peek 8 (a + of_nat 16) ?l"
    by (rule peek_poke_before) simp_all
  also have "\<dots> = peek 8 (a + of_nat 16 + of_nat 0) ?l"
    by simp
  also have "\<dots> = le_bytes 8 l"
    by (subst peek_poke) simp_all
  finally have 2: "peek 8 (a + 16) (write_header a l b m) = le_bytes 8 l"
    unfolding w by simp
  have "peek 8 (a + of_nat 24 + of_nat 0) ?b = le_bytes 8 b"
    by (subst peek_poke) simp_all
  then have 3: "peek 8 (a + 24) (write_header a l b m) = le_bytes 8 b"
    unfolding w by simp
  show ?thesis
    by (simp add: names_block_def read_header_def read_u32_def read_u64_def 1 2 3 of_nat_le_bytes
        of_nat_le_bytes32)
qed

lemma write_header_outside:
  assumes "x \<notin> blk a sizeof_HEADER"
  shows "write_header a l b m x = m x"
proof -
  have x: "32 \<le> unat (x - a)"
    using assms by (simp add: blk_iff sizeof_HEADER_def)
  have "8 \<le> unat (x - (a + k))" if "k = 16 \<or> k = 24" for k
  proof -
    have "x - (a + k) = (x - a) - k" by simp
    moreover have "k \<le> x - a"
      using x that by (auto simp: word_le_nat_alt)
    ultimately have "unat (x - (a + k)) = unat (x - a) - unat k"
      by (simp only: unat_sub)
    then show ?thesis
      using x that by auto
  qed
  from this [of 16] this [of 24] x show ?thesis
    by (simp add: write_header_def poke_outside)
qed

section \<open>The layout of a block\<close>

lemma UserBase_offset:
  assumes "unat b + 4127 < 2 ^ 64"
  obtains d where "UserBase_of b = b + d" and "32 \<le> unat d" and "unat d \<le> 4127"
    and "UserBase_of b mod OPTEE_SHM_ALLOC_ALIGN = 0"
proof -
  let ?x = "b + 4127"
  let ?r = "take_bit 12 ?x"
  let ?e = "?x AND NOT (mask 12)"
  have "?x = ?r + ?e"
    unfolding take_bit_eq_mask by (subst disjunctive_add) (auto simp: bit_simps intro: bit_word_eqI)
  then have e: "?e = b + (4127 - ?r)"
    by (simp add: algebra_simps)
  have user: "UserBase_of b = ?e"
    by (simp add: UserBase_of_def shm_consts sizeof_HEADER_def mask_eq_exp_minus_1 add.assoc)
  have "unat ?r < 4096"
    by (simp add: take_bit_eq_mod unat_mod)
  then have d: "unat (4127 - ?r) = 4127 - unat ?r"
    by (simp add: unat_sub word_le_nat_alt)
  have "take_bit 12 ?e = 0"
    by (auto simp: bit_simps intro: bit_word_eqI)
  then have "UserBase_of b mod OPTEE_SHM_ALLOC_ALIGN = 0"
    by (simp add: user take_bit_eq_mod shm_consts)
  with user e d \<open>unat ?r < 4096\<close> show thesis
    by (intro that [of "4127 - ?r"]) simp_all
qed

text \<open>
  A block of at least \<open>sizeof (OPTEE_CLIENT_MEM_HEADER) + 4095\<close> bytes holds the header right before
  the aligned address, and the client's bytes from there on.
\<close>

definition min_block :: nat where "min_block = 4127"

definition user_size :: "u64 \<Rightarrow> u64" where "user_size l = l - 4127"

abbreviation header_of :: "u64 \<Rightarrow> u64" where
  "header_of b \<equiv> UserBase_of b - sizeof_HEADER"

lemma block_parts:
  assumes "unat b + unat l < 2 ^ 64" and "min_block \<le> unat l"
  shows "blk (header_of b) sizeof_HEADER \<subseteq> blk b l"
    and "blk (UserBase_of b) (user_size l) \<subseteq> blk b l"
    and "blk (header_of b) sizeof_HEADER \<inter> blk (UserBase_of b) (user_size l) = {}"
    and "b < UserBase_of b" and "UserBase_of b mod OPTEE_SHM_ALLOC_ALIGN = 0"
    and "unat (UserBase_of b) + unat (user_size l) \<le> unat b + unat l"
proof -
  obtain d where d: "UserBase_of b = b + d" "32 \<le> unat d" "unat d \<le> 4127"
    and al: "UserBase_of b mod OPTEE_SHM_ALLOC_ALIGN = 0"
    using assms by (elim UserBase_offset [of b, rotated]) (auto simp: min_block_def)
  have us: "unat (user_size l) = unat l - 4127"
    using assms(2) by (simp add: user_size_def min_block_def unat_sub word_le_nat_alt)
  have bd: "unat (b + d) = unat b + unat d"
    using assms d by (intro iffD1 [OF unat_add_lem]) (simp add: min_block_def)
  have h: "header_of b = b + (d - 32)" "unat (d - 32) = unat d - 32"
    using d by (simp_all add: sizeof_HEADER_def unat_sub word_le_nat_alt)
  show "blk (header_of b) sizeof_HEADER \<subseteq> blk b l"
    unfolding h(1) using h(2) d assms(2) by (intro sub_block) (simp add: sizeof_HEADER_def min_block_def)
  show "blk (UserBase_of b) (user_size l) \<subseteq> blk b l"
    unfolding d(1) using d us assms(2) by (intro sub_block) (simp add: min_block_def)
  have "UserBase_of b = header_of b + sizeof_HEADER"
    by simp
  moreover have "unat sizeof_HEADER + unat (user_size l) \<le> 2 ^ 64 - 1"
    using us assms by (simp add: sizeof_HEADER_def min_block_def)
  ultimately show "blk (header_of b) sizeof_HEADER \<inter> blk (UserBase_of b) (user_size l) = {}"
    using blk_disjoint_after by metis
  show "b < UserBase_of b" and "unat (UserBase_of b) + unat (user_size l) \<le> unat b + unat l"
    using d bd us assms(2) by (simp_all add: word_less_nat_alt min_block_def)
  show "UserBase_of b mod OPTEE_SHM_ALLOC_ALIGN = 0"
    by (rule al)
qed

section \<open>The contract of the services\<close>

text \<open>
  What the PI specification documents of the services, as far as the allocator relies on it: a
  range handed out lies in the reserved window below the maximum address and is disjoint from the
  ranges handed out and not freed (\<open>live\<close>), a failed call hands out nothing, a live range can be
  freed, and the remaining calls do not touch the allocation of ranges. That no other free reserved
  memory lies below the window is a fact of the platform's memory map.
\<close>

definition window_ok :: "'g ShmEnv \<Rightarrow> bool" where
  "window_ok E \<longleftrightarrow> unat (OPTEE_SHM_START E) + unat (OPTEE_SHM_SIZE E) < 2 ^ 64"

definition inside :: "'g ShmEnv \<Rightarrow> u64 \<times> u64 \<Rightarrow> bool" where
  "inside E r \<longleftrightarrow> unat (OPTEE_SHM_START E) \<le> unat (fst r) \<and>
     unat (fst r) + unat (snd r) \<le> unat (OPTEE_SHM_START E) + unat (OPTEE_SHM_SIZE E)"

definition apart :: "u64 \<times> u64 \<Rightarrow> u64 \<times> u64 \<Rightarrow> bool" where
  "apart r r' \<longleftrightarrow> blk (fst r) (snd r) \<inter> blk (fst r') (snd r') = {}"

definition hands_out :: "'g ShmEnv \<Rightarrow> ('g \<Rightarrow> (u64 \<times> u64) set) \<Rightarrow> u64 \<Rightarrow> 'g \<Rightarrow>
    (EFI_STATUS \<times> u64) \<times> 'g \<Rightarrow> bool" where
  "hands_out E live len g r \<longleftrightarrow> (case r of ((st, b), g') \<Rightarrow>
     if EFI_ERROR st then live g' = live g
     else inside E (b, len) \<and> (\<forall>q\<in>live g. apart (b, len) q) \<and> live g' = insert (b, len) (live g))"

definition gcd_allocates :: "'g ShmEnv \<Rightarrow> ('g \<Rightarrow> (u64 \<times> u64) set) \<Rightarrow> bool" where
  "gcd_allocates E live \<longleftrightarrow> (\<forall>len g. 0 < len \<longrightarrow> hands_out E live len g
     (AllocateMemorySpace (gDS E) EfiGcdAllocateMaxAddressSearchTopDown EfiGcdMemoryTypeReserved
        OPTEE_SHM_ALLOC_ALIGN_SHIFT len (OPTEE_SHM_END E) g))"

definition gcd_reserves :: "'g ShmEnv \<Rightarrow> ('g \<Rightarrow> (u64 \<times> u64) set) \<Rightarrow> bool" where
  "gcd_reserves E live \<longleftrightarrow> (\<forall>g. hands_out E live (OPTEE_SHM_SIZE E) g
     (AllocateMemorySpace (gDS E) EfiGcdAllocateAddress EfiGcdMemoryTypeReserved 0
        (OPTEE_SHM_SIZE E) (OPTEE_SHM_START E) g))"

definition gcd_frees :: "'g ShmEnv \<Rightarrow> ('g \<Rightarrow> (u64 \<times> u64) set) \<Rightarrow> bool" where
  "gcd_frees E live \<longleftrightarrow> (\<forall>g b l st g'. (b, l) \<in> live g \<longrightarrow> FreeMemorySpace (gDS E) b l g = (st, g') \<longrightarrow>
     st = EFI_SUCCESS \<and> live g' = live g - {(b, l)})"

definition gcd_keeps :: "'g ShmEnv \<Rightarrow> ('g \<Rightarrow> (u64 \<times> u64) set) \<Rightarrow> bool" where
  "gcd_keeps E live \<longleftrightarrow>
     (\<forall>g r g'. GetMemorySpaceDescriptor (gDS E) (OPTEE_SHM_START E) g = (r, g') \<longrightarrow> live g' = live g) \<and>
     (\<forall>g r g'. AddMemorySpace (gDS E) OPTEE_SHM_TYPE (OPTEE_SHM_START E) (OPTEE_SHM_SIZE E)
        OPTEE_SHM_CAPS g = (r, g') \<longrightarrow> live g' = live g)"

definition gcd_contract :: "'g ShmEnv \<Rightarrow> ('g \<Rightarrow> (u64 \<times> u64) set) \<Rightarrow> bool" where
  "gcd_contract E live \<longleftrightarrow>
     gcd_allocates E live \<and> gcd_reserves E live \<and> gcd_frees E live \<and> gcd_keeps E live"

section \<open>The invariant\<close>

definition shm_ok :: "'g ShmEnv \<Rightarrow> ('g \<Rightarrow> (u64 \<times> u64) set) \<Rightarrow> 'g ShmState \<Rightarrow> bool" where
  "shm_ok E live s \<longleftrightarrow>
     finite (live (Gcd s)) \<and>
     (\<forall>r\<in>live (Gcd s). inside E r \<and> min_block \<le> unat (snd r)
        \<and> names_block (read_header (header_of (fst r)) (Memory s)) r) \<and>
     (\<forall>r\<in>live (Gcd s). \<forall>q\<in>live (Gcd s). r \<noteq> q \<longrightarrow> apart r q) \<and>
     (\<forall>x\<in>blk (OPTEE_SHM_START E) (OPTEE_SHM_SIZE E).
        (\<forall>r\<in>live (Gcd s). x \<notin> blk (fst r) (snd r)) \<longrightarrow> Memory s x = OPTEE_SHM_FREE_FENCE) \<and>
     mSharedMemAllocationCount s = of_nat (card (live (Gcd s))) \<and>
     mSharedMemAllocSize s = (\<Sum>r\<in>live (Gcd s). snd r) \<and>
     gDriverImageHandle s \<noteq> 0"

text \<open>
  A client of the allocator that respects its interface: it asks for a size whose block still fits
  an address, frees what it was given, once, and writes only inside the blocks it holds.
\<close>

definition fits :: "u64 \<Rightarrow> bool" where "fits len \<longleftrightarrow> unat len + min_block < 2 ^ 64"

inductive shm_step :: "'g ShmEnv \<Rightarrow> ('g \<Rightarrow> (u64 \<times> u64) set) \<Rightarrow> 'g ShmState \<Rightarrow> 'g ShmState \<Rightarrow> bool"
  for E live where
  alloc: "fits len \<Longrightarrow> OpteeClientAlignedMemAlloc E len al s = Ret (p, s') \<Longrightarrow> shm_step E live s s'"
| free: "r \<in> live (Gcd s) \<Longrightarrow> OpteeClientMemFree E (UserBase_of (fst r)) s = Ret (st, s') \<Longrightarrow>
    shm_step E live s s'"
| store: "r \<in> live (Gcd s) \<Longrightarrow> x \<in> blk (UserBase_of (fst r)) (user_size (snd r)) \<Longrightarrow>
    shm_step E live s (s\<lparr>Memory := (Memory s)(x := v)\<rparr>)"

text \<open>The library just initialised by the first driver that links it.\<close>

definition first_init :: "'g ShmEnv \<Rightarrow> ('g \<Rightarrow> (u64 \<times> u64) set) \<Rightarrow> 'g ShmState \<Rightarrow> 'g ShmState \<Rightarrow> bool" where
  "first_init E live s0 s \<longleftrightarrow>
     live (Gcd s0) = {} \<and> mSharedMemAllocationCount s0 = 0 \<and> mSharedMemAllocSize s0 = 0 \<and>
     gDriverImageHandle s0 \<noteq> 0 \<and>
     fst (fst (GetMemorySpaceDescriptor (gDS E) (OPTEE_SHM_START E) (Gcd s0))) = EFI_NOT_FOUND \<and>
     OpteeClientMemInit E s0 = Ret (EFI_SUCCESS, s)"

inductive shm_reachable :: "'g ShmEnv \<Rightarrow> ('g \<Rightarrow> (u64 \<times> u64) set) \<Rightarrow> 'g ShmState \<Rightarrow> bool"
  for E live where
  first: "first_init E live s0 s \<Longrightarrow> shm_reachable E live s"
| more: "shm_reachable E live s \<Longrightarrow> shm_step E live s s' \<Longrightarrow> shm_reachable E live s'"

lemma inside_window:
  assumes "window_ok E" and "inside E (b, l)"
  shows "blk b l \<subseteq> blk (OPTEE_SHM_START E) (OPTEE_SHM_SIZE E)" and "unat b + unat l < 2 ^ 64"
    and "unat (b + l) = unat b + unat l" and "OPTEE_SHM_START E \<le> b" and "b + l \<le> OPTEE_SHM_END E"
    and "unat (OPTEE_SHM_END E) = unat (OPTEE_SHM_START E) + unat (OPTEE_SHM_SIZE E)"
proof -
  have le: "unat (OPTEE_SHM_START E) \<le> unat b"
    and top: "unat b + unat l \<le> unat (OPTEE_SHM_START E) + unat (OPTEE_SHM_SIZE E)"
    using assms(2) by (simp_all add: inside_def)
  show start: "OPTEE_SHM_START E \<le> b"
    using le by (simp add: word_le_nat_alt)
  have d: "unat (b - OPTEE_SHM_START E) = unat b - unat (OPTEE_SHM_START E)"
    by (rule unat_sub) (rule start)
  have "blk (OPTEE_SHM_START E + (b - OPTEE_SHM_START E)) l \<subseteq> blk (OPTEE_SHM_START E) (OPTEE_SHM_SIZE E)"
    using le top d by (intro sub_block) simp
  then show "blk b l \<subseteq> blk (OPTEE_SHM_START E) (OPTEE_SHM_SIZE E)" by simp
  show lt: "unat b + unat l < 2 ^ 64"
    using top assms(1) by (simp add: window_ok_def)
  show bl: "unat (b + l) = unat b + unat l"
    using lt by (intro iffD1 [OF unat_add_lem]) simp
  show en: "unat (OPTEE_SHM_END E) = unat (OPTEE_SHM_START E) + unat (OPTEE_SHM_SIZE E)"
    unfolding OPTEE_SHM_END_def using assms(1) by (intro iffD1 [OF unat_add_lem]) (simp add: window_ok_def)
  show "b + l \<le> OPTEE_SHM_END E"
    using top by (simp add: word_le_nat_alt bl en)
qed

lemma BlockSize_fits:
  assumes "fits len"
  shows "unat (BlockSize_of len) = unat len + min_block" and "user_size (BlockSize_of len) = len"
    and "0 < BlockSize_of len"
proof -
  have eq: "BlockSize_of len = len + 4127"
    by (simp add: BlockSize_of_def shm_consts sizeof_HEADER_def)
  show n: "unat (BlockSize_of len) = unat len + min_block"
    unfolding eq min_block_def using assms
    by (subst iffD1 [OF unat_add_lem]) (simp_all add: fits_def min_block_def)
  show "user_size (BlockSize_of len) = len"
    by (simp add: user_size_def eq)
  show "0 < BlockSize_of len"
    using n by (simp add: word_less_nat_alt min_block_def)
qed

lemma live_block:
  assumes "window_ok E" and "shm_ok E live s" and "r \<in> live (Gcd s)"
  shows "inside E r" and "min_block \<le> unat (snd r)" and "unat (fst r) + unat (snd r) < 2 ^ 64"
    and "names_block (read_header (header_of (fst r)) (Memory s)) r"
    and "blk (header_of (fst r)) sizeof_HEADER \<subseteq> blk (fst r) (snd r)"
    and "blk (UserBase_of (fst r)) (user_size (snd r)) \<subseteq> blk (fst r) (snd r)"
    and "blk (header_of (fst r)) sizeof_HEADER \<inter> blk (UserBase_of (fst r)) (user_size (snd r)) = {}"
proof -
  show i: "inside E r" and m: "min_block \<le> unat (snd r)"
    and "names_block (read_header (header_of (fst r)) (Memory s)) r"
    using assms(2,3) by (auto simp: shm_ok_def)
  show w: "unat (fst r) + unat (snd r) < 2 ^ 64"
    using inside_window(2) [of E "fst r" "snd r"] assms(1) i by simp
  show "blk (header_of (fst r)) sizeof_HEADER \<subseteq> blk (fst r) (snd r)"
    and "blk (UserBase_of (fst r)) (user_size (snd r)) \<subseteq> blk (fst r) (snd r)"
    and "blk (header_of (fst r)) sizeof_HEADER \<inter> blk (UserBase_of (fst r)) (user_size (snd r)) = {}"
    using block_parts(1-3) [OF w m] by blast+
qed

text \<open>Headers of live blocks survive every write that stays inside another live block.\<close>

lemma header_survives:
  assumes "window_ok E" and "shm_ok E live s" and "q \<in> live (Gcd s)"
    and "\<And>x. x \<in> blk (fst q) (snd q) \<Longrightarrow> m x = Memory s x"
  shows "names_block (read_header (header_of (fst q)) m) q"
proof -
  have "read_header (header_of (fst q)) m = read_header (header_of (fst q)) (Memory s)"
    using live_block(5) [OF assms(1-3)] assms(4) by (intro read_header_cong) blast
  then show ?thesis
    using live_block(4) [OF assms(1-3)] by simp
qed

section \<open>The operations keep the invariant\<close>

lemma store_ok:
  assumes "window_ok E" and ok: "shm_ok E live s" and r: "r \<in> live (Gcd s)"
    and x: "x \<in> blk (UserBase_of (fst r)) (user_size (snd r))"
  shows "shm_ok E live (s\<lparr>Memory := (Memory s)(x := v)\<rparr>)"
proof -
  have xr: "x \<in> blk (fst r) (snd r)" and xh: "x \<notin> blk (header_of (fst r)) sizeof_HEADER"
    using live_block(6,7) [OF assms(1-3)] x by blast+
  have h: "names_block (read_header (header_of (fst q)) ((Memory s)(x := v))) q"
    if q: "q \<in> live (Gcd s)" for q
  proof (cases "q = r")
    case True
    have "read_header (header_of (fst q)) ((Memory s)(x := v)) = read_header (header_of (fst q)) (Memory s)"
      using xh True by (intro read_header_cong) auto
    then show ?thesis using live_block(4) [OF assms(1,2) q] by simp
  next
    case False
    then have "apart r q" using ok r q by (auto simp: shm_ok_def)
    with xr show ?thesis
      by (intro header_survives [OF assms(1,2) q]) (auto simp: apart_def)
  qed
  show ?thesis
    using ok h r xr by (auto simp: shm_ok_def)
qed

text \<open>The state once a block \<open>r\<close> has been handed out and claimed.\<close>

definition claimed :: "u64 \<times> u64 \<Rightarrow> 'g \<Rightarrow> 'g ShmState \<Rightarrow> 'g ShmState" where
  "claimed r g s = s\<lparr>
     Memory := write_header (header_of (fst r)) (snd r) (fst r) (Memory s),
     mSharedMemAllocationCount := mSharedMemAllocationCount s + 1,
     mSharedMemAllocSize := mSharedMemAllocSize s + snd r,
     Gcd := g\<rparr>"

lemma take_block_run:
  assumes "window_ok E" and "fits len" and i: "inside E (b, BlockSize_of len)"
    and fence: "\<And>x. x \<in> blk b (BlockSize_of len) \<Longrightarrow> Memory s x = OPTEE_SHM_FREE_FENCE"
  shows "take_block E len b s = Ret (UserBase_of b, claimed (b, BlockSize_of len) (Gcd s) s)"
proof -
  note w = inside_window [OF assms(1) i]
  note f = BlockSize_fits [OF assms(2)]
  note p = block_parts [OF w(2), unfolded f(1,2), OF le_add2]
  have gt: "OPTEE_SHM_START E < UserBase_of b"
    using w(4) p(4) by (rule order_le_less_trans)
  have "unat (UserBase_of b) + unat len < 2 ^ 64"
    using p(6) w(2) f(1) by simp
  then have "unat (UserBase_of b + len) = unat (UserBase_of b) + unat len"
    by (intro iffD1 [OF unat_add_lem]) simp
  then have "UserBase_of b + len \<le> b + BlockSize_of len"
    using p(6) by (simp add: word_le_nat_alt w(3) f(1))
  then have top: "UserBase_of b + len \<le> OPTEE_SHM_END E"
    using w(5) by (rule order_trans)
  show ?thesis
    using w(4,5) gt top p(5) fence
    by (simp add: take_block_def ASSERT_def IsFree_eq claim_block_def claimed_def ret_def bindM_def
        gets_def modify_def)
qed

definition valid_alignment :: "u64 \<Rightarrow> bool" where
  "valid_alignment al \<longleftrightarrow> al = 0 \<or> (\<exists>k. k \<le> 12 \<and> al = 2 ^ k)"

lemma valid_alignment_accepted:
  assumes "valid_alignment al"
  shows "\<not> (al \<noteq> 0 \<and> \<not> IsPowerOf2 al \<or> OPTEE_SHM_ALLOC_ALIGN < al)"
proof (cases "al = 0")
  case False
  then obtain k where k: "k \<le> 12" "al = 2 ^ k"
    using assms by (auto simp: valid_alignment_def)
  have "(2 :: nat) ^ k \<le> 2 ^ 12"
    using k(1) by (intro power_increasing) simp_all
  then have "unat al \<le> 4096"
    using k by (simp add: unat_pow2)
  then have "al \<le> OPTEE_SHM_ALLOC_ALIGN"
    by (simp add: shm_consts word_le_nat_alt)
  moreover have "IsPowerOf2 al"
    unfolding IsPowerOf2_iff using k by (intro exI [of _ k]) simp
  ultimately show ?thesis by (simp add: not_less)
qed (simp add: shm_consts)

lemma free_block_fenced:
  assumes "window_ok E" and "shm_ok E live s" and "inside E (b, l)"
    and "\<And>q. q \<in> live (Gcd s) \<Longrightarrow> apart (b, l) q" and "x \<in> blk b l"
  shows "Memory s x = OPTEE_SHM_FREE_FENCE"
proof -
  have "x \<in> blk (OPTEE_SHM_START E) (OPTEE_SHM_SIZE E)"
    using inside_window(1) [OF assms(1,3)] assms(5) by blast
  moreover have "x \<notin> blk (fst q) (snd q)" if "q \<in> live (Gcd s)" for q
    using assms(4) [OF that] assms(5) by (auto simp: apart_def)
  ultimately show ?thesis
    using assms(2) by (simp add: shm_ok_def)
qed

text \<open>The two ways an honest allocation ends.\<close>

lemma InternalMemAlloc_run:
  assumes E: "window_ok E" "gcd_contract E live" and ok: "shm_ok E live s"
    and "fits len" and "valid_alignment al"
  obtains (refused) g where "live g = live (Gcd s)"
      and "InternalMemAlloc E len al s = Ret (0, s\<lparr>Gcd := g\<rparr>)"
  | (granted) b g where "inside E (b, BlockSize_of len)"
      and "\<forall>q\<in>live (Gcd s). apart (b, BlockSize_of len) q"
      and "live g = insert (b, BlockSize_of len) (live (Gcd s))"
      and "InternalMemAlloc E len al s = Ret (UserBase_of b, claimed (b, BlockSize_of len) g s)"
proof -
  obtain st b g where c: "AllocateMemorySpace (gDS E) EfiGcdAllocateMaxAddressSearchTopDown
      EfiGcdMemoryTypeReserved OPTEE_SHM_ALLOC_ALIGN_SHIFT (BlockSize_of len) (OPTEE_SHM_END E) (Gcd s)
      = ((st, b), g)"
    by (metis surj_pair)
  have ho: "hands_out E live (BlockSize_of len) (Gcd s) ((st, b), g)"
    using E(2) BlockSize_fits(3) [OF assms(4)] c unfolding gcd_contract_def gcd_allocates_def by metis
  have h: "gDriverImageHandle s \<noteq> 0"
    using ok by (simp add: shm_ok_def)
  have run: "InternalMemAlloc E len al s =
      (if EFI_ERROR st then Ret (0, s\<lparr>Gcd := g\<rparr>) else take_block E len b (s\<lparr>Gcd := g\<rparr>))"
    using h valid_alignment_accepted [OF assms(5)]
    by (auto simp: InternalMemAlloc_def ASSERT_def c gcdM_def bindM_def gets_def ret_def)
  show thesis
  proof (cases "EFI_ERROR st")
    case True
    with ho run show ?thesis by (intro refused [of g]) (simp_all add: hands_out_def)
  next
    case False
    with ho have g: "inside E (b, BlockSize_of len)" "\<forall>q\<in>live (Gcd s). apart (b, BlockSize_of len) q"
        "live g = insert (b, BlockSize_of len) (live (Gcd s))"
      by (simp_all add: hands_out_def)
    have "take_block E len b (s\<lparr>Gcd := g\<rparr>) = Ret (UserBase_of b, claimed (b, BlockSize_of len) g s)"
      using free_block_fenced [OF E(1) ok g(1)] g(2)
      by (subst take_block_run [OF E(1) assms(4) g(1)]) (simp_all add: claimed_def)
    with False run g show ?thesis by (intro granted [of b g]) simp_all
  qed
qed

lemma claimed_ok:
  assumes E: "window_ok E" and ok: "shm_ok E live s" and r: "inside E r" "min_block \<le> unat (snd r)"
    and ap: "\<forall>q\<in>live (Gcd s). apart r q" and g: "live g = insert r (live (Gcd s))"
  shows "shm_ok E live (claimed r g s)"
proof -
  have w: "unat (fst r) + unat (snd r) < 2 ^ 64"
    using inside_window(2) [OF E, of "fst r" "snd r"] r by simp
  have hdr: "blk (header_of (fst r)) sizeof_HEADER \<subseteq> blk (fst r) (snd r)"
    by (rule block_parts(1) [OF w r(2)])
  have out: "Memory (claimed r g s) x = Memory s x" if "x \<notin> blk (fst r) (snd r)" for x
    using that hdr by (auto simp: claimed_def intro!: write_header_outside)
  have "fst r \<in> blk (fst r) (snd r)"
    using r(2) by (simp add: blk_iff min_block_def)
  then have "\<not> apart r r" by (auto simp: apart_def)
  then have new: "r \<notin> live (Gcd s)" using ap by blast
  have "names_block (read_header (header_of (fst r)) (Memory (claimed r g s))) r"
    using names_write_header [of "header_of (fst r)" "snd r" "fst r" "Memory s"] by (simp add: claimed_def)
  moreover have "names_block (read_header (header_of (fst q)) (Memory (claimed r g s))) q"
    if "q \<in> live (Gcd s)" for q
    using that ap out by (intro header_survives [OF E ok]) (auto simp: apart_def)
  moreover have "apart q r" if "q \<in> live (Gcd s)" for q
    using ap that by (auto simp: apart_def)
  moreover have "Gcd (claimed r g s) = g" "gDriverImageHandle (claimed r g s) = gDriverImageHandle s"
    by (simp_all add: claimed_def)
  moreover have "mSharedMemAllocationCount (claimed r g s) = of_nat (card (live g))"
    "mSharedMemAllocSize (claimed r g s) = (\<Sum>q\<in>live g. snd q)"
    using ok new by (simp_all add: claimed_def g shm_ok_def)
  ultimately show ?thesis
    using ok r ap out by (auto simp: shm_ok_def g)
qed

text \<open>The state once a live block has been freed.\<close>

definition released :: "u64 \<times> u64 \<Rightarrow> 'g \<Rightarrow> 'g ShmState \<Rightarrow> 'g ShmState" where
  "released r g s = s\<lparr>
     Memory := MarkSharedMemoryRegionAsFree (fst r) (snd r) (Memory s),
     mSharedMemAllocationCount := mSharedMemAllocationCount s - 1,
     mSharedMemAllocSize := mSharedMemAllocSize s - snd r,
     Gcd := g\<rparr>"

lemma Free_run_at:
  assumes "gcd_contract E live" and r: "r \<in> live (Gcd s)"
    and h: "names_block (read_header (header_of (fst r)) (Memory s)) r"
  obtains g where "live g = live (Gcd s) - {r}"
    and "OpteeClientMemFree E (UserBase_of (fst r)) s = Ret (EFI_SUCCESS, released r g s)"
proof -
  obtain st g where f: "FreeMemorySpace (gDS E) (fst r) (snd r) (Gcd s) = (st, g)"
    by (metis surj_pair)
  have st: "st = EFI_SUCCESS" "live g = live (Gcd s) - {r}"
    using assms(1) r f by (cases r; simp add: gcd_contract_def gcd_frees_def)+
  have "OpteeClientMemFree E (UserBase_of (fst r)) s = Ret (EFI_SUCCESS, released r g s)"
    using h f st(1)
    by (simp add: OpteeClientMemFree_def names_block_def bindM_def gets_def modifyMemory_def modify_def
        gcdM_def ret_def released_def)
  with st(2) show thesis by (rule that)
qed

lemma released_ok:
  assumes E: "window_ok E" and ok: "shm_ok E live s" and r: "r \<in> live (Gcd s)"
    and g: "live g = live (Gcd s) - {r}"
  shows "shm_ok E live (released r g s)"
proof -
  have m: "Memory (released r g s)
      = (\<lambda>x. if x \<in> blk (fst r) (snd r) then OPTEE_SHM_FREE_FENCE else Memory s x)"
    by (simp add: released_def Mark_eq)
  have fin: "finite (live (Gcd s))"
    using ok by (simp add: shm_ok_def)
  have "names_block (read_header (header_of (fst q)) (Memory (released r g s))) q"
    if q: "q \<in> live g" for q
  proof -
    have "apart r q"
      using ok r q by (auto simp: shm_ok_def g)
    then show ?thesis
      using q by (intro header_survives [OF E ok]) (auto simp: g m apart_def)
  qed
  moreover have "0 < card (live (Gcd s))"
    using fin r by (auto simp: card_gt_0_iff)
  then have "mSharedMemAllocationCount (released r g s) = of_nat (card (live g))"
    using ok fin r by (simp add: released_def g shm_ok_def card_Diff_singleton of_nat_diff Suc_leI)
  moreover have "mSharedMemAllocSize (released r g s) = (\<Sum>q\<in>live g. snd q)"
    using ok fin r by (simp add: released_def g shm_ok_def sum_diff1)
  moreover have "Gcd (released r g s) = g" "gDriverImageHandle (released r g s) = gDriverImageHandle s"
    by (simp_all add: released_def)
  ultimately show ?thesis
    using ok fin by (auto simp: shm_ok_def g m)
qed

lemma first_init_ok:
  assumes E: "window_ok E" "gcd_contract E live" and i: "first_init E live s0 s"
  shows "shm_ok E live s" and "live (Gcd s) = {}"
proof -
  let ?start = "OPTEE_SHM_START E" and ?size = "OPTEE_SHM_SIZE E"
  obtain st1 d1 g1 where q1: "GetMemorySpaceDescriptor (gDS E) ?start (Gcd s0) = ((st1, d1), g1)"
    by (metis surj_pair)
  obtain st2 g2 where q2: "AddMemorySpace (gDS E) OPTEE_SHM_TYPE ?start ?size OPTEE_SHM_CAPS g1 = (st2, g2)"
    by (metis surj_pair)
  obtain st3 b g3 where q3: "AllocateMemorySpace (gDS E) EfiGcdAllocateAddress EfiGcdMemoryTypeReserved 0
      ?size ?start g2 = ((st3, b), g3)"
    by (metis surj_pair)
  obtain st4 g4 where q4: "FreeMemorySpace (gDS E) ?start ?size g3 = (st4, g4)"
    by (metis surj_pair)
  obtain st5 d5 g5 where q5: "GetMemorySpaceDescriptor (gDS E) ?start g4 = ((st5, d5), g5)"
    by (metis surj_pair)
  have c: "gcd_reserves E live" "gcd_frees E live" "gcd_keeps E live"
    using E(2) by (simp_all add: gcd_contract_def)
  have s0: "live (Gcd s0) = {}" "mSharedMemAllocationCount s0 = 0" "mSharedMemAllocSize s0 = 0"
      "gDriverImageHandle s0 \<noteq> 0" "st1 = EFI_NOT_FOUND" "OpteeClientMemInit E s0 = Ret (EFI_SUCCESS, s)"
    using i q1 by (simp_all add: first_init_def)
  have l: "live g1 = {}" "live g2 = {}" "live g5 = live g4"
    using c(3) s0(1) q1 q2 q5 unfolding gcd_keeps_def by metis+
  have h3: "hands_out E live ?size g2 ((st3, b), g3)"
    using c(1) q3 unfolding gcd_reserves_def by metis
  have run: "\<not> EFI_ERROR st3 \<and> b = ?start \<and>
      s = s0\<lparr>Memory := MarkSharedMemoryRegionAsFree ?start ?size (Memory s0), Gcd := g5\<rparr>"
    using s0(5,6) q1 q2 q3 q4 q5
    by (auto simp: OpteeClientMemInit_def GcdSharedMemoryInit_def check_descriptor_def prog_defs
        split: if_splits outcome.splits prod.splits)
  then have "live g3 = {(?start, ?size)}"
    using h3 l by (auto simp: hands_out_def)
  then have "live g4 = {}"
    using c(2) q4 unfolding gcd_frees_def by (metis Diff_cancel insertI1)
  with l(3) have g5: "live g5 = {}" by simp
  show "shm_ok E live s" and "live (Gcd s) = {}"
    using run s0 g5 by (auto simp: shm_ok_def Mark_eq)
qed

lemma alloc_ok:
  assumes E: "window_ok E" "gcd_contract E live" and ok: "shm_ok E live s" and "fits len"
    and run: "OpteeClientAlignedMemAlloc E len al s = Ret (p, s')"
  shows "shm_ok E live s'"
proof -
  have "valid_alignment al"
  proof (rule ccontr)
    assume "\<not> valid_alignment al"
    have "al \<noteq> 0 \<and> \<not> IsPowerOf2 al \<or> OPTEE_SHM_ALLOC_ALIGN < al"
    proof (rule ccontr)
      assume "\<not> (al \<noteq> 0 \<and> \<not> IsPowerOf2 al \<or> OPTEE_SHM_ALLOC_ALIGN < al)"
      then have le: "unat al \<le> 4096" and al: "al = 0 \<or> IsPowerOf2 al"
        by (auto simp: not_less word_le_nat_alt shm_consts)
      with \<open>\<not> valid_alignment al\<close> obtain k where k: "k < 64" "al = 2 ^ k"
        by (auto simp: valid_alignment_def IsPowerOf2_iff)
      then have "(2 :: nat) ^ k \<le> 2 ^ 12"
        using le unat_pow2 [OF k(1)] by simp
      then have "k \<le> 12"
        by (rule power_le_imp_le_exp [rotated]) simp
      with k \<open>\<not> valid_alignment al\<close> show False by (auto simp: valid_alignment_def)
    qed
    with run ok show False
      by (auto simp: OpteeClientAlignedMemAlloc_def InternalMemAlloc_def prog_defs shm_ok_def split: if_splits)
  qed
  from InternalMemAlloc_run [OF E ok assms(4) this] show ?thesis
  proof cases
    case (1 g)
    with run have "s' = s\<lparr>Gcd := g\<rparr>" by (simp add: OpteeClientAlignedMemAlloc_def)
    with ok 1(1) show ?thesis by (simp add: shm_ok_def)
  next
    case (2 b g)
    have "shm_ok E live (claimed (b, BlockSize_of len) g s)"
      using 2(1-3) BlockSize_fits(1) [OF assms(4)] by (intro claimed_ok [OF E(1) ok]) simp_all
    with run 2(4) show ?thesis by (auto simp: OpteeClientAlignedMemAlloc_def)
  qed
qed

lemma shm_step_ok:
  assumes E: "window_ok E" "gcd_contract E live" and "shm_step E live s s'" and ok: "shm_ok E live s"
  shows "shm_ok E live s'"
  using assms(3)
proof (cases rule: shm_step.cases)
  case (alloc len al p)
  then show ?thesis by (intro alloc_ok [OF E ok])
next
  case (free r st)
  obtain g where "live g = live (Gcd s) - {r}"
      "OpteeClientMemFree E (UserBase_of (fst r)) s = Ret (EFI_SUCCESS, released r g s)"
    using Free_run_at [OF E(2) free(1)] live_block(4) [OF E(1) ok free(1)] by blast
  with free show ?thesis using released_ok [OF E(1) ok free(1)] by auto
next
  case (store r x v)
  then show ?thesis using store_ok [OF E(1) ok] by simp
qed

lemma reachable_shm_ok:
  assumes "shm_reachable E live s" and "window_ok E" and "gcd_contract E live"
  shows "shm_ok E live s"
  using assms(1) by induction (blast intro: first_init_ok assms shm_step_ok)+

section \<open>Properties\<close>

text \<open>
  Property C11. Under the services' contract the allocator keeps its invariant through every
  sequence of allocations, frees and in-bounds client writes that follows the initialisation: live
  blocks are disjoint, lie in the window and carry their header, every other byte of the window
  holds the fence, and the two counters are the number and the total size of the live blocks.
\<close>
theorem shm_reachable_ok:
  assumes "shm_reachable E live s" and "window_ok E" and "gcd_contract E live"
  shows "shm_ok E live s"
  using assms by (rule reachable_shm_ok)

text \<open>
  Property C37. The overflow check never fires on honest clients: in every reachable state an
  allocation of a size that fits, with an alignment that is zero or a power of two up to a page,
  returns. It hands out either \<open>NULL\<close>, and then only the services' state may have changed, or a
  page-aligned address whose bytes lie in the window and in none of the blocks already handed out.
\<close>
theorem honest_allocation_returns:
  assumes "shm_reachable E live s" and "window_ok E" and "gcd_contract E live"
    and "fits len" and "valid_alignment al"
  shows "\<exists>p s'. OpteeClientAlignedMemAlloc E len al s = Ret (p, s') \<and>
     (if p = 0 then \<exists>g. live g = live (Gcd s) \<and> s' = s\<lparr>Gcd := g\<rparr>
      else p mod OPTEE_SHM_ALLOC_ALIGN = 0 \<and> blk p len \<subseteq> blk (OPTEE_SHM_START E) (OPTEE_SHM_SIZE E) \<and>
        (\<forall>q\<in>live (Gcd s). blk p len \<inter> blk (fst q) (snd q) = {}))"
  using InternalMemAlloc_run [OF assms(2,3) reachable_shm_ok [OF assms(1-3)] assms(4,5)]
proof cases
  case (1 g)
  then show ?thesis by (auto simp: OpteeClientAlignedMemAlloc_def)
next
  case (2 b g)
  note w = inside_window [OF assms(2) 2(1)]
  note f = BlockSize_fits [OF assms(4)]
  note parts = block_parts [OF w(2), unfolded f(1,2), OF le_add2]
  have "UserBase_of b \<noteq> 0"
    using parts(4) by auto
  with 2 parts(2,5) w(1) show ?thesis
    by (auto simp: OpteeClientAlignedMemAlloc_def apart_def)
qed

text \<open>The bytes the clients may use.\<close>

definition user_area :: "(u64 \<times> u64) set \<Rightarrow> u64 set" where
  "user_area K = (\<Union>r\<in>K. blk (UserBase_of (fst r)) (user_size (snd r)))"

text \<open>
  A block taken, used and freed while the clients write in their own blocks: the pool is as before
  but for what the clients wrote.
\<close>

lemma alloc_use_free_at:
  assumes E: "window_ok E" "gcd_contract E live" and ok: "shm_ok E live s"
    and "fits len" and alloc: "OpteeClientMemAlloc E len s = Ret (p, s')" and "p \<noteq> 0"
  shows "blk p len \<inter> user_area (live (Gcd s)) = {}"
    and "x \<in> user_area (live (Gcd s)) \<Longrightarrow> Memory s' x = Memory s x"
    and "shm_ok E live s'" and "user_area (live (Gcd s')) = blk p len \<union> user_area (live (Gcd s))"
    and "(\<And>x. x \<notin> blk p len \<Longrightarrow> x \<notin> user_area (live (Gcd s)) \<Longrightarrow> m x = Memory s' x) \<Longrightarrow> live h = live (Gcd s') \<Longrightarrow>
      \<exists>g. live g = live (Gcd s) \<and> OpteeClientMemFree E p (s'\<lparr>Gcd := h, Memory := m\<rparr>) =
        Ret (EFI_SUCCESS, s\<lparr>Gcd := g, Memory := (\<lambda>x. if x \<in> user_area (live (Gcd s)) then m x else Memory s x)\<rparr>)"
proof -
  have "valid_alignment OPTEE_CLIENT_MEM_BYTE_ALIGNMENT"
    by (auto simp: valid_alignment_def shm_consts intro!: exI [of _ 4])
  from InternalMemAlloc_run [OF E ok assms(4) this] obtain b g
    where i: "inside E (b, BlockSize_of len)" and ap: "\<forall>q\<in>live (Gcd s). apart (b, BlockSize_of len) q"
      and g: "live g = insert (b, BlockSize_of len) (live (Gcd s))"
      and run: "p = UserBase_of b" "s' = claimed (b, BlockSize_of len) g s"
    using alloc assms(6) by cases (auto simp: OpteeClientMemAlloc_def)
  note f = BlockSize_fits [OF assms(4)]
  let ?r = "(b, BlockSize_of len)" and ?U = "user_area (live (Gcd s))"
  show ok': "shm_ok E live s'"
    unfolding run(2) using i f(1) ap g by (intro claimed_ok [OF E(1) ok]) simp_all
  have r: "?r \<in> live (Gcd s')"
    by (simp add: run(2) claimed_def g)
  note parts = live_block(5-7) [OF E(1) ok' r, simplified, unfolded f(2), folded run(1)]
  have U: "x \<notin> blk b (BlockSize_of len)" if "x \<in> ?U" for x
    using that ap live_block(6) [OF E(1) ok] by (fastforce simp: user_area_def apart_def)
  show "user_area (live (Gcd s')) = blk p len \<union> ?U"
    by (simp add: run claimed_def g user_area_def f(2))
  show "blk p len \<inter> ?U = {}"
    using U parts(2) by (auto simp: run(1))
  have keep: "Memory s' x = Memory s x" if "x \<notin> blk b (BlockSize_of len)" for x
    using that parts(1) by (auto simp: run claimed_def intro!: write_header_outside)
  then show "x \<in> ?U \<Longrightarrow> Memory s' x = Memory s x" by (simp add: U)
  assume m: "\<And>x. x \<notin> blk p len \<Longrightarrow> x \<notin> ?U \<Longrightarrow> m x = Memory s' x"
    and h0: "live h = live (Gcd s')"
  let ?t = "s'\<lparr>Gcd := h, Memory := m\<rparr>"
  have "read_header (header_of b) (Memory ?t) = read_header (header_of b) (Memory s')"
    using parts(1,3) m U by (intro read_header_cong) (auto simp: run(1))
  then have "names_block (read_header (header_of b) (Memory ?t)) ?r"
    using live_block(4) [OF E(1) ok' r] by simp
  then obtain k where k: "live k = live g - {?r}" "OpteeClientMemFree E p ?t = Ret (EFI_SUCCESS, released ?r k ?t)"
    using Free_run_at [OF E(2), of ?r ?t] r h0 by (auto simp: run claimed_def)
  have "b \<in> blk b (BlockSize_of len)"
    using f(1) by (simp add: blk_iff min_block_def)
  then have "?r \<notin> live (Gcd s)"
    using ap by (auto simp: apart_def)
  then have "live k = live (Gcd s)" using k(1) g by simp
  moreover have "Memory (released ?r k ?t) x = (if x \<in> ?U then m x else Memory s x)" for x
  proof (cases "x \<in> blk b (BlockSize_of len)")
    case True
    then show ?thesis
      using free_block_fenced [OF E(1) ok i, of x] ap U by (auto simp: released_def Mark_eq)
  next
    case False
    then have "x \<notin> blk p len"
      using parts(2) by (auto simp: run(1))
    with False m keep show ?thesis
      by (auto simp: released_def Mark_eq)
  qed
  then have "released ?r k ?t = s\<lparr>Gcd := k, Memory := (\<lambda>x. if x \<in> ?U then m x else Memory s x)\<rparr>"
    by (simp add: released_def run(2) claimed_def fun_eq_iff)
  ultimately show "\<exists>g. live g = live (Gcd s) \<and> OpteeClientMemFree E p ?t =
      Ret (EFI_SUCCESS, s\<lparr>Gcd := g, Memory := (\<lambda>x. if x \<in> ?U then m x else Memory s x)\<rparr>)"
    using k(2) by auto
qed

lemma alloc_use_free:
  assumes E: "window_ok E" "gcd_contract E live" and ok: "shm_ok E live s"
    and "fits len" and alloc: "OpteeClientMemAlloc E len s = Ret (p, s')" and "p \<noteq> 0"
  shows "blk p len \<inter> user_area (live (Gcd s)) = {}"
    and "x \<in> user_area (live (Gcd s)) \<Longrightarrow> Memory s' x = Memory s x"
    and "(\<And>x. x \<notin> blk p len \<Longrightarrow> x \<notin> user_area (live (Gcd s)) \<Longrightarrow> m x = Memory s' x) \<Longrightarrow>
      \<exists>g. live g = live (Gcd s) \<and> OpteeClientMemFree E p (s'\<lparr>Memory := m\<rparr>) =
        Ret (EFI_SUCCESS, s\<lparr>Gcd := g, Memory := (\<lambda>x. if x \<in> user_area (live (Gcd s)) then m x else Memory s x)\<rparr>)"
proof -
  note at = alloc_use_free_at [OF E ok assms(4) alloc assms(6)]
  show "blk p len \<inter> user_area (live (Gcd s)) = {}" and "x \<in> user_area (live (Gcd s)) \<Longrightarrow> Memory s' x = Memory s x"
    by (rule at(1), rule at(2))
  assume "\<And>x. x \<notin> blk p len \<Longrightarrow> x \<notin> user_area (live (Gcd s)) \<Longrightarrow> m x = Memory s' x"
  from at(5) [OF this refl] show "\<exists>g. live g = live (Gcd s) \<and> OpteeClientMemFree E p (s'\<lparr>Memory := m\<rparr>) =
      Ret (EFI_SUCCESS, s\<lparr>Gcd := g, Memory := (\<lambda>x. if x \<in> user_area (live (Gcd s)) then m x else Memory s x)\<rparr>)"
    by simp
qed

lemma alloc_fill_free:
  assumes "window_ok E" "gcd_contract E live" and "shm_ok E live s"
    and "fits len" and "OpteeClientMemAlloc E len s = Ret (p, s')" and "p \<noteq> 0"
    and m: "\<And>x. x \<notin> blk p len \<Longrightarrow> m x = Memory s' x"
  shows "\<exists>g. live g = live (Gcd s) \<and>
     OpteeClientMemFree E p (s'\<lparr>Memory := m\<rparr>) = Ret (EFI_SUCCESS, s\<lparr>Gcd := g\<rparr>)"
proof -
  note a = alloc_use_free [OF assms(1-6)]
  obtain g where g: "live g = live (Gcd s)" "OpteeClientMemFree E p (s'\<lparr>Memory := m\<rparr>) =
      Ret (EFI_SUCCESS, s\<lparr>Gcd := g, Memory := (\<lambda>x. if x \<in> user_area (live (Gcd s)) then m x else Memory s x)\<rparr>)"
    using a(3) [of m] m by blast
  have "m x = Memory s x" if "x \<in> user_area (live (Gcd s))" for x
    using that a(1,2) m by (metis IntI empty_iff)
  then have "(\<lambda>x. if x \<in> user_area (live (Gcd s)) then m x else Memory s x) = Memory s"
    by auto
  with g show ?thesis by (intro exI [of _ g]) simp
qed

text \<open>
  Property C29. Allocation and release round-trip: take a block, write anything into the bytes that
  were asked for, free it, and the whole state is as before - the memory byte for byte, both
  counters, and the set of blocks the services regard as handed out.
\<close>
theorem alloc_write_free:
  assumes "shm_reachable E live s" and "window_ok E" and "gcd_contract E live"
    and "fits len" and "OpteeClientMemAlloc E len s = Ret (p, s')" and "p \<noteq> 0" and "length bs \<le> unat len"
  shows "\<exists>g. live g = live (Gcd s) \<and>
     OpteeClientMemFree E p (s'\<lparr>Memory := poke p bs (Memory s')\<rparr>) = Ret (EFI_SUCCESS, s\<lparr>Gcd := g\<rparr>)"
  using assms(7)
  by (intro alloc_fill_free [OF assms(2,3) reachable_shm_ok [OF assms(1-3)] assms(4-6)])
    (simp add: blk_iff poke_outside)

lemma fence_is_no_signature:
  assumes "\<And>x. x \<in> blk a sizeof_HEADER \<Longrightarrow> m x = OPTEE_SHM_FREE_FENCE"
  shows "Signature (read_header a m) \<noteq> OPTEE_SHM_SIGNATURE"
proof -
  have "read_header a m = read_header a (\<lambda>_. OPTEE_SHM_FREE_FENCE)"
    by (rule read_header_cong) (rule assms)
  moreover have "peek 4 a (\<lambda>_. c) = [c, c, c, c]" for c
    by (simp add: peek_def upt_rec)
  ultimately show ?thesis
    by (simp add: read_header_def read_u32_def shm_consts)
qed

text \<open>
  A second free is caught: in a reachable state, freeing an address of the window whose
  header would lie in no live block - a block freed before, or a stray pointer - is refused with
  \<open>EFI_INVALID_PARAMETER\<close> and changes nothing, because the fence is not the signature.
\<close>
theorem double_free_refused:
  assumes "shm_reachable E live s" and "window_ok E" and "gcd_contract E live"
    and "blk (p - sizeof_HEADER) sizeof_HEADER \<subseteq> blk (OPTEE_SHM_START E) (OPTEE_SHM_SIZE E)"
    and "\<forall>q\<in>live (Gcd s). blk (p - sizeof_HEADER) sizeof_HEADER \<inter> blk (fst q) (snd q) = {}"
  shows "OpteeClientMemFree E p s = Ret (EFI_INVALID_PARAMETER, s)"
proof -
  have fence: "\<forall>x\<in>blk (OPTEE_SHM_START E) (OPTEE_SHM_SIZE E).
      (\<forall>r\<in>live (Gcd s). x \<notin> blk (fst r) (snd r)) \<longrightarrow> Memory s x = OPTEE_SHM_FREE_FENCE"
    using reachable_shm_ok [OF assms(1-3)] by (simp add: shm_ok_def)
  have "Memory s x = OPTEE_SHM_FREE_FENCE" if "x \<in> blk (p - sizeof_HEADER) sizeof_HEADER" for x
  proof -
    have "x \<in> blk (OPTEE_SHM_START E) (OPTEE_SHM_SIZE E)" "\<forall>r\<in>live (Gcd s). x \<notin> blk (fst r) (snd r)"
      using that assms(4,5) by auto
    with fence show ?thesis by simp
  qed
  then show ?thesis
    using fence_is_no_signature [of "p - sizeof_HEADER" "Memory s"]
    by (simp add: OpteeClientMemFree_def bindM_def gets_def ret_def)
qed

end
