(* ===== verification/OpteeMsgSpec.thy ===== *)
theory OpteeMsgSpec
  imports OpteeMsg OpteeMemSpec
begin

text \<open>
  The parameters of an operation and the message: what the two copy routines do to memory and to
  the operation, as functions on the memory, and that copying out what was copied in changes nothing.
\<close>

section \<open>Fields at offsets of a base\<close>

lemma blk_offsets_disjoint:
  assumes "unat d + unat k \<le> unat d'" and "unat d' + unat k' \<le> 2 ^ 64 - 1"
  shows "blk (p + d) k \<inter> blk (p + d') k' = {}"
proof -
  have "blk (p + d) k \<subseteq> blk p d'"
    using assms(1) by (rule sub_block)
  moreover have "blk p d' \<inter> blk (p + d') k' = {}"
    using assms(2) by (rule blk_disjoint_after)
  ultimately show ?thesis by blast
qed

lemma read_u64_eq: "(\<And>x. x \<in> blk a 8 \<Longrightarrow> m x = m' x) \<Longrightarrow> read_u64 a m = read_u64 a m'"
  unfolding read_u64_def by (subst peek_eq_on_blk [of a 8 m m']) simp_all

lemma read_u32_eq: "(\<And>x. x \<in> blk a 4 \<Longrightarrow> m x = m' x) \<Longrightarrow> read_u32 a m = read_u32 a m'"
  unfolding read_u32_def by (subst peek_eq_on_blk [of a 4 m m']) simp_all

lemma read_write_u64 [simp]: "read_u64 a (write_u64 a v m) = v"
  using peek_poke [of "le_bytes 8 v" 0 8 a m] by (simp add: read_u64_def write_u64_def of_nat_le_bytes)

lemma read_write_u32 [simp]: "read_u32 a (write_u32 a v m) = v"
  using peek_poke [of "le_bytes 4 v" 0 4 a m] by (simp add: read_u32_def write_u32_def of_nat_le_bytes32)

lemma write_u64_outside: "x \<notin> blk a 8 \<Longrightarrow> write_u64 a v m x = m x"
  by (simp add: write_u64_def poke_outside blk_iff)

lemma write_u32_outside: "x \<notin> blk a 4 \<Longrightarrow> write_u32 a v m x = m x"
  by (simp add: write_u32_def poke_outside blk_iff)

text \<open>Two fields of a structure, at offsets \<open>d\<close> and \<open>d'\<close> of its base.\<close>

definition apart_at :: "u64 \<Rightarrow> u64 \<Rightarrow> u64 \<Rightarrow> u64 \<Rightarrow> bool" where
  "apart_at d k d' k' \<longleftrightarrow>
     unat d + unat k \<le> unat d' \<and> unat d' + unat k' \<le> 2 ^ 64 - 1 \<or>
     unat d' + unat k' \<le> unat d \<and> unat d + unat k \<le> 2 ^ 64 - 1"

lemma apart_at_disjoint: "apart_at d k d' k' \<Longrightarrow> x \<in> blk (p + d) k \<Longrightarrow> x \<notin> blk (p + d') k'"
  unfolding apart_at_def using blk_offsets_disjoint [of d k d' k' p] blk_offsets_disjoint [of d' k' d k p]
  by blast

lemma read_u64_write_u64:
  "apart_at d 8 d' 8 \<Longrightarrow> read_u64 (p + d) (write_u64 (p + d') v m) = read_u64 (p + d) m"
  by (intro read_u64_eq write_u64_outside apart_at_disjoint)

lemma read_u64_write_u32:
  "apart_at d 8 d' 4 \<Longrightarrow> read_u64 (p + d) (write_u32 (p + d') v m) = read_u64 (p + d) m"
  by (intro read_u64_eq write_u32_outside apart_at_disjoint)

lemma read_u32_write_u64:
  "apart_at d 4 d' 8 \<Longrightarrow> read_u32 (p + d) (write_u64 (p + d') v m) = read_u32 (p + d) m"
  by (intro read_u32_eq write_u64_outside apart_at_disjoint)

lemma read_u32_write_u32:
  "apart_at d 4 d' 4 \<Longrightarrow> read_u32 (p + d) (write_u32 (p + d') v m) = read_u32 (p + d) m"
  by (intro read_u32_eq write_u32_outside apart_at_disjoint)

lemmas field_reads = read_u64_write_u64 read_u64_write_u32 read_u32_write_u64 read_u32_write_u32

section \<open>One parameter\<close>

text \<open>The words of a parameter that the routines use: its attribute, \<open>a\<close> and \<open>b\<close>.\<close>

definition param_words :: "memory \<Rightarrow> u64 \<Rightarrow> u64 \<times> u64 \<times> u64" where
  "param_words m q = (read_u64 (q + param_attr) m, read_u64 (q + param_a) m, read_u64 (q + param_b) m)"

definition supported :: "TEEC_Operation \<Rightarrow> nat \<Rightarrow> bool" where
  "supported op i \<longleftrightarrow> (let attr = TEEC_PARAM_TYPE_GET (paramTypes op) i
     in attr = TEEC_NONE \<or> is_value attr \<or> is_tmpref attr)"

text \<open>The words an operation puts into a parameter that held \<open>old\<close>.\<close>

definition encode_param :: "TEEC_Operation \<Rightarrow> nat \<Rightarrow> u64 \<times> u64 \<times> u64 \<Rightarrow> u64 \<times> u64 \<times> u64" where
  "encode_param op i old =
     (let attr = TEEC_PARAM_TYPE_GET (paramTypes op) i; p = params op ! i
      in if attr = TEEC_NONE then (ucast OPTEE_MSG_ATTR_TYPE_NONE, snd old)
         else if is_value attr then
           (ucast (OPTEE_MSG_ATTR_TYPE_VALUE_INPUT + (attr - TEEC_VALUE_INPUT)), ucast (value_a p), ucast (value_b p))
         else (ucast (OPTEE_MSG_ATTR_TYPE_TMEM_INPUT + (attr - TEEC_MEMREF_TEMP_INPUT)),
               tmpref_buffer p, tmpref_size p))"

text \<open>The operation after the words of a parameter have been read back.\<close>

definition decode_param :: "nat \<Rightarrow> u64 \<times> u64 \<times> u64 \<Rightarrow> TEEC_Operation \<Rightarrow> TEEC_Operation" where
  "decode_param i ws op =
     (let attr = TEEC_PARAM_TYPE_GET (paramTypes op) i
      in if attr = TEEC_NONE then op
         else if is_value attr then update_param i (set_value (ucast (fst (snd ws))) (ucast (snd (snd ws)))) op
         else update_param i (set_tmpref (fst (snd ws)) (snd (snd ws))) op)"

definition with_mem :: "memory \<Rightarrow> ('g, 't) World \<Rightarrow> ('g, 't) World" where
  "with_mem m w = w\<lparr>Shm := (Shm w)\<lparr>Memory := m\<rparr>\<rparr>"

lemma with_mem_simps [simp]:
  "Memory (Shm (with_mem m w)) = m" "with_mem m' (with_mem m w) = with_mem m' w"
  "with_mem (Memory (Shm w)) w = w" "Rest (with_mem m w) = Rest w"
  "Gcd (Shm (with_mem m w)) = Gcd (Shm w)"
  by (simp_all add: with_mem_def)

lemma writeM_run: "writeM f w = Ret ((), with_mem (f (Memory (Shm w))) w)"
  by (simp add: writeM_def on_shm_def modifyMemory_def modify_def with_mem_def)

lemma readM_run: "readM f w = Ret (f (Memory (Shm w)), w)"
  by (simp add: readM_def gets_def)

lemma SetMsgParam_run:
  assumes "supported op i"
  obtains m where "SetMsgParam op p i w = Ret ((), with_mem m w)"
    and "\<And>x. x \<notin> blk (param_at p i) 24 \<Longrightarrow> m x = Memory (Shm w) x"
    and "param_words m (param_at p i) = encode_param op i (param_words (Memory (Shm w)) (param_at p i))"
proof -
  define q where "q = param_at p i"
  define m0 where "m0 = Memory (Shm w)"
  have out: "write_u64 (q + param_b) b (write_u64 (q + param_a) a (write_u64 (q + param_attr) t m0)) x = m0 x"
    "write_u64 (q + param_attr) t m0 x = m0 x" if "x \<notin> blk q 24" for x a b t
  proof -
    have "blk (q + 0) 8 \<subseteq> blk q 24" "blk (q + 8) 8 \<subseteq> blk q 24" "blk (q + 16) 8 \<subseteq> blk q 24"
      by (rule sub_block, simp)+
    then have "x \<notin> blk (q + param_attr) 8" "x \<notin> blk (q + param_a) 8" "x \<notin> blk (q + param_b) 8"
      using that by (auto simp: param_offsets)
    then show "write_u64 (q + param_b) b (write_u64 (q + param_a) a (write_u64 (q + param_attr) t m0)) x = m0 x"
      and "write_u64 (q + param_attr) t m0 x = m0 x"
      by (simp_all add: write_u64_outside)
  qed
  have sep: "apart_at param_attr 8 param_a 8" "apart_at param_attr 8 param_b 8" "apart_at param_a 8 param_b 8"
    "apart_at param_a 8 param_attr 8" "apart_at param_b 8 param_attr 8"
    by (simp_all add: apart_at_def param_offsets)
  have words: "param_words (write_u64 (q + param_b) b (write_u64 (q + param_a) a (write_u64 (q + param_attr) t m0))) q
      = (t, a, b)" "param_words (write_u64 (q + param_attr) t m0) q = (t, snd (param_words m0 q))" for t a b
    by (simp_all add: param_words_def field_reads sep)
  show thesis
  proof (cases "TEEC_PARAM_TYPE_GET (paramTypes op) i = TEEC_NONE")
    case True
    then show ?thesis
      using out(2) words(2)
      by (intro that [of "write_u64 (q + param_attr) (ucast OPTEE_MSG_ATTR_TYPE_NONE) m0"])
        (simp_all add: SetMsgParam_def writeM_run encode_param_def flip: q_def m0_def)
  next
    case no: False
    show ?thesis
    proof (cases "is_value (TEEC_PARAM_TYPE_GET (paramTypes op) i)")
      case True
      then show ?thesis
        using no out(1) words(1)
        by (intro that [of "write_u64 (q + param_b) (ucast (value_b (params op ! i)))
            (write_u64 (q + param_a) (ucast (value_a (params op ! i))) (write_u64 (q + param_attr)
            (ucast (OPTEE_MSG_ATTR_TYPE_VALUE_INPUT + (TEEC_PARAM_TYPE_GET (paramTypes op) i - TEEC_VALUE_INPUT))) m0))"])
          (simp_all add: SetMsgParam_def writeM_run encode_param_def bindM_def Let_def flip: q_def m0_def)
    next
      case False
      with no assms have "is_tmpref (TEEC_PARAM_TYPE_GET (paramTypes op) i)"
        by (simp add: supported_def Let_def)
      then show ?thesis
        using no False out(1) words(1)
        by (intro that [of "write_u64 (q + param_b) (tmpref_size (params op ! i))
            (write_u64 (q + param_a) (tmpref_buffer (params op ! i)) (write_u64 (q + param_attr)
            (ucast (OPTEE_MSG_ATTR_TYPE_TMEM_INPUT + (TEEC_PARAM_TYPE_GET (paramTypes op) i - TEEC_MEMREF_TEMP_INPUT))) m0))"])
          (simp_all add: SetMsgParam_def writeM_run encode_param_def bindM_def Let_def flip: q_def m0_def)
    qed
  qed
qed

lemma SetMsgParam_unsupported: "\<not> supported op i \<Longrightarrow> SetMsgParam op p i w = Stop AssertFailed"
  by (auto simp: SetMsgParam_def supported_def Let_def stopM_def)

lemma GetMsgParam_run:
  "supported op i \<Longrightarrow>
   GetMsgParam p i op w = Ret (decode_param i (param_words (Memory (Shm w)) (param_at p i)) op, w)"
  by (auto simp: GetMsgParam_def supported_def decode_param_def param_words_def readM_run bindM_def
      ret_def Let_def)

section \<open>All parameters\<close>

lemma param_at_offset: "param_at p i = p + 32 * of_nat i"
  by (simp add: param_at_def param_offsets)

lemma unat_param_offset: "i < 4 \<Longrightarrow> unat (32 * of_nat i :: u64) = 32 * i"
  using unat_of_nat [of "32 * i", where 'a = 64] by simp

lemma params_disjoint:
  assumes "i < 4" and "j < 4" and "i \<noteq> j"
  shows "blk (param_at p i) 24 \<inter> blk (param_at p j) 24 = {}"
proof -
  have "blk (param_at p i) 24 \<inter> blk (param_at p j) 24 = {}" if "i < j" "j < 4" for i j
    unfolding param_at_offset using that by (intro blk_offsets_disjoint) (simp_all add: unat_param_offset)
  then show ?thesis
    using assms by (metis Int_commute nat_neq_iff)
qed

lemma param_in_array: "i < 4 \<Longrightarrow> blk (param_at p i) 24 \<subseteq> blk p 128"
  unfolding param_at_offset by (rule sub_block) (simp add: unat_param_offset)

lemma param_words_eq:
  assumes "\<And>x. x \<in> blk q 24 \<Longrightarrow> m x = m' x"
  shows "param_words m q = param_words m' q"
proof -
  have "blk (q + 0) 8 \<subseteq> blk q 24" "blk (q + 8) 8 \<subseteq> blk q 24" "blk (q + 16) 8 \<subseteq> blk q 24"
    by (rule sub_block, simp)+
  then show ?thesis
    using assms by (auto simp: param_words_def param_offsets intro!: read_u64_eq)
qed

lemma set_loop_run:
  assumes "distinct is" and "\<And>i. i \<in> set is \<Longrightarrow> i < 4 \<and> supported op i"
  shows "\<exists>m. for_each is (SetMsgParam op p) w = Ret ((), with_mem m w) \<and>
    (\<forall>x. (\<forall>i\<in>set is. x \<notin> blk (param_at p i) 24) \<longrightarrow> m x = Memory (Shm w) x) \<and>
    (\<forall>i\<in>set is. param_words m (param_at p i)
       = encode_param op i (param_words (Memory (Shm w)) (param_at p i)))"
  using assms
proof (induction "is" arbitrary: w)
  case Nil
  show ?case by (rule exI [of _ "Memory (Shm w)"]) (simp add: ret_def)
next
  case (Cons i "is")
  obtain m where m: "SetMsgParam op p i w = Ret ((), with_mem m w)"
      "\<And>x. x \<notin> blk (param_at p i) 24 \<Longrightarrow> m x = Memory (Shm w) x"
      "param_words m (param_at p i) = encode_param op i (param_words (Memory (Shm w)) (param_at p i))"
    using SetMsgParam_run [of op i p w] Cons.prems(2) by (metis list.set_intros(1))
  obtain m' where m': "for_each is (SetMsgParam op p) (with_mem m w) = Ret ((), with_mem m' (with_mem m w))"
      "\<forall>x. (\<forall>j\<in>set is. x \<notin> blk (param_at p j) 24) \<longrightarrow> m' x = Memory (Shm (with_mem m w)) x"
      "\<forall>j\<in>set is. param_words m' (param_at p j)
         = encode_param op j (param_words (Memory (Shm (with_mem m w))) (param_at p j))"
    using Cons.IH [of "with_mem m w"] Cons.prems by auto
  have other: "blk (param_at p i) 24 \<inter> blk (param_at p j) 24 = {}" if "j \<in> set is" for j
    using that Cons.prems by (intro params_disjoint) auto
  have own: "param_words m' (param_at p i) = param_words m (param_at p i)"
    using other m'(2) by (intro param_words_eq) fastforce
  have old: "param_words m (param_at p j) = param_words (Memory (Shm w)) (param_at p j)" if "j \<in> set is" for j
    using other [OF that] by (intro param_words_eq m(2)) blast
  have "for_each (i # is) (SetMsgParam op p) w = Ret ((), with_mem m' w)"
    using m(1) m'(1) by (simp add: bindM_def)
  moreover have "m' x = Memory (Shm w) x" if "\<forall>j\<in>set (i # is). x \<notin> blk (param_at p j) 24" for x
    using that m(2) m'(2) by simp
  moreover have "param_words m' (param_at p j) = encode_param op j (param_words (Memory (Shm w)) (param_at p j))"
    if "j \<in> set (i # is)" for j
    using that own old m(3) m'(3) by auto
  ultimately show ?case by blast
qed

definition all_supported :: "TEEC_Operation \<Rightarrow> bool" where
  "all_supported op \<longleftrightarrow> (\<forall>i<TEEC_CONFIG_PAYLOAD_REF_COUNT. supported op i)"

lemma SetMsgParams_run:
  assumes "all_supported op"
  obtains m where "SetMsgParams op p w = Ret ((), with_mem m w)"
    and "\<And>x. x \<notin> blk p 128 \<Longrightarrow> m x = Memory (Shm w) x"
    and "\<And>i. i < 4 \<Longrightarrow>
      param_words m (param_at p i) = encode_param op i (param_words (Memory (Shm w)) (param_at p i))"
proof -
  have sup: "\<And>i. i \<in> set [0..<4] \<Longrightarrow> i < 4 \<and> supported op i"
    using assms by (simp add: all_supported_def TEEC_CONFIG_PAYLOAD_REF_COUNT_def)
  obtain m where m: "for_each [0..<4] (SetMsgParam op p) w = Ret ((), with_mem m w)"
    "\<forall>x. (\<forall>i\<in>set [0..<4]. x \<notin> blk (param_at p i) 24) \<longrightarrow> m x = Memory (Shm w) x"
    "\<forall>i\<in>set [0..<4].
      param_words m (param_at p i) = encode_param op i (param_words (Memory (Shm w)) (param_at p i))"
    using set_loop_run [OF distinct_upt sup] by blast
  show thesis
  proof (rule that [of m])
    show "SetMsgParams op p w = Ret ((), with_mem m w)"
      using m(1) by (simp add: SetMsgParams_def TEEC_CONFIG_PAYLOAD_REF_COUNT_def)
    show "m x = Memory (Shm w) x" if "x \<notin> blk p 128" for x
    proof -
      have "\<forall>i\<in>set [0..<4]. x \<notin> blk (param_at p i) 24"
        using that subsetD [OF param_in_array [of _ p]] by auto
      with m(2) show ?thesis by blast
    qed
  qed (simp add: m(3))
qed

lemma get_loop_run:
  assumes "\<And>i. i \<in> set is \<Longrightarrow> supported op i"
  shows "get_loop is p op w =
    Ret (fold (\<lambda>i. decode_param i (param_words (Memory (Shm w)) (param_at p i))) is op, w)"
  using assms
proof (induction "is" arbitrary: op)
  case (Cons i "is")
  have "paramTypes (decode_param i ws op) = paramTypes op" for ws
    by (simp add: decode_param_def update_param_def Let_def)
  then have "supported (decode_param i ws op) j = supported op j" for ws j
    by (simp add: supported_def)
  with Cons show ?case
    by (simp add: GetMsgParam_run bindM_def)
qed (simp add: ret_def)

definition decode_params :: "(nat \<Rightarrow> u64 \<times> u64 \<times> u64) \<Rightarrow> TEEC_Operation \<Rightarrow> TEEC_Operation" where
  "decode_params ws = fold (\<lambda>i. decode_param i (ws i)) [0..<TEEC_CONFIG_PAYLOAD_REF_COUNT]"

lemma GetMsgParams_run:
  "all_supported op \<Longrightarrow>
   GetMsgParams p op w = Ret (decode_params (\<lambda>i. param_words (Memory (Shm w)) (param_at p i)) op, w)"
  unfolding GetMsgParams_def decode_params_def by (rule get_loop_run) (simp add: all_supported_def)

lemma ucast_down_up [simp]: "ucast (ucast (x :: u32) :: u64) = x"
  by (rule bit_word_eqI) (auto simp: bit_simps)

lemma decode_encode:
  assumes "i < length (params op)"
  shows "decode_param i (encode_param op i old) op = op"
proof -
  have val: "set_value (ucast (ucast (value_a p) :: u64)) (ucast (ucast (value_b p) :: u64)) p = p" for p
  proof -
    have "push_bit 32 (ucast (ucast (drop_bit 32 w) :: u32)) OR ucast (ucast w :: u32) = (w :: u64)" for w
      by (rule bit_word_eqI) (auto simp: bit_simps)
    then show ?thesis
      by (cases p) (simp add: set_value_def value_a_def value_b_def ucast_down_up)
  qed
  have "op\<lparr>params := (params op)[i := params op ! i]\<rparr> = op"
    by simp
  with val show ?thesis
    by (simp add: decode_param_def encode_param_def update_param_def Let_def set_tmpref_def
        tmpref_buffer_def tmpref_size_def)
qed

section \<open>The round trip\<close>

text \<open>
  Property C30. Copying the parameters of an operation into a message returns exactly when each of
  the four has a supported type; it writes only inside the four parameters, and reading them back
  from the message as it then is gives the operation unchanged.
\<close>
theorem msg_params_roundtrip:
  assumes "length (params op) = TEEC_CONFIG_PAYLOAD_REF_COUNT"
  shows "if all_supported op then
      \<exists>w'. SetMsgParams op p w = Ret ((), w') \<and> GetMsgParams p op w' = Ret (op, w') \<and>
        (\<forall>x. x \<notin> blk p (sizeof_msg_param * 4) \<longrightarrow> Memory (Shm w') x = Memory (Shm w) x)
    else SetMsgParams op p w = Stop AssertFailed"
proof (cases "all_supported op")
  case True
  obtain m where m: "SetMsgParams op p w = Ret ((), with_mem m w)"
    "\<And>x. x \<notin> blk p 128 \<Longrightarrow> m x = Memory (Shm w) x"
    "\<And>i. i < 4 \<Longrightarrow>
      param_words m (param_at p i) = encode_param op i (param_words (Memory (Shm w)) (param_at p i))"
    using SetMsgParams_run [OF True] by metis
  have "fold (\<lambda>i. decode_param i (param_words m (param_at p i))) [0..<n] op = op" if "n \<le> 4" for n
    using that assms by (induction n) (simp_all add: m(3) decode_encode TEEC_CONFIG_PAYLOAD_REF_COUNT_def)
  then have "decode_params (\<lambda>i. param_words m (param_at p i)) op = op"
    by (simp add: decode_params_def TEEC_CONFIG_PAYLOAD_REF_COUNT_def)
  with True m(1,2) show ?thesis
    by (simp add: GetMsgParams_run param_offsets)
next
  case False
  have "for_each is (SetMsgParam op p) w = Stop AssertFailed"
    if "j \<in> set is" and "\<not> supported op j" for j "is"
    using that
  proof (induction "is" arbitrary: w)
    case (Cons i "is")
    show ?case
    proof (cases "supported op i")
      case True
      obtain m where "SetMsgParam op p i w = Ret ((), with_mem m w)"
        using SetMsgParam_run [OF True] by metis
      with Cons True show ?thesis by (auto simp: bindM_def)
    qed (simp add: SetMsgParam_unsupported bindM_def)
  qed simp
  then have "SetMsgParams op p w = Stop AssertFailed"
    unfolding SetMsgParams_def using False by (auto simp: all_supported_def)
  with False show ?thesis by simp
qed

end
