(* ===== verification/OpteeSpec.thy ===== *)
theory OpteeSpec
  imports OpteeApi OpteeMsgSpec
begin

text \<open>
  What a call through the client library amounts to: under the documented message protocol, with a
  secure world that answers at once, invoking a command is one call of the trusted application on
  the parameters of the operation, with the shared pool left as it was; opening a session is the
  same but for the parameters it hands back. The loop ends when the secure world asks only finitely
  often, and every request it makes is answered in the form the protocol prescribes.
\<close>

section \<open>Messages as values\<close>

type_synonym words = "u64 \<times> u64 \<times> u64"

definition msg_words :: "memory \<Rightarrow> u64 \<Rightarrow> nat \<Rightarrow> words" where
  "msg_words m p i = param_words m (param_at (p + msg_params) i)"

text \<open>Command, function, session and the parameters of the message at \<open>p\<close>.\<close>

definition msg_view :: "nat \<Rightarrow> u64 \<Rightarrow> memory \<Rightarrow> u32 \<times> u32 \<times> u32 \<times> words list" where
  "msg_view n p m = (read_u32 (p + msg_cmd) m, read_u32 (p + msg_func) m, read_u32 (p + msg_session) m,
     map (msg_words m p) [0..<n])"

text \<open>Result, origin, session and the parameters of the answer at \<open>p\<close>.\<close>

definition msg_answer :: "nat \<Rightarrow> u64 \<Rightarrow> memory \<Rightarrow> u32 \<times> u32 \<times> u32 \<times> words list" where
  "msg_answer n p m = (read_u32 (p + msg_ret) m, read_u32 (p + msg_ret_origin) m,
     read_u32 (p + msg_session) m, map (msg_words m p) [0..<n])"

text \<open>
  A secure world that serves \<open>tee\<close>: a call with the address of a message completes, with the answer
  written into the message and nothing else in memory touched.
\<close>

type_synonym 't service =
  "u32 \<times> u32 \<times> u32 \<times> words list \<Rightarrow> 't \<Rightarrow> (u32 \<times> u32 \<times> u32 \<times> words list) \<times> 't"

definition serves :: "('g, 't) TeeEnv \<Rightarrow> 't service \<Rightarrow> bool" where
  "serves E tee \<longleftrightarrow> (\<forall>p m t n. n \<le> 6 \<longrightarrow> read_u32 (p + msg_num_params) m = of_nat n \<longrightarrow>
     (\<exists>args m'. ArmCallSmc E (call_args p) m t = (args, m', snd (tee (msg_view n p m) t)) \<and>
        Arg0 args = OPTEE_SMC_RETURN_OK \<and> msg_answer n p m' = fst (tee (msg_view n p m) t) \<and>
        (\<forall>x. x \<notin> blk p (OPTEE_MSG_GET_ARG_SIZE n) \<longrightarrow> m' x = m x)))"

section \<open>Reading a zeroed message\<close>

lemma le_nat_zeros: "le_nat (replicate n 0) = 0"
  by (induction n) simp_all

lemma peek_zeros:
  assumes "\<And>x. x \<in> blk a l \<Longrightarrow> m x = 0" and "n \<le> unat l"
  shows "peek n a m = replicate n 0"
proof -
  have "peek n a m = peek n a (\<lambda>_. 0)"
    using assms by (intro peek_eq_on_blk [of a l]) auto
  then show ?thesis
    by (simp add: peek_def map_replicate_const)
qed

lemma read_u32_zero: "(\<And>x. x \<in> blk a 4 \<Longrightarrow> m x = 0) \<Longrightarrow> read_u32 a m = 0"
  unfolding read_u32_def by (subst peek_zeros [of a 4]) (simp_all add: le_nat_zeros)

lemma read_u64_zero: "(\<And>x. x \<in> blk a 8 \<Longrightarrow> m x = 0) \<Longrightarrow> read_u64 a m = 0"
  unfolding read_u64_def by (subst peek_zeros [of a 8]) (simp_all add: le_nat_zeros)

lemma ARG_SIZE_unat: "n \<le> 6 \<Longrightarrow> unat (OPTEE_MSG_GET_ARG_SIZE n) = 32 + 32 * n"
  using unat_of_nat [of "32 + 32 * n", where 'a = 64]
  by (simp add: OPTEE_MSG_GET_ARG_SIZE_def msg_offsets param_offsets)

lemma header_in_message: "n \<le> 6 \<Longrightarrow> unat d + 4 \<le> 32 \<Longrightarrow> blk (p + d) 4 \<subseteq> blk p (OPTEE_MSG_GET_ARG_SIZE n)"
  by (rule sub_block) (simp add: ARG_SIZE_unat)

lemma param_in_message:
  assumes "n \<le> 6" and "i < n"
  shows "blk (param_at (p + msg_params) i) 32 \<subseteq> blk p (OPTEE_MSG_GET_ARG_SIZE n)"
proof -
  have "param_at (p + msg_params) i = p + of_nat (32 + 32 * i)"
    by (simp add: param_at_offset msg_offsets)
  moreover have "unat (of_nat (32 + 32 * i) :: u64) = 32 + 32 * i"
    using assms unat_of_nat [of "32 + 32 * i", where 'a = 64] by simp
  ultimately show ?thesis
    using assms by (simp only:) (rule sub_block, simp add: ARG_SIZE_unat)
qed

lemma msg_fits: "n \<le> 6 \<Longrightarrow> fits (OPTEE_MSG_GET_ARG_SIZE n)"
  by (simp add: fits_def min_block_def ARG_SIZE_unat)

section \<open>One call\<close>

lemma address_halves:
  "address64 (Arg1 (call_args p)) (Arg2 (call_args p)) = p"
proof -
  have m: "(0xFFFFFFFF :: u64) = mask 32"
    by (simp add: mask_eq_exp_minus_1)
  have "push_bit 32 (ucast (ucast (drop_bit 32 p) :: u32)) OR ucast (ucast (p AND 0xFFFFFFFF) :: u32) = (p :: u64)"
    unfolding m by (rule bit_word_eqI) (auto simp: bit_simps)
  then show ?thesis
    by (simp add: call_args_def address64_def)
qed

lemma OpteeSmcCall_served:
  assumes "serves E tee" and "n \<le> 6" and "read_u32 (p + msg_num_params) (Memory (Shm w)) = of_nat n"
  obtains m where
    "OpteeSmcCall E (Suc fuel) p w = Ret (TEEC_SUCCESS,
       (with_mem m w)\<lparr>Rest := snd (tee (msg_view n p (Memory (Shm w))) (Rest w))\<rparr>)"
    and "msg_answer n p m = fst (tee (msg_view n p (Memory (Shm w))) (Rest w))"
    and "\<And>x. x \<notin> blk p (OPTEE_MSG_GET_ARG_SIZE n) \<Longrightarrow> m x = Memory (Shm w) x"
proof -
  obtain args m where c: "ArmCallSmc E (call_args p) (Memory (Shm w)) (Rest w)
      = (args, m, snd (tee (msg_view n p (Memory (Shm w))) (Rest w)))"
    and r: "Arg0 args = OPTEE_SMC_RETURN_OK"
    and a: "msg_answer n p m = fst (tee (msg_view n p (Memory (Shm w))) (Rest w))"
    and o: "\<forall>x. x \<notin> blk p (OPTEE_MSG_GET_ARG_SIZE n) \<longrightarrow> m x = Memory (Shm w) x"
    using assms unfolding serves_def by metis
  have "\<not> OPTEE_SMC_RETURN_IS_RPC (Arg0 args)" "Arg0 args \<noteq> OPTEE_SMC_RETURN_UNKNOWN_FUNCTION"
    by (simp_all add: r smc_consts OPTEE_SMC_RETURN_IS_RPC_def)
  then have "OpteeSmcCall E (Suc fuel) p w = Ret (TEEC_SUCCESS,
       (with_mem m w)\<lparr>Rest := snd (tee (msg_view n p (Memory (Shm w))) (Rest w))\<rparr>)"
    using r by (simp add: OpteeSmcCall_def smcM_def serviceM_def c bindM_def ret_def with_mem_def)
  then show thesis
    using a o by (intro that [of m]) auto
qed

text \<open>
  The frame of an operation: whatever the filling routine writes inside the zeroed message reaches
  the secure world, its answer is read, and the pool is as before but for what the secure world wrote
  into the clients' blocks.
\<close>

lemma with_message_run:
  assumes E: "window_ok (ShmE E)" "gcd_contract (ShmE E) live" and ok: "shm_ok (ShmE E) live (Shm w)"
    and n: "n \<le> 6"
    and fill: "\<And>p v. (\<And>x. x \<in> blk p (OPTEE_MSG_GET_ARG_SIZE n) \<Longrightarrow> Memory (Shm v) x = 0) \<Longrightarrow>
      \<exists>m. fill p v = Ret ((), with_mem m v) \<and> msg_view n p m = V \<and>
        read_u32 (p + msg_num_params) m = of_nat n \<and>
        (\<forall>x. x \<notin> blk p (OPTEE_MSG_GET_ARG_SIZE n) \<longrightarrow> m x = Memory (Shm v) x)"
    and call: "\<And>p v. blk p (OPTEE_MSG_GET_ARG_SIZE n) \<inter> user_area (live (Gcd (Shm w))) = {} \<Longrightarrow>
      msg_view n p (Memory (Shm v)) = V \<Longrightarrow> read_u32 (p + msg_num_params) (Memory (Shm v)) = of_nat n \<Longrightarrow>
      (\<And>x. x \<in> user_area (live (Gcd (Shm w))) \<Longrightarrow> Memory (Shm v) x = Memory (Shm w) x) \<Longrightarrow> Rest v = Rest w \<Longrightarrow>
      \<exists>m a. OpteeSmcCall E fuel p v = Ret (TEEC_SUCCESS, (with_mem m v)\<lparr>Rest := t\<rparr>) \<and>
        msg_answer n p m = a \<and> Q a \<and> (\<forall>x. x \<notin> blk p (OPTEE_MSG_GET_ARG_SIZE n) \<longrightarrow>
          m x = (if x \<in> user_area (live (Gcd (Shm w))) then u x else Memory (Shm v) x))"
    and answer: "\<And>p v. answer p v = Ret (A (msg_answer n p (Memory (Shm v))), v)"
  shows "\<exists>p s g. OpteeClientMemAlloc (ShmE E) (OPTEE_MSG_GET_ARG_SIZE n) (Shm w) = Ret (p, s) \<and>
    live g = live (Gcd (Shm w)) \<and>
    (if p = 0 then with_message E fuel n Session Operation fill answer w =
       Ret (\<lparr>Result = TEEC_ERROR_OUT_OF_MEMORY, ErrorOrigin = TEEC_ORIGIN_API,
           OutSession = Session, OutOperation = Operation\<rparr>, w\<lparr>Shm := (Shm w)\<lparr>Gcd := g\<rparr>\<rparr>)
     else \<exists>a. Q a \<and> with_message E fuel n Session Operation fill answer w =
       Ret (A a, w\<lparr>Shm := (Shm w)\<lparr>Gcd := g, Memory := (\<lambda>x. if x \<in> user_area (live (Gcd (Shm w))) then u x
           else Memory (Shm w) x)\<rparr>, Rest := t\<rparr>))"
proof -
  let ?n = "OPTEE_MSG_GET_ARG_SIZE n" and ?U = "user_area (live (Gcd (Shm w)))"
  have al: "valid_alignment OPTEE_CLIENT_MEM_BYTE_ALIGNMENT"
    by (auto simp: valid_alignment_def shm_consts intro!: exI [of _ 4])
  obtain p s where a: "OpteeClientMemAlloc (ShmE E) ?n (Shm w) = Ret (p, s)"
    using InternalMemAlloc_run [OF E ok msg_fits [OF n] al]
    unfolding OpteeClientMemAlloc_def by metis
  show ?thesis
  proof (cases "p = 0")
    case True
    obtain g where "live g = live (Gcd (Shm w))" "s = (Shm w)\<lparr>Gcd := g\<rparr>"
      using InternalMemAlloc_run [OF E ok msg_fits [OF n] al]
    proof cases
      case (1 g)
      with a True show ?thesis
        by (intro that [of g]) (simp_all add: OpteeClientMemAlloc_def)
    next
      case (2 b g)
      have "UserBase_of b \<noteq> 0"
        using block_parts(4) [of b "BlockSize_of ?n"] inside_window(2) [OF E(1) 2(1)]
          BlockSize_fits(1) [OF msg_fits [OF n]] by auto
      with 2 a True show ?thesis by (simp add: OpteeClientMemAlloc_def)
    qed
    with True a show ?thesis
      by (intro exI [of _ p] exI [of _ s] exI [of _ g])
        (simp add: with_message_def on_shm_def bindM_def ret_def)
  next
    case False
    note use = alloc_use_free [OF E ok msg_fits [OF n] a False]
    let ?zero = "poke p (replicate (unat ?n) 0) (Memory s)"
    let ?w0 = "with_mem ?zero (w\<lparr>Shm := s\<rparr>)"
    have zero: "Memory (Shm ?w0) x = 0" if "x \<in> blk p ?n" for x
      using that by (simp add: poke_def blk_iff)
    obtain m1 where m1: "fill p ?w0 = Ret ((), with_mem m1 ?w0)" "msg_view n p m1 = V"
      "read_u32 (p + msg_num_params) m1 = of_nat n"
      "\<forall>x. x \<notin> blk p ?n \<longrightarrow> m1 x = Memory (Shm ?w0) x"
      using fill [OF zero] by blast
    let ?w1 = "with_mem m1 ?w0"
    have m1s: "m1 x = Memory s x" if "x \<notin> blk p ?n" for x
      using that m1(4) by (simp add: poke_outside blk_iff)
    have m1U: "Memory (Shm ?w1) x = Memory (Shm w) x" if "x \<in> ?U" for x
    proof -
      have "x \<notin> blk p ?n" using that use(1) by auto
      then show ?thesis using use(2) [OF that] by (simp add: m1s)
    qed
    have view: "msg_view n p (Memory (Shm ?w1)) = V"
      "read_u32 (p + msg_num_params) (Memory (Shm ?w1)) = of_nat n" "Rest ?w1 = Rest w"
      using m1(2,3) by simp_all
    obtain m2 b where m2: "OpteeSmcCall E fuel p ?w1 = Ret (TEEC_SUCCESS, (with_mem m2 ?w1)\<lparr>Rest := t\<rparr>)"
      "msg_answer n p m2 = b" "Q b"
      "\<forall>x. x \<notin> blk p ?n \<longrightarrow> m2 x = (if x \<in> ?U then u x else Memory (Shm ?w1) x)"
      using call [OF use(1) view(1,2) m1U view(3)] by blast
    have out: "m2 x = Memory s x" if "x \<notin> blk p ?n" "x \<notin> ?U" for x
      using that m2(4) m1s by simp
    have "m2 x = u x" if "x \<in> ?U" for x
      using that m2(4) use(1) by (auto simp: disjoint_iff)
    then have eqU: "(\<lambda>x. if x \<in> ?U then m2 x else Memory (Shm w) x) = (\<lambda>x. if x \<in> ?U then u x else Memory (Shm w) x)"
      by auto
    obtain g where g: "live g = live (Gcd (Shm w))"
      "OpteeClientMemFree (ShmE E) p (s\<lparr>Memory := m2\<rparr>) = Ret (EFI_SUCCESS, (Shm w)\<lparr>Gcd := g,
         Memory := (\<lambda>x. if x \<in> ?U then u x else Memory (Shm w) x)\<rparr>)"
      using use(3) [OF out] unfolding eqU by blast
    have fr: "on_shm (OpteeClientMemFree (ShmE E) p) ((with_mem m2 ?w1)\<lparr>Rest := t\<rparr>)
        = Ret (EFI_SUCCESS, w\<lparr>Shm := (Shm w)\<lparr>Gcd := g,
            Memory := (\<lambda>x. if x \<in> ?U then u x else Memory (Shm w) x)\<rparr>, Rest := t\<rparr>)"
      using g(2) by (simp add: on_shm_def with_mem_def)
    have "with_message E fuel n Session Operation fill answer w
        = Ret (A b, w\<lparr>Shm := (Shm w)\<lparr>Gcd := g,
            Memory := (\<lambda>x. if x \<in> ?U then u x else Memory (Shm w) x)\<rparr>, Rest := t\<rparr>)"
      using False m1(1) m2(1,2) fr answer [of p]
      by (simp add: with_message_def bindM_eqI [OF _] bindM_def on_shm_def [of "OpteeClientMemAlloc (ShmE E) ?n"]
          a writeM_run ret_def)
    with a g(1) False m2(3) show ?thesis
      by (intro exI [of _ p] exI [of _ s] exI [of _ g]) (auto simp del: split_paired_Ex)
  qed
qed

lemma with_message_served:
  assumes E: "window_ok (ShmE E)" "gcd_contract (ShmE E) live" and ok: "shm_ok (ShmE E) live (Shm w)"
    and tee: "serves E tee" and n: "n \<le> 6"
    and fill: "\<And>p v. (\<And>x. x \<in> blk p (OPTEE_MSG_GET_ARG_SIZE n) \<Longrightarrow> Memory (Shm v) x = 0) \<Longrightarrow>
      \<exists>m. fill p v = Ret ((), with_mem m v) \<and> msg_view n p m = V \<and>
        read_u32 (p + msg_num_params) m = of_nat n \<and>
        (\<forall>x. x \<notin> blk p (OPTEE_MSG_GET_ARG_SIZE n) \<longrightarrow> m x = Memory (Shm v) x)"
    and answer: "\<And>p v. answer p v = Ret (A (msg_answer n p (Memory (Shm v))), v)"
  shows "\<exists>p s g. OpteeClientMemAlloc (ShmE E) (OPTEE_MSG_GET_ARG_SIZE n) (Shm w) = Ret (p, s) \<and>
    live g = live (Gcd (Shm w)) \<and>
    with_message E (Suc fuel) n Session Operation fill answer w =
      (if p = 0 then Ret (\<lparr>Result = TEEC_ERROR_OUT_OF_MEMORY, ErrorOrigin = TEEC_ORIGIN_API,
           OutSession = Session, OutOperation = Operation\<rparr>, w\<lparr>Shm := (Shm w)\<lparr>Gcd := g\<rparr>\<rparr>)
       else Ret (A (fst (tee V (Rest w))), w\<lparr>Shm := (Shm w)\<lparr>Gcd := g\<rparr>, Rest := snd (tee V (Rest w))\<rparr>))"
proof -
  let ?U = "user_area (live (Gcd (Shm w)))"
  have same: "(\<lambda>x. if x \<in> ?U then Memory (Shm w) x else Memory (Shm w) x) = Memory (Shm w)"
    by simp
  have call: "\<exists>m a. OpteeSmcCall E (Suc fuel) p v = Ret (TEEC_SUCCESS, (with_mem m v)\<lparr>Rest := snd (tee V (Rest w))\<rparr>) \<and>
      msg_answer n p m = a \<and> a = fst (tee V (Rest w)) \<and> (\<forall>x. x \<notin> blk p (OPTEE_MSG_GET_ARG_SIZE n) \<longrightarrow>
        m x = (if x \<in> ?U then Memory (Shm w) x else Memory (Shm v) x))"
    if V: "msg_view n p (Memory (Shm v)) = V" and num: "read_u32 (p + msg_num_params) (Memory (Shm v)) = of_nat n"
      and U: "\<And>x. x \<in> ?U \<Longrightarrow> Memory (Shm v) x = Memory (Shm w) x" and R: "Rest v = Rest w"
      and "blk p (OPTEE_MSG_GET_ARG_SIZE n) \<inter> ?U = {}" for p v
  proof -
    obtain m where "OpteeSmcCall E (Suc fuel) p v = Ret (TEEC_SUCCESS, (with_mem m v)\<lparr>Rest := snd (tee V (Rest w))\<rparr>)"
      "msg_answer n p m = fst (tee V (Rest w))"
      "\<And>x. x \<notin> blk p (OPTEE_MSG_GET_ARG_SIZE n) \<Longrightarrow> m x = Memory (Shm v) x"
      using OpteeSmcCall_served [OF tee n num, of fuel] V R by metis
    then show ?thesis using U by (intro exI [of _ m]) simp
  qed
  obtain p s g where r: "OpteeClientMemAlloc (ShmE E) (OPTEE_MSG_GET_ARG_SIZE n) (Shm w) = Ret (p, s)"
    "live g = live (Gcd (Shm w))"
    "if p = 0 then with_message E (Suc fuel) n Session Operation fill answer w =
       Ret (\<lparr>Result = TEEC_ERROR_OUT_OF_MEMORY, ErrorOrigin = TEEC_ORIGIN_API,
           OutSession = Session, OutOperation = Operation\<rparr>, w\<lparr>Shm := (Shm w)\<lparr>Gcd := g\<rparr>\<rparr>)
     else \<exists>a. a = fst (tee V (Rest w)) \<and> with_message E (Suc fuel) n Session Operation fill answer w =
       Ret (A a, w\<lparr>Shm := (Shm w)\<lparr>Gcd := g, Memory := (\<lambda>x. if x \<in> ?U then Memory (Shm w) x
           else Memory (Shm w) x)\<rparr>, Rest := snd (tee V (Rest w))\<rparr>)"
    using with_message_run [where V = V and fuel = "Suc fuel" and t = "snd (tee V (Rest w))"
        and Q = "\<lambda>a. a = fst (tee V (Rest w))" and u = "Memory (Shm w)" and A = A
        and Session = Session and Operation = Operation, OF E ok n fill call answer] by blast
  show ?thesis
    by (intro exI [of _ p] exI [of _ s] exI [of _ g]) (use r in \<open>simp split: if_splits\<close>)
qed

section \<open>Filling and reading messages\<close>

text \<open>The offsets of the header and of the first parameters, pairwise apart.\<close>

lemma header_apart:
  "apart_at msg_cmd 4 msg_func 4" "apart_at msg_cmd 4 msg_session 4" "apart_at msg_cmd 4 msg_num_params 4"
  "apart_at msg_func 4 msg_session 4" "apart_at msg_func 4 msg_num_params 4"
  "apart_at msg_session 4 msg_num_params 4" "apart_at msg_num_params 4 msg_cmd 4"
  by (simp_all add: apart_at_def msg_offsets)

lemma read_u32_frame:
  "(\<And>x. x \<notin> blk (p + msg_params) l \<Longrightarrow> m x = m' x) \<Longrightarrow> unat d + 4 \<le> 32 \<Longrightarrow> unat l \<le> 192 \<Longrightarrow>
   read_u32 (p + d) m = read_u32 (p + d) m'"
  by (intro read_u32_eq) (use blk_offsets_disjoint [of d 4 msg_params l p] in \<open>auto simp: msg_offsets\<close>)

lemma header_outside: "x \<notin> blk p 32 \<Longrightarrow> unat d + 4 \<le> 32 \<Longrightarrow> x \<notin> blk (p + d) 4"
  using sub_block [of d 4 32 p] by auto

lemma msg_words_frame:
  assumes "\<And>x. x \<notin> blk p 32 \<Longrightarrow> m x = m' x" and "i < 6"
  shows "msg_words m p i = msg_words m' p i"
  unfolding msg_words_def
proof (rule param_words_eq)
  fix x
  assume x: "x \<in> blk (param_at (p + msg_params) i) 24"
  have eq: "param_at (p + msg_params) i = p + of_nat (32 + 32 * i)"
    by (simp add: param_at_offset msg_offsets)
  have "unat (of_nat (32 + 32 * i) :: u64) = 32 + 32 * i"
    using assms(2) unat_of_nat [of "32 + 32 * i", where 'a = 64] by simp
  then have "blk (p + 0) 32 \<inter> blk (p + of_nat (32 + 32 * i)) 24 = {}"
    using assms(2) by (intro blk_offsets_disjoint) simp_all
  with x assms(1) show "m x = m' x"
    by (auto simp: eq)
qed

lemma msg_words_zero:
  assumes "\<And>x. x \<in> blk p (OPTEE_MSG_GET_ARG_SIZE n) \<Longrightarrow> m x = 0" and "n \<le> 6" and "i < n"
  shows "msg_words m p i = (0, 0, 0)"
proof -
  have z: "m x = 0" if "x \<in> blk (param_at (p + msg_params) i) 32" for x
    using that param_in_message [OF assms(2,3)] by (intro assms(1)) blast
  have "blk (param_at (p + msg_params) i + d) 8 \<subseteq> blk (param_at (p + msg_params) i) 32" if "unat d \<le> 24" for d
    using that by (intro sub_block) simp
  then have "read_u64 (param_at (p + msg_params) i + d) m = 0" if "unat d \<le> 24" for d
    using that z by (intro read_u64_zero) blast
  from this [of 0] this [of 8] this [of 16] show ?thesis
    by (simp add: msg_words_def param_words_def param_offsets)
qed

lemma param_after: "param_at (p + msg_params) (k + i) = param_at (param_at (p + msg_params) k) i"
  by (simp add: param_at_offset algebra_simps)

text \<open>What \<open>InvokeCommand\<close> puts into its message.\<close>

definition invoke_view :: "TEEC_Session \<Rightarrow> u32 \<Rightarrow> TEEC_Operation \<Rightarrow> u32 \<times> u32 \<times> u32 \<times> words list" where
  "invoke_view Session CmdId op = (OPTEE_MSG_CMD_INVOKE_COMMAND, CmdId, session_id Session,
     map (\<lambda>i. encode_param op i (0, 0, 0)) [0..<4])"

lemma fill_invoke_run:
  assumes sup: "all_supported op"
    and z: "\<And>x. x \<in> blk p (OPTEE_MSG_GET_ARG_SIZE 4) \<Longrightarrow> Memory (Shm v) x = 0"
  shows "\<exists>m. fill_invoke Session CmdId op p v = Ret ((), with_mem m v) \<and>
    msg_view 4 p m = invoke_view Session CmdId op \<and> read_u32 (p + msg_num_params) m = of_nat 4 \<and>
    (\<forall>x. x \<notin> blk p (OPTEE_MSG_GET_ARG_SIZE 4) \<longrightarrow> m x = Memory (Shm v) x)"
proof -
  let ?h = "write_u32 (p + msg_num_params) 4 (write_u32 (p + msg_session) (session_id Session)
    (write_u32 (p + msg_func) CmdId (write_u32 (p + msg_cmd) OPTEE_MSG_CMD_INVOKE_COMMAND (Memory (Shm v)))))"
  have hout: "?h x = Memory (Shm v) x" if "x \<notin> blk p 32" for x
    using header_outside [OF that]
    by (simp add: write_u32_outside msg_offsets [THEN arg_cong, of unat])
  obtain m where m: "SetMsgParams op (p + msg_params) (with_mem ?h v) = Ret ((), with_mem m (with_mem ?h v))"
    "\<And>x. x \<notin> blk (p + msg_params) 128 \<Longrightarrow> m x = ?h x"
    "\<And>i. i < 4 \<Longrightarrow> param_words m (param_at (p + msg_params) i)
       = encode_param op i (param_words ?h (param_at (p + msg_params) i))"
    using SetMsgParams_run [OF sup, of "p + msg_params" "with_mem ?h v"] by (metis with_mem_simps(1))
  have run: "fill_invoke Session CmdId op p v = Ret ((), with_mem m v)"
    using m(1) by (simp add: fill_invoke_def writeM_run bindM_def TEEC_CONFIG_PAYLOAD_REF_COUNT_def)
  have hd: "read_u32 (p + d) m = read_u32 (p + d) ?h" if "unat d + 4 \<le> 32" for d
    using that by (intro read_u32_frame [where l = 128] m(2)) simp_all
  have "msg_words m p i = encode_param op i (0, 0, 0)" if "i < 4" for i
  proof -
    have "msg_words ?h p i = msg_words (Memory (Shm v)) p i"
      using that by (intro msg_words_frame hout) simp_all
    then have "msg_words ?h p i = (0, 0, 0)"
      using msg_words_zero [OF z] that by simp
    with m(3) [OF that] show ?thesis by (simp add: msg_words_def)
  qed
  then have "map (msg_words m p) [0..<4] = map (\<lambda>i. encode_param op i (0, 0, 0)) [0..<4]"
    by simp
  moreover have "read_u32 (p + msg_cmd) m = OPTEE_MSG_CMD_INVOKE_COMMAND" "read_u32 (p + msg_func) m = CmdId"
    "read_u32 (p + msg_session) m = session_id Session" "read_u32 (p + msg_num_params) m = 4"
    using hd [of msg_cmd] hd [of msg_func] hd [of msg_session] hd [of msg_num_params]
    by (simp_all add: msg_offsets [THEN arg_cong, of unat] field_reads header_apart)
  ultimately have "msg_view 4 p m = invoke_view Session CmdId op" "read_u32 (p + msg_num_params) m = of_nat 4"
    by (simp_all add: msg_view_def invoke_view_def)
  moreover have "m x = Memory (Shm v) x" if "x \<notin> blk p (OPTEE_MSG_GET_ARG_SIZE 4)" for x
  proof -
    have "blk (p + msg_params) 128 \<subseteq> blk p (OPTEE_MSG_GET_ARG_SIZE 4)"
      by (rule sub_block) (simp add: ARG_SIZE_unat msg_offsets)
    moreover have "blk (p + 0) 32 \<subseteq> blk p (OPTEE_MSG_GET_ARG_SIZE 4)"
      by (rule sub_block) (simp add: ARG_SIZE_unat)
    ultimately have "x \<notin> blk (p + msg_params) 128" "x \<notin> blk p 32"
      using that by auto
    then show ?thesis
      using m(2) hout by simp
  qed
  ultimately show ?thesis using run by blast
qed

section \<open>Invoking a command\<close>

lemma decode_params_cong:
  "(\<And>i. i < 4 \<Longrightarrow> f i = g i) \<Longrightarrow> decode_params f op = decode_params g op"
  unfolding decode_params_def TEEC_CONFIG_PAYLOAD_REF_COUNT_def by (intro fold_cong) auto

definition answered :: "TEEC_Session \<Rightarrow> TEEC_Operation \<Rightarrow> u32 \<times> u32 \<times> u32 \<times> words list \<Rightarrow> CallResult" where
  "answered Session op a = (case a of (r, origin, sid, ws) \<Rightarrow>
     \<lparr>Result = r, ErrorOrigin = origin, OutSession = Session, OutOperation = decode_params (nth ws) op\<rparr>)"

lemma answer_invoke_run:
  assumes "all_supported op"
  shows "answer_invoke Session op p v = Ret (answered Session op (msg_answer 4 p (Memory (Shm v))), v)"
proof -
  have "decode_params (nth (map (msg_words (Memory (Shm v)) p) [0..<4])) op
      = decode_params (msg_words (Memory (Shm v)) p) op"
    by (rule decode_params_cong) simp
  then show ?thesis
    by (simp add: answer_invoke_def readM_run GetMsgParams_run [OF assms] bindM_def ret_def answered_def
        msg_answer_def flip: msg_words_def)
qed

lemma zero_operation_supported: "all_supported zero_operation"
  by (simp add: all_supported_def supported_def zero_operation_def TEEC_PARAM_TYPE_GET_def TEEC_NONE_def)

definition out_of_memory :: "TEEC_Session \<Rightarrow> TEEC_Operation \<Rightarrow> CallResult" where
  "out_of_memory Session op = \<lparr>Result = TEEC_ERROR_OUT_OF_MEMORY, ErrorOrigin = TEEC_ORIGIN_API,
     OutSession = Session, OutOperation = op\<rparr>"

text \<open>
  Property C2. Invoking a command refines a direct call of the service in the secure world. When the
  pool can hand out a message, the service sees exactly the command, the session and the encoded
  parameters, the caller gets its result, its origin and its operation with the parameters the
  service answered, and the pool, its memory included, is as before; when it cannot, the caller gets
  \<open>TEEC_ERROR_OUT_OF_MEMORY\<close> and the service is not called.
\<close>
theorem InvokeCommand_refines_service:
  assumes "shm_reachable (ShmE E) live (Shm w)" and "window_ok (ShmE E)" and "gcd_contract (ShmE E) live"
    and "serves E tee" and "all_supported (or_null Operation)"
  shows "\<exists>p s g. OpteeClientMemAlloc (ShmE E) (OPTEE_MSG_GET_ARG_SIZE 4) (Shm w) = Ret (p, s) \<and>
    live g = live (Gcd (Shm w)) \<and>
    TEEC_InvokeCommand E (Suc fuel) (Some session) CommandID Operation w =
      (if p = 0 then
         Ret (api_result Operation (out_of_memory session (or_null Operation)),
              w\<lparr>Shm := (Shm w)\<lparr>Gcd := g\<rparr>\<rparr>)
       else
         (case tee (invoke_view session CommandID (or_null Operation)) (Rest w) of (a, t) \<Rightarrow>
            Ret (api_result Operation (answered session (or_null Operation) a),
                 w\<lparr>Shm := (Shm w)\<lparr>Gcd := g\<rparr>, Rest := t\<rparr>)))"
proof -
  let ?op = "or_null Operation"
  have ok: "shm_ok (ShmE E) live (Shm w)"
    by (rule reachable_shm_ok [OF assms(1-3)])
  obtain p s g where r: "OpteeClientMemAlloc (ShmE E) (OPTEE_MSG_GET_ARG_SIZE 4) (Shm w) = Ret (p, s)"
    "live g = live (Gcd (Shm w))"
    "with_message E (Suc fuel) 4 session ?op (fill_invoke session CommandID ?op) (answer_invoke session ?op) w =
      (if p = 0 then Ret (out_of_memory session ?op, w\<lparr>Shm := (Shm w)\<lparr>Gcd := g\<rparr>\<rparr>)
       else Ret (answered session ?op (fst (tee (invoke_view session CommandID ?op) (Rest w))),
         w\<lparr>Shm := (Shm w)\<lparr>Gcd := g\<rparr>, Rest := snd (tee (invoke_view session CommandID ?op) (Rest w))\<rparr>))"
    using with_message_served [OF assms(2,3) ok assms(4) _
        fill_invoke_run [OF assms(5), of _ _ session CommandID]
        answer_invoke_run [OF assms(5), of session], of fuel session ?op]
    unfolding out_of_memory_def by auto
  show ?thesis
    by (intro exI [of _ p] exI [of _ s] exI [of _ g])
      (use r in \<open>simp add: TEEC_InvokeCommand_def TEEC_SMC_InvokeCommand_def TEEC_CONFIG_PAYLOAD_REF_COUNT_def
        bindM_def ret_def split: prod.splits\<close>)
qed

section \<open>Opening and closing sessions\<close>

definition meta_attr :: u64 where
  "meta_attr = ucast (OPTEE_MSG_ATTR_TYPE_VALUE_INPUT OR OPTEE_MSG_ATTR_META)"

text \<open>The two words of a UUID as the first meta parameter carries them.\<close>

definition uuid_word :: "TEEC_UUID \<Rightarrow> nat \<Rightarrow> u64" where
  "uuid_word u i = of_nat (le_nat (take 8 (drop (8 * i) (uuid_bytes u))))"

definition open_view :: "TEEC_UUID \<Rightarrow> TEEC_Operation \<Rightarrow> u32 \<times> u32 \<times> u32 \<times> words list" where
  "open_view Destination op = (OPTEE_MSG_CMD_OPEN_SESSION, 0, 0,
     [(meta_attr, uuid_word Destination 0, uuid_word Destination 1), (meta_attr, 0, 0)]
     @ map (\<lambda>i. encode_param op i (0, 0, 0)) [0..<4])"

text \<open>The message before the parameters of the operation are set.\<close>

definition open_header :: "TEEC_UUID \<Rightarrow> u64 \<Rightarrow> memory \<Rightarrow> memory" where
  "open_header Destination p m =
     write_u64 (param_at (p + msg_params) 1 + param_c) (ucast TEEC_LOGIN_PUBLIC)
       (write_u64 (param_at (p + msg_params) 1 + param_attr) meta_attr
         (poke (param_at (p + msg_params) 0 + param_a) (uuid_bytes Destination)
           (write_u64 (param_at (p + msg_params) 0 + param_attr) meta_attr
             (write_u32 (p + msg_num_params) 6 (write_u32 (p + msg_cmd) OPTEE_MSG_CMD_OPEN_SESSION m)))))"

lemma length_uuid_bytes: "length (clockSeqAndNode u) = 8 \<Longrightarrow> length (uuid_bytes u) = 16"
  by (simp add: uuid_bytes_def)

lemma open_header_outside:
  assumes "length (clockSeqAndNode u) = 8" and "x \<notin> blk p 96"
  shows "open_header u p m x = m x"
proof -
  have out: "\<not> unat (x - (p + d)) < k" if "unat d + k \<le> 96" "0 < k" for d k
  proof
    assume l: "unat (x - (p + d)) < k"
    have k: "unat (of_nat k :: u64) = k"
      using that unat_of_nat [of k, where 'a = 64] by simp
    have "blk (p + d) (of_nat k) \<subseteq> blk p 96"
      by (rule sub_block) (use that k in simp)
    with l k assms(2) show False by (auto simp: blk_iff)
  qed
  show ?thesis
    using out [of 0 4] out [of 28 4] out [of 32 8] out [of 40 16] out [of 64 8] out [of 88 8]
    by (simp add: open_header_def param_at_def msg_offsets param_offsets write_u64_def write_u32_def poke_def
        length_uuid_bytes [OF assms(1)] add.assoc)
qed

lemma read_u64_poke:
  "i + 8 \<le> length bs \<Longrightarrow> length bs \<le> 2 ^ 63 \<Longrightarrow>
   read_u64 (a + of_nat i) (poke a bs m) = of_nat (le_nat (take 8 (drop i bs)))"
  unfolding read_u64_def by (subst peek_poke) simp_all

lemma read_u64_poke_other:
  assumes "apart_at d 8 d' (of_nat (length bs))" and "length bs < 2 ^ 64"
  shows "read_u64 (p + d) (poke (p + d') bs m) = read_u64 (p + d) m"
proof (intro read_u64_eq poke_outside)
  fix x
  assume "x \<in> blk (p + d) 8"
  then have "x \<notin> blk (p + d') (of_nat (length bs))"
    by (rule apart_at_disjoint [OF assms(1)])
  then show "\<not> unat (x - (p + d')) < length bs"
    using assms(2) unat_of_nat [of "length bs", where 'a = 64] by (simp add: blk_iff)
qed

lemma read_u32_poke_other:
  assumes "apart_at d 4 d' (of_nat (length bs))" and "length bs < 2 ^ 64"
  shows "read_u32 (p + d) (poke (p + d') bs m) = read_u32 (p + d) m"
proof (intro read_u32_eq poke_outside)
  fix x
  assume "x \<in> blk (p + d) 4"
  then have "x \<notin> blk (p + d') (of_nat (length bs))"
    by (rule apart_at_disjoint [OF assms(1)])
  then show "\<not> unat (x - (p + d')) < length bs"
    using assms(2) unat_of_nat [of "length bs", where 'a = 64] by (simp add: blk_iff)
qed

lemma open_header_words:
  assumes u: "length (clockSeqAndNode u) = 8"
    and z: "\<And>x. x \<in> blk p (OPTEE_MSG_GET_ARG_SIZE 6) \<Longrightarrow> m x = 0"
  shows "msg_words (open_header u p m) p 0 = (meta_attr, uuid_word u 0, uuid_word u 1)"
    and "msg_words (open_header u p m) p 1 = (meta_attr, 0, 0)"
    and "read_u32 (p + msg_cmd) (open_header u p m) = OPTEE_MSG_CMD_OPEN_SESSION"
    and "read_u32 (p + msg_func) (open_header u p m) = 0"
    and "read_u32 (p + msg_session) (open_header u p m) = 0"
    and "read_u32 (p + msg_num_params) (open_header u p m) = 6"
proof -
  note l = length_uuid_bytes [OF u]
  have w: "read_u64 (p + d) m = 0" if "unat d + 8 \<le> 224" for d
    using sub_block [of d 8 "OPTEE_MSG_GET_ARG_SIZE 6" p] that z
    by (intro read_u64_zero) (auto simp: ARG_SIZE_unat)
  have w4: "read_u32 (p + d) m = 0" if "unat d + 4 \<le> 32" for d
    using header_in_message [of 6 d p] that z by (intro read_u32_zero) auto
  have ub: "read_u64 (p + 40) (poke (p + 40) (uuid_bytes u) m') = uuid_word u 0"
    "read_u64 (p + 48) (poke (p + 40) (uuid_bytes u) m') = uuid_word u 1" for m'
    using read_u64_poke [of 0 "uuid_bytes u" "p + 40" m'] read_u64_poke [of 8 "uuid_bytes u" "p + 40" m'] l
    by (simp_all add: uuid_word_def add.assoc)
  note facts = msg_words_def param_words_def open_header_def param_at_def msg_offsets param_offsets
    add.assoc field_reads apart_at_def read_u64_poke_other read_u32_poke_other l
  show "msg_words (open_header u p m) p 0 = (meta_attr, uuid_word u 0, uuid_word u 1)"
    using ub by (simp add: facts)
  show "msg_words (open_header u p m) p 1 = (meta_attr, 0, 0)"
    using w [of 72] w [of 80] read_u64_write_u32 [of 72 0 p] read_u64_write_u32 [of 80 0 p]
    by (simp add: facts)
  show "read_u32 (p + msg_cmd) (open_header u p m) = OPTEE_MSG_CMD_OPEN_SESSION"
    using read_u32_write_u32 [of 0 28 p] read_u32_write_u64 [of 0 _ p]
      read_u32_poke_other [of 0 40 "uuid_bytes u" p]
    by (simp add: facts)
  show "read_u32 (p + msg_func) (open_header u p m) = 0" and "read_u32 (p + msg_session) (open_header u p m) = 0"
    and "read_u32 (p + msg_num_params) (open_header u p m) = 6"
    using w4 [of 4] w4 [of 8] read_u32_write_u32 [of _ 0 p] by (simp_all add: facts)
qed

lemma fill_open_run:
  assumes sup: "all_supported op" and u: "length (clockSeqAndNode u) = 8"
    and z: "\<And>x. x \<in> blk p (OPTEE_MSG_GET_ARG_SIZE 6) \<Longrightarrow> Memory (Shm v) x = 0"
  shows "\<exists>m. fill_open u op p v = Ret ((), with_mem m v) \<and>
    msg_view 6 p m = open_view u op \<and> read_u32 (p + msg_num_params) m = of_nat 6 \<and>
    (\<forall>x. x \<notin> blk p (OPTEE_MSG_GET_ARG_SIZE 6) \<longrightarrow> m x = Memory (Shm v) x)"
proof -
  let ?q = "param_at (p + msg_params) 2"
  let ?h = "open_header u p (Memory (Shm v))"
  obtain m where m: "SetMsgParams op ?q (with_mem ?h v) = Ret ((), with_mem m (with_mem ?h v))"
    "\<And>x. x \<notin> blk ?q 128 \<Longrightarrow> m x = ?h x"
    "\<And>i. i < 4 \<Longrightarrow> param_words m (param_at ?q i) = encode_param op i (param_words ?h (param_at ?q i))"
    using SetMsgParams_run [OF sup, of ?q "with_mem ?h v"] by (metis with_mem_simps(1))
  have q: "?q = p + 96"
    by (simp add: param_at_offset msg_offsets)
  have run: "fill_open u op p v = Ret ((), with_mem m v)"
    using m(1) by (simp add: fill_open_def writeM_run bindM_def TEEC_CONFIG_PAYLOAD_REF_COUNT_def
        MetaParamCount_def Let_def open_header_def meta_attr_def)
  have keep: "m x = ?h x" if "x \<in> blk p 96" for x
    using that blk_disjoint_after [of 96 128 p] by (intro m(2)) (auto simp: q)
  have hd: "read_u32 (p + d) m = read_u32 (p + d) ?h" if "unat d + 4 \<le> 32" for d
    using that sub_block [of d 4 96 p] by (intro read_u32_eq keep) auto
  have meta: "msg_words m p i = msg_words ?h p i" if "i < 2" for i
  proof -
    have "unat (32 * of_nat i :: u64) = 32 * i"
      using that by (intro unat_param_offset) simp
    then have "blk (p + (32 + 32 * of_nat i)) 24 \<subseteq> blk p 96"
      using that by (intro sub_block) (subst iffD1 [OF unat_add_lem], simp_all)
    then show ?thesis
      unfolding msg_words_def param_at_offset
      by (intro param_words_eq keep) (auto simp: msg_offsets add.assoc)
  qed
  have own: "msg_words m p (2 + i) = encode_param op i (0, 0, 0)" if "i < 4" for i
  proof -
    have q': "param_at ?q i = param_at (p + msg_params) (2 + i)"
      by (simp only: param_after)
    have "blk (p + (96 + 32 * of_nat i)) 24 \<inter> blk p 96 = {}"
      using that blk_offsets_disjoint [of 0 96 "96 + 32 * of_nat i" 24 p] unat_param_offset [OF that]
      by (auto simp: iffD1 [OF unat_add_lem])
    then have "param_words ?h (param_at ?q i) = param_words (Memory (Shm v)) (param_at ?q i)"
      by (intro param_words_eq open_header_outside [OF u]) (auto simp: param_at_offset msg_offsets add.assoc)
    then have "param_words ?h (param_at ?q i) = (0, 0, 0)"
      using msg_words_zero [OF z, where i = "2 + i"] that by (simp add: q' msg_words_def del: add_2_eq_Suc)
    then show ?thesis
      using m(3) [OF that] by (simp add: q' msg_words_def del: add_2_eq_Suc)
  qed
  have "[0..<6] = [0, 1] @ map ((+) 2) [0..<4]"
    by (simp add: upt_rec)
  then have "map (msg_words m p) [0..<6] = [msg_words ?h p 0, msg_words ?h p 1]
      @ map (\<lambda>i. encode_param op i (0, 0, 0)) [0..<4]"
    using own meta [of 0] meta [of 1] by simp
  then have "msg_view 6 p m = open_view u op" "read_u32 (p + msg_num_params) m = of_nat 6"
    using hd [of msg_cmd] hd [of msg_func] hd [of msg_session] hd [of msg_num_params]
      open_header_words [OF u z]
    by (simp_all add: msg_view_def open_view_def msg_offsets [THEN arg_cong, of unat])
  moreover have "m x = Memory (Shm v) x" if "x \<notin> blk p (OPTEE_MSG_GET_ARG_SIZE 6)" for x
  proof -
    have "blk (p + 96) 128 \<subseteq> blk p (OPTEE_MSG_GET_ARG_SIZE 6)" "blk (p + 0) 96 \<subseteq> blk p (OPTEE_MSG_GET_ARG_SIZE 6)"
      by (rule sub_block, simp add: ARG_SIZE_unat)+
    then have "x \<notin> blk ?q 128" "x \<notin> blk p 96"
      using that by (auto simp: q)
    then show ?thesis
      using m(2) open_header_outside [OF u] by simp
  qed
  ultimately show ?thesis using run by blast
qed

definition opened :: "TEEC_Session \<Rightarrow> TEEC_Operation \<Rightarrow> u32 \<times> u32 \<times> u32 \<times> words list \<Rightarrow> CallResult" where
  "opened Session op a = (case a of (r, origin, sid, ws) \<Rightarrow>
     \<lparr>Result = r, ErrorOrigin = origin, OutSession = Session\<lparr>session_id := sid\<rparr>,
      OutOperation = decode_params (nth ws) op\<rparr>)"

lemma answer_open_run:
  assumes "all_supported op"
  shows "answer_open Session op p v = Ret (opened Session op (msg_answer 6 p (Memory (Shm v))), v)"
proof -
  have "decode_params (nth (map (msg_words (Memory (Shm v)) p) [0..<6])) op
      = decode_params (msg_words (Memory (Shm v)) p) op"
    by (rule decode_params_cong) simp
  then show ?thesis
    by (simp add: answer_open_def readM_run GetMsgParams_run [OF assms] bindM_def ret_def opened_def
        msg_answer_def flip: msg_words_def)
qed

text \<open>
  Property C33. Opening a session refines a call of the service with the open command, the two meta
  parameters and the encoded parameters of the operation, and leaves the pool as it was. The
  parameters handed back are those of the answer from the first meta parameter on: the caller's
  parameter \<open>i\<close> is read from parameter \<open>i\<close> of the message, not from \<open>i + 2\<close>, where it was put.
\<close>
theorem OpenSession_refines_service:
  assumes "shm_reachable (ShmE E) live (Shm w)" and "window_ok (ShmE E)" and "gcd_contract (ShmE E) live"
    and "serves E tee" and "all_supported (or_null Operation)" and "length (clockSeqAndNode uuid) = 8"
  shows "\<exists>p s g. OpteeClientMemAlloc (ShmE E) (OPTEE_MSG_GET_ARG_SIZE 6) (Shm w) = Ret (p, s) \<and>
    live g = live (Gcd (Shm w)) \<and>
    TEEC_OpenSession E (Suc fuel) (Some ctx) (Some session) (Some uuid) TEEC_LOGIN_PUBLIC Operation w =
      (if p = 0 then
         Ret (api_result Operation (out_of_memory session (or_null Operation)),
              w\<lparr>Shm := (Shm w)\<lparr>Gcd := g\<rparr>\<rparr>)
       else
         (case tee (open_view uuid (or_null Operation)) (Rest w) of (a, t) \<Rightarrow>
            Ret (api_result Operation (opened session (or_null Operation) a),
                 w\<lparr>Shm := (Shm w)\<lparr>Gcd := g\<rparr>, Rest := t\<rparr>)))"
proof -
  let ?op = "or_null Operation"
  have ok: "shm_ok (ShmE E) live (Shm w)"
    by (rule reachable_shm_ok [OF assms(1-3)])
  obtain p s g where r: "OpteeClientMemAlloc (ShmE E) (OPTEE_MSG_GET_ARG_SIZE 6) (Shm w) = Ret (p, s)"
    "live g = live (Gcd (Shm w))"
    "with_message E (Suc fuel) 6 session ?op (fill_open uuid ?op) (answer_open session ?op) w =
      (if p = 0 then Ret (out_of_memory session ?op, w\<lparr>Shm := (Shm w)\<lparr>Gcd := g\<rparr>\<rparr>)
       else Ret (opened session ?op (fst (tee (open_view uuid ?op) (Rest w))),
         w\<lparr>Shm := (Shm w)\<lparr>Gcd := g\<rparr>, Rest := snd (tee (open_view uuid ?op) (Rest w))\<rparr>))"
    using with_message_served [OF assms(2,3) ok assms(4) _ fill_open_run [OF assms(5,6)]
        answer_open_run [OF assms(5), of session], of fuel session ?op]
    unfolding out_of_memory_def by auto
  show ?thesis
    by (intro exI [of _ p] exI [of _ s] exI [of _ g])
      (use r in \<open>simp add: TEEC_OpenSession_def TEEC_SMC_OpenSession_def TEEC_CONFIG_PAYLOAD_REF_COUNT_def
        MetaParamCount_def bindM_def ret_def split: prod.splits\<close>)
qed

text \<open>
  So a caller whose first parameter is a value gets the first half of the UUID in its place when the
  service, as the protocol prescribes, leaves the meta parameters alone.
\<close>

lemma opened_value_is_uuid:
  assumes "is_value (TEEC_PARAM_TYPE_GET (paramTypes op) 0)" and "0 < length (params op)"
    and "ws ! 0 = (meta_attr, uuid_word uuid 0, uuid_word uuid 1)"
  shows "value_a (params (decode_param 0 (ws ! 0) op) ! 0) = ucast (uuid_word uuid 0)"
proof -
  have low: "ucast (push_bit 32 (ucast a) OR ucast (ucast b :: u32) :: u64) = (ucast b :: u32)" for a :: u32 and b :: u64
    by (rule bit_word_eqI) (auto simp: bit_simps)
  have "TEEC_PARAM_TYPE_GET (paramTypes op) 0 \<noteq> TEEC_NONE"
    using assms(1) by (auto simp: is_value_def teec_params)
  with assms low show ?thesis
    by (simp add: decode_param_def update_param_def Let_def value_a_def set_value_def)
qed

section \<open>The loop ends\<close>

lemma safe_readM [safe_intros]: "safe P (readM f)"
  by (simp add: readM_def safe_gets)

lemma safe_on_shm:
  assumes "safe (\<lambda>_. True) m"
  shows "safe (\<lambda>w. P (Rest w)) (on_shm m)"
  using assms by (auto simp: on_shm_def safe_def split: outcome.splits)

text \<open>A measure on the rest of the platform that the services of the requests never raise.\<close>

definition rank_kept :: "('t \<Rightarrow> nat) \<Rightarrow> ('g, 't) TeeEnv \<Rightarrow> bool" where
  "rank_kept \<mu> E \<longleftrightarrow>
     (\<forall>u t. \<mu> (snd (GetSectionFromAnyFv E u t)) \<le> \<mu> t) \<and>
     (\<forall>t. \<mu> (snd (GetPerformanceCounter E t)) \<le> \<mu> t) \<and>
     (\<forall>t. \<mu> (snd (LocateRpmbIo E t)) \<le> \<mu> t) \<and>
     (\<forall>t0 a b c m t. let io = snd (fst (LocateRpmbIo E t0)) in
        \<mu> (snd (snd (IoProgramKey io a b m t))) \<le> \<mu> t \<and>
        \<mu> (snd (snd (IoReadCounter io a b m t))) \<le> \<mu> t \<and>
        \<mu> (snd (snd (IoAuthenticatedWrite io c b m t))) \<le> \<mu> t \<and>
        \<mu> (snd (snd (IoAuthenticatedRead io b c m t))) \<le> \<mu> t)"

definition asks_finitely :: "('t \<Rightarrow> nat) \<Rightarrow> ('g, 't) TeeEnv \<Rightarrow> bool" where
  "asks_finitely \<mu> E \<longleftrightarrow> rank_kept \<mu> E \<and>
     (\<forall>args m t args' m' t'. ArmCallSmc E args m t = (args', m', t') \<longrightarrow>
        OPTEE_SMC_RETURN_IS_RPC (Arg0 args') \<longrightarrow> \<mu> t' < \<mu> t)"

lemma safe_restM:
  fixes \<mu> :: "'t \<Rightarrow> nat"
  shows "(\<And>t. \<mu> (snd (f t)) \<le> \<mu> t) \<Longrightarrow> safe (\<lambda>w. \<mu> (Rest w) \<le> k) (restM f)"
  by (simp add: safe_def restM_def split_beta) (blast intro: order_trans)

lemma safe_serviceM:
  fixes \<mu> :: "'t \<Rightarrow> nat"
  shows "(\<And>m t. \<mu> (snd (snd (f m t))) \<le> \<mu> t) \<Longrightarrow> safe (\<lambda>w. \<mu> (Rest w) \<le> k) (serviceM f)"
  by (simp add: safe_def serviceM_def split_beta) (blast intro: order_trans)

lemma safe_gcdM: "safe (\<lambda>_. True) (gcdM f)"
  by (auto simp: safe_def gcdM_def split: prod.splits)

lemma shm_programs_safe:
  "safe (\<lambda>_. True) (OpteeClientMemAlloc F len)" "safe (\<lambda>_. True) (OpteeClientAlignedMemAlloc F len al)"
  "safe (\<lambda>_. True) (OpteeClientMemFree F p)" "safe (\<lambda>_. True) (modifyMemory f)"
proof -
  have "safe (\<lambda>_. True) (InternalMemAlloc F len al)" for len al
    unfolding InternalMemAlloc_def take_block_def claim_block_def by (intro safe_intros safe_gcdM) simp_all
  then show "safe (\<lambda>_. True) (OpteeClientMemAlloc F len)" "safe (\<lambda>_. True) (OpteeClientAlignedMemAlloc F len al)"
    by (simp_all add: OpteeClientMemAlloc_def OpteeClientAlignedMemAlloc_def)
  show "safe (\<lambda>_. True) (OpteeClientMemFree F p)" "safe (\<lambda>_. True) (modifyMemory f)"
    unfolding OpteeClientMemFree_def modifyMemory_def by (intro safe_intros safe_gcdM TrueI)+
qed

lemma safe_shm:
  "safe (\<lambda>w. \<mu> (Rest w) \<le> k) (on_shm (OpteeClientMemAlloc F len))"
  "safe (\<lambda>w. \<mu> (Rest w) \<le> k) (on_shm (OpteeClientAlignedMemAlloc F len al))"
  "safe (\<lambda>w. \<mu> (Rest w) \<le> k) (on_shm (OpteeClientMemFree F p))"
  "safe (\<lambda>w. \<mu> (Rest w) \<le> k) (writeM f)"
  unfolding writeM_def by (intro safe_on_shm [where P = "\<lambda>t. \<mu> t \<le> k"] shm_programs_safe)+

lemma safe_checks:
  "safe P body \<Longrightarrow> safe P (check_one MsgArg t0 body)"
  "safe P body \<Longrightarrow> safe P (check_two MsgArg t0 t1 body)"
  unfolding check_one_def check_two_def num_params_of_def param_type_def by (intro safe_intros; assumption)+

lemma safe_set_result:
  "safe (\<lambda>w. \<mu> (Rest w) \<le> k) body \<Longrightarrow> safe (\<lambda>w. \<mu> (Rest w) \<le> k) (set_result MsgArg body)"
  unfolding set_result_def by (intro safe_intros safe_shm)

lemma safe_rpmb:
  assumes "rank_kept \<mu> E" and "RpmbProtocol = snd (fst (LocateRpmbIo E t0))"
  shows "safe (\<lambda>w. \<mu> (Rest w) \<le> k) (rpmb_data_request RpmbProtocol Request rsp)"
    and "safe (\<lambda>w. \<mu> (Rest w) \<le> k) (rpmb_dev_info RpmbProtocol buf)"
  unfolding rpmb_data_request_def rpmb_dev_info_def teec_generic_def Let_def
  using assms by (intro safe_intros safe_shm safe_serviceM; simp add: rank_kept_def Let_def)+

lemma safe_bind_restM:
  fixes \<mu> :: "'t \<Rightarrow> nat" and g :: "'a \<Rightarrow> ('g, 't, 'b) tee"
  assumes "\<And>t. \<mu> (snd (f t)) \<le> \<mu> t" and "\<And>t. safe (\<lambda>w. \<mu> (Rest w) \<le> k) (g (fst (f t)))"
  shows "safe (\<lambda>w. \<mu> (Rest w) \<le> k) (bindM (restM f) g)"
  unfolding safe_def
proof (intro allI impI)
  fix w :: "('g, 't) World"
  assume "\<mu> (Rest w) \<le> k"
  then have "\<mu> (Rest (w\<lparr>Rest := snd (f (Rest w))\<rparr>)) \<le> k"
    using assms(1) [of "Rest w"] by simp
  from safe_case [OF assms(2) this]
  show "case bindM (restM f) g w of Ret (x, w') \<Rightarrow> \<mu> (Rest w') \<le> k | Stop r \<Rightarrow> r \<noteq> OutOfFuel"
    by (simp add: bindM_def restM_def split_beta)
qed

lemma safe_commands:
  assumes "rank_kept \<mu> E"
  shows "safe (\<lambda>w. \<mu> (Rest w) \<le> k) (rpc_command E MsgArg cmd)"
proof -
  have "safe (\<lambda>w. \<mu> (Rest w) \<le> k) (OpteeRpcCmdLoadTa E MsgArg)"
    unfolding OpteeRpcCmdLoadTa_def Let_def
    using assms by (intro safe_set_result safe_checks safe_intros safe_shm safe_restM) (simp add: rank_kept_def)
  moreover have "safe (\<lambda>w. \<mu> (Rest w) \<le> k) (OpteeRpcCmdRpmb E MsgArg)"
    unfolding OpteeRpcCmdRpmb_def
    using assms by (intro safe_set_result safe_checks safe_bind_restM)
      (auto simp: rank_kept_def split_beta intro!: safe_intros safe_rpmb [OF assms])
  moreover have "safe (\<lambda>w. \<mu> (Rest w) \<le> k) (OpteeRpcCmdGetTime E MsgArg)"
    unfolding OpteeRpcCmdGetTime_def Let_def
    using assms by (intro safe_checks safe_intros safe_shm safe_restM) (simp_all add: rank_kept_def)
  moreover have "safe (\<lambda>w. \<mu> (Rest w) \<le> k) (OpteeRpcCmdShmAlloc E MsgArg)"
    unfolding OpteeRpcCmdShmAlloc_def Let_def check_shm_type_def by (intro safe_checks safe_intros safe_shm)
  moreover have "safe (\<lambda>w. \<mu> (Rest w) \<le> k) (OpteeRpcCmdShmFree E MsgArg)"
    unfolding OpteeRpcCmdShmFree_def Let_def check_shm_type_def by (intro safe_checks safe_intros safe_shm)
  moreover have "safe (\<lambda>w. \<mu> (Rest w) \<le> k) (OpteeRpcCmdWaitQueue MsgArg)"
    unfolding OpteeRpcCmdWaitQueue_def by (intro safe_checks safe_intros)
  ultimately show ?thesis
    unfolding rpc_command_def by (intro safe_intros) simp_all
qed

lemma safe_callback:
  assumes "rank_kept \<mu> E"
  shows "safe (\<lambda>w. \<mu> (Rest w) \<le> k) (OpteeRpcCallback E args)"
  unfolding OpteeRpcCallback_def rpc_dispatch_def OpteeRpcAlloc_def OpteeRpcFree_def rpc_message_def Let_def
  by (intro safe_intros safe_shm safe_commands assms) simp_all

lemma smc_loop_ends:
  assumes "asks_finitely \<mu> E"
  shows "\<mu> (Rest w) < n \<Longrightarrow> smc_loop E n args w \<noteq> Stop OutOfFuel"
proof (induction n arbitrary: args w)
  case (Suc n)
  obtain args1 m1 t1 where c: "ArmCallSmc E args (Memory (Shm w)) (Rest w) = (args1, m1, t1)"
    by (metis surj_pair)
  let ?w1 = "w\<lparr>Shm := (Shm w)\<lparr>Memory := m1\<rparr>, Rest := t1\<rparr>"
  have c': "smcM E args w = Ret (args1, ?w1)"
    by (simp add: smcM_def serviceM_def c)
  show ?case
  proof (cases "OPTEE_SMC_RETURN_IS_RPC (Arg0 args1)")
    case True
    have "\<mu> t1 < \<mu> (Rest w)"
      using assms c True unfolding asks_finitely_def by blast
    then have le: "\<mu> (Rest ?w1) \<le> n - 1" "0 < n"
      using Suc.prems by simp_all
    have safe: "safe (\<lambda>w. \<mu> (Rest w) \<le> n - 1) (OpteeRpcCallback E args1)"
      using assms by (intro safe_callback) (simp add: asks_finitely_def)
    show ?thesis
    proof (cases "OpteeRpcCallback E args1 ?w1")
      case (Ret r)
      then obtain x args2 w2 where r: "OpteeRpcCallback E args1 ?w1 = Ret ((x, args2), w2)"
        by (metis surj_pair)
      have "\<mu> (Rest w2) < n"
        using safe_Ret [OF safe le(1) r] le(2) by simp
      then show ?thesis
        using Suc.IH r c' True by (simp add: bindM_def)
    next
      case (Stop r)
      then show ?thesis
        using safe_fuel [OF safe le(1)] c' True by (simp add: bindM_def)
    qed
  qed (simp add: c' bindM_def ret_def)
qed simp

lemma smc_loop_below: "below (smc_loop E n args) (smc_loop E (Suc n) args)"
proof (induction n arbitrary: args)
  case 0
  show ?case by (simp add: below_out_of_fuel)
next
  case (Suc n)
  show ?case
    unfolding smc_loop.simps(2) by (intro below_intros Suc [unfolded smc_loop.simps(2)])
qed

text \<open>
  Property C31. The loop that serves the secure world's requests ends whenever the secure world asks
  only finitely often: given a measure that every request lowers and no service raises, a call runs
  to its end, and the model's fuel has no influence on the outcome once it exceeds the measure.
\<close>
theorem OpteeSmcCall_terminates:
  assumes "asks_finitely \<mu> E" and "\<mu> (Rest w) < n"
  shows "OpteeSmcCall E n p w \<noteq> Stop OutOfFuel \<and> OpteeSmcCall E (n + k) p w = OpteeSmcCall E n p w"
proof -
  have no: "smc_loop E n (call_args p) w \<noteq> Stop OutOfFuel"
    by (rule smc_loop_ends [OF assms])
  have "below (smc_loop E n args) (smc_loop E (n + k) args)" for args
  proof (induction k)
    case (Suc k)
    then show ?case using smc_loop_below by (metis below_trans add_Suc_right)
  qed (simp add: below_refl)
  from below_eq [OF this no] no show ?thesis
    by (simp add: OpteeSmcCall_def)
qed

section \<open>The answer to a request\<close>

lemma address64_halves [simp]: "address64 (H32 p) (L32 p) = p"
  unfolding address64_def H32_def L32_def by (rule bit_word_eqI) (auto simp: bit_simps)

lemma callback_cases:
  "OpteeRpcCallback E args w = Ret ((r, args'), w') \<Longrightarrow>
   \<exists>args0. OPTEE_SMC_RETURN_IS_RPC (Arg0 args) \<and> rpc_dispatch E args w = Ret ((r, args0), w') \<and>
     args' = args0\<lparr>Arg0 := OPTEE_SMC_CALL_RETURN_FROM_RPC\<rparr>"
  by (auto simp: OpteeRpcCallback_def ASSERT_def bindM_def ret_def stopM_def split: if_splits outcome.splits)

text \<open>
  Property C34. Every request that is served is answered with the return-from-RPC call. Only a memory
  allocation changes the other registers: when it succeeds it puts the two halves of the new block's
  address (zero for an empty request) into registers 1, 2 and 4, 5, in the form in which the free
  request takes them; when it fails all of them keep the values of the request, so that registers 1
  and 2, where the protocol announces a null pointer, hold the size that was asked for.
\<close>
theorem OpteeRpcCallback_answers:
  assumes "OpteeRpcCallback E args w = Ret ((r, args'), w')"
  shows "Arg0 args' = OPTEE_SMC_CALL_RETURN_FROM_RPC \<and>
    (if OPTEE_SMC_RETURN_GET_RPC_FUNC (Arg0 args) = OPTEE_SMC_RPC_FUNC_ALLOC \<and> r = TEEC_SUCCESS then
       \<exists>p. (if Arg1 args = 0 then p = 0 \<and> w' = w
            else p \<noteq> 0 \<and> on_shm (OpteeClientMemAlloc (ShmE E) (Arg1 args)) w = Ret (p, w')) \<and>
         args' = args\<lparr>Arg0 := OPTEE_SMC_CALL_RETURN_FROM_RPC,
           Arg1 := H32 p, Arg2 := L32 p, Arg4 := H32 p, Arg5 := L32 p\<rparr> \<and>
         OpteeRpcFree E args' = bindM (on_shm (OpteeClientMemFree (ShmE E) p)) (\<lambda>Status.
           ret (if EFI_ERROR Status then TEEC_ERROR_BAD_PARAMETERS else TEEC_SUCCESS))
     else args' = args\<lparr>Arg0 := OPTEE_SMC_CALL_RETURN_FROM_RPC\<rparr>)"
proof -
  obtain args0 where d: "rpc_dispatch E args w = Ret ((r, args0), w')"
    and a: "args' = args0\<lparr>Arg0 := OPTEE_SMC_CALL_RETURN_FROM_RPC\<rparr>"
    using callback_cases [OF assms] by blast
  show ?thesis
  proof (cases "OPTEE_SMC_RETURN_GET_RPC_FUNC (Arg0 args) = OPTEE_SMC_RPC_FUNC_ALLOC")
    case True
    have al: "OpteeRpcAlloc E args w = Ret ((r, args0), w')"
      using d True by (simp add: rpc_dispatch_def)
    show ?thesis
    proof (cases "Arg1 args = 0")
      case zero: True
      have "ret (TEEC_SUCCESS, args\<lparr>Arg1 := H32 0, Arg2 := L32 0, Arg4 := H32 0, Arg5 := L32 0\<rparr>) w
          = Ret ((r, args0), w')"
        using al zero by (simp add: OpteeRpcAlloc_def)
      with zero a True show ?thesis
        by (auto simp: ret_def OpteeRpcFree_def intro!: exI [of _ 0])
    next
      case False
      from al False obtain p where p: "on_shm (OpteeClientMemAlloc (ShmE E) (Arg1 args)) w = Ret (p, w')"
        "(r, args0) = (if p = 0 then (TEEC_ERROR_OUT_OF_MEMORY, args)
          else (TEEC_SUCCESS, args\<lparr>Arg1 := H32 p, Arg2 := L32 p, Arg4 := H32 p, Arg5 := L32 p\<rparr>))"
        by (auto simp: OpteeRpcAlloc_def Let_def bindM_def ret_def split: outcome.splits if_splits)
      show ?thesis
      proof (cases "p = 0")
        case True
        with p(2) a show ?thesis by (simp add: teec_results)
      next
        case nz: False
        with p a True False show ?thesis
          by (intro conjI if_P [THEN iffD2]) (auto simp: OpteeRpcFree_def)
      qed
    qed
  next
    case False
    then have "args0 = args"
      using d by (auto simp: rpc_dispatch_def bindM_def ret_def stopM_def Let_def split: if_splits outcome.splits)
    with False a show ?thesis by simp
  qed
qed

section \<open>The time\<close>

lemma scaled_div:
  assumes "0 < f"
  shows "t * c div f = t div f * c + (t mod f * c) div (f :: nat)"
proof -
  have "t * c = (t div f * c) * f + t mod f * c"
    by (subst (1) div_mult_mod_eq [of t f, symmetric]) (simp only: algebra_simps)
  then show ?thesis
    using assms by simp
qed

text \<open>
  The time handed to the secure world is the elapsed time, split into whole seconds and
  the nanoseconds of the fraction, as long as the tick count times a thousand million fits 64 bits:
  18446744073 ticks, about 13 minutes of a counter at 24 MHz. One tick later the product wraps.
\<close>
theorem elapsed_exact:
  assumes "Freq \<noteq> 0" and "Ticks \<le> 18446744073"
  shows "unat (fst (elapsed Ticks Freq)) = unat Ticks div unat Freq \<and>
    unat (snd (elapsed Ticks Freq)) = (unat Ticks mod unat Freq) * 1000000000 div unat Freq"
proof -
  let ?t = "unat Ticks" and ?f = "unat Freq"
  have f: "0 < ?f" using assms(1) by (simp add: unat_gt_0)
  have t: "?t \<le> 18446744073" using assms(2) by (simp add: word_le_nat_alt)
  have n: "unat NANOS_PER_SEC = 1000000000" by (simp add: rpc_consts)
  have prod: "unat (Ticks * NANOS_PER_SEC) = ?t * 1000000000"
    using t n by (subst iffD1 [OF unat_mult_lem]) simp_all
  have secs: "unat (Ticks div Freq) = ?t div ?f"
    by (rule unat_div_distrib)
  have "?t div ?f \<le> 18446744073"
    using t div_le_dividend [of ?t ?f] by linarith
  then have smul: "unat (Ticks div Freq * NANOS_PER_SEC) = ?t div ?f * 1000000000"
    using n secs by (subst iffD1 [OF unat_mult_lem]) simp_all
  have nan: "unat ((Ticks * NANOS_PER_SEC) div Freq) = ?t * 1000000000 div ?f"
    by (simp only: unat_div_distrib prod)
  have split: "?t * 1000000000 div ?f = ?t div ?f * 1000000000 + (?t mod ?f * 1000000000) div ?f"
    by (rule scaled_div) (rule f)
  then have "Ticks div Freq * NANOS_PER_SEC \<le> (Ticks * NANOS_PER_SEC) div Freq"
    by (simp add: word_le_nat_alt smul nan)
  then have "unat ((Ticks * NANOS_PER_SEC) div Freq - Ticks div Freq * NANOS_PER_SEC)
      = ?t mod ?f * 1000000000 div ?f"
    by (simp add: unat_sub smul nan split)
  then show ?thesis
    by (simp add: elapsed_def Let_def secs)
qed

lemma elapsed_wraps: "elapsed 18446744074 24000000 = (768, 18446743305709551628)"
  by (simp add: elapsed_def rpc_consts)

end
