(* ===== verification/OpteePool.thy ===== *)
theory OpteePool
  imports OpteeSpec
begin

text \<open>
  The shared pool while the secure world's requests are served: a request that respects the message
  protocol - messages and buffers inside blocks the secure world was given, supported types, no block
  freed under the message it is named in - is always answered, and the pool keeps its invariant and
  every block still in use.
\<close>

section \<open>Writes inside blocks\<close>

lemma user_writes_ok:
  assumes E: "window_ok E" and ok: "shm_ok E live s"
    and m: "\<And>x. x \<notin> user_area (live (Gcd s)) \<Longrightarrow> m x = Memory s x"
  shows "shm_ok E live (s\<lparr>Memory := m\<rparr>)"
proof -
  have head: "x \<notin> user_area (live (Gcd s))" if q: "q \<in> live (Gcd s)" and x: "x \<in> blk (header_of (fst q)) sizeof_HEADER" for q x
  proof
    assume "x \<in> user_area (live (Gcd s))"
    then obtain r where r: "r \<in> live (Gcd s)" "x \<in> blk (UserBase_of (fst r)) (user_size (snd r))"
      by (auto simp: user_area_def)
    show False
    proof (cases "q = r")
      case True
      with x r live_block(7) [OF E ok q] show False by auto
    next
      case False
      then have "apart q r" using ok q r(1) by (auto simp: shm_ok_def)
      with x r live_block(5) [OF E ok q] live_block(6) [OF E ok r(1)] show False
        by (auto simp: apart_def)
    qed
  qed
  have "names_block (read_header (header_of (fst q)) m) q" if q: "q \<in> live (Gcd s)" for q
  proof -
    have "read_header (header_of (fst q)) m = read_header (header_of (fst q)) (Memory s)"
      using head [OF q] m by (intro read_header_cong) auto
    then show ?thesis using live_block(4) [OF E ok q] by simp
  qed
  moreover have "m x = Memory s x" if "\<forall>r\<in>live (Gcd s). x \<notin> blk (fst r) (snd r)" for x
  proof -
    have "x \<notin> user_area (live (Gcd s))"
      using that live_block(6) [OF E ok] by (fastforce simp: user_area_def)
    then show ?thesis by (rule m)
  qed
  ultimately show ?thesis
    using ok by (auto simp: shm_ok_def)
qed

section \<open>Requests that keep the pool\<close>

text \<open>The pool is sound and the blocks \<open>K\<close> are still handed out.\<close>

definition good :: "('g, 't) TeeEnv \<Rightarrow> ('g \<Rightarrow> (u64 \<times> u64) set) \<Rightarrow> (u64 \<times> u64) set \<Rightarrow> ('g, 't) World \<Rightarrow> bool" where
  "good E live K w \<longleftrightarrow> shm_ok (ShmE E) live (Shm w) \<and> K \<subseteq> live (Gcd (Shm w))"

definition runs_good ::
    "('g, 't) TeeEnv \<Rightarrow> ('g \<Rightarrow> (u64 \<times> u64) set) \<Rightarrow> (u64 \<times> u64) set \<Rightarrow> ('g, 't, 'a) tee \<Rightarrow> ('g, 't) World \<Rightarrow> bool" where
  "runs_good E live K m w \<longleftrightarrow> (\<exists>x w'. m w = Ret (x, w') \<and> good E live K w')"

lemma runs_ret: "good E live K w \<Longrightarrow> runs_good E live K (ret x) w"
  by (simp add: runs_good_def ret_def)

lemma runs_bind: "m w = Ret (x, w') \<Longrightarrow> runs_good E live K (f x) w' \<Longrightarrow> runs_good E live K (bindM m f) w"
  by (simp add: runs_good_def bindM_def)

lemma runs_bind_good:
  assumes "runs_good E live K m w"
    and "\<And>x w'. m w = Ret (x, w') \<Longrightarrow> good E live K w' \<Longrightarrow> runs_good E live K (f x) w'"
  shows "runs_good E live K (bindM m f) w"
  using assms by (auto simp: runs_good_def bindM_def)

lemma runs_read: "runs_good E live K (f (g (Memory (Shm w)))) w \<Longrightarrow> runs_good E live K (bindM (readM g) f) w"
  by (rule runs_bind [OF readM_run])

lemma good_with_mem:
  assumes "window_ok (ShmE E)" and "good E live K w" and "\<And>x. x \<notin> user_area K \<Longrightarrow> m x = Memory (Shm w) x"
  shows "good E live K (with_mem m w)"
proof -
  have "user_area K \<subseteq> user_area (live (Gcd (Shm w)))"
    using assms(2) by (auto simp: good_def user_area_def)
  then have "shm_ok (ShmE E) live ((Shm w)\<lparr>Memory := m\<rparr>)"
    using assms by (intro user_writes_ok) (auto simp: good_def)
  with assms(2) show ?thesis
    by (simp add: good_def with_mem_def)
qed

lemma runs_write:
  assumes "window_ok (ShmE E)" and "good E live K w"
    and "\<And>x m. x \<notin> user_area K \<Longrightarrow> f m x = m x"
  shows "runs_good E live K (writeM f) w"
  using good_with_mem [OF assms(1,2), of "f (Memory (Shm w))"] assms(3)
  by (simp add: runs_good_def writeM_run)

lemma poke_in_area:
  "blk a (of_nat (length bs)) \<subseteq> user_area K \<Longrightarrow> length bs < 2 ^ 64 \<Longrightarrow> x \<notin> user_area K \<Longrightarrow> poke a bs m x = m x"
  using unat_of_nat [of "length bs", where 'a = 64] by (intro poke_outside) (auto simp: blk_iff)

lemma good_rest: "good E live K w \<Longrightarrow> good E live K (w\<lparr>Rest := t\<rparr>)"
  by (simp add: good_def)

lemma runs_alloc:
  assumes "window_ok (ShmE E)" and "gcd_contract (ShmE E) live" and "good E live K w"
    and "fits len" and "valid_alignment al"
  shows "runs_good E live K (on_shm (OpteeClientAlignedMemAlloc (ShmE E) len al)) w"
proof -
  have ok: "shm_ok (ShmE E) live (Shm w)"
    using assms(3) by (simp add: good_def)
  obtain p s where run: "OpteeClientAlignedMemAlloc (ShmE E) len al (Shm w) = Ret (p, s)"
    and sub: "live (Gcd (Shm w)) \<subseteq> live (Gcd s)"
    using InternalMemAlloc_run [OF assms(1,2) ok assms(4,5)]
  proof cases
    case (1 g)
    then show ?thesis
      by (intro that [of 0 "(Shm w)\<lparr>Gcd := g\<rparr>"]) (simp_all add: OpteeClientAlignedMemAlloc_def)
  next
    case (2 b g)
    then show ?thesis
      by (intro that [of "UserBase_of b" "claimed (b, BlockSize_of len) g (Shm w)"])
        (auto simp: OpteeClientAlignedMemAlloc_def claimed_def)
  qed
  have "shm_ok (ShmE E) live s"
    by (rule alloc_ok [OF assms(1,2) ok assms(4) run])
  with sub assms(3) run show ?thesis
    by (auto simp: runs_good_def on_shm_def good_def)
qed

lemma runs_free:
  assumes "window_ok (ShmE E)" and "gcd_contract (ShmE E) live" and "good E live K w"
    and q: "q \<in> live (Gcd (Shm w))" and "q \<notin> K"
  shows "runs_good E live K (on_shm (OpteeClientMemFree (ShmE E) (UserBase_of (fst q)))) w"
proof -
  have ok: "shm_ok (ShmE E) live (Shm w)"
    using assms(3) by (simp add: good_def)
  obtain g where g: "live g = live (Gcd (Shm w)) - {q}"
    "OpteeClientMemFree (ShmE E) (UserBase_of (fst q)) (Shm w) = Ret (EFI_SUCCESS, released q g (Shm w))"
    using Free_run_at [OF assms(2) q] live_block(4) [OF assms(1) ok q] by blast
  have "shm_ok (ShmE E) live (released q g (Shm w))"
    by (rule released_ok [OF assms(1) ok q g(1)])
  moreover have "K \<subseteq> live (Gcd (released q g (Shm w)))"
    using assms(3,5) g(1) by (auto simp: good_def released_def)
  ultimately show ?thesis
    using g(2) by (simp add: runs_good_def on_shm_def good_def)
qed

section \<open>Requests that respect the protocol\<close>

text \<open>A buffer of \<open>l\<close> bytes inside a block that stays handed out.\<close>

definition holds :: "(u64 \<times> u64) set \<Rightarrow> u64 \<Rightarrow> nat \<Rightarrow> bool" where
  "holds K a l \<longleftrightarrow> l < 2 ^ 64 \<and> blk a (of_nat l) \<subseteq> user_area K"

lemma holds_poke: "holds K a (length bs) \<Longrightarrow> x \<notin> user_area K \<Longrightarrow> poke a bs m x = m x"
  by (auto simp: holds_def intro: poke_in_area)

text \<open>The words of the first two parameters of a request.\<close>

abbreviation req_word :: "u64 \<Rightarrow> nat \<Rightarrow> u64 \<Rightarrow> memory \<Rightarrow> u64" where
  "req_word p i d \<equiv> read_u64 (param_at (p + msg_params) i + d)"

definition confined :: "(u64 \<times> u64) set \<Rightarrow> (memory \<Rightarrow> 't \<Rightarrow> 'a \<times> memory \<times> 't) \<Rightarrow> bool" where
  "confined K f \<longleftrightarrow> (\<forall>m t x. x \<notin> user_area K \<longrightarrow> fst (snd (f m t)) x = m x)"

text \<open>The services of the RPMB protocol write only inside the blocks, and the request is one of the four.\<close>

definition honest_rpmb :: "(u64 \<times> u64) set \<Rightarrow> 't EFI_RPMB_IO \<Rightarrow> u64 \<Rightarrow> u64 \<Rightarrow> memory \<Rightarrow> bool" where
  "honest_rpmb K io req rsp m \<longleftrightarrow>
     (if read_u16 req m = RPMB_CMD_DATA_REQ then
        be_u16_at (req + sizeof_rpmb_req + packet_field ''RequestOrResponseType'') m
          \<in> {EFI_RPMB_REQUEST_PROGRAM_KEY, EFI_RPMB_REQUEST_COUNTER_VALUE,
              EFI_RPMB_REQUEST_AUTH_WRITE, EFI_RPMB_REQUEST_AUTH_READ} \<and>
        (\<forall>b c. confined K (IoProgramKey io b rsp) \<and> confined K (IoReadCounter io b rsp) \<and>
           confined K (IoAuthenticatedWrite io (b, c) rsp) \<and> confined K (IoAuthenticatedRead io b (rsp, c)))
      else read_u16 req m = RPMB_CMD_GET_DEV_INFO \<and> length (IoCid io) = 16 \<and> holds K rsp 19)"

definition honest_command ::
    "('g, 't) TeeEnv \<Rightarrow> ('g \<Rightarrow> (u64 \<times> u64) set) \<Rightarrow> (u64 \<times> u64) set \<Rightarrow> u64 \<Rightarrow> ('g, 't) World \<Rightarrow> bool" where
  "honest_command E live K p w \<longleftrightarrow>
     (let m = Memory (Shm w); cmd = read_u32 (p + msg_cmd) m
      in if cmd = OPTEE_MSG_RPC_CMD_LOAD_TA then
           \<forall>u t st d. fst (GetSectionFromAnyFv E u t) = (st, d) \<longrightarrow> \<not> EFI_ERROR st \<longrightarrow>
             of_nat (length d) \<le> req_word p 1 param_b m \<longrightarrow> holds K (req_word p 1 param_a m) (length d)
         else if cmd = OPTEE_MSG_RPC_CMD_RPMB then
           \<forall>t. honest_rpmb K (snd (fst (LocateRpmbIo E t))) (req_word p 0 param_a m) (req_word p 1 param_a m) m
         else if cmd = OPTEE_MSG_RPC_CMD_GET_TIME then PerformanceCounterFrequency E \<noteq> 0
         else if cmd = OPTEE_MSG_RPC_CMD_WAIT_QUEUE then
           req_word p 0 param_a m \<in> {OPTEE_MSG_RPC_WAIT_QUEUE_SLEEP, OPTEE_MSG_RPC_WAIT_QUEUE_WAKEUP}
         else if cmd = OPTEE_MSG_RPC_CMD_SHM_ALLOC then
           req_word p 0 param_a m \<in> {OPTEE_MSG_RPC_SHM_TYPE_APPL, OPTEE_MSG_RPC_SHM_TYPE_KERNEL} \<and>
           fits (req_word p 0 param_b m) \<and> valid_alignment (req_word p 0 param_c m)
         else cmd = OPTEE_MSG_RPC_CMD_SHM_FREE \<and>
           req_word p 0 param_a m \<in> {OPTEE_MSG_RPC_SHM_TYPE_APPL, OPTEE_MSG_RPC_SHM_TYPE_KERNEL} \<and>
           (\<exists>q\<in>live (Gcd (Shm w)) - K. req_word p 0 param_b m = UserBase_of (fst q)))"

text \<open>The request in the registers; its message, if it has one, lies in a block of \<open>K\<close>.\<close>

definition honest_request ::
    "('g, 't) TeeEnv \<Rightarrow> ('g \<Rightarrow> (u64 \<times> u64) set) \<Rightarrow> (u64 \<times> u64) set \<Rightarrow> ARM_SMC_ARGS \<Rightarrow> ('g, 't) World \<Rightarrow> bool" where
  "honest_request E live K args w \<longleftrightarrow> OPTEE_SMC_RETURN_IS_RPC (Arg0 args) \<and>
     (let f = OPTEE_SMC_RETURN_GET_RPC_FUNC (Arg0 args); p = address64 (Arg1 args) (Arg2 args)
      in if f = OPTEE_SMC_RPC_FUNC_ALLOC then fits (Arg1 args)
         else if f = OPTEE_SMC_RPC_FUNC_FREE then \<exists>q\<in>live (Gcd (Shm w)) - K. p = UserBase_of (fst q)
         else if f = OPTEE_SMC_RPC_FUNC_FOREIGN_INTR then True
         else f = OPTEE_SMC_RPC_FUNC_CMD \<and> p \<noteq> 0 \<and>
           holds K p (unat (OPTEE_MSG_GET_ARG_SIZE 2)) \<and> honest_command E live K p w)"

section \<open>They are answered and keep the pool\<close>

lemma runs_check_one:
  "good E live K w \<Longrightarrow> runs_good E live K body w \<Longrightarrow> runs_good E live K (check_one p t body) w"
  unfolding check_one_def num_params_of_def param_type_def bindM_assoc
  by (auto intro!: runs_read runs_ret)

lemma runs_check_two:
  "good E live K w \<Longrightarrow> runs_good E live K body w \<Longrightarrow> runs_good E live K (check_two p t t' body) w"
  unfolding check_two_def num_params_of_def param_type_def bindM_assoc
  by (auto intro!: runs_read runs_ret)

lemma message_field:
  assumes "holds K p (unat (OPTEE_MSG_GET_ARG_SIZE 2))" and "unat d + k \<le> 96" and "0 < k"
  shows "holds K (p + d) k"
proof -
  have k: "unat (of_nat k :: u64) = k"
    using assms(2) unat_of_nat [of k, where 'a = 64] by simp
  have "blk (p + d) (of_nat k) \<subseteq> blk p (OPTEE_MSG_GET_ARG_SIZE 2)"
    by (rule sub_block) (use assms(2) k in \<open>simp add: ARG_SIZE_unat\<close>)
  with assms(1,2) show ?thesis
    by (auto simp: holds_def)
qed

lemma param_field:
  assumes "holds K p (unat (OPTEE_MSG_GET_ARG_SIZE 2))" and "i < 2" and "unat d \<le> 24"
  shows "holds K (param_at (p + msg_params) i + d) 8"
proof -
  have "i = 0 \<or> i = 1" using assms(2) by auto
  then have eq: "param_at (p + msg_params) i + d = p + (of_nat (32 + 32 * i) + d)"
    by (auto simp: param_at_offset msg_offsets add_ac)
  have "unat (of_nat (32 + 32 * i) + d) \<le> 32 + 32 * i + unat d"
    using \<open>i = 0 \<or> i = 1\<close> unat_word_ariths(1) [of "of_nat (32 + 32 * i)" d] by (auto simp: mod_less_eq_dividend)
  then show ?thesis
    unfolding eq using assms(2,3) by (intro message_field [OF assms(1)]) simp_all
qed

lemma runs_write_u64:
  assumes "window_ok (ShmE E)" and "good E live K w" and "holds K a 8"
  shows "runs_good E live K (writeM (write_u64 a v)) w"
  using assms holds_poke [of K a "le_bytes 8 v"] unfolding write_u64_def by (intro runs_write) simp_all

lemma runs_write_u32:
  assumes "window_ok (ShmE E)" and "good E live K w" and "holds K a 4"
  shows "runs_good E live K (writeM (write_u32 a v)) w"
  using assms holds_poke [of K a "le_bytes 4 v"] unfolding write_u32_def by (intro runs_write) simp_all

lemma runs_poke:
  assumes "window_ok (ShmE E)" and "good E live K w" and "holds K a (length bs)"
  shows "runs_good E live K (writeM (poke a bs)) w"
  using assms holds_poke by (intro runs_write)

lemma runs_set_result:
  assumes "window_ok (ShmE E)" and "holds K p (unat (OPTEE_MSG_GET_ARG_SIZE 2))"
    and "runs_good E live K body w"
  shows "runs_good E live K (set_result p body) w"
  unfolding set_result_def
  by (intro runs_bind_good [OF assms(3)] runs_bind_good [OF runs_write_u32] runs_ret
      message_field [OF assms(2)] assms(1)) (simp_all add: msg_offsets)

lemma runs_restM: "good E live K w \<Longrightarrow>
   (\<And>t. runs_good E live K (g (fst (f (Rest w)))) (w\<lparr>Rest := t\<rparr>)) \<Longrightarrow> runs_good E live K (bindM (restM f) g) w"
  by (simp add: runs_good_def bindM_def restM_def split_beta)

lemma runs_serviceM:
  assumes "window_ok (ShmE E)" and "good E live K w" and "confined K f"
  shows "runs_good E live K (teec_generic (serviceM f)) w"
proof -
  obtain st m t where f: "f (Memory (Shm w)) (Rest w) = (st, m, t)"
    by (metis surj_pair)
  have "good E live K (with_mem m w)"
    using assms(3) f by (intro good_with_mem [OF assms(1,2)]) (metis confined_def fst_conv snd_conv)
  then have "good E live K ((with_mem m w)\<lparr>Rest := t\<rparr>)"
    by (rule good_rest)
  then show ?thesis
    by (simp add: runs_good_def teec_generic_def serviceM_def bindM_def f ret_def with_mem_def)
qed

lemma runs_assert: "b \<Longrightarrow> runs_good E live K (f ()) w \<Longrightarrow> runs_good E live K (bindM (ASSERT b) f) w"
  by (simp add: ASSERT_def)

text \<open>Each command, at a message inside a block of \<open>K\<close>.\<close>

lemma runs_LoadTa:
  assumes E: "window_ok (ShmE E)" and g: "good E live K w"
    and p: "holds K p (unat (OPTEE_MSG_GET_ARG_SIZE 2))"
    and h: "\<forall>u t st d. fst (GetSectionFromAnyFv E u t) = (st, d) \<longrightarrow> \<not> EFI_ERROR st \<longrightarrow>
      of_nat (length d) \<le> req_word p 1 param_b (Memory (Shm w)) \<longrightarrow>
      holds K (req_word p 1 param_a (Memory (Shm w))) (length d)"
  shows "runs_good E live K (OpteeRpcCmdLoadTa E p) w"
  unfolding OpteeRpcCmdLoadTa_def Let_def
proof (intro runs_set_result [OF E p] runs_check_two g runs_read runs_restM, goal_cases)
  case (1 t)
  let ?u = "swap_uuid (read_uuid (param_at (p + msg_params) 0 + param_a) (Memory (Shm w)))"
  obtain st d where d: "fst (GetSectionFromAnyFv E ?u (Rest w)) = (st, d)"
    by (metis surj_pair)
  have g': "good E live K (w\<lparr>Rest := t\<rparr>)"
    by (rule good_rest [OF g])
  have f: "holds K (param_at (p + msg_params) 1 + param_b) 8"
    by (rule param_field [OF p]) (simp_all add: param_offsets)
  show ?case
  proof (cases "EFI_ERROR st")
    case True
    then show ?thesis by (simp add: d runs_ret [OF g'])
  next
    case False
    then have "holds K (req_word p 1 param_a (Memory (Shm w))) (length d)"
      if "of_nat (length d) \<le> req_word p 1 param_b (Memory (Shm w))"
      using h d that by blast
    then have copy: "runs_good E live K (bindM (readM (read_u64 (param_at (p + msg_params) 1 + param_a)))
        (\<lambda>buf_ptr. bindM (writeM (poke buf_ptr d)) (\<lambda>_. ret TEEC_SUCCESS))) (w\<lparr>Rest := t\<rparr>)"
      if "of_nat (length d) \<le> req_word p 1 param_b (Memory (Shm w))"
      using that by (intro runs_read runs_bind_good [OF runs_poke [OF E g']] runs_ret) simp_all
    have tell: "runs_good E live K (bindM (writeM (write_u64 (param_at (p + msg_params) 1 + param_b) v))
        (\<lambda>_. ret TEEC_SUCCESS)) (w\<lparr>Rest := t\<rparr>)" for v
      by (intro runs_bind_good [OF runs_write_u64 [OF E g' f]] runs_ret)
    show ?thesis
      using False copy tell by (simp add: d not_less del: One_nat_def)
  qed
qed

lemma runs_Rpmb:
  assumes E: "window_ok (ShmE E)" and g: "good E live K w"
    and p: "holds K p (unat (OPTEE_MSG_GET_ARG_SIZE 2))"
    and h: "\<forall>t. honest_rpmb K (snd (fst (LocateRpmbIo E t))) (req_word p 0 param_a (Memory (Shm w)))
      (req_word p 1 param_a (Memory (Shm w))) (Memory (Shm w))"
  shows "runs_good E live K (OpteeRpcCmdRpmb E p) w"
  unfolding OpteeRpcCmdRpmb_def
proof (intro runs_set_result [OF E p] runs_check_two g runs_restM, goal_cases)
  case (1 t)
  let ?m = "Memory (Shm w)" and ?w = "w\<lparr>Rest := t\<rparr>"
  let ?req = "req_word p 0 param_a ?m" and ?rsp = "req_word p 1 param_a ?m"
  obtain st io where io: "fst (LocateRpmbIo E (Rest w)) = (st, io)"
    by (metis surj_pair)
  have g': "good E live K ?w"
    by (rule good_rest [OF g])
  have h': "honest_rpmb K io ?req ?rsp (Memory (Shm ?w))"
    using h [rule_format, of "Rest w"] io by simp
  have data: "runs_good E live K (rpmb_data_request io ?req ?rsp) ?w"
    if "read_u16 ?req (Memory (Shm ?w)) = RPMB_CMD_DATA_REQ"
    unfolding rpmb_data_request_def Let_def
    using h' that by (intro runs_read) (auto simp: honest_rpmb_def intro!: runs_serviceM [OF E g'] runs_read)
  have info: "runs_good E live K (rpmb_dev_info io ?rsp) ?w"
    if "read_u16 ?req (Memory (Shm ?w)) = RPMB_CMD_GET_DEV_INFO"
  proof -
    have hold: "length (IoCid io) = 16" "holds K ?rsp 19"
      using h' that by (simp_all add: honest_rpmb_def rpc_consts)
    have sub: "holds K (?rsp + d) l" if "unat d + l \<le> 19" for d l
    proof -
      have l: "unat (of_nat l :: u64) = l"
        using that unat_of_nat [of l, where 'a = 64] by simp
      have "blk (?rsp + d) (of_nat l) \<subseteq> blk ?rsp (of_nat 19)"
        by (rule sub_block) (use that l in simp)
      with hold(2) that show ?thesis by (auto simp: holds_def)
    qed
    show ?thesis
      unfolding rpmb_dev_info_def
      using hold(1) sub [of 0 16] sub [of 17 1] sub [of 16 1] sub [of 18 1]
      by (intro runs_bind_good [OF runs_poke [OF E]] runs_ret g') simp_all
  qed
  show ?case
    using h' data info
    by (auto simp: io honest_rpmb_def intro!: runs_ret [OF g'] runs_read split: if_splits)
qed

lemma runs_ShmAlloc:
  assumes E: "window_ok (ShmE E)" "gcd_contract (ShmE E) live" and g: "good E live K w"
    and p: "holds K p (unat (OPTEE_MSG_GET_ARG_SIZE 2))"
    and h: "req_word p 0 param_a (Memory (Shm w)) \<in> {OPTEE_MSG_RPC_SHM_TYPE_APPL, OPTEE_MSG_RPC_SHM_TYPE_KERNEL}"
      "fits (req_word p 0 param_b (Memory (Shm w)))" "valid_alignment (req_word p 0 param_c (Memory (Shm w)))"
  shows "runs_good E live K (OpteeRpcCmdShmAlloc E p) w"
proof -
  have f: "holds K (param_at (p + msg_params) 0 + d) 8" if "unat d \<le> 24" for d
    by (rule param_field [OF p]) (simp_all add: that)
  show ?thesis
    unfolding OpteeRpcCmdShmAlloc_def Let_def check_shm_type_def
    using h f [of 0]
    by (intro runs_check_one g runs_read runs_assert runs_bind_good [OF runs_alloc [OF E g]])
      (auto intro!: runs_ret runs_bind_good [OF runs_write_u64 [OF E(1)]] f simp: param_offsets)
qed

lemma runs_ShmFree:
  assumes E: "window_ok (ShmE E)" "gcd_contract (ShmE E) live" and g: "good E live K w"
    and h: "req_word p 0 param_a (Memory (Shm w)) \<in> {OPTEE_MSG_RPC_SHM_TYPE_APPL, OPTEE_MSG_RPC_SHM_TYPE_KERNEL}"
      "q \<in> live (Gcd (Shm w)) - K" "req_word p 0 param_b (Memory (Shm w)) = UserBase_of (fst q)"
  shows "runs_good E live K (OpteeRpcCmdShmFree E p) w"
  unfolding OpteeRpcCmdShmFree_def Let_def check_shm_type_def
proof (intro runs_check_one g runs_read runs_assert)
  have q: "q \<in> live (Gcd (Shm w))" "q \<notin> K" using h(2) by auto
  show "runs_good E live K (bindM (on_shm (OpteeClientMemFree (ShmE E) (req_word p 0 param_b (Memory (Shm w)))))
      (\<lambda>Status. ret (if EFI_ERROR Status then TEEC_ERROR_BAD_STATE else TEEC_SUCCESS))) w"
    unfolding h(3) by (intro runs_bind_good [OF runs_free [OF E g q]] runs_ret)
qed (use h(1) in auto)

lemma runs_GetTime:
  assumes E: "window_ok (ShmE E)" and g: "good E live K w"
    and p: "holds K p (unat (OPTEE_MSG_GET_ARG_SIZE 2))" and "PerformanceCounterFrequency E \<noteq> 0"
  shows "runs_good E live K (OpteeRpcCmdGetTime E p) w"
proof -
  have f: "holds K (param_at (p + msg_params) 0 + d) 8" if "unat d \<le> 24" for d
    by (rule param_field [OF p]) (simp_all add: that)
  show ?thesis
    unfolding OpteeRpcCmdGetTime_def Let_def using assms(4)
    by (intro runs_check_one g runs_restM)
      (auto split: prod.splits intro!: runs_bind_good [OF runs_write_u64 [OF E good_rest [OF g]]]
        runs_bind_good [OF runs_write_u64 [OF E]] runs_ret f simp: param_offsets)
qed

lemma runs_WaitQueue:
  assumes g: "good E live K w"
    and "req_word p 0 param_a (Memory (Shm w)) \<in> {OPTEE_MSG_RPC_WAIT_QUEUE_SLEEP, OPTEE_MSG_RPC_WAIT_QUEUE_WAKEUP}"
  shows "runs_good E live K (OpteeRpcCmdWaitQueue p) w"
  unfolding OpteeRpcCmdWaitQueue_def
  using assms(2) by (intro runs_check_one g runs_read runs_assert runs_ret) auto

lemma runs_command:
  assumes E: "window_ok (ShmE E)" "gcd_contract (ShmE E) live" and g: "good E live K w"
    and p: "holds K p (unat (OPTEE_MSG_GET_ARG_SIZE 2))" and h: "honest_command E live K p w"
  shows "runs_good E live K (rpc_command E p (read_u32 (p + msg_cmd) (Memory (Shm w)))) w"
proof -
  let ?c = "read_u32 (p + msg_cmd) (Memory (Shm w))"
  note codes = OPTEE_MSG_RPC_CMD_LOAD_TA_def OPTEE_MSG_RPC_CMD_RPMB_def OPTEE_MSG_RPC_CMD_GET_TIME_def
    OPTEE_MSG_RPC_CMD_WAIT_QUEUE_def OPTEE_MSG_RPC_CMD_SHM_ALLOC_def OPTEE_MSG_RPC_CMD_SHM_FREE_def
  consider "?c = OPTEE_MSG_RPC_CMD_LOAD_TA" | "?c = OPTEE_MSG_RPC_CMD_RPMB" | "?c = OPTEE_MSG_RPC_CMD_GET_TIME"
    | "?c = OPTEE_MSG_RPC_CMD_WAIT_QUEUE" | "?c = OPTEE_MSG_RPC_CMD_SHM_ALLOC" | "?c = OPTEE_MSG_RPC_CMD_SHM_FREE"
    using h by (auto simp: honest_command_def Let_def split: if_splits)
  then show ?thesis
  proof cases
    case 1
    with h runs_LoadTa [OF E(1) g p] show ?thesis by (simp add: rpc_command_def honest_command_def Let_def)
  next
    case 2
    with h runs_Rpmb [OF E(1) g p] show ?thesis by (simp add: rpc_command_def honest_command_def Let_def codes)
  next
    case 3
    with h runs_GetTime [OF E(1) g p] show ?thesis by (simp add: rpc_command_def honest_command_def Let_def codes)
  next
    case 4
    with h runs_WaitQueue [OF g] show ?thesis by (simp add: rpc_command_def honest_command_def Let_def codes)
  next
    case 5
    with h runs_ShmAlloc [OF E g p] show ?thesis by (simp add: rpc_command_def honest_command_def Let_def codes)
  next
    case 6
    with h runs_ShmFree [OF E g] show ?thesis by (auto simp: rpc_command_def honest_command_def Let_def codes)
  qed
qed

text \<open>
  Property C7. The pool survives the secure world's requests: under the services' contract, every
  request that respects the message protocol is answered - no assertion fails and no request is left
  without an answer - and afterwards the pool's invariant holds and every block the caller and the
  secure world still use is handed out, whatever was allocated, freed, loaded or stored meanwhile.
\<close>
theorem requests_keep_pool:
  assumes "window_ok (ShmE E)" and "gcd_contract (ShmE E) live" and "shm_ok (ShmE E) live (Shm w)"
    and "K \<subseteq> live (Gcd (Shm w))" and "honest_request E live K args w"
  shows "\<exists>r args' w'. OpteeRpcCallback E args w = Ret ((r, args'), w') \<and>
    shm_ok (ShmE E) live (Shm w') \<and> K \<subseteq> live (Gcd (Shm w'))"
proof -
  have g: "good E live K w"
    using assms(3,4) by (simp add: good_def)
  let ?f = "OPTEE_SMC_RETURN_GET_RPC_FUNC (Arg0 args)" and ?p = "address64 (Arg1 args) (Arg2 args)"
  have h: "OPTEE_SMC_RETURN_IS_RPC (Arg0 args)" "?f = OPTEE_SMC_RPC_FUNC_ALLOC \<Longrightarrow> fits (Arg1 args)"
    "?f = OPTEE_SMC_RPC_FUNC_FREE \<Longrightarrow> \<exists>q\<in>live (Gcd (Shm w)) - K. ?p = UserBase_of (fst q)"
    "?f = OPTEE_SMC_RPC_FUNC_CMD \<Longrightarrow>
      ?p \<noteq> 0 \<and> holds K ?p (unat (OPTEE_MSG_GET_ARG_SIZE 2)) \<and> honest_command E live K ?p w"
    "?f \<in> {OPTEE_SMC_RPC_FUNC_ALLOC, OPTEE_SMC_RPC_FUNC_FREE, OPTEE_SMC_RPC_FUNC_FOREIGN_INTR, OPTEE_SMC_RPC_FUNC_CMD}"
    using assms(5) by (auto simp: honest_request_def Let_def smc_consts split: if_splits)
  have al: "valid_alignment OPTEE_CLIENT_MEM_BYTE_ALIGNMENT"
    by (auto simp: valid_alignment_def shm_consts intro!: exI [of _ 4])
  have alloc: "runs_good E live K (OpteeRpcAlloc E args) w" if "fits (Arg1 args)"
  proof -
    have "runs_good E live K (on_shm (OpteeClientMemAlloc (ShmE E) (Arg1 args))) w"
      using runs_alloc [OF assms(1,2) g that al]
      by (simp add: OpteeClientMemAlloc_def OpteeClientAlignedMemAlloc_def)
    then show ?thesis
      unfolding OpteeRpcAlloc_def Let_def by (auto intro!: runs_bind_good runs_ret g)
  qed
  have free: "runs_good E live K (bindM (OpteeRpcFree E args) (\<lambda>r. ret (r, args))) w"
    if q: "q \<in> live (Gcd (Shm w))" "q \<notin> K" "?p = UserBase_of (fst q)" for q
    unfolding OpteeRpcFree_def bindM_assoc q(3)
    by (intro runs_bind_good [OF runs_free [OF assms(1,2) g q(1,2)]]) (simp add: runs_ret)
  have cmd: "runs_good E live K (bindM (rpc_message E ?p) (\<lambda>r. ret (r, args))) w"
    if m: "?p \<noteq> 0" "holds K ?p (unat (OPTEE_MSG_GET_ARG_SIZE 2))" "honest_command E live K ?p w"
    unfolding rpc_message_def bindM_assoc
    by (intro runs_assert runs_read runs_bind_good [OF runs_command [OF assms(1,2) g m(2,3)]]
        runs_bind_good [OF runs_write_u32 [OF assms(1)]] message_field [OF m(2)] m(1))
      (simp_all add: msg_offsets runs_ret)
  have "runs_good E live K (rpc_dispatch E args) w"
    using h alloc free cmd runs_ret [OF g] by (auto simp: rpc_dispatch_def Let_def smc_consts)
  then have "runs_good E live K (OpteeRpcCallback E args) w"
    unfolding OpteeRpcCallback_def using h(1)
    by (intro runs_assert) (auto simp: split_beta intro!: runs_bind_good [of E live K "rpc_dispatch E args"] runs_ret)
  then show ?thesis
    by (auto simp: runs_good_def good_def)
qed

end
