(* ===== verification/AuthVarSpec.thy ===== *)
theory AuthVarSpec
  imports AuthVar OpteePool
begin

text \<open>
  What the variable services promise. The trusted application is a function from the bytes of a
  request to the bytes of its result; through the shared buffers, the message and the monitor call
  every service amounts to one call of it on the documented encoding of the caller's arguments. With
  an application that keeps a variable store, reading and writing variables and the set-up of the
  secure boot variables act on that store as the UEFI specification says.
\<close>

section \<open>Byte strings in a buffer\<close>

lemma read_u32_peek: "i + 4 \<le> n \<Longrightarrow> read_u32 (a + of_nat i) m = of_nat (le_nat (take 4 (drop i (peek n a m))))"
  by (simp add: read_u32_def peek_sub)

section \<open>The trusted application\<close>

text \<open>
  A command with the bytes of the request and the room for the result gives the result code, the two
  words of the value parameter and the bytes of the result.
\<close>

type_synonym 't var_ta = "u32 \<Rightarrow> u8 list \<Rightarrow> nat \<Rightarrow> 't \<Rightarrow> (u32 \<times> u32 \<times> u32 \<times> u8 list) \<times> 't"

text \<open>The message of a variable request, as the application sees it.\<close>

definition var_view :: "u32 \<Rightarrow> u32 \<Rightarrow> u64 \<Rightarrow> u64 \<Rightarrow> u64 \<Rightarrow> u64 \<Rightarrow> u32 \<times> u32 \<times> u32 \<times> words list" where
  "var_view cmd session pb ps rb rs = (OPTEE_MSG_CMD_INVOKE_COMMAND, cmd, session,
     [(ucast OPTEE_MSG_ATTR_TYPE_TMEM_INPUT, pb, ps), (ucast OPTEE_MSG_ATTR_TYPE_TMEM_OUTPUT, rb, rs),
      (ucast OPTEE_MSG_ATTR_TYPE_VALUE_OUTPUT, 0, 0), (ucast OPTEE_MSG_ATTR_TYPE_NONE, 0, 0)])"

definition var_answer :: "u32 \<Rightarrow> u32 \<Rightarrow> u32 \<Rightarrow> u32 \<times> u32 \<times> u32 \<times> words list \<Rightarrow> bool" where
  "var_answer r sz st a \<longleftrightarrow> (case a of (r', _, _, ws) \<Rightarrow>
     r' = r \<and> snd (ws ! 2) = (ucast sz, ucast st))"

text \<open>
  A secure world that serves \<open>ta\<close>: a variable request in a message apart from the result buffer is
  answered with the result in that buffer and nothing else touched outside the message.
\<close>

definition result_fits :: "'t var_ta \<Rightarrow> bool" where
  "result_fits ta \<longleftrightarrow> (\<forall>cmd request n t. length (snd (snd (snd (fst (ta cmd request n t))))) \<le> n)"

definition serves_variables :: "('g, 't) TeeEnv \<Rightarrow> 't var_ta \<Rightarrow> bool" where
  "serves_variables E ta \<longleftrightarrow> result_fits ta \<and> (\<forall>p m t cmd session pb ps rb rs r sz st bytes t'.
     msg_view 4 p m = var_view cmd session pb ps rb rs \<longrightarrow> read_u32 (p + msg_num_params) m = 4 \<longrightarrow>
     blk p (OPTEE_MSG_GET_ARG_SIZE 4) \<inter> blk rb rs = {} \<longrightarrow>
     ta cmd (peek (unat ps) pb m) (unat rs) t = ((r, sz, st, bytes), t') \<longrightarrow>
     (\<exists>args m'. ArmCallSmc E (call_args p) m t = (args, m', t') \<and> Arg0 args = OPTEE_SMC_RETURN_OK \<and>
        var_answer r sz st (msg_answer 4 p m') \<and>
        (\<forall>x. x \<notin> blk p (OPTEE_MSG_GET_ARG_SIZE 4) \<longrightarrow> m' x = poke rb bytes m x)))"

section \<open>One request\<close>

lemma var_types:
  "TEEC_PARAM_TYPE_GET (paramTypes (invoke_operation pb ps rb rs)) 0 = TEEC_MEMREF_TEMP_INPUT"
  "TEEC_PARAM_TYPE_GET (paramTypes (invoke_operation pb ps rb rs)) 1 = TEEC_MEMREF_TEMP_OUTPUT"
  "TEEC_PARAM_TYPE_GET (paramTypes (invoke_operation pb ps rb rs)) 2 = TEEC_VALUE_OUTPUT"
  "TEEC_PARAM_TYPE_GET (paramTypes (invoke_operation pb ps rb rs)) 3 = TEEC_NONE"
  by (simp_all add: invoke_operation_def TEEC_PARAM_TYPES_def TEEC_PARAM_TYPE_GET_def teec_params)

lemma four_le: "(4 :: nat) \<le> 6"
  by simp

lemma four: "[0..<4] = [0, 1, 2, 3 :: nat]" "(\<forall>i<4. P i) \<longleftrightarrow> P 0 \<and> P 1 \<and> P 2 \<and> P (3 :: nat)"
  by (simp_all add: upt_rec eval_nat_numeral All_less_Suc conj_ac)

lemma var_kinds:
  "TEEC_MEMREF_TEMP_INPUT \<noteq> TEEC_NONE" "\<not> is_value TEEC_MEMREF_TEMP_INPUT" "is_tmpref TEEC_MEMREF_TEMP_INPUT"
  "TEEC_MEMREF_TEMP_OUTPUT \<noteq> TEEC_NONE" "\<not> is_value TEEC_MEMREF_TEMP_OUTPUT" "is_tmpref TEEC_MEMREF_TEMP_OUTPUT"
  "TEEC_VALUE_OUTPUT \<noteq> TEEC_NONE" "is_value TEEC_VALUE_OUTPUT"
  by (simp_all add: teec_params is_value_def is_tmpref_def)

lemma var_supported: "all_supported (invoke_operation pb ps rb rs)"
  by (simp add: all_supported_def supported_def TEEC_CONFIG_PAYLOAD_REF_COUNT_def four var_types [simplified]
      var_kinds Let_def)

lemma invoke_view_var:
  "invoke_view session cmd (invoke_operation pb ps rb rs)
   = var_view cmd (session_id session) pb (ucast ps) rb (ucast rs)"
proof -
  have "encode_param (invoke_operation pb ps rb rs) 0 (0, 0, 0) = (ucast OPTEE_MSG_ATTR_TYPE_TMEM_INPUT, pb, ucast ps)"
    "encode_param (invoke_operation pb ps rb rs) 1 (0, 0, 0) = (ucast OPTEE_MSG_ATTR_TYPE_TMEM_OUTPUT, rb, ucast rs)"
    "encode_param (invoke_operation pb ps rb rs) 2 (0, 0, 0) = (ucast OPTEE_MSG_ATTR_TYPE_VALUE_OUTPUT, 0, 0)"
    "encode_param (invoke_operation pb ps rb rs) 3 (0, 0, 0) = (ucast OPTEE_MSG_ATTR_TYPE_NONE, 0, 0)"
    unfolding encode_param_def Let_def var_types
    by (simp_all add: var_kinds [unfolded teec_params] is_value_def is_tmpref_def tmpref_buffer_def tmpref_size_def
        value_a_def value_b_def msg_attrs teec_params invoke_operation_def)
  then show ?thesis
    by (simp add: invoke_view_def var_view_def four)
qed

text \<open>The value parameter of an answered request.\<close>

lemma answered_value:
  assumes "var_answer r sz st a"
  shows "Result (answered session (invoke_operation pb ps rb rs) a) = r"
    and "value_a (params (OutOperation (answered session (invoke_operation pb ps rb rs) a)) ! 2) = sz"
    and "value_b (params (OutOperation (answered session (invoke_operation pb ps rb rs) a)) ! 2) = st"
proof -
  obtain o' s' ws where a: "a = (r, o', s', ws)" and w: "snd (ws ! 2) = (ucast sz, ucast st)"
    using assms by (auto simp: var_answer_def)
  show "Result (answered session (invoke_operation pb ps rb rs) a) = r"
    by (simp add: a answered_def)
  have "value_a (set_value x y p) = x" "value_b (set_value x y p) = y" for x y p
    by (simp_all add: value_a_def value_b_def set_value_def) (rule bit_word_eqI; auto simp: bit_simps dest: bit_imp_le_length)+
  moreover have "params (decode_params (nth ws) (invoke_operation pb ps rb rs)) ! 2
      = set_value sz st (params (invoke_operation pb ps rb rs) ! 2)"
    using w by (simp add: decode_params_def TEEC_CONFIG_PAYLOAD_REF_COUNT_def four decode_param_def Let_def
        update_param_def invoke_operation_def TEEC_PARAM_TYPES_def TEEC_PARAM_TYPE_GET_def is_value_def teec_params)
  ultimately show "value_a (params (OutOperation (answered session (invoke_operation pb ps rb rs) a)) ! 2) = sz"
    "value_b (params (OutOperation (answered session (invoke_operation pb ps rb rs) a)) ! 2) = st"
    by (simp_all add: a answered_def)
qed

text \<open>The firmware around the driver, and the driver between its start and the end of boot services.\<close>

definition var_env :: "('g, 't) AuthVarEnv \<Rightarrow> ('g \<Rightarrow> (u64 \<times> u64) set) \<Rightarrow> 't var_ta \<Rightarrow> bool" where
  "var_env E live ta \<longleftrightarrow> window_ok (ShmE (TeeE E)) \<and> gcd_contract (ShmE (TeeE E)) live \<and>
     serves_variables (TeeE E) ta \<and> 0 < SmcFuel E"

definition transport_at :: "TEEC_SharedMemory \<Rightarrow> u64 \<times> u64 \<Rightarrow> bool" where
  "transport_at m r \<longleftrightarrow> shm_buffer m = UserBase_of (fst r) \<and> shm_size m = user_size (snd r)"

definition var_ready :: "('g, 't) AuthVarEnv \<Rightarrow> ('g \<Rightarrow> (u64 \<times> u64) set) \<Rightarrow> ('g, 't) AuthVarState \<Rightarrow> bool" where
  "var_ready E live s \<longleftrightarrow> shm_ok (ShmE (TeeE E)) live (Shm (Tee s)) \<and> \<not> AtRuntime s \<and> mTeecSessionOpened s \<and>
     (\<exists>rp\<in>live (Gcd (Shm (Tee s))). \<exists>rr\<in>live (Gcd (Shm (Tee s))). rp \<noteq> rr \<and>
        transport_at (mVariableParamMem s) rp \<and> transport_at (mVariableResultMem s) rr) \<and>
     shm_size (mVariableResultMem s) = shm_size (mVariableParamMem s) \<and>
     44 \<le> unat (shm_size (mVariableParamMem s)) \<and> unat (shm_size (mVariableParamMem s)) < 2 ^ 31"

text \<open>The state after a service: other memory, other pool services, another rest of the platform.\<close>

definition step_to :: "memory \<Rightarrow> 'g \<Rightarrow> 't \<Rightarrow> ('g, 't) AuthVarState \<Rightarrow> ('g, 't) AuthVarState" where
  "step_to m g t s = s\<lparr>Tee := (Tee s)\<lparr>Shm := (Shm (Tee s))\<lparr>Memory := m, Gcd := g\<rparr>, Rest := t\<rparr>\<rparr>"

abbreviation mem_of :: "('g, 't) AuthVarState \<Rightarrow> memory" where "mem_of s \<equiv> Memory (Shm (Tee s))"
abbreviation gcd_of :: "('g, 't) AuthVarState \<Rightarrow> 'g" where "gcd_of s \<equiv> Gcd (Shm (Tee s))"
abbreviation rest_of :: "('g, 't) AuthVarState \<Rightarrow> 't" where "rest_of s \<equiv> Rest (Tee s)"
abbreviation param_buf :: "('g, 't) AuthVarState \<Rightarrow> u64" where "param_buf s \<equiv> shm_buffer (mVariableParamMem s)"
abbreviation result_buf :: "('g, 't) AuthVarState \<Rightarrow> u64" where "result_buf s \<equiv> shm_buffer (mVariableResultMem s)"
abbreviation room :: "('g, 't) AuthVarState \<Rightarrow> u64" where "room s \<equiv> shm_size (mVariableParamMem s)"

lemma step_to_simps [simp]:
  "mem_of (step_to m g t s) = m" "gcd_of (step_to m g t s) = g" "rest_of (step_to m g t s) = t"
  "mVariableParamMem (step_to m g t s) = mVariableParamMem s"
  "mVariableResultMem (step_to m g t s) = mVariableResultMem s"
  "mTeecSession (step_to m g t s) = mTeecSession s" "mTeecSessionOpened (step_to m g t s) = mTeecSessionOpened s"
  "AtRuntime (step_to m g t s) = AtRuntime s" "Published (step_to m g t s) = Published s"
  "mTeecContext (step_to m g t s) = mTeecContext s"
  "step_to m' g' t' (step_to m g t s) = step_to m' g' t' s"
  "step_to (mem_of s) (gcd_of s) (rest_of s) s = s"
  by (simp_all add: step_to_def)

lemma ready_buffers:
  assumes "var_env E live ta" and "var_ready E live s"
  shows "blk (param_buf s) (room s) \<subseteq> user_area (live (gcd_of s))"
    and "blk (result_buf s) (room s) \<subseteq> user_area (live (gcd_of s))"
    and "blk (param_buf s) (room s) \<inter> blk (result_buf s) (room s) = {}"
    and "param_buf s \<noteq> 0" and "result_buf s \<noteq> 0"
proof -
  have w: "window_ok (ShmE (TeeE E))" and ok: "shm_ok (ShmE (TeeE E)) live (Shm (Tee s))"
    using assms by (simp_all add: var_env_def var_ready_def)
  obtain rp rr where r: "rp \<in> live (gcd_of s)" "rr \<in> live (gcd_of s)" "rp \<noteq> rr"
    and p: "param_buf s = UserBase_of (fst rp)" "room s = user_size (snd rp)"
    and q: "result_buf s = UserBase_of (fst rr)" "room s = user_size (snd rr)"
    using assms(2) unfolding var_ready_def transport_at_def by metis
  show "blk (param_buf s) (room s) \<subseteq> user_area (live (gcd_of s))"
    using r(1) unfolding p user_area_def by blast
  show "blk (result_buf s) (room s) \<subseteq> user_area (live (gcd_of s))"
    using r(2) unfolding q user_area_def by blast
  have "apart rp rr"
    using ok r by (auto simp: shm_ok_def)
  moreover have "blk (param_buf s) (room s) \<subseteq> blk (fst rp) (snd rp)"
    using live_block(6) [OF w ok r(1)] by (simp add: p)
  moreover have "blk (result_buf s) (room s) \<subseteq> blk (fst rr) (snd rr)"
    using live_block(6) [OF w ok r(2)] by (simp add: q(1) flip: q(2))
  ultimately show "blk (param_buf s) (room s) \<inter> blk (result_buf s) (room s) = {}"
    unfolding apart_def by blast
  have "UserBase_of (fst x) \<noteq> 0" if "x \<in> live (gcd_of s)" for x
    using block_parts(4) [OF live_block(3,2) [OF w ok that]] by auto
  then show "param_buf s \<noteq> 0" "result_buf s \<noteq> 0"
    using r p(1) q(1) by simp_all
qed

lemma ready_step:
  assumes "var_env E live ta" and "var_ready E live s" and "live g = live (gcd_of s)"
    and "\<And>x. x \<notin> user_area (live (gcd_of s)) \<Longrightarrow> m x = mem_of s x"
  shows "var_ready E live (step_to m g t s)"
proof -
  have "shm_ok (ShmE (TeeE E)) live (Shm (Tee s)\<lparr>Memory := m\<rparr>)"
    using assms by (intro user_writes_ok) (auto simp: var_env_def var_ready_def)
  then have "shm_ok (ShmE (TeeE E)) live (Shm (Tee (step_to m g t s)))"
    using assms(3) by (simp add: shm_ok_def step_to_def)
  then show ?thesis
    using assms(2,3) by (simp add: var_ready_def)
qed

text \<open>The memory services refuse the block of a message.\<close>

definition no_message :: "('g, 't) AuthVarEnv \<Rightarrow> 'g \<Rightarrow> bool" where
  "no_message E g \<longleftrightarrow> EFI_ERROR (fst (fst (AllocateMemorySpace (gDS (ShmE (TeeE E)))
     EfiGcdAllocateMaxAddressSearchTopDown EfiGcdMemoryTypeReserved OPTEE_SHM_ALLOC_ALIGN_SHIFT
     (BlockSize_of (OPTEE_MSG_GET_ARG_SIZE 4)) (OPTEE_SHM_END (ShmE (TeeE E))) g)))"

lemma no_message_iff:
  assumes "OpteeClientMemAlloc (ShmE (TeeE E)) (OPTEE_MSG_GET_ARG_SIZE 4) s = Ret (p, s')"
    and E: "window_ok (ShmE (TeeE E))" "gcd_contract (ShmE (TeeE E)) live" and ok: "shm_ok (ShmE (TeeE E)) live s"
  shows "no_message E (Gcd s) \<longleftrightarrow> p = 0"
proof
  have al: "valid_alignment OPTEE_CLIENT_MEM_BYTE_ALIGNMENT"
    by (auto simp: valid_alignment_def shm_consts intro!: exI [of _ 4])
  note run = assms(1) [unfolded OpteeClientMemAlloc_def InternalMemAlloc_def]
  obtain st b g where c: "AllocateMemorySpace (gDS (ShmE (TeeE E))) EfiGcdAllocateMaxAddressSearchTopDown
     EfiGcdMemoryTypeReserved OPTEE_SHM_ALLOC_ALIGN_SHIFT (BlockSize_of (OPTEE_MSG_GET_ARG_SIZE 4))
     (OPTEE_SHM_END (ShmE (TeeE E))) (Gcd s) = ((st, b), g)"
    by (metis surj_pair)
  have h: "gDriverImageHandle s \<noteq> 0"
    using ok by (simp add: shm_ok_def)
  show "p = 0" if "no_message E (Gcd s)"
    using run that valid_alignment_accepted [OF al] c h
    by (simp add: no_message_def bindM_def gets_def ASSERT_def ret_def gcdM_def)
  show "no_message E (Gcd s)" if "p = 0"
  proof (rule ccontr)
    assume "\<not> no_message E (Gcd s)"
    then have st: "\<not> EFI_ERROR st" by (simp add: no_message_def c)
    have "take_block (ShmE (TeeE E)) (OPTEE_MSG_GET_ARG_SIZE 4) b (s\<lparr>Gcd := g\<rparr>) = Ret (0, s')"
      using run that valid_alignment_accepted [OF al] c h st
      by (simp add: bindM_def gets_def ASSERT_def ret_def gcdM_def)
    then have 0: "UserBase_of b = 0"
      by (auto simp: take_block_def bindM_def ASSERT_def ret_def stopM_def gets_def claim_block_def modify_def
          split: if_splits)
    have "hands_out (ShmE (TeeE E)) live (BlockSize_of (OPTEE_MSG_GET_ARG_SIZE 4)) (Gcd s) ((st, b), g)"
      using E(2) BlockSize_fits(3) [OF msg_fits [of 4]] c unfolding gcd_contract_def gcd_allocates_def by (metis four_le)
    then have "inside (ShmE (TeeE E)) (b, BlockSize_of (OPTEE_MSG_GET_ARG_SIZE 4))"
      using st by (simp add: hands_out_def)
    from block_parts(4) [OF inside_window(2) [OF E(1) this]] 0 BlockSize_fits(1) [OF msg_fits [of 4]]
    show False by simp
  qed
qed

lemma smc_serves_variables:
  assumes sv: "serves_variables E ta" and "0 < fuel"
    and view: "msg_view 4 p (Memory (Shm v)) = var_view cmd session pb ps rb rs"
      "read_u32 (p + msg_num_params) (Memory (Shm v)) = of_nat 4"
    and apart: "blk p (OPTEE_MSG_GET_ARG_SIZE 4) \<inter> blk rb rs = {}"
    and ta: "ta cmd (peek (unat ps) pb (Memory (Shm v))) (unat rs) (Rest v) = ((r, sz, st, bytes), t')"
  shows "\<exists>m a. OpteeSmcCall E fuel p v = Ret (TEEC_SUCCESS, (with_mem m v)\<lparr>Rest := t'\<rparr>) \<and>
    msg_answer 4 p m = a \<and> var_answer r sz st a \<and>
    (\<forall>x. x \<notin> blk p (OPTEE_MSG_GET_ARG_SIZE 4) \<longrightarrow> m x = poke rb bytes (Memory (Shm v)) x)"
proof -
  have n: "read_u32 (p + msg_num_params) (Memory (Shm v)) = 4"
    using view(2) by simp
  obtain args m where c: "ArmCallSmc E (call_args p) (Memory (Shm v)) (Rest v) = (args, m, t')"
    "Arg0 args = OPTEE_SMC_RETURN_OK" "var_answer r sz st (msg_answer 4 p m)"
    "\<forall>x. x \<notin> blk p (OPTEE_MSG_GET_ARG_SIZE 4) \<longrightarrow> m x = poke rb bytes (Memory (Shm v)) x"
    using conjunct2 [OF sv [unfolded serves_variables_def]] view(1) n apart ta by metis
  have "\<not> OPTEE_SMC_RETURN_IS_RPC (Arg0 args)" "Arg0 args \<noteq> OPTEE_SMC_RETURN_UNKNOWN_FUNCTION"
    by (simp_all add: c(2) smc_consts OPTEE_SMC_RETURN_IS_RPC_def)
  then have "OpteeSmcCall E fuel p v = Ret (TEEC_SUCCESS, (with_mem m v)\<lparr>Rest := t'\<rparr>)"
    using c(2) assms(2)
    by (cases fuel) (simp_all add: OpteeSmcCall_def smcM_def serviceM_def c(1) bindM_def ret_def with_mem_def)
  with c(3,4) show ?thesis by blast
qed

text \<open>What the application makes of the request in the parameter buffer.\<close>

definition ta_run :: "'t var_ta \<Rightarrow> VARIABLE_SERVICE_OPS \<Rightarrow> u32 \<Rightarrow> u32 \<Rightarrow> ('g, 't) AuthVarState \<Rightarrow>
    (u32 \<times> u32 \<times> u32 \<times> u8 list) \<times> 't" where
  "ta_run ta Command ps rs s = ta (op_code Command) (peek (unat ps) (param_buf s) (mem_of s)) (unat rs) (rest_of s)"

lemma ucast_u32_unat [simp]: "unat (ucast (x :: u32) :: u64) = unat x"
  using unsigned_less [of x] by (simp add: unsigned_ucast_eq take_bit_nat_eq_self)

lemma blk_shrink: "unat k \<le> unat l \<Longrightarrow> blk a k \<subseteq> blk a l"
  by (auto simp: blk_iff)

lemma invoke_run:
  assumes env: "var_env E live ta" and ready: "var_ready E live s"
    and le: "unat ps \<le> unat (room s)" "unat rs \<le> unat (room s)"
    and ta: "ta_run ta Command ps rs s = ((r, sz, st, bytes), t)"
    and P: "Param = Some (mVariableParamMem s) \<and> ParamSize = ps \<or> Param = None \<and> ps = 4"
    and R: "Res = Some (mVariableResultMem s) \<and> ResultSize = rs \<or> Res = None \<and> rs = 4"
  shows "length bytes \<le> unat rs" and "\<exists>g. live g = live (gcd_of s) \<and>
    OpteeRuntimeVariableInvokeCommand E Command ParamSize Param ResultSize Res s =
      (if no_message E (gcd_of s) then Ret ((EFI_OUT_OF_RESOURCES, 0, 0), step_to (mem_of s) g (rest_of s) s)
       else Ret ((status_of r, sz, st), step_to (poke (result_buf s) bytes (mem_of s)) g t s))"
proof -
  let ?op = "invoke_operation (param_buf s) ps (result_buf s) rs" and ?U = "user_area (live (gcd_of s))"
  let ?S = "mTeecSession s" and ?w = "Tee s" and ?T = "TeeE E"
  note b = ready_buffers [OF env ready]
  have E: "window_ok (ShmE ?T)" "gcd_contract (ShmE ?T) live" and sv: "serves_variables ?T ta" "0 < SmcFuel E"
    using env by (simp_all add: var_env_def)
  have ok: "shm_ok (ShmE ?T) live (Shm ?w)" using ready by (simp add: var_ready_def)
  have rU: "blk (result_buf s) (ucast rs) \<subseteq> ?U" and pU: "blk (param_buf s) (ucast ps) \<subseteq> ?U"
    using b(1,2) le blk_shrink [of "ucast rs" "room s" "result_buf s"] blk_shrink [of "ucast ps" "room s" "param_buf s"]
    by auto
  have "result_fits ta" using sv by (simp add: serves_variables_def)
  then show len: "length bytes \<le> unat rs"
    using ta unfolding result_fits_def ta_run_def by (metis fst_conv snd_conv)
  have inU: "x \<in> ?U" if "unat (x - result_buf s) < length bytes" for x
    using that len rU by (auto simp: blk_iff)
  have call: "\<exists>m a. OpteeSmcCall ?T (SmcFuel E) p v = Ret (TEEC_SUCCESS, (with_mem m v)\<lparr>Rest := t\<rparr>) \<and>
      msg_answer 4 p m = a \<and> var_answer r sz st a \<and> (\<forall>x. x \<notin> blk p (OPTEE_MSG_GET_ARG_SIZE 4) \<longrightarrow>
        m x = (if x \<in> ?U then poke (result_buf s) bytes (mem_of s) x else Memory (Shm v) x))"
    if ap: "blk p (OPTEE_MSG_GET_ARG_SIZE 4) \<inter> ?U = {}"
      and view: "msg_view 4 p (Memory (Shm v)) = invoke_view ?S (op_code Command) ?op"
        "read_u32 (p + msg_num_params) (Memory (Shm v)) = of_nat 4"
      and mU: "\<And>x. x \<in> ?U \<Longrightarrow> Memory (Shm v) x = mem_of s x" and rest: "Rest v = rest_of s" for p v
  proof -
    have "peek (unat ps) (param_buf s) (Memory (Shm v)) = peek (unat ps) (param_buf s) (mem_of s)"
      using pU mU by (intro peek_eq_on_blk [of _ "ucast ps"]) auto
    then have t: "ta (op_code Command) (peek (unat (ucast ps :: u64)) (param_buf s) (Memory (Shm v)))
        (unat (ucast rs :: u64)) (Rest v) = ((r, sz, st, bytes), t)"
      using ta by (simp add: ta_run_def rest)
    have a: "blk p (OPTEE_MSG_GET_ARG_SIZE 4) \<inter> blk (result_buf s) (ucast rs) = {}"
      using ap rU by blast
    obtain m a where m: "OpteeSmcCall ?T (SmcFuel E) p v = Ret (TEEC_SUCCESS, (with_mem m v)\<lparr>Rest := t\<rparr>)"
      "msg_answer 4 p m = a" "var_answer r sz st a"
      "\<forall>x. x \<notin> blk p (OPTEE_MSG_GET_ARG_SIZE 4) \<longrightarrow> m x = poke (result_buf s) bytes (Memory (Shm v)) x"
      using smc_serves_variables [OF sv view(1) [unfolded invoke_view_var] view(2) a t] by blast
    have "poke (result_buf s) bytes (Memory (Shm v)) x
        = (if x \<in> ?U then poke (result_buf s) bytes (mem_of s) x else Memory (Shm v) x)" for x
      using mU inU by (auto simp: poke_def)
    with m show ?thesis by (intro exI [of _ m] exI [of _ a]) simp
  qed
  have same: "(\<lambda>x. if x \<in> ?U then poke (result_buf s) bytes (mem_of s) x else mem_of s x)
      = poke (result_buf s) bytes (mem_of s)"
    using inU by (auto simp: poke_def)
  obtain p s' g where f: "OpteeClientMemAlloc (ShmE ?T) (OPTEE_MSG_GET_ARG_SIZE 4) (Shm ?w) = Ret (p, s')"
    "live g = live (gcd_of s)"
    "if p = 0 then with_message ?T (SmcFuel E) 4 ?S ?op (fill_invoke ?S (op_code Command) ?op) (answer_invoke ?S ?op) ?w =
       Ret (out_of_memory ?S ?op, ?w\<lparr>Shm := (Shm ?w)\<lparr>Gcd := g\<rparr>\<rparr>)
     else \<exists>a. var_answer r sz st a \<and>
       with_message ?T (SmcFuel E) 4 ?S ?op (fill_invoke ?S (op_code Command) ?op) (answer_invoke ?S ?op) ?w =
       Ret (answered ?S ?op a, ?w\<lparr>Shm := (Shm ?w)\<lparr>Gcd := g,
         Memory := poke (result_buf s) bytes (mem_of s)\<rparr>, Rest := t\<rparr>)"
    using with_message_run [where V = "invoke_view ?S (op_code Command) ?op" and fuel = "SmcFuel E" and t = t
      and Q = "var_answer r sz st" and u = "poke (result_buf s) bytes (mem_of s)" and w = ?w
      and A = "answered ?S ?op" and Session = ?S and Operation = ?op and n = 4 and E = ?T and live = live,
      unfolded same, folded out_of_memory_def,
      OF E ok four_le fill_invoke_run [OF var_supported] call answer_invoke_run [OF var_supported]]
    by blast
  have inv: "OpteeRuntimeVariableInvokeCommand E Command ParamSize Param ResultSize Res s =
      (case TEEC_InvokeCommand ?T (SmcFuel E) (Some ?S) (op_code Command) (Some ?op) ?w of
         Ret (a, w') \<Rightarrow> Ret ((status_of (ApiCode a), value_a (params (the (ApiOperation a)) ! 2),
           value_b (params (the (ApiOperation a)) ! 2)), s\<lparr>Tee := w'\<rparr>)
       | Stop x \<Rightarrow> Stop x)"
    using P R by (auto simp: OpteeRuntimeVariableInvokeCommand_def bindM_def gets_def on_tee_def ret_def Let_def
        split: outcome.splits)
  have zero: "value_a (params ?op ! 2) = 0" "value_b (params ?op ! 2) = 0"
    by (simp_all add: invoke_operation_def value_a_def value_b_def)
  have oom: "status_of TEEC_ERROR_OUT_OF_MEMORY = EFI_OUT_OF_RESOURCES"
    by (simp add: status_of_def teec_results TEEC_ERROR_SHORT_BUFFER_def)
  have run: "OpteeRuntimeVariableInvokeCommand E Command ParamSize Param ResultSize Res s =
      (if p = 0 then Ret ((EFI_OUT_OF_RESOURCES, 0, 0), step_to (mem_of s) g (rest_of s) s)
       else Ret ((status_of r, sz, st), step_to (poke (result_buf s) bytes (mem_of s)) g t s))"
  proof (cases "p = 0")
    case True
    with f(3) show ?thesis
      by (simp add: inv TEEC_InvokeCommand_def TEEC_SMC_InvokeCommand_def TEEC_CONFIG_PAYLOAD_REF_COUNT_def
          or_null_def bindM_def ret_def api_result_def out_of_memory_def zero oom step_to_def)
  next
    case False
    then obtain a where "var_answer r sz st a"
      "with_message ?T (SmcFuel E) 4 ?S ?op (fill_invoke ?S (op_code Command) ?op) (answer_invoke ?S ?op) ?w =
       Ret (answered ?S ?op a, ?w\<lparr>Shm := (Shm ?w)\<lparr>Gcd := g,
         Memory := poke (result_buf s) bytes (mem_of s)\<rparr>, Rest := t\<rparr>)"
      using f(3) by auto
    with False show ?thesis
      by (simp add: inv TEEC_InvokeCommand_def TEEC_SMC_InvokeCommand_def TEEC_CONFIG_PAYLOAD_REF_COUNT_def
          or_null_def bindM_def ret_def api_result_def answered_value step_to_def)
  qed
  have "no_message E (gcd_of s) \<longleftrightarrow> p = 0" by (rule no_message_iff [OF f(1) E ok])
  with run f(2) show "\<exists>g. live g = live (gcd_of s) \<and>
    OpteeRuntimeVariableInvokeCommand E Command ParamSize Param ResultSize Res s =
      (if no_message E (gcd_of s) then Ret ((EFI_OUT_OF_RESOURCES, 0, 0), step_to (mem_of s) g (rest_of s) s)
       else Ret ((status_of r, sz, st), step_to (poke (result_buf s) bytes (mem_of s)) g t s))"
    by (intro exI [of _ g]) simp
qed

end
