(* ===== verification/AuthVarStore.thy ===== *)
theory AuthVarStore
  imports AuthVarSpec
begin

text \<open>
  The four requests as byte strings, and the services over a variable store: what \<open>GetVariable\<close> and
  \<open>SetVariable\<close> do when the trusted application keeps the variables as the UEFI specification asks.
\<close>

section \<open>Requests as byte strings\<close>

definition name_size :: "CHAR16s \<Rightarrow> nat" where "name_size name = 2 * (length name + 1)"

definition get_param_bytes :: "CHAR16s \<Rightarrow> EFI_GUID \<Rightarrow> u8 list" where
  "get_param_bytes name guid = le_bytes 4 (28 :: u32) @ le_bytes 2 (of_nat (name_size name) :: u16) @ [0, 0] @
     guid_bytes guid @ name_bytes name @ [0, 0, 0, 0]"

definition set_param_bytes :: "CHAR16s \<Rightarrow> EFI_GUID \<Rightarrow> u32 \<Rightarrow> u8 list \<Rightarrow> u8 list" where
  "set_param_bytes name guid attr data = le_bytes 4 (44 :: u32) @ le_bytes 2 (of_nat (name_size name) :: u16) @ [0, 0] @
     guid_bytes guid @ le_bytes 4 attr @ le_bytes 4 (of_nat (length data) :: u32) @ [0, 0, 0, 0] @
     le_bytes 4 (of_nat (name_size name) :: u32) @ name_bytes name @ data @ [0, 0, 0, 0]"

definition get_result_bytes :: "u32 \<Rightarrow> u32 \<Rightarrow> u8 list \<Rightarrow> u8 list" where
  "get_result_bytes sz attr data = le_bytes 4 sz @ le_bytes 4 attr @ le_bytes 4 (of_nat (length data) :: u32) @ data"

definition guid_ok :: "EFI_GUID \<Rightarrow> bool" where "guid_ok guid \<longleftrightarrow> length (Data4 guid) = 8"

lemma length_guid: "guid_ok guid \<Longrightarrow> length (guid_bytes guid) = 16"
  by (simp add: guid_bytes_def guid_ok_def)

lemma length_name [simp]: "length (name_bytes name) = name_size name"
  by (simp add: name_bytes_def length_chars name_size_def)

lemma unat_StrSize: "name_size name < 2 ^ 64 \<Longrightarrow> unat (StrSize name) = name_size name"
proof -
  have "StrSize name = of_nat (name_size name)"
    by (simp add: StrSize_def StrLen_def name_size_def)
  then show "name_size name < 2 ^ 64 \<Longrightarrow> ?thesis"
    by (simp only: unat_of_nat) simp
qed

lemma StrSize_of_nat: "StrSize name = of_nat (name_size name)"
  by (simp add: StrSize_def StrLen_def name_size_def)

lemma ucast_down_of_nat:
  "LENGTH('b) \<le> LENGTH('a) \<Longrightarrow> ucast (of_nat n :: 'a::len word) = (of_nat n :: 'b::len word)"
  by (simp add: unsigned_of_nat word_of_nat_eq_iff min_def)

lemma splice_at: "length A = i \<Longrightarrow> length B = length C \<Longrightarrow> splice i B (A @ C @ D) = A @ B @ D"
  by (simp add: splice_def)

lemma replicate_split: "n = i + k \<Longrightarrow> replicate n x = replicate i x @ replicate k x"
  by (simp add: replicate_add)

section \<open>Filling the parameter buffer\<close>

lemma store_run: "store f s = Ret ((), step_to (f (mem_of s)) (gcd_of s) (rest_of s) s)"
  by (simp add: store_def on_tee_def writeM_run with_mem_def step_to_def)

lemma load_run: "load f s = Ret (f (mem_of s), s)"
  by (simp add: load_def on_tee_def readM_run)

definition cleared :: "('g, 't) AuthVarState \<Rightarrow> memory" where
  "cleared s = poke (result_buf s) (replicate (unat (room s)) 0) (poke (param_buf s) (replicate (unat (room s)) 0) (mem_of s))"

lemma clear_run:
  assumes "var_ready E live s"
  shows "clear_buffers (mVariableParamMem s) (mVariableResultMem s) s
    = Ret ((), step_to (cleared s) (gcd_of s) (rest_of s) s)"
  using assms by (simp add: clear_buffers_def bindM_def store_run cleared_def var_ready_def)

lemma blk_poke_same: "x \<notin> blk a l \<Longrightarrow> length bs \<le> unat l \<Longrightarrow> poke a bs m x = m x"
  by (intro poke_outside) (simp add: blk_iff)

lemma cleared_zero:
  assumes "var_env E live ta" and "var_ready E live s" and "n \<le> unat (room s)"
  shows "peek n (param_buf s) (cleared s) = replicate n 0" and "peek n (result_buf s) (cleared s) = replicate n 0"
    and "x \<notin> user_area (live (gcd_of s)) \<Longrightarrow> cleared s x = mem_of s x"
proof -
  note b = ready_buffers [OF assms(1,2)]
  have poke0: "peek n a (poke a (replicate (unat (room s)) 0) m) = replicate n 0" for a m
    using peek_poke [of "replicate (unat (room s)) 0" 0 n a m] assms(2,3) by (simp add: var_ready_def)
  show "peek n (result_buf s) (cleared s) = replicate n 0"
    unfolding cleared_def by (rule poke0)
  have "peek n (param_buf s) (cleared s) = peek n (param_buf s) (poke (param_buf s) (replicate (unat (room s)) 0) (mem_of s))"
    unfolding cleared_def by (rule peek_poke_apart [OF b(3) assms(3)]) simp
  then show "peek n (param_buf s) (cleared s) = replicate n 0"
    by (simp add: poke0)
  show "x \<notin> user_area (live (gcd_of s)) \<Longrightarrow> cleared s x = mem_of s x"
    using b(1,2) unfolding cleared_def by (subst blk_poke_same [of _ _ "room s"], auto)+
qed

text \<open>The memory with the request \<open>bs\<close> in a cleared parameter buffer.\<close>

definition holds_request :: "('g, 't) AuthVarState \<Rightarrow> u8 list \<Rightarrow> memory \<Rightarrow> bool" where
  "holds_request s bs m \<longleftrightarrow> peek (length bs) (param_buf s) m = bs \<and>
     (\<forall>x. x \<notin> blk (param_buf s) (room s) \<longrightarrow> m x = cleared s x)"

lemma write_in_buffer:
  assumes "i + length bs \<le> unat (room s)" and "x \<notin> blk (param_buf s) (room s)"
  shows "poke (param_buf s + of_nat i) bs m x = m x"
proof (rule poke_outside)
  have r: "unat (room s) < 2 ^ 64" using unsigned_less [of "room s"] by simp
  then have i: "unat (of_nat i :: u64) = i" "unat (of_nat (length bs) :: u64) = length bs"
    using assms(1) by (simp_all add: unat_of_nat)
  then have "blk (param_buf s + of_nat i) (of_nat (length bs)) \<subseteq> blk (param_buf s) (room s)"
    using assms(1) by (intro sub_block) simp
  with assms(2) i(2) show "\<not> unat (x - (param_buf s + of_nat i)) < length bs"
    by (auto simp: blk_iff)
qed

text \<open>A sequence of writes at offsets of the buffer.\<close>

definition pokes :: "u64 \<Rightarrow> (nat \<times> u8 list) list \<Rightarrow> memory \<Rightarrow> memory" where
  "pokes b = fold (\<lambda>(i, bs). poke (b + of_nat i) bs)"

lemma peek_pokes:
  assumes "\<forall>(i, bs)\<in>set fs. i + length bs \<le> n" and "n < 2 ^ 64"
  shows "peek n b (pokes b fs m) = fold (\<lambda>(i, bs). splice i bs) fs (peek n b m)"
  using assms by (induction fs arbitrary: m) (auto simp: pokes_def peek_poke_splice)

lemma pokes_outside:
  assumes "\<forall>(i, bs)\<in>set fs. i + length bs \<le> unat (room s)" and "x \<notin> blk (param_buf s) (room s)"
  shows "pokes (param_buf s) fs m x = m x"
  using assms by (induction fs arbitrary: m) (auto simp: pokes_def write_in_buffer)

lemma holds_requestI:
  assumes "var_env E live ta" and "var_ready E live s" and "length bs \<le> unat (room s)"
    and "\<forall>(i, b)\<in>set fs. i + length b \<le> length bs"
    and "fold (\<lambda>(i, b). splice i b) fs (replicate (length bs) 0) = bs"
  shows "holds_request s bs (pokes (param_buf s) fs (cleared s))"
proof -
  have "unat (room s) < 2 ^ 64" using unsigned_less [of "room s"] by simp
  then have "peek (length bs) (param_buf s) (pokes (param_buf s) fs (cleared s)) = bs"
    using assms(3,5) by (subst peek_pokes [OF assms(4)]) (simp_all add: cleared_zero(1) [OF assms(1-3)])
  moreover have "pokes (param_buf s) fs (cleared s) x = cleared s x" if "x \<notin> blk (param_buf s) (room s)" for x
    using assms(3,4) that by (intro pokes_outside) fastforce
  ultimately show ?thesis by (simp add: holds_request_def)
qed

lemma fill_get_run:
  assumes "var_env E live ta" and ready: "var_ready E live s" and "guid_ok guid" and "name_size name + 28 \<le> unat (room s)"
  obtains m where "fill_get (param_buf s) guid name (ucast (StrSize name)) (step_to (cleared s) g t s) = Ret ((), step_to m g t s)"
    and "holds_request s (get_param_bytes name guid) m"
proof -
  let ?n = "name_size name" and ?b = "param_buf s" and ?bs = "get_param_bytes name guid"
  let ?fs = "[(0, le_bytes 4 (28 :: u32)), (4, le_bytes 2 (of_nat ?n :: u16)), (8, guid_bytes guid), (24, name_bytes name)]"
  have "?n < 2 ^ 31" using assms(4) ready by (simp add: var_ready_def)
  then have ns: "unat (ucast (StrSize name) :: u32) = ?n" "(ucast (ucast (StrSize name) :: u32) :: u16) = of_nat ?n"
    by (simp_all add: StrSize_of_nat unat_of_nat ucast_down_of_nat)
  have len: "length ?bs = 28 + ?n" "length (guid_bytes guid) = 16"
    using length_guid [OF assms(3)] by (simp_all add: get_param_bytes_def)
  have "replicate (28 + ?n) (0 :: u8) = replicate 4 0 @ replicate 2 0 @ replicate 2 0 @ replicate 16 0 @ replicate ?n 0 @ replicate 4 0"
    by (simp flip: replicate_add)
  then have "fold (\<lambda>(i, b). splice i b) ?fs (replicate (length ?bs) 0) = ?bs"
    unfolding len(1) by (simp only:) (simp add: splice_def len get_param_bytes_def numeral_eq_Suc)
  then have "holds_request s ?bs (pokes ?b ?fs (cleared s))"
    using assms(4) by (intro holds_requestI [OF assms(1,2)]) (simp_all add: len)
  moreover have "fill_get ?b guid name (ucast (StrSize name)) (step_to (cleared s) g t s)
      = Ret ((), step_to (pokes ?b ?fs (cleared s)) g t s)"
    by (simp add: fill_get_def bindM_def store_run ns pokes_def write_u32_def write_u16_def var_offsets)
  ultimately show thesis by (rule that [rotated])
qed

lemma fill_set_run:
  assumes "var_env E live ta" and ready: "var_ready E live s" and "guid_ok guid"
    and "name_size name + length data + 44 \<le> unat (room s)" and "unat DataSize = length data"
  obtains m where "fill_set (param_buf s) name guid attr DataSize data (step_to (cleared s) g t s) = Ret ((), step_to m g t s)"
    and "holds_request s (set_param_bytes name guid attr data) m"
proof -
  let ?n = "name_size name" and ?b = "param_buf s" and ?bs = "set_param_bytes name guid attr data"
  let ?fs = "[(0, le_bytes 4 (44 :: u32)), (4, le_bytes 2 (of_nat ?n :: u16)), (24, le_bytes 4 attr),
    (28, le_bytes 4 (of_nat (length data) :: u32)), (32, le_bytes 4 (0 :: u32)), (36, le_bytes 4 (of_nat ?n :: u32)),
    (8, guid_bytes guid), (40, name_bytes name), (40 + ?n, data)]"
  have "DataSize = of_nat (length data)" using assms(5) by (simp add: word_unat_eq_iff unat_of_nat unsigned_less flip: assms(5))
  then have ns: "(ucast (StrSize name) :: u16) = of_nat ?n" "(ucast (StrSize name) :: u32) = of_nat ?n"
    "(ucast DataSize :: u32) = of_nat (length data)"
    by (simp_all add: StrSize_of_nat ucast_down_of_nat)
  have len: "length ?bs = 44 + ?n + length data" "length (guid_bytes guid) = 16"
    using length_guid [OF assms(3)] by (simp_all add: set_param_bytes_def)
  have z: "replicate (44 + ?n + length data) (0 :: u8) = replicate 4 0 @ replicate 2 0 @ replicate 2 0 @ replicate 16 0 @
      replicate 4 0 @ replicate 4 0 @ replicate 4 0 @ replicate 4 0 @ replicate ?n 0 @ replicate (length data) 0 @ replicate 4 0"
    by (simp add: ac_simps flip: replicate_add)
  have "fold (\<lambda>(i, b). splice i b) ?fs (replicate (length ?bs) 0) = ?bs"
    unfolding len(1) z by (simp add: splice_def len set_param_bytes_def numeral_eq_Suc le_bytes_def)
  then have "holds_request s ?bs (pokes ?b ?fs (cleared s))"
    using assms(4) by (intro holds_requestI [OF assms(1,2)]) (simp_all add: len)
  moreover have "fill_set ?b name guid attr DataSize data (step_to (cleared s) g t s)
      = Ret ((), step_to (pokes ?b ?fs (cleared s)) g t s)"
    by (simp add: fill_set_def bindM_def store_run ns pokes_def write_u32_def write_u16_def var_offsets assms(5)
        StrSize_of_nat ucast_down_of_nat add.assoc)
  ultimately show thesis by (rule that [rotated])
qed

section \<open>One exchange\<close>

text \<open>
  The bytes in the result buffer after an exchange: the result of the application in a cleared
  buffer, or zeros when no message could be sent.
\<close>

lemma request_ready:
  assumes "var_env E live ta" and "var_ready E live s" and "holds_request s bs m"
  shows "x \<notin> user_area (live (gcd_of s)) \<Longrightarrow> m x = mem_of s x"
    and "n \<le> unat (room s) \<Longrightarrow> peek n (result_buf s) m = replicate n 0"
proof -
  note b = ready_buffers [OF assms(1,2)]
  show "x \<notin> user_area (live (gcd_of s)) \<Longrightarrow> m x = mem_of s x"
    using assms(3) b(1) cleared_zero(3) [OF assms(1,2) le0] by (auto simp: holds_request_def)
  assume n: "n \<le> unat (room s)"
  have "peek n (result_buf s) m = peek n (result_buf s) (cleared s)"
    using assms(3) b(3) n by (intro peek_eq_on_blk [of _ "room s"]) (auto simp: holds_request_def)
  then show "peek n (result_buf s) m = replicate n 0"
    by (simp add: cleared_zero(2) [OF assms(1,2) n])
qed

lemma exchange_run:
  assumes env: "var_env E live ta" and ready: "var_ready E live s" and m: "holds_request s bs m"
    and le: "length bs \<le> unat (room s)" "unat ps = length bs" "unat rs \<le> unat (room s)"
    and ta: "ta (op_code Command) bs (unat rs) (rest_of s) = ((r, sz, st, bytes), t)"
    and R: "Res = Some (mVariableResultMem s) \<and> ResultSize = rs \<or> Res = None \<and> rs = 4"
  shows "\<exists>m' g. live g = live (gcd_of s) \<and> var_ready E live (step_to m' g (if no_message E (gcd_of s) then rest_of s else t) s) \<and>
    peek (unat (room s)) (result_buf s) m' =
      (if no_message E (gcd_of s) then replicate (unat (room s)) 0 else splice 0 bytes (replicate (unat (room s)) 0)) \<and>
    OpteeRuntimeVariableInvokeCommand E Command ps (Some (mVariableParamMem s)) ResultSize Res
        (step_to m (gcd_of s) (rest_of s) s) =
      Ret (if no_message E (gcd_of s) then (EFI_OUT_OF_RESOURCES, 0, 0) else (status_of r, sz, st),
           step_to m' g (if no_message E (gcd_of s) then rest_of s else t) s)"
proof -
  let ?s = "step_to m (gcd_of s) (rest_of s) s"
  note q = request_ready [OF env ready m] and b = ready_buffers [OF env ready]
  have ready': "var_ready E live ?s"
    by (rule ready_step [OF env ready refl q(1)])
  have ta': "ta_run ta Command ps rs ?s = ((r, sz, st, bytes), t)"
    using ta m by (simp add: ta_run_def le(2) holds_request_def)
  have le': "unat ps \<le> unat (room ?s)" "unat rs \<le> unat (room ?s)" using le by simp_all
  have P: "Some (mVariableParamMem s) = Some (mVariableParamMem ?s) \<and> ps = ps \<or>
      Some (mVariableParamMem s) = None \<and> ps = 4"
    and R': "Res = Some (mVariableResultMem ?s) \<and> ResultSize = rs \<or> Res = None \<and> rs = 4"
    using R by simp_all
  note inv = invoke_run [OF env ready' le' ta' P R']
  have l: "length bytes \<le> unat (room s)" using inv(1) le(3) by simp
  let ?m = "if no_message E (gcd_of s) then m else poke (result_buf s) bytes m"
  obtain g where g: "live g = live (gcd_of s)"
    "OpteeRuntimeVariableInvokeCommand E Command ps (Some (mVariableParamMem s)) ResultSize Res ?s =
      Ret (if no_message E (gcd_of s) then (EFI_OUT_OF_RESOURCES, 0, 0) else (status_of r, sz, st),
           step_to ?m g (if no_message E (gcd_of s) then rest_of s else t) s)"
    using inv(2) by auto
  have "?m x = mem_of s x" if "x \<notin> user_area (live (gcd_of s))" for x
  proof -
    have "x \<notin> blk (result_buf s) (room s)" using b(2) that by blast
    then show ?thesis using q(1) [OF that] l by (simp add: blk_poke_same)
  qed
  then have "var_ready E live (step_to ?m g (if no_message E (gcd_of s) then rest_of s else t) s)"
    by (rule ready_step [OF env ready g(1)])
  moreover have "peek (unat (room s)) (result_buf s) (poke (result_buf s) bytes m)
      = splice 0 bytes (peek (unat (room s)) (result_buf s) m)"
    using peek_poke_splice [of 0 bytes "unat (room s)" "result_buf s" m] l unsigned_less [of "room s"] by simp
  then have "peek (unat (room s)) (result_buf s) ?m =
      (if no_message E (gcd_of s) then replicate (unat (room s)) 0 else splice 0 bytes (replicate (unat (room s)) 0))"
    by (simp add: q(2))
  ultimately show ?thesis using g by blast
qed

section \<open>A store of variables\<close>

type_synonym vars = "CHAR16s \<times> EFI_GUID \<Rightarrow> (u32 \<times> u8 list) option"

definition sendable :: "CHAR16s \<Rightarrow> EFI_GUID \<Rightarrow> bool" where
  "sendable name guid \<longleftrightarrow> name_size name < 2 ^ 16 \<and> guid_ok guid"

text \<open>No append, no authentication: the attributes of variables a plain write replaces.\<close>

definition plain :: "u32 \<Rightarrow> bool" where "plain attr \<longleftrightarrow> attr \<noteq> 0 \<and> attr AND 0x70 = 0"

definition store_gets :: "'t var_ta \<Rightarrow> ('t \<Rightarrow> vars) \<Rightarrow> bool" where
  "store_gets ta vars \<longleftrightarrow> (\<forall>name guid n t r sz st bytes t'. sendable name guid \<longrightarrow>
     ta (op_code VSGetOp) (get_param_bytes name guid) n t = ((r, sz, st, bytes), t') \<longrightarrow>
     vars t' = vars t \<and> (case vars t (name, guid) of
       None \<Rightarrow> r = TEEC_ERROR_ITEM_NOT_FOUND
     | Some (a, d) \<Rightarrow> length d < 2 ^ 31 \<and> d \<noteq> [] \<and>
         (if length d + 16 \<le> n then r = TEEC_SUCCESS \<and> (\<exists>x. bytes = get_result_bytes x a d)
          else r = TEEC_ERROR_SHORT_BUFFER \<and> sz = of_nat (length d + 16))))"

definition store_sets :: "'t var_ta \<Rightarrow> ('t \<Rightarrow> vars) \<Rightarrow> bool" where
  "store_sets ta vars \<longleftrightarrow> (\<forall>name guid a d n t r sz st bytes t'. sendable name guid \<longrightarrow> plain a \<longrightarrow> d \<noteq> [] \<longrightarrow>
     ta (op_code VSSetOp) (set_param_bytes name guid a d) n t = ((r, sz, st, bytes), t') \<longrightarrow>
     vars t' = (if r = TEEC_SUCCESS then (vars t)((name, guid) \<mapsto> (a, d)) else vars t))"

definition hook_request :: "CHAR16s \<Rightarrow> EFI_GUID \<Rightarrow> u64 \<Rightarrow> bool" where
  "hook_request name guid n \<longleftrightarrow> first_char name = 1 \<and> Data1 guid = 1 \<and> n = 8"

section \<open>Reading a variable\<close>

definition field32 :: "nat \<Rightarrow> u8 list \<Rightarrow> u32" where
  "field32 i bs = of_nat (le_nat (take 4 (drop i bs)))"

text \<open>What the service hands back, given the answer and the bytes \<open>R\<close> of the result buffer.\<close>

definition get_reply :: "EFI_STATUS \<Rightarrow> u32 \<Rightarrow> u8 list \<Rightarrow> u32 option \<Rightarrow> u64 \<Rightarrow> u8 list option \<Rightarrow> GetOut" where
  "get_reply Status sz R Attributes n Data =
     (let out = \<lparr>GetStatus = Status, GetAttributes = map_option (\<lambda>_. field32 4 R) Attributes,
            GetDataSize = Some (if Status = EFI_BUFFER_TOO_SMALL then ucast sz - 16
                                else if Status = EFI_SUCCESS then ucast (field32 8 R) else n),
            GetData = Data\<rparr>
      in if EFI_ERROR Status then out
         else if field32 8 R > ucast n then out\<lparr>GetStatus := EFI_BAD_BUFFER_SIZE\<rparr>
         else out\<lparr>GetData := map_option (splice 0 (take (unat (field32 8 R)) (drop 12 R))) Data\<rparr>)"

lemma GetVariable_run:
  assumes env: "var_env E live ta" and ready: "var_ready E live s" and g: "guid_ok guid"
    and hook: "\<not> hook_request name guid n" and null: "n \<noteq> 0 \<longrightarrow> Data \<noteq> None"
    and sizes: "name_size name + 28 \<le> unat (room s)" "unat n + 16 \<le> unat (room s)"
    and ta: "ta (op_code VSGetOp) (get_param_bytes name guid) (unat n + 16) (rest_of s) = ((r, sz, st, bytes), t)"
    and a: "\<not> no_message E (gcd_of s) \<Longrightarrow> status_of r = EFI_BUFFER_TOO_SMALL \<Longrightarrow> 16 \<le> unat sz"
  shows "\<exists>m g. live g = live (gcd_of s) \<and>
    (if no_message E (gcd_of s) then var_ready E live (step_to m g (rest_of s) s) \<and>
       OpteeRuntimeGetVariable E (Some name) (Some guid) Attributes (Some n) Data s =
         Ret (get_reply EFI_OUT_OF_RESOURCES 0 (replicate (unat (room s)) 0) Attributes n Data, step_to m g (rest_of s) s)
     else var_ready E live (step_to m g t s) \<and>
       OpteeRuntimeGetVariable E (Some name) (Some guid) Attributes (Some n) Data s =
         Ret (get_reply (status_of r) sz (splice 0 bytes (replicate (unat (room s)) 0)) Attributes n Data, step_to m g t s))"
proof -
  let ?ns = "ucast (StrSize name) :: u32" and ?ds = "ucast n :: u32" and ?b = "get_param_bytes name guid"
  let ?N = "unat (room s)"
  have N: "?N < 2 ^ 31" "44 \<le> ?N" and rm: "shm_size (mVariableResultMem s) = room s"
    and st': "\<not> AtRuntime s" "mTeecSessionOpened s"
    using ready by (simp_all add: var_ready_def)
  have ns: "unat ?ns = name_size name" and ds: "unat ?ds = unat n"
    using sizes N by (simp_all add: StrSize_of_nat ucast_down_of_nat unat_of_nat unsigned_ucast_eq take_bit_nat_eq_self)
  have ps: "unat (28 + ?ns) = name_size name + 28" and rs: "unat (16 + ?ds) = unat n + 16"
    using sizes N ns ds by (simp_all add: unat_word_ariths)
  have fit: "\<not> room s \<le> ucast ?ns" "\<not> room s \<le> ucast ?ds" "\<not> room s < ucast (28 + ?ns)" "\<not> room s < ucast (16 + ?ds)"
    using sizes ns ds ps rs by (simp_all add: word_le_nat_alt word_less_nat_alt)
  obtain m where fill: "fill_get (param_buf s) guid name ?ns (step_to (cleared s) (gcd_of s) (rest_of s) s)
      = Ret ((), step_to m (gcd_of s) (rest_of s) s)" and m: "holds_request s ?b m"
    using fill_get_run [OF env ready g sizes(1)] by metis
  have len: "length ?b = name_size name + 28"
    using length_guid [OF g] by (simp add: get_param_bytes_def)
  have e: "\<exists>m' g. live g = live (gcd_of s) \<and> var_ready E live (step_to m' g (if no_message E (gcd_of s) then rest_of s else t) s) \<and>
    peek ?N (result_buf s) m' =
      (if no_message E (gcd_of s) then replicate ?N 0 else splice 0 bytes (replicate ?N 0)) \<and>
    OpteeRuntimeVariableInvokeCommand E VSGetOp (28 + ?ns) (Some (mVariableParamMem s)) (16 + ?ds)
        (Some (mVariableResultMem s)) (step_to m (gcd_of s) (rest_of s) s) =
      Ret (if no_message E (gcd_of s) then (EFI_OUT_OF_RESOURCES, 0, 0) else (status_of r, sz, st),
           step_to m' g (if no_message E (gcd_of s) then rest_of s else t) s)"
    using sizes ta by (intro exchange_run [OF env ready m, where rs = "16 + ?ds"]) (simp_all add: len ps rs)
  have top: "OpteeRuntimeGetVariable E (Some name) (Some guid) Attributes (Some n) Data s
      = get_exchange E name guid Attributes n Data (mVariableParamMem s) (mVariableResultMem s) s"
    using hook null st' ready_buffers(4,5) [OF env ready]
    by (auto simp: OpteeRuntimeGetVariable_def Let_def hook_request_def bindM_def gets_def)
  have run: "get_exchange E name guid Attributes n Data (mVariableParamMem s) (mVariableResultMem s) s
      = Ret (get_reply S z (peek ?N (result_buf s) m') Attributes n Data, step_to m' g t' s)"
    if inv: "OpteeRuntimeVariableInvokeCommand E VSGetOp (28 + ?ns) (Some (mVariableParamMem s)) (16 + ?ds)
        (Some (mVariableResultMem s)) (step_to m (gcd_of s) (rest_of s) s) = Ret ((S, z, y), step_to m' g t' s)"
      and as: "S = EFI_BUFFER_TOO_SMALL \<longrightarrow> 16 \<le> unat z" for S z y m' g t'
  proof -
    let ?R = "peek ?N (result_buf s) m'"
    have rd: "read_u32 (result_buf s + 4) m' = field32 4 ?R" "read_u32 (result_buf s + 8) m' = field32 8 ?R"
      using N(2) read_u32_peek [of 4 ?N "result_buf s" m'] read_u32_peek [of 8 ?N "result_buf s" m']
      by (simp_all add: field32_def)
    have dt: "peek (unat (field32 8 ?R)) (result_buf s + 12) m' = take (unat (field32 8 ?R)) (drop 12 ?R)"
      if "\<not> ?ds < field32 8 ?R"
    proof -
      have "unat (field32 8 ?R) \<le> unat n" using that ds by (simp add: word_less_nat_alt)
      then show ?thesis
        using peek_sub [of 12 "unat (field32 8 ?R)" ?N "result_buf s" m'] sizes(2) by simp
    qed
    have as': "S = EFI_BUFFER_TOO_SMALL \<longrightarrow> 16 \<le> (ucast z :: u64)"
      using as by (simp add: word_le_nat_alt)
    show ?thesis
      using dt as'
      by (simp add: get_exchange_def rm fit var_offsets Let_def bindM_def clear_run [OF ready] fill inv load_run rd
          get_reply_def ASSERT_def ret_def)
  qed
  obtain m' g where e': "live g = live (gcd_of s)"
      "var_ready E live (step_to m' g (if no_message E (gcd_of s) then rest_of s else t) s)"
      "peek ?N (result_buf s) m' = (if no_message E (gcd_of s) then replicate ?N 0 else splice 0 bytes (replicate ?N 0))"
      "OpteeRuntimeVariableInvokeCommand E VSGetOp (28 + ?ns) (Some (mVariableParamMem s)) (16 + ?ds)
        (Some (mVariableResultMem s)) (step_to m (gcd_of s) (rest_of s) s) =
      Ret (if no_message E (gcd_of s) then (EFI_OUT_OF_RESOURCES, 0, 0) else (status_of r, sz, st),
           step_to m' g (if no_message E (gcd_of s) then rest_of s else t) s)"
    using e by blast
  show ?thesis
    by (intro exI [of _ m'] exI [of _ g]) (use e' a run in \<open>auto simp: top\<close>)
qed

lemma status_of_simps [simp]:
  "status_of TEEC_SUCCESS = EFI_SUCCESS" "status_of TEEC_ERROR_ITEM_NOT_FOUND = EFI_NOT_FOUND"
  "status_of TEEC_ERROR_SHORT_BUFFER = EFI_BUFFER_TOO_SMALL"
  by (simp_all add: status_of_def teec_results TEEC_ERROR_SHORT_BUFFER_def)

lemma result_fields:
  assumes "bytes = get_result_bytes x a d" and "length d < 2 ^ 31"
  shows "field32 4 (splice 0 bytes z) = a" and "field32 8 (splice 0 bytes z) = of_nat (length d)"
    and "unat (field32 8 (splice 0 bytes z)) = length d"
    and "take (length d) (drop 12 (splice 0 bytes z)) = d"
proof -
  show "field32 4 (splice 0 bytes z) = a" and f: "field32 8 (splice 0 bytes z) = of_nat (length d)"
    by (simp_all add: assms(1) field32_def get_result_bytes_def splice_def of_nat_le_bytes32)
  show "unat (field32 8 (splice 0 bytes z)) = length d"
    unfolding f using assms(2) by (simp add: unat_of_nat)
  show "take (length d) (drop 12 (splice 0 bytes z)) = d"
    by (simp add: assms(1) get_result_bytes_def splice_def)
qed

text \<open>What reading a variable hands back, by the state of the store.\<close>

definition reads :: "(u32 \<times> u8 list) option \<Rightarrow> u32 option \<Rightarrow> u64 \<Rightarrow> u8 list option \<Rightarrow> GetOut \<Rightarrow> bool" where
  "reads v Attributes n Data out \<longleftrightarrow> (case v of
     None \<Rightarrow> GetStatus out = EFI_NOT_FOUND \<and> GetDataSize out = Some n \<and> GetData out = Data
   | Some (a, d) \<Rightarrow>
       if length d \<le> unat n then
         out = \<lparr>GetStatus = EFI_SUCCESS, GetAttributes = map_option (\<lambda>_. a) Attributes,
                GetDataSize = Some (of_nat (length d)), GetData = map_option (splice 0 d) Data\<rparr>
       else GetStatus out = EFI_BUFFER_TOO_SMALL \<and> GetDataSize out = Some (of_nat (length d)) \<and> GetData out = Data)"

text \<open>The message of a variable request could not be sent.\<close>

definition unsent :: "u64 \<Rightarrow> u8 list option \<Rightarrow> GetOut \<Rightarrow> bool" where
  "unsent n Data out \<longleftrightarrow> GetStatus out = EFI_OUT_OF_RESOURCES \<and> GetDataSize out = Some n \<and> GetData out = Data"

text \<open>A request that reaches the exchange and fits the transport buffers.\<close>

definition get_request ::
    "CHAR16s \<Rightarrow> EFI_GUID \<Rightarrow> u64 \<Rightarrow> u8 list option \<Rightarrow> ('g, 't) AuthVarState \<Rightarrow> bool" where
  "get_request name guid n Data s \<longleftrightarrow> sendable name guid \<and> \<not> hook_request name guid n \<and> (n \<noteq> 0 \<longrightarrow> Data \<noteq> None) \<and>
     name_size name + 28 \<le> unat (room s) \<and> unat n + 16 \<le> unat (room s)"

lemma GetVariable_store:
  assumes env: "var_env E live ta" and gets: "store_gets ta vars" and ready: "var_ready E live s"
    and req: "get_request name guid n Data s"
  obtains out m g t where "OpteeRuntimeGetVariable E (Some name) (Some guid) Attributes (Some n) Data s
      = Ret (out, step_to m g t s)"
    and "var_ready E live (step_to m g t s)" and "live g = live (gcd_of s)" and "vars t = vars (rest_of s)"
    and "if no_message E (gcd_of s) then t = rest_of s \<and> unsent n Data out
         else t = snd (ta (op_code VSGetOp) (get_param_bytes name guid) (unat n + 16) (rest_of s)) \<and>
           reads (vars (rest_of s) (name, guid)) Attributes n Data out"
proof -
  have g: "guid_ok guid" and hook: "\<not> hook_request name guid n" and null: "n \<noteq> 0 \<longrightarrow> Data \<noteq> None"
    and sizes: "name_size name + 28 \<le> unat (room s)" "unat n + 16 \<le> unat (room s)" and snd: "sendable name guid"
    using req by (simp_all add: get_request_def sendable_def)
  obtain r sz st bytes t where ta: "ta (op_code VSGetOp) (get_param_bytes name guid) (unat n + 16) (rest_of s)
      = ((r, sz, st, bytes), t)"
    by (metis surj_pair)
  have t: "vars t = vars (rest_of s)" and c: "case vars (rest_of s) (name, guid) of
       None \<Rightarrow> r = TEEC_ERROR_ITEM_NOT_FOUND
     | Some (a, d) \<Rightarrow> length d < 2 ^ 31 \<and> d \<noteq> [] \<and>
         (if length d + 16 \<le> unat n + 16 then r = TEEC_SUCCESS \<and> (\<exists>x. bytes = get_result_bytes x a d)
          else r = TEEC_ERROR_SHORT_BUFFER \<and> sz = of_nat (length d + 16))"
    using gets snd ta unfolding store_gets_def by blast+
  have N: "unat n < 2 ^ 31" using sizes(2) ready by (simp add: var_ready_def)
  have sz: "unat sz = length d + 16 \<and> ucast sz - 16 = (of_nat (length d) :: u64)"
    if "length d < 2 ^ 31" "sz = of_nat (length d + 16)" for d :: "u8 list"
  proof -
    have u: "unat sz = length d + 16"
      using that by (simp only: unat_of_nat) simp
    have "ucast sz = (of_nat (length d + 16) :: u64)"
      by (simp add: word_unat_eq_iff u unat_of_nat del: of_nat_add) (use that(1) in simp)
    with u show ?thesis by simp
  qed
  have "16 \<le> unat sz" if "status_of r = EFI_BUFFER_TOO_SMALL"
    using c that sz by (auto split: option.splits if_splits)
  then obtain m g where run: "live g = live (gcd_of s)"
    "if no_message E (gcd_of s) then var_ready E live (step_to m g (rest_of s) s) \<and>
       OpteeRuntimeGetVariable E (Some name) (Some guid) Attributes (Some n) Data s =
         Ret (get_reply EFI_OUT_OF_RESOURCES 0 (replicate (unat (room s)) 0) Attributes n Data, step_to m g (rest_of s) s)
     else var_ready E live (step_to m g t s) \<and>
       OpteeRuntimeGetVariable E (Some name) (Some guid) Attributes (Some n) Data s =
         Ret (get_reply (status_of r) sz (splice 0 bytes (replicate (unat (room s)) 0)) Attributes n Data, step_to m g t s)"
    using GetVariable_run [OF env ready g hook null sizes ta] by blast
  have rd: "reads (vars (rest_of s) (name, guid)) Attributes n Data
      (get_reply (status_of r) sz (splice 0 bytes (replicate (unat (room s)) 0)) Attributes n Data)"
  proof (cases "vars (rest_of s) (name, guid)")
    case None
    with c show ?thesis by (simp add: reads_def get_reply_def)
  next
    case (Some p)
    obtain a d where p: "p = (a, d)" by (metis surj_pair)
    with Some c have d: "length d < 2 ^ 31" by simp
    show ?thesis
    proof (cases "length d \<le> unat n")
      case True
      with c Some p obtain x where r: "r = TEEC_SUCCESS" "bytes = get_result_bytes x a d" by auto
      note f = result_fields [OF r(2) d]
      have u: "unat (of_nat (length d) :: u32) = length d"
        using d by (simp add: unat_of_nat)
      have le: "\<not> ucast n < (of_nat (length d) :: u32)"
        using True N u by (simp add: word_less_nat_alt unsigned_ucast_eq take_bit_nat_eq_self)
      have "ucast (of_nat (length d) :: u32) = (of_nat (length d) :: u64)"
        using d by (simp add: word_unat_eq_iff unat_of_nat)
      with True le u show ?thesis
        unfolding Some p reads_def get_reply_def r(1) status_of_simps Let_def f(1,2)
        by (simp add: f(4))
    next
      case False
      with c Some p sz d show ?thesis by (simp add: reads_def get_reply_def)
    qed
  qed
  show thesis
  proof (cases "no_message E (gcd_of s)")
    case True
    with run show ?thesis
      by (intro that [of "get_reply EFI_OUT_OF_RESOURCES 0 (replicate (unat (room s)) 0) Attributes n Data" m g "rest_of s"])
        (simp_all add: unsent_def get_reply_def)
  next
    case False
    with run rd t ta show ?thesis
      by (intro that [of "get_reply (status_of r) sz (splice 0 bytes (replicate (unat (room s)) 0)) Attributes n Data" m g t])
        simp_all
  qed
qed

end
