(* ===== verification/AuthVarBoot.thy ===== *)
theory AuthVarBoot
  imports AuthVarStore
begin

text \<open>
  Writing variables with the measurement of secure boot policy variables, the secure boot variables
  the driver creates, and the life of the driver from its start to the end of boot services.
\<close>

section \<open>Steps that keep the driver ready\<close>

text \<open>What the platform shows of the variables and of the variable protocol.\<close>

definition platform_view :: "('g, 't) AuthVarEnv \<Rightarrow> ('t \<Rightarrow> vars) \<Rightarrow> 't \<Rightarrow> vars \<times> bool" where
  "platform_view E vars t = (vars t, EFI_ERROR (fst (LocateVariableArch E t)))"

definition harmless :: "('g, 't) AuthVarEnv \<Rightarrow> ('t \<Rightarrow> vars) \<Rightarrow> ('t \<Rightarrow> 'a \<times> 't) \<Rightarrow> bool" where
  "harmless E vars f \<longleftrightarrow> (\<forall>t. platform_view E vars (snd (f t)) = platform_view E vars t)"

text \<open>
  The services the measurement uses neither touch the variables nor install the variable protocol,
  the pool has memory, and the trusted application does not install protocols either.
\<close>

definition quiet :: "('g, 't) AuthVarEnv \<Rightarrow> ('t \<Rightarrow> vars) \<Rightarrow> 't var_ta \<Rightarrow> bool" where
  "quiet E vars ta \<longleftrightarrow> harmless E vars (LocateVariableArch E) \<and> harmless E vars (FreePool E) \<and>
     (\<forall>n. harmless E vars (AllocatePool E n)) \<and> (\<forall>n. harmless E vars (AllocateZeroPool E n)) \<and>
     (\<forall>p e d n. harmless E vars (TpmMeasureAndLogData E p e d n)) \<and>
     (\<forall>n t. fst (AllocatePool E n t) \<noteq> None) \<and>
     (\<forall>cmd bs n t. snd (platform_view E vars (snd (ta cmd bs n t))) = snd (platform_view E vars t))"

definition kept :: "('g, 't) AuthVarEnv \<Rightarrow> ('g \<Rightarrow> (u64 \<times> u64) set) \<Rightarrow> ('t \<Rightarrow> vars) \<Rightarrow>
    ('g, 't) AuthVarState \<Rightarrow> ('g, 't) AuthVarState \<Rightarrow> bool" where
  "kept E live vars s s' \<longleftrightarrow> var_ready E live s' \<and> s' = step_to (mem_of s') (gcd_of s') (rest_of s') s \<and>
     live (gcd_of s') = live (gcd_of s) \<and> platform_view E vars (rest_of s') = platform_view E vars (rest_of s)"

lemma keptI:
  "var_ready E live (step_to m g t s) \<Longrightarrow> live g = live (gcd_of s) \<Longrightarrow>
   platform_view E vars t = platform_view E vars (rest_of s) \<Longrightarrow> kept E live vars s (step_to m g t s)"
  by (simp add: kept_def)

lemma keptD:
  assumes "kept E live vars s s'"
  shows "var_ready E live s'" and "room s' = room s" and "Published s' = Published s"
    and "mTeecSession s' = mTeecSession s" and "vars (rest_of s') = vars (rest_of s)" and "live (gcd_of s') = live (gcd_of s)"
    and "platform_view E vars (rest_of s') = platform_view E vars (rest_of s)"
proof -
  obtain m g t where s': "s' = step_to m g t s" and k: "var_ready E live s'" "live (gcd_of s') = live (gcd_of s)"
    "platform_view E vars (rest_of s') = platform_view E vars (rest_of s)"
    using assms unfolding kept_def by blast
  show "room s' = room s" "Published s' = Published s" "mTeecSession s' = mTeecSession s"
    by (simp_all add: s')
qed (use assms in \<open>auto simp: kept_def platform_view_def\<close>)

lemma kept_refl: "var_ready E live s \<Longrightarrow> kept E live vars s s"
  by (simp add: kept_def)

lemma kept_trans:
  assumes "kept E live vars s s'" and "kept E live vars s' s''"
  shows "kept E live vars s s''"
proof -
  have "s'' = step_to (mem_of s'') (gcd_of s'') (rest_of s'') (step_to (mem_of s') (gcd_of s') (rest_of s') s)"
    using assms unfolding kept_def by argo
  then show ?thesis using assms by (simp add: kept_def)
qed

lemma firmware_run: "firmware f s = Ret (fst (f (rest_of s)), step_to (mem_of s) (gcd_of s) (snd (f (rest_of s))) s)"
  by (simp add: firmware_def on_tee_def restM_def step_to_def split: prod.splits)

lemma firmware_kept:
  assumes "var_env E live ta" and "var_ready E live s" and "harmless E vars f"
  shows "\<exists>s'. firmware f s = Ret (fst (f (rest_of s)), s') \<and> kept E live vars s s'"
  unfolding firmware_run using ready_step [OF assms(1,2) refl, of "mem_of s"] assms(3)
  by (auto simp: harmless_def intro!: keptI)

text \<open>A program that returns and keeps the driver ready.\<close>

definition tame :: "('g, 't) AuthVarEnv \<Rightarrow> ('g \<Rightarrow> (u64 \<times> u64) set) \<Rightarrow> ('t \<Rightarrow> vars) \<Rightarrow>
    ('g, 't, 'a) avar \<Rightarrow> ('a \<Rightarrow> bool) \<Rightarrow> ('g, 't) AuthVarState \<Rightarrow> bool" where
  "tame E live vars p Q s \<longleftrightarrow> (\<exists>x s'. p s = Ret (x, s') \<and> kept E live vars s s' \<and> Q x)"

lemma tame_ret: "var_ready E live s \<Longrightarrow> Q x \<Longrightarrow> tame E live vars (ret x) Q s"
  by (auto simp: tame_def ret_def intro: kept_refl)

lemma tame_bind:
  assumes "tame E live vars p P s"
    and "\<And>x s'. P x \<Longrightarrow> kept E live vars s s' \<Longrightarrow> tame E live vars (f x) Q s'"
  shows "tame E live vars (bindM p f) Q s"
  using assms unfolding tame_def bindM_def by (fastforce intro: kept_trans)

lemma tame_firmware:
  "var_env E live ta \<Longrightarrow> var_ready E live s \<Longrightarrow> harmless E vars f \<Longrightarrow>
   tame E live vars (firmware f) (\<lambda>x. x = fst (f (rest_of s))) s"
  using firmware_kept unfolding tame_def by blast

lemma tame_weaken: "tame E live vars p P s \<Longrightarrow> (\<And>x. P x \<Longrightarrow> Q x) \<Longrightarrow> tame E live vars p Q s"
  by (auto simp: tame_def)

section \<open>The measurement hook\<close>

lemma GetVariable_kept:
  assumes "var_env E live ta" and "store_gets ta vars" and "quiet E vars ta" and "var_ready E live s"
    and "get_request name guid n Data s"
  obtains out s' where "OpteeRuntimeGetVariable E (Some name) (Some guid) Attributes (Some n) Data s = Ret (out, s')"
    and "kept E live vars s s'"
    and "if no_message E (gcd_of s) then unsent n Data out else reads (vars (rest_of s) (name, guid)) Attributes n Data out"
proof -
  obtain out m g t where r: "OpteeRuntimeGetVariable E (Some name) (Some guid) Attributes (Some n) Data s
      = Ret (out, step_to m g t s)" "var_ready E live (step_to m g t s)" "live g = live (gcd_of s)" "vars t = vars (rest_of s)"
    "if no_message E (gcd_of s) then t = rest_of s \<and> unsent n Data out
         else t = snd (ta (op_code VSGetOp) (get_param_bytes name guid) (unat n + 16) (rest_of s)) \<and>
           reads (vars (rest_of s) (name, guid)) Attributes n Data out"
    by (rule GetVariable_store [OF assms(1,2,4,5)])
  have "snd (platform_view E vars t) = snd (platform_view E vars (rest_of s))"
    using r(5) assms(3) by (auto simp: quiet_def split: if_splits)
  then have "kept E live vars s (step_to m g t s)"
    using r(2-4) by (intro keptI) (simp_all add: platform_view_def)
  with r(1,5) show thesis by (auto intro!: that split: if_splits)
qed

lemma tame_get:
  assumes "var_env E live ta" and "store_gets ta vars" and "quiet E vars ta" and "var_ready E live s"
    and "get_request name guid n Data s"
  shows "tame E live vars (OpteeRuntimeGetVariable E (Some name) (Some guid) Attributes (Some n) Data)
    (\<lambda>out. unsent n Data out \<or> reads (vars (rest_of s) (name, guid)) Attributes n Data out) s"
  using GetVariable_kept [OF assms, of Attributes] unfolding tame_def by metis

lemmas secure_boot_names = EFI_SETUP_MODE_NAME_def EFI_SECURE_BOOT_MODE_NAME_def EFI_PLATFORM_KEY_NAME_def
  EFI_KEY_EXCHANGE_KEY_NAME_def EFI_IMAGE_SECURITY_DATABASE_def EFI_IMAGE_SECURITY_DATABASE1_def
  EFI_SECURE_BOOT_ENABLE_NAME_def EFI_CUSTOM_MODE_NAME_def

lemma policy_first_char: "IsSecureBootPolicyVariable name guid \<Longrightarrow> first_char name \<noteq> 1"
  by (auto simp: IsSecureBootPolicyVariable_def mVariableType_def secure_boot_names ascii_def first_char_def)

text \<open>A variable that can be read whole through the transport buffers.\<close>

definition readable :: "('t \<Rightarrow> vars) \<Rightarrow> CHAR16s \<Rightarrow> EFI_GUID \<Rightarrow> ('g, 't) AuthVarState \<Rightarrow> bool" where
  "readable vars name guid s \<longleftrightarrow> sendable name guid \<and> name_size name + 28 \<le> unat (room s) \<and>
     (\<forall>a d. vars (rest_of s) (name, guid) = Some (a, d) \<longrightarrow> length d + 16 \<le> unat (room s))"

lemma readable_kept: "readable vars name guid s \<Longrightarrow> kept E live vars s s' \<Longrightarrow> readable vars name guid s'"
  by (auto simp: readable_def keptD)

lemma tame_runtime_get:
  assumes env: "var_env E live ta" and gets: "store_gets ta vars" and quiet: "quiet E vars ta" and ready: "var_ready E live s"
    and "readable vars name guid s" and "first_char name \<noteq> 1" and "Published s"
    and "n \<noteq> 0 \<longrightarrow> Data \<noteq> None" and "unat n + 16 \<le> unat (room s)"
  shows "tame E live vars (runtime_GetVariable E name guid n Data) (\<lambda>(st, n', Data'). \<exists>out.
    (unsent n Data out \<or> reads (vars (rest_of s) (name, guid)) None n Data out) \<and>
    st = GetStatus out \<and> n' = the (GetDataSize out) \<and> Data' = GetData out) s"
proof -
  have req: "get_request name guid n Data s"
    using assms(5-9) by (auto simp: get_request_def readable_def hook_request_def)
  have "tame E live vars (bindM (OpteeRuntimeGetVariable E (Some name) (Some guid) None (Some n) Data)
      (\<lambda>r. ret (GetStatus r, the (GetDataSize r), GetData r))) (\<lambda>(st, n', Data'). \<exists>out.
    (unsent n Data out \<or> reads (vars (rest_of s) (name, guid)) None n Data out) \<and>
    st = GetStatus out \<and> n' = the (GetDataSize out) \<and> Data' = GetData out) s"
    by (rule tame_bind [OF tame_get [OF env gets quiet ready req]]) (auto intro!: tame_ret dest: keptD)
  then show ?thesis
    using assms(7) by (simp add: runtime_GetVariable_def tame_def bindM_def gets_def)
qed

lemma small_length: "length d + 16 \<le> unat (room s) \<Longrightarrow> unat (of_nat (length d) :: u64) = length d"
proof -
  have "unat (room s) < 2 ^ 64" using unsigned_less [of "room s"] by simp
  then show "length d + 16 \<le> unat (room s) \<Longrightarrow> ?thesis" by (simp add: unat_of_nat)
qed

text \<open>The second read of the variable, with a buffer of the size the first one announced.\<close>

lemma tame_second_get:
  assumes env: "var_env E live ta" and gets: "store_gets ta vars" and quiet: "quiet E vars ta" and ready: "var_ready E live s"
    and rd: "readable vars name guid s" and "first_char name \<noteq> 1" and "Published s"
    and v: "vars (rest_of s) (name, guid) = Some (a, d)" "d \<noteq> []" and "b \<noteq> None"
  shows "tame E live vars (bindM (runtime_GetVariable E name guid (of_nat (length d)) b) (\<lambda>(Status, BufferSize, Value).
         if EFI_ERROR Status then bindM (firmware (FreePool E)) (\<lambda>_. ret (Status, None, BufferSize))
         else ret (Status, Value, BufferSize))) (\<lambda>(st, v, n). EFI_ERROR st \<or> (n = 0 \<longleftrightarrow> v = None)) s"
proof -
  have d: "length d + 16 \<le> unat (room s)" using rd v by (simp add: readable_def)
  note u = small_length [OF d]
  have u0: "(of_nat (length d) :: u64) \<noteq> 0" using u v(2) by auto
  have free: "harmless E vars (FreePool E)" using quiet by (simp add: quiet_def)
  have "tame E live vars (runtime_GetVariable E name guid (of_nat (length d)) b) (\<lambda>(st, n', Data'). \<exists>out.
    (unsent (of_nat (length d)) b out \<or> reads (Some (a, d)) None (of_nat (length d)) b out) \<and>
    st = GetStatus out \<and> n' = the (GetDataSize out) \<and> Data' = GetData out) s"
    using tame_runtime_get [OF assms(1-7), of "of_nat (length d)" b] u d assms(10) by (simp add: v(1))
  then show ?thesis
  proof (rule tame_bind)
    fix x s'
    assume x: "case x of (st, n', Data') \<Rightarrow> \<exists>out.
      (unsent (of_nat (length d)) b out \<or> reads (Some (a, d)) None (of_nat (length d)) b out) \<and>
      st = GetStatus out \<and> n' = the (GetDataSize out) \<and> Data' = GetData out" and k: "kept E live vars s s'"
    obtain st n' Data' out where x': "x = (st, n', Data')" "st = GetStatus out" "n' = the (GetDataSize out)" "Data' = GetData out"
      and out: "unsent (of_nat (length d)) b out \<or> reads (Some (a, d)) None (of_nat (length d)) b out"
      using x by (cases x) auto
    note r' = keptD(1) [OF k]
    have "EFI_ERROR st \<or> n' \<noteq> 0 \<and> Data' \<noteq> None"
      using out x'(2-4) u u0 assms(10) by (auto simp: unsent_def reads_def)
    then show "tame E live vars (case x of (Status, BufferSize, Value) \<Rightarrow>
         if EFI_ERROR Status then bindM (firmware (FreePool E)) (\<lambda>_. ret (Status, None, BufferSize))
         else ret (Status, Value, BufferSize)) (\<lambda>(st, v, n). EFI_ERROR st \<or> (n = 0 \<longleftrightarrow> v = None)) s'"
      unfolding x'(1) by (auto intro!: tame_ret r' tame_bind [OF tame_firmware [OF env r' free]] dest: keptD(1))
  qed
qed

lemma tame_internal_get:
  assumes env: "var_env E live ta" and gets: "store_gets ta vars" and quiet: "quiet E vars ta" and ready: "var_ready E live s"
    and rd: "readable vars name guid s" and fc: "first_char name \<noteq> 1" and pub: "Published s"
  shows "tame E live vars (InternalGetVariable E name guid) (\<lambda>(st, v, n). EFI_ERROR st \<or> (n = 0 \<longleftrightarrow> v = None)) s"
  unfolding InternalGetVariable_def
proof (rule tame_bind [OF tame_runtime_get [OF assms]])
  show "(0 :: u64) \<noteq> 0 \<longrightarrow> None \<noteq> None" by simp
  show "unat (0 :: u64) + 16 \<le> unat (room s)" using rd by (simp add: readable_def)
  fix x s'
  assume "case x of (st, n', Data') \<Rightarrow> \<exists>out. (unsent 0 None out \<or> reads (vars (rest_of s) (name, guid)) None 0 None out) \<and>
      st = GetStatus out \<and> n' = the (GetDataSize out) \<and> Data' = GetData out" and k: "kept E live vars s s'"
  then obtain out where x: "x = (GetStatus out, the (GetDataSize out), GetData out)"
    and out: "unsent 0 None out \<or> reads (vars (rest_of s) (name, guid)) None 0 None out"
    by (cases x) auto
  note s' = keptD [OF k]
  show "tame E live vars (case x of (Status, BufferSize, uu) \<Rightarrow>
     if Status \<noteq> EFI_BUFFER_TOO_SMALL then ret (Status, None, 0)
     else bindM (firmware (AllocatePool E BufferSize)) (\<lambda>Value. bindM (ASSERT (Value \<noteq> None)) (\<lambda>_.
       bindM (runtime_GetVariable E name guid BufferSize Value) (\<lambda>(Status, BufferSize, Value).
         if EFI_ERROR Status then bindM (firmware (FreePool E)) (\<lambda>_. ret (Status, None, BufferSize))
         else ret (Status, Value, BufferSize))))) (\<lambda>(st, v, n). EFI_ERROR st \<or> (n = 0 \<longleftrightarrow> v = None)) s'"
  proof (cases "GetStatus out = EFI_BUFFER_TOO_SMALL")
    case False
    then show ?thesis by (auto simp: x intro!: tame_ret s'(1))
  next
    case True
    then obtain a d where v: "vars (rest_of s) (name, guid) = Some (a, d)" "d \<noteq> []" "GetDataSize out = Some (of_nat (length d))"
      using out by (auto simp: unsent_def reads_def split: option.splits if_splits)
    have al: "harmless E vars (AllocatePool E n)" "fst (AllocatePool E n t) \<noteq> None" for n t
      using quiet by (simp_all add: quiet_def)
    show ?thesis
      unfolding x using True
    proof (simp add: v(3), intro tame_bind [OF tame_firmware [OF env s'(1) al(1)]])
      fix b s''
      assume "b = fst (AllocatePool E (of_nat (length d)) (rest_of s'))" and k': "kept E live vars s' s''"
      then have b: "b \<noteq> None" using al(2) by metis
      note s'' = keptD [OF k']
      have "tame E live vars (bindM (runtime_GetVariable E name guid (of_nat (length d)) b) (\<lambda>(Status, BufferSize, Value).
         if EFI_ERROR Status then bindM (firmware (FreePool E)) (\<lambda>_. ret (Status, None, BufferSize))
         else ret (Status, Value, BufferSize))) (\<lambda>(st, v, n). EFI_ERROR st \<or> (n = 0 \<longleftrightarrow> v = None)) s''"
        using s'(3,5) s''(3,5) pub v(1,2) b readable_kept [OF readable_kept [OF rd k] k']
        by (intro tame_second_get [OF env gets quiet s''(1)] fc) simp_all
      then show "tame E live vars (bindM (ASSERT (\<exists>y. b = Some y)) (\<lambda>_.
         bindM (runtime_GetVariable E name guid (of_nat (length d)) b) (\<lambda>(Status, BufferSize, Value).
         if EFI_ERROR Status then bindM (firmware (FreePool E)) (\<lambda>_. ret (Status, None, BufferSize))
         else ret (Status, Value, BufferSize)))) (\<lambda>(st, v, n). EFI_ERROR st \<or> (n = 0 \<longleftrightarrow> v = None)) s''"
        using b by (simp add: ASSERT_def)
    qed
  qed
qed

lemma tame_measure:
  assumes env: "var_env E live ta" and quiet: "quiet E vars ta" and ready: "var_ready E live s" and "n = 0 \<longleftrightarrow> v = None"
  shows "tame E live vars (MeasureVariable E name guid v n) (\<lambda>_. True) s"
proof -
  have h: "harmless E vars (AllocateZeroPool E k)" "harmless E vars (TpmMeasureAndLogData E p e d k)" "harmless E vars (FreePool E)"
    for k p e d
    using quiet by (simp_all add: quiet_def)
  have as: "ASSERT (n = 0 \<and> v = None \<or> n \<noteq> 0 \<and> v \<noteq> None) = ret ()"
    using assms(4) by (auto simp: ASSERT_def)
  have "tame E live vars (bindM (firmware (TpmMeasureAndLogData E p e d k)) (\<lambda>Status.
      bindM (firmware (FreePool E)) (\<lambda>_. ret Status))) (\<lambda>_. True) s'" if r: "var_ready E live s'" for p e d k s'
    by (intro tame_bind [OF tame_firmware [OF env r h(2)]] tame_bind [OF tame_firmware [OF env _ h(3)]] tame_ret)
      (auto dest: keptD(1))
  then show ?thesis
    unfolding MeasureVariable_def as Let_def
    by (auto intro!: tame_bind [OF tame_firmware [OF env ready h(1)]] tame_ret dest: keptD(1))
qed

text \<open>The protocol is installed only after the services have been published.\<close>

definition published_first :: "('g, 't) AuthVarEnv \<Rightarrow> ('g, 't) AuthVarState \<Rightarrow> bool" where
  "published_first E s \<longleftrightarrow> EFI_ERROR (fst (LocateVariableArch E (rest_of s))) \<or> Published s"

lemma published_kept: "published_first E s \<Longrightarrow> kept E live vars s s' \<Longrightarrow> published_first E s'"
  using keptD(3,7) by (fastforce simp: published_first_def platform_view_def)

lemma tame_hook:
  assumes env: "var_env E live ta" and gets: "store_gets ta vars" and quiet: "quiet E vars ta" and ready: "var_ready E live s"
    and rd: "readable vars name guid s" and pub: "published_first E s"
  shows "tame E live vars (SecureBootHook E name guid) (\<lambda>_. True) s"
proof -
  have h: "harmless E vars (LocateVariableArch E)" "harmless E vars (FreePool E)"
    using quiet by (simp_all add: quiet_def)
  have measure: "tame E live vars (let (data, n) = (if EFI_ERROR st then (None, 0) else (v, n))
      in bindM (MeasureVariable E name guid data n) (\<lambda>_. if data \<noteq> None then firmware (FreePool E) else ret ())) (\<lambda>_. True) s'"
    if "EFI_ERROR st \<or> (n = 0 \<longleftrightarrow> v = None)" and r: "var_ready E live s'" for st v n s'
    using that by (auto intro!: tame_bind [OF tame_measure [OF env quiet r]] tame_ret
        tame_weaken [OF tame_firmware [OF env _ h(2)]] dest: keptD(1))
  show ?thesis
    unfolding SecureBootHook_def
  proof (rule tame_bind [OF tame_firmware [OF env ready h(1)]])
    fix st s'
    assume st: "st = fst (LocateVariableArch E (rest_of s))" and k: "kept E live vars s s'"
    note s' = keptD [OF k]
    have "tame E live vars (InternalGetVariable E name guid) (\<lambda>(st, v, n). EFI_ERROR st \<or> (n = 0 \<longleftrightarrow> v = None)) s'"
      if "\<not> EFI_ERROR st" "IsSecureBootPolicyVariable name guid"
      using that st pub s'(3) by (intro tame_internal_get [OF env gets quiet s'(1) readable_kept [OF rd k]] policy_first_char)
        (auto simp: published_first_def)
    then show "tame E live vars (if EFI_ERROR st then ret ()
        else if \<not> IsSecureBootPolicyVariable name guid then ret ()
        else bindM (InternalGetVariable E name guid) (\<lambda>(Status, VariableData, VariableDataSize).
          let (data, n) = (if EFI_ERROR Status then (None, 0) else (VariableData, VariableDataSize))
          in bindM (MeasureVariable E name guid data n) (\<lambda>_. if data \<noteq> None then firmware (FreePool E) else ret ()))) (\<lambda>_. True) s'"
    proof (cases "EFI_ERROR st \<or> \<not> IsSecureBootPolicyVariable name guid")
      case True
      then show ?thesis by (auto intro!: tame_ret s'(1))
    next
      case False
      then have t: "tame E live vars (InternalGetVariable E name guid) (\<lambda>(st, v, n). EFI_ERROR st \<or> (n = 0 \<longleftrightarrow> v = None)) s'"
        using \<open>\<lbrakk>\<not> EFI_ERROR st; IsSecureBootPolicyVariable name guid\<rbrakk> \<Longrightarrow> _\<close> by blast
      have "tame E live vars (bindM (InternalGetVariable E name guid) (\<lambda>(Status, VariableData, VariableDataSize).
          let (data, n) = (if EFI_ERROR Status then (None, 0) else (VariableData, VariableDataSize))
          in bindM (MeasureVariable E name guid data n) (\<lambda>_. if data \<noteq> None then firmware (FreePool E) else ret ()))) (\<lambda>_. True) s'"
      proof (rule tame_bind [OF t])
        fix x :: "EFI_STATUS \<times> u8 list option \<times> u64" and s''
        assume x: "case x of (st, v, n) \<Rightarrow> EFI_ERROR st \<or> (n = 0 \<longleftrightarrow> v = None)" and k': "kept E live vars s' s''"
        obtain c v n where [simp]: "x = (c, v, n)" by (cases x)
        show "tame E live vars (case x of (Status, VariableData, VariableDataSize) \<Rightarrow>
          let (data, n) = (if EFI_ERROR Status then (None, 0) else (VariableData, VariableDataSize))
          in bindM (MeasureVariable E name guid data n) (\<lambda>_. if data \<noteq> None then firmware (FreePool E) else ret ())) (\<lambda>_. True) s''"
          using measure [of c n v s''] x keptD(1) [OF k'] by simp
      qed
      with False show ?thesis by simp
    qed
  qed
qed

section \<open>Writing a variable\<close>

definition set_request :: "CHAR16s \<Rightarrow> EFI_GUID \<Rightarrow> u32 \<Rightarrow> u8 list \<Rightarrow> ('g, 't) AuthVarState \<Rightarrow> bool" where
  "set_request name guid a d s \<longleftrightarrow> sendable name guid \<and> plain a \<and> d \<noteq> [] \<and> name \<noteq> [] \<and> first_char name \<noteq> 0 \<and>
     \<not> hook_request name guid (of_nat (length d)) \<and> name_size name + length d + 44 \<le> unat (room s)"

text \<open>The platform after the application handled a write.\<close>

definition after_set :: "('g, 't) AuthVarEnv \<Rightarrow> 't var_ta \<Rightarrow> CHAR16s \<Rightarrow> EFI_GUID \<Rightarrow> u32 \<Rightarrow> u8 list \<Rightarrow>
    ('g, 't) AuthVarState \<Rightarrow> EFI_STATUS \<times> 't" where
  "after_set E ta name guid a d s = (if no_message E (gcd_of s) then (EFI_OUT_OF_RESOURCES, rest_of s)
     else case ta (op_code VSSetOp) (set_param_bytes name guid a d) 4 (rest_of s) of ((r, _), t) \<Rightarrow> (status_of r, t))"

lemma set_exchange_run:
  assumes env: "var_env E live ta" and ready: "var_ready E live s" and req: "set_request name guid a d s"
  shows "\<exists>m g. live g = live (gcd_of s) \<and> var_ready E live (step_to m g (snd (after_set E ta name guid a d s)) s) \<and>
    set_exchange E name guid a (of_nat (length d)) d s
      = Ret (fst (after_set E ta name guid a d s), step_to m g (snd (after_set E ta name guid a d s)) s)"
proof -
  let ?bs = "set_param_bytes name guid a d" and ?n = "of_nat (length d) :: u64"
  have g: "guid_ok guid" and size: "name_size name + length d + 44 \<le> unat (room s)"
    using req by (simp_all add: set_request_def sendable_def)
  have N: "unat (room s) < 2 ^ 31" using ready by (simp add: var_ready_def)
  have n: "unat ?n = length d" and ns: "unat (StrSize name) = name_size name"
    using size N by (simp_all add: unat_of_nat unat_StrSize)
  have ps: "unat (44 + StrSize name + ?n) = length ?bs" "unat (ucast (44 + StrSize name + ?n) :: u32) = length ?bs"
  proof -
    have len: "length ?bs = name_size name + length d + 44"
      using length_guid [OF g] by (simp add: set_param_bytes_def)
    show ps: "unat (44 + StrSize name + ?n) = length ?bs"
      using size N n ns len by (simp add: unat_word_ariths)
    show "unat (ucast (44 + StrSize name + ?n) :: u32) = length ?bs"
      using ps len size N by (simp add: unsigned_ucast_eq take_bit_nat_eq_self)
  qed
  have len: "length ?bs \<le> unat (room s)"
    using length_guid [OF g] size by (simp add: set_param_bytes_def)
  have fit: "\<not> room s \<le> StrSize name" "\<not> room s \<le> ?n" "\<not> room s < 44 + StrSize name + ?n"
    using size n ns len by (simp_all add: word_le_nat_alt word_less_nat_alt ps)
  obtain m where fill: "fill_set (param_buf s) name guid a ?n d (step_to (cleared s) (gcd_of s) (rest_of s) s)
      = Ret ((), step_to m (gcd_of s) (rest_of s) s)" and m: "holds_request s ?bs m"
    using fill_set_run [OF env ready g size n] by metis
  obtain r sz st bytes t where ta: "ta (op_code VSSetOp) ?bs (unat (4 :: u32)) (rest_of s) = ((r, sz, st, bytes), t)"
    by (metis surj_pair)
  have four: "unat (4 :: u32) \<le> unat (room s)" using size by simp
  have R: "(None :: TEEC_SharedMemory option) = Some (mVariableResultMem s) \<and> 0 = (4 :: u32) \<or>
      (None :: TEEC_SharedMemory option) = None \<and> (4 :: u32) = 4" by simp
  obtain m' g where e: "live g = live (gcd_of s)" "var_ready E live (step_to m' g (if no_message E (gcd_of s) then rest_of s else t) s)"
    "OpteeRuntimeVariableInvokeCommand E VSSetOp (ucast (44 + StrSize name + ?n)) (Some (mVariableParamMem s)) 0 None
        (step_to m (gcd_of s) (rest_of s) s) =
      Ret (if no_message E (gcd_of s) then (EFI_OUT_OF_RESOURCES, 0, 0) else (status_of r, sz, st),
           step_to m' g (if no_message E (gcd_of s) then rest_of s else t) s)"
    using exchange_run [OF env ready m len ps(2) four ta R] by blast
  have "set_exchange E name guid a ?n d s
      = Ret (fst (after_set E ta name guid a d s), step_to m' g (snd (after_set E ta name guid a d s)) s)"
    using e(3) ta ready
    by (simp add: set_exchange_def bindM_def gets_def fit var_offsets Let_def clear_run [OF ready] fill ret_def
        after_set_def var_ready_def)
  moreover have "snd (after_set E ta name guid a d s) = (if no_message E (gcd_of s) then rest_of s else t)"
    using ta by (simp add: after_set_def)
  ultimately show ?thesis
    using e(1,2) by (intro exI [of _ m'] exI [of _ g]) simp
qed

lemma status_of_error: "EFI_ERROR (status_of r) \<longleftrightarrow> r \<noteq> TEEC_SUCCESS" "status_of r = EFI_SUCCESS \<longleftrightarrow> r = TEEC_SUCCESS"
  by (simp_all add: status_of_def)

text \<open>A step of the driver that keeps it ready but may change the variables.\<close>

definition carried :: "('g, 't) AuthVarEnv \<Rightarrow> ('g \<Rightarrow> (u64 \<times> u64) set) \<Rightarrow>
    ('g, 't) AuthVarState \<Rightarrow> ('g, 't) AuthVarState \<Rightarrow> bool" where
  "carried E live s s' \<longleftrightarrow> var_ready E live s' \<and> s' = step_to (mem_of s') (gcd_of s') (rest_of s') s \<and>
     live (gcd_of s') = live (gcd_of s) \<and> (published_first E s \<longrightarrow> published_first E s')"

lemma kept_carried: "kept E live vars s s' \<Longrightarrow> carried E live s s'"
  using published_kept [of E s live vars s'] by (auto simp: carried_def kept_def)

lemma carriedD:
  assumes "carried E live s s'"
  shows "var_ready E live s'" and "room s' = room s" and "Published s' = Published s"
    and "live (gcd_of s') = live (gcd_of s)" and "published_first E s \<Longrightarrow> published_first E s'"
proof -
  obtain m g t where "s' = step_to m g t s"
    using assms unfolding carried_def by blast
  then show "room s' = room s" "Published s' = Published s"
    by simp_all
qed (use assms in \<open>simp_all add: carried_def\<close>)

lemma carried_trans: "carried E live s s' \<Longrightarrow> carried E live s' s'' \<Longrightarrow> carried E live s s''"
proof -
  assume a: "carried E live s s'" "carried E live s' s''"
  then have "s'' = step_to (mem_of s'') (gcd_of s'') (rest_of s'') (step_to (mem_of s') (gcd_of s') (rest_of s') s)"
    unfolding carried_def by argo
  then show ?thesis using a by (simp add: carried_def)
qed

lemma SetVariable_store:
  assumes env: "var_env E live ta" and gets: "store_gets ta vars" and sets: "store_sets ta vars" and quiet: "quiet E vars ta"
    and ready: "var_ready E live s" and pub: "published_first E s" and req: "set_request name guid a d s"
  obtains st s' where "OpteeRuntimeSetVariable E (Some name) (Some guid) a (of_nat (length d)) (Some d) s = Ret (st, s')"
    and "carried E live s s'" and "st = fst (after_set E ta name guid a d s)" and "EFI_ERROR st \<longleftrightarrow> st \<noteq> EFI_SUCCESS"
    and "vars (rest_of s') = (if st = EFI_SUCCESS then (vars (rest_of s))((name, guid) \<mapsto> (a, d)) else vars (rest_of s))"
proof -
  let ?r = "after_set E ta name guid a d s"
  obtain m g where x: "live g = live (gcd_of s)" "var_ready E live (step_to m g (snd ?r) s)"
    "set_exchange E name guid a (of_nat (length d)) d s = Ret (fst ?r, step_to m g (snd ?r) s)"
    using set_exchange_run [OF env ready req] by blast
  let ?s = "step_to m g (snd ?r) s"
  have snd: "sendable name guid" and pl: "plain a" "d \<noteq> []" and size: "name_size name + length d + 44 \<le> unat (room s)"
    using req by (simp_all add: set_request_def)
  have err: "EFI_ERROR (fst ?r) \<longleftrightarrow> fst ?r \<noteq> EFI_SUCCESS"
    by (auto simp: after_set_def status_of_error split: prod.splits)
  have v: "vars (snd ?r) = (if fst ?r = EFI_SUCCESS then (vars (rest_of s))((name, guid) \<mapsto> (a, d)) else vars (rest_of s))"
    using sets snd pl by (auto simp: after_set_def store_sets_def status_of_error split: prod.splits)
  have view: "snd (platform_view E vars (snd ?r)) = snd (platform_view E vars (rest_of s))"
    using quiet by (auto simp: quiet_def after_set_def split: prod.splits) (metis snd_conv)+
  then have c: "carried E live s ?s"
    using x(1,2) by (simp add: carried_def published_first_def platform_view_def)
  have top: "OpteeRuntimeSetVariable E (Some name) (Some guid) a (of_nat (length d)) (Some d) s
      = (if EFI_ERROR (fst ?r) then Ret (fst ?r, ?s) else bindM (SecureBootHook E name guid) (\<lambda>_. ret (fst ?r)) ?s)"
    using req ready x(3)
    by (auto simp: OpteeRuntimeSetVariable_def bindM_def gets_def set_request_def var_ready_def hook_request_def ret_def)
  show thesis
  proof (cases "EFI_ERROR (fst ?r)")
    case True
    with top c err v show ?thesis by (intro that [of "fst ?r" ?s]) simp_all
  next
    case False
    then have v': "vars (rest_of ?s) (name, guid) = Some (a, d)"
      using v err by simp
    have "readable vars name guid ?s"
      using snd size v' by (auto simp: readable_def)
    then obtain s' where h: "SecureBootHook E name guid ?s = Ret ((), s')" and k: "kept E live vars ?s s'"
      using tame_hook [OF env gets quiet carriedD(1) [OF c] _ carriedD(5) [OF c pub]] by (auto simp: tame_def)
    show ?thesis
    proof (rule that [of "fst ?r" s'])
      show "OpteeRuntimeSetVariable E (Some name) (Some guid) a (of_nat (length d)) (Some d) s = Ret (fst ?r, s')"
        using top False h by (simp add: bindM_def ret_def)
      show "carried E live s s'" using carried_trans [OF c kept_carried [OF k]] .
      show "vars (rest_of s') = (if fst ?r = EFI_SUCCESS then (vars (rest_of s))((name, guid) \<mapsto> (a, d)) else vars (rest_of s))"
        using keptD(5) [OF k] v by simp
    qed (use err in simp_all)
  qed
qed

text \<open>
  Property C3. Writing a variable acts on the store as the UEFI specification says. A plain write
  that fits the transport buffers returns; if the message could be sent and the application accepted
  it, the store maps the name and the vendor to exactly the attributes and the data that were passed,
  and maps every other variable as before; otherwise an error is returned and the store is unchanged.
  The driver stays ready, whatever was measured on the way.
\<close>
theorem SetVariable_writes_store:
  assumes "var_env E live ta" and "store_gets ta vars" and "store_sets ta vars" and "quiet E vars ta"
    and "var_ready E live s" and "published_first E s" and "set_request name guid a d s"
  shows "\<exists>st s'. OpteeRuntimeSetVariable E (Some name) (Some guid) a (of_nat (length d)) (Some d) s = Ret (st, s') \<and>
    carried E live s s' \<and> st = fst (after_set E ta name guid a d s) \<and>
    vars (rest_of s') = (if st = EFI_SUCCESS then (vars (rest_of s))((name, guid) \<mapsto> (a, d)) else vars (rest_of s)) \<and>
    (st \<noteq> EFI_SUCCESS \<longrightarrow> EFI_ERROR st)"
  by (rule SetVariable_store [OF assms]) blast

text \<open>
  Property C4. Reading a variable returns what the store holds: an absent variable is
  \<open>EFI_NOT_FOUND\<close>; a buffer too small is reported with the size that is needed; otherwise the caller
  gets the attributes, the size and the data. Only when no message could be sent is it
  \<open>EFI_OUT_OF_RESOURCES\<close>. The store is not changed and the driver stays ready.
\<close>
theorem GetVariable_reads_store:
  assumes "var_env E live ta" and "store_gets ta vars" and "quiet E vars ta" and "var_ready E live s"
    and "get_request name guid n Data s"
  shows "\<exists>out s'. OpteeRuntimeGetVariable E (Some name) (Some guid) Attributes (Some n) Data s = Ret (out, s') \<and>
    kept E live vars s s' \<and>
    (if no_message E (gcd_of s) then unsent n Data out
     else reads (vars (rest_of s) (name, guid)) Attributes n Data out)"
  using GetVariable_kept [OF assms, of Attributes] by metis

text \<open>
  Property C6. A variable that was stored reads back: after a write that succeeded, a read with a
  buffer large enough returns exactly the attributes and the data that were written, and the bytes
  of the buffer behind the data are left alone.
\<close>
theorem variable_roundtrip:
  assumes "var_env E live ta" and "store_gets ta vars" and "store_sets ta vars" and "quiet E vars ta"
    and "var_ready E live s" and "published_first E s" and "set_request name guid a d s"
    and "OpteeRuntimeSetVariable E (Some name) (Some guid) a (of_nat (length d)) (Some d) s = Ret (EFI_SUCCESS, s1)"
    and "get_request name guid n (Some buf) s" and "length d \<le> unat n" and "\<not> no_message E (gcd_of s1)"
  shows "\<exists>s2. OpteeRuntimeGetVariable E (Some name) (Some guid) (Some x) (Some n) (Some buf) s1 =
    Ret (\<lparr>GetStatus = EFI_SUCCESS, GetAttributes = Some a, GetDataSize = Some (of_nat (length d)),
          GetData = Some (d @ drop (length d) buf)\<rparr>, s2)"
proof -
  obtain st s' where set: "OpteeRuntimeSetVariable E (Some name) (Some guid) a (of_nat (length d)) (Some d) s = Ret (st, s')"
    and c: "carried E live s s'"
    and v: "vars (rest_of s') = (if st = EFI_SUCCESS then (vars (rest_of s))((name, guid) \<mapsto> (a, d)) else vars (rest_of s))"
    by (rule SetVariable_store [OF assms(1-7)])
  have s1: "st = EFI_SUCCESS" "s' = s1" using set assms(8) by simp_all
  have "get_request name guid n (Some buf) s1"
    using assms(9) carriedD(2) [OF c] by (simp add: get_request_def s1(2))
  from GetVariable_kept [OF assms(1,2,4) carriedD(1) [OF c, unfolded s1(2)] this, of "Some x"]
  obtain out s2 where "OpteeRuntimeGetVariable E (Some name) (Some guid) (Some x) (Some n) (Some buf) s1 = Ret (out, s2)"
    "reads (vars (rest_of s1) (name, guid)) (Some x) n (Some buf) out"
    using assms(11) by (metis (no_types))
  then show ?thesis
    using v s1 assms(10) by (simp add: reads_def splice_def)
qed

section \<open>The secure boot variables\<close>

definition sb_key :: "CHAR16s \<times> EFI_GUID" where "sb_key = (EFI_SECURE_BOOT_ENABLE_NAME, gEfiSecureBootEnableDisableGuid)"
definition setup_key :: "CHAR16s \<times> EFI_GUID" where "setup_key = (EFI_SETUP_MODE_NAME, gEfiGlobalVariableGuid)"
definition boot_key :: "CHAR16s \<times> EFI_GUID" where "boot_key = (EFI_SECURE_BOOT_MODE_NAME, gEfiGlobalVariableGuid)"
definition custom_key :: "CHAR16s \<times> EFI_GUID" where "custom_key = (EFI_CUSTOM_MODE_NAME, gEfiCustomModeEnableGuid)"
definition pk_key :: "CHAR16s \<times> EFI_GUID" where "pk_key = (EFI_PLATFORM_KEY_NAME, gEfiGlobalVariableGuid)"

lemmas boot_keys = sb_key_def setup_key_def boot_key_def custom_key_def pk_key_def
lemmas boot_guids = gEfiGlobalVariableGuid_def gEfiSecureBootEnableDisableGuid_def gEfiCustomModeEnableGuid_def

lemma sb_not_setup: "sb_key \<noteq> setup_key"
  by (simp add: boot_keys boot_guids)

text \<open>A platform key is enrolled when \<open>PK\<close> holds more than one byte.\<close>

definition pk_enrolled :: "vars \<Rightarrow> bool" where
  "pk_enrolled v \<longleftrightarrow> (case v pk_key of None \<Rightarrow> False | Some (_, d) \<Rightarrow> 1 < length d)"

definition stored_byte :: "vars \<Rightarrow> u8 option" where
  "stored_byte v = (case v sb_key of Some (_, [b]) \<Rightarrow> Some b | _ \<Rightarrow> None)"

text \<open>
  The variables after the set-up: in user mode \<open>SecureBoot\<close> is on exactly when \<open>SecureBootEnable\<close>
  says so, which is created from the platform's default when it could not be read.
\<close>

definition secure_boot_vars :: "bool \<Rightarrow> bool \<Rightarrow> u8 option \<Rightarrow> vars \<Rightarrow> vars" where
  "secure_boot_vars pcd user known v =
     (let byte = (if pcd then 1 else 0);
          enable = (case known of Some b \<Rightarrow> b | None \<Rightarrow> byte);
          v1 = v(setup_key \<mapsto> (volatile_attributes, [if user then USER_MODE else SETUP_MODE]));
          v2 = (if user \<and> known = None then v1(sb_key \<mapsto> (stored_attributes, [byte])) else v1)
      in v2(boot_key \<mapsto> (volatile_attributes,
              [if user \<and> enable = 1 then SECURE_BOOT_MODE_ENABLE else SECURE_BOOT_MODE_DISABLE]),
            custom_key \<mapsto> (stored_attributes, [STANDARD_SECURE_BOOT_MODE])))"

lemma plain_attributes: "plain volatile_attributes" "plain stored_attributes"
  by (simp_all add: plain_def volatile_attributes_def stored_attributes_def EFI_VARIABLE_NON_VOLATILE_def
      EFI_VARIABLE_BOOTSERVICE_ACCESS_def EFI_VARIABLE_RUNTIME_ACCESS_def)

lemma boot_request:
  assumes "(name, guid) \<in> {sb_key, setup_key, boot_key, custom_key}" and "79 \<le> unat (room s)" and "plain a"
  shows "set_request name guid a [b] s"
  using assms by (auto simp: set_request_def sendable_def guid_ok_def name_size_def hook_request_def first_char_def boot_keys
      boot_guids secure_boot_names ascii_def)

lemma boot_get_request:
  assumes "(name, guid) \<in> {sb_key, pk_key}" and "79 \<le> unat (room s)" and "Data \<noteq> None"
  shows "get_request name guid 1 Data s"
  using assms by (auto simp: get_request_def sendable_def guid_ok_def name_size_def hook_request_def boot_keys
      boot_guids secure_boot_names ascii_def)

text \<open>What the set-up of the variables relies on, and the effect of one of its steps on the store.\<close>

definition boot_ready :: "('g, 't) AuthVarEnv \<Rightarrow> ('g \<Rightarrow> (u64 \<times> u64) set) \<Rightarrow> 't var_ta \<Rightarrow> ('t \<Rightarrow> vars) \<Rightarrow>
    ('g, 't) AuthVarState \<Rightarrow> bool" where
  "boot_ready E live ta vars s \<longleftrightarrow> var_env E live ta \<and> store_gets ta vars \<and> store_sets ta vars \<and> quiet E vars ta \<and>
     var_ready E live s \<and> published_first E s \<and> 79 \<le> unat (room s)"

lemma boot_ready_carried: "boot_ready E live ta vars s \<Longrightarrow> carried E live s s' \<Longrightarrow> boot_ready E live ta vars s'"
  by (auto simp: boot_ready_def dest: carriedD)

text \<open>Every message can be sent with the blocks handed out as they are; single bytes are stored.\<close>

definition sends :: "('g, 't) AuthVarEnv \<Rightarrow> ('g \<Rightarrow> (u64 \<times> u64) set) \<Rightarrow> ('g, 't) AuthVarState \<Rightarrow> bool" where
  "sends E live s \<longleftrightarrow> (\<forall>g. live g = live (gcd_of s) \<longrightarrow> \<not> no_message E g)"

definition accepts :: "'t var_ta \<Rightarrow> bool" where
  "accepts ta \<longleftrightarrow> (\<forall>name guid a b n t. sendable name guid \<longrightarrow> plain a \<longrightarrow>
     fst (fst (ta (op_code VSSetOp) (set_param_bytes name guid a [b]) n t)) = TEEC_SUCCESS)"

lemma sends_carried: "carried E live s s' \<Longrightarrow> sends E live s' = sends E live s"
  by (simp add: sends_def carried_def)

text \<open>A step that returns, ends in \<open>Q\<close> when it succeeds, and succeeds when \<open>ok\<close> holds.\<close>

definition puts :: "('g, 't) AuthVarEnv \<Rightarrow> ('g \<Rightarrow> (u64 \<times> u64) set) \<Rightarrow> ('t \<Rightarrow> vars) \<Rightarrow> bool \<Rightarrow>
    ('g, 't, EFI_STATUS) avar \<Rightarrow> (vars \<Rightarrow> bool) \<Rightarrow> ('g, 't) AuthVarState \<Rightarrow> bool" where
  "puts E live vars ok p Q s \<longleftrightarrow> (\<exists>st s'. p s = Ret (st, s') \<and> carried E live s s' \<and> (EFI_ERROR st \<longleftrightarrow> st \<noteq> EFI_SUCCESS) \<and>
     (ok \<longrightarrow> st = EFI_SUCCESS) \<and> (st = EFI_SUCCESS \<longrightarrow> Q (vars (rest_of s'))))"

lemma puts_tryE:
  assumes "puts E live vars ok p P s"
    and "\<And>s'. carried E live s s' \<Longrightarrow> P (vars (rest_of s')) \<Longrightarrow> puts E live vars ok k Q s'"
  shows "puts E live vars ok (tryE p k) Q s"
proof -
  obtain st s' where p: "p s = Ret (st, s')" "carried E live s s'" "EFI_ERROR st \<longleftrightarrow> st \<noteq> EFI_SUCCESS"
    "ok \<longrightarrow> st = EFI_SUCCESS" "st = EFI_SUCCESS \<longrightarrow> P (vars (rest_of s'))"
    using assms(1) unfolding puts_def by blast
  show ?thesis
  proof (cases "st = EFI_SUCCESS")
    case False
    with p show ?thesis by (simp add: puts_def tryE_def bindM_def ret_def)
  next
    case True
    with p assms(2) [of s'] show ?thesis
      by (auto simp: puts_def tryE_def bindM_def intro: carried_trans)
  qed
qed

lemma puts_bind:
  "p s = Ret (x, s') \<Longrightarrow> carried E live s s' \<Longrightarrow> puts E live vars ok (k x) Q s' \<Longrightarrow> puts E live vars ok (bindM p k) Q s"
  unfolding puts_def bindM_def by (fastforce intro: carried_trans)

lemma puts_ret: "var_ready E live s \<Longrightarrow> Q (vars (rest_of s)) \<Longrightarrow> puts E live vars ok (ret EFI_SUCCESS) Q s"
  by (simp add: puts_def ret_def carried_def)

lemma puts_weaken: "puts E live vars ok p P s \<Longrightarrow> (\<And>v. P v \<Longrightarrow> Q v) \<Longrightarrow> puts E live vars ok p Q s"
  by (auto simp: puts_def)

lemma puts_byte:
  assumes r: "boot_ready E live ta vars s" and key: "(name, guid) \<in> {sb_key, setup_key, boot_key, custom_key}"
    and a: "a = volatile_attributes \<or> a = stored_attributes"
  shows "puts E live vars (sends E live s \<and> accepts ta) (set_byte E name guid a b) (\<lambda>v. v = (vars (rest_of s))((name, guid) \<mapsto> (a, [b]))) s"
proof -
  have env: "var_env E live ta" "store_gets ta vars" "store_sets ta vars" "quiet E vars ta" "var_ready E live s"
    "published_first E s" "79 \<le> unat (room s)" "plain a"
    using r a plain_attributes by (auto simp: boot_ready_def)
  from SetVariable_store [OF env(1-6) boot_request [OF key env(7,8)]] obtain st s' where
    "OpteeRuntimeSetVariable E (Some name) (Some guid) a (of_nat (length [b])) (Some [b]) s = Ret (st, s')"
    "carried E live s s'" "EFI_ERROR st \<longleftrightarrow> st \<noteq> EFI_SUCCESS"
    "vars (rest_of s') = (if st = EFI_SUCCESS then (vars (rest_of s))((name, guid) \<mapsto> (a, [b])) else vars (rest_of s))"
    "st = fst (after_set E ta name guid a [b] s)"
    by metis
  moreover have "fst (after_set E ta name guid a [b] s) = EFI_SUCCESS" if "sends E live s" "accepts ta"
    using that boot_request [OF key env(7,8), of b] env(8)
    by (auto simp: after_set_def sends_def accepts_def set_request_def status_of_error split: prod.splits) (metis fst_conv)
  ultimately show ?thesis
    unfolding puts_def set_byte_def by (intro exI [of _ st] exI [of _ s']) simp
qed

text \<open>Reading one byte: the status tells what the store holds, unless the message could not be sent.\<close>

lemma stored_nonempty:
  assumes "store_gets ta vars" and "sendable name guid" and "vars t (name, guid) = Some (a, d)"
  shows "d \<noteq> []"
proof -
  obtain r sz st bytes t' where "ta (op_code VSGetOp) (get_param_bytes name guid) 0 t = ((r, sz, st, bytes), t')"
    by (metis surj_pair)
  with assms(1,2) have "case vars t (name, guid) of None \<Rightarrow> r = TEEC_ERROR_ITEM_NOT_FOUND
      | Some (a, d) \<Rightarrow> length d < 2 ^ 31 \<and> d \<noteq> [] \<and>
         (if length d + 16 \<le> 0 then r = TEEC_SUCCESS \<and> (\<exists>x. bytes = get_result_bytes x a d)
          else r = TEEC_ERROR_SHORT_BUFFER \<and> sz = of_nat (length d + 16))"
    unfolding store_gets_def by blast
  with assms(3) show ?thesis by simp
qed

lemma get_byte:
  assumes r: "boot_ready E live ta vars s" and key: "(name, guid) \<in> {sb_key, pk_key}"
  obtains out s' b where "OpteeRuntimeGetVariable E (Some name) (Some guid) None (Some 1) (Some [x]) s = Ret (out, s')"
    and "carried E live s s'" and "vars (rest_of s') = vars (rest_of s)" and "GetData out = Some [b]"
    and "GetStatus out = EFI_BUFFER_TOO_SMALL \<longleftrightarrow> \<not> no_message E (gcd_of s) \<and>
       (case vars (rest_of s) (name, guid) of None \<Rightarrow> False | Some (_, d) \<Rightarrow> 1 < length d)"
    and "EFI_ERROR (GetStatus out) \<longleftrightarrow> no_message E (gcd_of s) \<or> (\<forall>a c. vars (rest_of s) (name, guid) \<noteq> Some (a, [c]))"
    and "EFI_ERROR (GetStatus out) \<or> (\<exists>a. vars (rest_of s) (name, guid) = Some (a, [b]))"
proof -
  have env: "var_env E live ta" "store_gets ta vars" "quiet E vars ta" "var_ready E live s" "79 \<le> unat (room s)"
    using r by (simp_all add: boot_ready_def)
  have req: "get_request name guid 1 (Some [x]) s"
    using boot_get_request [OF key env(5)] by simp
  obtain out s' where g: "OpteeRuntimeGetVariable E (Some name) (Some guid) None (Some 1) (Some [x]) s = Ret (out, s')"
    "kept E live vars s s'"
    "if no_message E (gcd_of s) then unsent 1 (Some [x]) out else reads (vars (rest_of s) (name, guid)) None 1 (Some [x]) out"
    by (rule GetVariable_kept [OF env(1-4) req])
  have ne: "d \<noteq> []" if "vars (rest_of s) (name, guid) = Some (a, d)" for a d
    using stored_nonempty [OF env(2) _ that] req by (simp add: get_request_def)
  note fin = that [OF g(1) kept_carried [OF g(2)] keptD(5) [OF g(2)]]
  show thesis
  proof (cases "no_message E (gcd_of s)")
    case True
    with g(3) show ?thesis by (intro fin [of x]) (simp_all add: unsent_def)
  next
    case False
    note rd = g(3) [unfolded if_not_P [OF False]]
    show ?thesis
    proof (cases "vars (rest_of s) (name, guid)")
      case None
      with rd False show ?thesis by (intro fin [of x]) (simp_all add: reads_def)
    next
      case (Some p)
      obtain a d where p: "p = (a, d)" by (metis surj_pair)
      show ?thesis
      proof (cases "length d \<le> 1")
        case True
        with ne [OF Some [unfolded p]] obtain b where "d = [b]" by (cases d) auto
        with rd False Some p show ?thesis by (intro fin [of b]) (simp_all add: reads_def splice_def)
      next
        case F: False
        with rd False Some p show ?thesis by (intro fin [of x]) (auto simp: reads_def)
      qed
    qed
  qed
qed

text \<open>The last steps: \<open>SecureBootEnable\<close> where it is created, \<open>SecureBoot\<close> and \<open>CustomMode\<close>.\<close>

lemma boot_tail:
  assumes "boot_ready E live ta vars s"
  shows "puts E live vars (sends E live s \<and> accepts ta)
    (tryE (if create then set_byte E EFI_SECURE_BOOT_ENABLE_NAME gEfiSecureBootEnableDisableGuid stored_attributes enable
           else ret EFI_SUCCESS) (
     tryE (set_byte E EFI_SECURE_BOOT_MODE_NAME gEfiGlobalVariableGuid volatile_attributes mode) (
     set_byte E EFI_CUSTOM_MODE_NAME gEfiCustomModeEnableGuid stored_attributes STANDARD_SECURE_BOOT_MODE)))
    (\<lambda>v. v = (if create then (vars (rest_of s))(sb_key \<mapsto> (stored_attributes, [enable])) else vars (rest_of s))
       (boot_key \<mapsto> (volatile_attributes, [mode]), custom_key \<mapsto> (stored_attributes, [STANDARD_SECURE_BOOT_MODE]))) s"
    (is "puts _ _ _ _ (tryE ?c (tryE ?b ?m)) ?Q s")
proof (rule puts_tryE)
  note ready = boot_ready_carried [OF assms]
  let ?v = "if create then (vars (rest_of s))(sb_key \<mapsto> (stored_attributes, [enable])) else vars (rest_of s)"
  show "puts E live vars (sends E live s \<and> accepts ta) ?c (\<lambda>v. v = ?v) s"
    using puts_byte [OF assms, of EFI_SECURE_BOOT_ENABLE_NAME gEfiSecureBootEnableDisableGuid stored_attributes enable] assms
    by (auto simp: sb_key_def boot_ready_def intro: puts_ret)
  fix s1
  assume c1: "carried E live s s1" and v1: "vars (rest_of s1) = ?v"
  show "puts E live vars (sends E live s \<and> accepts ta) (tryE ?b ?m) ?Q s1"
  proof (rule puts_tryE)
    show "puts E live vars (sends E live s \<and> accepts ta) ?b (\<lambda>v. v = ?v(boot_key \<mapsto> (volatile_attributes, [mode]))) s1"
      using puts_byte [OF ready [OF c1], of EFI_SECURE_BOOT_MODE_NAME gEfiGlobalVariableGuid volatile_attributes mode]
      by (simp add: boot_key_def v1 sends_carried [OF c1])
    fix s2
    assume c2: "carried E live s1 s2" and v2: "vars (rest_of s2) = ?v(boot_key \<mapsto> (volatile_attributes, [mode]))"
    show "puts E live vars (sends E live s \<and> accepts ta) ?m ?Q s2"
      using puts_byte [OF ready [OF carried_trans [OF c1 c2]], of EFI_CUSTOM_MODE_NAME gEfiCustomModeEnableGuid
          stored_attributes STANDARD_SECURE_BOOT_MODE]
      by (simp add: custom_key_def v2 sends_carried [OF carried_trans [OF c1 c2]])
  qed
qed

text \<open>
  Property C5. The set-up of the secure boot variables returns, and succeeds when every message can be
  sent and the application stores them. After it succeeds the variables are as documented: the platform is in
  user mode exactly when a platform key is enrolled and the read of it went through, \<open>SecureBoot\<close> is on
  exactly when the platform is in user mode and \<open>SecureBootEnable\<close> is 1, a \<open>SecureBootEnable\<close> that
  could not be read is created with the platform's default, \<open>CustomMode\<close> is the standard mode, and
  no other variable changes.
\<close>
theorem InitSecureBootVariables_state:
  assumes "boot_ready E live ta vars s"
  shows "\<exists>st s'. InitSecureBootVariables E x s = Ret (st, s') \<and> carried E live s s' \<and> (EFI_ERROR st \<longleftrightarrow> st \<noteq> EFI_SUCCESS) \<and>
    (sends E live s \<and> accepts ta \<longrightarrow> st = EFI_SUCCESS) \<and>
    (st = EFI_SUCCESS \<longrightarrow> (\<exists>known. (known = stored_byte (vars (rest_of s)) \<or> known = None \<and> \<not> sends E live s) \<and>
       vars (rest_of s') = secure_boot_vars (PcdSecureBootEnable E)
         (pk_enrolled (vars (rest_of s)) \<and> \<not> no_message E (gcd_of s)) known (vars (rest_of s))))"
proof -
  let ?v = "vars (rest_of s)"
  have "(EFI_PLATFORM_KEY_NAME, gEfiGlobalVariableGuid) \<in> {sb_key, pk_key}" by (simp add: pk_key_def)
  then obtain pk s1 b where pk: "OpteeRuntimeGetVariable E (Some EFI_PLATFORM_KEY_NAME) (Some gEfiGlobalVariableGuid) None
        (Some 1) (Some [x]) s = Ret (pk, s1)" "carried E live s s1" "vars (rest_of s1) = ?v" "GetData pk = Some [b]"
    and user: "GetStatus pk = EFI_BUFFER_TOO_SMALL \<longleftrightarrow> \<not> no_message E (gcd_of s) \<and>
       (case ?v (EFI_PLATFORM_KEY_NAME, gEfiGlobalVariableGuid) of None \<Rightarrow> False | Some (_, d) \<Rightarrow> 1 < length d)"
    by (rule get_byte [OF assms])
  define mode where "mode = (if GetStatus pk = EFI_BUFFER_TOO_SMALL then USER_MODE else SETUP_MODE)"
  have mode: "mode = USER_MODE \<longleftrightarrow> pk_enrolled ?v \<and> \<not> no_message E (gcd_of s)"
    using user by (auto simp: mode_def secure_boot_modes pk_enrolled_def pk_key_def)
  have m2: "mode \<noteq> USER_MODE \<Longrightarrow> mode = SETUP_MODE"
    by (simp add: mode_def split: if_splits)
  note r1 = boot_ready_carried [OF assms pk(2)]
  have mode_set: "puts E live vars (sends E live s \<and> accepts ta) (set_byte E EFI_SETUP_MODE_NAME gEfiGlobalVariableGuid volatile_attributes mode)
      (\<lambda>v. v = ?v(setup_key \<mapsto> (volatile_attributes, [mode]))) s1"
    using puts_byte [OF r1, of EFI_SETUP_MODE_NAME gEfiGlobalVariableGuid volatile_attributes mode]
    by (simp add: setup_key_def pk(3) sends_carried [OF pk(2)])
  have "puts E live vars (sends E live s \<and> accepts ta) (InitSecureBootVariables E x) (\<lambda>v. \<exists>known.
      (known = stored_byte ?v \<or> known = None \<and> \<not> sends E live s) \<and>
      v = secure_boot_vars (PcdSecureBootEnable E) (mode = USER_MODE) known ?v) s"
    unfolding InitSecureBootVariables_def
    apply (rule puts_bind, rule pk(1), rule pk(2))
    unfolding Let_def mode_def [symmetric] pk(4)
    apply (rule puts_tryE)
     apply (rule mode_set)
    subgoal premises p for s2
    proof -
      note r2 = boot_ready_carried [OF r1 p(1)]
      have "(EFI_SECURE_BOOT_ENABLE_NAME, gEfiSecureBootEnableDisableGuid) \<in> {sb_key, pk_key}" by (simp add: sb_key_def)
      then obtain en s3 c where en: "OpteeRuntimeGetVariable E (Some EFI_SECURE_BOOT_ENABLE_NAME)
            (Some gEfiSecureBootEnableDisableGuid) None (Some 1) (Some [b]) s2 = Ret (en, s3)" "carried E live s2 s3"
          "vars (rest_of s3) = vars (rest_of s2)" "GetData en = Some [c]"
        and err: "EFI_ERROR (GetStatus en) \<longleftrightarrow> no_message E (gcd_of s2) \<or> (\<forall>a c. ?v sb_key \<noteq> Some (a, [c]))"
        and got: "EFI_ERROR (GetStatus en) \<or> (\<exists>a. ?v sb_key = Some (a, [c]))"
        by (rule get_byte [OF r2, where x = b]) (auto simp: p(2) sb_key_def [symmetric] sb_not_setup)
      define known where "known = (if no_message E (gcd_of s2) then None else stored_byte ?v)"
      have known: "known = (if EFI_ERROR (GetStatus en) then None else Some c)"
        using err got by (fastforce simp: known_def stored_byte_def split: option.splits prod.splits list.splits)
      have which: "known = stored_byte ?v \<or> known = None \<and> \<not> sends E live s"
        using sends_carried [OF carried_trans [OF pk(2) p(1)]] by (auto simp: known_def sends_def)
      let ?enable = "if \<not> EFI_ERROR (GetStatus en) \<and> mode = USER_MODE then hd (the (GetData en))
        else if EFI_ERROR (GetStatus en) \<and> mode = USER_MODE
             then if PcdSecureBootEnable E then SECURE_BOOT_ENABLE else SECURE_BOOT_DISABLE
             else SECURE_BOOT_DISABLE"
      have effect: "(if EFI_ERROR (GetStatus en) \<and> mode = USER_MODE
          then (vars (rest_of s3))(sb_key \<mapsto> (stored_attributes, [?enable])) else vars (rest_of s3))
        (boot_key \<mapsto> (volatile_attributes, [if ?enable = SECURE_BOOT_ENABLE \<and> mode = USER_MODE
            then SECURE_BOOT_MODE_ENABLE else SECURE_BOOT_MODE_DISABLE]),
         custom_key \<mapsto> (stored_attributes, [STANDARD_SECURE_BOOT_MODE]))
        = secure_boot_vars (PcdSecureBootEnable E) (mode = USER_MODE) known ?v"
        by (cases "mode = USER_MODE"; cases "EFI_ERROR (GetStatus en)")
          (simp_all add: secure_boot_vars_def known en(3,4) p(2) Let_def m2 secure_boot_modes)
      note tail = boot_tail [OF boot_ready_carried [OF r2 en(2)],
          unfolded sends_carried [OF carried_trans [OF pk(2) carried_trans [OF p(1) en(2)]]]]
      show ?thesis
        by (rule puts_bind, rule en(1), rule en(2), rule puts_weaken, rule tail,
            rule exI [of _ known], rule conjI [OF which], erule trans)
          (rule effect)
    qed
    done
  then show ?thesis unfolding puts_def mode by blast
qed

end
