(* ===== verification/OpteeMemSim.thy ===== *)
theory OpteeMemSim
  imports OpteeMemSpec
begin

text \<open>
  A small implementation of the DXE services, 64 KB window included, on which the hypotheses of the
  allocator's properties hold: it models no code of the repository and serves the witnesses only.
\<close>

record SimGcd =
  Added :: bool
  Handed :: "(u64 \<times> u64) list"

definition far :: "u64 \<times> u64 \<Rightarrow> u64 \<times> u64 \<Rightarrow> bool" where
  "far r q \<longleftrightarrow>
     unat (fst r) + unat (snd r) \<le> unat (fst q) \<and> unat (fst q) + unat (snd q) \<le> 2 ^ 64 \<or>
     unat (fst q) + unat (snd q) \<le> unat (fst r)"

lemma blk_range:
  assumes "unat b + unat l \<le> 2 ^ 64" and "x \<in> blk b l"
  shows "unat b \<le> unat x" and "unat x < unat b + unat l"
proof -
  have d: "unat (x - b) < unat l"
    using assms(2) by (simp add: blk_iff)
  have "unat (b + (x - b)) = unat b + unat (x - b)"
    using assms(1) d by (intro iffD1 [OF unat_add_lem]) simp
  with d show "unat b \<le> unat x" and "unat x < unat b + unat l"
    by simp_all
qed

lemma far_apart:
  assumes "far r q" and "unat (fst r) + unat (snd r) \<le> 2 ^ 64"
  shows "apart r q"
  unfolding apart_def
proof (rule equals0I)
  fix x
  assume x: "x \<in> blk (fst r) (snd r) \<inter> blk (fst q) (snd q)"
  then have 1: "unat (fst r) \<le> unat x" "unat x < unat (fst r) + unat (snd r)"
    using blk_range [OF assms(2)] by auto
  from x have xq: "x \<in> blk (fst q) (snd q)" by simp
  have "unat (fst q) + unat (snd q) \<le> 2 ^ 64"
    using assms by (auto simp: far_def)
  from blk_range [OF this xq] 1 assms(1) show False
    by (auto simp: far_def)
qed

definition sim_start :: u64 where "sim_start = 0x81001000"
definition sim_size :: u64 where "sim_size = 0x10000"

definition sim_fits :: "u64 \<Rightarrow> SimGcd \<Rightarrow> u64 \<Rightarrow> bool" where
  "sim_fits len g b \<longleftrightarrow>
     unat sim_start \<le> unat b \<and> unat b + unat len \<le> unat sim_start + unat sim_size \<and>
     list_all (far (b, len)) (Handed g)"

definition sim_hand :: "u64 \<Rightarrow> SimGcd \<Rightarrow> u64 option \<Rightarrow> (EFI_STATUS \<times> u64) \<times> SimGcd" where
  "sim_hand len g c = (case c of
     None \<Rightarrow> ((EFI_NOT_FOUND, 0), g)
   | Some b \<Rightarrow> ((EFI_SUCCESS, b), g\<lparr>Handed := (b, len) # Handed g\<rparr>))"

definition sim_pages :: "u64 list" where
  "sim_pages = [sim_start + 0xE000, sim_start + 0xC000, sim_start + 0x8000, sim_start]"

definition sim_services :: "SimGcd EFI_DXE_SERVICES" where
  "sim_services =
     \<lparr>AddMemorySpace = (\<lambda>_ _ _ _ g. (EFI_SUCCESS, g\<lparr>Added := True\<rparr>)),
      AllocateMemorySpace = (\<lambda>ty _ _ len base g.
        sim_hand len g
          (case ty of
             EfiGcdAllocateAddress \<Rightarrow> if sim_fits len g base then Some base else None
           | EfiGcdAllocateMaxAddressSearchTopDown \<Rightarrow> find (sim_fits len g) sim_pages)),
      FreeMemorySpace = (\<lambda>b l g.
        if (b, l) \<in> set (Handed g) then (EFI_SUCCESS, g\<lparr>Handed := filter (\<lambda>r. r \<noteq> (b, l)) (Handed g)\<rparr>)
        else (EFI_NOT_FOUND, g)),
      GetMemorySpaceDescriptor = (\<lambda>a g.
        ((if Added g then EFI_SUCCESS else EFI_NOT_FOUND,
          \<lparr>GcdBaseAddress = sim_start, GcdMemoryType = EfiGcdMemoryTypeReserved\<rparr>), g))\<rparr>"

definition sim_shm :: "SimGcd ShmEnv" where
  "sim_shm =
     \<lparr>gDS = sim_services, PcdTrustZoneSharedMemoryBase = 0x81000000,
      PcdTrustZoneSharedMemorySize = 0x11000\<rparr>"

definition sim_live :: "SimGcd \<Rightarrow> (u64 \<times> u64) set" where
  "sim_live g = set (Handed g)"

lemma sim_window: "OPTEE_SHM_START sim_shm = sim_start" "OPTEE_SHM_SIZE sim_shm = sim_size"
  by (simp_all add: OPTEE_SHM_START_def OPTEE_SHM_SIZE_def sim_shm_def shm_consts sim_start_def sim_size_def)

lemma window_ok_sim: "window_ok sim_shm"
  by (simp add: window_ok_def sim_window sim_start_def sim_size_def)

lemma sim_hands_out:
  assumes "\<And>b. c = Some b \<Longrightarrow> sim_fits len g b"
  shows "hands_out sim_shm sim_live len g (sim_hand len g c)"
proof (cases c)
  case None
  then show ?thesis by (simp add: hands_out_def sim_hand_def)
next
  case (Some b)
  with assms have f: "sim_fits len g b" by simp
  then have "unat b + unat len \<le> 2 ^ 64"
    by (simp add: sim_fits_def sim_start_def sim_size_def)
  with f have "apart (b, len) q" if "q \<in> sim_live g" for q
    using that by (intro far_apart) (auto simp: sim_fits_def sim_live_def list_all_iff)
  with Some f show ?thesis
    by (auto simp: hands_out_def sim_hand_def inside_def sim_window sim_fits_def sim_live_def)
qed

lemma sim_calls:
  "AllocateMemorySpace (gDS sim_shm) EfiGcdAllocateMaxAddressSearchTopDown ty al len base g
     = sim_hand len g (find (sim_fits len g) sim_pages)"
  "AllocateMemorySpace (gDS sim_shm) EfiGcdAllocateAddress ty al len base g
     = sim_hand len g (if sim_fits len g base then Some base else None)"
  "FreeMemorySpace (gDS sim_shm) b l g =
     (if (b, l) \<in> set (Handed g) then (EFI_SUCCESS, g\<lparr>Handed := filter (\<lambda>r. r \<noteq> (b, l)) (Handed g)\<rparr>)
      else (EFI_NOT_FOUND, g))"
  "AddMemorySpace (gDS sim_shm) ty a n caps g = (EFI_SUCCESS, g\<lparr>Added := True\<rparr>)"
  "GetMemorySpaceDescriptor (gDS sim_shm) a g =
     ((if Added g then EFI_SUCCESS else EFI_NOT_FOUND,
       \<lparr>GcdBaseAddress = sim_start, GcdMemoryType = EfiGcdMemoryTypeReserved\<rparr>), g)"
  by (simp_all add: sim_shm_def sim_services_def)

lemma gcd_contract_sim: "gcd_contract sim_shm sim_live"
proof -
  have "gcd_allocates sim_shm sim_live"
    unfolding gcd_allocates_def sim_calls
    by (intro allI impI sim_hands_out) (auto simp: find_Some_iff)
  moreover have "gcd_reserves sim_shm sim_live"
    unfolding gcd_reserves_def sim_calls
    by (intro allI sim_hands_out) (simp split: if_splits)
  moreover have "gcd_frees sim_shm sim_live" "gcd_keeps sim_shm sim_live"
    by (auto simp: gcd_frees_def gcd_keeps_def sim_calls sim_live_def)
  ultimately show ?thesis
    by (simp add: gcd_contract_def)
qed

section \<open>Reachable states of the simulation\<close>

definition before_init :: "SimGcd ShmState" where
  "before_init =
     \<lparr>Memory = (\<lambda>_. 0), mSharedMemAllocationCount = 0, mSharedMemAllocSize = 0, gDriverImageHandle = 1,
      Gcd = \<lparr>Added = False, Handed = []\<rparr>\<rparr>"

definition after_init :: "SimGcd ShmState" where
  "after_init = before_init\<lparr>
     Memory := MarkSharedMemoryRegionAsFree sim_start sim_size (\<lambda>_. 0),
     Gcd := \<lparr>Added = True, Handed = []\<rparr>\<rparr>"

lemma after_init_fence: "x \<in> blk sim_start sim_size \<Longrightarrow> Memory after_init x = OPTEE_SHM_FREE_FENCE"
  by (simp add: after_init_def Mark_eq)

lemma sim_first_init: "first_init sim_shm sim_live before_init after_init"
  unfolding first_init_def OpteeClientMemInit_def GcdSharedMemoryInit_def
  by (simp add: sim_calls sim_window before_init_def after_init_def sim_live_def prog_defs sim_hand_def
      sim_fits_def check_descriptor_def shm_consts sim_start_def sim_size_def)

lemma sim_reachable: "shm_reachable sim_shm sim_live after_init"
  by (rule shm_reachable.first) (rule sim_first_init)

text \<open>A first allocation of 256 bytes takes the last two pages of the window.\<close>

definition one_block :: "u64 \<times> u64" where
  "one_block = (sim_start + 0xE000, BlockSize_of 0x100)"

definition after_alloc :: "SimGcd ShmState" where
  "after_alloc = claimed one_block \<lparr>Added = True, Handed = [one_block]\<rparr> after_init"

lemma sim_fits_eval:
  "find (sim_fits 0x111F \<lparr>Added = True, Handed = []\<rparr>) sim_pages = Some (sim_start + 0xE000)"
  by (simp add: sim_pages_def sim_fits_def sim_start_def sim_size_def)

lemma sim_alloc:
  "OpteeClientMemAlloc sim_shm 0x100 after_init = Ret (UserBase_of (sim_start + 0xE000), after_alloc)"
proof -
  have size: "BlockSize_of 0x100 = 0x111F"
    by (simp add: BlockSize_of_def sizeof_HEADER_def shm_consts)
  have fit: "fits 0x100"
    by (simp add: fits_def min_block_def)
  have i: "inside sim_shm (sim_start + 0xE000, BlockSize_of 0x100)"
    by (simp add: inside_def sim_window size sim_start_def sim_size_def)
  have "Memory after_init x = OPTEE_SHM_FREE_FENCE" if "x \<in> blk (sim_start + 0xE000) (BlockSize_of 0x100)" for x
    using that inside_window(1) [OF window_ok_sim i] by (intro after_init_fence) (auto simp: sim_window)
  moreover define t where "t = after_init\<lparr>Gcd := \<lparr>Added = True, Handed = [one_block]\<rparr>\<rparr>"
  ultimately have "take_block sim_shm 0x100 (sim_start + 0xE000) t = Ret (UserBase_of (sim_start + 0xE000), after_alloc)"
    by (subst take_block_run [OF window_ok_sim fit i]) (simp_all add: after_alloc_def claimed_def one_block_def)
  moreover have "gDriverImageHandle after_init \<noteq> 0" "Gcd after_init = \<lparr>Added = True, Handed = []\<rparr>"
    by (simp_all add: after_init_def before_init_def)
  ultimately show ?thesis
    by (simp add: OpteeClientMemAlloc_def InternalMemAlloc_def prog_defs sim_calls size sim_fits_eval
        sim_hand_def one_block_def t_def IsPowerOf2_def shm_consts)
qed

lemma sim_user: "UserBase_of (sim_start + 0xE000) = 0x81010000"
  by (simp add: UserBase_of_def sizeof_HEADER_def shm_consts sim_start_def)

lemma sim_reachable_block: "shm_reachable sim_shm sim_live after_alloc"
proof (rule shm_reachable.more [OF sim_reachable], rule shm_step.alloc)
  show "fits 0x100"
    by (simp add: fits_def min_block_def)
  show "OpteeClientAlignedMemAlloc sim_shm 0x100 16 after_init = Ret (0x81010000, after_alloc)"
    using sim_alloc by (simp add: OpteeClientMemAlloc_def OpteeClientAlignedMemAlloc_def shm_consts sim_user)
qed

section \<open>Witnesses\<close>

theorem shm_reachable_ok_witness: "shm_ok sim_shm sim_live after_alloc"
  by (rule shm_reachable_ok [OF sim_reachable_block window_ok_sim gcd_contract_sim])

theorem honest_allocation_returns_witness:
  "\<exists>p s'. OpteeClientAlignedMemAlloc sim_shm 64 0x1000 after_alloc = Ret (p, s') \<and>
     (if p = 0 then \<exists>g. sim_live g = sim_live (Gcd after_alloc) \<and> s' = after_alloc\<lparr>Gcd := g\<rparr>
      else p mod OPTEE_SHM_ALLOC_ALIGN = 0 \<and>
        blk p 64 \<subseteq> blk (OPTEE_SHM_START sim_shm) (OPTEE_SHM_SIZE sim_shm) \<and>
        (\<forall>q\<in>sim_live (Gcd after_alloc). blk p 64 \<inter> blk (fst q) (snd q) = {}))"
proof (rule honest_allocation_returns [OF sim_reachable_block window_ok_sim gcd_contract_sim])
  show "fits 64"
    by (simp add: fits_def min_block_def)
  show "valid_alignment 0x1000"
    by (auto simp: valid_alignment_def intro!: exI [of _ 12])
qed

theorem alloc_write_free_witness:
  "\<exists>g. sim_live g = {} \<and>
     OpteeClientMemFree sim_shm 0x81010000 (after_alloc\<lparr>Memory := poke 0x81010000 [1, 2, 3] (Memory after_alloc)\<rparr>)
       = Ret (EFI_SUCCESS, after_init\<lparr>Gcd := g\<rparr>)"
proof -
  have "sim_live (Gcd after_init) = {}"
    by (simp add: sim_live_def after_init_def)
  then show ?thesis
    using alloc_write_free [OF sim_reachable window_ok_sim gcd_contract_sim _ sim_alloc, of "[1, 2, 3]"]
    by (simp add: sim_user fits_def min_block_def)
qed

theorem double_free_refused_witness:
  "OpteeClientMemFree sim_shm 0x81010000 after_init = Ret (EFI_INVALID_PARAMETER, after_init)"
proof (rule double_free_refused [OF sim_reachable window_ok_sim gcd_contract_sim])
  have "blk (sim_start + 0xEFE0) 32 \<subseteq> blk sim_start sim_size"
    by (rule sub_block) (simp add: sim_size_def)
  then show "blk (0x81010000 - sizeof_HEADER) sizeof_HEADER
      \<subseteq> blk (OPTEE_SHM_START sim_shm) (OPTEE_SHM_SIZE sim_shm)"
    by (simp add: sim_window sizeof_HEADER_def sim_start_def)
  show "\<forall>q\<in>sim_live (Gcd after_init). blk (0x81010000 - sizeof_HEADER) sizeof_HEADER \<inter> blk (fst q) (snd q) = {}"
    by (simp add: sim_live_def after_init_def)
qed

text \<open>
  Sizes are not checked against wrap-around: for a request of 2^64 - 4000 bytes the
  block size wraps to 127 bytes, every assertion passes, and the allocation hands out an address
  more than the whole block beyond the block it reserved.
\<close>
theorem huge_request_granted:
  "\<exists>b s'. OpteeClientMemAlloc sim_shm 0xFFFFFFFFFFFFF060 after_init = Ret (b + 0x1000, s') \<and>
     sim_live (Gcd s') = {(b, 127)}"
proof -
  let ?b = "sim_start + 0xE000" and ?n = "0xFFFFFFFFFFFFF060 :: u64"
  let ?g = "\<lparr>Added = True, Handed = [(sim_start + 0xE000, 127)]\<rparr>"
  have size: "BlockSize_of ?n = 127"
    by (simp add: BlockSize_of_def sizeof_HEADER_def shm_consts)
  have hit: "find (sim_fits 127 \<lparr>Added = True, Handed = []\<rparr>) sim_pages = Some ?b"
    by (simp add: sim_pages_def sim_fits_def sim_start_def sim_size_def)
  have "blk ?b 127 \<subseteq> blk sim_start sim_size"
    by (rule sub_block) (simp add: sim_size_def)
  then have fence: "\<forall>x\<in>blk ?b 127. Memory after_init x = OPTEE_SHM_FREE_FENCE"
    by (auto intro: after_init_fence)
  have asserts: "sim_start \<le> ?b" "?b + 127 \<le> sim_start + sim_size" "sim_start < UserBase_of ?b"
      "UserBase_of ?b + ?n \<le> sim_start + sim_size" "UserBase_of ?b mod OPTEE_SHM_ALLOC_ALIGN = 0"
    unfolding sim_user by (simp_all add: sim_start_def sim_size_def shm_consts)
  have ends: "OPTEE_SHM_END sim_shm = sim_start + sim_size"
    by (simp add: OPTEE_SHM_END_def sim_window)
  have "take_block sim_shm ?n ?b (after_init\<lparr>Gcd := ?g\<rparr>)
      = Ret (UserBase_of ?b, claimed (?b, 127) ?g after_init)"
    using asserts fence
    by (simp add: take_block_def size ends sim_window IsFree_eq claim_block_def claimed_def prog_defs)
  moreover have "gDriverImageHandle after_init \<noteq> 0" "Gcd after_init = \<lparr>Added = True, Handed = []\<rparr>"
    by (simp_all add: after_init_def before_init_def)
  ultimately have "OpteeClientMemAlloc sim_shm ?n after_init = Ret (UserBase_of ?b, claimed (?b, 127) ?g after_init)"
    by (simp add: OpteeClientMemAlloc_def InternalMemAlloc_def prog_defs sim_calls size hit
        sim_hand_def IsPowerOf2_def shm_consts)
  moreover have "UserBase_of ?b = ?b + 0x1000"
    unfolding sim_user by (simp add: sim_start_def)
  ultimately show ?thesis
    by (intro exI [of _ ?b] exI [of _ "claimed (?b, 127) ?g after_init"]) (simp add: claimed_def sim_live_def)
qed

end
