(* ===== verification/OpteeSim.thy ===== *)
theory OpteeSim
  imports OpteePool OpteeMemSim
begin

text \<open>
  A small secure world and platform on which the hypotheses of the client library's properties hold:
  it models no code of the repository and serves the witnesses only.
\<close>

section \<open>The platform\<close>

type_synonym sim_world = "(SimGcd, nat) World"

definition no_rpmb :: "'t EFI_RPMB_IO" where
  "no_rpmb = \<lparr>IoCid = [], IoReliableSectorCount = 0, IoRpmbSizeMult = 0,
     IoProgramKey = (\<lambda>_ _ m t. (EFI_DEVICE_ERROR, m, t)), IoReadCounter = (\<lambda>_ _ m t. (EFI_DEVICE_ERROR, m, t)),
     IoAuthenticatedWrite = (\<lambda>_ _ m t. (EFI_DEVICE_ERROR, m, t)),
     IoAuthenticatedRead = (\<lambda>_ _ m t. (EFI_DEVICE_ERROR, m, t))\<rparr>"

definition sim_tee_env :: "(ARM_SMC_ARGS \<Rightarrow> memory \<Rightarrow> 't \<Rightarrow> ARM_SMC_ARGS \<times> memory \<times> 't) \<Rightarrow> (SimGcd, 't) TeeEnv" where
  "sim_tee_env smc = \<lparr>ShmE = sim_shm, ArmCallSmc = smc,
     GetSectionFromAnyFv = (\<lambda>_ t. ((EFI_NOT_FOUND, []), t)), LocateRpmbIo = (\<lambda>t. ((EFI_NOT_FOUND, no_rpmb), t)),
     GetPerformanceCounter = (\<lambda>t. (24000, t)), PerformanceCounterFrequency = 24000000\<rparr>"

lemma sim_tee_env_sel [simp]:
  "ShmE (sim_tee_env smc) = sim_shm" "ArmCallSmc (sim_tee_env smc) = smc"
  by (simp_all add: sim_tee_env_def)

text \<open>An echo service: it succeeds, gives the next session, and hands the parameters back.\<close>

definition echo :: "nat service" where
  "echo v t = (case v of (cmd, func, session, ws) \<Rightarrow> ((TEEC_SUCCESS, 4, session + 1, ws), Suc t))"

definition echo_smc :: "ARM_SMC_ARGS \<Rightarrow> memory \<Rightarrow> nat \<Rightarrow> ARM_SMC_ARGS \<times> memory \<times> nat" where
  "echo_smc args m t =
     (let p = address64 (Arg1 args) (Arg2 args)
      in (args\<lparr>Arg0 := OPTEE_SMC_RETURN_OK\<rparr>,
          write_u32 (p + msg_session) (read_u32 (p + msg_session) m + 1)
            (write_u32 (p + msg_ret_origin) 4 (write_u32 (p + msg_ret) TEEC_SUCCESS m)),
          Suc t))"

lemma echo_served: "serves (sim_tee_env echo_smc) echo"
  unfolding serves_def
proof (intro allI impI)
  fix p :: u64 and m :: memory and t n :: nat
  assume n: "n \<le> 6" and "read_u32 (p + msg_num_params) m = of_nat n"
  let ?m = "write_u32 (p + msg_session) (read_u32 (p + msg_session) m + 1)
      (write_u32 (p + msg_ret_origin) 4 (write_u32 (p + msg_ret) TEEC_SUCCESS m))"
  have out: "?m x = m x" if "x \<notin> blk p 32" for x
    using header_outside [OF that] by (simp add: write_u32_outside msg_offsets)
  have ws: "msg_words ?m p i = msg_words m p i" if "i < n" for i
    using that n by (intro msg_words_frame out) simp_all
  have "apart_at msg_ret 4 msg_ret_origin 4" "apart_at msg_ret 4 msg_session 4" "apart_at msg_ret_origin 4 msg_session 4"
    by (simp_all add: apart_at_def msg_offsets)
  then have "msg_answer n p ?m = fst (echo (msg_view n p m) t)"
    by (simp add: msg_answer_def echo_def msg_view_def field_reads ws)
  moreover have "?m x = m x" if "x \<notin> blk p (OPTEE_MSG_GET_ARG_SIZE n)" for x
  proof -
    have "blk (p + 0) 32 \<subseteq> blk p (OPTEE_MSG_GET_ARG_SIZE n)"
      by (rule sub_block) (simp add: ARG_SIZE_unat [OF n])
    then show ?thesis
      using that by (intro out) auto
  qed
  moreover have "ArmCallSmc (sim_tee_env echo_smc) (call_args p) m t
      = ((call_args p)\<lparr>Arg0 := OPTEE_SMC_RETURN_OK\<rparr>, ?m, snd (echo (msg_view n p m) t))"
    by (simp add: echo_smc_def address_halves Let_def echo_def msg_view_def)
  ultimately show "\<exists>args m'. ArmCallSmc (sim_tee_env echo_smc) (call_args p) m t = (args, m', snd (echo (msg_view n p m) t)) \<and>
      Arg0 args = OPTEE_SMC_RETURN_OK \<and> msg_answer n p m' = fst (echo (msg_view n p m) t) \<and>
      (\<forall>x. x \<notin> blk p (OPTEE_MSG_GET_ARG_SIZE n) \<longrightarrow> m' x = m x)"
    by (intro exI [of _ "(call_args p)\<lparr>Arg0 := OPTEE_SMC_RETURN_OK\<rparr>"] exI [of _ ?m]) simp
qed

text \<open>A secure world that asks for a foreign interrupt \<open>t\<close> times before it completes.\<close>

definition busy_smc :: "ARM_SMC_ARGS \<Rightarrow> memory \<Rightarrow> nat \<Rightarrow> ARM_SMC_ARGS \<times> memory \<times> nat" where
  "busy_smc args m t = (args\<lparr>Arg0 := if t = 0 then OPTEE_SMC_RETURN_OK else 0xFFFF0004\<rparr>, m, t - 1)"

lemma busy_finitely: "asks_finitely id (sim_tee_env busy_smc)"
  by (auto simp: asks_finitely_def rank_kept_def sim_tee_env_def no_rpmb_def busy_smc_def
      OPTEE_SMC_RETURN_IS_RPC_def smc_consts split: if_splits)

section \<open>Worlds and operations\<close>

definition w_init :: sim_world where "w_init = \<lparr>Shm = after_init, Rest = 5\<rparr>"
definition w_block :: sim_world where "w_block = \<lparr>Shm = after_alloc, Rest = 5\<rparr>"

lemma sim_worlds [simp]:
  "Shm w_init = after_init" "Rest w_init = 5" "Shm w_block = after_alloc" "Rest w_block = 5"
  by (simp_all add: w_init_def w_block_def)

text \<open>A value for input and output, a buffer for input, and two unused parameters.\<close>

definition sim_op :: TEEC_Operation where
  "sim_op = \<lparr>paramTypes = 0x53, params =
     [\<lparr>Word0 = 0x0000000200000001, Word1 = 0, Word2 = 0\<rparr>, \<lparr>Word0 = 0x81010000, Word1 = 0x100, Word2 = 0\<rparr>,
      \<lparr>Word0 = 0, Word1 = 0, Word2 = 0\<rparr>, \<lparr>Word0 = 0, Word1 = 0, Word2 = 0\<rparr>]\<rparr>"

lemma sim_op_supported: "all_supported sim_op"
proof -
  have "(\<forall>i<4. P i) \<longleftrightarrow> P 0 \<and> P 1 \<and> P 2 \<and> P (3 :: nat)" for P
    by (auto simp: eval_nat_numeral All_less_Suc)
  then show ?thesis
    by (simp add: all_supported_def supported_def sim_op_def TEEC_PARAM_TYPE_GET_def TEEC_CONFIG_PAYLOAD_REF_COUNT_def
        is_value_def is_tmpref_def teec_params Let_def)
qed

definition sim_uuid :: TEEC_UUID where
  "sim_uuid = \<lparr>timeLow = 0xB6C53AB8, timeMid = 0x7169, timeHiAndVersion = 0x4C3D,
     clockSeqAndNode = [0xAA, 0xB0, 1, 2, 3, 4, 5, 6]\<rparr>"

section \<open>Witnesses\<close>

theorem msg_params_roundtrip_witness:
  "\<exists>w'. SetMsgParams sim_op 0x81010020 w_init = Ret ((), w') \<and>
     GetMsgParams 0x81010020 sim_op w' = Ret (sim_op, w')"
  using msg_params_roundtrip [where op = sim_op and p = "0x81010020" and w = w_init] sim_op_supported
  by (auto simp: sim_op_def TEEC_CONFIG_PAYLOAD_REF_COUNT_def)

lemma sim_pool: "shm_reachable (ShmE (sim_tee_env smc)) sim_live (Shm w_init)"
  "window_ok (ShmE (sim_tee_env smc))" "gcd_contract (ShmE (sim_tee_env smc)) sim_live"
  by (simp_all add: sim_reachable window_ok_sim gcd_contract_sim)

theorem InvokeCommand_refines_service_witness:
  "\<exists>p s g. OpteeClientMemAlloc sim_shm (OPTEE_MSG_GET_ARG_SIZE 4) after_init = Ret (p, s) \<and>
    sim_live g = sim_live (Gcd after_init) \<and>
    TEEC_InvokeCommand (sim_tee_env echo_smc) 1 (Some \<lparr>session_id = 7\<rparr>) 3 (Some sim_op) w_init =
      (if p = 0 then
         Ret (api_result (Some sim_op) (out_of_memory \<lparr>session_id = 7\<rparr> sim_op), w_init\<lparr>Shm := after_init\<lparr>Gcd := g\<rparr>\<rparr>)
       else
         (case echo (invoke_view \<lparr>session_id = 7\<rparr> 3 sim_op) 5 of (a, t) \<Rightarrow>
            Ret (api_result (Some sim_op) (answered \<lparr>session_id = 7\<rparr> sim_op a),
                 w_init\<lparr>Shm := after_init\<lparr>Gcd := g\<rparr>, Rest := t\<rparr>)))"
proof -
  have "all_supported (or_null (Some sim_op))"
    by (simp add: or_null_def sim_op_supported)
  from InvokeCommand_refines_service [OF sim_pool echo_served this, of 0 "\<lparr>session_id = 7\<rparr>" 3]
  show ?thesis by (simp only: sim_worlds sim_tee_env_sel or_null_def option.case One_nat_def)
qed

theorem OpenSession_refines_service_witness:
  "\<exists>p s g. OpteeClientMemAlloc sim_shm (OPTEE_MSG_GET_ARG_SIZE 6) after_init = Ret (p, s) \<and>
    sim_live g = sim_live (Gcd after_init) \<and>
    TEEC_OpenSession (sim_tee_env echo_smc) 1 (Some \<lparr>fd = 0\<rparr>) (Some \<lparr>session_id = 7\<rparr>) (Some sim_uuid)
        TEEC_LOGIN_PUBLIC (Some sim_op) w_init =
      (if p = 0 then
         Ret (api_result (Some sim_op) (out_of_memory \<lparr>session_id = 7\<rparr> sim_op), w_init\<lparr>Shm := after_init\<lparr>Gcd := g\<rparr>\<rparr>)
       else
         (case echo (open_view sim_uuid sim_op) 5 of (a, t) \<Rightarrow>
            Ret (api_result (Some sim_op) (opened \<lparr>session_id = 7\<rparr> sim_op a),
                 w_init\<lparr>Shm := after_init\<lparr>Gcd := g\<rparr>, Rest := t\<rparr>)))"
proof -
  have "all_supported (or_null (Some sim_op))" "length (clockSeqAndNode sim_uuid) = 8"
    by (simp_all add: or_null_def sim_op_supported sim_uuid_def)
  from OpenSession_refines_service [OF sim_pool echo_served this, of 0 "\<lparr>fd = 0\<rparr>" "\<lparr>session_id = 7\<rparr>"]
  show ?thesis by (simp only: sim_worlds sim_tee_env_sel or_null_def option.case One_nat_def)
qed

theorem OpteeSmcCall_terminates_witness:
  "OpteeSmcCall (sim_tee_env busy_smc) 6 0x81010000 w_init \<noteq> Stop OutOfFuel \<and>
   OpteeSmcCall (sim_tee_env busy_smc) (6 + 10) 0x81010000 w_init
     = OpteeSmcCall (sim_tee_env busy_smc) 6 0x81010000 w_init"
  by (rule OpteeSmcCall_terminates [OF busy_finitely]) simp

definition ask_256 :: ARM_SMC_ARGS where
  "ask_256 = zero_args\<lparr>Arg0 := 0xFFFF0000, Arg1 := 0x100, Arg3 := 9\<rparr>"

definition given_256 :: ARM_SMC_ARGS where
  "given_256 = ask_256\<lparr>Arg0 := OPTEE_SMC_CALL_RETURN_FROM_RPC, Arg1 := H32 0x81010000, Arg2 := L32 0x81010000,
     Arg4 := H32 0x81010000, Arg5 := L32 0x81010000\<rparr>"

lemma ask_256_run: "OpteeRpcCallback (sim_tee_env busy_smc) ask_256 w_init = Ret ((TEEC_SUCCESS, given_256), w_block)"
  by (simp add: OpteeRpcCallback_def rpc_dispatch_def OpteeRpcAlloc_def ask_256_def zero_args_def given_256_def
      ASSERT_def OPTEE_SMC_RETURN_IS_RPC_def OPTEE_SMC_RETURN_GET_RPC_FUNC_def smc_consts on_shm_def bindM_def
      ret_def sim_alloc sim_user w_init_def w_block_def)

theorem OpteeRpcCallback_answers_witness:
  "Arg0 given_256 = OPTEE_SMC_CALL_RETURN_FROM_RPC \<and>
   (\<exists>p. p \<noteq> 0 \<and> on_shm (OpteeClientMemAlloc sim_shm 0x100) w_init = Ret (p, w_block) \<and>
      given_256 = ask_256\<lparr>Arg0 := OPTEE_SMC_CALL_RETURN_FROM_RPC,
        Arg1 := H32 p, Arg2 := L32 p, Arg4 := H32 p, Arg5 := L32 p\<rparr>)"
proof -
  have "OPTEE_SMC_RETURN_GET_RPC_FUNC (Arg0 ask_256) = OPTEE_SMC_RPC_FUNC_ALLOC" "Arg1 ask_256 = 0x100"
    by (simp_all add: ask_256_def OPTEE_SMC_RETURN_GET_RPC_FUNC_def smc_consts)
  then show ?thesis
    using OpteeRpcCallback_answers [OF ask_256_run] by auto
qed

theorem elapsed_exact_witness:
  "unat (fst (elapsed 18446744073 24000000)) = 18446744073 div 24000000 \<and>
   unat (snd (elapsed 18446744073 24000000)) = 18446744073 mod 24000000 * 1000000000 div 24000000"
  using elapsed_exact [of 24000000 18446744073] by simp

theorem requests_keep_pool_witness:
  "\<exists>r args' w'. OpteeRpcCallback (sim_tee_env busy_smc) ask_256 w_block = Ret ((r, args'), w') \<and>
     shm_ok sim_shm sim_live (Shm w') \<and> {one_block} \<subseteq> sim_live (Gcd (Shm w'))"
proof -
  have "shm_ok sim_shm sim_live after_alloc"
    by (rule reachable_shm_ok [OF sim_reachable_block window_ok_sim gcd_contract_sim])
  moreover have "{one_block} \<subseteq> sim_live (Gcd after_alloc)"
    by (simp add: after_alloc_def claimed_def sim_live_def)
  moreover have "honest_request (sim_tee_env busy_smc) sim_live {one_block} ask_256 w_block"
    by (simp add: honest_request_def ask_256_def OPTEE_SMC_RETURN_IS_RPC_def OPTEE_SMC_RETURN_GET_RPC_FUNC_def
        smc_consts fits_def min_block_def)
  ultimately show ?thesis
    using requests_keep_pool [of "sim_tee_env busy_smc" sim_live w_block "{one_block}" ask_256]
    by (simp add: window_ok_sim gcd_contract_sim)
qed

end
