(* ===== verification/AuthVarSim.thy ===== *)
theory AuthVarSim
  imports AuthVarBoot OpteeSim
begin

text \<open>
  A small trusted application that keeps the variables, behind a secure world that serves it and over
  the simulated shared memory, on which the hypotheses of the variable services' properties hold: it
  models no code of the repository and serves the witnesses only.
\<close>

section \<open>The application\<close>

definition dec_guid :: "u8 list \<Rightarrow> EFI_GUID" where
  "dec_guid bs = \<lparr>Data1 = of_nat (le_nat (take 4 bs)), Data2 = of_nat (le_nat (take 2 (drop 4 bs))),
     Data3 = of_nat (le_nat (take 2 (drop 6 bs))), Data4 = take 8 (drop 8 bs)\<rparr>"

fun dec_chars :: "u8 list \<Rightarrow> CHAR16s" where
  "dec_chars (a # b # bs) = of_nat (le_nat [a, b]) # dec_chars bs"
| "dec_chars _ = []"

definition sim_vars :: "vars \<Rightarrow> vars" where
  "sim_vars t k = (case t k of None \<Rightarrow> None | Some (a, d) \<Rightarrow> if d \<noteq> [] \<and> length d < 2 ^ 31 then Some (a, d) else None)"

definition sim_get :: "CHAR16s \<times> EFI_GUID \<Rightarrow> nat \<Rightarrow> vars \<Rightarrow> (u32 \<times> u32 \<times> u32 \<times> u8 list) \<times> vars" where
  "sim_get k n t = (case sim_vars t k of
     None \<Rightarrow> ((TEEC_ERROR_ITEM_NOT_FOUND, 0, 0, []), t)
   | Some (a, d) \<Rightarrow>
       if length d + 16 \<le> n then ((TEEC_SUCCESS, of_nat (length d + 16), 0, get_result_bytes 0 a d), t)
       else ((TEEC_ERROR_SHORT_BUFFER, of_nat (length d + 16), 0, []), t))"

definition sim_set :: "CHAR16s \<times> EFI_GUID \<Rightarrow> u32 \<Rightarrow> u8 list \<Rightarrow> vars \<Rightarrow> (u32 \<times> u32 \<times> u32 \<times> u8 list) \<times> vars" where
  "sim_set k a d t = (if length d < 2 ^ 31 then ((TEEC_SUCCESS, 0, 0, []), t(k \<mapsto> (a, d)))
     else ((TEEC_ERROR_OUT_OF_MEMORY, 0, 0, []), t))"

definition sim_ta :: "vars var_ta" where
  "sim_ta cmd req n t =
     (let ns = le_nat (take 2 (drop 4 req)); guid = dec_guid (drop 8 req)
      in if cmd = op_code VSGetOp then sim_get (dec_chars (take (ns - 2) (drop 24 req)), guid) n t
         else if cmd = op_code VSSetOp
         then sim_set (dec_chars (take (ns - 2) (drop 40 req)), guid) (of_nat (le_nat (take 4 (drop 24 req))))
                (take (length req - 44 - ns) (drop (40 + ns) req)) t
         else ((TEEC_ERROR_NOT_SUPPORTED, 0, 0, []), t))"

lemma dec_chars_chars: "dec_chars (chars name) = name"
proof (induction name)
  case (Cons c name)
  have "length (le_bytes 2 c) = Suc (Suc 0)" by simp
  then obtain a b where ab: "le_bytes 2 c = [a, b]"
    by (auto simp: length_Suc_conv simp del: length_le_bytes)
  then have "of_nat (le_nat [a, b]) = c" using of_nat_le_bytes16 [of c] by simp
  with Cons ab show ?case by (simp add: chars_def)
qed (simp add: chars_def)

lemma dec_guid_bytes: "guid_ok guid \<Longrightarrow> dec_guid (guid_bytes guid @ r) = guid"
  by (simp add: dec_guid_def guid_bytes_def guid_ok_def of_nat_le_bytes16 of_nat_le_bytes32)

lemma request_name_size: "name_size name < 2 ^ 16 \<Longrightarrow> le_nat (le_bytes 2 (of_nat (name_size name) :: u16)) = name_size name"
  by (simp add: le_nat_le_bytes unat_of_nat take_bit_eq_mod)

lemma name_bytes_take: "take (name_size name - 2) (name_bytes name @ r) = chars name"
  by (simp add: name_bytes_def name_size_def length_chars)

lemma sim_ta_get:
  assumes "sendable name guid"
  shows "sim_ta (op_code VSGetOp) (get_param_bytes name guid) n t = sim_get (name, guid) n t"
proof -
  have g: "guid_ok guid" and n: "name_size name < 2 ^ 16" using assms by (simp_all add: sendable_def)
  let ?r = "get_param_bytes name guid"
  have "take 2 (drop 4 ?r) = le_bytes 2 (of_nat (name_size name) :: u16)"
    "drop 8 ?r = guid_bytes guid @ name_bytes name @ [0, 0, 0, 0]"
    and p: "drop 24 ?r = name_bytes name @ [0, 0, 0, 0]"
    using length_guid [OF g] by (simp_all add: get_param_bytes_def)
  moreover have "take (name_size name - 2) (drop 24 ?r) = chars name"
    unfolding p by (rule name_bytes_take)
  ultimately show ?thesis
    by (simp add: sim_ta_def request_name_size [OF n] dec_guid_bytes [OF g] dec_chars_chars)
qed

lemma sim_ta_set:
  assumes "sendable name guid"
  shows "sim_ta (op_code VSSetOp) (set_param_bytes name guid a d) n t = sim_set (name, guid) a d t"
proof -
  have g: "guid_ok guid" and n: "name_size name < 2 ^ 16" using assms by (simp_all add: sendable_def)
  let ?r = "set_param_bytes name guid a d"
  have "take 2 (drop 4 ?r) = le_bytes 2 (of_nat (name_size name) :: u16)"
    "\<exists>r. drop 8 ?r = guid_bytes guid @ r" "take 4 (drop 24 ?r) = le_bytes 4 a"
    and p: "drop 40 ?r = name_bytes name @ d @ [0, 0, 0, 0]" and l: "length ?r = name_size name + length d + 44"
    using length_guid [OF g] by (simp_all add: set_param_bytes_def)
  moreover have "drop (40 + name_size name) ?r = d @ [0, 0, 0, 0]"
    using p by (metis (no_types, lifting) add.commute append_eq_conv_conj drop_drop length_name)
  then have "take (length ?r - 44 - name_size name) (drop (40 + name_size name) ?r) = d"
    by (simp add: l)
  moreover have "take (name_size name - 2) (drop 40 ?r) = chars name"
    unfolding p by (rule name_bytes_take)
  ultimately show ?thesis
    by (auto simp: sim_ta_def request_name_size [OF n] dec_guid_bytes [OF g] dec_chars_chars of_nat_le_bytes32)
qed

lemma sim_store_gets: "store_gets sim_ta sim_vars"
  unfolding store_gets_def
  by (auto simp: sim_ta_get sim_get_def sim_vars_def simp del: op_code.simps split: option.splits if_splits prod.splits)

lemma sim_store_sets: "store_sets sim_ta sim_vars"
  unfolding store_sets_def
  by (auto simp: sim_ta_set sim_set_def sim_vars_def teec_results fun_eq_iff simp del: op_code.simps split: option.splits if_splits prod.splits)

lemma sim_result_fits: "result_fits sim_ta"
  by (auto simp: result_fits_def sim_ta_def Let_def sim_get_def sim_set_def get_result_bytes_def split: option.splits)

section \<open>The secure world\<close>

definition var_smc :: "ARM_SMC_ARGS \<Rightarrow> memory \<Rightarrow> vars \<Rightarrow> ARM_SMC_ARGS \<times> memory \<times> vars" where
  "var_smc args m t =
     (let p = address64 (Arg1 args) (Arg2 args);
          (_, pb, ps) = msg_words m p 0; (_, rb, rs) = msg_words m p 1
      in case sim_ta (read_u32 (p + msg_func) m) (peek (unat ps) pb m) (unat rs) t of ((r, sz, st, bytes), t') \<Rightarrow>
        (args\<lparr>Arg0 := OPTEE_SMC_RETURN_OK\<rparr>,
         write_u32 (p + msg_ret) r (write_u64 (p + 104) (ucast sz) (write_u64 (p + 112) (ucast st) (poke rb bytes m))), t'))"

lemma var_smc_serves: "serves_variables (sim_tee_env var_smc) sim_ta"
  unfolding serves_variables_def
proof (intro conjI sim_result_fits allI impI)
  fix p :: u64 and m cmd session pb ps rb rs r sz st bytes t t'
  assume v: "msg_view 4 p m = var_view cmd session pb ps rb rs"
    and ta: "sim_ta cmd (peek (unat ps) pb m) (unat rs) t = ((r, sz, st, bytes), t')"
  have w: "\<exists>x. msg_words m p 0 = (x, pb, ps)" "\<exists>x. msg_words m p 1 = (x, rb, rs)" "read_u32 (p + msg_func) m = cmd"
    using v by (simp_all add: msg_view_def var_view_def four)
  let ?m = "write_u32 (p + msg_ret) r (write_u64 (p + 104) (ucast sz) (write_u64 (p + 112) (ucast st) (poke rb bytes m)))"
  have run: "ArmCallSmc (sim_tee_env var_smc) (call_args p) m t = ((call_args p)\<lparr>Arg0 := OPTEE_SMC_RETURN_OK\<rparr>, ?m, t')"
    using w ta by (auto simp: var_smc_def address_halves Let_def)
  have ret: "read_u32 (p + msg_ret) ?m = r"
    by simp
  have "read_u64 (p + 104) ?m = ucast sz" "read_u64 (p + 112) ?m = ucast st"
    by (simp_all add: field_reads apart_at_def msg_offsets)
  moreover have "msg_words ?m p 2 = (read_u64 (p + 96) ?m, read_u64 (p + 104) ?m, read_u64 (p + 112) ?m)"
    by (simp add: msg_words_def param_words_def param_at_def param_offsets msg_offsets add.assoc)
  ultimately have ans: "var_answer r sz st (msg_answer 4 p ?m)"
    using ret by (simp add: var_answer_def msg_answer_def four)
  have "?m x = poke rb bytes m x" if "x \<notin> blk p (OPTEE_MSG_GET_ARG_SIZE 4)" for x
  proof -
    have "blk (p + d) k \<subseteq> blk p (OPTEE_MSG_GET_ARG_SIZE 4)" if "unat d + unat k \<le> 160" for d k
      using that by (intro sub_block) (simp add: ARG_SIZE_unat)
    from this [of msg_ret 4] this [of 104 8] this [of 112 8] that show ?thesis
      by (subst write_u32_outside, force simp: msg_offsets)
        (subst write_u64_outside, force, subst write_u64_outside, force, simp)
  qed
  with run ans show "\<exists>args m'. ArmCallSmc (sim_tee_env var_smc) (call_args p) m t = (args, m', t') \<and>
      Arg0 args = OPTEE_SMC_RETURN_OK \<and> var_answer r sz st (msg_answer 4 p m') \<and>
      (\<forall>x. x \<notin> blk p (OPTEE_MSG_GET_ARG_SIZE 4) \<longrightarrow> m' x = poke rb bytes m x)"
    by (intro exI [of _ "(call_args p)\<lparr>Arg0 := OPTEE_SMC_RETURN_OK\<rparr>"] exI [of _ ?m]) simp
qed

section \<open>A driver with its buffers\<close>

definition second_block :: "u64 \<times> u64" where "second_block = (sim_start + 0xC000, BlockSize_of 0x100)"

definition two_blocks :: SimGcd where "two_blocks = \<lparr>Added = True, Handed = [second_block, one_block]\<rparr>"

definition after_two :: "SimGcd ShmState" where "after_two = claimed second_block two_blocks after_alloc"

lemma sim_block_size: "BlockSize_of 0x100 = 0x111F"
  by (simp add: BlockSize_of_def sizeof_HEADER_def shm_consts)

lemma sim_blocks: "one_block = (0x8100F000, 0x111F)" "second_block = (0x8100D000, 0x111F)"
  by (simp_all add: one_block_def second_block_def sim_block_size sim_start_def)

lemma after_two_ok: "shm_ok sim_shm sim_live after_two"
proof -
  have live: "sim_live (Gcd after_alloc) = {one_block}" "sim_live two_blocks = {second_block, one_block}"
    by (auto simp: after_alloc_def claimed_def sim_live_def two_blocks_def)
  have "apart second_block one_block"
    by (rule far_apart) (simp_all add: far_def sim_blocks)
  moreover have "inside sim_shm second_block"
    by (simp add: inside_def sim_window sim_blocks sim_start_def sim_size_def)
  moreover have "min_block \<le> unat (snd second_block)"
    by (simp add: sim_blocks min_block_def)
  ultimately show ?thesis
    unfolding after_two_def
    by (intro claimed_ok [OF window_ok_sim reachable_shm_ok [OF sim_reachable_block window_ok_sim gcd_contract_sim]])
      (simp_all add: live)
qed

definition sim_var_env :: "(SimGcd, vars) AuthVarEnv" where
  "sim_var_env = \<lparr>TeeE = sim_tee_env var_smc, SmcFuel = 1, PcdMaxVariableSize = 0x100,
     PcdMaxHardwareErrorVariableSize = 0x80, PcdSecureBootEnable = True,
     PrevGetVariable = (\<lambda>_ _ n d t. ((EFI_NOT_FOUND, n, d), t)), LocateVariableArch = (\<lambda>t. (EFI_SUCCESS, t)),
     InstallVariableArch = (\<lambda>t. (EFI_SUCCESS, t)), InstallVariableWriteArch = (\<lambda>t. (EFI_SUCCESS, t)),
     CreateExitBootServicesEvent = (\<lambda>t. (EFI_SUCCESS, t)), ResetSystem = (\<lambda>t. ((), t)),
     AllocatePool = (\<lambda>n t. (Some (replicate (unat n) 0), t)), AllocateZeroPool = (\<lambda>_ t. (True, t)),
     FreePool = (\<lambda>t. ((), t)), TpmMeasureAndLogData = (\<lambda>_ _ _ _ t. (EFI_SUCCESS, t))\<rparr>"

definition sim_driver :: "vars \<Rightarrow> (SimGcd, vars) AuthVarState" where
  "sim_driver t = \<lparr>Tee = \<lparr>Shm = after_two, Rest = t\<rparr>, mTeecContext = \<lparr>fd = 1\<rparr>, mTeecSession = \<lparr>session_id = 7\<rparr>,
     mTeecSessionOpened = True, mVariableParamMem = \<lparr>shm_buffer = 0x81010000, shm_size = 0x100, shm_flags = 0, shm_shadow_buffer = 0\<rparr>,
     mVariableResultMem = \<lparr>shm_buffer = 0x8100E000, shm_size = 0x100, shm_flags = 0, shm_shadow_buffer = 0\<rparr>, Published = True, AtRuntime = False\<rparr>"

lemma sim_driver_sel [simp]:
  "Shm (Tee (sim_driver t)) = after_two" "rest_of (sim_driver t) = t" "room (sim_driver t) = 0x100"
  by (simp_all add: sim_driver_def)

lemma sim_env: "var_env sim_var_env sim_live sim_ta"
  by (simp add: var_env_def sim_var_env_def var_smc_serves window_ok_sim gcd_contract_sim)

lemma sim_quiet: "quiet sim_var_env sim_vars sim_ta"
  by (simp add: quiet_def sim_var_env_def harmless_def platform_view_def)

lemma sim_ready: "var_ready sim_var_env sim_live (sim_driver t)"
proof -
  have "transport_at (mVariableParamMem (sim_driver t)) one_block"
    "transport_at (mVariableResultMem (sim_driver t)) second_block"
    by (simp_all add: transport_at_def sim_driver_def sim_blocks UserBase_of_def sizeof_HEADER_def shm_consts user_size_def)
  moreover have "sim_live (Gcd after_two) = {second_block, one_block}" "one_block \<noteq> second_block"
    by (simp_all add: after_two_def claimed_def sim_live_def two_blocks_def sim_blocks)
  ultimately show ?thesis
    using after_two_ok by (simp add: var_ready_def sim_var_env_def) (auto simp: sim_driver_def)
qed

lemma sim_published: "published_first E (sim_driver t)"
  by (simp add: published_first_def sim_driver_def)

lemmas sim_ready_facts = sim_env sim_store_gets sim_store_sets sim_quiet sim_ready sim_published

text \<open>The message block of a request is taken from the third page.\<close>

lemma sim_third_page: "find (sim_fits 0x10BF two_blocks) sim_pages = Some (sim_start + 0x8000)"
  by (simp add: sim_pages_def sim_fits_def sim_start_def sim_size_def two_blocks_def sim_blocks far_def)

lemma sim_message_size: "BlockSize_of (OPTEE_MSG_GET_ARG_SIZE 4) = 0x10BF"
  by (simp add: BlockSize_of_def OPTEE_MSG_GET_ARG_SIZE_def msg_offsets param_offsets sizeof_HEADER_def shm_consts)

lemma sim_message: "\<not> no_message sim_var_env (Gcd after_two)"
proof -
  have "Gcd after_two = two_blocks"
    by (simp add: after_two_def claimed_def)
  then show ?thesis
    by (simp add: sim_message_size no_message_def sim_var_env_def sim_calls sim_third_page sim_hand_def)
qed

lemma sim_sends: "sends sim_var_env sim_live (sim_driver t)"
  unfolding sends_def
proof (intro allI impI)
  fix g
  assume "sim_live g = sim_live (gcd_of (sim_driver t))"
  then have "set (Handed g) = set (Handed two_blocks)"
    by (simp add: sim_live_def after_two_def claimed_def)
  then have "sim_fits l g = sim_fits l two_blocks" for l
    by (simp add: sim_fits_def list_all_iff fun_eq_iff)
  then show "\<not> no_message sim_var_env g"
    by (simp add: no_message_def sim_var_env_def sim_calls sim_message_size sim_third_page sim_hand_def)
qed

lemma sim_accepts: "accepts sim_ta"
  by (simp add: accepts_def sim_ta_set sim_set_def del: op_code.simps)

section \<open>Witnesses\<close>

definition sim_name :: CHAR16s where "sim_name = ascii ''Lang''"

lemma sim_sendable: "sendable sim_name gEfiGlobalVariableGuid"
  by (simp add: sendable_def name_size_def sim_name_def ascii_def guid_ok_def gEfiGlobalVariableGuid_def)

theorem SetVariable_writes_store_witness:
  "\<exists>s'. OpteeRuntimeSetVariable sim_var_env (Some sim_name) (Some gEfiGlobalVariableGuid) 7 3 (Some [1, 2, 3])
      (sim_driver Map.empty) = Ret (EFI_SUCCESS, s') \<and>
    sim_vars (rest_of s') = [(sim_name, gEfiGlobalVariableGuid) \<mapsto> (7, [1, 2, 3])]"
proof -
  let ?s = "sim_driver Map.empty"
  have "set_request sim_name gEfiGlobalVariableGuid 7 [1, 2, 3] ?s"
    using sim_sendable by (simp add: set_request_def plain_def name_size_def hook_request_def first_char_def sim_name_def ascii_def)
  from SetVariable_writes_store [OF sim_ready_facts this] show ?thesis
    using sim_ta_set [OF sim_sendable, of 7 "[1, 2, 3]" 4 Map.empty]
    by (auto simp: after_set_def sim_message sim_set_def sim_vars_def fun_eq_iff)
qed

theorem GetVariable_reads_store_witness:
  "\<exists>s'. OpteeRuntimeGetVariable sim_var_env (Some sim_name) (Some gEfiGlobalVariableGuid) (Some 0) (Some 4) (Some [9, 9, 9, 9])
      (sim_driver [(sim_name, gEfiGlobalVariableGuid) \<mapsto> (7, [1, 2, 3])]) =
    Ret (\<lparr>GetStatus = EFI_SUCCESS, GetAttributes = Some 7, GetDataSize = Some 3, GetData = Some [1, 2, 3, 9]\<rparr>, s')"
proof -
  let ?s = "sim_driver [(sim_name, gEfiGlobalVariableGuid) \<mapsto> (7, [1, 2, 3])]"
  have "get_request sim_name gEfiGlobalVariableGuid 4 (Some [9, 9, 9, 9]) ?s"
    using sim_sendable by (simp add: get_request_def name_size_def hook_request_def sim_name_def ascii_def)
  from GetVariable_reads_store [OF sim_env sim_store_gets sim_quiet sim_ready this, of "Some 0"] show ?thesis
    by (auto simp: sim_message sim_vars_def reads_def splice_def)
qed

theorem variable_roundtrip_witness:
  "\<exists>s1 s2. OpteeRuntimeSetVariable sim_var_env (Some sim_name) (Some gEfiGlobalVariableGuid) 7 3 (Some [1, 2, 3])
      (sim_driver Map.empty) = Ret (EFI_SUCCESS, s1) \<and>
    OpteeRuntimeGetVariable sim_var_env (Some sim_name) (Some gEfiGlobalVariableGuid) (Some 0) (Some 4) (Some [9, 9, 9, 9]) s1 =
    Ret (\<lparr>GetStatus = EFI_SUCCESS, GetAttributes = Some 7, GetDataSize = Some 3, GetData = Some [1, 2, 3, 9]\<rparr>, s2)"
proof -
  let ?s = "sim_driver Map.empty"
  have w: "set_request sim_name gEfiGlobalVariableGuid 7 [1, 2, 3] ?s" "get_request sim_name gEfiGlobalVariableGuid 4 (Some [9, 9, 9, 9]) ?s"
    using sim_sendable by (simp_all add: set_request_def get_request_def plain_def name_size_def hook_request_def
        first_char_def sim_name_def ascii_def)
  obtain st s1 where s1: "OpteeRuntimeSetVariable sim_var_env (Some sim_name) (Some gEfiGlobalVariableGuid) 7
      (of_nat (length [1, 2, 3 :: u8])) (Some [1, 2, 3]) ?s = Ret (st, s1)"
    and c: "carried sim_var_env sim_live ?s s1" and st: "st = fst (after_set sim_var_env sim_ta sim_name gEfiGlobalVariableGuid 7 [1, 2, 3] ?s)"
    by (rule SetVariable_store [OF sim_ready_facts w(1)])
  have ok: "st = EFI_SUCCESS"
    using sim_ta_set [OF sim_sendable, of 7 "[1, 2, 3]" 4 Map.empty]
    by (simp add: st after_set_def sim_message sim_set_def)
  have "\<not> no_message sim_var_env (gcd_of s1)"
    using sim_sends [of Map.empty] sends_carried [OF c] by (auto simp: sends_def)
  from variable_roundtrip [OF sim_ready_facts w(1) s1 [unfolded ok] w(2) _ this, of 0] s1 show ?thesis
    by (simp add: ok)
qed

theorem InitSecureBootVariables_state_witness:
  "\<exists>s'. InitSecureBootVariables sim_var_env 0 (sim_driver [pk_key \<mapsto> (0x27, [1, 2, 3])]) = Ret (EFI_SUCCESS, s') \<and>
     sim_vars (rest_of s') setup_key = Some (volatile_attributes, [USER_MODE]) \<and>
     sim_vars (rest_of s') boot_key = Some (volatile_attributes, [SECURE_BOOT_MODE_ENABLE])"
proof -
  let ?s = "sim_driver [pk_key \<mapsto> (0x27, [1, 2, 3])]"
  have "boot_ready sim_var_env sim_live sim_ta sim_vars ?s"
    by (simp add: boot_ready_def sim_ready_facts)
  moreover have "pk_enrolled (sim_vars (rest_of ?s))" "stored_byte (sim_vars (rest_of ?s)) = None" "PcdSecureBootEnable sim_var_env"
    by (simp_all add: pk_enrolled_def stored_byte_def sim_vars_def boot_keys boot_guids sim_var_env_def)
  ultimately show ?thesis
    using InitSecureBootVariables_state [of sim_var_env sim_live sim_ta sim_vars ?s 0] sim_sends sim_accepts
    by (auto simp: sim_message secure_boot_vars_def Let_def boot_keys boot_guids secure_boot_names ascii_def)
qed

end
