(* ===== verification/BootMonFs.thy ===== *)
theory BootMonFs
  imports ByteMem
begin

text \<open>
  The boot monitor file system on NOR flash (\<open>src/ARM/Drivers/BootMonFs\<close>): the image descriptions
  at the ends of blocks (\<open>BootMonFsHw.h\<close>, \<open>BootMonFsImages.c\<close>), the files of a volume, and every
  function of the file protocol (\<open>BootMonFsOpenClose.c\<close>, \<open>BootMonFsReadWrite.c\<close>,
  \<open>BootMonFsDir.c\<close>). The list of files keeps the order of the linked list; a file is named by the
  number of its allocation, and a number that is in the list no more is freed memory.
\<close>

section \<open>Image descriptions\<close>

record HW_IMAGE_REGION =
  LoadAddress :: u32
  RegionSize :: u32
  RegionOffset :: u32
  RegionChecksum :: u32

record HW_IMAGE_FOOTER =
  Filename :: "u8 list"
  FooterOffset :: u32
  FooterVersion :: u32
  FooterSignature1 :: u32
  FooterSignature2 :: u32

record HW_IMAGE_DESCRIPTION =
  EntryPoint :: u32
  ImageAttributes :: u32
  RegionCount :: u32
  Region :: "HW_IMAGE_REGION list"
  BlockStart :: u32
  BlockEnd :: u32
  FooterChecksum :: u32
  Footer :: HW_IMAGE_FOOTER

definition MAX_NAME_LENGTH :: nat where "MAX_NAME_LENGTH = 32"
definition HW_IMAGE_FOOTER_SIGNATURE_1 :: u32 where "HW_IMAGE_FOOTER_SIGNATURE_1 = 0x464C5348"
definition HW_IMAGE_FOOTER_SIGNATURE_2 :: u32 where "HW_IMAGE_FOOTER_SIGNATURE_2 = 0x464F4F54"
definition HW_IMAGE_FOOTER_VERSION :: u32 where "HW_IMAGE_FOOTER_VERSION = 1"
definition HW_IMAGE_FOOTER_OFFSET :: u32 where "HW_IMAGE_FOOTER_OFFSET = 92"
definition HW_IMAGE_FOOTER_VERSION2 :: u32 where "HW_IMAGE_FOOTER_VERSION2 = 2"
definition HW_IMAGE_FOOTER_OFFSET2 :: u32 where "HW_IMAGE_FOOTER_OFFSET2 = 96"
definition HW_IMAGE_DESCRIPTION_REGION_MAX :: nat where "HW_IMAGE_DESCRIPTION_REGION_MAX = 4"

lemmas image_consts = HW_IMAGE_FOOTER_SIGNATURE_1_def HW_IMAGE_FOOTER_SIGNATURE_2_def
  HW_IMAGE_FOOTER_VERSION_def HW_IMAGE_FOOTER_OFFSET_def HW_IMAGE_FOOTER_VERSION2_def
  HW_IMAGE_FOOTER_OFFSET2_def HW_IMAGE_DESCRIPTION_REGION_MAX_def MAX_NAME_LENGTH_def

text \<open>The structure as it lies in memory and on the media: 136 bytes, every field little-endian.\<close>

definition sizeof_HW_IMAGE_DESCRIPTION :: nat where "sizeof_HW_IMAGE_DESCRIPTION = 136"

definition region_bytes :: "HW_IMAGE_REGION \<Rightarrow> u8 list" where
  "region_bytes r = le_bytes 4 (LoadAddress r) @ le_bytes 4 (RegionSize r) @ le_bytes 4 (RegionOffset r) @
     le_bytes 4 (RegionChecksum r)"

definition footer_bytes :: "HW_IMAGE_FOOTER \<Rightarrow> u8 list" where
  "footer_bytes f = Filename f @ le_bytes 4 (FooterOffset f) @ le_bytes 4 (FooterVersion f) @
     le_bytes 4 (FooterSignature1 f) @ le_bytes 4 (FooterSignature2 f)"

definition desc_bytes :: "HW_IMAGE_DESCRIPTION \<Rightarrow> u8 list" where
  "desc_bytes d = le_bytes 4 (EntryPoint d) @ le_bytes 4 (ImageAttributes d) @ le_bytes 4 (RegionCount d) @
     concat (map region_bytes (Region d)) @ le_bytes 4 (BlockStart d) @ le_bytes 4 (BlockEnd d) @
     le_bytes 4 (FooterChecksum d) @ footer_bytes (Footer d)"

definition u32_at :: "nat \<Rightarrow> u8 list \<Rightarrow> u32" where
  "u32_at i bs = of_nat (le_nat (take 4 (drop i bs)))"

definition region_at :: "nat \<Rightarrow> u8 list \<Rightarrow> HW_IMAGE_REGION" where
  "region_at i bs = \<lparr>LoadAddress = u32_at i bs, RegionSize = u32_at (i + 4) bs, RegionOffset = u32_at (i + 8) bs,
     RegionChecksum = u32_at (i + 12) bs\<rparr>"

definition desc_of :: "u8 list \<Rightarrow> HW_IMAGE_DESCRIPTION" where
  "desc_of bs = \<lparr>EntryPoint = u32_at 0 bs, ImageAttributes = u32_at 4 bs, RegionCount = u32_at 8 bs,
     Region = map (\<lambda>i. region_at (12 + 16 * i) bs) [0..<4], BlockStart = u32_at 76 bs, BlockEnd = u32_at 80 bs,
     FooterChecksum = u32_at 84 bs,
     Footer = \<lparr>Filename = take 32 (drop 88 bs), FooterOffset = u32_at 120 bs, FooterVersion = u32_at 124 bs,
               FooterSignature1 = u32_at 128 bs, FooterSignature2 = u32_at 132 bs\<rparr>\<rparr>"

definition zero_region :: HW_IMAGE_REGION where
  "zero_region = \<lparr>LoadAddress = 0, RegionSize = 0, RegionOffset = 0, RegionChecksum = 0\<rparr>"

text \<open>A description just allocated with all bytes zero.\<close>

definition zero_desc :: HW_IMAGE_DESCRIPTION where
  "zero_desc = \<lparr>EntryPoint = 0, ImageAttributes = 0, RegionCount = 0, Region = replicate 4 zero_region, BlockStart = 0,
     BlockEnd = 0, FooterChecksum = 0, Footer = \<lparr>Filename = replicate 32 0, FooterOffset = 0, FooterVersion = 0,
       FooterSignature1 = 0, FooterSignature2 = 0\<rparr>\<rparr>"

section \<open>The checksum\<close>

fun words32 :: "u8 list \<Rightarrow> u32 list" where
  "words32 (a # b # c # d # bs) = of_nat (le_nat [a, b, c, d]) # words32 bs"
| "words32 _ = []"

text \<open>One round of the loop: add with the carry taken round to the lowest bit.\<close>

definition checksum_step :: "u32 \<Rightarrow> u32 \<Rightarrow> u32" where
  "checksum_step Word Checksum = (if Word > NOT Checksum then Checksum + 1 else Checksum) + Word"

definition BootMonFsChecksum :: "u8 list \<Rightarrow> u32 option" where
  "BootMonFsChecksum Data =
     (if length Data mod 4 = 0 then Some (NOT (fold checksum_step (words32 Data) 0)) else None)"

text \<open>
  The regions that are not in use and the checksum field itself do not count. \<open>granted\<close> tells whether
  the temporary copy could be allocated; \<open>Attributes\<close> is set in any case.
\<close>

definition checksum_copy :: "HW_IMAGE_DESCRIPTION \<Rightarrow> HW_IMAGE_DESCRIPTION" where
  "checksum_copy d = d\<lparr>FooterChecksum := 0,
     Region := take (unat (RegionCount d)) (Region d) @ replicate (4 - unat (RegionCount d)) zero_region\<rparr>"

definition BootMonFsComputeFooterChecksum :: "bool \<Rightarrow> HW_IMAGE_DESCRIPTION \<Rightarrow> EFI_STATUS \<times> HW_IMAGE_DESCRIPTION" where
  "BootMonFsComputeFooterChecksum granted Foot =
     (let d = Foot\<lparr>ImageAttributes := 1\<rparr>
      in if \<not> granted then (EFI_OUT_OF_RESOURCES, d)
         else (EFI_SUCCESS, d\<lparr>FooterChecksum := the (BootMonFsChecksum (desc_bytes (checksum_copy d)))\<rparr>))"

text \<open>A checksum that does not match is only reported; the description is changed by the test.\<close>

definition BootMonFsIsImageValid :: "bool \<Rightarrow> HW_IMAGE_DESCRIPTION \<Rightarrow> u64 \<Rightarrow> bool \<times> HW_IMAGE_DESCRIPTION" where
  "BootMonFsIsImageValid granted Desc Lba =
     (let f = Footer Desc
      in if FooterSignature1 f \<noteq> HW_IMAGE_FOOTER_SIGNATURE_1 \<or> FooterSignature2 f \<noteq> HW_IMAGE_FOOTER_SIGNATURE_2
         then (False, Desc)
         else if FooterVersion f = HW_IMAGE_FOOTER_VERSION \<and> FooterOffset f \<noteq> HW_IMAGE_FOOTER_OFFSET \<or>
                 FooterVersion f = HW_IMAGE_FOOTER_VERSION2 \<and> FooterOffset f \<noteq> HW_IMAGE_FOOTER_OFFSET2 \<or>
                 FooterVersion f \<noteq> HW_IMAGE_FOOTER_VERSION \<and> FooterVersion f \<noteq> HW_IMAGE_FOOTER_VERSION2
         then (False, Desc)
         else
           let (_, d) = BootMonFsComputeFooterChecksum granted Desc
           in (ucast (BlockEnd d) = Lba \<and> BlockStart d \<le> BlockEnd d, d))"

section \<open>Files and volumes\<close>

record BOOTMON_FS_FILE_REGION =
  RBuffer :: "u8 list"
  RSize :: u64
  ROffset :: u64

text \<open>\<open>EFI_FILE_INFO\<close>; the three times are one string of bytes, names are without their terminator.\<close>

record EFI_FILE_INFO =
  InfoSize :: u64
  FileSize :: u64
  PhysicalSize :: u64
  Times :: "u8 list"
  InfoAttribute :: u64
  FileName :: "u16 list"

definition SIZE_OF_EFI_FILE_INFO :: u64 where "SIZE_OF_EFI_FILE_INFO = 80"

record BOOTMON_FS_FILE =
  HwDescAddress :: u64
  HwDescription :: HW_IMAGE_DESCRIPTION
  Info :: "EFI_FILE_INFO option"
  Position :: u64
  RegionToFlush :: "BOOTMON_FS_FILE_REGION list"
  OpenMode :: u64

record EFI_FILE_SYSTEM_INFO =
  FsInfoSize :: u64
  ReadOnly :: bool
  VolumeSize :: u64
  FreeSpace :: u64
  FsBlockSize :: u32
  VolumeLabel :: "u16 list"

text \<open>The file protocol of a volume: its root directory or a file by the number of its allocation.\<close>

datatype fs_handle = Root | File nat

record 'd FsState =
  RootFile :: BOOTMON_FS_FILE
  Files :: "(nat \<times> BOOTMON_FS_FILE) list"
  NextFile :: nat
  Initialized :: bool
  FsInfo :: EFI_FILE_SYSTEM_INFO
  Dev :: 'd

type_synonym ('d, 'a) fs = "('d FsState, 'a) prog"

text \<open>
  The media with its disk and block protocols, the memory pool, and the string functions of the
  libraries the driver links: \<open>ToAscii\<close> and \<open>ToUnicode\<close> give the content of the destination after
  the conversion with the given bound (for the second the content before comes last).
\<close>

record 'd FsEnv =
  MediaId :: u32
  BlockSize :: u32
  LastBlock :: u64
  LowestAlignedLba :: u64
  ReadDisk :: "u32 \<Rightarrow> u64 \<Rightarrow> u64 \<Rightarrow> 'd \<Rightarrow> (EFI_STATUS \<times> u8 list) \<times> 'd"
  WriteDisk :: "u32 \<Rightarrow> u64 \<Rightarrow> u8 list \<Rightarrow> 'd \<Rightarrow> EFI_STATUS \<times> 'd"
  FlushBlocks :: "'d \<Rightarrow> unit \<times> 'd"
  Allocate :: "u64 \<Rightarrow> 'd \<Rightarrow> bool \<times> 'd"
  PathCleanUpDirectories :: "u16 list \<Rightarrow> u16 list option"
  ToAscii :: "nat \<Rightarrow> u16 list \<Rightarrow> u8 list"
  ToUnicode :: "u64 \<Rightarrow> u8 list \<Rightarrow> u16 list \<Rightarrow> u16 list"

definition devM :: "('d \<Rightarrow> 'a \<times> 'd) \<Rightarrow> ('d, 'a) fs" where
  [prog_defs]: "devM f = (\<lambda>s. case f (Dev s) of (x, d) \<Rightarrow> Ret (x, s\<lparr>Dev := d\<rparr>))"

definition new_file :: BOOTMON_FS_FILE where
  "new_file = \<lparr>HwDescAddress = 0, HwDescription = zero_desc, Info = None, Position = 0, RegionToFlush = [], OpenMode = 0\<rparr>"

text \<open>Access to a file through its handle; a file that was freed is not there.\<close>

definition getF :: "fs_handle \<Rightarrow> ('d, BOOTMON_FS_FILE) fs" where
  [prog_defs]: "getF h = (\<lambda>s. case h of Root \<Rightarrow> Ret (RootFile s, s)
     | File i \<Rightarrow> (case map_of (Files s) i of Some f \<Rightarrow> Ret (f, s) | None \<Rightarrow> Stop UseAfterFree))"

definition set_file :: "nat \<Rightarrow> BOOTMON_FS_FILE \<Rightarrow> (nat \<times> BOOTMON_FS_FILE) list \<Rightarrow> (nat \<times> BOOTMON_FS_FILE) list" where
  "set_file i f = map (\<lambda>(j, g). if j = i then (j, f) else (j, g))"

definition putF :: "fs_handle \<Rightarrow> BOOTMON_FS_FILE \<Rightarrow> ('d, unit) fs" where
  [prog_defs]: "putF h f = modify (\<lambda>s. case h of Root \<Rightarrow> s\<lparr>RootFile := f\<rparr> | File i \<Rightarrow> s\<lparr>Files := set_file i f (Files s)\<rparr>)"

definition updF :: "fs_handle \<Rightarrow> (BOOTMON_FS_FILE \<Rightarrow> BOOTMON_FS_FILE) \<Rightarrow> ('d, unit) fs" where
  [prog_defs]: "updF h u = bindM (getF h) (\<lambda>f. putF h (u f))"

definition sizeof_BOOTMON_FS_FILE :: u64 where "sizeof_BOOTMON_FS_FILE = 336"

text \<open>\<open>BootMonFsCreateFile\<close>; the file is linked into the list by its callers.\<close>

definition BootMonFsCreateFile :: "'d FsEnv \<Rightarrow> ('d, EFI_STATUS \<times> (nat \<times> BOOTMON_FS_FILE) option) fs" where
  "BootMonFsCreateFile E =
     bindM (devM (Allocate E sizeof_BOOTMON_FS_FILE)) (\<lambda>granted.
     if \<not> granted then ret (EFI_OUT_OF_RESOURCES, None)
     else
       bindM (gets NextFile) (\<lambda>i.
       bindM (modify (\<lambda>s. s\<lparr>NextFile := i + 1\<rparr>)) (\<lambda>_.
       ret (EFI_SUCCESS, Some (i, new_file)))))"

section \<open>Finding the images of the media\<close>

text \<open>
  The loop over the blocks; the fuel of its callers is more than the number of blocks. It returns
  the status, the next block to look at and the file with what was read into it.
\<close>

primrec BootMonFsDiscoverNextImage ::
    "nat \<Rightarrow> 'd FsEnv \<Rightarrow> u64 \<Rightarrow> BOOTMON_FS_FILE \<Rightarrow> ('d, EFI_STATUS \<times> u64 \<times> BOOTMON_FS_FILE) fs" where
  "BootMonFsDiscoverNextImage 0 E CurrentLba f = stopM OutOfFuel"
| "BootMonFsDiscoverNextImage (Suc n) E CurrentLba f =
     (if CurrentLba \<le> LastBlock E then
        let DescOffset = (CurrentLba + 1) * ucast (BlockSize E) - of_nat sizeof_HW_IMAGE_DESCRIPTION
        in bindM (devM (ReadDisk E (MediaId E) DescOffset (of_nat sizeof_HW_IMAGE_DESCRIPTION))) (\<lambda>(Status, bs).
           if EFI_ERROR Status then ret (Status, CurrentLba, f)
           else
             bindM (devM (Allocate E (of_nat sizeof_HW_IMAGE_DESCRIPTION))) (\<lambda>granted.
             let (valid, d) = BootMonFsIsImageValid granted (desc_of bs) (CurrentLba - LowestAlignedLba E)
             in if valid then
                  ret (EFI_SUCCESS, CurrentLba + 1, f\<lparr>HwDescription := d, HwDescAddress := DescOffset\<rparr>)
                else BootMonFsDiscoverNextImage n E (CurrentLba + 1) (f\<lparr>HwDescription := d\<rparr>)))
      else ret (EFI_NOT_FOUND, CurrentLba, f))"

definition blocks_fuel :: "'d FsEnv \<Rightarrow> nat" where "blocks_fuel E = unat (LastBlock E) + 2"

primrec initialize_loop :: "nat \<Rightarrow> 'd FsEnv \<Rightarrow> u64 \<Rightarrow> ('d, EFI_STATUS) fs" where
  "initialize_loop 0 E Lba = stopM OutOfFuel"
| "initialize_loop (Suc n) E Lba =
     bindM (BootMonFsCreateFile E) (\<lambda>(Status, NewFile).
     if EFI_ERROR Status then ret Status
     else
       let (i, f) = the NewFile
       in bindM (BootMonFsDiscoverNextImage (blocks_fuel E) E Lba f) (\<lambda>(Status, Lba, f).
          if EFI_ERROR Status then bindM (modify (\<lambda>s. s\<lparr>Initialized := True\<rparr>)) (\<lambda>_. ret EFI_SUCCESS)
          else
            bindM (modify (\<lambda>s. s\<lparr>Files := Files s @ [(i, f)]\<rparr>)) (\<lambda>_.
            initialize_loop n E Lba)))"

definition BootMonFsInitialize :: "'d FsEnv \<Rightarrow> ('d, EFI_STATUS) fs" where
  "BootMonFsInitialize E = initialize_loop (blocks_fuel E) E 0"

section \<open>Sizes\<close>

definition BootMonFsGetImageLength :: "BOOTMON_FS_FILE \<Rightarrow> u32" where
  "BootMonFsGetImageLength f =
     fold (\<lambda>r n. if ROffset r + RSize r > ucast n then ucast (ucast n + (ROffset r + RSize r)) else n)
       (RegionToFlush f) (fold (\<lambda>r n. n + RegionSize r) (Region (HwDescription f)) 0)"

definition BootMonFsGetPhysicalSize :: "'d FsEnv \<Rightarrow> BOOTMON_FS_FILE \<Rightarrow> u64" where
  "BootMonFsGetPhysicalSize E f =
     (let d = HwDescription f
      in if RegionCount d = 0 then 0 else ucast ((BlockEnd d - BlockStart d + 1) * BlockSize E))"

section \<open>Looking files up\<close>

text \<open>The characters of a name array up to its terminator.\<close>

definition ascii_content :: "u8 list \<Rightarrow> u8 list" where "ascii_content bs = takeWhile (\<lambda>c. c \<noteq> 0) bs"

text \<open>\<open>AsciiStrCpyS\<close>: the name with its terminator over the old content, or nothing when it does not fit.\<close>

definition ascii_copy :: "u8 list \<Rightarrow> u8 list \<Rightarrow> u8 list" where
  "ascii_copy name old = (if length name < length old then name @ [0] @ drop (length name + 1) old else old)"

text \<open>An open file goes by the name in its information, a closed one by the name on the media.\<close>

definition current_name :: "'d FsEnv \<Rightarrow> BOOTMON_FS_FILE \<Rightarrow> u8 list" where
  "current_name E f = (case Info f of Some info \<Rightarrow> ToAscii E MAX_NAME_LENGTH (FileName info)
     | None \<Rightarrow> ascii_content (Filename (Footer (HwDescription f))))"

definition BootMonGetFileFromAsciiFileName :: "'d FsEnv \<Rightarrow> u8 list \<Rightarrow> (nat \<times> BOOTMON_FS_FILE) list \<Rightarrow> nat option" where
  "BootMonGetFileFromAsciiFileName E name files =
     map_option fst (find (\<lambda>(i, f). current_name E f = name) files)"

definition BootMonGetFileFromPosition :: "u64 \<Rightarrow> (nat \<times> BOOTMON_FS_FILE) list \<Rightarrow> (nat \<times> BOOTMON_FS_FILE) option" where
  "BootMonGetFileFromPosition pos files = (if unat pos < length files then Some (files ! unat pos) else None)"

section \<open>Writing a file to the media\<close>

definition InvalidateImageDescription :: "'d FsEnv \<Rightarrow> fs_handle \<Rightarrow> ('d, EFI_STATUS) fs" where
  "InvalidateImageDescription E h =
     bindM (getF h) (\<lambda>f.
     bindM (devM (Allocate E (of_nat sizeof_HW_IMAGE_DESCRIPTION))) (\<lambda>granted.
     if \<not> granted then ret EFI_OUT_OF_RESOURCES
     else devM (WriteDisk E (MediaId E) (HwDescAddress f) (replicate sizeof_HW_IMAGE_DESCRIPTION 0))))"

text \<open>The description \<open>WriteFileDescription\<close> builds, without its checksum.\<close>

definition description_for ::
    "'d FsEnv \<Rightarrow> u8 list \<Rightarrow> u32 \<Rightarrow> u64 \<Rightarrow> HW_IMAGE_DESCRIPTION \<Rightarrow> HW_IMAGE_DESCRIPTION" where
  "description_for E name DataSize FileStart d =
     (let FileSize = DataSize + of_nat sizeof_HW_IMAGE_DESCRIPTION;
          start = ucast (FileStart div ucast (BlockSize E)) :: u32
      in d\<lparr>ImageAttributes := 1, BlockStart := start,
           BlockEnd := ucast (ucast start + ucast FileSize div ucast (BlockSize E) :: u64),
           Footer := (Footer d)\<lparr>Filename := ascii_copy name (Filename (Footer d)),
             FooterOffset := HW_IMAGE_FOOTER_OFFSET2, FooterVersion := HW_IMAGE_FOOTER_VERSION2,
             FooterSignature1 := HW_IMAGE_FOOTER_SIGNATURE_1, FooterSignature2 := HW_IMAGE_FOOTER_SIGNATURE_2\<rparr>,
           RegionCount := 1,
           Region := (Region d)[0 := (Region d ! 0)\<lparr>RegionChecksum := 0,
             RegionOffset := ucast (ucast start * ucast (BlockSize E) :: u64), RegionSize := DataSize\<rparr>]\<rparr>)"

definition desc_address :: "'d FsEnv \<Rightarrow> HW_IMAGE_DESCRIPTION \<Rightarrow> u64" where
  "desc_address E d = ucast (BlockEnd d + 1) * ucast (BlockSize E) - of_nat sizeof_HW_IMAGE_DESCRIPTION"

definition WriteFileDescription ::
    "'d FsEnv \<Rightarrow> fs_handle \<Rightarrow> u8 list \<Rightarrow> u32 \<Rightarrow> u64 \<Rightarrow> ('d, EFI_STATUS) fs" where
  "WriteFileDescription E h name DataSize FileStart =
     bindM (if BlockSize E = 0 then stopM DivideByZero else ret ()) (\<lambda>_.
     bindM (ASSERT (FileStart mod ucast (BlockSize E) = 0)) (\<lambda>_.
     bindM (getF h) (\<lambda>f.
     bindM (devM (Allocate E (of_nat sizeof_HW_IMAGE_DESCRIPTION))) (\<lambda>granted.
     let (Status, d) = BootMonFsComputeFooterChecksum granted (description_for E name DataSize FileStart (HwDescription f))
     in bindM (updF h (HwDescription_update (\<lambda>_. d))) (\<lambda>_.
        if EFI_ERROR Status then ret Status
        else
          bindM (updF h (HwDescAddress_update (\<lambda>_. desc_address E d))) (\<lambda>_.
          bindM (devM (WriteDisk E (MediaId E) (desc_address E d) (desc_bytes d))) (\<lambda>Status.
          bindM (ASSERT (\<not> EFI_ERROR Status)) (\<lambda>_. ret Status))))))))"

text \<open>
  First fit over the files in the order of the list: where the file starts, and the file it is put
  in front of if there is one.
\<close>

fun find_gap :: "u64 \<Rightarrow> u64 \<Rightarrow> u64 \<Rightarrow> (nat \<times> BOOTMON_FS_FILE) list \<Rightarrow> nat option \<times> u64" where
  "find_gap bs len start [] = (None, start)"
| "find_gap bs len start ((j, f) # fs) =
     (let d = HwDescription f
      in if RegionCount d = 0 then find_gap bs len start fs
         else if ucast (BlockStart d) * bs - start \<ge> len then (Some j, start)
         else find_gap bs len (ucast (BlockEnd d + 1) * bs) fs)"

text \<open>Unlink the file \<open>i\<close> and link it again in front of the file \<open>j\<close>.\<close>

definition move_before :: "nat \<Rightarrow> nat \<Rightarrow> (nat \<times> BOOTMON_FS_FILE) list \<Rightarrow> (nat \<times> BOOTMON_FS_FILE) list" where
  "move_before i j files =
     (let rest = filter (\<lambda>(k, _). k \<noteq> i) files; moved = filter (\<lambda>(k, _). k = i) files
      in takeWhile (\<lambda>(k, _). k \<noteq> j) rest @ moved @ dropWhile (\<lambda>(k, _). k \<noteq> j) rest)"

definition BootMonFsFindSpaceForNewFile :: "'d FsEnv \<Rightarrow> nat \<Rightarrow> u64 \<Rightarrow> ('d, EFI_STATUS \<times> u64) fs" where
  "BootMonFsFindSpaceForNewFile E i Needed =
     bindM (getF (File i)) (\<lambda>f.
     bindM (ASSERT (RegionCount (HwDescription f) = 0)) (\<lambda>_.
     bindM (gets Files) (\<lambda>files.
     case find_gap (ucast (BlockSize E)) Needed 0 files of
       (Some j, start) \<Rightarrow>
         bindM (modify (\<lambda>s. s\<lparr>Files := move_before i j (Files s)\<rparr>)) (\<lambda>_. ret (EFI_SUCCESS, start))
     | (None, start) \<Rightarrow>
         ret (if (LastBlock E + 1) * ucast (BlockSize E) - start \<ge> Needed then EFI_SUCCESS else EFI_VOLUME_FULL,
              start))))"

text \<open>The file behind \<open>i\<close> in the list.\<close>

fun next_in_list :: "nat \<Rightarrow> (nat \<times> BOOTMON_FS_FILE) list \<Rightarrow> (nat \<times> BOOTMON_FS_FILE) option" where
  "next_in_list i ((j, f) # (k, g) # fs) = (if j = i then Some (k, g) else next_in_list i ((k, g) # fs))"
| "next_in_list i _ = None"

definition has_space :: "'d FsEnv \<Rightarrow> nat \<Rightarrow> BOOTMON_FS_FILE \<Rightarrow> u64 \<Rightarrow> u64 \<Rightarrow> (nat \<times> BOOTMON_FS_FILE) list \<Rightarrow> bool" where
  "has_space E i f FileStart NewFileSize files \<longleftrightarrow>
     NewFileSize \<le> BootMonFsGetPhysicalSize E f \<or>
     (case next_in_list i files of
        Some (_, g) \<Rightarrow> ucast (BlockStart (HwDescription g)) * ucast (BlockSize E)
      | None \<Rightarrow> (LastBlock E + 1) * ucast (BlockSize E)) - FileStart \<ge> NewFileSize"

text \<open>The loop over the regions that wait to be written.\<close>

primrec flush_regions ::
    "'d FsEnv \<Rightarrow> nat \<Rightarrow> u8 list \<Rightarrow> u64 \<Rightarrow> u64 \<Rightarrow> BOOTMON_FS_FILE_REGION list \<Rightarrow> ('d, EFI_STATUS) fs" where
  "flush_regions E i name FileStart FileEnd [] = ret EFI_SUCCESS"
| "flush_regions E i name FileStart FileEnd (r # rs) =
     (if RSize r = 0 then flush_regions E i name FileStart FileEnd rs
      else
        let RegionStart = FileStart + ROffset r; RegionEnd = RegionStart + RSize r;
            write = devM (WriteDisk E (MediaId E) RegionStart (take (unat (RSize r)) (RBuffer r)))
        in tryE (if RegionEnd < FileEnd then write
             else
               let NewDataSize = RegionEnd - FileStart;
                   NewFileSize = NewDataSize + of_nat sizeof_HW_IMAGE_DESCRIPTION
               in bindM (getF (File i)) (\<lambda>f.
                  bindM (gets Files) (\<lambda>files.
                  if has_space E i f FileStart NewFileSize files then
                    tryE (if HwDescAddress f \<noteq> 0 then InvalidateImageDescription E (File i) else ret EFI_SUCCESS) (
                    tryE write (
                    WriteFileDescription E (File i) name (ucast NewDataSize) FileStart))
                  else ret EFI_VOLUME_FULL)))
           (flush_regions E i name FileStart FileEnd rs))"

definition flush_body :: "'d FsEnv \<Rightarrow> nat \<Rightarrow> EFI_FILE_INFO \<Rightarrow> u64 \<Rightarrow> ('d, EFI_STATUS) fs" where
  "flush_body E i info FileStart =
     (let name = ToAscii E MAX_NAME_LENGTH (FileName info)
      in bindM (getF (File i)) (\<lambda>f.
         tryE (flush_regions E i name FileStart (FileStart + ucast (RegionSize (Region (HwDescription f) ! 0))) (RegionToFlush f)) (
         bindM (updF (File i) (\<lambda>f. f\<lparr>RegionToFlush := []\<rparr>)) (\<lambda>_.
         bindM (updF (File i) (\<lambda>f. f\<lparr>Info := map_option (PhysicalSize_update (\<lambda>_. BootMonFsGetPhysicalSize E f)) (Info f)\<rparr>)) (\<lambda>_.
         bindM (getF (File i)) (\<lambda>f.
         tryE (if name \<noteq> ascii_content (Filename (Footer (HwDescription f))) \<or>
                  FileSize info \<noteq> ucast (RegionSize (Region (HwDescription f) ! 0))
               then WriteFileDescription E (File i) name (ucast (FileSize info)) FileStart
               else ret EFI_SUCCESS) (
         bindM (devM (FlushBlocks E)) (\<lambda>_. ret EFI_SUCCESS))))))))"

definition EFI_FILE_MODE_READ :: u64 where "EFI_FILE_MODE_READ = 1"
definition EFI_FILE_MODE_WRITE :: u64 where "EFI_FILE_MODE_WRITE = 2"
definition EFI_FILE_MODE_CREATE :: u64 where "EFI_FILE_MODE_CREATE = 0x8000000000000000"
definition EFI_FILE_READ_ONLY :: u64 where "EFI_FILE_READ_ONLY = 1"
definition EFI_FILE_DIRECTORY :: u64 where "EFI_FILE_DIRECTORY = 0x10"

definition BootMonFsFlushFile :: "'d FsEnv \<Rightarrow> nat option \<Rightarrow> ('d, EFI_STATUS) fs" where
  "BootMonFsFlushFile E This = (case This of None \<Rightarrow> ret EFI_INVALID_PARAMETER | Some i \<Rightarrow>
     bindM (getF (File i)) (\<lambda>f.
     case Info f of None \<Rightarrow> ret EFI_INVALID_PARAMETER | Some info \<Rightarrow>
       if OpenMode f = EFI_FILE_MODE_READ then ret EFI_ACCESS_DENIED
       else if RegionCount (HwDescription f) = 0 then
         bindM (BootMonFsFindSpaceForNewFile E i (FileSize info + of_nat sizeof_HW_IMAGE_DESCRIPTION)) (\<lambda>(Status, FileStart).
         if EFI_ERROR Status then ret Status else flush_body E i info FileStart)
       else flush_body E i info (ucast (BlockStart (HwDescription f)) * ucast (BlockSize E))))"

section \<open>Opening, closing and deleting\<close>

definition BootMonFsCloseFile :: "'d FsEnv \<Rightarrow> fs_handle option \<Rightarrow> ('d, EFI_STATUS) fs" where
  "BootMonFsCloseFile E This = (case This of None \<Rightarrow> ret EFI_INVALID_PARAMETER | Some h \<Rightarrow>
     bindM (getF h) (\<lambda>f.
     if Info f = None then ret EFI_INVALID_PARAMETER
     else case h of Root \<Rightarrow> ret EFI_SUCCESS | File i \<Rightarrow>
       bindM (BootMonFsFlushFile E (Some i)) (\<lambda>_.
       bindM (updF h (Info_update (\<lambda>_. None))) (\<lambda>_. ret EFI_SUCCESS))))"

definition EFI_WARN_DELETE_FAILURE :: EFI_STATUS where "EFI_WARN_DELETE_FAILURE = EFI_WARNING 2"

definition BootMonFsDeleteFail :: "'d FsEnv \<Rightarrow> ('d, EFI_STATUS) fs" where
  "BootMonFsDeleteFail E = bindM (BootMonFsCloseFile E (Some Root)) (\<lambda>_. ret EFI_WARN_DELETE_FAILURE)"

definition BootMonFsDelete :: "'d FsEnv \<Rightarrow> nat option \<Rightarrow> ('d, EFI_STATUS) fs" where
  "BootMonFsDelete E This = (case This of None \<Rightarrow> ret EFI_INVALID_PARAMETER | Some i \<Rightarrow>
     bindM (getF (File i)) (\<lambda>f.
     if Info f = None then ret EFI_INVALID_PARAMETER
     else
       bindM (updF (File i) (RegionToFlush_update (\<lambda>_. []))) (\<lambda>_.
       bindM (if RegionCount (HwDescription f) > 0 then
                bindM (InvalidateImageDescription E (File i)) (\<lambda>Status.
                bindM (ASSERT (\<not> EFI_ERROR Status)) (\<lambda>_. ret Status))
              else ret EFI_SUCCESS) (\<lambda>Status.
       if EFI_ERROR Status then ret EFI_WARN_DELETE_FAILURE
       else
         bindM (modify (\<lambda>s. s\<lparr>Files := filter (\<lambda>(k, _). k \<noteq> i) (Files s)\<rparr>)) (\<lambda>_.
         ret EFI_SUCCESS)))))"

definition backslash :: u16 where "backslash = 0x5C"

fun double_backslash :: "u16 list \<Rightarrow> bool" where
  "double_backslash (a # b # cs) \<longleftrightarrow> a = backslash \<and> b = backslash \<or> double_backslash (b # cs)"
| "double_backslash _ \<longleftrightarrow> False"

definition StrSize16 :: "u16 list \<Rightarrow> u64" where "StrSize16 name = (of_nat (length name) + 1) * 2"

definition fresh_info :: "'d FsEnv \<Rightarrow> BOOTMON_FS_FILE \<Rightarrow> u8 list \<Rightarrow> u64 \<Rightarrow> EFI_FILE_INFO" where
  "fresh_info E f name Attribute = \<lparr>InfoSize = 0, FileSize = ucast (BootMonFsGetImageLength f),
     PhysicalSize = BootMonFsGetPhysicalSize E f, Times = replicate 48 0, InfoAttribute = Attribute,
     FileName = ToUnicode E (of_nat MAX_NAME_LENGTH) name []\<rparr>"

text \<open>Opening the file of a name in the root directory, which is created when the mode asks for it.\<close>

definition open_by_name ::
    "'d FsEnv \<Rightarrow> u8 list \<Rightarrow> u64 \<Rightarrow> u64 \<Rightarrow> ('d, EFI_STATUS \<times> fs_handle option) fs" where
  "open_by_name E name Mode Attributes =
     (let opened = (\<lambda>i Attribute.
            bindM (updF (File i) (\<lambda>f. f\<lparr>Info := Some (fresh_info E f name Attribute), Position := 0, OpenMode := Mode\<rparr>)) (\<lambda>_.
            ret (EFI_SUCCESS, Some (File i))))
      in bindM (gets Files) (\<lambda>files.
         case BootMonGetFileFromAsciiFileName E name files of
           None \<Rightarrow>
             if Mode AND EFI_FILE_MODE_CREATE = 0 then ret (EFI_NOT_FOUND, None)
             else
               bindM (BootMonFsCreateFile E) (\<lambda>(Status, NewFile).
               if EFI_ERROR Status then ret (Status, None)
               else
                 bindM (modify (\<lambda>s. s\<lparr>Files := the NewFile # Files s\<rparr>)) (\<lambda>_.
                 opened (fst (the NewFile)) Attributes))
         | Some i \<Rightarrow>
             bindM (getF (File i)) (\<lambda>f.
             if Info f \<noteq> None then ret (EFI_UNSUPPORTED, None) else opened i 0)))"

text \<open>The part of \<open>BootMonFsOpenFile\<close> behind the checks, on the copy of the path.\<close>

definition open_path ::
    "'d FsEnv \<Rightarrow> u16 list \<Rightarrow> u64 \<Rightarrow> u64 \<Rightarrow> ('d, EFI_STATUS \<times> fs_handle option) fs" where
  "open_path E Clean Mode Attributes =
     (if double_backslash Clean then ret (EFI_INVALID_PARAMETER, None)
      else
        let Path = (if Clean \<noteq> [] \<and> hd Clean = backslash then tl Clean else Clean)
        in if backslash \<in> set Path then
             ret (if dropWhile (\<lambda>c. c \<noteq> backslash) Path = [backslash] \<and> Mode AND EFI_FILE_MODE_CREATE \<noteq> 0
                  then if Attributes AND EFI_FILE_DIRECTORY \<noteq> 0 then EFI_WRITE_PROTECTED else EFI_INVALID_PARAMETER
                  else EFI_NOT_FOUND, None)
           else
             let AsciiFileNameSize = min (length Path + 1) MAX_NAME_LENGTH
             in bindM (devM (Allocate E (of_nat AsciiFileNameSize))) (\<lambda>granted.
                if \<not> granted then ret (EFI_OUT_OF_RESOURCES, None)
                else
                  let name = ToAscii E AsciiFileNameSize Path
                  in if name = [] \<or> hd name = 0x2E then
                       bindM (updF Root (Position_update (\<lambda>_. 0))) (\<lambda>_. ret (EFI_SUCCESS, Some Root))
                     else if Mode AND EFI_FILE_MODE_CREATE \<noteq> 0 \<and> Attributes AND EFI_FILE_DIRECTORY \<noteq> 0
                     then ret (EFI_WRITE_PROTECTED, None)
                     else
                       bindM (devM (Allocate E (SIZE_OF_EFI_FILE_INFO + 2 * of_nat MAX_NAME_LENGTH))) (\<lambda>granted.
                       if \<not> granted then ret (EFI_OUT_OF_RESOURCES, None)
                       else open_by_name E name Mode Attributes)))"

definition BootMonFsOpenFile ::
    "'d FsEnv \<Rightarrow> fs_handle option \<Rightarrow> bool \<Rightarrow> u16 list option \<Rightarrow> u64 \<Rightarrow> u64 \<Rightarrow>
     ('d, EFI_STATUS \<times> fs_handle option) fs" where
  "BootMonFsOpenFile E This NewHandle Name Mode Attributes = (case This of
     None \<Rightarrow> ret (EFI_INVALID_PARAMETER, None)
   | Some h \<Rightarrow>
       bindM (getF h) (\<lambda>Directory.
       if Info Directory = None then ret (EFI_INVALID_PARAMETER, None)
       else case Name of None \<Rightarrow> ret (EFI_INVALID_PARAMETER, None) | Some name \<Rightarrow>
         if \<not> NewHandle then ret (EFI_INVALID_PARAMETER, None)
         else if Mode \<noteq> EFI_FILE_MODE_READ \<and> Mode \<noteq> EFI_FILE_MODE_READ OR EFI_FILE_MODE_WRITE \<and>
                 Mode \<noteq> EFI_FILE_MODE_READ OR EFI_FILE_MODE_WRITE OR EFI_FILE_MODE_CREATE
         then ret (EFI_INVALID_PARAMETER, None)
         else
           bindM (gets Initialized) (\<lambda>ready.
           bindM (if ready then ret EFI_SUCCESS else BootMonFsInitialize E) (\<lambda>Status.
           if EFI_ERROR Status then ret (Status, None)
           else
             bindM (devM (Allocate E (StrSize16 name))) (\<lambda>granted.
             if \<not> granted then ret (EFI_OUT_OF_RESOURCES, None)
             else case PathCleanUpDirectories E name of
               None \<Rightarrow> ret (EFI_INVALID_PARAMETER, None)
             | Some path \<Rightarrow> open_path E path Mode Attributes)))))"

section \<open>Reading, writing and seeking\<close>

text \<open>The status, \<open>*BufferSize\<close> and the bytes of the buffer that were written.\<close>

definition BootMonFsReadFile ::
    "'d FsEnv \<Rightarrow> nat option \<Rightarrow> u64 option \<Rightarrow> bool \<Rightarrow> ('d, EFI_STATUS \<times> u64 option \<times> u8 list) fs" where
  "BootMonFsReadFile E This BufferSize Buffer = (case (This, BufferSize, Buffer) of
     (Some i, Some n, True) \<Rightarrow>
       bindM (getF (File i)) (\<lambda>f.
       if Info f = None then ret (EFI_INVALID_PARAMETER, BufferSize, [])
       else
         bindM (BootMonFsFlushFile E This) (\<lambda>_.
         bindM (getF (File i)) (\<lambda>f.
         let info = the (Info f);
             FileStart = (LowestAlignedLba E + ucast (BlockStart (HwDescription f))) * ucast (BlockSize E)
         in if Position f \<ge> FileSize info then
              ret (if Position f > FileSize info then EFI_DEVICE_ERROR else EFI_SUCCESS, Some 0, [])
            else
              let n = min n (FileSize info - Position f)
              in bindM (devM (ReadDisk E (MediaId E) (FileStart + Position f) n)) (\<lambda>(Status, bs).
                 let n = (if EFI_ERROR Status then 0 else n)
                 in bindM (updF (File i) (\<lambda>f. f\<lparr>Position := Position f + n\<rparr>)) (\<lambda>_.
                    ret (Status, Some n, bs))))))
   | _ \<Rightarrow> ret (EFI_INVALID_PARAMETER, BufferSize, []))"

definition BootMonFsWriteFile ::
    "'d FsEnv \<Rightarrow> fs_handle option \<Rightarrow> u64 \<Rightarrow> u8 list \<Rightarrow> ('d, EFI_STATUS \<times> u64) fs" where
  "BootMonFsWriteFile E This n Buffer = (case This of None \<Rightarrow> ret (EFI_INVALID_PARAMETER, n) | Some h \<Rightarrow>
     bindM (getF h) (\<lambda>f.
     if Info f = None then ret (EFI_INVALID_PARAMETER, n)
     else if OpenMode f = EFI_FILE_MODE_READ then ret (EFI_ACCESS_DENIED, n)
     else
       bindM (devM (Allocate E 40)) (\<lambda>granted.
       if \<not> granted then ret (EFI_OUT_OF_RESOURCES, 0)
       else
         bindM (devM (Allocate E n)) (\<lambda>granted.
         if \<not> granted then ret (EFI_OUT_OF_RESOURCES, 0)
         else
           let r = \<lparr>RBuffer = take (unat n) Buffer, RSize = n, ROffset = Position f\<rparr>; end = Position f + n
           in bindM (updF h (\<lambda>f. f\<lparr>RegionToFlush := RegionToFlush f @ [r], Position := end,
                       Info := map_option (\<lambda>info. if end > FileSize info then info\<lparr>FileSize := end\<rparr> else info) (Info f)\<rparr>)) (\<lambda>_.
              ret (EFI_SUCCESS, n))))))"

definition BootMonFsSetPosition :: "nat option \<Rightarrow> u64 \<Rightarrow> ('d, EFI_STATUS) fs" where
  "BootMonFsSetPosition This Pos = (case This of None \<Rightarrow> ret EFI_INVALID_PARAMETER | Some i \<Rightarrow>
     bindM (getF (File i)) (\<lambda>f.
     case Info f of None \<Rightarrow> ret EFI_INVALID_PARAMETER | Some info \<Rightarrow>
       bindM (updF (File i) (Position_update (\<lambda>_. if Pos = 0xFFFFFFFFFFFFFFFF then FileSize info else Pos))) (\<lambda>_.
       ret EFI_SUCCESS)))"

definition BootMonFsGetPosition :: "nat option \<Rightarrow> bool \<Rightarrow> ('d, EFI_STATUS \<times> u64 option) fs" where
  "BootMonFsGetPosition This Pos = (case This of None \<Rightarrow> ret (EFI_INVALID_PARAMETER, None) | Some i \<Rightarrow>
     bindM (getF (File i)) (\<lambda>f.
     if Info f = None \<or> \<not> Pos then ret (EFI_INVALID_PARAMETER, None)
     else ret (EFI_SUCCESS, Some (Position f))))"

definition BootMonFsSetDirPosition :: "u64 \<Rightarrow> ('d, EFI_STATUS) fs" where
  "BootMonFsSetDirPosition Pos =
     (if Pos \<noteq> 0 then ret EFI_UNSUPPORTED
      else bindM (updF Root (Position_update (\<lambda>_. Pos))) (\<lambda>_. ret EFI_SUCCESS))"

section \<open>The root directory and file information\<close>

text \<open>The volume is opened by giving out the root directory.\<close>

definition OpenBootMonFsOpenVolume :: "('d, EFI_STATUS \<times> fs_handle) fs" where
  "OpenBootMonFsOpenVolume =
     bindM (updF Root (\<lambda>f. f\<lparr>Info := map_option (InfoAttribute_update (\<lambda>_. EFI_FILE_READ_ONLY OR EFI_FILE_DIRECTORY))
       (Info f)\<rparr>)) (\<lambda>_. ret (EFI_SUCCESS, Root))"

text \<open>What \<open>GetInfo\<close> writes into the caller's buffer.\<close>

datatype fs_info =
    NoInfo
  | LabelInfo "u16 list"
  | SystemInfo EFI_FILE_SYSTEM_INFO
  | FileInfo EFI_FILE_INFO
  | BootMonInfo u32 u32 "HW_IMAGE_REGION list"

datatype info_type = VolumeLabelInfoId | FileSystemInfoId | FileInfoId | BootMonFsFileInfoId | OtherInfoId

definition GetFileSystemVolumeLabelInfo :: "u64 \<Rightarrow> ('d, EFI_STATUS \<times> u64 \<times> fs_info) fs" where
  "GetFileSystemVolumeLabelInfo n =
     bindM (gets FsInfo) (\<lambda>info.
     let Size = StrSize16 (VolumeLabel info)
     in ret (if n \<ge> Size then (EFI_SUCCESS, Size, LabelInfo (VolumeLabel info))
             else (EFI_BUFFER_TOO_SMALL, Size, NoInfo)))"

definition ComputeFreeSpace :: "'d FsEnv \<Rightarrow> (nat \<times> BOOTMON_FS_FILE) list \<Rightarrow> u64" where
  "ComputeFreeSpace E files =
     (let MediaSize = ucast (BlockSize E) * (LastBlock E + 1);
          FileSizeSum = fold (\<lambda>(_, f) n. n + ucast (BootMonFsGetImageLength f)) files 0;
          NumFiles = of_nat (length files)
      in MediaSize - (FileSizeSum + (ucast (BlockSize E) + NumFiles)))"

definition GetFilesystemInfo :: "'d FsEnv \<Rightarrow> u64 \<Rightarrow> ('d, EFI_STATUS \<times> u64 \<times> fs_info) fs" where
  "GetFilesystemInfo E n =
     bindM (gets FsInfo) (\<lambda>info.
     if n \<ge> FsInfoSize info then
       bindM (gets Files) (\<lambda>files.
       let info' = info\<lparr>FreeSpace := ComputeFreeSpace E files\<rparr>
       in bindM (modify (\<lambda>s. s\<lparr>FsInfo := info'\<rparr>)) (\<lambda>_.
          ret (EFI_SUCCESS, FsInfoSize info, SystemInfo info')))
     else ret (EFI_BUFFER_TOO_SMALL, FsInfoSize info, NoInfo))"

definition GetFileInfo :: "fs_handle \<Rightarrow> u64 \<Rightarrow> ('d, EFI_STATUS \<times> u64 \<times> fs_info) fs" where
  "GetFileInfo h n =
     bindM (getF h) (\<lambda>f.
     let info = the (Info f); ResultSize = SIZE_OF_EFI_FILE_INFO + StrSize16 (FileName info)
     in ret (if n < ResultSize then (EFI_BUFFER_TOO_SMALL, ResultSize, NoInfo)
             else (EFI_SUCCESS, ResultSize, FileInfo (info\<lparr>InfoSize := ResultSize\<rparr>))))"

definition SIZE_OF_BOOTMON_FS_FILE_INFO :: u64 where "SIZE_OF_BOOTMON_FS_FILE_INFO = 76"

text \<open>The region count comes from the media; above four the loop leaves the two arrays.\<close>

definition GetBootMonFsFileInfo :: "fs_handle \<Rightarrow> u64 \<Rightarrow> ('d, EFI_STATUS \<times> u64 \<times> fs_info) fs" where
  "GetBootMonFsFileInfo h n = (case h of Root \<Rightarrow> ret (EFI_UNSUPPORTED, n, NoInfo) | File _ \<Rightarrow>
     bindM (getF h) (\<lambda>f.
     let d = HwDescription f
     in if n < SIZE_OF_BOOTMON_FS_FILE_INFO then ret (EFI_BUFFER_TOO_SMALL, SIZE_OF_BOOTMON_FS_FILE_INFO, NoInfo)
        else if unat (RegionCount d) > HW_IMAGE_DESCRIPTION_REGION_MAX then stopM OutOfBounds
        else ret (EFI_SUCCESS, SIZE_OF_BOOTMON_FS_FILE_INFO,
               BootMonInfo (EntryPoint d) (RegionCount d) (take (unat (RegionCount d)) (Region d)))))"

definition BootMonFsGetInfo ::
    "'d FsEnv \<Rightarrow> fs_handle option \<Rightarrow> info_type option \<Rightarrow> u64 option \<Rightarrow> bool \<Rightarrow>
     ('d, EFI_STATUS \<times> u64 option \<times> fs_info) fs" where
  "BootMonFsGetInfo E This InformationType BufferSize Buffer = (case (This, InformationType, BufferSize) of
     (Some h, Some type, Some n) \<Rightarrow>
       if \<not> Buffer \<and> n > 0 then ret (EFI_INVALID_PARAMETER, BufferSize, NoInfo)
       else
         bindM (getF h) (\<lambda>f.
         if Info f = None then ret (EFI_INVALID_PARAMETER, BufferSize, NoInfo)
         else
           bindM (gets Initialized) (\<lambda>ready.
           bindM (if ready then ret EFI_SUCCESS else BootMonFsInitialize E) (\<lambda>Status.
           if EFI_ERROR Status then ret (Status, BufferSize, NoInfo)
           else
             bindM (case type of
                 VolumeLabelInfoId \<Rightarrow> GetFileSystemVolumeLabelInfo n
               | FileSystemInfoId \<Rightarrow> GetFilesystemInfo E n
               | FileInfoId \<Rightarrow> GetFileInfo h n
               | BootMonFsFileInfoId \<Rightarrow> GetBootMonFsFileInfo h n
               | OtherInfoId \<Rightarrow> ret (EFI_UNSUPPORTED, n, NoInfo)) (\<lambda>(Status, n, info).
             ret (Status, Some n, info)))))
   | _ \<Rightarrow> ret (EFI_INVALID_PARAMETER, BufferSize, NoInfo))"

section \<open>Changing the information of a file\<close>

definition SetFileName :: "'d FsEnv \<Rightarrow> fs_handle \<Rightarrow> u16 list \<Rightarrow> ('d, EFI_STATUS) fs" where
  "SetFileName E h Name =
     (let Name = (if Name \<noteq> [] \<and> hd Name = backslash then tl Name else Name);
          ascii = ToAscii E MAX_NAME_LENGTH Name
      in bindM (gets Files) (\<lambda>files.
         if BootMonGetFileFromAsciiFileName E ascii files \<noteq> None then ret EFI_ACCESS_DENIED
         else
           bindM (updF h (\<lambda>f. f\<lparr>Info := map_option (\<lambda>info. info\<lparr>FileName :=
               ToUnicode E ((InfoSize info - SIZE_OF_EFI_FILE_INFO) div 2) ascii (FileName info)\<rparr>) (Info f)\<rparr>)) (\<lambda>_.
           ret EFI_SUCCESS)))"

text \<open>The position functions of the directory's template stop at \<open>ASSERT (0)\<close>.\<close>

definition file_GetPosition :: "fs_handle \<Rightarrow> ('d, EFI_STATUS \<times> u64 option) fs" where
  "file_GetPosition h = (case h of
     Root \<Rightarrow> bindM (ASSERT False) (\<lambda>_. ret (EFI_UNSUPPORTED, None)) | File i \<Rightarrow> BootMonFsGetPosition (Some i) True)"

definition file_SetPosition :: "fs_handle \<Rightarrow> u64 \<Rightarrow> ('d, EFI_STATUS) fs" where
  "file_SetPosition h Pos = (case h of Root \<Rightarrow> BootMonFsSetDirPosition Pos | File i \<Rightarrow> BootMonFsSetPosition (Some i) Pos)"

definition truncate_regions :: "u64 \<Rightarrow> BOOTMON_FS_FILE_REGION list \<Rightarrow> BOOTMON_FS_FILE_REGION list" where
  "truncate_regions NewSize rs =
     map (\<lambda>r. r\<lparr>RSize := min (RSize r) (NewSize - ROffset r)\<rparr>) (filter (\<lambda>r. \<not> ROffset r > NewSize) rs)"

definition SetFileSize :: "'d FsEnv \<Rightarrow> fs_handle \<Rightarrow> u64 \<Rightarrow> ('d, EFI_STATUS) fs" where
  "SetFileSize E h NewSize =
     bindM (getF h) (\<lambda>f.
     let OldSize = ucast (ucast (FileSize (the (Info f))) :: u32) :: u64
     in tryE (if NewSize < OldSize then
                bindM (updF h (\<lambda>f. f\<lparr>RegionToFlush := truncate_regions NewSize (RegionToFlush f)\<rparr>)) (\<lambda>_. ret EFI_SUCCESS)
              else if NewSize > OldSize then
                bindM (file_GetPosition h) (\<lambda>(Status, Stored).
                if EFI_ERROR Status then ret Status
                else
                  tryE (file_SetPosition h OldSize) (
                  bindM (devM (Allocate E (NewSize - OldSize))) (\<lambda>granted.
                  if \<not> granted then ret EFI_OUT_OF_RESOURCES
                  else
                    bindM (BootMonFsWriteFile E (Some h) (NewSize - OldSize) (replicate (unat (NewSize - OldSize)) 0))
                      (\<lambda>(Status, _).
                    if EFI_ERROR Status then ret Status else file_SetPosition h (the Stored)))))
              else ret EFI_SUCCESS) (
        bindM (updF h (\<lambda>f. f\<lparr>Info := map_option (FileSize_update (\<lambda>_. NewSize)) (Info f)\<rparr>)) (\<lambda>_.
        ret EFI_SUCCESS)))"

definition SetFileInfo :: "'d FsEnv \<Rightarrow> fs_handle \<Rightarrow> EFI_FILE_INFO \<Rightarrow> ('d, EFI_STATUS) fs" where
  "SetFileInfo E h New =
     bindM (getF h) (\<lambda>f.
     let old = the (Info f);
         FileSizeIsDifferent = FileSize New \<noteq> FileSize old;
         FileNameIsDifferent = take (MAX_NAME_LENGTH - 1) (FileName New) \<noteq> take (MAX_NAME_LENGTH - 1) (FileName old);
         TimeIsDifferent = Times New \<noteq> Times old
     in if InfoAttribute New AND EFI_FILE_DIRECTORY \<noteq> InfoAttribute old AND EFI_FILE_DIRECTORY then ret EFI_ACCESS_DENIED
        else if OpenMode f = EFI_FILE_MODE_READ \<and> (FileSizeIsDifferent \<or> FileNameIsDifferent \<or> TimeIsDifferent)
        then ret EFI_ACCESS_DENIED
        else if TimeIsDifferent then ret EFI_WRITE_PROTECTED
        else
          tryE (if FileSizeIsDifferent then SetFileSize E h (FileSize New) else ret EFI_SUCCESS) (
          bindM (updF h (\<lambda>f. f\<lparr>Info := map_option (InfoAttribute_update (\<lambda>_. InfoAttribute New)) (Info f)\<rparr>)) (\<lambda>_.
          tryE (if FileNameIsDifferent then SetFileName E h (FileName New) else ret EFI_SUCCESS) (
          ret EFI_SUCCESS))))"

text \<open>The structure passed to \<open>SetInfo\<close>, by its type.\<close>

datatype fs_set = SetFileData EFI_FILE_INFO | SetSystemData EFI_FILE_SYSTEM_INFO | SetLabelData | SetOtherData

definition SIZE_OF_EFI_FILE_SYSTEM_INFO :: u64 where "SIZE_OF_EFI_FILE_SYSTEM_INFO = 36"

definition BootMonFsSetInfo :: "'d FsEnv \<Rightarrow> fs_handle option \<Rightarrow> u64 \<Rightarrow> fs_set option \<Rightarrow> ('d, EFI_STATUS) fs" where
  "BootMonFsSetInfo E This n Buffer = (case (This, Buffer) of
     (Some h, Some new) \<Rightarrow>
       bindM (getF h) (\<lambda>f.
       if Info f = None then ret EFI_INVALID_PARAMETER
       else case new of
         SetFileData info \<Rightarrow>
           if InfoSize info < SIZE_OF_EFI_FILE_INFO + StrSize16 (FileName info) then ret EFI_INVALID_PARAMETER
           else if n < InfoSize info then ret EFI_BAD_BUFFER_SIZE
           else SetFileInfo E h info
       | SetSystemData info \<Rightarrow>
           ret (if FsInfoSize info < SIZE_OF_EFI_FILE_SYSTEM_INFO + StrSize16 (VolumeLabel info) then EFI_INVALID_PARAMETER
                else if n < FsInfoSize info then EFI_BAD_BUFFER_SIZE else EFI_WRITE_PROTECTED)
       | SetLabelData \<Rightarrow> ret EFI_WRITE_PROTECTED
       | SetOtherData \<Rightarrow> ret EFI_UNSUPPORTED)
   | _ \<Rightarrow> ret EFI_INVALID_PARAMETER)"

section \<open>The directory as a file\<close>

definition BootMonFsReadDirectory :: "'d FsEnv \<Rightarrow> u64 \<Rightarrow> ('d, EFI_STATUS \<times> u64 \<times> fs_info) fs" where
  "BootMonFsReadDirectory E n =
     bindM (getF Root) (\<lambda>root.
     bindM (gets Files) (\<lambda>files.
     case BootMonGetFileFromPosition (Position root) files of
       None \<Rightarrow> ret (EFI_SUCCESS, 0, NoInfo)
     | Some (_, f) \<Rightarrow>
         let name = ascii_content (Filename (Footer (HwDescription f)));
             ResultSize = SIZE_OF_EFI_FILE_INFO + of_nat (length name + 1) * 2
         in if n < ResultSize then ret (EFI_BUFFER_TOO_SMALL, ResultSize, NoInfo)
            else
              bindM (updF Root (\<lambda>r. r\<lparr>Position := Position r + 1\<rparr>)) (\<lambda>_.
              ret (EFI_SUCCESS, ResultSize, FileInfo \<lparr>InfoSize = ResultSize, FileSize = ucast (BootMonFsGetImageLength f),
                PhysicalSize = BootMonFsGetPhysicalSize E f, Times = replicate 48 0, InfoAttribute = 0,
                FileName = map ucast name\<rparr>))))"

text \<open>
  The loop follows the links while the files it flushes are moved in the list. How many links it may
  follow is a parameter of the model.
\<close>

primrec flush_directory_loop :: "nat \<Rightarrow> 'd FsEnv \<Rightarrow> nat option \<Rightarrow> ('d, EFI_STATUS) fs" where
  "flush_directory_loop 0 E Link = stopM OutOfFuel"
| "flush_directory_loop (Suc n) E Link = (case Link of None \<Rightarrow> ret EFI_SUCCESS | Some i \<Rightarrow>
     bindM (BootMonFsFlushFile E (Some i)) (\<lambda>_.
     bindM (gets Files) (\<lambda>files.
     flush_directory_loop n E (map_option fst (next_in_list i files)))))"

definition BootMonFsFlushDirectory :: "nat \<Rightarrow> 'd FsEnv \<Rightarrow> ('d, EFI_STATUS) fs" where
  "BootMonFsFlushDirectory fuel E =
     bindM (gets Files) (\<lambda>files.
     flush_directory_loop fuel E (case files of [] \<Rightarrow> None | (i, _) # _ \<Rightarrow> Some i))"

end
