(* ===== verification/RunAxf.thy ===== *)
theory RunAxf
  imports BootMonFs
begin

text \<open>
  The shell command \<open>runaxf\<close> (\<open>src/ARM/Library/ArmShellCmdRunAxf\<close>), in its 64-bit build: checking and
  loading of ELF files (\<open>ElfLoader.c\<close>) and of boot monitor images (\<open>BootMonFsLoader.c\<close>), leaving the
  boot services, and placing the image in memory (\<open>RunAxf.c\<close>).
\<close>

section \<open>ELF headers in memory\<close>

definition elf_u16 :: "u64 \<Rightarrow> memory \<Rightarrow> u16" where
  "elf_u16 a m = of_nat (le_nat (peek 2 a m))"

definition ELFCLASS32 :: u8 where "ELFCLASS32 = 1"
definition ELFCLASS64 :: u8 where "ELFCLASS64 = 2"
definition EI_CLASS :: u64 where "EI_CLASS = 4"
definition ET_EXEC :: u16 where "ET_EXEC = 2"
definition EM_AARCH64 :: u16 where "EM_AARCH64 = 183"
definition PT_LOAD :: u32 where "PT_LOAD = 1"

definition IS_ELF :: "u64 \<Rightarrow> memory \<Rightarrow> bool" where
  "IS_ELF h m \<longleftrightarrow> m h = 0x7F \<and> m (h + 1) = 0x45 \<and> m (h + 2) = 0x4C \<and> m (h + 3) = 0x46"

text \<open>The two layouts of the file header agree up to the entry point.\<close>

definition e_type :: "u64 \<Rightarrow> memory \<Rightarrow> u16" where "e_type h = elf_u16 (h + 16)"
definition e_machine :: "u64 \<Rightarrow> memory \<Rightarrow> u16" where "e_machine h = elf_u16 (h + 18)"

definition e_phoff32 :: "u64 \<Rightarrow> memory \<Rightarrow> u32" where "e_phoff32 h = read_u32 (h + 28)"
definition e_phentsize32 :: "u64 \<Rightarrow> memory \<Rightarrow> u16" where "e_phentsize32 h = elf_u16 (h + 42)"
definition e_phnum32 :: "u64 \<Rightarrow> memory \<Rightarrow> u16" where "e_phnum32 h = elf_u16 (h + 44)"

definition e_entry :: "u64 \<Rightarrow> memory \<Rightarrow> u64" where "e_entry h = read_u64 (h + 24)"
definition e_phoff :: "u64 \<Rightarrow> memory \<Rightarrow> u64" where "e_phoff h = read_u64 (h + 32)"
definition e_phentsize :: "u64 \<Rightarrow> memory \<Rightarrow> u16" where "e_phentsize h = elf_u16 (h + 54)"
definition e_phnum :: "u64 \<Rightarrow> memory \<Rightarrow> u16" where "e_phnum h = elf_u16 (h + 56)"

record Elf64_Phdr =
  p_type :: u32
  p_offset :: u64
  p_vaddr :: u64
  p_filesz :: u64
  p_memsz :: u64

definition phdr_at :: "u64 \<Rightarrow> memory \<Rightarrow> Elf64_Phdr" where
  "phdr_at a m = \<lparr>p_type = read_u32 a m, p_offset = read_u64 (a + 8) m, p_vaddr = read_u64 (a + 16) m,
     p_filesz = read_u64 (a + 32) m, p_memsz = read_u64 (a + 40) m\<rparr>"

section \<open>Checking an ELF file\<close>

definition ElfCheckHeader :: "u64 \<Rightarrow> memory \<Rightarrow> EFI_STATUS" where
  "ElfCheckHeader Buf m =
     (if \<not> IS_ELF Buf m then EFI_INVALID_PARAMETER
      else if e_type Buf m \<noteq> ET_EXEC then EFI_INVALID_PARAMETER
      else if m (Buf + EI_CLASS) = ELFCLASS32 then
        (if e_phoff32 Buf m = 0 \<or> e_phentsize32 Buf m = 0 \<or> e_phnum32 Buf m = 0 then EFI_INVALID_PARAMETER else EFI_SUCCESS)
      else if m (Buf + EI_CLASS) = ELFCLASS64 then
        (if e_phoff Buf m = 0 \<or> e_phentsize Buf m = 0 \<or> e_phnum Buf m = 0 then EFI_INVALID_PARAMETER else EFI_SUCCESS)
      else EFI_INVALID_PARAMETER)"

definition IsAarch64Elf :: "u64 \<Rightarrow> memory \<Rightarrow> bool" where
  "IsAarch64Elf Buf m \<longleftrightarrow> m (Buf + EI_CLASS) = ELFCLASS64 \<and> e_machine Buf m = EM_AARCH64"

definition ElfCheckFile :: "u64 \<Rightarrow> memory \<Rightarrow> EFI_STATUS" where
  "ElfCheckFile ElfImage m =
     (if EFI_ERROR (ElfCheckHeader ElfImage m) then EFI_INVALID_PARAMETER
      else if IsAarch64Elf ElfImage m then EFI_SUCCESS
      else EFI_UNSUPPORTED)"

section \<open>State and services\<close>

record RUNAXF_LOAD_LIST =
  MemOffset :: u64
  FileOffset :: u64
  Zeroes :: bool
  Length :: u64

record 'w RunState =
  RunMem :: memory
  Outside :: 'w

datatype arm_operation = CleanDataCache | DisableDataCache | InvalidateDataCache | DisableInstructionCache
  | InvalidateInstructionCache | DisableMmu

text \<open>
  The boot services, the shell library and the file behind the handle. \<open>GetMemoryMap\<close> takes the size
  of the buffer and whether there is one. \<open>GetBootMonInfo\<close> is \<open>GetInfo\<close> of the file for a
  \<open>BOOTMON_FS_FILE_INFO\<close>: its status, the size it reports and the information, with the first
  \<open>RegionCount\<close> regions.
\<close>

record 'w RunEnv =
  InstallShellProtocols :: "'w \<Rightarrow> EFI_STATUS \<times> 'w"
  UninstallShellProtocols :: "'w \<Rightarrow> EFI_STATUS \<times> 'w"
  ShellInitialize :: "'w \<Rightarrow> EFI_STATUS \<times> 'w"
  CommandLineParse :: "'w \<Rightarrow> EFI_STATUS \<times> 'w"
  GetHelpFlag :: bool
  GetRawValue :: "u16 list option"
  OpenFileByName :: "u16 list \<Rightarrow> 'w \<Rightarrow> EFI_STATUS \<times> 'w"
  GetFileSize :: "'w \<Rightarrow> u64 option \<times> 'w"
  ReadFile :: "u64 \<Rightarrow> 'w \<Rightarrow> (EFI_STATUS \<times> u8 list) \<times> 'w"
  GetBootMonInfo :: "'w \<Rightarrow> (EFI_STATUS \<times> u64 \<times> fs_info) \<times> 'w"
  AllocateCopyPool :: "u64 \<Rightarrow> 'w \<Rightarrow> bool \<times> 'w"
  AllocateRuntimeZeroPool :: "u64 \<Rightarrow> 'w \<Rightarrow> u64 option \<times> 'w"
  AllocatePages :: "u64 \<Rightarrow> 'w \<Rightarrow> bool \<times> 'w"
  FreePages :: "u64 \<Rightarrow> 'w \<Rightarrow> unit \<times> 'w"
  GetMemoryMap :: "u64 \<Rightarrow> bool \<Rightarrow> 'w \<Rightarrow> (EFI_STATUS \<times> u64) \<times> 'w"
  ExitBootServices :: "'w \<Rightarrow> EFI_STATUS \<times> 'w"
  ArmOperation :: "arm_operation \<Rightarrow> 'w \<Rightarrow> unit \<times> 'w"

type_synonym ('w, 'a) run = "('w RunState, 'a) prog"

definition outside :: "('w \<Rightarrow> 'a \<times> 'w) \<Rightarrow> ('w, 'a) run" where
  [prog_defs]: "outside f = (\<lambda>s. case f (Outside s) of (x, w) \<Rightarrow> Ret (x, s\<lparr>Outside := w\<rparr>))"

lemma bindM_outside [simp]:
  "bindM (outside f) g s = (case f (Outside s) of (x, w) \<Rightarrow> g x (s\<lparr>Outside := w\<rparr>))"
  by (simp add: bindM_def outside_def split: prod.splits)

definition sizeof_RUNAXF_LOAD_LIST :: u64 where "sizeof_RUNAXF_LOAD_LIST = 48"

section \<open>Loading an ELF file\<close>

text \<open>The parts of a segment: what is copied from the file, and the zeros behind it.\<close>

definition copy_node :: "u64 \<Rightarrow> Elf64_Phdr \<Rightarrow> RUNAXF_LOAD_LIST" where
  "copy_node ElfImage p = \<lparr>MemOffset = p_vaddr p, FileOffset = ElfImage + p_offset p, Zeroes = False, Length = p_filesz p\<rparr>"

definition zero_node :: "Elf64_Phdr \<Rightarrow> RUNAXF_LOAD_LIST" where
  "zero_node p = \<lparr>MemOffset = p_vaddr p + p_filesz p, FileOffset = 0, Zeroes = True, Length = p_memsz p - p_filesz p\<rparr>"

definition add_node ::
    "'w RunEnv \<Rightarrow> RUNAXF_LOAD_LIST \<Rightarrow> RUNAXF_LOAD_LIST list \<Rightarrow> ('w, EFI_STATUS \<times> RUNAXF_LOAD_LIST list) run" where
  "add_node E node LoadList =
     bindM (outside (AllocateRuntimeZeroPool E sizeof_RUNAXF_LOAD_LIST)) (\<lambda>LoadNode.
     ret (if LoadNode = None then (EFI_OUT_OF_RESOURCES, LoadList) else (EFI_SUCCESS, LoadList @ [node])))"

definition ElfLoadSegment ::
    "'w RunEnv \<Rightarrow> u64 \<Rightarrow> Elf64_Phdr \<Rightarrow> RUNAXF_LOAD_LIST list \<Rightarrow> ('w, EFI_STATUS \<times> RUNAXF_LOAD_LIST list) run" where
  "ElfLoadSegment E ElfImage p LoadList =
     (if p_filesz p > p_memsz p then ret (EFI_INVALID_PARAMETER, LoadList)
      else
        bindM (if p_filesz p \<noteq> 0 then add_node E (copy_node ElfImage p) LoadList else ret (EFI_SUCCESS, LoadList))
          (\<lambda>(Status, LoadList).
        if EFI_ERROR Status then ret (Status, LoadList)
        else if p_memsz p - p_filesz p > 0 then add_node E (zero_node p) LoadList
        else ret (EFI_SUCCESS, LoadList)))"

text \<open>The loop over the program headers, \<open>n\<close> of which are left; it sums up the sizes in memory.\<close>

primrec load_loop ::
    "nat \<Rightarrow> 'w RunEnv \<Rightarrow> u64 \<Rightarrow> u16 \<Rightarrow> u64 \<Rightarrow> u64 \<Rightarrow> RUNAXF_LOAD_LIST list \<Rightarrow>
     ('w, EFI_STATUS \<times> u64 \<times> RUNAXF_LOAD_LIST list) run" where
  "load_loop 0 E ElfImage entsize ProgramHdr ImageSize LoadList = ret (EFI_SUCCESS, ImageSize, LoadList)"
| "load_loop (Suc n) E ElfImage entsize ProgramHdr ImageSize LoadList =
     bindM (gets (\<lambda>s. phdr_at ProgramHdr (RunMem s))) (\<lambda>p.
     if p_type p = PT_LOAD then
       bindM (ElfLoadSegment E ElfImage p LoadList) (\<lambda>(Status, LoadList).
       if EFI_ERROR Status then ret (EFI_INVALID_PARAMETER, ImageSize, LoadList)
       else load_loop n E ElfImage entsize (ProgramHdr + ucast entsize) (ImageSize + p_memsz p) LoadList)
     else load_loop n E ElfImage entsize (ProgramHdr + ucast entsize) ImageSize LoadList)"

text \<open>The status, the entry point when it is set, and the load list.\<close>

definition ElfLoadFile :: "'w RunEnv \<Rightarrow> u64 \<Rightarrow> ('w, EFI_STATUS \<times> u64 option \<times> RUNAXF_LOAD_LIST list) run" where
  "ElfLoadFile E ElfImage =
     bindM (gets RunMem) (\<lambda>m.
     bindM (load_loop (unat (e_phnum ElfImage m)) E ElfImage (e_phentsize ElfImage m) (ElfImage + e_phoff ElfImage m) 0 [])
       (\<lambda>(Status, ImageSize, LoadList).
     ret (if EFI_ERROR Status then (Status, None, LoadList)
          else if ImageSize = 0 then (EFI_INVALID_PARAMETER, None, LoadList)
          else (EFI_SUCCESS, Some (e_entry ElfImage m), LoadList))))"

section \<open>Boot monitor images\<close>

definition BootMonFsCheckFile :: "'w RunEnv \<Rightarrow> ('w, EFI_STATUS) run" where
  "BootMonFsCheckFile E =
     bindM (outside (GetBootMonInfo E)) (\<lambda>(Status, Size, info).
     if EFI_ERROR Status then ret Status
     else case info of
       BootMonInfo entry count regions \<Rightarrow>
         ret (if Size = 0 \<or> entry = 0 \<or> count = 0 \<or> unat count > HW_IMAGE_DESCRIPTION_REGION_MAX \<or>
                 (\<exists>r \<in> set regions. LoadAddress r = 0 \<or> RegionSize r = 0)
              then EFI_UNSUPPORTED else Status)
     | _ \<Rightarrow> stopM UninitializedRead)"

definition region_node :: "u64 \<Rightarrow> HW_IMAGE_REGION \<Rightarrow> RUNAXF_LOAD_LIST" where
  "region_node FileData r = \<lparr>MemOffset = ucast (LoadAddress r), FileOffset = FileData + ucast (RegionOffset r), Zeroes = False,
     Length = ucast (RegionSize r)\<rparr>"

primrec region_loop ::
    "'w RunEnv \<Rightarrow> u64 \<Rightarrow> HW_IMAGE_REGION list \<Rightarrow> u64 \<Rightarrow> RUNAXF_LOAD_LIST list \<Rightarrow>
     ('w, EFI_STATUS \<times> u64 \<times> RUNAXF_LOAD_LIST list) run" where
  "region_loop E FileData [] ImageSize LoadList = ret (EFI_SUCCESS, ImageSize, LoadList)"
| "region_loop E FileData (r # rs) ImageSize LoadList =
     bindM (add_node E (region_node FileData r) LoadList) (\<lambda>(Status, LoadList).
     if EFI_ERROR Status then ret (Status, ImageSize, LoadList)
     else region_loop E FileData rs (ImageSize + ucast (RegionSize r)) LoadList)"

definition BootMonFsLoadFile ::
    "'w RunEnv \<Rightarrow> u64 \<Rightarrow> ('w, EFI_STATUS \<times> u64 option \<times> RUNAXF_LOAD_LIST list) run" where
  "BootMonFsLoadFile E FileData =
     bindM (outside (GetBootMonInfo E)) (\<lambda>(Status, Size, info).
     if EFI_ERROR Status then ret (Status, None, [])
     else case info of
       BootMonInfo entry count regions \<Rightarrow>
         bindM (region_loop E FileData regions 0 []) (\<lambda>(Status, ImageSize, LoadList).
         ret (if \<not> EFI_ERROR Status \<and> ImageSize = 0 then EFI_INVALID_PARAMETER else Status, Some (ucast entry), LoadList))
     | _ \<Rightarrow> stopM UninitializedRead)"

section \<open>Leaving the boot services\<close>

definition EFI_SIZE_TO_PAGES :: "u64 \<Rightarrow> u64" where
  "EFI_SIZE_TO_PAGES n = drop_bit 12 n + (if n AND 0xFFF = 0 then 0 else 1)"

text \<open>The loop until the boot services are left; the first argument bounds its rounds.\<close>

primrec shutdown_loop :: "nat \<Rightarrow> 'w RunEnv \<Rightarrow> u64 \<Rightarrow> bool \<Rightarrow> u64 \<Rightarrow> ('w, EFI_STATUS) run" where
  "shutdown_loop 0 E MemoryMapSize MemoryMap Pages = stopM OutOfFuel"
| "shutdown_loop (Suc n) E MemoryMapSize MemoryMap Pages =
     bindM (outside (GetMemoryMap E MemoryMapSize MemoryMap)) (\<lambda>(Status, MemoryMapSize).
     bindM (if Status = EFI_BUFFER_TOO_SMALL then
              let Pages = EFI_SIZE_TO_PAGES MemoryMapSize + 1
              in bindM (outside (AllocatePages E Pages)) (\<lambda>MemoryMap.
                 bindM (outside (GetMemoryMap E MemoryMapSize MemoryMap)) (\<lambda>(Status, MemoryMapSize).
                 ret (Status, MemoryMapSize, MemoryMap, Pages)))
            else ret (Status, MemoryMapSize, MemoryMap, Pages)) (\<lambda>(Status, MemoryMapSize, MemoryMap, Pages).
     if EFI_ERROR Status then shutdown_loop n E MemoryMapSize MemoryMap Pages
     else
       bindM (outside (ExitBootServices E)) (\<lambda>Status.
       if EFI_ERROR Status then
         bindM (outside (FreePages E Pages)) (\<lambda>_. shutdown_loop n E 0 False Pages)
       else ret Status)))"

definition ShutdownUefiBootServices :: "nat \<Rightarrow> 'w RunEnv \<Rightarrow> ('w, EFI_STATUS) run" where
  "ShutdownUefiBootServices fuel E = shutdown_loop fuel E 0 False 0"

definition PreparePlatformHardware :: "'w RunEnv \<Rightarrow> ('w, EFI_STATUS) run" where
  "PreparePlatformHardware E =
     bindM (outside (ArmOperation E CleanDataCache)) (\<lambda>_.
     bindM (outside (ArmOperation E DisableDataCache)) (\<lambda>_.
     bindM (outside (ArmOperation E InvalidateDataCache)) (\<lambda>_.
     bindM (outside (ArmOperation E DisableInstructionCache)) (\<lambda>_.
     bindM (outside (ArmOperation E InvalidateInstructionCache)) (\<lambda>_.
     bindM (outside (ArmOperation E DisableMmu)) (\<lambda>_.
     ret EFI_SUCCESS))))))"

section \<open>The command\<close>

text \<open>One entry of the load list: zeros, or a move of memory.\<close>

definition run_node :: "RUNAXF_LOAD_LIST \<Rightarrow> memory \<Rightarrow> memory" where
  "run_node node m = poke (MemOffset node)
     (if Zeroes node then replicate (unat (Length node)) 0 else peek (unat (Length node)) (FileOffset node) m) m"

datatype SHELL_STATUS = SHELL_SUCCESS | SHELL_DEVICE_ERROR | SHELL_INVALID_PARAMETER | SHELL_OUT_OF_RESOURCES | SHELL_UNSUPPORTED

text \<open>The command returns to the shell, or it has jumped to the entry point.\<close>

datatype run_result = Returned SHELL_STATUS | Started u64

definition dot :: u16 where "dot = 0x2E"

text \<open>The file is opened by its name, or by the name up to the first dot.\<close>

definition open_image :: "'w RunEnv \<Rightarrow> u16 list \<Rightarrow> ('w, EFI_STATUS) run" where
  "open_image E Name =
     bindM (outside (OpenFileByName E Name)) (\<lambda>Status.
     if \<not> EFI_ERROR Status then ret Status
     else
       bindM (outside (AllocateCopyPool E (StrSize16 Name))) (\<lambda>granted.
       if granted \<and> dot \<in> set Name then outside (OpenFileByName E (takeWhile (\<lambda>c. c \<noteq> dot) Name))
       else ret Status))"

text \<open>The whole file in runtime memory: its address, or the status of the shell.\<close>

definition read_image :: "'w RunEnv \<Rightarrow> ('w, SHELL_STATUS \<times> u64 option) run" where
  "read_image E =
     bindM (outside (GetFileSize E)) (\<lambda>Info.
     case Info of None \<Rightarrow> stopM NullDereference
     | Some Size \<Rightarrow>
         bindM (outside (AllocateRuntimeZeroPool E Size)) (\<lambda>FileData.
         case FileData of None \<Rightarrow> ret (SHELL_OUT_OF_RESOURCES, None)
         | Some a \<Rightarrow>
             bindM (outside (ReadFile E Size)) (\<lambda>(Status, bytes).
             bindM (modify (\<lambda>s. s\<lparr>RunMem := poke a bytes (poke a (replicate (unat Size) 0) (RunMem s))\<rparr>)) (\<lambda>_.
             ret (if EFI_ERROR Status then (SHELL_DEVICE_ERROR, None) else (SHELL_SUCCESS, Some a))))))"

definition fetch_image :: "'w RunEnv \<Rightarrow> ('w, SHELL_STATUS \<times> u64 option) run" where
  "fetch_image E =
     bindM (outside (CommandLineParse E)) (\<lambda>Status.
     if EFI_ERROR Status then ret (SHELL_INVALID_PARAMETER, None)
     else case GetRawValue E of None \<Rightarrow> ret (SHELL_INVALID_PARAMETER, None) | Some Name \<Rightarrow>
       if GetHelpFlag E then ret (SHELL_INVALID_PARAMETER, None)
       else
         bindM (open_image E Name) (\<lambda>Status.
         if EFI_ERROR Status then ret (SHELL_INVALID_PARAMETER, None) else read_image E))"

definition load_image :: "'w RunEnv \<Rightarrow> u64 \<Rightarrow> ('w, SHELL_STATUS \<times> EFI_STATUS \<times> u64 option \<times> RUNAXF_LOAD_LIST list) run" where
  "load_image E FileData =
     bindM (gets RunMem) (\<lambda>m.
     if \<not> EFI_ERROR (ElfCheckFile FileData m) then
       bindM (ElfLoadFile E FileData) (\<lambda>(Status, Entrypoint, LoadList). ret (SHELL_SUCCESS, Status, Entrypoint, LoadList))
     else
       bindM (BootMonFsCheckFile E) (\<lambda>Status.
       if \<not> EFI_ERROR Status then
         bindM (BootMonFsLoadFile E FileData) (\<lambda>(Status, Entrypoint, LoadList). ret (SHELL_SUCCESS, Status, Entrypoint, LoadList))
       else ret (SHELL_UNSUPPORTED, Status, None, [])))"

text \<open>Back to the shell: the protocols are removed again.\<close>

definition return_to_shell :: "'w RunEnv \<Rightarrow> SHELL_STATUS \<Rightarrow> ('w, run_result) run" where
  "return_to_shell E ShellStatus =
     bindM (outside (UninstallShellProtocols E)) (\<lambda>Status.
     ret (Returned (if EFI_ERROR Status \<and> ShellStatus = SHELL_SUCCESS then SHELL_DEVICE_ERROR else ShellStatus)))"

text \<open>With a load list, the boot services are left, the list is worked off and the image is started.\<close>

definition launch ::
    "nat \<Rightarrow> 'w RunEnv \<Rightarrow> SHELL_STATUS \<times> EFI_STATUS \<times> u64 option \<times> RUNAXF_LOAD_LIST list \<Rightarrow> ('w, run_result) run" where
  "launch fuel E = (\<lambda>(ShellStatus, Status, Entrypoint, LoadList).
     if LoadList \<noteq> [] \<and> \<not> EFI_ERROR Status then
       bindM (ShutdownUefiBootServices fuel E) (\<lambda>Status.
       if EFI_ERROR Status then return_to_shell E ShellStatus
       else
         bindM (modify (\<lambda>s. s\<lparr>RunMem := fold run_node LoadList (RunMem s)\<rparr>)) (\<lambda>_.
         bindM (PreparePlatformHardware E) (\<lambda>Status.
         bindM (ASSERT (\<not> EFI_ERROR Status)) (\<lambda>_.
         ret (Started (the Entrypoint))))))
     else return_to_shell E ShellStatus)"

definition ShellDynCmdRunAxfHandler :: "nat \<Rightarrow> 'w RunEnv \<Rightarrow> ('w, run_result) run" where
  "ShellDynCmdRunAxfHandler fuel E =
     bindM (outside (InstallShellProtocols E)) (\<lambda>Status.
     if EFI_ERROR Status then ret (Returned SHELL_DEVICE_ERROR)
     else
       bindM (outside (ShellInitialize E)) (\<lambda>Status.
       bindM (ASSERT (\<not> EFI_ERROR Status)) (\<lambda>_.
       bindM (fetch_image E) (\<lambda>(ShellStatus, FileData).
       bindM (case FileData of None \<Rightarrow> ret (ShellStatus, EFI_SUCCESS, None, []) | Some a \<Rightarrow> load_image E a)
         (launch fuel E)))))"

end
