(* ===== verification/RunAxfSpec.thy ===== *)
theory RunAxfSpec
  imports RunAxf
begin

text \<open>
  What \<open>runaxf\<close> does with an ELF file: the segments end up in memory as the program headers say, an
  image is started only after that, and two ways in which the command fails silently.
\<close>

section \<open>Segments in memory\<close>

text \<open>The loadable segments of the file at an address, in the order of their headers.\<close>

definition segments :: "u64 \<Rightarrow> memory \<Rightarrow> Elf64_Phdr list" where
  "segments a m = filter (\<lambda>p. p_type p = PT_LOAD)
     (map (\<lambda>i. phdr_at (a + e_phoff a m + of_nat i * ucast (e_phentsize a m)) m) [0..<unat (e_phnum a m)])"

definition segment_nodes :: "u64 \<Rightarrow> Elf64_Phdr \<Rightarrow> RUNAXF_LOAD_LIST list" where
  "segment_nodes a p = (if p_filesz p \<noteq> 0 then [copy_node a p] else []) @
     (if p_memsz p - p_filesz p > 0 then [zero_node p] else [])"

definition place :: "Elf64_Phdr \<Rightarrow> u64 set" where "place p = blk (p_vaddr p) (p_memsz p)"
definition source :: "u64 \<Rightarrow> Elf64_Phdr \<Rightarrow> u64 set" where "source a p = blk (a + p_offset p) (p_filesz p)"

text \<open>The byte that belongs at an address of a segment.\<close>

definition segment_byte :: "u64 \<Rightarrow> memory \<Rightarrow> Elf64_Phdr \<Rightarrow> u64 \<Rightarrow> u8" where
  "segment_byte a m p x = (if x - p_vaddr p < p_filesz p then m (a + p_offset p + (x - p_vaddr p)) else 0)"

lemma run_node_outside: "x \<notin> blk (MemOffset node) (Length node) \<Longrightarrow> run_node node m x = m x"
  by (simp add: run_node_def poke_def blk_iff)

lemma run_node_inside:
  "x \<in> blk (MemOffset node) (Length node) \<Longrightarrow>
   run_node node m x = (if Zeroes node then 0 else m (FileOffset node + (x - MemOffset node)))"
  by (simp add: run_node_def poke_def blk_iff peek_def)

lemma zero_part:
  assumes "p_filesz p \<le> p_memsz p"
  shows "x \<in> blk (p_vaddr p + p_filesz p) (p_memsz p - p_filesz p) \<longleftrightarrow>
    p_filesz p \<le> x - p_vaddr p \<and> x - p_vaddr p < p_memsz p"
proof -
  define d where "d = x - p_vaddr p"
  have sz: "unat (p_memsz p - p_filesz p) = unat (p_memsz p) - unat (p_filesz p)"
    using assms by (simp add: unat_sub)
  have d: "x - (p_vaddr p + p_filesz p) = d - p_filesz p" by (simp add: d_def)
  have "x \<in> blk (p_vaddr p + p_filesz p) (p_memsz p - p_filesz p) \<longleftrightarrow>
      unat (d - p_filesz p) < unat (p_memsz p) - unat (p_filesz p)"
    unfolding blk_iff d sz ..
  also have "\<dots> \<longleftrightarrow> p_filesz p \<le> d \<and> d < p_memsz p"
  proof (cases "p_filesz p \<le> d")
    case True
    then have "unat (d - p_filesz p) = unat d - unat (p_filesz p)" by (simp add: unat_sub)
    with True show ?thesis by (auto simp: word_le_nat_alt word_less_nat_alt)
  next
    case False
    then have "unat (d - p_filesz p) = 2 ^ 64 + unat d - unat (p_filesz p)"
      by (subst unat_sub_if_size) (simp add: word_le_nat_alt word_size)
    moreover have "unat (p_memsz p) < 2 ^ 64" using unsigned_less [of "p_memsz p"] by simp
    ultimately show ?thesis using False by (auto simp: word_le_nat_alt)
  qed
  finally show ?thesis by (simp add: d_def)
qed

lemma run_segment:
  assumes "p_filesz p \<le> p_memsz p"
  shows "fold run_node (segment_nodes a p) m x = (if x \<in> place p then segment_byte a m p x else m x)"
proof -
  define m1 where "m1 = fold run_node (if p_filesz p \<noteq> 0 then [copy_node a p] else []) m"
  have m1: "m1 y = (if y - p_vaddr p < p_filesz p then m (a + p_offset p + (y - p_vaddr p)) else m y)" for y
    using run_node_inside [of y "copy_node a p" m] run_node_outside [of y "copy_node a p" m]
    by (simp add: m1_def copy_node_def blk_def)
  have "fold run_node (segment_nodes a p) m x =
      (if x \<in> blk (p_vaddr p + p_filesz p) (p_memsz p - p_filesz p) then 0 else m1 x)"
    using run_node_inside [of x "zero_node p" m1] run_node_outside [of x "zero_node p" m1]
    by (simp add: segment_nodes_def m1_def [symmetric] zero_node_def blk_def word_gt_0)
  then show ?thesis
    unfolding zero_part [OF assms] using assms by (auto simp: m1 place_def blk_def segment_byte_def)
qed

text \<open>Segments that lie apart from each other, and away from the file they come from.\<close>

definition apart_segments :: "u64 \<Rightarrow> Elf64_Phdr list \<Rightarrow> bool" where
  "apart_segments a ps \<longleftrightarrow> sorted_wrt (\<lambda>p q. place p \<inter> place q = {}) ps \<and>
     (\<forall>p \<in> set ps. \<forall>q \<in> set ps. place p \<inter> source a q = {})"

lemma segment_byte_cong:
  assumes "\<And>y. y \<in> source a p \<Longrightarrow> m y = m' y"
  shows "segment_byte a m p x = segment_byte a m' p x"
  using assms by (simp add: segment_byte_def source_def blk_def)

lemma run_segments:
  assumes "apart_segments a ps" and "\<forall>p \<in> set ps. p_filesz p \<le> p_memsz p"
  shows "(\<forall>p \<in> set ps. \<forall>x \<in> place p. fold run_node (concat (map (segment_nodes a) ps)) m x = segment_byte a m p x) \<and>
    (\<forall>x. (\<forall>p \<in> set ps. x \<notin> place p) \<longrightarrow> fold run_node (concat (map (segment_nodes a) ps)) m x = m x)"
  using assms
proof (induction ps arbitrary: m)
  case (Cons p ps)
  define m1 where "m1 = fold run_node (segment_nodes a p) m"
  have m1: "m1 x = (if x \<in> place p then segment_byte a m p x else m x)" for x
    unfolding m1_def using Cons.prems(2) by (intro run_segment) simp
  have ih: "\<forall>q \<in> set ps. \<forall>x \<in> place q. fold run_node (concat (map (segment_nodes a) ps)) m1 x = segment_byte a m1 q x"
    "\<forall>x. (\<forall>q \<in> set ps. x \<notin> place q) \<longrightarrow> fold run_node (concat (map (segment_nodes a) ps)) m1 x = m1 x"
    using Cons.IH [of m1] Cons.prems by (simp_all add: apart_segments_def)
  have "segment_byte a m1 q x = segment_byte a m q x" if "q \<in> set ps" for q x
    using Cons.prems(1) that by (intro segment_byte_cong) (auto simp: apart_segments_def m1)
  moreover have "x \<notin> place q" if "x \<in> place p" "q \<in> set ps" for q x
    using Cons.prems(1) that by (auto simp: apart_segments_def)
  ultimately show ?case
    using ih by (auto simp: m1_def [symmetric] m1)
qed simp

section \<open>The load list of a file\<close>

lemma add_node_Ret:
  "add_node E node l s = Ret ((st, l'), s') \<Longrightarrow> RunMem s' = RunMem s \<and>
   (st = EFI_SUCCESS \<and> l' = l @ [node] \<or> st = EFI_OUT_OF_RESOURCES \<and> l' = l)"
  by (auto simp: add_node_def ret_def split: prod.splits if_splits)

lemma ElfLoadSegment_Ret:
  assumes "ElfLoadSegment E a p l s = Ret ((st, l'), s')"
  shows "RunMem s' = RunMem s \<and> (\<not> EFI_ERROR st \<longrightarrow> p_filesz p \<le> p_memsz p \<and> l' = l @ segment_nodes a p)"
  using assms
  by (auto simp: ElfLoadSegment_def bindM_Ret ret_def segment_nodes_def split: if_splits dest!: add_node_Ret)

lemma load_loop_Ret:
  "load_loop n E a entsize ph sz l s = Ret ((st, sz', l'), s') \<Longrightarrow> RunMem s' = RunMem s \<and>
   (\<not> EFI_ERROR st \<longrightarrow>
     (let ps = filter (\<lambda>p. p_type p = PT_LOAD) (map (\<lambda>i. phdr_at (ph + of_nat i * ucast entsize) (RunMem s)) [0..<n])
      in (\<forall>p \<in> set ps. p_filesz p \<le> p_memsz p) \<and> l' = l @ concat (map (segment_nodes a) ps)))"
proof (induction n arbitrary: ph sz l s)
  case 0
  then show ?case by (simp add: ret_def)
next
  case (Suc n)
  let ?p = "phdr_at ph (RunMem s)"
  have shift: "map (\<lambda>i. phdr_at (ph + of_nat i * ucast entsize) (RunMem s)) [0..<Suc n] =
      ?p # map (\<lambda>i. phdr_at (ph + ucast entsize + of_nat i * ucast entsize) (RunMem s)) [0..<n]"
    by (subst upt_conv_Cons, simp, subst map_Suc_upt [symmetric]) (simp add: algebra_simps)
  show ?case
  proof (cases "p_type ?p = PT_LOAD")
    case False
    with Suc.prems have "load_loop n E a entsize (ph + ucast entsize) sz l s = Ret ((st, sz', l'), s')"
      by (simp add: bindM_def gets_def)
    from Suc.IH [OF this] False show ?thesis unfolding shift by (simp add: Let_def)
  next
    case True
    then obtain st1 l1 s1 where seg: "ElfLoadSegment E a ?p l s = Ret ((st1, l1), s1)"
      and rest: "if EFI_ERROR st1 then st = EFI_INVALID_PARAMETER \<and> s' = s1
        else load_loop n E a entsize (ph + ucast entsize) (sz + p_memsz ?p) l1 s1 = Ret ((st, sz', l'), s')"
      using Suc.prems by (auto simp: bindM_Ret ret_def gets_def split: if_splits)
    show ?thesis
    proof (cases "EFI_ERROR st1")
      case True
      with rest ElfLoadSegment_Ret [OF seg] show ?thesis by simp
    next
      case False
      with rest have "load_loop n E a entsize (ph + ucast entsize) (sz + p_memsz ?p) l1 s1 = Ret ((st, sz', l'), s')"
        by simp
      from Suc.IH [OF this] ElfLoadSegment_Ret [OF seg] False \<open>p_type ?p = PT_LOAD\<close> show ?thesis
        unfolding shift by (simp add: Let_def)
    qed
  qed
qed

lemma ElfLoadFile_Ret:
  assumes "ElfLoadFile E a s = Ret ((st, entry, l), s')" and "\<not> EFI_ERROR st"
  shows "RunMem s' = RunMem s \<and> entry = Some (e_entry a (RunMem s)) \<and>
    (\<forall>p \<in> set (segments a (RunMem s)). p_filesz p \<le> p_memsz p) \<and>
    l = concat (map (segment_nodes a) (segments a (RunMem s)))"
  using assms
  by (auto simp: ElfLoadFile_def bindM_Ret ret_def gets_def segments_def Let_def split: if_splits dest!: load_loop_Ret)

text \<open>
  Property C20. The load list of an ELF file that is accepted puts every loadable segment where its
  header says: the bytes of the file first, zeros up to its size in memory, whenever the segments lie
  apart from each other and away from the file. No other byte of the memory changes.
\<close>
theorem ElfLoadFile_places:
  assumes load: "ElfLoadFile E a s = Ret ((st, entry, l), s')" and ok: "\<not> EFI_ERROR st"
    and apart: "apart_segments a (segments a (RunMem s))"
  shows "(\<forall>p \<in> set (segments a (RunMem s)). \<forall>x \<in> place p. fold run_node l (RunMem s) x = segment_byte a (RunMem s) p x) \<and>
    (\<forall>x. (\<forall>p \<in> set (segments a (RunMem s)). x \<notin> place p) \<longrightarrow> fold run_node l (RunMem s) x = RunMem s x)"
  using run_segments [OF apart, of "RunMem s"] ElfLoadFile_Ret [OF load ok] by simp

section \<open>From a loader to the entry point\<close>

text \<open>
  What the command relies on in a loader: it leaves the memory alone, and when it reports no error the
  entry point is set and goes with the load list.
\<close>

locale image_loader =
  fixes load :: "('w, EFI_STATUS \<times> u64 option \<times> RUNAXF_LOAD_LIST list) run"
    and image :: "memory \<Rightarrow> u64 \<Rightarrow> RUNAXF_LOAD_LIST list \<Rightarrow> bool"
  assumes load_Ret: "load s = Ret ((st, entry, l), s') \<Longrightarrow>
    RunMem s' = RunMem s \<and> (\<not> EFI_ERROR st \<longrightarrow> (\<exists>e. entry = Some e \<and> image (RunMem s) e l))"

lemma outside_RunMem: "outside f s = Ret (x, s') \<Longrightarrow> RunMem s' = RunMem s"
  by (auto simp: outside_def split: prod.splits)

lemma PreparePlatformHardware_RunMem: "PreparePlatformHardware E s = Ret (st, s') \<Longrightarrow> RunMem s' = RunMem s"
  by (auto simp: PreparePlatformHardware_def ret_def split: prod.splits)

lemma return_to_shell_not_Started: "return_to_shell E st s \<noteq> Ret (Started e, s')"
  by (auto simp: return_to_shell_def ret_def split: prod.splits)

lemma shutdown_loop_Ret:
  "shutdown_loop n E sz mp pages s = Ret (st, s') \<Longrightarrow> RunMem s' = RunMem s \<and> \<not> EFI_ERROR st"
proof (induction n arbitrary: sz mp pages s)
  case 0
  then show ?case by (simp add: stopM_def)
next
  case (Suc n)
  then show ?case
    by (auto simp: bindM_Ret ret_def Let_def simp del: bindM_outside split: if_splits dest!: outside_RunMem Suc.IH)
qed

lemma launch_Started:
  assumes "launch fuel E (ShellStatus, st, entry, l) s = Ret (Started e, s')"
  shows "l \<noteq> [] \<and> \<not> EFI_ERROR st \<and> e = the entry \<and> RunMem s' = fold run_node l (RunMem s)"
  using assms
  by (auto simp: launch_def bindM_Ret ret_def modify_def ASSERT_def stopM_def return_to_shell_not_Started
      ShutdownUefiBootServices_def split: if_splits dest!: shutdown_loop_Ret PreparePlatformHardware_RunMem)

context image_loader
begin

lemma starts_image:
  assumes "bindM load (\<lambda>(st, entry, l). launch fuel E (SHELL_SUCCESS, st, entry, l)) s = Ret (Started e, s')"
  shows "\<exists>l. l \<noteq> [] \<and> image (RunMem s) e l \<and> RunMem s' = fold run_node l (RunMem s)"
  using assms by (fastforce simp: bindM_Ret dest: load_Ret dest!: launch_Started)

end

text \<open>The two loaders of the code.\<close>

definition elf_image :: "u64 \<Rightarrow> memory \<Rightarrow> u64 \<Rightarrow> RUNAXF_LOAD_LIST list \<Rightarrow> bool" where
  "elf_image a m e l \<longleftrightarrow> e = e_entry a m \<and> (\<forall>p \<in> set (segments a m). p_filesz p \<le> p_memsz p) \<and>
     l = concat (map (segment_nodes a) (segments a m))"

definition region_image :: "'w RunEnv \<Rightarrow> u64 \<Rightarrow> memory \<Rightarrow> u64 \<Rightarrow> RUNAXF_LOAD_LIST list \<Rightarrow> bool" where
  "region_image E a m e l \<longleftrightarrow> (\<exists>w st sz entry count regions w'.
     GetBootMonInfo E w = ((st, sz, BootMonInfo entry count regions), w') \<and> \<not> EFI_ERROR st \<and>
     e = ucast entry \<and> l = map (region_node a) regions)"

lemma region_loop_Ret:
  "region_loop E a rs sz l s = Ret ((st, sz', l'), s') \<Longrightarrow>
   RunMem s' = RunMem s \<and> (\<not> EFI_ERROR st \<longrightarrow> l' = l @ map (region_node a) rs)"
proof (induction rs arbitrary: sz l s)
  case Nil
  then show ?case by (simp add: ret_def)
next
  case (Cons r rs)
  then show ?case
    by (auto simp: bindM_Ret ret_def split: if_splits dest!: add_node_Ret Cons.IH)
qed

lemma ElfLoadFile_RunMem: "ElfLoadFile E a s = Ret ((st, entry, l), s') \<Longrightarrow> RunMem s' = RunMem s"
  by (auto simp: ElfLoadFile_def bindM_Ret ret_def gets_def split: if_splits dest!: load_loop_Ret)

interpretation elf: image_loader "ElfLoadFile E a" "elf_image a" for E a
  by unfold_locales (auto simp: elf_image_def ElfLoadFile_RunMem dest: ElfLoadFile_Ret)

lemma BootMonFsLoadFile_Ret:
  assumes "BootMonFsLoadFile E a s = Ret ((st, entry, l), s')"
  shows "RunMem s' = RunMem s \<and> (\<not> EFI_ERROR st \<longrightarrow> (\<exists>e. entry = Some e \<and> region_image E a (RunMem s) e l))"
proof -
  obtain st1 sz info w where info: "GetBootMonInfo E (Outside s) = ((st1, sz, info), w)"
    by (metis prod_cases3 surj_pair)
  show ?thesis
  proof (cases info)
    case (BootMonInfo entry1 count regions)
    with info have "\<not> EFI_ERROR st1 \<Longrightarrow> region_image E a m (ucast entry1) (map (region_node a) regions)" for m
      unfolding region_image_def by blast
    with assms info BootMonInfo show ?thesis
      by (auto simp: BootMonFsLoadFile_def bindM_Ret [of "region_loop E a regions 0 []"] ret_def
          split: if_splits dest!: region_loop_Ret)
  qed (use assms info in \<open>auto simp: BootMonFsLoadFile_def ret_def stopM_def split: if_splits\<close>)
qed

interpretation bootmon: image_loader "BootMonFsLoadFile E a" "region_image E a" for E a
  by unfold_locales (rule BootMonFsLoadFile_Ret)

lemma load_image_Started:
  assumes "bindM (load_image E a) (launch fuel E) s = Ret (Started e, s')"
  shows "\<exists>l. l \<noteq> [] \<and> RunMem s' = fold run_node l (RunMem s) \<and>
    (if EFI_ERROR (ElfCheckFile a (RunMem s)) then region_image E a (RunMem s) e l else elf_image a (RunMem s) e l)"
proof (cases "EFI_ERROR (ElfCheckFile a (RunMem s))")
  case False
  then have "bindM (ElfLoadFile E a) (\<lambda>(st, entry, l). launch fuel E (SHELL_SUCCESS, st, entry, l)) s = Ret (Started e, s')"
    using assms by (simp add: load_image_def bindM_assoc case_prod_unfold)
  from elf.starts_image [OF this] False show ?thesis by auto
next
  case True
  obtain st s1 where check: "BootMonFsCheckFile E s = Ret (st, s1)"
    using assms True by (auto simp: load_image_def bindM_assoc bindM_Ret [of "BootMonFsCheckFile E"])
  have mem: "RunMem s1 = RunMem s"
    using check by (auto simp: BootMonFsCheckFile_def ret_def stopM_def split: prod.splits if_splits fs_info.splits)
  show ?thesis
  proof (cases "EFI_ERROR st")
    case False
    then have "bindM (BootMonFsLoadFile E a) (\<lambda>(st, entry, l). launch fuel E (SHELL_SUCCESS, st, entry, l)) s1 =
        Ret (Started e, s')"
      using assms True check by (simp add: load_image_def bindM_assoc bindM_eqI [of "BootMonFsCheckFile E", OF check] case_prod_unfold)
    from bootmon.starts_image [OF this] True mem show ?thesis by auto
  next
    case bad: True
    with assms True check have "launch fuel E (SHELL_UNSUPPORTED, st, None, []) s1 = Ret (Started e, s')"
      by (simp add: load_image_def bindM_assoc bindM_eqI [of "BootMonFsCheckFile E", OF check])
    from launch_Started [OF this] show ?thesis by simp
  qed
qed

text \<open>The file behind the handle has been read to an address.\<close>

definition file_read :: "'w RunEnv \<Rightarrow> u64 \<Rightarrow> memory \<Rightarrow> memory \<Rightarrow> bool" where
  "file_read E a m m' \<longleftrightarrow> (\<exists>sz w w1 bytes st w2. AllocateRuntimeZeroPool E sz w = (Some a, w1) \<and>
     ReadFile E sz w1 = ((st, bytes), w2) \<and> \<not> EFI_ERROR st \<and> m' = poke a bytes (poke a (replicate (unat sz) 0) m))"

lemma fetch_image_Ret:
  assumes "fetch_image E s = Ret ((st, Some a), s')"
  shows "file_read E a (RunMem s) (RunMem s')"
proof -
  have open_mem: "RunMem s1 = RunMem s0" if "open_image E name s0 = Ret (st, s1)" for name s0 st s1
    using that by (auto simp: open_image_def bindM_Ret ret_def simp del: bindM_outside split: if_splits dest!: outside_RunMem)
  obtain s1 where mem: "RunMem s1 = RunMem s" and "read_image E s1 = Ret ((st, Some a), s')"
    using assms
    by (auto simp: fetch_image_def bindM_Ret [of "open_image E name" for name] ret_def
        split: prod.splits if_splits option.splits dest!: open_mem)
  then show ?thesis
    unfolding file_read_def
    by (fastforce simp: read_image_def ret_def stopM_def split: prod.splits if_splits option.splits)
qed

text \<open>
  Property C19. When \<open>runaxf\<close> jumps to an address, the memory is that after reading the file to some
  address, with one load list worked off in order: for an ELF file exactly the nodes of its loadable
  segments and the entry point of its header, for any other file the regions and the entry point that
  the file system reports.
\<close>
theorem runaxf_Started:
  assumes "ShellDynCmdRunAxfHandler fuel E s = Ret (Started e, s')"
  shows "\<exists>a m l. file_read E a (RunMem s) m \<and> l \<noteq> [] \<and> RunMem s' = fold run_node l m \<and>
    (if EFI_ERROR (ElfCheckFile a m) then region_image E a m e l else elf_image a m e l)"
proof -
  let ?k = "\<lambda>(st, a). bindM (case a of None \<Rightarrow> ret (st, EFI_SUCCESS, None, []) | Some a \<Rightarrow> load_image E a) (launch fuel E)"
  have "\<exists>w. bindM (fetch_image E) ?k (s\<lparr>Outside := w\<rparr>) = Ret (Started e, s')"
    using assms
    by (simp add: ShellDynCmdRunAxfHandler_def bindM_ASSERT split: prod.splits if_splits) (auto simp: ret_def)
  then obtain w st a s1 where fetch: "fetch_image E (s\<lparr>Outside := w\<rparr>) = Ret ((st, a), s1)"
    and rest: "bindM (case a of None \<Rightarrow> ret (st, EFI_SUCCESS, None, []) | Some a \<Rightarrow> load_image E a)
      (launch fuel E) s1 = Ret (Started e, s')"
    by (auto simp: bindM_Ret [of "fetch_image E"])
  show ?thesis
  proof (cases a)
    case None
    with rest have "launch fuel E (st, EFI_SUCCESS, None, []) s1 = Ret (Started e, s')" by simp
    from launch_Started [OF this] show ?thesis by simp
  next
    case (Some b)
    with rest have "bindM (load_image E b) (launch fuel E) s1 = Ret (Started e, s')" by simp
    moreover have "file_read E b (RunMem s) (RunMem s1)" using fetch_image_Ret [OF fetch [unfolded Some]] by simp
    ultimately show ?thesis by (blast dest: load_image_Started)
  qed
qed

section \<open>Leaving the boot services, and failed loads\<close>

text \<open>
  What the loop sees of the firmware: how many bytes the memory map takes, and how often
  \<open>ExitBootServices\<close> is still going to refuse. \<open>map_service\<close> is \<open>GetMemoryMap\<close> as documented: a buffer
  that is too small is refused with the size needed, and without a buffer the call is invalid.
\<close>

record 'w MapView =
  MapBytes :: "'w \<Rightarrow> u64"
  Refusals :: "'w \<Rightarrow> nat"

definition map_reply :: "u64 \<Rightarrow> u64 \<Rightarrow> bool \<Rightarrow> EFI_STATUS \<times> u64" where
  "map_reply needed n buffer =
     (if n < needed then (EFI_BUFFER_TOO_SMALL, needed)
      else if buffer then (EFI_SUCCESS, needed) else (EFI_INVALID_PARAMETER, n))"

definition map_service :: "'w RunEnv \<Rightarrow> 'w MapView \<Rightarrow> bool" where
  "map_service E V \<longleftrightarrow> (\<forall>w. 0 < MapBytes V w) \<and>
     (\<forall>n buffer w. \<exists>w'. GetMemoryMap E n buffer w = (map_reply (MapBytes V w) n buffer, w') \<and>
        MapBytes V w' = MapBytes V w \<and> Refusals V w' \<le> Refusals V w)"

lemma map_serviceE:
  assumes "map_service E V"
  obtains w' where "GetMemoryMap E n buffer w = (map_reply (MapBytes V w) n buffer, w')"
    "MapBytes V w' = MapBytes V w" "Refusals V w' \<le> Refusals V w"
  using assms unfolding map_service_def by blast

text \<open>The boot services are left from the state behind a map that has just been read whole.\<close>

definition left_with_map :: "'w RunEnv \<Rightarrow> 'w \<Rightarrow> EFI_STATUS \<Rightarrow> bool" where
  "left_with_map E w' st \<longleftrightarrow> \<not> EFI_ERROR st \<and>
     (\<exists>n k w0 w. GetMemoryMap E n True w0 = ((EFI_SUCCESS, k), w) \<and> ExitBootServices E w = (st, w'))"

text \<open>Trying to leave, and the rest of the loop when it is refused.\<close>

definition leave :: "nat \<Rightarrow> 'w RunEnv \<Rightarrow> u64 \<Rightarrow> ('w, EFI_STATUS) run" where
  "leave n E Pages =
     bindM (outside (ExitBootServices E)) (\<lambda>Status.
     if EFI_ERROR Status then bindM (outside (FreePages E Pages)) (\<lambda>_. shutdown_loop n E 0 False Pages)
     else ret Status)"

lemma shutdown_first_round:
  assumes V: "map_service E V"
    and pages: "\<And>w. fst (AllocatePages E (EFI_SIZE_TO_PAGES (MapBytes V w) + 1) w) \<and>
      Refusals V (snd (AllocatePages E (EFI_SIZE_TO_PAGES (MapBytes V w) + 1) w)) \<le> Refusals V w"
  obtains m pages w0 n k w where "shutdown_loop (Suc (Suc m')) E 0 False p s = leave m E pages (s\<lparr>Outside := w\<rparr>)"
    "m = m' \<or> m = Suc m'" "GetMemoryMap E n True w0 = ((EFI_SUCCESS, k), w)" "Refusals V w \<le> Refusals V (Outside s)"
proof -
  let ?sz = "MapBytes V (Outside s)" and ?s = "\<lambda>w. s\<lparr>Outside := w\<rparr>"
  let ?p = "EFI_SIZE_TO_PAGES ?sz + 1"
  obtain w1 where g1: "GetMemoryMap E 0 False (Outside s) = (map_reply ?sz 0 False, w1)"
    and w1: "MapBytes V w1 = ?sz" "Refusals V w1 \<le> Refusals V (Outside s)" by (rule map_serviceE [OF V])
  have "0 < ?sz" using V by (simp add: map_service_def)
  then have r1: "map_reply ?sz 0 False = (EFI_BUFFER_TOO_SMALL, ?sz)" by (simp add: map_reply_def)
  obtain w2 where a: "AllocatePages E ?p w1 = (True, w2)" and w2: "Refusals V w2 \<le> Refusals V w1"
    using pages [of w1] unfolding w1(1) by (metis (full_types) prod.collapse snd_conv)
  obtain w3 where g2: "GetMemoryMap E ?sz True w2 = (map_reply (MapBytes V w2) ?sz True, w3)"
    and w3: "MapBytes V w3 = MapBytes V w2" "Refusals V w3 \<le> Refusals V w2" by (rule map_serviceE [OF V])
  show thesis
  proof (cases "?sz < MapBytes V w2")
    case False
    then have r2: "map_reply (MapBytes V w2) ?sz True = (EFI_SUCCESS, MapBytes V w2)" by (simp add: map_reply_def)
    have "shutdown_loop (Suc (Suc m')) E 0 False p s = leave (Suc m') E ?p (?s w3)"
      by (subst shutdown_loop.simps) (simp add: g1 r1 a g2 r2 bindM_assoc Let_def leave_def del: shutdown_loop.simps)
    from that [OF this _ g2 [unfolded r2]] w1 w2 w3 show thesis by simp
  next
    case True
    then have r2: "map_reply (MapBytes V w2) ?sz True = (EFI_BUFFER_TOO_SMALL, MapBytes V w2)" by (simp add: map_reply_def)
    have "shutdown_loop (Suc (Suc m')) E 0 False p s = shutdown_loop (Suc m') E (MapBytes V w3) True ?p (?s w3)"
      by (subst shutdown_loop.simps) (simp add: g1 r1 a g2 r2 w3 bindM_assoc Let_def del: shutdown_loop.simps)
    moreover obtain w4 where g3: "GetMemoryMap E (MapBytes V w3) True w3 = (map_reply (MapBytes V w3) (MapBytes V w3) True, w4)"
      and w4: "Refusals V w4 \<le> Refusals V w3" by (rule map_serviceE [OF V])
    have r3: "map_reply (MapBytes V w3) (MapBytes V w3) True = (EFI_SUCCESS, MapBytes V w3)" by (simp add: map_reply_def)
    have "shutdown_loop (Suc m') E (MapBytes V w3) True ?p (?s w3) = leave m' E ?p (?s w4)"
      by (subst shutdown_loop.simps) (simp add: g3 r3 bindM_assoc Let_def leave_def del: shutdown_loop.simps)
    ultimately have "shutdown_loop (Suc (Suc m')) E 0 False p s = leave m' E ?p (?s w4)" by simp
    from that [OF this _ g3 [unfolded r3]] w1 w2 w3 w4 show thesis by simp
  qed
qed

text \<open>
  Property C21. Leaving the boot services ends. \<open>GetMemoryMap\<close> behaves as documented, a buffer of the
  size the map takes can be allocated, and \<open>ExitBootServices\<close> refuses only finitely often; allocating
  and freeing pages may change the size of the map in any way. The loop is left after at most two
  rounds for each refusal and two more, without an error, from the state behind a map just read.
\<close>
theorem ShutdownUefiBootServices_ends:
  assumes V: "map_service E V"
    and pages: "\<forall>w. fst (AllocatePages E (EFI_SIZE_TO_PAGES (MapBytes V w) + 1) w) \<and>
      Refusals V (snd (AllocatePages E (EFI_SIZE_TO_PAGES (MapBytes V w) + 1) w)) \<le> Refusals V w"
    and exit: "\<forall>w. EFI_ERROR (fst (ExitBootServices E w)) \<longrightarrow> Refusals V (snd (ExitBootServices E w)) < Refusals V w"
    and free: "\<forall>n w. Refusals V (snd (FreePages E n w)) \<le> Refusals V w"
  shows "\<exists>st w. ShutdownUefiBootServices (2 * Refusals V (Outside s) + 2) E s = Ret (st, s\<lparr>Outside := w\<rparr>) \<and>
    left_with_map E w st"
proof -
  have "\<exists>st w. shutdown_loop n E 0 False p s = Ret (st, s\<lparr>Outside := w\<rparr>) \<and> left_with_map E w st"
    if "2 * Refusals V (Outside s) + 2 \<le> n" for n p s
    using that
  proof (induction n arbitrary: p s rule: less_induct)
    case (less n)
    then obtain m' where n: "n = Suc (Suc m')" by (metis Suc_le_D add_2_eq_Suc' Suc_le_mono)
    obtain m pg w0 k l w where run: "shutdown_loop n E 0 False p s = leave m E pg (s\<lparr>Outside := w\<rparr>)"
      and m: "m = m' \<or> m = Suc m'" and got: "GetMemoryMap E k True w0 = ((EFI_SUCCESS, l), w)"
      and w: "Refusals V w \<le> Refusals V (Outside s)"
      unfolding n by (rule shutdown_first_round [OF V pages [rule_format]])
    obtain st w' where x: "ExitBootServices E w = (st, w')" by (metis surj_pair)
    show ?case
    proof (cases "EFI_ERROR st")
      case True
      let ?w = "snd (FreePages E pg w')"
      have "Refusals V w' < Refusals V w" using exit x True by (metis fst_conv snd_conv)
      moreover have "Refusals V ?w \<le> Refusals V w'" using free by blast
      ultimately have "2 * Refusals V ?w + 2 \<le> m" using w less.prems m n by linarith
      then have "\<exists>st w. shutdown_loop m E 0 False pg (s\<lparr>Outside := ?w\<rparr>) = Ret (st, s\<lparr>Outside := w\<rparr>) \<and> left_with_map E w st"
        using less.IH [of m "s\<lparr>Outside := ?w\<rparr>" pg] m n by auto
      with True x show ?thesis unfolding run leave_def
        by (auto split: prod.splits)
    next
      case False
      with x got have "left_with_map E w' st" unfolding left_with_map_def by blast
      with x False show ?thesis unfolding run leave_def by (auto simp: ret_def)
    qed
  qed
  then show ?thesis unfolding ShutdownUefiBootServices_def by blast
qed

text \<open>
  Without pages for the map the command never ends: \<open>AllocatePages\<close> is not checked, so
  \<open>GetMemoryMap\<close> is called without a buffer in every round and the loop goes on for ever.
\<close>
theorem ShutdownUefiBootServices_loops:
  assumes "\<forall>n w. \<not> fst (AllocatePages E n w)" and "\<forall>n w. EFI_ERROR (fst (fst (GetMemoryMap E n False w)))"
  shows "ShutdownUefiBootServices fuel E s = Stop OutOfFuel"
proof -
  have "shutdown_loop fuel E sz False p s = Stop OutOfFuel" for sz p s
    using assms
    by (induction fuel arbitrary: sz p s) (auto simp: stopM_def bindM_assoc Let_def split: prod.splits if_splits, (metis fst_conv)+)
  then show ?thesis by (simp add: ShutdownUefiBootServices_def)
qed

text \<open>
  A file that passes the check of its ELF header but cannot be loaded, for want of a loadable
  segment among other reasons, is reported to the shell as a success.
\<close>
theorem runaxf_failed_load_is_success:
  assumes inst: "InstallShellProtocols E (Outside s) = (EFI_SUCCESS, w1)" "ShellInitialize E w1 = (EFI_SUCCESS, w2)"
    and fetch: "fetch_image E (s\<lparr>Outside := w2\<rparr>) = Ret ((SHELL_SUCCESS, Some a), s3)"
    and check: "ElfCheckFile a (RunMem s3) = EFI_SUCCESS"
    and load: "ElfLoadFile E a s3 = Ret ((st, entry, l), s4)" "EFI_ERROR st"
    and uninst: "UninstallShellProtocols E (Outside s4) = (EFI_SUCCESS, w5)"
  shows "ShellDynCmdRunAxfHandler fuel E s = Ret (Returned SHELL_SUCCESS, s4\<lparr>Outside := w5\<rparr>)"
proof -
  have "bindM (load_image E a) (launch fuel E) s3 = Ret (Returned SHELL_SUCCESS, s4\<lparr>Outside := w5\<rparr>)"
    using check load uninst
    by (simp add: load_image_def bindM_assoc bindM_eqI [of "ElfLoadFile E a", OF load(1)] launch_def return_to_shell_def)
      (simp add: ret_def)
  then show ?thesis
    by (simp add: ShellDynCmdRunAxfHandler_def inst bindM_ASSERT bindM_eqI [of "fetch_image E", OF fetch])
qed

end
