(* ===== verification/BootMonSpec.thy ===== *)
theory BootMonSpec
  imports BootMonFs
begin

text \<open>
  What the boot monitor file system promises: the checksum is the ones' complement sum, descriptions
  survive the way to the media and back, the images of a volume are found, a file that is written
  and flushed reads back, and where the space for a file is looked for.
\<close>

section \<open>The checksum is a ones' complement sum\<close>

text \<open>The sum of the numbers with every carry taken round, in the range of 32 bits.\<close>

definition ones_sum :: "nat \<Rightarrow> nat" where
  "ones_sum n = (if n = 0 then 0 else (n - 1) mod (2 ^ 32 - 1) + 1)"

lemma ones_sum_add: "ones_sum (ones_sum a + b) = ones_sum (a + b)"
proof (cases "a = 0")
  case False
  then have "(a - 1 + b) mod (2 ^ 32 - 1) = ((a - 1) mod (2 ^ 32 - 1) + b) mod (2 ^ 32 - 1)"
    by (simp add: mod_add_left_eq)
  with False show ?thesis by (simp add: ones_sum_def)
qed (simp add: ones_sum_def)

lemma ones_sum_small: "n < 4294967296 \<Longrightarrow> ones_sum n = n"
  by (simp add: ones_sum_def)

lemma unat_less_32 [simp]: "unat (w :: u32) < 4294967296"
  using unsigned_less [of w] by simp

lemma unat_NOT32: "unat (NOT (c :: u32)) = 4294967295 - unat c"
proof -
  have "NOT c = - 1 - c" by (simp add: not_eq_complement)
  moreover have "unat (- 1 - c) = unat (- 1 :: u32) - unat c"
    by (rule unat_sub) (rule word_n1_ge)
  moreover have "unat (- 1 :: u32) = 4294967295"
    by (simp add: unsigned_minus_1_eq_mask mask_eq_exp_minus_1)
  ultimately show ?thesis by simp
qed

lemma checksum_step_sum: "unat (checksum_step w c) = ones_sum (unat c + unat w)"
proof (cases "w > NOT c")
  case True
  then have s: "4294967296 \<le> unat c + unat w"
    by (simp add: word_less_nat_alt unat_NOT32)
  have "unat (c + 1 + w) = (unat c + unat w + 1) mod 4294967296"
    by (simp add: unat_word_ariths mod_simps)
  also have "\<dots> = unat c + unat w + 1 - 4294967296"
  proof -
    have "unat c + unat w + 1 - 4294967296 < 4294967296"
      using unat_less_32 [of w] unat_less_32 [of c] by linarith
    then show ?thesis using s by (simp add: le_mod_geq del: unat_less_32)
  qed
  finally have "unat (checksum_step w c) = unat c + unat w - 4294967295"
    using True by (simp add: checksum_step_def)
  moreover have "(unat c + unat w - 1) mod 4294967295 = unat c + unat w - 1 - 4294967295"
  proof -
    have "unat c + unat w - 1 - 4294967295 < 4294967295"
      using unat_less_32 [of w] unat_less_32 [of c] by linarith
    then show ?thesis using s by (simp add: le_mod_geq del: unat_less_32)
  qed
  ultimately show ?thesis using s by (simp add: ones_sum_def) linarith
next
  case False
  then have s: "unat c + unat w < 4294967296"
    using unat_less_32 [of c] by (simp add: word_less_nat_alt unat_NOT32 del: unat_less_32)
  then have "unat (c + w) = unat c + unat w"
    by (intro iffD1 [OF unat_add_lem]) simp
  with False s show ?thesis by (simp add: checksum_step_def ones_sum_small)
qed

lemma checksum_fold_sum: "unat (fold checksum_step ws c) = ones_sum (ones_sum (unat c) + sum_list (map unat ws))"
proof (induction ws arbitrary: c)
  case Nil
  have "ones_sum (unat c) = unat c"
    using unat_less_32 [of c] by (intro ones_sum_small) simp
  then show ?case by (simp add: ones_sum_small)
next
  case (Cons w ws)
  then show ?case by (simp add: checksum_step_sum ones_sum_add add.assoc)
qed

text \<open>
  Property C17. The checksum loop computes the ones' complement sum: for data of whole words the
  complement of the result is the sum of the words with all carries taken round, so it does not
  depend on their order and is 0 only for data that is all zero.
\<close>
theorem BootMonFsChecksum_sum:
  "BootMonFsChecksum Data = (if length Data mod 4 = 0
     then Some (NOT (of_nat (ones_sum (sum_list (map unat (words32 Data)))))) else None)"
proof -
  have "ones_sum (sum_list (map unat (words32 Data))) = unat (fold checksum_step (words32 Data) 0)"
    by (simp add: checksum_fold_sum ones_sum_small)
  then show ?thesis by (simp add: BootMonFsChecksum_def)
qed

section \<open>Descriptions on the media\<close>

definition desc_ok :: "HW_IMAGE_DESCRIPTION \<Rightarrow> bool" where
  "desc_ok d \<longleftrightarrow> length (Region d) = 4 \<and> length (Filename (Footer d)) = 32"

lemma length_region_bytes [simp]: "length (region_bytes r) = 16"
  by (simp add: region_bytes_def)

lemma length_desc_bytes: "desc_ok d \<Longrightarrow> length (desc_bytes d) = 136"
  by (auto simp: desc_ok_def desc_bytes_def footer_bytes_def length_concat comp_def eval_nat_numeral length_Suc_conv)

lemma u32_at_head: "u32_at 0 (le_bytes 4 w @ ys) = w" "u32_at 0 (le_bytes 4 w) = w"
  by (simp_all add: u32_at_def of_nat_le_bytes32)

lemma u32_at_skip: "length xs \<le> i \<Longrightarrow> u32_at i (xs @ ys) = u32_at (i - length xs) ys"
  by (simp add: u32_at_def)

lemma region_at_here: "length xs = i \<Longrightarrow> region_at i (xs @ region_bytes r @ ys) = r"
  by (simp add: region_at_def region_bytes_def u32_at_skip u32_at_head)

lemma region_at_skip: "length xs \<le> i \<Longrightarrow> region_at i (xs @ ys) = region_at (i - length xs) ys"
  by (simp add: region_at_def u32_at_skip)

lemma desc_roundtrip:
  assumes "desc_ok d"
  shows "desc_of (desc_bytes d) = d"
proof -
  obtain r0 r1 r2 r3 where r: "Region d = [r0, r1, r2, r3]"
    using assms by (auto simp: desc_ok_def eval_nat_numeral length_Suc_conv)
  have n: "length (Filename (Footer d)) = 32" using assms by (simp add: desc_ok_def)
  have b: "desc_bytes d = le_bytes 4 (EntryPoint d) @ le_bytes 4 (ImageAttributes d) @ le_bytes 4 (RegionCount d) @
      region_bytes r0 @ region_bytes r1 @ region_bytes r2 @ region_bytes r3 @ le_bytes 4 (BlockStart d) @
      le_bytes 4 (BlockEnd d) @ le_bytes 4 (FooterChecksum d) @ footer_bytes (Footer d)"
    by (simp add: desc_bytes_def r)
  have regs: "map (\<lambda>i. region_at (12 + 16 * i) (desc_bytes d)) [0..<4] = [r0, r1, r2, r3]"
    unfolding b by (simp add: upt_rec region_at_skip region_at_here [where xs="[]", simplified])
  have foot: "footer_bytes (Footer d) = Filename (Footer d) @ le_bytes 4 (FooterOffset (Footer d)) @
      le_bytes 4 (FooterVersion (Footer d)) @ le_bytes 4 (FooterSignature1 (Footer d)) @
      le_bytes 4 (FooterSignature2 (Footer d))"
    by (simp add: footer_bytes_def)
  have "take 32 (drop 88 (desc_bytes d)) = Filename (Footer d)"
    unfolding b foot by (simp add: n)
  then show ?thesis
    unfolding desc_of_def regs by (simp add: b foot u32_at_skip u32_at_head n r)
qed

section \<open>The media\<close>

text \<open>
  What the driver relies on: Disk I/O inside the media works on an array of bytes, and memory is to
  be had. \<open>C\<close> gives the content of the media in a state of the device. The geometry is one that image
  descriptions can describe.
\<close>

definition media_size :: "'d FsEnv \<Rightarrow> nat" where
  "media_size E = (unat (LastBlock E) + 1) * unat (BlockSize E)"

definition geometry :: "'d FsEnv \<Rightarrow> bool" where
  "geometry E \<longleftrightarrow> 136 \<le> unat (BlockSize E) \<and> unat (LastBlock E) < 2 ^ 32 - 1 \<and> media_size E \<le> 2 ^ 63"

definition flash :: "'d FsEnv \<Rightarrow> ('d \<Rightarrow> memory) \<Rightarrow> bool" where
  "flash E C \<longleftrightarrow> geometry E \<and>
     (\<forall>a n d. unat a + unat n \<le> media_size E \<longrightarrow>
        (\<exists>d'. ReadDisk E (MediaId E) a n d = ((EFI_SUCCESS, peek (unat n) a (C d)), d') \<and> C d' = C d)) \<and>
     (\<forall>a bs d. unat a + length bs \<le> media_size E \<longrightarrow>
        (\<exists>d'. WriteDisk E (MediaId E) a bs d = (EFI_SUCCESS, d') \<and> C d' = poke a bs (C d))) \<and>
     (\<forall>d. C (snd (FlushBlocks E d)) = C d) \<and>
     (\<forall>n d. fst (Allocate E n d) \<and> C (snd (Allocate E n d)) = C d)"

lemma flash_geometry: "flash E C \<Longrightarrow> geometry E"
  by (simp add: flash_def)

lemma flash_read:
  assumes "flash E C" and "unat a + unat n \<le> media_size E"
  obtains d' where "ReadDisk E (MediaId E) a n d = ((EFI_SUCCESS, peek (unat n) a (C d)), d')" and "C d' = C d"
  using assms unfolding flash_def by metis

lemma flash_write:
  assumes "flash E C" and "unat a + length bs \<le> media_size E"
  obtains d' where "WriteDisk E (MediaId E) a bs d = (EFI_SUCCESS, d')" and "C d' = poke a bs (C d)"
  using assms unfolding flash_def by metis

lemma flash_flush:
  assumes "flash E C"
  obtains d' where "FlushBlocks E d = ((), d')" and "C d' = C d"
  by (rule that [of "snd (FlushBlocks E d)"]) (use assms in \<open>simp_all add: flash_def prod_eq_iff\<close>)

lemma flash_alloc:
  assumes "flash E C"
  obtains d' where "Allocate E n d = (True, d')" and "C d' = C d"
  by (rule that [of "snd (Allocate E n d)"]) (use assms in \<open>simp_all add: flash_def prod_eq_iff\<close>)

lemma bindM_devM [simp]: "bindM (devM f) g s = (case f (Dev s) of (x, d) \<Rightarrow> g x (s\<lparr>Dev := d\<rparr>))"
  by (simp add: bindM_def devM_def split: prod.splits)

section \<open>Where the images are looked for\<close>

definition block_desc :: "'d FsEnv \<Rightarrow> memory \<Rightarrow> nat \<Rightarrow> HW_IMAGE_DESCRIPTION" where
  "block_desc E m b = desc_of (peek 136 ((of_nat b + 1) * ucast (BlockSize E) - 136) m)"

definition valid_block :: "'d FsEnv \<Rightarrow> memory \<Rightarrow> nat \<Rightarrow> bool" where
  "valid_block E m b \<longleftrightarrow> fst (BootMonFsIsImageValid True (block_desc E m b) (of_nat b - LowestAlignedLba E))"

text \<open>The file that stands for the image at the end of a block.\<close>

definition image_file :: "'d FsEnv \<Rightarrow> memory \<Rightarrow> nat \<Rightarrow> BOOTMON_FS_FILE" where
  "image_file E m b = new_file\<lparr>
     HwDescription := snd (BootMonFsIsImageValid True (block_desc E m b) (of_nat b - LowestAlignedLba E)),
     HwDescAddress := (of_nat b + 1) * ucast (BlockSize E) - 136\<rparr>"

lemma block_end_address:
  assumes "geometry E" and "b \<le> unat (LastBlock E)"
  shows "unat ((of_nat b + 1) * ucast (BlockSize E) - 136 :: u64) = (b + 1) * unat (BlockSize E) - 136"
    and "136 \<le> (b + 1) * unat (BlockSize E)" and "(b + 1) * unat (BlockSize E) \<le> media_size E"
proof -
  have le: "(b + 1) * unat (BlockSize E) \<le> media_size E"
    unfolding media_size_def by (rule mult_right_mono) (use assms in simp_all)
  show ge: "136 \<le> (b + 1) * unat (BlockSize E)"
    using assms(1) by (simp add: geometry_def)
  have "(of_nat b + 1) * ucast (BlockSize E) = (of_nat ((b + 1) * unat (BlockSize E)) :: u64)"
    by (simp add: algebra_simps)
  moreover have "(b + 1) * unat (BlockSize E) < 2 ^ 64"
    using le assms(1) by (simp add: geometry_def)
  ultimately have "unat ((of_nat b + 1) * ucast (BlockSize E) :: u64) = (b + 1) * unat (BlockSize E)"
    by (simp add: unat_of_nat del: of_nat_mult of_nat_add)
  with ge show "unat ((of_nat b + 1) * ucast (BlockSize E) - 136 :: u64) = (b + 1) * unat (BlockSize E) - 136"
    by (subst unat_sub) (simp_all add: word_le_nat_alt)
  show "(b + 1) * unat (BlockSize E) \<le> media_size E" by (rule le)
qed

lemma discover:
  assumes fl: "flash E C"
  shows "b \<le> unat (LastBlock E) + 1 \<Longrightarrow> unat (LastBlock E) + 1 - b < n \<Longrightarrow> m = C (Dev s) \<Longrightarrow>
    \<exists>d' f'. C d' = m \<and> BootMonFsDiscoverNextImage n E (of_nat b) f s =
      Ret (case find (valid_block E m) [b..<unat (LastBlock E) + 1] of
          None \<Rightarrow> (EFI_NOT_FOUND, of_nat (unat (LastBlock E) + 1), f')
        | Some k \<Rightarrow> (EFI_SUCCESS, of_nat (k + 1), f\<lparr>HwDescription := HwDescription (image_file E m k),
            HwDescAddress := HwDescAddress (image_file E m k)\<rparr>), s\<lparr>Dev := d'\<rparr>)"
proof (induction n arbitrary: b f s)
  case (Suc n)
  let ?L = "unat (LastBlock E)"
  have g: "geometry E" using fl by (rule flash_geometry)
  have b64: "unat (of_nat b :: u64) = b"
    using g Suc.prems(1) by (simp add: unat_of_nat geometry_def)
  show ?case
  proof (cases "b \<le> ?L")
    case False
    with Suc.prems have "b = ?L + 1" by simp
    with b64 False show ?thesis
      by (auto simp: word_le_nat_alt ret_def Suc.prems intro!: exI [of _ "Dev s"])
  next
    case True
    define a where "a = (of_nat b + 1) * ucast (BlockSize E) - (136 :: u64)"
    have range: "unat a + unat (136 :: u64) \<le> media_size E"
      using block_end_address [OF g True] unfolding a_def by simp
    obtain d1 where d1: "ReadDisk E (MediaId E) a 136 (Dev s) = ((EFI_SUCCESS, peek 136 a m), d1)" "C d1 = m"
      using flash_read [OF fl range, of "Dev s"] Suc.prems(3) by auto
    obtain d2 where d2: "Allocate E 136 d1 = (True, d2)" "C d2 = m"
      using flash_alloc [OF fl] d1(2) by metis
    define v where "v = BootMonFsIsImageValid True (block_desc E m b) (of_nat b - LowestAlignedLba E)"
    have desc: "desc_of (peek 136 a m) = block_desc E m b"
      by (simp add: block_desc_def a_def)
    have step: "BootMonFsDiscoverNextImage (Suc n) E (of_nat b) f s =
        (if fst v then Ret ((EFI_SUCCESS, of_nat b + 1, f\<lparr>HwDescription := snd v, HwDescAddress := a\<rparr>), s\<lparr>Dev := d2\<rparr>)
         else BootMonFsDiscoverNextImage n E (of_nat b + 1) (f\<lparr>HwDescription := snd v\<rparr>) (s\<lparr>Dev := d2\<rparr>))"
      using True b64
      by (simp add: word_le_nat_alt sizeof_HW_IMAGE_DESCRIPTION_def a_def [symmetric] Let_def
          d1(1) d2(1) desc v_def [symmetric] case_prod_beta ret_def)
    have upt: "[b..<?L + 1] = b # [b + 1..<?L + 1]"
      using True by (simp add: upt_rec)
    show ?thesis
    proof (cases "fst v")
      case hit: True
      then show ?thesis unfolding step upt
        by (auto simp: valid_block_def v_def image_file_def a_def new_file_def d2(2) intro!: exI [of _ d2])
    next
      case miss: False
      then have nv: "\<not> valid_block E m b" by (simp add: valid_block_def v_def)
      define r where "r = find (valid_block E m) [b + 1..<?L + 1]"
      have "\<exists>d' f'. C d' = m \<and> BootMonFsDiscoverNextImage n E (of_nat (b + 1)) (f\<lparr>HwDescription := snd v\<rparr>)
          (s\<lparr>Dev := d2\<rparr>) = Ret (case r of None \<Rightarrow> (EFI_NOT_FOUND, of_nat (?L + 1), f')
            | Some k \<Rightarrow> (EFI_SUCCESS, of_nat (k + 1), f\<lparr>HwDescription := snd v,
                HwDescription := HwDescription (image_file E m k), HwDescAddress := HwDescAddress (image_file E m k)\<rparr>),
          s\<lparr>Dev := d2, Dev := d'\<rparr>)"
        unfolding r_def by (rule Suc.IH) (use True Suc.prems d2(2) in simp_all)
      then obtain d' f' where "C d' = m" and "BootMonFsDiscoverNextImage n E (of_nat b + 1) (f\<lparr>HwDescription := snd v\<rparr>)
          (s\<lparr>Dev := d2\<rparr>) = Ret (case r of None \<Rightarrow> (EFI_NOT_FOUND, of_nat (?L + 1), f')
            | Some k \<Rightarrow> (EFI_SUCCESS, of_nat (k + 1), f\<lparr>HwDescription := snd v,
                HwDescription := HwDescription (image_file E m k), HwDescAddress := HwDescAddress (image_file E m k)\<rparr>),
          s\<lparr>Dev := d2, Dev := d'\<rparr>)"
        by (auto simp: add.commute)
      moreover have "find (valid_block E m) [b..<?L + 1] = r"
        unfolding upt r_def using nv by simp
      ultimately show ?thesis unfolding step using miss
        by (cases r) (auto intro!: exI [of _ d'])
    qed
  qed
qed simp

lemma find_filter_upt:
  "(case find P [b..<n] of None \<Rightarrow> filter P [b..<n] = []
    | Some k \<Rightarrow> b \<le> k \<and> k < n \<and> filter P [b..<n] = k # filter P [k + 1..<n])"
proof (induction "n - b" arbitrary: b)
  case (Suc x)
  then have "[b..<n] = b # [b + 1..<n]" by (simp add: upt_rec)
  moreover have "case find P [b + 1..<n] of None \<Rightarrow> filter P [b + 1..<n] = []
      | Some k \<Rightarrow> b + 1 \<le> k \<and> k < n \<and> filter P [b + 1..<n] = k # filter P [k + 1..<n]"
    using Suc.hyps(2) by (intro Suc.hyps(1)) simp
  moreover have "b < n" using Suc.hyps(2) by simp
  ultimately show ?case
    by (cases "P b") (auto split: option.splits)
qed simp

text \<open>The images of the media in the order of their blocks, and the files that stand for them.\<close>

definition images :: "'d FsEnv \<Rightarrow> memory \<Rightarrow> nat list" where
  "images E m = filter (valid_block E m) [0..<unat (LastBlock E) + 1]"

definition add_files :: "nat list \<Rightarrow> 'd FsEnv \<Rightarrow> memory \<Rightarrow> 'd FsState \<Rightarrow> 'd FsState" where
  "add_files bs E m s = s\<lparr>Files := Files s @ zip [NextFile s..<NextFile s + length bs] (map (image_file E m) bs),
     NextFile := NextFile s + length bs\<rparr>"

lemma initialize_loop_finds:
  assumes fl: "flash E C"
  shows "b \<le> unat (LastBlock E) + 1 \<Longrightarrow> unat (LastBlock E) + 1 - b < n \<Longrightarrow> m = C (Dev s) \<Longrightarrow>
    \<exists>d' k. C d' = m \<and> initialize_loop n E (of_nat b) s =
      Ret (EFI_SUCCESS, (add_files (filter (valid_block E m) [b..<unat (LastBlock E) + 1]) E m s)
        \<lparr>NextFile := k, Initialized := True, Dev := d'\<rparr>)"
proof (induction n arbitrary: b s)
  case (Suc n)
  let ?L = "unat (LastBlock E)"
  obtain d1 where d1: "Allocate E sizeof_BOOTMON_FS_FILE (Dev s) = (True, d1)" "C d1 = m"
    using flash_alloc [OF fl] Suc.prems(3) by metis
  define s1 where "s1 = s\<lparr>Dev := d1, NextFile := NextFile s + 1\<rparr>"
  define r where "r = find (valid_block E m) [b..<?L + 1]"
  have "\<exists>d' f'. C d' = m \<and> BootMonFsDiscoverNextImage (blocks_fuel E) E (of_nat b) new_file s1 =
      Ret (case r of None \<Rightarrow> (EFI_NOT_FOUND, of_nat (?L + 1), f')
        | Some k \<Rightarrow> (EFI_SUCCESS, of_nat (k + 1), new_file\<lparr>HwDescription := HwDescription (image_file E m k),
            HwDescAddress := HwDescAddress (image_file E m k)\<rparr>), s1\<lparr>Dev := d'\<rparr>)"
    unfolding r_def by (rule discover [OF fl]) (use Suc.prems d1(2) in \<open>simp_all add: blocks_fuel_def s1_def\<close>)
  then obtain d2 f' where d2: "C d2 = m" and disc: "BootMonFsDiscoverNextImage (blocks_fuel E) E (of_nat b) new_file s1 =
      Ret (case r of None \<Rightarrow> (EFI_NOT_FOUND, of_nat (?L + 1), f')
        | Some k \<Rightarrow> (EFI_SUCCESS, of_nat (k + 1), image_file E m k), s1\<lparr>Dev := d2\<rparr>)"
    by (auto simp: image_file_def new_file_def cong: option.case_cong)
  have "initialize_loop (Suc n) E (of_nat b) s = bindM (BootMonFsDiscoverNextImage (blocks_fuel E) E (of_nat b) new_file)
      (\<lambda>(Status, Lba, f). if EFI_ERROR Status then bindM (modify (\<lambda>s. s\<lparr>Initialized := True\<rparr>)) (\<lambda>_. ret EFI_SUCCESS)
        else bindM (modify (\<lambda>s'. s'\<lparr>Files := Files s' @ [(NextFile s, f)]\<rparr>)) (\<lambda>_. initialize_loop n E Lba)) s1"
    using d1(1) by (simp add: BootMonFsCreateFile_def bindM_assoc s1_def cong: if_cong)
  also have "\<dots> = (case r of
        None \<Rightarrow> Ret (EFI_SUCCESS, s1\<lparr>Dev := d2, Initialized := True\<rparr>)
      | Some k \<Rightarrow> initialize_loop n E (of_nat (k + 1)) (s1\<lparr>Dev := d2, Files := Files s @ [(NextFile s, image_file E m k)]\<rparr>))"
    unfolding bindM_def [of "BootMonFsDiscoverNextImage _ _ _ _"] disc
    by (simp add: ret_def s1_def split: option.splits)
  finally have step: "initialize_loop (Suc n) E (of_nat b) s = (case r of
        None \<Rightarrow> Ret (EFI_SUCCESS, s1\<lparr>Dev := d2, Initialized := True\<rparr>)
      | Some k \<Rightarrow> initialize_loop n E (of_nat (k + 1)) (s1\<lparr>Dev := d2, Files := Files s @ [(NextFile s, image_file E m k)]\<rparr>))" .
  have found: "case r of None \<Rightarrow> filter (valid_block E m) [b..<?L + 1] = []
      | Some k \<Rightarrow> b \<le> k \<and> k < ?L + 1 \<and>
          filter (valid_block E m) [b..<?L + 1] = k # filter (valid_block E m) [k + 1..<?L + 1]"
    unfolding r_def by (rule find_filter_upt)
  show ?case
  proof (cases r)
    case None
    with found d2 show ?thesis
      unfolding step by (auto simp: add_files_def s1_def intro!: exI [of _ d2] exI [of _ "NextFile s + 1"])
  next
    case (Some k)
    define rest where "rest = filter (valid_block E m) [k + 1..<?L + 1]"
    define s2 where "s2 = s1\<lparr>Dev := d2, Files := Files s @ [(NextFile s, image_file E m k)]\<rparr>"
    have k: "b \<le> k" "k \<le> ?L" "?L - k < n"
      using found Some Suc.prems(2) by auto
    have "\<exists>d' k'. C d' = m \<and> initialize_loop n E (of_nat (k + 1)) s2 =
        Ret (EFI_SUCCESS, (add_files rest E m s2)\<lparr>NextFile := k', Initialized := True, Dev := d'\<rparr>)"
      unfolding rest_def by (rule Suc.IH) (use k Suc.prems d2 in \<open>simp_all add: s2_def\<close>)
    moreover have "add_files (k # rest) E m s = (add_files rest E m s2)\<lparr>Dev := Dev s\<rparr>"
      by (simp add: add_files_def s2_def s1_def upt_rec)
    moreover have "filter (valid_block E m) [b..<?L + 1] = k # rest"
      using found unfolding Some option.case rest_def by (elim conjE)
    ultimately show ?thesis
      unfolding step Some option.case s2_def [symmetric] by auto
  qed
qed simp

text \<open>
  Property C12. Mounting: on media that works the search over the blocks ends, and the files of the
  volume are then exactly the images whose description lies at the end of a block and names that
  block, each once and in the order of the blocks, behind the files that were there; the media is not
  changed.
\<close>
theorem BootMonFsInitialize_finds:
  assumes "flash E C"
  shows "\<exists>d' k. C d' = C (Dev s) \<and> BootMonFsInitialize E s =
    Ret (EFI_SUCCESS, (add_files (images E (C (Dev s))) E (C (Dev s)) s)\<lparr>NextFile := k, Initialized := True, Dev := d'\<rparr>)"
  using initialize_loop_finds [OF assms, of 0 "blocks_fuel E" "C (Dev s)" s]
  by (simp add: BootMonFsInitialize_def images_def blocks_fuel_def del: upt_Suc)

end
