(* ===== verification/BootMonWrite.thy ===== *)
theory BootMonWrite
  imports BootMonSpec
begin

text \<open>
  Writing files of the boot monitor file system: the space a new file is put at, the description
  that goes with its data, and the way of the data from the caller to the media and back.
\<close>

section \<open>Access to a file\<close>

lemma map_of_set_file [simp]:
  "map_of (set_file i f fs) j = (if j = i then map_option (\<lambda>_. f) (map_of fs i) else map_of fs j)"
  by (induction fs) (auto simp: set_file_def)

lemma set_file_set_file [simp]: "set_file i f (set_file i g fs) = set_file i f fs"
  by (auto simp: set_file_def)

lemma getF_File [simp]: "map_of (Files s) i = Some f \<Longrightarrow> bindM (getF (File i)) k s = k f s"
  by (simp add: bindM_def getF_def)

lemma putF_File [simp]: "bindM (putF (File i) f) k s = k () (s\<lparr>Files := set_file i f (Files s)\<rparr>)"
  by (simp add: putF_def)

lemma updF_File [simp]:
  "map_of (Files s) i = Some f \<Longrightarrow>
   bindM (updF (File i) u) k s = k () (s\<lparr>Files := set_file i (u f) (Files s)\<rparr>)"
  by (simp add: updF_def bindM_assoc)

section \<open>The description of a file\<close>

lemma checksum_copy_checksum [simp]:
  "checksum_copy (d\<lparr>FooterChecksum := c\<rparr>) = checksum_copy d"
  "checksum_copy (d\<lparr>FooterChecksum := c, ImageAttributes := a\<rparr>) = checksum_copy (d\<lparr>ImageAttributes := a\<rparr>)"
  by (simp_all add: checksum_copy_def)

text \<open>A description with its attribute and its checksum in place.\<close>

definition sealed :: "HW_IMAGE_DESCRIPTION \<Rightarrow> bool" where
  "sealed d \<longleftrightarrow> BootMonFsComputeFooterChecksum True d = (EFI_SUCCESS, d)"

lemma ComputeFooterChecksum_sealed:
  "BootMonFsComputeFooterChecksum True d = (st, d') \<Longrightarrow> sealed d'"
  by (auto simp: sealed_def BootMonFsComputeFooterChecksum_def Let_def)

definition seal :: "HW_IMAGE_DESCRIPTION \<Rightarrow> HW_IMAGE_DESCRIPTION" where
  "seal d = snd (BootMonFsComputeFooterChecksum True d)"

lemma ComputeFooterChecksum_seal: "BootMonFsComputeFooterChecksum True d = (EFI_SUCCESS, seal d)"
  by (simp add: seal_def BootMonFsComputeFooterChecksum_def Let_def)

lemma seal_fields [simp]:
  "EntryPoint (seal d) = EntryPoint d" "RegionCount (seal d) = RegionCount d" "Region (seal d) = Region d"
  "BlockStart (seal d) = BlockStart d" "BlockEnd (seal d) = BlockEnd d" "Footer (seal d) = Footer d"
  "ImageAttributes (seal d) = 1"
  by (simp_all add: seal_def BootMonFsComputeFooterChecksum_def Let_def)

lemma sealed_seal [simp]: "sealed (seal d)"
  by (rule ComputeFooterChecksum_sealed [OF ComputeFooterChecksum_seal])

text \<open>What \<open>WriteFileDescription\<close> leaves in memory and on the media.\<close>

definition new_desc :: "'d FsEnv \<Rightarrow> u8 list \<Rightarrow> u32 \<Rightarrow> u64 \<Rightarrow> HW_IMAGE_DESCRIPTION \<Rightarrow> HW_IMAGE_DESCRIPTION" where
  "new_desc E name DataSize FileStart d = seal (description_for E name DataSize FileStart d)"

lemma desc_ok_new_desc [simp]: "desc_ok d \<Longrightarrow> desc_ok (new_desc E name n a d)"
  by (simp add: desc_ok_def new_desc_def description_for_def Let_def ascii_copy_def)

lemma WriteFileDescription_step:
  assumes fl: "flash E C" and al: "FileStart mod ucast (BlockSize E) = 0"
    and f: "map_of (Files s) i = Some f" and ok: "desc_ok (HwDescription f)"
    and d: "d = new_desc E name DataSize FileStart (HwDescription f)"
    and range: "unat (desc_address E d) + 136 \<le> media_size E"
  obtains d' where "WriteFileDescription E (File i) name DataSize FileStart s =
      Ret (EFI_SUCCESS, s\<lparr>Files := set_file i (f\<lparr>HwDescription := d, HwDescAddress := desc_address E d\<rparr>) (Files s), Dev := d'\<rparr>)"
    and "C d' = poke (desc_address E d) (desc_bytes d) (C (Dev s))"
proof -
  have len: "length (desc_bytes d) = 136" using ok by (simp add: d length_desc_bytes)
  obtain d1 where d1: "Allocate E 136 (Dev s) = (True, d1)" "C d1 = C (Dev s)"
    using flash_alloc [OF fl] by metis
  obtain d2 where d2: "WriteDisk E (MediaId E) (desc_address E d) (desc_bytes d) d1 = (EFI_SUCCESS, d2)"
      "C d2 = poke (desc_address E d) (desc_bytes d) (C (Dev s))"
    using flash_write [OF fl, of "desc_address E d" "desc_bytes d" d1] range len d1(2) by metis
  have "BlockSize E \<noteq> 0" using flash_geometry [OF fl] by (auto simp: geometry_def)
  moreover have "BootMonFsComputeFooterChecksum True (description_for E name DataSize FileStart (HwDescription f))
      = (EFI_SUCCESS, d)"
    by (simp add: d new_desc_def ComputeFooterChecksum_seal)
  ultimately have "WriteFileDescription E (File i) name DataSize FileStart s =
      Ret (EFI_SUCCESS, s\<lparr>Files := set_file i (f\<lparr>HwDescription := d, HwDescAddress := desc_address E d\<rparr>) (Files s), Dev := d2\<rparr>)"
    using al f d1(1) d2(1)
    by (simp add: WriteFileDescription_def sizeof_HW_IMAGE_DESCRIPTION_def ASSERT_def)
      (simp add: ret_def)
  with d2(2) show ?thesis by (rule that [rotated])
qed

text \<open>The blocks of a description, as numbers without wrap-around.\<close>

definition first_block :: "'d FsEnv \<Rightarrow> u64 \<Rightarrow> nat" where
  "first_block E FileStart = unat FileStart div unat (BlockSize E)"

definition final_block :: "'d FsEnv \<Rightarrow> u64 \<Rightarrow> nat \<Rightarrow> nat" where
  "final_block E FileStart n = first_block E FileStart + (n + 136) div unat (BlockSize E)"

lemma unat_ucast_u32: "unat (x :: u64) < 2 ^ 32 \<Longrightarrow> unat (ucast x :: u32) = unat x"
  by (simp add: unsigned_ucast_eq take_bit_nat_eq_self)

lemma unat_ucast_up64 [simp]: "unat (ucast (x :: u32) :: u64) = unat x"
  by (simp add: unsigned_ucast_eq take_bit_nat_eq_self less_trans [OF unat_less_32])

lemma ucast_of_nat64: "n < 2 ^ 32 \<Longrightarrow> ucast (of_nat n :: u32) = (of_nat n :: u64)"
  by (simp add: word_unat_eq_iff unat_of_nat)

lemma new_desc_blocks:
  assumes g: "geometry E" and n: "unat DataSize + 136 < 2 ^ 32"
    and e: "final_block E FileStart (unat DataSize) \<le> unat (LastBlock E)"
  shows "unat (BlockStart (new_desc E name DataSize FileStart d)) = first_block E FileStart"
    and "unat (BlockEnd (new_desc E name DataSize FileStart d)) = final_block E FileStart (unat DataSize)"
    and "desc_address E (new_desc E name DataSize FileStart d) =
      (of_nat (final_block E FileStart (unat DataSize)) + 1) * ucast (BlockSize E) - 136"
proof -
  let ?d = "new_desc E name DataSize FileStart d" and ?b = "first_block E FileStart"
  let ?e = "final_block E FileStart (unat DataSize)"
  have e32: "?e < 2 ^ 32 - 1" using g e by (simp add: geometry_def)
  then have b32: "?b < 2 ^ 32" by (simp add: final_block_def)
  have div: "unat (FileStart div ucast (BlockSize E)) = ?b"
    by (simp add: unat_div first_block_def)
  show start: "unat (BlockStart ?d) = ?b"
    using b32 by (simp add: new_desc_def description_for_def Let_def unat_ucast_u32 div)
  have size: "unat (DataSize + 136) = unat DataSize + 136"
    using n by (intro trans [OF iffD1 [OF unat_add_lem]]) simp_all
  then have quot: "unat (ucast (DataSize + 136) div ucast (BlockSize E) :: u64) = (unat DataSize + 136) div unat (BlockSize E)"
    by (simp add: unat_div)
  have "unat (ucast (ucast (FileStart div ucast (BlockSize E)) :: u32) + ucast (DataSize + 136) div ucast (BlockSize E) :: u64) = ?e"
    using e32 b32 quot by (subst unat_word_ariths) (simp add: unat_ucast_u32 div final_block_def)
  then show last: "unat (BlockEnd ?d) = ?e"
    using e32 by (simp add: new_desc_def description_for_def Let_def sizeof_HW_IMAGE_DESCRIPTION_def unat_ucast_u32)
  then have "BlockEnd ?d = of_nat ?e"
    using e32 by (simp add: word_unat_eq_iff unat_of_nat)
  then have "BlockEnd ?d + 1 = of_nat (?e + 1)" by simp
  then show "desc_address E ?d = (of_nat ?e + 1) * ucast (BlockSize E) - 136"
    using e32 by (simp add: desc_address_def sizeof_HW_IMAGE_DESCRIPTION_def ucast_of_nat64 add.commute del: of_nat_add of_nat_Suc)
      (simp add: add.commute)
qed

lemma ascii_content_copy:
  "length name < length old \<Longrightarrow> 0 \<notin> set name \<Longrightarrow> ascii_content (ascii_copy name old) = name"
  unfolding ascii_content_def ascii_copy_def by (simp, subst takeWhile_append2) auto

lemma new_desc_fields [simp]:
  "RegionCount (new_desc E name n a d) = 1" "sealed (new_desc E name n a d)"
  "FooterSignature1 (Footer (new_desc E name n a d)) = HW_IMAGE_FOOTER_SIGNATURE_1"
  "FooterSignature2 (Footer (new_desc E name n a d)) = HW_IMAGE_FOOTER_SIGNATURE_2"
  "FooterVersion (Footer (new_desc E name n a d)) = HW_IMAGE_FOOTER_VERSION2"
  "FooterOffset (Footer (new_desc E name n a d)) = HW_IMAGE_FOOTER_OFFSET2"
  by (simp_all add: new_desc_def description_for_def Let_def)

lemma new_desc_size: "desc_ok d \<Longrightarrow> RegionSize (Region (new_desc E name n a d) ! 0) = n"
  by (simp add: new_desc_def description_for_def Let_def desc_ok_def)

lemma new_desc_name:
  "desc_ok d \<Longrightarrow> length name < 32 \<Longrightarrow> 0 \<notin> set name \<Longrightarrow>
   ascii_content (Filename (Footer (new_desc E name n a d))) = name"
  by (simp add: new_desc_def description_for_def Let_def desc_ok_def ascii_content_copy)

text \<open>The test of an image accepts such a description at its last block, and leaves it as it is.\<close>

lemma IsImageValid_new_desc:
  "BlockStart (new_desc E name n a d) \<le> BlockEnd (new_desc E name n a d) \<Longrightarrow>
   BootMonFsIsImageValid True (new_desc E name n a d) (ucast (BlockEnd (new_desc E name n a d))) =
   (True, new_desc E name n a d)"
  using new_desc_fields(2) [of E name n a d]
  by (simp add: BootMonFsIsImageValid_def Let_def sealed_def image_consts)

lemma in_images: "b \<in> set (images E m) \<longleftrightarrow> b \<le> unat (LastBlock E) \<and> valid_block E m b"
  by (auto simp: images_def simp del: upt_Suc)

text \<open>
  The description of a file is on the media: the 136 bytes at the end of its last block, where a mount
  finds it as it is when the lowest aligned block is 0.
\<close>

definition described :: "'d FsEnv \<Rightarrow> memory \<Rightarrow> BOOTMON_FS_FILE \<Rightarrow> bool" where
  "described E m f \<longleftrightarrow> (let d = HwDescription f; b = unat (BlockEnd d) in
     b \<le> unat (LastBlock E) \<and> HwDescAddress f = (of_nat b + 1) * ucast (BlockSize E) - 136 \<and>
     peek 136 (HwDescAddress f) m = desc_bytes d \<and>
     (LowestAlignedLba E = 0 \<longrightarrow> b \<in> set (images E m) \<and>
        image_file E m b = new_file\<lparr>HwDescription := d, HwDescAddress := HwDescAddress f\<rparr>))"

lemma new_desc_described:
  assumes g: "geometry E" and n: "unat DataSize + 136 < 2 ^ 32"
    and e: "final_block E FileStart (unat DataSize) \<le> unat (LastBlock E)"
    and d: "d = new_desc E name DataSize FileStart old" and ok: "desc_ok old"
    and f: "HwDescription f = d" "HwDescAddress f = desc_address E d"
  shows "described E (poke (desc_address E d) (desc_bytes d) m) f"
proof -
  let ?e = "final_block E FileStart (unat DataSize)" and ?m = "poke (desc_address E d) (desc_bytes d) m"
  note blocks = new_desc_blocks [OF g n e, of name old, folded d]
  have okd: "desc_ok d" using ok by (simp add: d)
  have here: "peek 136 (desc_address E d) ?m = desc_bytes d"
    using okd by (simp add: peek_poke_here length_desc_bytes)
  then have bd: "block_desc E ?m ?e = d"
    using okd by (simp add: block_desc_def blocks(3) desc_roundtrip)
  have "BlockEnd d = of_nat ?e"
    using e g blocks(2) by (simp add: word_unat_eq_iff unat_of_nat geometry_def)
  then have lba: "ucast (BlockEnd d) = (of_nat ?e :: u64)"
    using e g by (simp add: geometry_def ucast_of_nat64)
  have "BlockStart d \<le> BlockEnd d"
    using blocks by (simp add: word_le_nat_alt final_block_def)
  then have "BootMonFsIsImageValid True (block_desc E ?m ?e) (of_nat ?e - LowestAlignedLba E) = (True, d)"
    if "LowestAlignedLba E = 0"
    using IsImageValid_new_desc [of E name DataSize FileStart old] that by (simp add: bd lba d [symmetric])
  then have "LowestAlignedLba E = 0 \<longrightarrow> ?e \<in> set (images E ?m) \<and>
      image_file E ?m ?e = new_file\<lparr>HwDescription := d, HwDescAddress := desc_address E d\<rparr>"
    using e by (simp add: in_images valid_block_def image_file_def blocks(3))
  then show ?thesis
    unfolding described_def Let_def f blocks(2) using e here by (simp add: blocks(3))
qed

text \<open>
  Property C15. Writing the description of a file: it lies at the end of the last block of the file, a
  later mount finds it there with the checksum it was written with, the same name, size and first
  block, and no byte of the media outside the 136 bytes of the description is changed.
\<close>
theorem WriteFileDescription_found:
  assumes fl: "flash E C" and low: "LowestAlignedLba E = 0" and al: "FileStart mod ucast (BlockSize E) = 0"
    and f: "map_of (Files s) i = Some f" and ok: "desc_ok (HwDescription f)"
    and n: "unat DataSize + 136 < 2 ^ 32" and e: "final_block E FileStart (unat DataSize) \<le> unat (LastBlock E)"
    and name: "length name < 32" "0 \<notin> set name"
  shows "\<exists>s' f'. WriteFileDescription E (File i) name DataSize FileStart s = Ret (EFI_SUCCESS, s') \<and>
    map_of (Files s') i = Some f' \<and>
    final_block E FileStart (unat DataSize) \<in> set (images E (C (Dev s'))) \<and>
    image_file E (C (Dev s')) (final_block E FileStart (unat DataSize)) =
      new_file\<lparr>HwDescription := HwDescription f', HwDescAddress := HwDescAddress f'\<rparr> \<and>
    ascii_content (Filename (Footer (HwDescription f'))) = name \<and>
    RegionSize (Region (HwDescription f') ! 0) = DataSize \<and>
    unat (BlockStart (HwDescription f')) = first_block E FileStart \<and>
    (\<forall>a. a \<notin> blk (HwDescAddress f') 136 \<longrightarrow> C (Dev s') a = C (Dev s) a)"
proof -
  let ?e = "final_block E FileStart (unat DataSize)"
  define d where "d = new_desc E name DataSize FileStart (HwDescription f)"
  have g: "geometry E" using fl by (rule flash_geometry)
  note blocks = new_desc_blocks [OF g n e, of name "HwDescription f", folded d_def]
  have okd: "desc_ok d" using ok by (simp add: d_def)
  have range: "unat (desc_address E d) + 136 \<le> media_size E"
    using block_end_address [OF g e] by (simp add: blocks(3))
  from WriteFileDescription_step [OF fl al f ok d_def range, of thesis] obtain dv where
    w: "WriteFileDescription E (File i) name DataSize FileStart s = Ret (EFI_SUCCESS, s\<lparr>Files :=
      set_file i (f\<lparr>HwDescription := d, HwDescAddress := desc_address E d\<rparr>) (Files s), Dev := dv\<rparr>)"
    and c: "C dv = poke (desc_address E d) (desc_bytes d) (C (Dev s))"
    using WriteFileDescription_step [OF fl al f ok d_def range] by metis
  define f1 where "f1 = f\<lparr>HwDescription := d, HwDescAddress := desc_address E d\<rparr>"
  then have f1: "HwDescription f1 = d" "HwDescAddress f1 = desc_address E d" by simp_all
  have "described E (C dv) f1"
    unfolding c by (rule new_desc_described [OF g n e d_def ok f1])
  then have "?e \<in> set (images E (C dv))" and "image_file E (C dv) ?e = new_file\<lparr>HwDescription := d, HwDescAddress := desc_address E d\<rparr>"
    using low unfolding described_def Let_def f1 blocks(2) by simp_all
  moreover have "a \<notin> blk (desc_address E d) 136 \<Longrightarrow> C dv a = C (Dev s) a" for a
    using okd by (simp add: c blk_iff poke_def length_desc_bytes)
  moreover have "RegionSize (Region d ! 0) = DataSize" and "ascii_content (Filename (Footer d)) = name"
    using ok name by (simp_all add: d_def new_desc_size new_desc_name)
  ultimately show ?thesis
    using w [folded f1_def] f f1 blocks(1) by (intro exI [of _ "s\<lparr>Files := set_file i f1 (Files s), Dev := dv\<rparr>"] exI [of _ f1]) simp
qed

section \<open>The space for a new file\<close>

definition on_media :: "nat \<times> BOOTMON_FS_FILE \<Rightarrow> bool" where
  "on_media p \<longleftrightarrow> RegionCount (HwDescription (snd p)) \<noteq> 0"

text \<open>The bytes of the media a file has: from \<open>lo\<close> to just before \<open>hi\<close>, whole blocks.\<close>

definition lo :: "'d FsEnv \<Rightarrow> nat \<times> BOOTMON_FS_FILE \<Rightarrow> nat" where
  "lo E p = unat (BlockStart (HwDescription (snd p))) * unat (BlockSize E)"

definition hi :: "'d FsEnv \<Rightarrow> nat \<times> BOOTMON_FS_FILE \<Rightarrow> nat" where
  "hi E p = (unat (BlockEnd (HwDescription (snd p))) + 1) * unat (BlockSize E)"

text \<open>The files lie on the media in the order of the list, one behind the other.\<close>

definition placed :: "'d FsEnv \<Rightarrow> (nat \<times> BOOTMON_FS_FILE) list \<Rightarrow> bool" where
  "placed E fs \<longleftrightarrow> sorted_wrt (\<lambda>p q. hi E p \<le> lo E q) fs \<and>
     (\<forall>p \<in> set fs. BlockStart (HwDescription (snd p)) \<le> BlockEnd (HwDescription (snd p)) \<and>
        unat (BlockEnd (HwDescription (snd p))) \<le> unat (LastBlock E))"

text \<open>\<open>n\<close> bytes from \<open>a\<close> on are inside the media and belong to no file.\<close>

definition free :: "'d FsEnv \<Rightarrow> (nat \<times> BOOTMON_FS_FILE) list \<Rightarrow> nat \<Rightarrow> nat \<Rightarrow> bool" where
  "free E fs a n \<longleftrightarrow> a + n \<le> media_size E \<and> (\<forall>p \<in> set fs. hi E p \<le> a \<or> a + n \<le> lo E p)"

lemma find_gap_stored: "find_gap bs n start fs = find_gap bs n start (filter on_media fs)"
  by (induction fs arbitrary: start) (auto simp: on_media_def Let_def)

lemma unat_lo: "unat (ucast (BlockStart (HwDescription (snd p))) * ucast (BlockSize E) :: u64) = lo E p"
proof -
  have "unat (BlockStart (HwDescription (snd p))) * unat (BlockSize E) < 2 ^ 32 * 2 ^ 32"
    by (rule mult_strict_mono) simp_all
  then show ?thesis
    by (subst unat_word_ariths) (simp add: lo_def)
qed

lemma unat_hi:
  assumes "geometry E" and "unat (BlockEnd (HwDescription (snd p))) \<le> unat (LastBlock E)"
  shows "unat (ucast (BlockEnd (HwDescription (snd p)) + 1) * ucast (BlockSize E) :: u64) = hi E p"
    and "hi E p \<le> media_size E"
proof -
  let ?b = "BlockEnd (HwDescription (snd p))"
  show le: "hi E p \<le> media_size E"
    using assms(2) by (simp add: hi_def media_size_def)
  have "unat (?b + 1) = unat ?b + 1"
    using assms by (intro trans [OF iffD1 [OF unat_add_lem]]) (simp_all add: geometry_def)
  moreover have "hi E p < 2 ^ 64"
    using le assms(1) by (simp add: geometry_def)
  ultimately show "unat (ucast (?b + 1) * ucast (BlockSize E) :: u64) = hi E p"
    by (subst unat_word_ariths) (simp add: hi_def)
qed

lemma lo_le_hi: "BlockStart (HwDescription (snd p)) \<le> BlockEnd (HwDescription (snd p)) \<Longrightarrow> lo E p \<le> hi E p"
  unfolding lo_def hi_def word_le_nat_alt by (rule mult_right_mono) simp_all

lemma lo_less_hi:
  assumes "geometry E" and "BlockStart (HwDescription (snd p)) \<le> BlockEnd (HwDescription (snd p))"
  shows "lo E p < hi E p"
  unfolding lo_def hi_def
  by (rule mult_strict_right_mono) (use assms in \<open>simp_all add: geometry_def word_le_nat_alt\<close>)

lemma unat_media_size: "geometry E \<Longrightarrow> unat ((LastBlock E + 1) * ucast (BlockSize E) :: u64) = media_size E"
  using block_end_address(3) [of E "unat (LastBlock E)"] unfolding geometry_def
  by (subst unat_word_ariths, subst iffD1 [OF unat_add_lem]) (simp_all add: media_size_def)

lemma find_gap_first:
  assumes g: "geometry E"
  shows "placed E fs \<Longrightarrow> list_all on_media fs \<Longrightarrow> \<forall>q \<in> set fs. unat start \<le> lo E q \<Longrightarrow>
    unat start \<le> media_size E \<Longrightarrow> unat (BlockSize E) dvd unat start \<Longrightarrow>
    find_gap (ucast (BlockSize E)) n start fs = (r, st) \<Longrightarrow>
    unat (BlockSize E) dvd unat st \<and> unat start \<le> unat st \<and> unat st \<le> media_size E \<and>
    (\<forall>a \<ge> unat start. a < unat st \<longrightarrow> \<not> free E fs a (unat n)) \<and>
    (case r of None \<Rightarrow> \<forall>q \<in> set fs. hi E q \<le> unat st
     | Some j \<Rightarrow> \<exists>pre f post. fs = pre @ (j, f) # post \<and> (\<forall>q \<in> set pre. hi E q \<le> unat st) \<and>
         unat st + unat n \<le> lo E (j, f))"
proof (induction fs arbitrary: start)
  case (Cons p fs)
  obtain j f where p: "p = (j, f)" by (cases p)
  define gap where "gap = ucast (BlockStart (HwDescription f)) * ucast (BlockSize E) - start"
  have lo: "unat (ucast (BlockStart (HwDescription f)) * ucast (BlockSize E) :: u64) = lo E p"
    using unat_lo [of p E] by (simp add: p)
  have gap: "unat gap = lo E p - unat start"
    using Cons.prems(3) lo unfolding gap_def by (subst unat_sub) (simp_all add: word_le_nat_alt)
  have b: "unat (BlockEnd (HwDescription (snd p))) \<le> unat (LastBlock E)"
    using Cons.prems(1) by (simp add: placed_def)
  note hi = unat_hi [OF g b]
  show ?case
  proof (cases "n \<le> gap")
    case True
    then have "r = Some j" "st = start"
      using Cons.prems by (simp_all add: p on_media_def gap_def)
    moreover have "unat start + unat n \<le> lo E p"
      using True gap Cons.prems(3) by (auto simp: word_le_nat_alt)
    ultimately show ?thesis
      using Cons.prems by (auto simp: p intro!: exI [of _ "[]"])
  next
    case False
    then have rest: "find_gap (ucast (BlockSize E)) n (ucast (BlockEnd (HwDescription f) + 1) * ucast (BlockSize E)) fs = (r, st)"
      using Cons.prems by (simp add: p on_media_def gap_def)
    have "lo E p \<le> hi E p"
      using Cons.prems(1) by (intro lo_le_hi) (simp add: placed_def)
    then have start: "unat start \<le> hi E p" using Cons.prems(3) by simp
    have no: "\<not> free E (p # fs) a (unat n)" if "unat start \<le> a" "a < hi E p" for a
      using False gap that Cons.prems(3) by (auto simp: free_def word_le_nat_alt)
    have "unat (BlockSize E) dvd unat st \<and> hi E p \<le> unat st \<and> unat st \<le> media_size E \<and>
      (\<forall>a \<ge> hi E p. a < unat st \<longrightarrow> \<not> free E fs a (unat n)) \<and>
      (case r of None \<Rightarrow> \<forall>q \<in> set fs. hi E q \<le> unat st
       | Some j \<Rightarrow> \<exists>pre f post. fs = pre @ (j, f) # post \<and> (\<forall>q \<in> set pre. hi E q \<le> unat st) \<and>
           unat st + unat n \<le> lo E (j, f))"
      using Cons.IH [OF _ _ _ _ _ rest] Cons.prems hi by (simp add: p placed_def) (simp add: hi_def)
    then have ih: "unat (BlockSize E) dvd unat st" "hi E p \<le> unat st" "unat st \<le> media_size E"
      "\<And>a. hi E p \<le> a \<Longrightarrow> a < unat st \<Longrightarrow> \<not> free E fs a (unat n)"
      "case r of None \<Rightarrow> \<forall>q \<in> set fs. hi E q \<le> unat st
       | Some j \<Rightarrow> \<exists>pre f post. fs = pre @ (j, f) # post \<and> (\<forall>q \<in> set pre. hi E q \<le> unat st) \<and>
           unat st + unat n \<le> lo E (j, f)" by blast+
    have "\<not> free E (p # fs) a (unat n)" if "unat start \<le> a" "a < unat st" for a
      using no [OF that(1)] ih(4) [OF _ that(2)] by (cases "a < hi E p") (auto simp: free_def)
    moreover have "case r of None \<Rightarrow> \<forall>q \<in> set (p # fs). hi E q \<le> unat st
       | Some j \<Rightarrow> \<exists>pre f post. p # fs = pre @ (j, f) # post \<and> (\<forall>q \<in> set pre. hi E q \<le> unat st) \<and>
           unat st + unat n \<le> lo E (j, f)"
    proof (cases r)
      case (Some k)
      with ih(5) obtain pre f' post where "fs = pre @ (k, f') # post" "\<forall>q \<in> set pre. hi E q \<le> unat st"
        "unat st + unat n \<le> lo E (k, f')" by auto
      with ih(2) Some show ?thesis by (auto intro!: exI [of _ "p # pre"])
    qed (use ih in auto)
    ultimately show ?thesis
      using ih start by auto
  qed
qed auto

lemma FindSpace_run:
  "map_of (Files s) i = Some f \<Longrightarrow> RegionCount (HwDescription f) = 0 \<Longrightarrow>
   BootMonFsFindSpaceForNewFile E i n s = (case find_gap (ucast (BlockSize E)) n 0 (Files s) of
     (Some j, start) \<Rightarrow> Ret ((EFI_SUCCESS, start), s\<lparr>Files := move_before i j (Files s)\<rparr>)
   | (None, start) \<Rightarrow> Ret ((if (LastBlock E + 1) * ucast (BlockSize E) - start \<ge> n then EFI_SUCCESS
       else EFI_VOLUME_FULL, start), s))"
  by (simp add: BootMonFsFindSpaceForNewFile_def ASSERT_def)
    (simp add: ret_def split: prod.splits option.splits)

text \<open>
  Property C16. Where a new file goes: while the files on the media lie in the order of the list,
  the space found is the first free one, it starts on a block and is inside the media, and no byte of
  it belongs to a file; the volume counts as full only when no address of it would do.
\<close>
theorem FindSpaceForNewFile_first:
  assumes g: "geometry E" and pl: "placed E (filter on_media (Files s))"
    and f: "map_of (Files s) i = Some f" "RegionCount (HwDescription f) = 0"
  shows "\<exists>st start s'. BootMonFsFindSpaceForNewFile E i Needed s = Ret ((st, start), s') \<and>
    (if st = EFI_SUCCESS then unat (BlockSize E) dvd unat start \<and>
       free E (filter on_media (Files s)) (unat start) (unat Needed) \<and>
       (\<forall>a < unat start. \<not> free E (filter on_media (Files s)) a (unat Needed))
     else st = EFI_VOLUME_FULL \<and> (\<forall>a. \<not> free E (filter on_media (Files s)) a (unat Needed)))"
proof -
  let ?fs = "filter on_media (Files s)"
  obtain r start where fg: "find_gap (ucast (BlockSize E)) Needed 0 ?fs = (r, start)" by fastforce
  have ff: "find_gap (ucast (BlockSize E)) Needed 0 (Files s) = (r, start)"
    by (subst find_gap_stored) (rule fg)
  have first: "unat (BlockSize E) dvd unat start" "unat start \<le> media_size E"
    "\<And>a. a < unat start \<Longrightarrow> \<not> free E ?fs a (unat Needed)"
    "case r of None \<Rightarrow> \<forall>q \<in> set ?fs. hi E q \<le> unat start
     | Some j \<Rightarrow> \<exists>pre f post. ?fs = pre @ (j, f) # post \<and> (\<forall>q \<in> set pre. hi E q \<le> unat start) \<and>
         unat start + unat Needed \<le> lo E (j, f)"
    using find_gap_first [OF g pl _ _ _ _ fg] by (simp_all add: list_all_iff)
  show ?thesis
  proof (cases r)
    case None
    have "unat ((LastBlock E + 1) * ucast (BlockSize E) - start) = media_size E - unat start"
      using first(2) unat_media_size [OF g] by (subst unat_sub) (simp_all add: word_le_nat_alt)
    then have space: "Needed \<le> (LastBlock E + 1) * ucast (BlockSize E) - start \<longleftrightarrow> unat start + unat Needed \<le> media_size E"
      using first(2) by (auto simp: word_le_nat_alt)
    have "free E ?fs (unat start) (unat Needed)" if "unat start + unat Needed \<le> media_size E"
      using that first(4) None by (auto simp: free_def)
    moreover have "\<not> free E ?fs a (unat Needed)" if "\<not> unat start + unat Needed \<le> media_size E" for a
      using that first(3) [of a] by (cases "a < unat start") (auto simp: free_def)
    ultimately show ?thesis
      using None first(1,3) by (auto simp: FindSpace_run [OF f] ff space)
  next
    case (Some j)
    with first(4) obtain pre g post where split: "?fs = pre @ (j, g) # post"
      "\<forall>q \<in> set pre. hi E q \<le> unat start" "unat start + unat Needed \<le> lo E (j, g)" by auto
    have in_fs: "(j, g) \<in> set ?fs" unfolding split by simp
    then have le: "lo E (j, g) \<le> hi E (j, g)"
      using pl unfolding placed_def by (intro lo_le_hi) blast
    have "hi E (j, g) \<le> media_size E"
      using pl in_fs unfolding placed_def by (intro unat_hi(2) [OF assms(1)]) blast
    moreover have "\<forall>q \<in> set post. hi E (j, g) \<le> lo E q"
      using pl unfolding placed_def split by (simp add: sorted_wrt_append)
    ultimately have "free E ?fs (unat start) (unat Needed)"
      using split(2,3) le unfolding free_def split(1) by fastforce
    then show ?thesis
      using Some first(1,3) by (auto simp: FindSpace_run [OF f] ff)
  qed
qed

section \<open>A new file on its way to the media\<close>

text \<open>
  A volume with a new file \<open>i\<close> in front, as \<open>BootMonFsOpenFile\<close> leaves it, and all other files in their
  places on the media.
\<close>

definition new_in_front :: "'d FsEnv \<Rightarrow> nat \<Rightarrow> BOOTMON_FS_FILE \<Rightarrow> (nat \<times> BOOTMON_FS_FILE) list \<Rightarrow> 'd FsState \<Rightarrow> bool" where
  "new_in_front E i f others s \<longleftrightarrow> Files s = (i, f) # others \<and> distinct (i # map fst others) \<and>
     list_all on_media others \<and> placed E others \<and>
     RegionCount (HwDescription f) = 0 \<and> HwDescAddress f = 0 \<and> desc_ok (HwDescription f) \<and>
     RegionSize (Region (HwDescription f) ! 0) = 0"

lemma next_in_list_middle: "i \<notin> fst ` set pre \<Longrightarrow> next_in_list i (pre @ (i, f) # (j, g) # post) = Some (j, g)"
proof (induction pre)
  case (Cons p pre)
  then show ?case by (cases p; cases pre) auto
qed simp

lemma key_not_in:
  "i \<notin> fst ` set xs \<Longrightarrow> filter (\<lambda>(k, _). k \<noteq> i) xs = xs" "i \<notin> fst ` set xs \<Longrightarrow> filter (\<lambda>(k, _). k = i) xs = []"
  "i \<notin> fst ` set xs \<Longrightarrow> takeWhile (\<lambda>(k, _). k \<noteq> i) (xs @ ys) = xs @ takeWhile (\<lambda>(k, _). k \<noteq> i) ys"
  "i \<notin> fst ` set xs \<Longrightarrow> dropWhile (\<lambda>(k, _). k \<noteq> i) (xs @ ys) = dropWhile (\<lambda>(k, _). k \<noteq> i) ys"
  by (induction xs) auto

lemma move_before_front:
  assumes "distinct (i # map fst (pre @ (j, g) # post))"
  shows "move_before i j ((i, f) # pre @ (j, g) # post) = pre @ (i, f) # (j, g) # post"
  using assms by (simp add: move_before_def key_not_in)

text \<open>The space found for the file is large enough also in the test of the flush.\<close>

lemma FindSpace_has_space:
  assumes g: "geometry E" and nf: "new_in_front E i f others s"
    and room: "\<exists>a. free E others a (unat N)" and N: "136 \<le> unat N" "unat N < 2 ^ 32"
  obtains start s1 where "BootMonFsFindSpaceForNewFile E i N s = Ret ((EFI_SUCCESS, start), s1)"
    and "(\<forall>q \<in> set others. hi E q \<le> unat start) \<longrightarrow> Files s1 = Files s" and "Dev s1 = Dev s"
    and "map_of (Files s1) i = Some f" and "has_space E i f start N (Files s1)"
    and "unat (BlockSize E) dvd unat start" and "free E others (unat start) (unat N)"
proof -
  have files: "Files s = (i, f) # others" and new: "RegionCount (HwDescription f) = 0"
    and dist: "distinct (i # map fst others)" and pl: "placed E others" and onm: "list_all on_media others"
    using nf by (simp_all add: new_in_front_def)
  have stored: "filter on_media (Files s) = others"
    using onm new by (simp add: files on_media_def [of "(i, f)"] list_all_iff)
  have f: "map_of (Files s) i = Some f" by (simp add: files)
  obtain st start s1 where run: "BootMonFsFindSpaceForNewFile E i N s = Ret ((st, start), s1)"
    and ok: "if st = EFI_SUCCESS then unat (BlockSize E) dvd unat start \<and> free E others (unat start) (unat N) \<and>
       (\<forall>a < unat start. \<not> free E others a (unat N))
     else st = EFI_VOLUME_FULL \<and> (\<forall>a. \<not> free E others a (unat N))"
    using FindSpaceForNewFile_first [OF g _ f new, of N] pl unfolding stored by blast
  then have st: "st = EFI_SUCCESS" and al: "unat (BlockSize E) dvd unat start" and fr: "free E others (unat start) (unat N)"
    using room by (auto split: if_splits)
  obtain r where fg: "find_gap (ucast (BlockSize E)) N 0 others = (r, start)"
    and s1: "s1 = (case r of None \<Rightarrow> s | Some j \<Rightarrow> s\<lparr>Files := move_before i j (Files s)\<rparr>)"
    using run new by (auto simp: FindSpace_run [OF f new] files split: prod.splits option.splits)
  show ?thesis
  proof (rule that)
    show "BootMonFsFindSpaceForNewFile E i N s = Ret ((EFI_SUCCESS, start), s1)"
      using run st by simp
    show "Dev s1 = Dev s"
      using s1 by (auto split: option.splits)
    show "(\<forall>q \<in> set others. hi E q \<le> unat start) \<longrightarrow> Files s1 = Files s"
    proof
      assume last: "\<forall>q \<in> set others. hi E q \<le> unat start"
      show "Files s1 = Files s"
      proof (cases r)
        case (Some j)
        obtain pre h post where split: "others = pre @ (j, h) # post" and gap: "unat start + unat N \<le> lo E (j, h)"
          using find_gap_first [OF g pl onm _ _ _ fg] Some by auto
        have "lo E (j, h) < hi E (j, h)"
          using pl by (intro lo_less_hi [OF g]) (simp add: split placed_def)
        moreover have "hi E (j, h) \<le> unat start" using last by (simp add: split)
        ultimately show ?thesis using gap by simp
      qed (simp add: s1)
    qed
    show "unat (BlockSize E) dvd unat start" "free E others (unat start) (unat N)" by (rule al fr)+
    have "map_of (Files s1) i = Some f \<and> has_space E i f start N (Files s1)"
    proof (cases r)
      case (Some j)
      obtain pre h post where split: "others = pre @ (j, h) # post" and gap: "unat start + unat N \<le> lo E (j, h)"
        using find_gap_first [OF g pl onm _ _ _ fg] Some by auto
      have moved: "Files s1 = pre @ (i, f) # (j, h) # post"
        using s1 Some move_before_front dist by (simp add: files split)
      have i: "i \<notin> fst ` set pre" using dist split by auto
      then have "map_of pre i = None" by (simp add: map_of_eq_None_iff)
      moreover have "unat (ucast (BlockStart (HwDescription h)) * ucast (BlockSize E) - start) = lo E (j, h) - unat start"
        using gap unat_lo [of "(j, h)" E] by (subst unat_sub) (simp_all add: word_le_nat_alt)
      ultimately show ?thesis
        using gap by (simp add: moved has_space_def next_in_list_middle i word_le_nat_alt map_add_def)
          linarith
    next
      case None
      have le: "unat start + unat N \<le> media_size E" and m63: "media_size E \<le> 2 ^ 63"
        using fr g by (simp_all add: free_def geometry_def)
      have s1': "s1 = s" using s1 None by simp
      have media: "unat ((LastBlock E + 1) * ucast (BlockSize E) - start) = media_size E - unat start"
        using le unat_media_size [OF g] by (subst unat_sub) (simp_all add: word_le_nat_alt)
      have "has_space E i f start N ((i, f) # others)"
      proof (cases others)
        case Nil
        then show ?thesis using le media by (auto simp: has_space_def word_le_nat_alt)
      next
        case (Cons q qs)
        define gap where "gap = ucast (BlockStart (HwDescription (snd q))) * ucast (BlockSize E) - start"
        have "hi E q \<le> unat start"
          using find_gap_first [OF g pl onm _ _ _ fg] None Cons by simp
        moreover have "lo E q < hi E q"
          using pl by (intro lo_less_hi [OF g]) (simp add: Cons placed_def)
        ultimately have lt: "lo E q < unat start" by simp
        then have "unat gap = 2 ^ 64 + lo E q - unat start"
          unfolding gap_def by (subst unat_sub_if_size) (simp add: unat_lo word_size)
        then have "N \<le> gap" using le m63 N(2) lt by (simp add: word_le_nat_alt)
        then show ?thesis by (cases q) (simp add: has_space_def Cons gap_def)
      qed
      then show ?thesis by (simp add: s1' files)
    qed
    then show "map_of (Files s1) i = Some f" "has_space E i f start N (Files s1)" by simp_all
  qed
qed

text \<open>The file as the caller has it: one write of \<open>data\<close> from the start, nothing of it on the media.\<close>

definition unsaved :: "'d FsEnv \<Rightarrow> BOOTMON_FS_FILE \<Rightarrow> u8 list \<Rightarrow> u8 list \<Rightarrow> bool" where
  "unsaved E f name data \<longleftrightarrow> (\<exists>info. Info f = Some info \<and> FileSize info = of_nat (length data) \<and>
     ToAscii E MAX_NAME_LENGTH (FileName info) = name) \<and> length name < 32 \<and> 0 \<notin> set name \<and>
     OpenMode f \<noteq> EFI_FILE_MODE_READ \<and>
     RegionToFlush f = [\<lparr>RBuffer = data, RSize = of_nat (length data), ROffset = 0\<rparr>] \<and>
     data \<noteq> [] \<and> length data + 136 < 2 ^ 32"

text \<open>The file is on the media with all of its data, and nothing waits to be written.\<close>

definition saved :: "'d FsEnv \<Rightarrow> ('d \<Rightarrow> memory) \<Rightarrow> nat \<Rightarrow> u8 list \<Rightarrow> u8 list \<Rightarrow> 'd FsState \<Rightarrow> bool" where
  "saved E C i name data s \<longleftrightarrow> (\<exists>f info. map_of (Files s) i = Some f \<and> Info f = Some info \<and>
     FileSize info = of_nat (length data) \<and> ToAscii E MAX_NAME_LENGTH (FileName info) = name \<and>
     OpenMode f \<noteq> EFI_FILE_MODE_READ \<and> RegionToFlush f = [] \<and>
     RegionCount (HwDescription f) \<noteq> 0 \<and> length data < 2 ^ 32 \<and>
     RegionSize (Region (HwDescription f) ! 0) = of_nat (length data) \<and>
     ascii_content (Filename (Footer (HwDescription f))) = name \<and>
     lo E (i, f) + length data \<le> media_size E \<and>
     (\<forall>k < length data. C (Dev s) (of_nat (lo E (i, f) + k)) = data ! k))"

lemma bindM_step: "m s = Ret (x, s') \<Longrightarrow> bindM m g s = g x s'"
  by (simp add: bindM_def)

lemma tryE_step: "m s = Ret (st, s') \<Longrightarrow> \<not> EFI_ERROR st \<Longrightarrow> tryE m k s = k s'"
  by (simp add: tryE_def bindM_def)

lemma flush_region_new:
  assumes fl: "flash E C" and f: "map_of (Files s) i = Some f" "HwDescAddress f = 0" "desc_ok (HwDescription f)"
    and r: "RSize r = of_nat (length data)" "ROffset r = 0" "RBuffer r = data" "data \<noteq> []" "length data + 136 < 2 ^ 32"
    and space: "has_space E i f start (of_nat (length data) + 136) (Files s)"
    and al: "unat (BlockSize E) dvd unat start"
    and range: "unat start + length data \<le> media_size E" "final_block E start (length data) \<le> unat (LastBlock E)"
    and d: "d = new_desc E name (of_nat (length data)) start (HwDescription f)"
  obtains d' where "flush_regions E i name start start [r] s = Ret (EFI_SUCCESS, s\<lparr>Files :=
      set_file i (f\<lparr>HwDescription := d, HwDescAddress := desc_address E d\<rparr>) (Files s), Dev := d'\<rparr>)"
    and "C d' = poke (desc_address E d) (desc_bytes d) (poke start data (C (Dev s)))"
proof -
  let ?n = "length data"
  have g: "geometry E" using fl by (rule flash_geometry)
  have n: "unat (of_nat ?n :: u64) = ?n" "unat (of_nat ?n :: u32) = ?n"
    using r(5) by (simp_all add: unat_of_nat)
  have nz: "(of_nat ?n :: u64) \<noteq> 0" using n(1) r(4) by auto
  have wrap: "\<not> start + of_nat ?n < start"
    using range(1) g n(1) by (simp add: word_less_nat_alt geometry_def iffD1 [OF unat_add_lem])
  obtain d1 where d1: "WriteDisk E (MediaId E) start data (Dev s) = (EFI_SUCCESS, d1)" "C d1 = poke start data (C (Dev s))"
    using flash_write [OF fl range(1), of "Dev s"] by metis
  have mod: "start mod ucast (BlockSize E) = 0"
    using al by (simp add: word_unat_eq_iff unat_mod)
  have dr: "unat (desc_address E d) + 136 \<le> media_size E"
    using new_desc_blocks(3) [OF g, of "of_nat ?n" start name "HwDescription f"] r(5) range(2) n(2)
      block_end_address [OF g, of "final_block E start ?n"] by (simp add: d)
  have f1: "map_of (Files (s\<lparr>Dev := d1\<rparr>)) i = Some f" using f(1) by simp
  obtain d2 where w: "WriteFileDescription E (File i) name (of_nat ?n) start (s\<lparr>Dev := d1\<rparr>) = Ret (EFI_SUCCESS, s\<lparr>Files :=
      set_file i (f\<lparr>HwDescription := d, HwDescAddress := desc_address E d\<rparr>) (Files s), Dev := d2\<rparr>)"
    and c: "C d2 = poke (desc_address E d) (desc_bytes d) (C d1)"
    using WriteFileDescription_step [OF fl mod f1 f(3) d dr] by auto
  have "ucast (of_nat ?n :: u64) = (of_nat ?n :: u32)"
    using n r(5) by (simp add: word_unat_eq_iff unat_ucast_u32)
  then have "flush_regions E i name start start [r] s = Ret (EFI_SUCCESS, s\<lparr>Files :=
      set_file i (f\<lparr>HwDescription := d, HwDescAddress := desc_address E d\<rparr>) (Files s), Dev := d2\<rparr>)"
    using r nz wrap f space d1(1) w n(1)
    by (simp add: sizeof_HW_IMAGE_DESCRIPTION_def tryE_def bindM_assoc bindM_step Let_def ret_def cong: if_cong)
  with c d1(2) show ?thesis by (intro that) simp_all
qed

lemma poke_at:
  assumes "a + length bs \<le> 2 ^ 64" and "x < 2 ^ 64" and "unat (b :: u64) = a" and "unat (y :: u64) = x"
  shows "poke b bs m y = (if a \<le> x \<and> x < a + length bs then bs ! (x - a) else m y)"
proof (cases "a \<le> x")
  case True
  then have "unat (y - b) = x - a"
    using assms by (subst unat_sub) (simp_all add: word_le_nat_alt)
  then show ?thesis using True by (auto simp: poke_def)
next
  case False
  then have "unat (y - b) = 2 ^ 64 + x - a"
    using assms by (subst unat_sub_if_size) (simp add: word_size)
  moreover have "\<not> 2 ^ 64 + x - a < length bs" using assms(1) by linarith
  ultimately show ?thesis using False by (simp add: poke_def)
qed

text \<open>
  Where the description comes to lie. When the data and the description fill their blocks exactly, the
  last block is one further than needed: \<open>block_left\<close> says that there is one on the media.
\<close>

definition block_left :: "'d FsEnv \<Rightarrow> (nat \<times> BOOTMON_FS_FILE) list \<Rightarrow> nat \<Rightarrow> bool" where
  "block_left E fs n \<longleftrightarrow> n mod unat (BlockSize E) \<noteq> 0 \<or> (\<forall>a. free E fs a n \<longrightarrow> a + n < media_size E)"

lemma final_block_bounds:
  assumes g: "geometry E" and al: "unat (BlockSize E) dvd unat start"
  shows "(n + 136) mod unat (BlockSize E) \<noteq> 0 \<Longrightarrow> unat start + n + 136 \<le> m * unat (BlockSize E) \<Longrightarrow> final_block E start n < m"
    and "unat start + n + 136 \<le> (final_block E start n + 1) * unat (BlockSize E)"
    and "first_block E start * unat (BlockSize E) = unat start"
    and "unat start + n + 136 < m * unat (BlockSize E) \<Longrightarrow> final_block E start n < m"
proof -
  let ?B = "unat (BlockSize E)"
  show start: "first_block E start * ?B = unat start"
    using al by (simp add: first_block_def)
  have dm: "(n + 136) div ?B * ?B + (n + 136) mod ?B = n + 136" by simp
  then have e: "final_block E start n * ?B + (n + 136) mod ?B = unat start + n + 136"
    using start by (simp add: final_block_def distrib_right)
  have less: "final_block E start n < m" if "final_block E start n * ?B < m * ?B"
    using that by simp
  show "(n + 136) mod ?B \<noteq> 0 \<Longrightarrow> unat start + n + 136 \<le> m * ?B \<Longrightarrow> final_block E start n < m"
    using e by (intro less) linarith
  show "unat start + n + 136 < m * ?B \<Longrightarrow> final_block E start n < m"
    using e by (intro less) linarith
  have "(n + 136) mod ?B < ?B" using g by (simp add: geometry_def)
  then show "unat start + n + 136 \<le> (final_block E start n + 1) * ?B"
    using e by (simp add: distrib_right)
qed

lemma final_block_on_media:
  assumes g: "geometry E" and al: "unat (BlockSize E) dvd unat start"
    and fr: "free E others (unat start) (n + 136)" and left: "block_left E others (n + 136)"
  shows "final_block E start n \<le> unat (LastBlock E)"
proof -
  have media: "media_size E = (unat (LastBlock E) + 1) * unat (BlockSize E)" by (simp add: media_size_def)
  have "final_block E start n < unat (LastBlock E) + 1"
  proof (cases "(n + 136) mod unat (BlockSize E) = 0")
    case True
    with left fr have "unat start + (n + 136) < media_size E" by (auto simp: block_left_def)
    then show ?thesis by (intro final_block_bounds(4) [OF g al]) (simp add: media)
  next
    case False
    then show ?thesis using fr by (intro final_block_bounds(1) [OF g al]) (simp_all add: free_def media)
  qed
  then show ?thesis by simp
qed

lemma new_file_bytes:
  assumes g: "geometry E" and al: "unat (BlockSize E) dvd unat start"
    and e: "final_block E start (length data) \<le> unat (LastBlock E)"
    and fr: "free E others (unat start) (length data + 136)" and bd: "length bs = 136"
    and addr: "a = (of_nat (final_block E start (length data)) + 1) * ucast (BlockSize E) - 136"
  shows "k < length data \<Longrightarrow> poke a bs (poke start data m) (of_nat (unat start + k)) = data ! k"
    and "\<not> (unat start \<le> unat x \<and> unat x < unat start + length data) \<Longrightarrow> x \<notin> blk a 136 \<Longrightarrow>
      poke a bs (poke start data m) x = m x"
    and "q \<in> set others \<Longrightarrow> lo E q \<le> unat x \<Longrightarrow> unat x < hi E q \<Longrightarrow>
      (length data + 136) mod unat (BlockSize E) \<noteq> 0 \<Longrightarrow> poke a bs (poke start data m) x = m x"
proof -
  let ?B = "unat (BlockSize E)" and ?e = "final_block E start (length data)"
  have room: "unat start + length data + 136 \<le> media_size E" and m63: "media_size E \<le> 2 ^ 63"
    using fr g by (simp_all add: free_def geometry_def)
  note bounds = final_block_bounds [OF g al]
  note block = block_end_address [OF g e, folded addr]
  have a: "unat a = (?e + 1) * ?B - 136" "unat a + 136 \<le> media_size E" "unat start + length data \<le> unat a"
    using block bounds(2) [of "length data"] by simp_all
  note pokes = poke_at [of "unat a" bs _ a _ "poke start data m"] poke_at [of "unat start" data _ start _ m]
  show "k < length data \<Longrightarrow> poke a bs (poke start data m) (of_nat (unat start + k)) = data ! k"
    using a room m63 bd
    by (subst pokes(1) [of "unat start + k"], simp_all add: unat_of_nat del: of_nat_add)
      (subst pokes(2) [of "unat start + k"], simp_all add: unat_of_nat del: of_nat_add)
  have frame: "poke a bs (poke start data m) x = m x"
    if "unat x < unat start \<or> unat start + length data \<le> unat x" "unat x < unat a \<or> unat a + 136 \<le> unat x" for x
    using that a room m63 bd unsigned_less [of x]
    by (subst pokes(1), simp_all) (subst pokes(2), auto)
  have far: "unat x < unat a \<or> unat a + 136 \<le> unat x" if "x \<notin> blk a 136" for x
  proof (rule ccontr)
    assume "\<not> ?thesis"
    then have "unat a \<le> unat x" "unat x < unat a + 136" by simp_all
    then have "unat (x - a) < 136" by (subst unat_sub) (simp_all add: word_le_nat_alt)
    with that show False by (simp add: blk_iff)
  qed
  show "poke a bs (poke start data m) x = m x"
    if "\<not> (unat start \<le> unat x \<and> unat x < unat start + length data)" "x \<notin> blk a 136"
    using that(1) by (intro frame far [OF that(2)]) linarith
  assume q: "q \<in> set others" "lo E q \<le> unat x" "unat x < hi E q" and part: "(length data + 136) mod ?B \<noteq> 0"
  then have "hi E q \<le> unat start \<or> unat start + length data + 136 \<le> lo E q"
    using fr by (auto simp: free_def)
  then have out: "unat x < unat start \<or> (?e + 1) * ?B \<le> unat x"
  proof
    assume "unat start + length data + 136 \<le> lo E q"
    then have "?e < unat (BlockStart (HwDescription (snd q)))"
      by (intro bounds(1) [OF part]) (simp add: lo_def)
    then have "(?e + 1) * ?B \<le> lo E q"
      unfolding lo_def by (intro mult_right_mono) simp_all
    with q show ?thesis by simp
  qed (use q in simp)
  then show "poke a bs (poke start data m) x = m x"
    using a block(2) by (intro frame) linarith+
qed

text \<open>What the file is once it is flushed.\<close>

definition flushed_file :: "'d FsEnv \<Rightarrow> HW_IMAGE_DESCRIPTION \<Rightarrow> BOOTMON_FS_FILE \<Rightarrow> BOOTMON_FS_FILE" where
  "flushed_file E d f = f\<lparr>HwDescription := d, HwDescAddress := desc_address E d, RegionToFlush := [],
     Info := map_option (PhysicalSize_update (\<lambda>_. BootMonFsGetPhysicalSize E (f\<lparr>HwDescription := d\<rparr>))) (Info f)\<rparr>"

lemma GetPhysicalSize_cong: "HwDescription f = HwDescription g \<Longrightarrow> BootMonFsGetPhysicalSize E f = BootMonFsGetPhysicalSize E g"
  by (simp add: BootMonFsGetPhysicalSize_def)

lemma flush_body_new:
  assumes fl: "flash E C" and f: "map_of (Files s) i = Some f" "HwDescAddress f = 0" "desc_ok (HwDescription f)"
    "RegionSize (Region (HwDescription f) ! 0) = 0"
    and un: "unsaved E f name data" "Info f = Some info"
    and space: "has_space E i f start (of_nat (length data) + 136) (Files s)"
    and al: "unat (BlockSize E) dvd unat start"
    and range: "unat start + length data \<le> media_size E" "final_block E start (length data) \<le> unat (LastBlock E)"
    and d: "d = new_desc E name (of_nat (length data)) start (HwDescription f)"
  obtains d' where "flush_body E i info start s =
      Ret (EFI_SUCCESS, s\<lparr>Files := set_file i (flushed_file E d f) (Files s), Dev := d'\<rparr>)"
    and "C d' = poke (desc_address E d) (desc_bytes d) (poke start data (C (Dev s)))"
proof -
  have size: "FileSize info = of_nat (length data)" "ToAscii E MAX_NAME_LENGTH (FileName info) = name"
    and name: "length name < 32" "0 \<notin> set name" and n: "length data + 136 < 2 ^ 32" "data \<noteq> []"
    using un by (auto simp: unsaved_def)
  define reg where "reg = \<lparr>RBuffer = data, RSize = of_nat (length data), ROffset = (0 :: u64)\<rparr>"
  have regs: "RegionToFlush f = [reg]" "RSize reg = of_nat (length data)" "ROffset reg = 0" "RBuffer reg = data"
    using un(1) by (simp_all add: unsaved_def reg_def)
  obtain d1 where r: "flush_regions E i name start start (RegionToFlush f) s = Ret (EFI_SUCCESS, s\<lparr>Files :=
      set_file i (f\<lparr>HwDescription := d, HwDescAddress := desc_address E d\<rparr>) (Files s), Dev := d1\<rparr>)"
    and c1: "C d1 = poke (desc_address E d) (desc_bytes d) (poke start data (C (Dev s)))"
    unfolding regs(1) by (rule flush_region_new [OF fl f(1-3) regs(2-4) n(2,1) space al range d]) (rule that [unfolded regs(1)])
  obtain d2 where d2: "FlushBlocks E d1 = ((), d2)" "C d2 = C d1"
    using flash_flush [OF fl] by metis
  have "ucast (of_nat (length data) :: u32) = (of_nat (length data) :: u64)"
    using n(1) by (simp add: ucast_of_nat64)
  moreover have "BootMonFsGetPhysicalSize E (f\<lparr>HwDescription := d, HwDescAddress := desc_address E d, RegionToFlush := []\<rparr>)
      = BootMonFsGetPhysicalSize E (f\<lparr>HwDescription := d\<rparr>)" by (rule GetPhysicalSize_cong) simp
  moreover have "ascii_content (Filename (Footer d)) = name" "RegionSize (Region d ! 0) = of_nat (length data)"
    using name f(3) by (simp_all add: d new_desc_name new_desc_size)
  ultimately have "flush_body E i info start s =
      Ret (EFI_SUCCESS, s\<lparr>Files := set_file i (flushed_file E d f) (Files s), Dev := d2\<rparr>)"
    using f(1,4) size r d2(1)
    by (simp add: flush_body_def Let_def tryE_step [where s = s, of "flush_regions E i name start start (RegionToFlush f)", OF r] flushed_file_def un(2))
      (simp add: tryE_def, simp add: ret_def)
  with d2(2) c1 show ?thesis by (intro that) simp_all
qed

lemma flush_new:
  assumes fl: "flash E C" and nf: "new_in_front E i f others s" and un: "unsaved E f name data"
    and room: "\<exists>a. free E others a (length data + 136)" and left: "block_left E others (length data + 136)"
  obtains s' g files and start :: u64 where "BootMonFsFlushFile E (Some i) s = Ret (EFI_SUCCESS, s')"
    and "free E others (unat start) (length data + 136)" and "lo E (i, g) = unat start"
    and "Files s' = set_file i g files" and "map_of files i = Some f" and "RegionCount (HwDescription g) = 1"
    and "(\<forall>q \<in> set others. hi E q \<le> unat start) \<longrightarrow> files = Files s"
    and "saved E C i name data s'" and "described E (C (Dev s')) g"
    and "\<forall>x. \<not> (unat start \<le> unat x \<and> unat x < unat start + length data) \<and> x \<notin> blk (HwDescAddress g) 136 \<longrightarrow>
      C (Dev s') x = C (Dev s) x"
    and "(length data + 136) mod unat (BlockSize E) \<noteq> 0 \<longrightarrow>
      (\<forall>q \<in> set others. \<forall>x. lo E q \<le> unat x \<and> unat x < hi E q \<longrightarrow> C (Dev s') x = C (Dev s) x)"
proof -
  let ?n = "length data"
  have g: "geometry E" using fl by (rule flash_geometry)
  obtain info where info: "Info f = Some info" "FileSize info = of_nat ?n" "ToAscii E MAX_NAME_LENGTH (FileName info) = name"
    and mode: "OpenMode f \<noteq> EFI_FILE_MODE_READ" and n32: "?n + 136 < 2 ^ 32" and name: "length name < 32" "0 \<notin> set name"
    using un by (auto simp: unsaved_def)
  have N: "unat (of_nat ?n + 136 :: u64) = ?n + 136"
    using n32 by (simp add: unat_word_ariths unat_of_nat)
  have f: "map_of (Files s) i = Some f" "RegionCount (HwDescription f) = 0" "HwDescAddress f = 0" "desc_ok (HwDescription f)"
    "RegionSize (Region (HwDescription f) ! 0) = 0"
    using nf by (simp_all add: new_in_front_def)
  obtain start s1 where find: "BootMonFsFindSpaceForNewFile E i (of_nat ?n + 136) s = Ret ((EFI_SUCCESS, start), s1)"
    and last: "(\<forall>q \<in> set others. hi E q \<le> unat start) \<longrightarrow> Files s1 = Files s"
    and dev: "Dev s1 = Dev s" and f1: "map_of (Files s1) i = Some f"
    and space: "has_space E i f start (of_nat ?n + 136) (Files s1)"
    and al: "unat (BlockSize E) dvd unat start" and fr: "free E others (unat start) (?n + 136)"
    by (rule FindSpace_has_space [OF g nf, of "of_nat ?n + 136"]) (use room n32 N in auto)
  have e: "final_block E start ?n \<le> unat (LastBlock E)" by (rule final_block_on_media [OF g al fr left])
  have in_media: "unat start + ?n \<le> media_size E" using fr by (simp add: free_def)
  define d where "d = new_desc E name (of_nat ?n) start (HwDescription f)"
  obtain dv where run: "flush_body E i info start s1 =
      Ret (EFI_SUCCESS, s1\<lparr>Files := set_file i (flushed_file E d f) (Files s1), Dev := dv\<rparr>)"
    and c: "C dv = poke (desc_address E d) (desc_bytes d) (poke start data (C (Dev s)))"
    using flush_body_new [OF fl f1 f(3-5) un info(1) space al in_media e d_def] dev by auto
  have n: "unat (of_nat ?n :: u32) = ?n" using n32 by (simp add: unat_of_nat)
  have blocks: "unat (BlockStart d) = first_block E start"
    "desc_address E d = (of_nat (final_block E start ?n) + 1) * ucast (BlockSize E) - 136"
    using new_desc_blocks [OF g, of "of_nat ?n" start] n n32 e by (simp_all add: d_def)
  note bytes = new_file_bytes [OF g al e fr _ blocks(2), where bs = "desc_bytes d" and m = "C (Dev s)", folded c]
  have okd: "length (desc_bytes d) = 136" using f(4) by (simp add: d_def length_desc_bytes)
  have lo: "lo E (i, flushed_file E d f) = unat start"
    using final_block_bounds(3) [OF g al] by (simp add: lo_def flushed_file_def blocks)
  have sv: "saved E C i name data (s1\<lparr>Files := set_file i (flushed_file E d f) (Files s1), Dev := dv\<rparr>)"
    unfolding saved_def using f1 info mode n32 name f(4) lo in_media bytes(1) [OF okd]
    by (intro exI [of _ "flushed_file E d f"] exI [of _ "the (Info (flushed_file E d f))"])
      (simp add: flushed_file_def d_def new_desc_name new_desc_size)
  have flush: "BootMonFsFlushFile E (Some i) s =
      Ret (EFI_SUCCESS, s1\<lparr>Files := set_file i (flushed_file E d f) (Files s1), Dev := dv\<rparr>)"
    using f(1,2) info mode find run
    by (simp add: BootMonFsFlushFile_def sizeof_HW_IMAGE_DESCRIPTION_def bindM_step)
  have ff: "HwDescription (flushed_file E d f) = d" "HwDescAddress (flushed_file E d f) = desc_address E d"
    by (simp_all add: flushed_file_def)
  have "described E (C dv) (flushed_file E d f)"
    unfolding c by (rule new_desc_described [OF g _ _ d_def f(4) ff]) (use n n32 e in simp_all)
  then show ?thesis
    by (intro that [where g = "flushed_file E d f" and files = "Files s1" and start = start, OF flush fr lo _ f1 _ last sv])
      (simp_all add: ff(2) bytes(2,3) [OF okd], simp_all add: flushed_file_def d_def)
qed

text \<open>
  Property C13. Saving a new file, written in one piece under a name of less than 32 characters: when
  the volume has room for the data with its description and the other files are in order on the media,
  flushing the file succeeds. Every byte of the data is then on
  the media from the first block of the file on, in a place that was free, and its description, with the
  same size and name, at the end of its last block, where a mount finds it (on media whose lowest aligned
  block is 0); nothing waits to be written any more, and no other byte of the media has changed. The
  bytes of all other files are untouched, unless the data and the description fill their blocks exactly:
  then the last block is one too far; it has to be on the media, and may be another file's.
\<close>
theorem FlushFile_saves:
  assumes "flash E C" and "new_in_front E i f others s" and "unsaved E f name data"
    and "\<exists>a. free E others a (length data + 136)" and "block_left E others (length data + 136)"
  shows "\<exists>s' g. BootMonFsFlushFile E (Some i) s = Ret (EFI_SUCCESS, s') \<and> saved E C i name data s' \<and>
    map_of (Files s') i = Some g \<and> free E others (lo E (i, g)) (length data + 136) \<and> described E (C (Dev s')) g \<and>
    (\<forall>x. \<not> (lo E (i, g) \<le> unat x \<and> unat x < lo E (i, g) + length data) \<and> x \<notin> blk (HwDescAddress g) 136 \<longrightarrow>
      C (Dev s') x = C (Dev s) x) \<and>
    ((length data + 136) mod unat (BlockSize E) \<noteq> 0 \<longrightarrow>
      (\<forall>q \<in> set others. \<forall>x. lo E q \<le> unat x \<and> unat x < hi E q \<longrightarrow> C (Dev s') x = C (Dev s) x))"
proof -
  obtain s' g files and start :: u64 where flush: "BootMonFsFlushFile E (Some i) s = Ret (EFI_SUCCESS, s')"
    and place: "free E others (unat start) (length data + 136)" "lo E (i, g) = unat start"
    and files: "Files s' = set_file i g files" "map_of files i = Some f"
    and new: "saved E C i name data s'" "described E (C (Dev s')) g"
      "\<forall>x. \<not> (unat start \<le> unat x \<and> unat x < unat start + length data) \<and> x \<notin> blk (HwDescAddress g) 136 \<longrightarrow>
        C (Dev s') x = C (Dev s) x"
      "(length data + 136) mod unat (BlockSize E) \<noteq> 0 \<longrightarrow>
        (\<forall>q \<in> set others. \<forall>x. lo E q \<le> unat x \<and> unat x < hi E q \<longrightarrow> C (Dev s') x = C (Dev s) x)"
    by (rule flush_new [OF assms]) blast
  have "map_of (Files s') i = Some g" using files by simp
  then show ?thesis using flush place new by (intro exI [of _ s'] exI [of _ g]) simp
qed

text \<open>
  Property C39. The order of the list is lost: a new file that finds its place behind all others stays
  at the head of the list, where opening put it. The next new file that fits in front of it is then
  given the start of the media, whichever file lies there.
\<close>
theorem FlushFile_breaks_order:
  assumes fl: "flash E C" and nf: "new_in_front E i f others s" and un: "unsaved E f name data"
    and room: "\<exists>a. free E others a (length data + 136)" and part: "(length data + 136) mod unat (BlockSize E) \<noteq> 0"
    and behind: "\<forall>a. free E others a (length data + 136) \<longrightarrow> (\<forall>q \<in> set others. hi E q \<le> a)" and "others \<noteq> []"
  shows "\<exists>s' g. BootMonFsFlushFile E (Some i) s = Ret (EFI_SUCCESS, s') \<and> Files s' = (i, g) # others \<and>
    \<not> placed E (Files s') \<and>
    (\<forall>k h n. k \<notin> fst ` set (Files s') \<and> RegionCount (HwDescription h) = 0 \<and> unat n \<le> lo E (i, g) \<longrightarrow>
      (\<exists>t. BootMonFsFindSpaceForNewFile E k n (s'\<lparr>Files := (k, h) # Files s'\<rparr>) = Ret ((EFI_SUCCESS, 0), t)))"
proof -
  obtain s' g files and start :: u64 where run: "BootMonFsFlushFile E (Some i) s = Ret (EFI_SUCCESS, s')"
    and fr: "free E others (unat start) (length data + 136)" and lo: "lo E (i, g) = unat start"
    and files: "Files s' = set_file i g files" and rc: "RegionCount (HwDescription g) = 1"
    and last: "(\<forall>q \<in> set others. hi E q \<le> unat start) \<longrightarrow> files = Files s"
    by (rule flush_new [OF fl nf un room]) (use part in \<open>auto simp: block_left_def\<close>)
  have geo: "geometry E" using fl by (rule flash_geometry)
  have hi: "\<forall>q \<in> set others. hi E q \<le> unat start" using behind fr by blast
  have i: "i \<notin> fst ` set others" using nf by (simp add: new_in_front_def)
  then have "set_file i g others = others" by (induction others) (auto simp: set_file_def)
  then have list: "Files s' = (i, g) # others"
    using last hi files nf by (simp add: new_in_front_def set_file_def)
  have "\<not> placed E ((i, g) # others)"
  proof
    assume pl: "placed E ((i, g) # others)"
    obtain q qs where q: "others = q # qs" using \<open>others \<noteq> []\<close> by (cases others) auto
    have "hi E (i, g) \<le> lo E q" "lo E q \<le> hi E q" "lo E (i, g) < hi E (i, g)"
      using pl by (auto simp: q placed_def intro!: lo_le_hi lo_less_hi [OF geo])
    with hi lo show False by (simp add: q)
  qed
  moreover have "\<exists>t. BootMonFsFindSpaceForNewFile E k n (s'\<lparr>Files := (k, h) # Files s'\<rparr>) = Ret ((EFI_SUCCESS, 0), t)"
    if "RegionCount (HwDescription h) = 0" "unat n \<le> lo E (i, g)" for k h n
  proof -
    have "n \<le> ucast (BlockStart (HwDescription g)) * ucast (BlockSize E)"
      using that(2) unat_lo [of "(i, g)" E] by (simp add: word_le_nat_alt)
    then show ?thesis
      using that(1) rc by (subst FindSpace_run [where f = h]) (simp_all add: list)
  qed
  ultimately show ?thesis using run list by auto
qed

section \<open>Reading a file\<close>

text \<open>
  Where a read takes a file from, and what it needs: an open file whose bytes are there. The flush in
  front of the read is refused for a file opened for reading only, which the read ignores; for any
  other file there must be nothing left to write.
\<close>

definition file_start :: "'d FsEnv \<Rightarrow> BOOTMON_FS_FILE \<Rightarrow> u64" where
  "file_start E f = (LowestAlignedLba E + ucast (BlockStart (HwDescription f))) * ucast (BlockSize E)"

definition settled :: "'d FsEnv \<Rightarrow> BOOTMON_FS_FILE \<Rightarrow> EFI_FILE_INFO \<Rightarrow> bool" where
  "settled E f info \<longleftrightarrow> RegionToFlush f = [] \<and> RegionCount (HwDescription f) \<noteq> 0 \<and>
     ToAscii E MAX_NAME_LENGTH (FileName info) = ascii_content (Filename (Footer (HwDescription f))) \<and>
     FileSize info = ucast (RegionSize (Region (HwDescription f) ! 0))"

definition readable :: "'d FsEnv \<Rightarrow> ('d \<Rightarrow> memory) \<Rightarrow> nat \<Rightarrow> u8 list \<Rightarrow> 'd FsState \<Rightarrow> bool" where
  "readable E C i data s \<longleftrightarrow> (\<exists>f info. map_of (Files s) i = Some f \<and> Info f = Some info \<and>
     unat (FileSize info) = length data \<and> (OpenMode f = EFI_FILE_MODE_READ \<or> settled E f info) \<and>
     unat (file_start E f) + length data \<le> media_size E \<and>
     (\<forall>k < length data. C (Dev s) (file_start E f + of_nat k) = data ! k))"

text \<open>A file that has been saved can be read.\<close>

lemma saved_readable:
  assumes "LowestAlignedLba E = 0" and "saved E C i name data s"
  shows "readable E C i data s"
proof -
  obtain f info where f: "map_of (Files s) i = Some f" "Info f = Some info" "FileSize info = of_nat (length data)"
      "ToAscii E MAX_NAME_LENGTH (FileName info) = name" "RegionToFlush f = []" "RegionCount (HwDescription f) \<noteq> 0"
      "length data < 2 ^ 32" "RegionSize (Region (HwDescription f) ! 0) = of_nat (length data)"
      "ascii_content (Filename (Footer (HwDescription f))) = name" "lo E (i, f) + length data \<le> media_size E"
      "\<forall>k < length data. C (Dev s) (of_nat (lo E (i, f) + k)) = data ! k"
    using assms(2) by (auto simp: saved_def)
  have start: "unat (file_start E f) = lo E (i, f)"
    using unat_lo [of "(i, f)" E] assms(1) by (simp add: file_start_def)
  then have "file_start E f = of_nat (lo E (i, f))"
    by (simp add: start [symmetric])
  then have "file_start E f + of_nat k = of_nat (lo E (i, f) + k)" for k by simp
  with f start show ?thesis
    unfolding readable_def settled_def
    by (intro exI [of _ f] exI [of _ info]) (simp add: ucast_of_nat64 unat_of_nat)
qed

lemma flush_readable:
  assumes fl: "flash E C" and rd: "readable E C i data s" and f: "map_of (Files s) i = Some f"
  obtains st g fs d' where "BootMonFsFlushFile E (Some i) s = Ret (st, s\<lparr>Files := fs, Dev := d'\<rparr>)"
    and "map_of fs i = Some g" and "\<forall>j. j \<noteq> i \<longrightarrow> map_of fs j = map_of (Files s) j"
    and "C d' = C (Dev s)" and "readable E C i data (s\<lparr>Files := fs, Dev := d'\<rparr>)"
    and "Position g = Position f" and "HwDescription g = HwDescription f" and "Info g \<noteq> None"
    and "unat (FileSize (the (Info g))) = length data"
proof -
  obtain info where info: "Info f = Some info" "unat (FileSize info) = length data"
    and mode: "OpenMode f = EFI_FILE_MODE_READ \<or> settled E f info"
    using rd f by (auto simp: readable_def)
  show ?thesis
  proof (cases "OpenMode f = EFI_FILE_MODE_READ")
    case True
    have "BootMonFsFlushFile E (Some i) s = Ret (EFI_ACCESS_DENIED, s)"
      using f info True by (simp add: BootMonFsFlushFile_def) (simp add: ret_def)
    then show ?thesis
      using rd f info by (intro that [where g = f and fs = "Files s" and d' = "Dev s"]) simp_all
  next
    case False
    then have st: "settled E f info" using mode by simp
    obtain d' where d': "FlushBlocks E (Dev s) = ((), d')" "C d' = C (Dev s)"
      using flash_flush [OF fl] by metis
    define g where "g = f\<lparr>RegionToFlush := [], Info := map_option (PhysicalSize_update (\<lambda>_. BootMonFsGetPhysicalSize E (f\<lparr>RegionToFlush := []\<rparr>))) (Info f)\<rparr>"
    have "BootMonFsFlushFile E (Some i) s = Ret (EFI_SUCCESS, s\<lparr>Files := set_file i g (Files s), Dev := d'\<rparr>)"
      using f info(1) False st d'(1)
      by (simp add: BootMonFsFlushFile_def settled_def flush_body_def Let_def g_def tryE_def) (simp add: ret_def)
    moreover have "readable E C i data (s\<lparr>Files := set_file i g (Files s), Dev := d'\<rparr>)"
      using rd f info(1) st d'(2) unfolding readable_def
      by (intro exI [of _ g] exI [of _ "the (Info g)"]) (auto simp: g_def file_start_def settled_def)
    ultimately show ?thesis
      using d'(2) f info by (intro that [where g = g and fs = "set_file i g (Files s)"]) (simp_all add: g_def)
  qed
qed

lemma read_readable:
  assumes fl: "flash E C" and rd: "readable E C i data s" and f: "map_of (Files s) i = Some f"
  shows "\<exists>s' g. BootMonFsReadFile E (Some i) (Some n) True s =
      Ret ((if unat (Position f) \<le> length data then EFI_SUCCESS else EFI_DEVICE_ERROR,
        Some (of_nat (min (unat n) (length data - unat (Position f)))),
        take (unat n) (drop (unat (Position f)) data)), s') \<and>
    map_of (Files s') i = Some g \<and>
    unat (Position g) = unat (Position f) + min (unat n) (length data - unat (Position f)) \<and>
    HwDescription g = HwDescription f \<and> C (Dev s') = C (Dev s) \<and> readable E C i data s' \<and>
    (\<forall>j. j \<noteq> i \<longrightarrow> map_of (Files s') j = map_of (Files s) j)"
proof -
  let ?p = "unat (Position f)" and ?n = "length data"
  obtain st g fs d1 where fl1: "BootMonFsFlushFile E (Some i) s = Ret (st, s\<lparr>Files := fs, Dev := d1\<rparr>)"
    and fs: "map_of fs i = Some g" "\<forall>j. j \<noteq> i \<longrightarrow> map_of fs j = map_of (Files s) j"
    and c1: "C d1 = C (Dev s)" and rd1: "readable E C i data (s\<lparr>Files := fs, Dev := d1\<rparr>)"
    and g: "Position g = Position f" "HwDescription g = HwDescription f" "Info g \<noteq> None" "unat (FileSize (the (Info g))) = ?n"
    by (rule flush_readable [OF fl rd f])
  obtain info where info: "Info f = Some info" using rd f by (auto simp: readable_def)
  have read: "BootMonFsReadFile E (Some i) (Some n) True s =
      (if FileSize (the (Info g)) \<le> Position g then
         Ret ((if Position g > FileSize (the (Info g)) then EFI_DEVICE_ERROR else EFI_SUCCESS, Some 0, []),
           s\<lparr>Files := fs, Dev := d1\<rparr>)
       else let n = min n (FileSize (the (Info g)) - Position g);
                ((Status, bs), d2) = ReadDisk E (MediaId E) (file_start E f + Position f) n d1;
                n = (if EFI_ERROR Status then 0 else n)
            in Ret ((Status, Some n, bs), s\<lparr>Files := set_file i (g\<lparr>Position := Position g + n\<rparr>) fs, Dev := d2\<rparr>))"
    using f fs(1) info g
    by (simp add: BootMonFsReadFile_def bindM_step [where s = s, of "BootMonFsFlushFile E (Some i)", OF fl1] file_start_def Let_def
        split: prod.splits) (simp add: ret_def)
  show ?thesis
  proof (cases "?p < ?n")
    case False
    then have "FileSize (the (Info g)) \<le> Position g" "Position g > FileSize (the (Info g)) \<longleftrightarrow> \<not> ?p \<le> ?n"
      using g by (auto simp: word_le_nat_alt word_less_nat_alt)
    with False show ?thesis
      using read rd1 fs g(1,2) c1 by simp
  next
    case pos: True
    define m where "m = min (unat n) (?n - ?p)"
    have in_media: "unat (file_start E f) + ?n \<le> media_size E"
      and bytes: "\<forall>k < ?n. C (Dev s) (file_start E f + of_nat k) = data ! k"
      using rd f by (auto simp: readable_def)
    have m63: "media_size E \<le> 2 ^ 63" using flash_geometry [OF fl] by (simp add: geometry_def)
    define a where "a = file_start E f + Position f"
    have a: "unat a = unat (file_start E f) + ?p"
      using pos in_media m63 unfolding a_def by (subst iffD1 [OF unat_add_lem]) simp_all
    have rest: "unat (FileSize (the (Info g)) - Position f) = ?n - ?p"
      using pos g(4) by (subst unat_sub) (simp_all add: word_le_nat_alt)
    have "m \<le> unat n" by (simp add: m_def)
    moreover have "unat n < 2 ^ 64" using unsigned_less [of n] by simp
    ultimately have um: "unat (of_nat m :: u64) = m" by (simp add: unat_of_nat)
    then have m: "min n (FileSize (the (Info g)) - Position f) = of_nat m"
      using rest by (simp add: m_def min_def word_le_nat_alt word_unat_eq_iff)
    have in_range: "unat a + unat (of_nat m :: u64) \<le> media_size E"
      using a um in_media pos by (simp add: m_def)
    obtain d2 where disk: "ReadDisk E (MediaId E) a (of_nat m) d1 = ((EFI_SUCCESS, peek m a (C (Dev s))), d2)" "C d2 = C (Dev s)"
      using flash_read [OF fl in_range, of d1] um c1 by auto
    have data: "peek m a (C (Dev s)) = take (unat n) (drop ?p data)"
    proof (rule nth_equalityI)
      fix k assume "k < length (peek m a (C (Dev s)))"
      then have k: "k < m" "k < ?n - ?p" "k < unat n" by (simp_all add: m_def)
      have "a + of_nat k = file_start E f + of_nat (?p + k)" by (simp add: a_def)
      then show "peek m a (C (Dev s)) ! k = take (unat n) (drop ?p data) ! k"
        using k bytes by (simp add: peek_def del: of_nat_add)
    qed (simp add: m_def)
    have "\<not> FileSize (the (Info g)) \<le> Position g"
      using g pos by (simp add: word_le_nat_alt)
    then have run: "BootMonFsReadFile E (Some i) (Some n) True s = Ret ((EFI_SUCCESS, Some (of_nat m), take (unat n) (drop ?p data)),
        s\<lparr>Files := set_file i (g\<lparr>Position := Position g + of_nat m\<rparr>) fs, Dev := d2\<rparr>)"
      using read disk(1) m data g(1) by (simp add: a_def [symmetric] Let_def)
    have "unat (Position f + of_nat m) = ?p + m"
      using um pos in_media m63 by (subst iffD1 [OF unat_add_lem]) (simp_all add: m_def)
    moreover have "readable E C i data (s\<lparr>Files := set_file i (g\<lparr>Position := Position g + of_nat m\<rparr>) fs, Dev := d2\<rparr>)"
      using rd1 fs c1 disk(2) unfolding readable_def by (auto simp: file_start_def settled_def)
    ultimately show ?thesis
      using run fs g(1,2) disk(2) pos by (simp add: m_def [symmetric])
  qed
qed

text \<open>
  Property C14. Reading: from an open file whose bytes are on the media from its first block on (counted
  from the lowest aligned block), opened for reading only or with nothing left to write, a read returns
  the bytes from the current position on, as many as are asked for and the file still has, and moves the
  position behind them; at the end of the file it returns none, with success, and behind the end it
  reports a device error. The media, the rest of the file and all other files stay as they are.
\<close>
theorem ReadFile_saved:
  assumes fl: "flash E C" and rd: "readable E C i data s" and f: "map_of (Files s) i = Some f"
  shows "\<exists>s' g. BootMonFsReadFile E (Some i) (Some n) True s =
      Ret ((if unat (Position f) \<le> length data then EFI_SUCCESS else EFI_DEVICE_ERROR,
        Some (of_nat (min (unat n) (length data - unat (Position f)))),
        take (unat n) (drop (unat (Position f)) data)), s') \<and>
    map_of (Files s') i = Some g \<and>
    unat (Position g) = unat (Position f) + min (unat n) (length data - unat (Position f)) \<and>
    HwDescription g = HwDescription f \<and> C (Dev s') = C (Dev s) \<and> readable E C i data s' \<and>
    (\<forall>j. j \<noteq> i \<longrightarrow> map_of (Files s') j = map_of (Files s) j)"
  using read_readable [OF assms] .

text \<open>The position is set, also to the end of the file.\<close>

lemma SetPosition_readable:
  assumes rd: "readable E C i data s" and pos: "Pos \<noteq> 0xFFFFFFFFFFFFFFFF"
  obtains s' g where "BootMonFsSetPosition (Some i) Pos s = Ret (EFI_SUCCESS, s')" and "readable E C i data s'"
    and "map_of (Files s') i = Some g" and "Position g = Pos" and "Dev s' = Dev s"
proof -
  obtain f info where f: "map_of (Files s) i = Some f" "Info f = Some info"
    using rd by (auto simp: readable_def)
  let ?s = "s\<lparr>Files := set_file i (f\<lparr>Position := Pos\<rparr>) (Files s)\<rparr>"
  have "BootMonFsSetPosition (Some i) Pos s = Ret (EFI_SUCCESS, ?s)"
    using f pos by (simp add: BootMonFsSetPosition_def) (simp add: ret_def)
  moreover have "readable E C i data ?s"
    using rd f unfolding readable_def by (auto simp: file_start_def settled_def)
  ultimately show ?thesis using f by (intro that [where s' = ?s and g = "f\<lparr>Position := Pos\<rparr>"]) simp_all
qed

text \<open>
  Property C40. A new file, written in one piece, reads back: after it has been saved, reading from any position of the file
  returns the bytes the caller wrote, from there on, as many as asked for and left; the descriptions on
  the media are untouched by the read. It holds on media whose lowest aligned block is 0, with room for
  the file and, when data and description fill their blocks exactly, one block more.
\<close>
theorem new_file_reads_back:
  assumes fl: "flash E C" and low: "LowestAlignedLba E = 0"
    and nf: "new_in_front E i f others s" and un: "unsaved E f name data"
    and room: "\<exists>a. free E others a (length data + 136)" and left: "block_left E others (length data + 136)"
    and pos: "unat Pos \<le> length data"
  shows "\<exists>s1 s2 s3. BootMonFsFlushFile E (Some i) s = Ret (EFI_SUCCESS, s1) \<and>
    BootMonFsSetPosition (Some i) Pos s1 = Ret (EFI_SUCCESS, s2) \<and>
    BootMonFsReadFile E (Some i) (Some n) True s2 =
      Ret ((EFI_SUCCESS, Some (of_nat (min (unat n) (length data - unat Pos))), take (unat n) (drop (unat Pos) data)), s3) \<and>
    images E (C (Dev s3)) = images E (C (Dev s1))"
proof -
  obtain s1 where flush: "BootMonFsFlushFile E (Some i) s = Ret (EFI_SUCCESS, s1)" and sv: "saved E C i name data s1"
    by (rule flush_new [OF fl nf un room left])
  have "length data < 2 ^ 32" using un by (simp add: unsaved_def)
  then have "Pos \<noteq> 0xFFFFFFFFFFFFFFFF" using pos by auto
  with saved_readable [OF low sv] obtain s2 g where set: "BootMonFsSetPosition (Some i) Pos s1 = Ret (EFI_SUCCESS, s2)"
    and s2: "readable E C i data s2" "map_of (Files s2) i = Some g" "Position g = Pos" "Dev s2 = Dev s1"
    by (rule SetPosition_readable)
  from read_readable [OF fl s2(1,2), of n] show ?thesis
    using flush set s2(3,4) pos by auto
qed

end
