(* ===== verification/BootMonSim.thy ===== *)
theory BootMonSim
  imports BootMonWrite
begin

text \<open>
  Deleting files, two errors of the boot monitor file system, and a small volume of eight blocks on
  which the theorems are instantiated.
\<close>

section \<open>Deleting a file\<close>

lemma le_nat_replicate_0 [simp]: "le_nat (replicate n 0) = 0"
  by (induction n) simp_all

lemma zeros_not_valid: "\<not> fst (BootMonFsIsImageValid g (desc_of (replicate 136 0)) lba)"
  by (simp add: BootMonFsIsImageValid_def desc_of_def u32_at_def image_consts)

text \<open>The descriptions at the ends of two blocks do not meet.\<close>

lemma block_desc_other:
  assumes g: "geometry E" and b: "b \<le> unat (LastBlock E)" "b' \<le> unat (LastBlock E)" "b' \<noteq> b"
    and bs: "length bs = 136"
  shows "block_desc E (poke ((of_nat b + 1) * ucast (BlockSize E) - 136) bs m) b' = block_desc E m b'"
proof -
  let ?B = "unat (BlockSize E)"
  let ?a = "(of_nat b + 1) * ucast (BlockSize E) - 136 :: u64" and ?a' = "(of_nat b' + 1) * ucast (BlockSize E) - 136 :: u64"
  have m63: "media_size E \<le> 2 ^ 63" and B: "136 \<le> ?B" using g by (simp_all add: geometry_def)
  note ba = block_end_address [OF g b(1)] and ba' = block_end_address [OF g b(2)]
  have apart: "(b + 1) * ?B \<le> b' * ?B \<or> (b' + 1) * ?B \<le> b * ?B"
  proof (cases "b < b'")
    case True
    then show ?thesis by (intro disjI1 mult_right_mono) simp_all
  next
    case False
    with b(3) show ?thesis by (intro disjI2 mult_right_mono) simp_all
  qed
  have "peek 136 ?a' (poke ?a bs m) = peek 136 ?a' m"
  proof (rule peek_cong)
    fix i :: nat
    assume i: "i < 136"
    have y: "unat (?a' + of_nat i) = unat ?a' + i"
      using i ba' m63 by (subst iffD1 [OF unat_add_lem]) (simp_all add: unat_of_nat)
    have "unat ?a' + i < unat ?a \<or> unat ?a + 136 \<le> unat ?a' + i"
      using apart
    proof
      assume "(b + 1) * ?B \<le> b' * ?B"
      then have "(b + 1) * ?B + ?B \<le> (b' + 1) * ?B" by simp
      then show ?thesis using ba ba' B by linarith
    next
      assume "(b' + 1) * ?B \<le> b * ?B"
      then have "(b' + 1) * ?B + ?B \<le> (b + 1) * ?B" by simp
      then show ?thesis using ba ba' B i by linarith
    qed
    then show "poke ?a bs m (?a' + of_nat i) = m (?a' + of_nat i)"
      using ba ba' m63 i bs by (subst poke_at [OF _ _ refl y]) auto
  qed
  then show ?thesis by (simp add: block_desc_def)
qed

text \<open>
  Property C18. Deleting a file that is on the media: it leaves the list, exactly its image is found no
  more by a later mount, and only the bytes of its description are changed.
\<close>
theorem Delete_forgets:
  assumes fl: "flash E C" and f: "map_of (Files s) i = Some f" "Info f \<noteq> None" "RegionCount (HwDescription f) \<noteq> 0"
    and b: "b \<le> unat (LastBlock E)" "HwDescAddress f = (of_nat b + 1) * ucast (BlockSize E) - 136"
  shows "\<exists>s'. BootMonFsDelete E (Some i) s = Ret (EFI_SUCCESS, s') \<and> map_of (Files s') i = None \<and>
    images E (C (Dev s')) = filter (\<lambda>x. x \<noteq> b) (images E (C (Dev s))) \<and>
    (\<forall>a. a \<notin> blk (HwDescAddress f) 136 \<longrightarrow> C (Dev s') a = C (Dev s) a)"
proof -
  have g: "geometry E" using fl by (rule flash_geometry)
  define a where "a = HwDescAddress f"
  have range: "unat a + length (replicate 136 0 :: u8 list) \<le> media_size E"
    using block_end_address [OF g b(1)] by (simp add: a_def b(2))
  obtain d1 where d1: "Allocate E 136 (Dev s) = (True, d1)" "C d1 = C (Dev s)"
    using flash_alloc [OF fl] by metis
  obtain d2 where d2: "WriteDisk E (MediaId E) a (replicate 136 0) d1 = (EFI_SUCCESS, d2)"
      "C d2 = poke a (replicate 136 0) (C (Dev s))"
    using flash_write [OF fl range, of d1] d1(2) by metis
  define files where "files = filter (\<lambda>(k, _). k \<noteq> i) (set_file i (f\<lparr>RegionToFlush := []\<rparr>) (Files s))"
  have run: "BootMonFsDelete E (Some i) s = Ret (EFI_SUCCESS, s\<lparr>Files := files, Dev := d2\<rparr>)"
    using f d1(1) d2(1)
    by (simp add: BootMonFsDelete_def InvalidateImageDescription_def sizeof_HW_IMAGE_DESCRIPTION_def bindM_assoc
        word_gt_0 a_def ASSERT_def files_def) (simp add: ret_def)
  have "map_of files i = None"
    by (auto simp: files_def map_of_eq_None_iff)
  moreover have "valid_block E (C d2) x \<longleftrightarrow> x \<noteq> b \<and> valid_block E (C (Dev s)) x" if "x \<le> unat (LastBlock E)" for x
  proof (cases "x = b")
    case True
    have "block_desc E (C d2) b = desc_of (replicate 136 0)"
      by (simp add: block_desc_def d2(2) a_def b(2) peek_poke_here)
    then show ?thesis using True zeros_not_valid by (simp add: valid_block_def)
  next
    case False
    then have "block_desc E (C d2) x = block_desc E (C (Dev s)) x"
      unfolding d2(2) a_def b(2) using that b(1) by (intro block_desc_other [OF g]) simp_all
    then show ?thesis using False by (simp add: valid_block_def)
  qed
  then have "images E (C d2) = filter (\<lambda>x. x \<noteq> b) (images E (C (Dev s)))"
    unfolding images_def filter_filter by (intro filter_cong [OF refl]) auto
  moreover have "x \<notin> blk a 136 \<Longrightarrow> C d2 x = C (Dev s) x" for x
    by (simp add: d2(2) poke_def blk_iff)
  ultimately show ?thesis
    using run by (auto simp: a_def)
qed

section \<open>Two errors\<close>

text \<open>
  Two new files on an otherwise empty volume: the second one cannot be saved however
  large the media is, because the first one, which is not on the media yet and so counts as starting
  at block 0, is taken for the end of the space. Nothing is written.
\<close>
theorem FlushFile_two_new_files:
  assumes files: "Files s = [(k, f), (i, h)]" and "k \<noteq> i"
    and new: "RegionCount (HwDescription f) = 0" "RegionCount (HwDescription h) = 0" "BlockStart (HwDescription h) = 0"
      "RegionSize (Region (HwDescription f) ! 0) = 0"
    and un: "unsaved E f name data" and room: "of_nat (length data) + 136 \<le> (LastBlock E + 1) * ucast (BlockSize E)"
  shows "BootMonFsFlushFile E (Some k) s = Ret (EFI_VOLUME_FULL, s)"
proof -
  obtain info where info: "Info f = Some info" "FileSize info = of_nat (length data)"
    and mode: "OpenMode f \<noteq> EFI_FILE_MODE_READ" and n: "length data + 136 < 2 ^ 32" "data \<noteq> []"
    and reg: "RegionToFlush f = [\<lparr>RBuffer = data, RSize = of_nat (length data), ROffset = 0\<rparr>]"
    using un by (auto simp: unsaved_def)
  have f: "map_of (Files s) k = Some f" by (simp add: files)
  have N: "unat (of_nat (length data) :: u64) = length data" "unat (of_nat (length data) + 136 :: u64) = length data + 136"
    using n by (simp_all add: unat_word_ariths unat_of_nat)
  then have nz: "(of_nat (length data) :: u64) \<noteq> 0" and pos: "\<not> of_nat (length data) + 136 \<le> (0 :: u64)"
    using n(2) by (auto simp: word_le_nat_alt)
  have "BootMonFsFindSpaceForNewFile E k (of_nat (length data) + 136) s = Ret ((EFI_SUCCESS, 0), s)"
    using new room by (simp add: FindSpace_run [OF f] files)
  moreover have "flush_body E k info 0 s = Ret (EFI_VOLUME_FULL, s)"
    using new nz pos f
    by (simp add: flush_body_def reg sizeof_HW_IMAGE_DESCRIPTION_def has_space_def files BootMonFsGetPhysicalSize_def
        tryE_def bindM_assoc Let_def cong: if_cong) (simp add: ret_def bindM_def)
  ultimately show ?thesis
    using f info mode new
    by (simp add: BootMonFsFlushFile_def sizeof_HW_IMAGE_DESCRIPTION_def bindM_step)
qed

text \<open>
  A file whose data and description fill its blocks exactly gets a last block that is one
  too far: when the space in front of the next file is just large enough, the new description is
  written into the next file.
\<close>
theorem WriteFileDescription_overlaps:
  assumes fl: "flash E C" and al: "unat (BlockSize E) dvd unat FileStart"
    and f: "map_of (Files s) i = Some f" "desc_ok (HwDescription f)"
    and n: "unat DataSize + 136 < 2 ^ 32" and full: "unat (BlockSize E) dvd unat DataSize + 136"
    and q: "(j, h) \<in> set (Files s)" "j \<noteq> i" "lo E (j, h) = unat FileStart + unat DataSize + 136"
      "BlockStart (HwDescription h) \<le> BlockEnd (HwDescription h)" "unat (BlockEnd (HwDescription h)) \<le> unat (LastBlock E)"
  shows "\<exists>s' g. WriteFileDescription E (File i) name DataSize FileStart s = Ret (EFI_SUCCESS, s') \<and>
    map_of (Files s') i = Some g \<and> BlockEnd (HwDescription g) = BlockStart (HwDescription h) \<and>
    lo E (j, h) \<le> unat (HwDescAddress g) \<and> unat (HwDescAddress g) + 136 \<le> hi E (j, h) \<and>
    peek 136 (HwDescAddress g) (C (Dev s')) = desc_bytes (HwDescription g)"
proof -
  let ?B = "unat (BlockSize E)" and ?e = "final_block E FileStart (unat DataSize)"
  have g: "geometry E" using fl by (rule flash_geometry)
  have "?e * ?B = unat FileStart + unat DataSize + 136"
    using al full by (simp add: final_block_def first_block_def distrib_right)
  then have "?e * ?B = unat (BlockStart (HwDescription h)) * ?B"
    using q(3) by (simp add: lo_def)
  then have e: "?e = unat (BlockStart (HwDescription h))"
    using g by (simp add: geometry_def)
  then have le: "?e \<le> unat (LastBlock E)" using q(4,5) by (simp add: word_le_nat_alt)
  define d where "d = new_desc E name DataSize FileStart (HwDescription f)"
  note blocks = new_desc_blocks [OF g n le, of name "HwDescription f", folded d_def]
  note addr = block_end_address [OF g le, folded blocks(3)]
  have mod: "FileStart mod ucast (BlockSize E) = 0"
    using al by (simp add: word_unat_eq_iff unat_mod)
  obtain d' where w: "WriteFileDescription E (File i) name DataSize FileStart s =
      Ret (EFI_SUCCESS, s\<lparr>Files := set_file i (f\<lparr>HwDescription := d, HwDescAddress := desc_address E d\<rparr>) (Files s), Dev := d'\<rparr>)"
    and c: "C d' = poke (desc_address E d) (desc_bytes d) (C (Dev s))"
    using WriteFileDescription_step [OF fl mod f d_def] addr by auto
  have "?B \<ge> 136" using g by (simp add: geometry_def)
  then have "lo E (j, h) \<le> unat (desc_address E d)"
    using addr(1) by (simp add: lo_def e [symmetric])
  moreover have "(?e + 1) * ?B \<le> hi E (j, h)"
    unfolding hi_def e by (rule mult_right_mono) (use q(4) in \<open>simp_all add: word_le_nat_alt\<close>)
  moreover have "BlockEnd d = BlockStart (HwDescription h)"
    using blocks(2) e by (simp add: word_unat_eq_iff)
  moreover have "peek 136 (desc_address E d) (C d') = desc_bytes d"
    using f(2) by (simp add: c peek_poke_here length_desc_bytes d_def)
  ultimately show ?thesis
    using w f(1) addr by (intro exI [of _ "f\<lparr>HwDescription := d, HwDescAddress := desc_address E d\<rparr>"] exI) auto
qed

section \<open>A small volume\<close>

text \<open>Eight blocks of 256 bytes; the device is its content.\<close>

definition sim_flash :: "memory FsEnv" where
  "sim_flash = \<lparr>MediaId = 1, BlockSize = 256, LastBlock = 7, LowestAlignedLba = 0,
     ReadDisk = (\<lambda>_ a n d. ((EFI_SUCCESS, peek (unat n) a d), d)), WriteDisk = (\<lambda>_ a bs d. (EFI_SUCCESS, poke a bs d)),
     FlushBlocks = (\<lambda>d. ((), d)), Allocate = (\<lambda>_ d. (True, d)), PathCleanUpDirectories = Some,
     ToAscii = (\<lambda>n name. map ucast (take (n - 1) name)), ToUnicode = (\<lambda>_ name _. map ucast name)\<rparr>"

lemma flash_sim: "flash sim_flash (\<lambda>d. d)"
  by (simp add: flash_def geometry_def media_size_def sim_flash_def)

definition sim_info :: EFI_FILE_INFO where
  "sim_info = \<lparr>InfoSize = 0, FileSize = 4, PhysicalSize = 0, Times = replicate 48 0, InfoAttribute = 0, FileName = [0x61, 0x62]\<rparr>"

text \<open>A file "ab" just created and written with four bytes, and an image in block 0.\<close>

definition sim_new :: BOOTMON_FS_FILE where
  "sim_new = new_file\<lparr>Info := Some sim_info, Position := 4, OpenMode := 3,
     RegionToFlush := [\<lparr>RBuffer = [1, 2, 3, 4], RSize = 4, ROffset = 0\<rparr>]\<rparr>"

definition sim_old :: BOOTMON_FS_FILE where
  "sim_old = new_file\<lparr>HwDescription := zero_desc\<lparr>RegionCount := 1\<rparr>, HwDescAddress := 120, Info := Some sim_info\<rparr>"

definition sim_volume :: "(nat \<times> BOOTMON_FS_FILE) list \<Rightarrow> memory FsState" where
  "sim_volume files = \<lparr>RootFile = new_file, Files = files, NextFile = 2, Initialized = True,
     FsInfo = \<lparr>FsInfoSize = 0, ReadOnly = False, VolumeSize = 0, FreeSpace = 0, FsBlockSize = 0, VolumeLabel = []\<rparr>,
     Dev = (\<lambda>_. 0xFF)\<rparr>"

lemmas sim_volume_simps = sim_volume_def sim_old_def sim_new_def sim_info_def new_file_def zero_desc_def zero_region_def

theorem BootMonFsInitialize_finds_witness:
  "\<exists>d' k. BootMonFsInitialize sim_flash (sim_volume []) =
    Ret (EFI_SUCCESS, (add_files (images sim_flash (\<lambda>_. 0xFF)) sim_flash (\<lambda>_. 0xFF) (sim_volume []))
      \<lparr>NextFile := k, Initialized := True, Dev := d'\<rparr>)"
  using BootMonFsInitialize_finds [OF flash_sim, of "sim_volume []"] by (auto simp: sim_volume_def)

definition sim_disk :: "memory FsState" where
  "sim_disk = sim_volume [(1, sim_new), (0, sim_old)]"

lemma new_in_front_sim: "new_in_front sim_flash 1 sim_new [(0, sim_old)] sim_disk"
  by (simp add: new_in_front_def sim_disk_def sim_volume_simps on_media_def placed_def sim_flash_def desc_ok_def)

lemma unsaved_sim: "unsaved sim_flash sim_new [0x61, 0x62] [1, 2, 3, 4]"
  by (simp add: unsaved_def sim_new_def sim_info_def new_file_def sim_flash_def MAX_NAME_LENGTH_def EFI_FILE_MODE_READ_def)

lemma hi_sim: "hi sim_flash (0, sim_old) = 256"
  by (simp add: hi_def sim_old_def new_file_def zero_desc_def sim_flash_def)

lemma free_sim: "free sim_flash [(0, sim_old)] 256 140"
  by (simp add: free_def hi_sim media_size_def) (simp add: sim_flash_def)

lemma stored_sim: "filter on_media (Files sim_disk) = [(0, sim_old)]"
  by (simp add: sim_disk_def sim_volume_simps on_media_def)

theorem FindSpaceForNewFile_first_witness:
  "\<exists>st start s'. BootMonFsFindSpaceForNewFile sim_flash 1 140 sim_disk = Ret ((st, start), s') \<and>
    (if st = EFI_SUCCESS then unat (BlockSize sim_flash) dvd unat start \<and>
       free sim_flash [(0, sim_old)] (unat start) (unat (140 :: u64)) \<and>
       (\<forall>a < unat start. \<not> free sim_flash [(0, sim_old)] a (unat (140 :: u64)))
     else st = EFI_VOLUME_FULL \<and> (\<forall>a. \<not> free sim_flash [(0, sim_old)] a (unat (140 :: u64))))"
  by (rule FindSpaceForNewFile_first [of sim_flash sim_disk 1 sim_new 140, unfolded stored_sim])
    (use flash_geometry [OF flash_sim] new_in_front_sim in \<open>simp_all add: new_in_front_def\<close>)

theorem FlushFile_saves_witness:
  "\<exists>s' g. BootMonFsFlushFile sim_flash (Some 1) sim_disk = Ret (EFI_SUCCESS, s') \<and>
    saved sim_flash (\<lambda>d. d) 1 [0x61, 0x62] [1, 2, 3, 4] s' \<and> map_of (Files s') 1 = Some g \<and>
    unat (BlockEnd (HwDescription g)) \<in> set (images sim_flash (Dev s'))"
proof -
  have "\<exists>a. free sim_flash [(0, sim_old)] a (length [1, 2, 3, 4 :: u8] + 136)"
    using free_sim by auto
  moreover have "block_left sim_flash [(0, sim_old)] (length [1, 2, 3, 4 :: u8] + 136)"
    by (simp add: block_left_def sim_flash_def)
  ultimately obtain s' g where run: "BootMonFsFlushFile sim_flash (Some 1) sim_disk = Ret (EFI_SUCCESS, s')"
    and saved: "saved sim_flash (\<lambda>d. d) 1 [0x61, 0x62] [1, 2, 3, 4] s'" "map_of (Files s') 1 = Some g"
    and desc: "described sim_flash (Dev s') g"
    using FlushFile_saves [OF flash_sim new_in_front_sim unsaved_sim] by blast
  have "LowestAlignedLba sim_flash = 0" by (simp add: sim_flash_def)
  with run saved desc show ?thesis by (auto simp: described_def Let_def)
qed

theorem new_file_reads_back_witness:
  "\<exists>s1 s2 s3. BootMonFsFlushFile sim_flash (Some 1) sim_disk = Ret (EFI_SUCCESS, s1) \<and>
    BootMonFsSetPosition (Some 1) 1 s1 = Ret (EFI_SUCCESS, s2) \<and>
    BootMonFsReadFile sim_flash (Some 1) (Some 2) True s2 = Ret ((EFI_SUCCESS, Some 2, [2, 3]), s3)"
proof -
  have "\<exists>a. free sim_flash [(0, sim_old)] a (length [1, 2, 3, 4 :: u8] + 136)"
    using free_sim by auto
  moreover have "block_left sim_flash [(0, sim_old)] (length [1, 2, 3, 4 :: u8] + 136)" "LowestAlignedLba sim_flash = 0"
    by (simp_all add: block_left_def sim_flash_def)
  ultimately show ?thesis
    using new_file_reads_back [OF flash_sim _ new_in_front_sim unsaved_sim, of 1 2] by auto
qed

text \<open>
  The excluded case: data and description fill two blocks exactly, and the free place is at the end of
  the media; there is no block left for the description.
\<close>

lemma block_left_sim: "\<not> block_left sim_flash [(0, sim_old\<lparr>HwDescription := zero_desc\<lparr>RegionCount := 1, BlockEnd := 5\<rparr>\<rparr>)] 512"
proof -
  have "free sim_flash [(0, sim_old\<lparr>HwDescription := zero_desc\<lparr>RegionCount := 1, BlockEnd := 5\<rparr>\<rparr>)] 1536 512"
    by (simp add: free_def hi_def media_size_def sim_flash_def)
  then show ?thesis by (auto simp: block_left_def media_size_def sim_flash_def intro!: exI [of _ 1536])
qed

theorem FlushFile_breaks_order_witness:
  "\<exists>s' g. BootMonFsFlushFile sim_flash (Some 1) sim_disk = Ret (EFI_SUCCESS, s') \<and>
    Files s' = [(1, g), (0, sim_old)] \<and> \<not> placed sim_flash (Files s')"
proof -
  have room: "\<exists>a. free sim_flash [(0, sim_old)] a (length [1, 2, 3, 4 :: u8] + 136)"
    using free_sim by auto
  have part: "(length [1, 2, 3, 4 :: u8] + 136) mod unat (BlockSize sim_flash) \<noteq> 0"
    by (simp add: sim_flash_def)
  have "free sim_flash [(0, sim_old)] a 140 \<Longrightarrow> hi sim_flash (0, sim_old) \<le> a" for a
    by (simp add: free_def hi_sim) (simp add: lo_def sim_old_def new_file_def zero_desc_def)
  then have "\<forall>a. free sim_flash [(0, sim_old)] a (length [1, 2, 3, 4 :: u8] + 136) \<longrightarrow>
      (\<forall>q \<in> set [(0, sim_old)]. hi sim_flash q \<le> a)" by simp
  then show ?thesis
    using FlushFile_breaks_order [OF flash_sim new_in_front_sim unsaved_sim room part] by blast
qed

theorem FlushFile_two_new_files_witness:
  "BootMonFsFlushFile sim_flash (Some 1) (sim_volume [(1, sim_new), (0, sim_new)]) =
    Ret (EFI_VOLUME_FULL, sim_volume [(1, sim_new), (0, sim_new)])"
proof (rule FlushFile_two_new_files [where i = 0 and h = sim_new, OF _ _ _ _ _ _ unsaved_sim])
  show "of_nat (length [1, 2, 3, 4 :: u8]) + 136 \<le> (LastBlock sim_flash + 1) * ucast (BlockSize sim_flash)"
    by (simp add: sim_flash_def)
qed (simp_all add: sim_volume_simps)

text \<open>The same file when it is on the media, in block 1, opened for reading only, behind its first byte.\<close>

definition sim_stored :: BOOTMON_FS_FILE where
  "sim_stored = new_file\<lparr>HwDescription := zero_desc\<lparr>RegionCount := 1, BlockStart := 1, BlockEnd := 1,
       Region := (replicate 4 zero_region)[0 := zero_region\<lparr>RegionSize := 4\<rparr>],
       Footer := (Footer zero_desc)\<lparr>Filename := [0x61, 0x62] @ replicate 30 0\<rparr>\<rparr>,
     HwDescAddress := 376, Info := Some sim_info, Position := 1, OpenMode := 1\<rparr>"

definition sim_after :: "memory FsState" where
  "sim_after = (sim_volume [(1, sim_stored), (0, sim_old)])\<lparr>Dev := poke 256 [1, 2, 3, 4] (\<lambda>_. 0xFF)\<rparr>"

lemma stored_after: "map_of (Files sim_after) 1 = Some sim_stored"
  by (simp add: sim_after_def sim_volume_def)

lemma readable_sim: "readable sim_flash (\<lambda>d. d) 1 [1, 2, 3, 4] sim_after"
proof -
  have start: "file_start sim_flash sim_stored = 256"
    by (simp add: file_start_def sim_stored_def new_file_def sim_flash_def)
  have "poke 256 [1, 2, 3, 4] (\<lambda>_. 0xFF) (256 + of_nat k) = [1, 2, 3, 4 :: u8] ! k" if "k < 4" for k
    using that by (subst poke_at [of 256 _ "256 + k"]) (simp_all add: unat_word_ariths unat_of_nat)
  then show ?thesis
    unfolding readable_def
    by (intro exI [of _ sim_stored] exI [of _ sim_info])
      (simp add: stored_after start, simp add: sim_after_def sim_stored_def sim_volume_simps sim_flash_def media_size_def
        EFI_FILE_MODE_READ_def)
qed

theorem ReadFile_saved_witness:
  "\<exists>s' g. BootMonFsReadFile sim_flash (Some 1) (Some 2) True sim_after = Ret ((EFI_SUCCESS, Some 2, [2, 3]), s') \<and>
    map_of (Files s') 1 = Some g \<and> unat (Position g) = 3 \<and> Dev s' = Dev sim_after"
proof -
  have "Position sim_stored = 1" by (simp add: sim_stored_def)
  then show ?thesis
    using ReadFile_saved [OF flash_sim readable_sim stored_after, of 2] by (auto simp: sim_flash_def)
qed

theorem WriteFileDescription_found_witness:
  "\<exists>s' f'. WriteFileDescription sim_flash (File 1) [0x61] 4 256 sim_disk = Ret (EFI_SUCCESS, s') \<and>
    map_of (Files s') 1 = Some f' \<and> 1 \<in> set (images sim_flash (Dev s')) \<and>
    ascii_content (Filename (Footer (HwDescription f'))) = [0x61]"
proof -
  have "map_of (Files sim_disk) 1 = Some sim_new" "desc_ok (HwDescription sim_new)"
    using new_in_front_sim by (simp_all add: new_in_front_def)
  moreover have "final_block sim_flash 256 (unat (4 :: u32)) = 1"
    by (simp add: final_block_def first_block_def sim_flash_def)
  ultimately show ?thesis
    using WriteFileDescription_found [OF flash_sim, of 256 sim_disk 1 sim_new 4 "[0x61]"]
    by (auto simp: sim_flash_def)
qed

theorem Delete_forgets_witness:
  "\<exists>s'. BootMonFsDelete sim_flash (Some 0) sim_disk = Ret (EFI_SUCCESS, s') \<and> map_of (Files s') 0 = None \<and>
    images sim_flash (Dev s') = filter (\<lambda>x. x \<noteq> 0) (images sim_flash (Dev sim_disk))"
proof -
  have "map_of (Files sim_disk) 0 = Some sim_old" by (simp add: sim_disk_def sim_volume_def)
  moreover have "Info sim_old \<noteq> None" "RegionCount (HwDescription sim_old) \<noteq> 0"
    "HwDescAddress sim_old = (of_nat 0 + 1) * ucast (BlockSize sim_flash) - 136"
    by (simp_all add: sim_old_def sim_flash_def)
  ultimately show ?thesis
    using Delete_forgets [OF flash_sim, of sim_disk 0 sim_old 0] by auto
qed

text \<open>256 - 136 = 120 bytes of data for the file in block 0, and a file in block 1 behind it.\<close>

theorem WriteFileDescription_overlaps_witness:
  "\<exists>s' g. WriteFileDescription sim_flash (File 0) [0x61] 120 0 (sim_volume [(0, sim_new), (1, sim_stored)]) = Ret (EFI_SUCCESS, s') \<and>
    map_of (Files s') 0 = Some g \<and> lo sim_flash (1, sim_stored) \<le> unat (HwDescAddress g) \<and>
    unat (HwDescAddress g) + 136 \<le> hi sim_flash (1, sim_stored)"
proof -
  have "desc_ok (HwDescription sim_new)" using new_in_front_sim by (simp add: new_in_front_def)
  then show ?thesis
    using WriteFileDescription_overlaps [OF flash_sim, of 0 "sim_volume [(0, sim_new), (1, sim_stored)]" 0 sim_new 120 1 sim_stored "[0x61]"]
    by (auto simp: sim_volume_def sim_stored_def sim_flash_def lo_def)
qed

end
