(* ===== verification/RunAxfSim.thy ===== *)
theory RunAxfSim
  imports RunAxfSpec BootMonSim
begin

text \<open>
  \<open>runaxf\<close> on files that the boot monitor file system has written, and a small machine with an ELF
  file on which the theorems are instantiated.
\<close>

section \<open>Running a written file\<close>

text \<open>
  A file that the file system has written anew cannot be run: the region it reports starts
  at the position of the file on the media, which \<open>runaxf\<close> takes for a position inside the file, so
  the load list copies from memory outside the buffer the file was read to.
\<close>
theorem written_file_copied_from_elsewhere:
  assumes fl: "flash E C" and al: "unat (BlockSize E) dvd unat FileStart"
    and f: "map_of (Files s) i = Some f" "desc_ok (HwDescription f)" "Info f \<noteq> None" "Initialized s"
    and n: "unat DataSize + 136 < 2 ^ 32" and e: "final_block E FileStart (unat DataSize) \<le> unat (LastBlock E)"
    and start: "unat DataSize \<le> unat FileStart" "unat FileStart < 2 ^ 32"
  shows "\<exists>s' entry r. WriteFileDescription E (File i) name DataSize FileStart s = Ret (EFI_SUCCESS, s') \<and>
    BootMonFsGetInfo E (Some (File i)) (Some BootMonFsFileInfoId) (Some 76) True s' =
      Ret ((EFI_SUCCESS, Some 76, BootMonInfo entry 1 [r]), s') \<and>
    Length (region_node a r) = ucast DataSize \<and>
    blk (FileOffset (region_node a r)) (Length (region_node a r)) \<inter> blk a (ucast DataSize) = {}"
proof -
  have g: "geometry E" using fl by (rule flash_geometry)
  define d where "d = new_desc E name DataSize FileStart (HwDescription f)"
  note addr = block_end_address [OF g e, folded new_desc_blocks(3) [OF g n e, of name "HwDescription f"], folded d_def]
  have mod: "FileStart mod ucast (BlockSize E) = 0"
    using al by (simp add: word_unat_eq_iff unat_mod)
  obtain d' where w: "WriteFileDescription E (File i) name DataSize FileStart s =
      Ret (EFI_SUCCESS, s\<lparr>Files := set_file i (f\<lparr>HwDescription := d, HwDescAddress := desc_address E d\<rparr>) (Files s), Dev := d'\<rparr>)"
    using WriteFileDescription_step [OF fl mod f(1,2) d_def] addr by auto
  obtain r rs where r: "Region d = r # rs" and off: "RegionOffset r = ucast FileStart" and size: "RegionSize r = DataSize"
  proof -
    have "FileStart div ucast (BlockSize E) * ucast (BlockSize E) = FileStart"
      using div_mult_mod_eq [of FileStart "ucast (BlockSize E)"] mod by simp
    moreover have "unat (FileStart div ucast (BlockSize E)) < 2 ^ 32"
      using le_less_trans [OF div_le_dividend start(2)] by (simp add: unat_div)
    then have "ucast (ucast (FileStart div ucast (BlockSize E)) :: u32) = FileStart div ucast (BlockSize E)"
      by (simp add: word_unat_eq_iff unat_ucast_u32)
    ultimately have "ucast (ucast (FileStart div ucast (BlockSize E)) :: u32) * ucast (BlockSize E) = FileStart"
      by simp
    then show thesis
      using f(2) that by (cases "Region (HwDescription f)") (auto simp: d_def new_desc_def description_for_def Let_def desc_ok_def)
  qed
  have "RegionCount d = 1" by (simp add: d_def)
  then have info: "BootMonFsGetInfo E (Some (File i)) (Some BootMonFsFileInfoId) (Some 76) True s' =
      Ret ((EFI_SUCCESS, Some 76, BootMonInfo (EntryPoint d) 1 [r]), s')"
    if "s' = s\<lparr>Files := set_file i (f\<lparr>HwDescription := d, HwDescAddress := desc_address E d\<rparr>) (Files s), Dev := d'\<rparr>" for s'
    using f r that
    by (simp add: BootMonFsGetInfo_def GetBootMonFsFileInfo_def SIZE_OF_BOOTMON_FS_FILE_INFO_def bindM_assoc
        HW_IMAGE_DESCRIPTION_REGION_MAX_def) (simp add: ret_def)
  have "ucast (ucast FileStart :: u32) = FileStart" using start(2) by (simp add: word_unat_eq_iff unat_ucast_u32)
  then have node: "FileOffset (region_node a r) = a + FileStart" "Length (region_node a r) = ucast DataSize"
    by (simp_all add: region_node_def off size)
  have "blk (a + FileStart) (ucast DataSize) \<inter> blk a (ucast DataSize) = {}"
  proof (intro equals0I)
    fix y
    assume y: "y \<in> blk (a + FileStart) (ucast DataSize) \<inter> blk a (ucast DataSize)"
    define k where "k = y - a"
    have k: "y - (a + FileStart) = k - FileStart" by (simp add: k_def)
    have lt: "unat k < unat DataSize" "unat (k - FileStart) < unat DataSize"
      using y unfolding Int_iff blk_iff k by (simp_all add: k_def)
    then have "unat (k - FileStart) = 2 ^ 64 + unat k - unat FileStart"
      using start(1) by (subst unat_sub_if_size) (simp add: word_size)
    then show False using lt n start(2) by simp
  qed
  then show ?thesis using w info node by auto
qed

theorem written_file_copied_from_elsewhere_witness:
  "\<exists>s' entry r. WriteFileDescription sim_flash (File 1) [0x61] 4 256 sim_disk = Ret (EFI_SUCCESS, s') \<and>
    BootMonFsGetInfo sim_flash (Some (File 1)) (Some BootMonFsFileInfoId) (Some 76) True s' =
      Ret ((EFI_SUCCESS, Some 76, BootMonInfo entry 1 [r]), s') \<and>
    blk (FileOffset (region_node 0x1000 r)) (Length (region_node 0x1000 r)) \<inter> blk 0x1000 4 = {}"
proof -
  have "map_of (Files sim_disk) 1 = Some sim_new" "desc_ok (HwDescription sim_new)"
    using new_in_front_sim by (simp_all add: new_in_front_def)
  moreover have "Info sim_new \<noteq> None" "Initialized sim_disk" by (simp_all add: sim_new_def sim_disk_def sim_volume_def)
  moreover have "final_block sim_flash 256 (unat (4 :: u32)) = 1"
    by (simp add: final_block_def first_block_def sim_flash_def)
  ultimately show ?thesis
    using written_file_copied_from_elsewhere [OF flash_sim, of 256 sim_disk 1 sim_new 4 "[0x61]" "0x1000"]
    by (auto simp: sim_flash_def)
qed

section \<open>A small machine\<close>

text \<open>
  The state outside is the number of times \<open>ExitBootServices\<close> is still going to fail. The file is at
  \<open>0x1000\<close> once it is read; \<open>sim_elf n p\<close> has \<open>n\<close> program headers of type \<open>p\<close>, of which the first is for
  a segment of two bytes from the file and two zeros at \<open>0x8000\<close>.
\<close>

definition sim_elf :: "u8 \<Rightarrow> u8 list" where
  "sim_elf type = [127, 69, 76, 70, 2, 1, 1, 0, 0, 0, 0, 0, 0, 0, 0, 0, 2, 0, 183, 0, 1, 0, 0, 0, 1, 128, 0, 0, 0, 0, 0, 0,
     64, 0, 0, 0, 0, 0, 0, 0, 0, 0, 0, 0, 0, 0, 0, 0, 0, 0, 0, 0, 64, 0, 56, 0, 1, 0, 0, 0, 0, 0, 0, 0,
     type, 0, 0, 0,
     5, 0, 0, 0, 120, 0, 0, 0, 0, 0, 0, 0, 0, 128, 0, 0, 0, 0, 0, 0, 0, 128, 0, 0, 0, 0, 0, 0, 2, 0, 0, 0, 0, 0, 0, 0, 4, 0, 0, 0, 0, 0, 0, 0, 1, 0, 0, 0, 0, 0, 0, 0, 170, 187]"

definition sim_machine :: "bool \<Rightarrow> u8 \<Rightarrow> nat RunEnv" where
  "sim_machine pages type = \<lparr>
     InstallShellProtocols = Pair EFI_SUCCESS, UninstallShellProtocols = Pair EFI_SUCCESS, ShellInitialize = Pair EFI_SUCCESS,
     CommandLineParse = Pair EFI_SUCCESS, GetHelpFlag = False, GetRawValue = Some [0x61, 0x2E, 0x62],
     OpenFileByName = (\<lambda>name w. (if name = [0x61] then EFI_SUCCESS else EFI_NOT_FOUND, w)),
     GetFileSize = Pair (Some 122), ReadFile = (\<lambda>n w. ((EFI_SUCCESS, sim_elf type), w)),
     GetBootMonInfo = (\<lambda>w. ((EFI_UNSUPPORTED, 0, NoInfo), w)),
     AllocateCopyPool = (\<lambda>n. Pair True), AllocateRuntimeZeroPool = (\<lambda>n. Pair (Some 0x1000)), AllocatePages = (\<lambda>n. Pair pages),
     FreePages = (\<lambda>n. Pair ()),
     GetMemoryMap = (\<lambda>n buf w. ((if buf then EFI_SUCCESS else EFI_BUFFER_TOO_SMALL, 48), w)),
     ExitBootServices = (\<lambda>w. (if w = 0 then EFI_SUCCESS else EFI_INVALID_PARAMETER, w - 1)),
     ArmOperation = (\<lambda>x. Pair ())\<rparr>"

definition sim_run :: "nat \<Rightarrow> nat RunState" where "sim_run n = \<lparr>RunMem = (\<lambda>_. 0xFF), Outside = n\<rparr>"

text \<open>
  A machine on which allocating pages makes the memory map grow. Its world is twice the number of
  refusals that are left, and one more while the pages are held.
\<close>

definition sim_map :: "nat MapView" where
  "sim_map = \<lparr>MapBytes = (\<lambda>w. if odd w then 96 else 48), Refusals = (\<lambda>w. w div 2)\<rparr>"

definition sim_growing :: "nat RunEnv" where
  "sim_growing = (sim_machine True 1)\<lparr>
     GetMemoryMap := (\<lambda>n buffer w. (map_reply (if odd w then 96 else 48) n buffer, w)),
     AllocatePages := (\<lambda>n w. (True, 2 * (w div 2) + 1)), FreePages := (\<lambda>n w. ((), 2 * (w div 2))),
     ExitBootServices := (\<lambda>w. if w < 2 then (EFI_SUCCESS, w) else (EFI_INVALID_PARAMETER, w - 2))\<rparr>"

theorem ShutdownUefiBootServices_ends_witness:
  "\<exists>st w. ShutdownUefiBootServices 8 sim_growing (sim_run 6) = Ret (st, (sim_run 6)\<lparr>Outside := w\<rparr>) \<and>
    left_with_map sim_growing w st"
proof -
  have "map_service sim_growing sim_map" by (simp add: map_service_def sim_growing_def sim_map_def)
  moreover have "\<forall>w. fst (AllocatePages sim_growing (EFI_SIZE_TO_PAGES (MapBytes sim_map w) + 1) w) \<and>
      Refusals sim_map (snd (AllocatePages sim_growing (EFI_SIZE_TO_PAGES (MapBytes sim_map w) + 1) w)) \<le> Refusals sim_map w"
    by (simp add: sim_growing_def sim_map_def)
  moreover have "\<forall>w. EFI_ERROR (fst (ExitBootServices sim_growing w)) \<longrightarrow>
      Refusals sim_map (snd (ExitBootServices sim_growing w)) < Refusals sim_map w"
    by (auto simp: sim_growing_def sim_map_def split: if_splits)
  moreover have "\<forall>n w. Refusals sim_map (snd (FreePages sim_growing n w)) \<le> Refusals sim_map w"
    by (simp add: sim_growing_def sim_map_def)
  ultimately show ?thesis
    using ShutdownUefiBootServices_ends [of sim_growing sim_map "sim_run 6"] by (simp add: sim_map_def sim_run_def)
qed

theorem ShutdownUefiBootServices_loops_witness:
  "ShutdownUefiBootServices 100 (sim_machine False 1) (sim_run 0) = Stop OutOfFuel"
  by (rule ShutdownUefiBootServices_loops) (simp_all add: sim_machine_def)

definition sim_loaded :: "u8 \<Rightarrow> nat RunState" where
  "sim_loaded type = (sim_run 2)\<lparr>RunMem := poke 0x1000 (sim_elf type) (poke 0x1000 (replicate 122 0) (\<lambda>_. 0xFF))\<rparr>"

lemma length_sim_elf [simp]: "length (sim_elf type) = 122"
  by (simp add: sim_elf_def)

lemma peek_loaded: "k + n \<le> 122 \<Longrightarrow> peek n (0x1000 + of_nat k) (RunMem (sim_loaded t)) = take n (drop k (sim_elf t))"
  unfolding sim_loaded_def by (simp add: peek_poke)

lemma byte_loaded: "k < 122 \<Longrightarrow> RunMem (sim_loaded t) (0x1000 + of_nat k) = sim_elf t ! k"
  by (simp add: sim_loaded_def poke_def unat_of_nat)

lemma sim_fields:
  "e_type 0x1000 (RunMem (sim_loaded t)) = 2" "e_machine 0x1000 (RunMem (sim_loaded t)) = 183"
  "e_entry 0x1000 (RunMem (sim_loaded t)) = 0x8001" "e_phoff 0x1000 (RunMem (sim_loaded t)) = 64"
  "e_phentsize 0x1000 (RunMem (sim_loaded t)) = 56" "e_phnum 0x1000 (RunMem (sim_loaded t)) = 1"
  using peek_loaded [of 16 2 t] peek_loaded [of 18 2 t] peek_loaded [of 24 8 t] peek_loaded [of 32 8 t]
    peek_loaded [of 54 2 t] peek_loaded [of 56 2 t]
  by (simp_all add: e_type_def e_machine_def e_entry_def e_phoff_def e_phentsize_def e_phnum_def elf_u16_def read_u64_def sim_elf_def)

lemma sim_phdr:
  "phdr_at 0x1040 (RunMem (sim_loaded t)) = \<lparr>p_type = ucast t, p_offset = 120, p_vaddr = 0x8000, p_filesz = 2, p_memsz = 4\<rparr>"
  using peek_loaded [of 64 4 t] peek_loaded [of 72 8 t] peek_loaded [of 80 8 t] peek_loaded [of 96 8 t] peek_loaded [of 104 8 t]
  by (simp add: phdr_at_def read_u32_def read_u64_def sim_elf_def)

lemma ucast_is_1: "ucast (t :: u8) = (1 :: u32) \<longleftrightarrow> t = 1"
proof -
  have "unat t < 2 ^ 8" using unsigned_less [of t] by simp
  then have "unat (ucast t :: u32) = unat t"
    by (simp add: unsigned_ucast_eq take_bit_nat_eq_self)
  then show ?thesis by (simp add: word_unat_eq_iff)
qed

lemma segments_sim: "segments 0x1000 (RunMem (sim_loaded t)) =
  (if t = 1 then [\<lparr>p_type = 1, p_offset = 120, p_vaddr = 0x8000, p_filesz = 2, p_memsz = 4\<rparr>] else [])"
  by (simp add: segments_def sim_fields sim_phdr PT_LOAD_def ucast_is_1)

lemma load_sim:
  "ElfLoadFile (sim_machine pages t) 0x1000 (sim_loaded t) =
    Ret (if t = 1 then (EFI_SUCCESS, Some 0x8001,
        [\<lparr>MemOffset = 0x8000, FileOffset = 0x1078, Zeroes = False, Length = 2\<rparr>,
         \<lparr>MemOffset = 0x8002, FileOffset = 0, Zeroes = True, Length = 2\<rparr>])
      else (EFI_INVALID_PARAMETER, None, []), sim_loaded t)"
proof -
  have "(sim_loaded t)\<lparr>Outside := Outside (sim_loaded t)\<rparr> = sim_loaded t" by simp
  then show ?thesis
    by (simp add: ElfLoadFile_def ucast_is_1 sim_fields sim_phdr PT_LOAD_def ElfLoadSegment_def add_node_def sim_machine_def
        copy_node_def zero_node_def bindM_assoc) (simp add: ret_def)
qed

lemma apart_sim: "apart_segments 0x1000 (segments 0x1000 (RunMem (sim_loaded 1)))"
proof -
  have "\<not> x - 0x1078 < 2" if "x - 0x8000 < 4" for x :: u64
  proof -
    define d where "d = x - 0x8000"
    have d: "unat d < 4" using that by (simp add: d_def word_less_nat_alt)
    then have "unat (0x6F88 + d) = 0x6F88 + unat d" by (subst iffD1 [OF unat_add_lem]) simp_all
    moreover have "x - 0x1078 = 0x6F88 + d" by (simp add: d_def)
    ultimately show ?thesis unfolding word_less_nat_alt by simp
  qed
  then show ?thesis by (auto simp: apart_segments_def segments_sim place_def source_def blk_def)
qed

theorem ElfLoadFile_places_witness:
  "\<exists>l. ElfLoadFile (sim_machine True 1) 0x1000 (sim_loaded 1) = Ret ((EFI_SUCCESS, Some 0x8001, l), sim_loaded 1) \<and>
    fold run_node l (RunMem (sim_loaded 1)) 0x8001 = 0xBB \<and> fold run_node l (RunMem (sim_loaded 1)) 0x8003 = 0 \<and>
    fold run_node l (RunMem (sim_loaded 1)) 0x8004 = 0xFF"
proof -
  define l where "l = [\<lparr>MemOffset = 0x8000, FileOffset = 0x1078, Zeroes = False, Length = 2\<rparr>,
    \<lparr>MemOffset = 0x8002, FileOffset = 0, Zeroes = True, Length = 2\<rparr>]"
  have load: "ElfLoadFile (sim_machine True 1) 0x1000 (sim_loaded 1) = Ret ((EFI_SUCCESS, Some 0x8001, l), sim_loaded 1)"
    by (simp add: load_sim l_def)
  have "RunMem (sim_loaded 1) 0x8004 = 0xFF" by (simp add: sim_loaded_def sim_run_def poke_def)
  moreover have "RunMem (sim_loaded 1) 0x1079 = 0xBB" using byte_loaded [of 121 1] by (simp add: sim_elf_def)
  ultimately show ?thesis
    using load ElfLoadFile_places [OF load _ apart_sim]
    by (auto simp: segments_sim place_def blk_def segment_byte_def)
qed

lemma fetch_sim: "fetch_image (sim_machine pages t) (sim_run 2) = Ret ((SHELL_SUCCESS, Some 0x1000), sim_loaded t)"
  by (simp add: fetch_image_def sim_machine_def open_image_def read_image_def dot_def bindM_assoc)
    (simp add: ret_def sim_loaded_def sim_run_def)

lemma check_sim: "ElfCheckFile 0x1000 (RunMem (sim_loaded t)) = EFI_SUCCESS"
  using byte_loaded [of 0 t] byte_loaded [of 1 t] byte_loaded [of 2 t] byte_loaded [of 3 t] byte_loaded [of 4 t]
  by (simp add: ElfCheckFile_def ElfCheckHeader_def IS_ELF_def IsAarch64Elf_def sim_fields EI_CLASS_def ELFCLASS32_def
      ELFCLASS64_def ET_EXEC_def EM_AARCH64_def sim_elf_def)

lemma out_sim [simp]: "(sim_run 2)\<lparr>Outside := 2\<rparr> = sim_run 2"
  by (simp add: sim_run_def)

theorem runaxf_failed_load_is_success_witness:
  "\<exists>s'. ShellDynCmdRunAxfHandler 3 (sim_machine True 2) (sim_run 2) = Ret (Returned SHELL_SUCCESS, s')"
proof -
  have fetch: "fetch_image (sim_machine True 2) ((sim_run 2)\<lparr>Outside := 2\<rparr>) = Ret ((SHELL_SUCCESS, Some 0x1000), sim_loaded 2)"
    by (simp add: fetch_sim)
  have load: "ElfLoadFile (sim_machine True 2) 0x1000 (sim_loaded 2) = Ret ((EFI_INVALID_PARAMETER, None, []), sim_loaded 2)"
    by (simp add: load_sim)
  show ?thesis
    using runaxf_failed_load_is_success [OF _ _ fetch check_sim load, of 2]
    by (simp add: sim_machine_def sim_run_def)
qed

theorem runaxf_Started_witness:
  "\<exists>s' a m l. ShellDynCmdRunAxfHandler 3 (sim_machine True 1) (sim_run 2) = Ret (Started 0x8001, s') \<and>
    file_read (sim_machine True 1) a (RunMem (sim_run 2)) m \<and> l \<noteq> [] \<and> RunMem s' = fold run_node l m"
proof -
  define l where "l = [\<lparr>MemOffset = 0x8000, FileOffset = 0x1078, Zeroes = False, Length = 2 :: u64\<rparr>,
    \<lparr>MemOffset = 0x8002, FileOffset = 0, Zeroes = True, Length = 2\<rparr>]"
  have load: "ElfLoadFile (sim_machine True 1) 0x1000 (sim_loaded 1) = Ret ((EFI_SUCCESS, Some 0x8001, l), sim_loaded 1)"
    by (simp add: load_sim l_def)
  have shut: "ShutdownUefiBootServices 3 (sim_machine True 1) (sim_loaded 1) = Ret (EFI_SUCCESS, (sim_loaded 1)\<lparr>Outside := 0\<rparr>)"
    by (simp add: ShutdownUefiBootServices_def numeral_3_eq_3 sim_machine_def sim_loaded_def sim_run_def bindM_assoc Let_def)
      (simp add: ret_def)
  have "\<exists>s'. launch 3 (sim_machine True 1) (SHELL_SUCCESS, EFI_SUCCESS, Some 0x8001, l) (sim_loaded 1) = Ret (Started 0x8001, s')"
    by (simp add: launch_def bindM_eqI [of "ShutdownUefiBootServices 3 (sim_machine True 1)", OF shut] l_def
        PreparePlatformHardware_def bindM_ASSERT bindM_assoc)
      (simp add: sim_machine_def ret_def)
  then obtain s' where "bindM (load_image (sim_machine True 1) 0x1000) (launch 3 (sim_machine True 1)) (sim_loaded 1) =
      Ret (Started 0x8001, s')"
    by (auto simp: load_image_def check_sim bindM_assoc
        bindM_eqI [of "ElfLoadFile (sim_machine True 1) 0x1000", OF load])
  moreover have "InstallShellProtocols (sim_machine True 1) w = (EFI_SUCCESS, w)"
    "ShellInitialize (sim_machine True 1) w = (EFI_SUCCESS, w)" for w by (simp_all add: sim_machine_def)
  moreover have "Outside (sim_run 2) = 2" by (simp add: sim_run_def)
  ultimately have "ShellDynCmdRunAxfHandler 3 (sim_machine True 1) (sim_run 2) = Ret (Started 0x8001, s')"
    by (simp add: ShellDynCmdRunAxfHandler_def bindM_ASSERT bindM_eqI [of "fetch_image (sim_machine True 1)", OF fetch_sim])
  then show ?thesis using runaxf_Started by blast
qed

end
