(* ===== verification/BootMonDriver.thy ===== *)
theory BootMonDriver
  imports BootMonFs
begin

text \<open>
  The driver binding of the boot monitor file system (\<open>BootMonFsEntryPoint.c\<close>): the device paths it
  is for, and starting and stopping it on a controller. An instance is named by the number of its
  allocation; the global list \<open>mInstances\<close> holds these numbers, and an instance that was freed is not
  among the living.
\<close>

section \<open>State and services\<close>

datatype boot_protocol = DiskIoProtocol | BlockIoProtocol | DevicePathProtocol

datatype open_attribute = ByDriver | TestProtocol | GetProtocol

record BOOTMON_FS_INSTANCE =
  ControllerHandle :: nat
  FsInformation :: EFI_FILE_SYSTEM_INFO
  Root :: "BOOTMON_FS_FILE option"

record 'w BootDriver =
  mInstances :: "nat list"
  living :: "nat \<rightharpoonup> BOOTMON_FS_INSTANCE"
  NextInstance :: nat
  mBootMonFsSupportedDevicePaths :: "u8 list list"
  Firmware :: 'w

text \<open>
  The boot services, the libraries for device paths, and the media behind a controller. A device path
  is the string of its bytes, \<open>FromText\<close> the conversion of its text.
\<close>

record 'w BootServices =
  OpenProtocol :: "nat \<Rightarrow> boot_protocol \<Rightarrow> open_attribute \<Rightarrow> 'w \<Rightarrow> EFI_STATUS \<times> 'w"
  CloseProtocol :: "nat \<Rightarrow> boot_protocol \<Rightarrow> 'w \<Rightarrow> unit \<times> 'w"
  InstallFs :: "nat \<Rightarrow> nat \<Rightarrow> 'w \<Rightarrow> EFI_STATUS \<times> 'w"
  UninstallFs :: "nat \<Rightarrow> nat \<Rightarrow> 'w \<Rightarrow> EFI_STATUS \<times> 'w"
  InstallBinding :: "'w \<Rightarrow> EFI_STATUS \<times> 'w"
  AllocatePool :: "u64 \<Rightarrow> 'w \<Rightarrow> bool \<times> 'w"
  LocateFromText :: "'w \<Rightarrow> EFI_STATUS \<times> 'w"
  FromText :: "u16 list \<Rightarrow> u8 list option"
  DevicePathOf :: "nat \<Rightarrow> u8 list"
  MediaBlockSize :: "nat \<Rightarrow> u32"
  MediaLastBlock :: "nat \<Rightarrow> u64"
  MediaLowestAlignedLba :: "nat \<Rightarrow> u64"

type_synonym ('w, 'a) boot = "('w BootDriver, 'a) prog"

definition boot_service :: "('w \<Rightarrow> 'a \<times> 'w) \<Rightarrow> ('w, 'a) boot" where
  [prog_defs]: "boot_service f = (\<lambda>s. case f (Firmware s) of (x, w) \<Rightarrow> Ret (x, s\<lparr>Firmware := w\<rparr>))"

lemma bindM_boot_service [simp]:
  "bindM (boot_service f) g s = (case f (Firmware s) of (x, w) \<Rightarrow> g x (s\<lparr>Firmware := w\<rparr>))"
  by (simp add: bindM_def boot_service_def split: prod.splits)

section \<open>The supported device paths\<close>

definition semicolon :: u16 where "semicolon = 0x3B"

lemma behind_semicolon_shorter:
  "list \<noteq> [] \<Longrightarrow> length (dropWhile (\<lambda>c. c \<noteq> semicolon) list) - Suc 0 < length list"
  using length_dropWhile_le [of "\<lambda>c. c \<noteq> semicolon" list] by (cases list) auto

text \<open>
  The loop over the list of texts: the text up to the next semicolon is copied, the last one is used
  in place.
\<close>

function supported_paths_loop :: "'w BootServices \<Rightarrow> u16 list \<Rightarrow> ('w, EFI_STATUS) boot" where
  "supported_paths_loop B list =
     (if list = [] then ret EFI_SUCCESS
      else
        let path = takeWhile (\<lambda>c. c \<noteq> semicolon) list; rest = dropWhile (\<lambda>c. c \<noteq> semicolon) list
        in bindM (if rest = [] then ret True else boot_service (AllocatePool B (of_nat (length path + 1) * 2))) (\<lambda>granted.
           if \<not> granted then ret EFI_OUT_OF_RESOURCES
           else
             bindM (ASSERT (FromText B path \<noteq> None)) (\<lambda>_.
             bindM (modify (\<lambda>s. s\<lparr>mBootMonFsSupportedDevicePaths :=
               mBootMonFsSupportedDevicePaths s @ [the (FromText B path)]\<rparr>)) (\<lambda>_.
             supported_paths_loop B (tl rest)))))"
  by pat_completeness auto

termination
  by (relation "measure (\<lambda>(B, list). length list)") (simp_all add: behind_semicolon_shorter)

declare supported_paths_loop.simps [simp del]

definition SupportedDevicePathsInit :: "'w BootServices \<Rightarrow> u16 list option \<Rightarrow> ('w, EFI_STATUS) boot" where
  "SupportedDevicePathsInit B PcdBootMonFsSupportedDevicePaths =
     bindM (boot_service (LocateFromText B)) (\<lambda>Status.
     bindM (ASSERT (\<not> EFI_ERROR Status)) (\<lambda>_.
     bindM (modify (\<lambda>s. s\<lparr>mBootMonFsSupportedDevicePaths := []\<rparr>)) (\<lambda>_.
     tryE (case PcdBootMonFsSupportedDevicePaths of None \<Rightarrow> ret EFI_SUCCESS | Some list \<Rightarrow> supported_paths_loop B list) (
     bindM (gets mBootMonFsSupportedDevicePaths) (\<lambda>paths.
     ret (if paths = [] then EFI_UNSUPPORTED else EFI_SUCCESS))))))"

definition BootMonFsEntryPoint :: "'w BootServices \<Rightarrow> u16 list option \<Rightarrow> ('w, EFI_STATUS) boot" where
  "BootMonFsEntryPoint B PcdBootMonFsSupportedDevicePaths =
     bindM (modify (\<lambda>s. s\<lparr>mInstances := []\<rparr>)) (\<lambda>_.
     bindM (SupportedDevicePathsInit B PcdBootMonFsSupportedDevicePaths) (\<lambda>Status.
     if EFI_ERROR Status then ret Status
     else
       bindM (boot_service (InstallBinding B)) (\<lambda>Status.
       bindM (ASSERT (\<not> EFI_ERROR Status)) (\<lambda>_. ret Status))))"

section \<open>Supported, start and stop\<close>

definition BootMonFsDriverSupported :: "'w BootServices \<Rightarrow> nat \<Rightarrow> ('w, EFI_STATUS) boot" where
  "BootMonFsDriverSupported B ctl =
     tryE (boot_service (OpenProtocol B ctl DiskIoProtocol ByDriver)) (
     bindM (boot_service (CloseProtocol B ctl DiskIoProtocol)) (\<lambda>_.
     tryE (boot_service (OpenProtocol B ctl BlockIoProtocol TestProtocol)) (
     tryE (boot_service (OpenProtocol B ctl DevicePathProtocol ByDriver)) (
     bindM (gets mBootMonFsSupportedDevicePaths) (\<lambda>paths.
     bindM (boot_service (CloseProtocol B ctl DevicePathProtocol)) (\<lambda>_.
     ret (if list_ex (\<lambda>p. length (DevicePathOf B ctl) = length p \<and> DevicePathOf B ctl = p) paths
          then EFI_SUCCESS else EFI_UNSUPPORTED)))))))"

definition BOOTMON_FS_VOLUME_LABEL :: "u16 list" where
  "BOOTMON_FS_VOLUME_LABEL = [0x4E, 0x4F, 0x52, 0x20, 0x46, 0x6C, 0x61, 0x73, 0x68]"

definition sizeof_BOOTMON_FS_INSTANCE :: u64 where "sizeof_BOOTMON_FS_INSTANCE = 184"
definition sizeof_EFI_FILE_INFO :: u64 where "sizeof_EFI_FILE_INFO = 88"

definition volume_info :: "'w BootServices \<Rightarrow> nat \<Rightarrow> EFI_FILE_SYSTEM_INFO" where
  "volume_info B ctl = \<lparr>FsInfoSize = SIZE_OF_EFI_FILE_SYSTEM_INFO + (StrSize16 BOOTMON_FS_VOLUME_LABEL + 3 * 2),
     ReadOnly = False, VolumeSize = ucast (MediaBlockSize B ctl) * (MediaLastBlock B ctl - MediaLowestAlignedLba B ctl),
     FreeSpace = 0, FsBlockSize = MediaBlockSize B ctl, VolumeLabel = BOOTMON_FS_VOLUME_LABEL\<rparr>"

definition empty_info :: EFI_FILE_INFO where
  "empty_info = \<lparr>InfoSize = 0, FileSize = 0, PhysicalSize = 0, Times = replicate 48 0, InfoAttribute = 0, FileName = []\<rparr>"

text \<open>
  The part of the start between the allocation of the instance and its registration. Behind the
  label \<open>Error\<close> everything allocated is freed; what was opened stays open.
\<close>

definition start_instance :: "'w BootServices \<Rightarrow> nat \<Rightarrow> nat \<Rightarrow> ('w, EFI_STATUS) boot" where
  "start_instance B ctl i =
     tryE (boot_service (OpenProtocol B ctl BlockIoProtocol GetProtocol)) (
     tryE (boot_service (OpenProtocol B ctl DiskIoProtocol ByDriver)) (
     bindM (modify (\<lambda>s. s\<lparr>living := (living s)(i \<mapsto> \<lparr>ControllerHandle = ctl, FsInformation = volume_info B ctl,
       Root = None\<rparr>)\<rparr>)) (\<lambda>_.
     bindM (boot_service (AllocatePool B sizeof_BOOTMON_FS_FILE)) (\<lambda>granted.
     if \<not> granted then ret EFI_OUT_OF_RESOURCES
     else
       bindM (boot_service (AllocatePool B sizeof_EFI_FILE_INFO)) (\<lambda>granted.
       if \<not> granted then ret EFI_OUT_OF_RESOURCES
       else
         bindM (modify (\<lambda>s. s\<lparr>living := (living s)(i \<mapsto> \<lparr>ControllerHandle = ctl, FsInformation = volume_info B ctl,
           Root = Some (new_file\<lparr>Info := Some empty_info\<rparr>)\<rparr>)\<rparr>)) (\<lambda>_.
         tryE (boot_service (OpenProtocol B ctl DevicePathProtocol GetProtocol)) (
         boot_service (InstallFs B ctl i))))))))"

text \<open>
  \<open>InsertTailList\<close> writes into the entry that was last: when that instance has been freed this is
  an access to freed memory.
\<close>

definition insert_tail :: "nat \<Rightarrow> ('w, unit) boot" where
  "insert_tail i = (\<lambda>s. if mInstances s \<noteq> [] \<and> living s (last (mInstances s)) = None then Stop UseAfterFree
     else Ret ((), s\<lparr>mInstances := mInstances s @ [i]\<rparr>))"

definition BootMonFsDriverStart :: "'w BootServices \<Rightarrow> nat \<Rightarrow> ('w, EFI_STATUS) boot" where
  "BootMonFsDriverStart B ctl =
     bindM (boot_service (AllocatePool B sizeof_BOOTMON_FS_INSTANCE)) (\<lambda>granted.
     if \<not> granted then ret EFI_OUT_OF_RESOURCES
     else
       bindM (gets NextInstance) (\<lambda>i.
       bindM (modify (\<lambda>s. s\<lparr>NextInstance := i + 1\<rparr>)) (\<lambda>_.
       bindM (start_instance B ctl i) (\<lambda>Status.
       if EFI_ERROR Status then
         bindM (modify (\<lambda>s. s\<lparr>living := (living s)(i := None)\<rparr>)) (\<lambda>_. ret Status)
       else bindM (insert_tail i) (\<lambda>_. ret EFI_SUCCESS)))))"

text \<open>The search through the list; it looks into every instance on its way.\<close>

primrec find_instance :: "nat \<Rightarrow> (nat \<rightharpoonup> BOOTMON_FS_INSTANCE) \<Rightarrow> nat list \<Rightarrow> nat option outcome" where
  "find_instance ctl heap [] = Ret None"
| "find_instance ctl heap (i # is) = (case heap i of None \<Rightarrow> Stop UseAfterFree
     | Some x \<Rightarrow> if ControllerHandle x = ctl then Ret (Some i) else find_instance ctl heap is)"

definition search_instance :: "nat \<Rightarrow> ('w, nat option) boot" where
  "search_instance ctl = (\<lambda>s. case find_instance ctl (living s) (mInstances s) of Ret r \<Rightarrow> Ret (r, s) | Stop e \<Rightarrow> Stop e)"

lemma bindM_search [simp]:
  "bindM (search_instance ctl) k s = (case find_instance ctl (living s) (mInstances s) of Ret r \<Rightarrow> k r s | Stop e \<Rightarrow> Stop e)"
  by (simp add: bindM_def search_instance_def split: outcome.splits)

definition BootMonFsDriverStop :: "'w BootServices \<Rightarrow> nat \<Rightarrow> ('w, EFI_STATUS) boot" where
  "BootMonFsDriverStop B ctl =
     bindM (search_instance ctl) (\<lambda>found.
     bindM (ASSERT (found \<noteq> None)) (\<lambda>_.
     bindM (boot_service (CloseProtocol B ctl DevicePathProtocol)) (\<lambda>_.
     bindM (boot_service (CloseProtocol B ctl DiskIoProtocol)) (\<lambda>_.
     bindM (boot_service (CloseProtocol B ctl BlockIoProtocol)) (\<lambda>_.
     bindM (boot_service (UninstallFs B ctl (the found))) (\<lambda>Status.
     bindM (modify (\<lambda>s. s\<lparr>living := (living s)(the found := None)\<rparr>)) (\<lambda>_.
     ret Status)))))))"

section \<open>The list of texts\<close>

text \<open>The texts of a list, each ended by a semicolon but the last.\<close>

primrec joined :: "u16 list list \<Rightarrow> u16 list" where
  "joined [] = []"
| "joined (t # ts) = (if ts = [] then t else t @ semicolon # joined ts)"

lemma supported_paths_loop_Nil [simp]: "supported_paths_loop B [] s = Ret (EFI_SUCCESS, s)"
  by (subst supported_paths_loop.simps) (simp add: ret_def)

lemma supported_paths_loop_joined:
  assumes "\<And>n w. fst (AllocatePool B n w)"
  shows "\<forall>t \<in> set ts. t \<noteq> [] \<and> semicolon \<notin> set t \<and> FromText B t \<noteq> None \<Longrightarrow>
    \<exists>w. supported_paths_loop B (joined ts) s = Ret (EFI_SUCCESS, s\<lparr>mBootMonFsSupportedDevicePaths :=
      mBootMonFsSupportedDevicePaths s @ map (\<lambda>t. the (FromText B t)) ts, Firmware := w\<rparr>)"
proof (induction ts arbitrary: s)
  case Nil
  show ?case by (auto intro!: exI [of _ "Firmware s"])
next
  case (Cons t ts)
  have t: "t \<noteq> []" "semicolon \<notin> set t" "FromText B t \<noteq> None" using Cons.prems by auto
  then have all: "takeWhile (\<lambda>c. c \<noteq> semicolon) t = t" "dropWhile (\<lambda>c. c \<noteq> semicolon) t = []"
    by (auto simp: takeWhile_eq_all_conv)
  show ?case
  proof (cases "ts = []")
    case True
    have "supported_paths_loop B t s = Ret (EFI_SUCCESS, s\<lparr>mBootMonFsSupportedDevicePaths :=
        mBootMonFsSupportedDevicePaths s @ [the (FromText B t)]\<rparr>)"
      using t(1,3) by (subst supported_paths_loop.simps) (simp add: ASSERT_def Let_def all)
    with True show ?thesis by (auto intro!: exI [of _ "Firmware s"])
  next
    case False
    obtain g w where w: "AllocatePool B (of_nat (length t + 1) * 2) (Firmware s) = (g, w)" by fastforce
    then have g using assms [of "of_nat (length t + 1) * 2" "Firmware s"] by simp
    define s1 where "s1 = s\<lparr>Firmware := w, mBootMonFsSupportedDevicePaths := mBootMonFsSupportedDevicePaths s @ [the (FromText B t)]\<rparr>"
    have split: "takeWhile (\<lambda>c. c \<noteq> semicolon) (t @ semicolon # joined ts) = t"
      "dropWhile (\<lambda>c. c \<noteq> semicolon) (t @ semicolon # joined ts) = semicolon # joined ts"
      using t(2) by (induction t) auto
    have "supported_paths_loop B (joined (t # ts)) s = supported_paths_loop B (joined ts) s1"
      using False t w \<open>g\<close> by (subst supported_paths_loop.simps)
        (simp add: split Let_def ASSERT_def s1_def)
    moreover obtain w' where "supported_paths_loop B (joined ts) s1 = Ret (EFI_SUCCESS, s1\<lparr>mBootMonFsSupportedDevicePaths :=
        mBootMonFsSupportedDevicePaths s1 @ map (\<lambda>t. the (FromText B t)) ts, Firmware := w'\<rparr>)"
      using Cons.IH [of s1] Cons.prems by auto
    ultimately show ?thesis by (auto simp: s1_def)
  qed
qed

section \<open>Stopping leaves a dangling entry\<close>

lemma safe_boot_service [safe_intros]: "(\<And>s w. P s \<Longrightarrow> P (s\<lparr>Firmware := w\<rparr>)) \<Longrightarrow> safe P (boot_service f)"
  by (simp add: safe_def boot_service_def split: prod.splits)

lemma start_instance_frame:
  assumes "start_instance B ctl k s = Ret (st, t)" and "j \<noteq> k"
  shows "mInstances t = mInstances s \<and> living t j = living s j"
proof -
  have "safe (\<lambda>t. mInstances t = mInstances s \<and> living t j = living s j) (start_instance B ctl k)"
    unfolding start_instance_def by (intro safe_intros) (use assms(2) in simp_all)
  from safe_Ret [OF this _ assms(1)] show ?thesis by simp
qed

text \<open>
  A driver that was started on a controller and stopped again cannot be used any more:
  stopping frees the instance without taking it out of the list, so the next stop on any controller
  walks into freed memory, and the next start that gets as far as the list writes to it.
\<close>
theorem DriverStop_dangles:
  assumes stop: "BootMonFsDriverStop B ctl s = Ret (st, s')" and one: "mInstances s = [i]" "i < NextInstance s"
  shows "mInstances s' = [i] \<and> BootMonFsDriverStop B ctl' s' = Stop UseAfterFree \<and>
    (\<nexists>t. BootMonFsDriverStart B ctl' s' = Ret (EFI_SUCCESS, t))"
proof -
  obtain x where "living s i = Some x" "ControllerHandle x = ctl"
    using stop one by (auto simp: BootMonFsDriverStop_def bindM_ASSERT split: option.splits if_splits)
  then have s': "mInstances s' = [i]" "living s' i = None" "NextInstance s' = NextInstance s"
    using stop one by (auto simp: BootMonFsDriverStop_def bindM_ASSERT ret_def split: option.splits if_splits prod.splits)
  then have "BootMonFsDriverStop B ctl' s' = Stop UseAfterFree"
    by (simp add: BootMonFsDriverStop_def)
  moreover have "BootMonFsDriverStart B ctl' s' \<noteq> Ret (EFI_SUCCESS, t)" for t
  proof
    assume "BootMonFsDriverStart B ctl' s' = Ret (EFI_SUCCESS, t)"
    then obtain w s2 x where "start_instance B ctl' (NextInstance s) (s'\<lparr>Firmware := w, NextInstance := NextInstance s + 1\<rparr>) =
        Ret (x, s2)" and ins: "insert_tail (NextInstance s) s2 = Ret ((), t)"
      using s'(3) by (auto simp: BootMonFsDriverStart_def bindM_Ret ret_def boot_service_def modify_def gets_def
          split: if_splits prod.splits)
    then have "mInstances s2 = [i]" "living s2 i = None"
      using start_instance_frame [of B ctl' "NextInstance s" _ x s2 i] s' one(2) by auto
    with ins show False by (simp add: insert_tail_def)
  qed
  ultimately show ?thesis using s' by blast
qed

section \<open>A run of the driver\<close>

definition sim_boot_services :: "unit BootServices" where
  "sim_boot_services = \<lparr>OpenProtocol = (\<lambda>_ _ _ w. (EFI_SUCCESS, w)), CloseProtocol = (\<lambda>_ _ w. ((), w)),
     InstallFs = (\<lambda>_ _ w. (EFI_SUCCESS, w)), UninstallFs = (\<lambda>_ _ w. (EFI_SUCCESS, w)),
     InstallBinding = (\<lambda>w. (EFI_SUCCESS, w)), AllocatePool = (\<lambda>_ w. (True, w)), LocateFromText = (\<lambda>w. (EFI_SUCCESS, w)),
     FromText = (\<lambda>text. Some (map ucast text)), DevicePathOf = (\<lambda>_. [1, 2]), MediaBlockSize = (\<lambda>_. 256),
     MediaLastBlock = (\<lambda>_. 7), MediaLowestAlignedLba = (\<lambda>_. 0)\<rparr>"

definition sim_driver_state :: "unit BootDriver" where
  "sim_driver_state = \<lparr>mInstances = [0], living = [0 \<mapsto> \<lparr>ControllerHandle = 7, FsInformation = volume_info sim_boot_services 7,
     Root = Some (new_file\<lparr>Info := Some empty_info\<rparr>)\<rparr>], NextInstance = 1, mBootMonFsSupportedDevicePaths = [[1, 2]], Firmware = ()\<rparr>"

theorem DriverStop_dangles_witness:
  "\<exists>s'. BootMonFsDriverStop sim_boot_services 7 sim_driver_state = Ret (EFI_SUCCESS, s') \<and>
    BootMonFsDriverStop sim_boot_services 8 s' = Stop UseAfterFree \<and>
    (\<nexists>t. BootMonFsDriverStart sim_boot_services 8 s' = Ret (EFI_SUCCESS, t))"
proof -
  obtain s' where "BootMonFsDriverStop sim_boot_services 7 sim_driver_state = Ret (EFI_SUCCESS, s')"
    by (simp add: BootMonFsDriverStop_def sim_driver_state_def sim_boot_services_def ASSERT_def) (simp add: ret_def)
  then show ?thesis
    using DriverStop_dangles [of sim_boot_services 7 sim_driver_state EFI_SUCCESS s' 0 8]
    by (auto simp: sim_driver_state_def)
qed

end
