(* ===== verification/Tpm2.thy ===== *)
theory Tpm2
  imports AuthVar
begin

text \<open>
  The TPM 2.0 device over OP-TEE
  (\<open>OpteeClientPkg/Library/Tpm2DeviceLibOptee/Tpm2DeviceLibOptee.c\<close>): one session with the firmware
  TPM, one shared buffer for each command and its response, the control area for ACPI, and the set-up
  and end of the library.
\<close>

section \<open>State and environment\<close>

record ('g, 't) Tpm2State =
  TpmTee :: "('g, 't) World"
  TpmInitialized :: bool
  FtpmContext :: TEEC_Context
  FtpmSession :: TEEC_Session

type_synonym ('g, 't, 'a) tpm = "(('g, 't) Tpm2State, 'a) prog"

text \<open>
  The physical presence library, which may use the device itself, is a function of the whole state;
  \<open>CreateRelinquishEvent\<close> registers \<open>Tpm2RelinquishUseTpm\<close> with the end of boot services.
\<close>

record ('g, 't) Tpm2Env =
  TpmE :: "('g, 't) TeeEnv"
  TpmFuel :: nat
  PcdTpm2AcpiBufferBase :: u64
  PcdTpm2AcpiBufferSize :: u32
  PhysicalPresenceRequest :: "('g, 't) Tpm2State \<Rightarrow> ('g, 't) Tpm2State"
  CreateRelinquishEvent :: "'t \<Rightarrow> EFI_STATUS \<times> 't"

definition tpm_tee :: "('g, 't, 'a) tee \<Rightarrow> ('g, 't, 'a) tpm" where
  [prog_defs]: "tpm_tee m = (\<lambda>s. case m (TpmTee s) of
     Ret (x, w) \<Rightarrow> Ret (x, s\<lparr>TpmTee := w\<rparr>) | Stop r \<Rightarrow> Stop r)"

section \<open>Commands\<close>

definition TA_FTPM_SUBMIT_COMMAND :: u32 where "TA_FTPM_SUBMIT_COMMAND = 0"

text \<open>A command buffer that is read and a response buffer that is read and written.\<close>

definition tpm_operation :: "u64 \<Rightarrow> u32 \<Rightarrow> u64 \<Rightarrow> u32 \<Rightarrow> TEEC_Operation" where
  "tpm_operation SharedInput InputSize SharedOutput OutputSize = \<lparr>
     paramTypes = TEEC_PARAM_TYPES TEEC_MEMREF_TEMP_INPUT TEEC_MEMREF_TEMP_INOUT TEEC_NONE TEEC_NONE,
     params = [\<lparr>Word0 = SharedInput, Word1 = ucast InputSize, Word2 = 0\<rparr>,
               \<lparr>Word0 = SharedOutput, Word1 = ucast OutputSize, Word2 = 0\<rparr>,
               \<lparr>Word0 = 0, Word1 = 0, Word2 = 0\<rparr>, \<lparr>Word0 = 0, Word1 = 0, Word2 = 0\<rparr>]\<rparr>"

text \<open>
  The status, \<open>*OutputParameterBlockSize\<close>, and the bytes put into the output block when there are any;
  more of them than the block has room for is a write outside of it. The two sizes are added at 32
  bits.
\<close>

definition submit_shared ::
    "('g, 't) Tpm2Env \<Rightarrow> u8 list \<Rightarrow> u32 \<Rightarrow> u64 \<Rightarrow> ('g, 't, EFI_STATUS \<times> u32 \<times> u8 list option) tpm" where
  "submit_shared E Input OutputSize SharedInput =
     (let InputSize = of_nat (length Input); SharedOutput = SharedInput + ucast (InputSize :: u32)
      in bindM (tpm_tee (writeM (poke SharedInput Input))) (\<lambda>_.
         bindM (gets FtpmSession) (\<lambda>session.
         bindM (tpm_tee (TEEC_InvokeCommand (TpmE E) (TpmFuel E) (Some session) TA_FTPM_SUBMIT_COMMAND
             (Some (tpm_operation SharedInput InputSize SharedOutput OutputSize)))) (\<lambda>a.
         if ApiCode a \<noteq> TEEC_SUCCESS then
           bindM (ASSERT False) (\<lambda>_. ret (EFI_DEVICE_ERROR, OutputSize, None))
         else
           let n = tmpref_size (params (the (ApiOperation a)) ! 1)
           in bindM (tpm_tee (readM (peek (unat n) SharedOutput))) (\<lambda>bytes.
              if unat n > unat OutputSize then stopM OutOfBounds
              else ret (EFI_SUCCESS, ucast n, Some bytes))))))"

definition Tpm2SubmitCommand ::
    "('g, 't) Tpm2Env \<Rightarrow> u8 list \<Rightarrow> u32 \<Rightarrow> ('g, 't, EFI_STATUS \<times> u32 \<times> u8 list option) tpm" where
  "Tpm2SubmitCommand E Input OutputSize =
     bindM (gets TpmInitialized) (\<lambda>ready.
     if \<not> ready then ret (EFI_NOT_READY, OutputSize, None)
     else
       let mem = \<lparr>shm_buffer = 0, shm_size = ucast (of_nat (length Input) + OutputSize :: u32), shm_flags = 0, shm_shadow_buffer = 0\<rparr>
       in bindM (gets FtpmContext) (\<lambda>context.
          bindM (tpm_tee (TEEC_AllocateSharedMemory (TpmE E) (Some context) (Some mem))) (\<lambda>(r, mem).
          if r \<noteq> TEEC_SUCCESS then
            bindM (ASSERT False) (\<lambda>_.
            ret (if r = TEEC_ERROR_OUT_OF_MEMORY then EFI_OUT_OF_RESOURCES else EFI_DEVICE_ERROR, OutputSize, None))
          else
            bindM (submit_shared E Input OutputSize (shm_buffer (the mem))) (\<lambda>out.
            bindM (tpm_tee (TEEC_ReleaseSharedMemory (TpmE E) mem)) (\<lambda>_. ret out)))))"

section \<open>The session\<close>

definition gOpteeFtpmTaGuid :: EFI_GUID where
  "gOpteeFtpmTaGuid = \<lparr>Data1 = 0xBC50D971, Data2 = 0xD4C9, Data3 = 0x42C4,
     Data4 = [0x82, 0xCB, 0x34, 0x3F, 0xB7, 0xF3, 0x78, 0x96]\<rparr>"

definition ftpm_uuid :: TEEC_UUID where
  "ftpm_uuid = swap_uuid \<lparr>timeLow = Data1 gOpteeFtpmTaGuid, timeMid = Data2 gOpteeFtpmTaGuid,
     timeHiAndVersion = Data3 gOpteeFtpmTaGuid, clockSeqAndNode = Data4 gOpteeFtpmTaGuid\<rparr>"

definition Tpm2RequestUseTpm :: "('g, 't) Tpm2Env \<Rightarrow> ('g, 't, EFI_STATUS) tpm" where
  "Tpm2RequestUseTpm E =
     bindM (gets FtpmContext) (\<lambda>context.
     let (r, context) = TEEC_InitializeContext None (Some context)
     in bindM (modify (\<lambda>s. s\<lparr>FtpmContext := the context\<rparr>)) (\<lambda>_.
        bindM (ASSERT (r = TEEC_SUCCESS)) (\<lambda>_.
        bindM (gets FtpmSession) (\<lambda>session.
        bindM (tpm_tee (TEEC_OpenSession (TpmE E) (TpmFuel E) context (Some session) (Some ftpm_uuid)
                 TEEC_LOGIN_PUBLIC None)) (\<lambda>a.
        bindM (modify (\<lambda>s. s\<lparr>FtpmSession := the (ApiSession a)\<rparr>)) (\<lambda>_.
        if ApiCode a \<noteq> TEEC_SUCCESS then bindM (ASSERT False) (\<lambda>_. ret EFI_DEVICE_ERROR)
        else bindM (modify (\<lambda>s. s\<lparr>TpmInitialized := True\<rparr>)) (\<lambda>_. ret EFI_SUCCESS)))))))"

text \<open>\<open>TEEC_FinalizeContext\<close> does nothing.\<close>

definition Tpm2RelinquishUseTpm :: "('g, 't) Tpm2Env \<Rightarrow> ('g, 't, unit) tpm" where
  "Tpm2RelinquishUseTpm E =
     bindM (gets TpmInitialized) (\<lambda>ready.
     bindM (if ready then
         bindM (gets FtpmSession) (\<lambda>session.
         bindM (tpm_tee (TEEC_CloseSession (TpmE E) (TpmFuel E) (Some session))) (\<lambda>_.
         modify (\<lambda>s. s\<lparr>TpmInitialized := False\<rparr>)))
       else ret ()) (\<lambda>_.
     tpm_tee (on_shm OpteeClientApiFinalize)))"

definition Tpm2RegisterTpm2DeviceLib :: "('g, 't, EFI_STATUS) tpm" where
  "Tpm2RegisterTpm2DeviceLib = bindM (ASSERT False) (\<lambda>_. ret EFI_UNSUPPORTED)"

section \<open>Set-up\<close>

text \<open>
  \<open>EFI_TPM2_ACPI_CONTROL_AREA\<close> of the TCG ACPI specification: 48 bytes, with \<open>CommandSize\<close> at 24,
  \<open>Command\<close> at 28, \<open>ResponseSize\<close> at 36 and \<open>Response\<close> at 40.
\<close>

definition sizeof_CONTROL_AREA :: u64 where "sizeof_CONTROL_AREA = 48"

definition control_area :: "u64 \<Rightarrow> u32 \<Rightarrow> memory \<Rightarrow> memory" where
  "control_area a BufferSize m =
     (let Command = a + sizeof_CONTROL_AREA
      in write_u32 (a + 36) BufferSize (write_u64 (a + 40) (Command + ucast BufferSize)
           (write_u32 (a + 24) BufferSize (write_u64 (a + 28) Command (poke a (replicate 48 0) m)))))"

definition Tpm2AcpiControlAreaInit :: "('g, 't) Tpm2Env \<Rightarrow> ('g, 't, unit) tpm" where
  "Tpm2AcpiControlAreaInit E =
     (let BaseAddress = PcdTpm2AcpiBufferBase E; BufferSize = PcdTpm2AcpiBufferSize E; BufferSize = 4096
      in tpm_tee (writeM (control_area BaseAddress BufferSize)))"

definition Tpm2DeviceLibOpTEEEntry :: "('g, 't) Tpm2Env \<Rightarrow> u64 \<Rightarrow> ('g, 't, EFI_STATUS) tpm" where
  "Tpm2DeviceLibOpTEEEntry E ImageHandle =
     bindM (Tpm2AcpiControlAreaInit E) (\<lambda>_.
     bindM (tpm_tee (OpteeClientApiInitialize (TpmE E) ImageHandle)) (\<lambda>Status.
     bindM (modify (PhysicalPresenceRequest E)) (\<lambda>_.
     tpm_tee (restM (CreateRelinquishEvent E)))))"

end
