(* ===== verification/Tpm2Spec.thy ===== *)
theory Tpm2Spec
  imports Tpm2 AuthVarSpec
begin

text \<open>
  What a TPM command amounts to: the firmware TPM is a function from the bytes of a command to the
  bytes of its response, and submitting a command through the shared buffer, the message and the
  monitor call is one call of it, with the shared pool left as it was.
\<close>

section \<open>The firmware TPM\<close>

text \<open>
  A command with the room for its response gives the result code, the size of the response the
  message announces, and the bytes put into the response buffer.
\<close>

type_synonym 't ftpm = "u8 list \<Rightarrow> nat \<Rightarrow> 't \<Rightarrow> (u32 \<times> u64 \<times> u8 list) \<times> 't"

definition ftpm_view :: "u32 \<Rightarrow> u64 \<Rightarrow> u64 \<Rightarrow> u64 \<Rightarrow> u64 \<Rightarrow> u32 \<times> u32 \<times> u32 \<times> words list" where
  "ftpm_view session pb ps rb rs = (OPTEE_MSG_CMD_INVOKE_COMMAND, TA_FTPM_SUBMIT_COMMAND, session,
     [(ucast OPTEE_MSG_ATTR_TYPE_TMEM_INPUT, pb, ps), (ucast (OPTEE_MSG_ATTR_TYPE_TMEM_INPUT + 2), rb, rs),
      (ucast OPTEE_MSG_ATTR_TYPE_NONE, 0, 0), (ucast OPTEE_MSG_ATTR_TYPE_NONE, 0, 0)])"

definition ftpm_answer :: "u32 \<Rightarrow> u64 \<Rightarrow> u32 \<times> u32 \<times> u32 \<times> words list \<Rightarrow> bool" where
  "ftpm_answer r n a \<longleftrightarrow> (case a of (r', _, _, ws) \<Rightarrow> r' = r \<and> snd (snd (ws ! 1)) = n)"

text \<open>A response lies in its buffer; only a size beyond the buffer is not the size of the response.\<close>

definition response_fits :: "'t ftpm \<Rightarrow> bool" where
  "response_fits tpm \<longleftrightarrow> (\<forall>cmd room t r n bytes t'. tpm cmd room t = ((r, n, bytes), t') \<longrightarrow>
     length bytes \<le> room \<and> (unat n \<le> room \<longrightarrow> length bytes = unat n))"

definition serves_ftpm :: "('g, 't) TeeEnv \<Rightarrow> 't ftpm \<Rightarrow> bool" where
  "serves_ftpm E tpm \<longleftrightarrow> response_fits tpm \<and> (\<forall>p m t session pb ps rb rs r n bytes t'.
     msg_view 4 p m = ftpm_view session pb ps rb rs \<longrightarrow> read_u32 (p + msg_num_params) m = 4 \<longrightarrow>
     blk p (OPTEE_MSG_GET_ARG_SIZE 4) \<inter> blk rb rs = {} \<longrightarrow>
     tpm (peek (unat ps) pb m) (unat rs) t = ((r, n, bytes), t') \<longrightarrow>
     (\<exists>args m'. ArmCallSmc E (call_args p) m t = (args, m', t') \<and> Arg0 args = OPTEE_SMC_RETURN_OK \<and>
        ftpm_answer r n (msg_answer 4 p m') \<and>
        (\<forall>x. x \<notin> blk p (OPTEE_MSG_GET_ARG_SIZE 4) \<longrightarrow> m' x = poke rb bytes m x)))"

lemma tpm_types:
  "TEEC_PARAM_TYPE_GET (paramTypes (tpm_operation pb ps rb rs)) 0 = TEEC_MEMREF_TEMP_INPUT"
  "TEEC_PARAM_TYPE_GET (paramTypes (tpm_operation pb ps rb rs)) 1 = TEEC_MEMREF_TEMP_INOUT"
  "TEEC_PARAM_TYPE_GET (paramTypes (tpm_operation pb ps rb rs)) 2 = TEEC_NONE"
  "TEEC_PARAM_TYPE_GET (paramTypes (tpm_operation pb ps rb rs)) 3 = TEEC_NONE"
  by (simp_all add: tpm_operation_def TEEC_PARAM_TYPES_def TEEC_PARAM_TYPE_GET_def teec_params)

lemma inout_kind:
  "TEEC_MEMREF_TEMP_INOUT \<noteq> TEEC_NONE" "\<not> is_value TEEC_MEMREF_TEMP_INOUT" "is_tmpref TEEC_MEMREF_TEMP_INOUT"
  by (simp_all add: teec_params is_value_def is_tmpref_def)

lemma tpm_supported: "all_supported (tpm_operation pb ps rb rs)"
  by (simp add: all_supported_def supported_def TEEC_CONFIG_PAYLOAD_REF_COUNT_def four tpm_types [simplified]
      var_kinds inout_kind Let_def)

lemma invoke_view_tpm:
  "invoke_view session TA_FTPM_SUBMIT_COMMAND (tpm_operation pb ps rb rs)
   = ftpm_view (session_id session) pb (ucast ps) rb (ucast rs)"
proof -
  have "encode_param (tpm_operation pb ps rb rs) 0 (0, 0, 0) = (ucast OPTEE_MSG_ATTR_TYPE_TMEM_INPUT, pb, ucast ps)"
    "encode_param (tpm_operation pb ps rb rs) 1 (0, 0, 0) = (ucast (OPTEE_MSG_ATTR_TYPE_TMEM_INPUT + 2), rb, ucast rs)"
    "encode_param (tpm_operation pb ps rb rs) 2 (0, 0, 0) = (ucast OPTEE_MSG_ATTR_TYPE_NONE, 0, 0)"
    "encode_param (tpm_operation pb ps rb rs) 3 (0, 0, 0) = (ucast OPTEE_MSG_ATTR_TYPE_NONE, 0, 0)"
    unfolding encode_param_def Let_def tpm_types
    by (simp_all add: is_value_def tmpref_buffer_def tmpref_size_def msg_attrs teec_params tpm_operation_def)
  then show ?thesis
    by (simp add: invoke_view_def ftpm_view_def four)
qed

lemma answered_size:
  assumes "ftpm_answer r n a"
  shows "Result (answered session (tpm_operation pb ps rb rs) a) = r"
    and "tmpref_size (params (OutOperation (answered session (tpm_operation pb ps rb rs) a)) ! 1) = n"
proof -
  obtain o' s' ws where a: "a = (r, o', s', ws)" and w: "snd (snd (ws ! 1)) = n"
    using assms by (auto simp: ftpm_answer_def)
  show "Result (answered session (tpm_operation pb ps rb rs) a) = r"
    by (simp add: a answered_def)
  show "tmpref_size (params (OutOperation (answered session (tpm_operation pb ps rb rs) a)) ! 1) = n"
    using w by (simp add: a answered_def decode_params_def TEEC_CONFIG_PAYLOAD_REF_COUNT_def four decode_param_def Let_def
        update_param_def tpm_operation_def TEEC_PARAM_TYPES_def TEEC_PARAM_TYPE_GET_def is_value_def teec_params
        set_tmpref_def tmpref_size_def)
qed

section \<open>One command\<close>

lemma smc_answers:
  assumes "ArmCallSmc E (call_args p) (Memory (Shm v)) (Rest v) = (args, m, t)" and "Arg0 args = OPTEE_SMC_RETURN_OK"
    and "0 < fuel"
  shows "OpteeSmcCall E fuel p v = Ret (TEEC_SUCCESS, (with_mem m v)\<lparr>Rest := t\<rparr>)"
proof -
  have "\<not> OPTEE_SMC_RETURN_IS_RPC (Arg0 args)" "Arg0 args \<noteq> OPTEE_SMC_RETURN_UNKNOWN_FUNCTION"
    by (simp_all add: assms(2) smc_consts OPTEE_SMC_RETURN_IS_RPC_def)
  then show ?thesis
    using assms by (cases fuel) (simp_all add: OpteeSmcCall_def smcM_def serviceM_def bindM_def ret_def with_mem_def)
qed

lemma ftpm_served:
  assumes sv: "serves_ftpm E tpm" and "0 < fuel"
    and view: "msg_view 4 p (Memory (Shm v)) = ftpm_view session pb ps rb rs"
      "read_u32 (p + msg_num_params) (Memory (Shm v)) = of_nat 4"
    and apart: "blk p (OPTEE_MSG_GET_ARG_SIZE 4) \<inter> blk rb rs = {}"
    and tpm: "tpm (peek (unat ps) pb (Memory (Shm v))) (unat rs) (Rest v) = ((r, n, bytes), t)"
  obtains m where "OpteeSmcCall E fuel p v = Ret (TEEC_SUCCESS, (with_mem m v)\<lparr>Rest := t\<rparr>)"
    and "ftpm_answer r n (msg_answer 4 p m)"
    and "\<And>x. x \<notin> blk p (OPTEE_MSG_GET_ARG_SIZE 4) \<Longrightarrow> m x = poke rb bytes (Memory (Shm v)) x"
proof -
  have num: "read_u32 (p + msg_num_params) (Memory (Shm v)) = 4" using view(2) by simp
  obtain args m where "ArmCallSmc E (call_args p) (Memory (Shm v)) (Rest v) = (args, m, t)"
    "Arg0 args = OPTEE_SMC_RETURN_OK" "ftpm_answer r n (msg_answer 4 p m)"
    "\<forall>x. x \<notin> blk p (OPTEE_MSG_GET_ARG_SIZE 4) \<longrightarrow> m x = poke rb bytes (Memory (Shm v)) x"
    using conjunct2 [OF sv [unfolded serves_ftpm_def]] view(1) num apart tpm by metis
  with smc_answers [OF this(1,2) assms(2)] show thesis by (intro that [of m]) auto
qed

lemma tpm_invoke_run:
  assumes E: "window_ok (ShmE E)" "gcd_contract (ShmE E) live" and ok: "shm_ok (ShmE E) live (Shm w)"
    and sv: "serves_ftpm E tpm" "0 < fuel"
    and pU: "blk pb (ucast ps) \<subseteq> user_area (live (Gcd (Shm w)))"
    and rU: "blk rb (ucast rs) \<subseteq> user_area (live (Gcd (Shm w)))"
    and tpm: "tpm (peek (unat ps) pb (Memory (Shm w))) (unat rs) (Rest w) = ((r, n, bytes), t)"
  shows "\<exists>q s g a. OpteeClientMemAlloc (ShmE E) (OPTEE_MSG_GET_ARG_SIZE 4) (Shm w) = Ret (q, s) \<and>
    live g = live (Gcd (Shm w)) \<and>
    TEEC_InvokeCommand E fuel (Some session) TA_FTPM_SUBMIT_COMMAND (Some (tpm_operation pb ps rb rs)) w =
      (if q = 0 then Ret (a, w\<lparr>Shm := (Shm w)\<lparr>Gcd := g\<rparr>\<rparr>)
       else Ret (a, w\<lparr>Shm := (Shm w)\<lparr>Gcd := g, Memory := poke rb bytes (Memory (Shm w))\<rparr>, Rest := t\<rparr>)) \<and>
    ApiCode a = (if q = 0 then TEEC_ERROR_OUT_OF_MEMORY else r) \<and>
    (q \<noteq> 0 \<longrightarrow> tmpref_size (params (the (ApiOperation a)) ! 1) = n)"
proof -
  let ?op = "tpm_operation pb ps rb rs" and ?U = "user_area (live (Gcd (Shm w)))"
  let ?m = "poke rb bytes (Memory (Shm w))"
  have "length bytes \<le> unat rs"
    using sv(1) tpm unfolding serves_ftpm_def response_fits_def by blast
  then have inU: "x \<in> ?U" if "unat (x - rb) < length bytes" for x
    using that rU by (auto simp: blk_iff)
  have call: "\<exists>m a. OpteeSmcCall E fuel p v = Ret (TEEC_SUCCESS, (with_mem m v)\<lparr>Rest := t\<rparr>) \<and>
      msg_answer 4 p m = a \<and> ftpm_answer r n a \<and> (\<forall>x. x \<notin> blk p (OPTEE_MSG_GET_ARG_SIZE 4) \<longrightarrow>
        m x = (if x \<in> ?U then ?m x else Memory (Shm v) x))"
    if ap: "blk p (OPTEE_MSG_GET_ARG_SIZE 4) \<inter> ?U = {}"
      and view: "msg_view 4 p (Memory (Shm v)) = invoke_view session TA_FTPM_SUBMIT_COMMAND ?op"
        "read_u32 (p + msg_num_params) (Memory (Shm v)) = of_nat 4"
      and mU: "\<And>x. x \<in> ?U \<Longrightarrow> Memory (Shm v) x = Memory (Shm w) x" and rest: "Rest v = Rest w" for p v
  proof -
    have "peek (unat ps) pb (Memory (Shm v)) = peek (unat ps) pb (Memory (Shm w))"
      using pU mU by (intro peek_eq_on_blk [of _ "ucast ps"]) auto
    then have t: "tpm (peek (unat (ucast ps :: u64)) pb (Memory (Shm v))) (unat (ucast rs :: u64)) (Rest v) = ((r, n, bytes), t)"
      using tpm by (simp add: rest)
    have a: "blk p (OPTEE_MSG_GET_ARG_SIZE 4) \<inter> blk rb (ucast rs) = {}" using ap rU by blast
    obtain m where m: "OpteeSmcCall E fuel p v = Ret (TEEC_SUCCESS, (with_mem m v)\<lparr>Rest := t\<rparr>)"
      "ftpm_answer r n (msg_answer 4 p m)"
      "\<And>x. x \<notin> blk p (OPTEE_MSG_GET_ARG_SIZE 4) \<Longrightarrow> m x = poke rb bytes (Memory (Shm v)) x"
      by (rule ftpm_served [OF sv view(1) [unfolded invoke_view_tpm] view(2) a t]) blast
    have "poke rb bytes (Memory (Shm v)) x = (if x \<in> ?U then ?m x else Memory (Shm v) x)" for x
      using mU inU by (auto simp: poke_def)
    with m show ?thesis by (intro exI [of _ m]) simp
  qed
  have same: "(\<lambda>x. if x \<in> ?U then ?m x else Memory (Shm w) x) = ?m"
    using inU by (auto simp: poke_def)
  obtain q s g where f: "OpteeClientMemAlloc (ShmE E) (OPTEE_MSG_GET_ARG_SIZE 4) (Shm w) = Ret (q, s)"
    "live g = live (Gcd (Shm w))"
    "if q = 0 then with_message E fuel 4 session ?op (fill_invoke session TA_FTPM_SUBMIT_COMMAND ?op) (answer_invoke session ?op) w =
       Ret (out_of_memory session ?op, w\<lparr>Shm := (Shm w)\<lparr>Gcd := g\<rparr>\<rparr>)
     else \<exists>a. ftpm_answer r n a \<and>
       with_message E fuel 4 session ?op (fill_invoke session TA_FTPM_SUBMIT_COMMAND ?op) (answer_invoke session ?op) w =
       Ret (answered session ?op a, w\<lparr>Shm := (Shm w)\<lparr>Gcd := g, Memory := ?m\<rparr>, Rest := t\<rparr>)"
    using with_message_run [where V = "invoke_view session TA_FTPM_SUBMIT_COMMAND ?op" and fuel = fuel and t = t
      and Q = "ftpm_answer r n" and u = ?m and w = w and A = "answered session ?op" and Session = session
      and Operation = ?op and n = 4 and E = E and live = live, unfolded same, folded out_of_memory_def,
      OF E ok four_le fill_invoke_run [OF tpm_supported] call answer_invoke_run [OF tpm_supported]]
    by blast
  have inv: "TEEC_InvokeCommand E fuel (Some session) TA_FTPM_SUBMIT_COMMAND (Some ?op) w =
      (case with_message E fuel 4 session ?op (fill_invoke session TA_FTPM_SUBMIT_COMMAND ?op) (answer_invoke session ?op) w of
         Ret (c, w') \<Rightarrow> Ret (api_result (Some ?op) c, w') | Stop x \<Rightarrow> Stop x)"
    by (auto simp: TEEC_InvokeCommand_def TEEC_SMC_InvokeCommand_def TEEC_CONFIG_PAYLOAD_REF_COUNT_def or_null_def
        bindM_def ret_def split: outcome.splits)
  show ?thesis
  proof (cases "q = 0")
    case True
    with f inv show ?thesis
      by (intro exI [of _ q] exI [of _ s] exI [of _ g] exI [of _ "api_result (Some ?op) (out_of_memory session ?op)"])
        (simp add: api_result_def out_of_memory_def)
  next
    case False
    then obtain a where a: "ftpm_answer r n a"
      "with_message E fuel 4 session ?op (fill_invoke session TA_FTPM_SUBMIT_COMMAND ?op) (answer_invoke session ?op) w =
       Ret (answered session ?op a, w\<lparr>Shm := (Shm w)\<lparr>Gcd := g, Memory := ?m\<rparr>, Rest := t\<rparr>)"
      using f(3) by auto
    with False f(1,2) inv answered_size [OF a(1)] show ?thesis
      by (intro exI [of _ q] exI [of _ s] exI [of _ g] exI [of _ "api_result (Some ?op) (answered session ?op a)"])
        (simp add: api_result_def)
  qed
qed

section \<open>Submitting a command\<close>

definition block_size :: "u8 list \<Rightarrow> u32 \<Rightarrow> u64" where
  "block_size Input OutputSize = ucast (of_nat (length Input) + OutputSize :: u32)"

lemma block_size_parts:
  assumes "length Input + unat OutputSize < 2 ^ 32"
  shows "unat (block_size Input OutputSize) = length Input + unat OutputSize" and "fits (block_size Input OutputSize)"
    and "unat (of_nat (length Input) :: u32) = length Input"
    and "blk p (ucast (of_nat (length Input) :: u32)) \<subseteq> blk p (block_size Input OutputSize)"
    and "blk (p + ucast (of_nat (length Input) :: u32)) (ucast OutputSize) \<subseteq> blk p (block_size Input OutputSize)"
proof -
  show n: "unat (of_nat (length Input) :: u32) = length Input"
    using assms by (simp add: unat_of_nat)
  then show l: "unat (block_size Input OutputSize) = length Input + unat OutputSize"
    using assms unfolding block_size_def by (simp add: unat_word_ariths)
  show "fits (block_size Input OutputSize)"
    using assms by (simp add: fits_def l min_block_def)
  show "blk p (ucast (of_nat (length Input) :: u32)) \<subseteq> blk p (block_size Input OutputSize)"
    by (rule blk_shrink) (simp add: l n)
  show "blk (p + ucast (of_nat (length Input) :: u32)) (ucast OutputSize) \<subseteq> blk p (block_size Input OutputSize)"
    by (rule sub_block) (simp add: l n)
qed

lemma alloc_returns:
  assumes "window_ok E" "gcd_contract E live" and "shm_ok E live s" and "fits len"
  shows "\<exists>p s'. OpteeClientMemAlloc E len s = Ret (p, s')"
proof -
  have "valid_alignment OPTEE_CLIENT_MEM_BYTE_ALIGNMENT"
    by (auto simp: valid_alignment_def shm_consts intro!: exI [of _ 4])
  from InternalMemAlloc_run [OF assms this] show ?thesis
    unfolding OpteeClientMemAlloc_def by metis
qed

text \<open>The state of the device with other pool services and another rest of the platform.\<close>

definition tpm_step :: "'g \<Rightarrow> 't \<Rightarrow> ('g, 't) Tpm2State \<Rightarrow> ('g, 't) Tpm2State" where
  "tpm_step g t s = s\<lparr>TpmTee := (TpmTee s)\<lparr>Shm := (Shm (TpmTee s))\<lparr>Gcd := g\<rparr>, Rest := t\<rparr>\<rparr>"

lemma submit_shared_run:
  fixes s :: "('g, 't) Tpm2State"
  assumes E: "window_ok (ShmE (TpmE E))" "gcd_contract (ShmE (TpmE E)) live" and sv: "serves_ftpm (TpmE E) tpm" "0 < TpmFuel E"
    and len: "length Input + unat OutputSize < 2 ^ 32"
    and ok: "shm_ok (ShmE (TpmE E)) live (Shm (TpmTee s))"
    and pU: "blk p (block_size Input OutputSize) \<subseteq> user_area (live (Gcd (Shm (TpmTee s))))"
    and tpm: "tpm Input (unat OutputSize) (Rest (TpmTee s)) = ((r, n, bytes), t)"
  shows "\<exists>q s1 g. OpteeClientMemAlloc (ShmE (TpmE E)) (OPTEE_MSG_GET_ARG_SIZE 4)
      ((Shm (TpmTee s))\<lparr>Memory := poke p Input (Memory (Shm (TpmTee s)))\<rparr>) = Ret (q, s1) \<and> live g = live (Gcd (Shm (TpmTee s))) \<and>
    submit_shared E Input OutputSize p s =
      (if q = 0 \<or> r \<noteq> TEEC_SUCCESS then Stop AssertFailed else if unat OutputSize < unat n then Stop OutOfBounds
       else Ret ((EFI_SUCCESS, ucast n, Some bytes), s\<lparr>TpmTee := (TpmTee s)\<lparr>Shm := (Shm (TpmTee s))\<lparr>Gcd := g,
         Memory := poke (p + ucast (of_nat (length Input) :: u32)) bytes (poke p Input (Memory (Shm (TpmTee s))))\<rparr>, Rest := t\<rparr>\<rparr>))"
proof -
  let ?w = "TpmTee s" and ?U = "user_area (live (Gcd (Shm (TpmTee s))))"
  let ?ps = "of_nat (length Input) :: u32" and ?rb = "p + ucast (of_nat (length Input) :: u32)"
  let ?m1 = "poke p Input (Memory (Shm ?w))" and ?w1 = "with_mem (poke p Input (Memory (Shm (TpmTee s)))) (TpmTee s)"
  note bs = block_size_parts [OF len]
  have "?m1 x = Memory (Shm ?w) x" if "x \<notin> ?U" for x
    using that pU bs(4) [of p] by (intro poke_outside) (auto simp: blk_iff bs(3))
  then have "shm_ok (ShmE (TpmE E)) live ((Shm ?w)\<lparr>Memory := ?m1\<rparr>)"
    by (rule user_writes_ok [OF E(1) ok])
  then have ok1: "shm_ok (ShmE (TpmE E)) live (Shm ?w1)" by (simp add: with_mem_def)
  have "peek (unat ?ps) p ?m1 = Input"
    using peek_poke [of Input 0 "length Input" p] len by (simp add: bs(3))
  then have tpm1: "tpm (peek (unat ?ps) p (Memory (Shm ?w1))) (unat OutputSize) (Rest ?w1) = ((r, n, bytes), t)"
    using tpm by simp
  have sub: "blk p (ucast ?ps) \<subseteq> user_area (live (Gcd (Shm ?w1)))" "blk ?rb (ucast OutputSize) \<subseteq> user_area (live (Gcd (Shm ?w1)))"
    using pU bs(4,5) [of p] by auto
  obtain q s1 g a where run: "OpteeClientMemAlloc (ShmE (TpmE E)) (OPTEE_MSG_GET_ARG_SIZE 4) (Shm ?w1) = Ret (q, s1)"
    "live g = live (Gcd (Shm ?w1))"
    "TEEC_InvokeCommand (TpmE E) (TpmFuel E) (Some (FtpmSession s)) TA_FTPM_SUBMIT_COMMAND
        (Some (tpm_operation p ?ps ?rb OutputSize)) ?w1 =
      (if q = 0 then Ret (a, ?w1\<lparr>Shm := (Shm ?w1)\<lparr>Gcd := g\<rparr>\<rparr>)
       else Ret (a, ?w1\<lparr>Shm := (Shm ?w1)\<lparr>Gcd := g, Memory := poke ?rb bytes ?m1\<rparr>, Rest := t\<rparr>))"
    "ApiCode a = (if q = 0 then TEEC_ERROR_OUT_OF_MEMORY else r)"
    "q \<noteq> 0 \<longrightarrow> tmpref_size (params (the (ApiOperation a)) ! 1) = n"
    using tpm_invoke_run [OF E ok1 sv sub tpm1, of "FtpmSession s"] unfolding with_mem_simps by blast
  have bytes: "unat n \<le> unat OutputSize \<Longrightarrow> peek (unat n) ?rb (poke ?rb bytes ?m1) = bytes"
    using sv(1) tpm peek_poke [of bytes 0 "unat n" ?rb ?m1] len
    unfolding serves_ftpm_def response_fits_def by fastforce
  have oom: "TEEC_ERROR_OUT_OF_MEMORY \<noteq> TEEC_SUCCESS" by (simp add: teec_results)
  have "submit_shared E Input OutputSize p s =
      (if q = 0 \<or> r \<noteq> TEEC_SUCCESS then Stop AssertFailed else if unat OutputSize < unat n then Stop OutOfBounds
       else Ret ((EFI_SUCCESS, ucast n, Some bytes), s\<lparr>TpmTee := (TpmTee s)\<lparr>Shm := (Shm (TpmTee s))\<lparr>Gcd := g,
         Memory := poke ?rb bytes ?m1\<rparr>, Rest := t\<rparr>\<rparr>))"
    using run(3-5) oom bytes
    by (simp add: submit_shared_def tpm_tee_def bindM_def writeM_run readM_run gets_def ASSERT_def stopM_def ret_def Let_def
        with_mem_def)
  with run(1,2) show ?thesis by (intro exI [of _ q] exI [of _ s1] exI [of _ g]) (simp add: with_mem_def)
qed

text \<open>
  Property C38. Submitting a command refines one call of the firmware TPM with exactly the bytes of the
  command and the room for the response. The response comes back unchanged with its size, and the pool
  with all of its memory is as before. A block that cannot be had or an error of the TPM fails an
  assertion. A size beyond the room, which nothing checks, makes the copy leave the caller's buffer.
\<close>
theorem Tpm2SubmitCommand_refines:
  assumes E: "window_ok (ShmE (TpmE E))" "gcd_contract (ShmE (TpmE E)) live" and sv: "serves_ftpm (TpmE E) tpm" "0 < TpmFuel E"
    and len: "length Input + unat OutputSize < 2 ^ 32"
    and s: "shm_ok (ShmE (TpmE E)) live (Shm (TpmTee s))" "TpmInitialized s"
    and tpm: "tpm Input (unat OutputSize) (Rest (TpmTee s)) = ((r, n, bytes), t)"
  shows "\<exists>p s1. OpteeClientMemAlloc (ShmE (TpmE E)) (block_size Input OutputSize) (Shm (TpmTee s)) = Ret (p, s1) \<and>
    (if p = 0 then Tpm2SubmitCommand E Input OutputSize s = Stop AssertFailed
     else \<exists>q s2 g. OpteeClientMemAlloc (ShmE (TpmE E)) (OPTEE_MSG_GET_ARG_SIZE 4) (s1\<lparr>Memory := poke p Input (Memory s1)\<rparr>) = Ret (q, s2) \<and>
       live g = live (Gcd (Shm (TpmTee s))) \<and>
       Tpm2SubmitCommand E Input OutputSize s =
         (if q = 0 \<or> r \<noteq> TEEC_SUCCESS then Stop AssertFailed else if unat OutputSize < unat n then Stop OutOfBounds
          else Ret ((EFI_SUCCESS, ucast n, Some bytes), tpm_step g t s)))"
proof -
  let ?T = "TpmE E" and ?w = "TpmTee s" and ?L = "block_size Input OutputSize"
  let ?ps = "of_nat (length Input) :: u32"
  note bs = block_size_parts [OF len]
  obtain p s1 where al: "OpteeClientMemAlloc (ShmE ?T) ?L (Shm ?w) = Ret (p, s1)"
    using alloc_returns [OF E s(1) bs(2)] by blast
  have oom: "TEEC_ERROR_OUT_OF_MEMORY \<noteq> TEEC_SUCCESS" by (simp add: teec_results)
  show ?thesis
  proof (cases "p = 0")
    case True
    then have "Tpm2SubmitCommand E Input OutputSize s = Stop AssertFailed"
      using s(2) al oom
      by (simp add: Tpm2SubmitCommand_def tpm_tee_def TEEC_AllocateSharedMemory_def on_shm_def bindM_def gets_def ret_def
          ASSERT_def stopM_def Let_def flip: block_size_def)
    with True al show ?thesis by (intro exI [of _ p] exI [of _ s1]) simp
  next
    case False
    note at = alloc_use_free_at [OF E s(1) bs(2) al False]
    let ?s1 = "s\<lparr>TpmTee := ?w\<lparr>Shm := s1\<rparr>\<rparr>"
    let ?m = "poke (p + ucast ?ps) bytes (poke p Input (Memory s1))"
    obtain q s2 g where sub: "OpteeClientMemAlloc (ShmE ?T) (OPTEE_MSG_GET_ARG_SIZE 4) (s1\<lparr>Memory := poke p Input (Memory s1)\<rparr>) = Ret (q, s2)"
      "live g = live (Gcd s1)"
      "submit_shared E Input OutputSize p ?s1 =
        (if q = 0 \<or> r \<noteq> TEEC_SUCCESS then Stop AssertFailed else if unat OutputSize < unat n then Stop OutOfBounds
         else Ret ((EFI_SUCCESS, ucast n, Some bytes), s\<lparr>TpmTee := ?w\<lparr>Shm := s1\<lparr>Gcd := g, Memory := ?m\<rparr>, Rest := t\<rparr>\<rparr>))"
      using submit_shared_run [OF E sv len, of ?s1 p r n bytes t] at(3,4) tpm by auto
    have "length bytes \<le> unat OutputSize"
      using sv(1) tpm unfolding serves_ftpm_def response_fits_def by blast
    then have out: "?m x = Memory s1 x" if "x \<notin> blk p ?L" for x
    proof -
      have "x \<notin> blk (p + ucast ?ps) (ucast OutputSize)" "x \<notin> blk p (ucast ?ps)"
        using that bs(4,5) [of p] by auto
      with \<open>length bytes \<le> unat OutputSize\<close> show ?thesis by (simp add: poke_def blk_iff bs(3))
    qed
    have "?m x = Memory (Shm ?w) x" if "x \<in> user_area (live (Gcd (Shm ?w)))" for x
      using that at(1,2) out by (metis IntI empty_iff)
    then have same: "(\<lambda>x. if x \<in> user_area (live (Gcd (Shm ?w))) then ?m x else Memory (Shm ?w) x) = Memory (Shm ?w)"
      by auto
    obtain h where h: "live h = live (Gcd (Shm ?w))"
      "OpteeClientMemFree (ShmE ?T) p (s1\<lparr>Gcd := g, Memory := ?m\<rparr>) = Ret (EFI_SUCCESS, (Shm ?w)\<lparr>Gcd := h\<rparr>)"
      using at(5) [of ?m g] sub(2) out unfolding same by auto
    have "Tpm2SubmitCommand E Input OutputSize s =
        (if q = 0 \<or> r \<noteq> TEEC_SUCCESS then Stop AssertFailed else if unat OutputSize < unat n then Stop OutOfBounds
         else Ret ((EFI_SUCCESS, ucast n, Some bytes), tpm_step h t s))"
      using s(2) al False sub(3) h(2)
      by (simp add: Tpm2SubmitCommand_def tpm_tee_def TEEC_AllocateSharedMemory_def TEEC_ReleaseSharedMemory_def on_shm_def
          bindM_def gets_def ret_def Let_def tpm_step_def flip: block_size_def)
    with False al sub(1) h(1) show ?thesis
      by (intro exI [of _ p] exI [of _ s1]) auto
  qed
qed

end
