(* ===== verification/Tpm2Sim.thy ===== *)
theory Tpm2Sim
  imports Tpm2Spec OpteeSim
begin

text \<open>
  A firmware TPM that answers a command with its bytes in reverse order, behind a secure world that
  serves it: it models no code of the repository and serves the witness only.
\<close>

definition sim_tpm :: "nat ftpm" where
  "sim_tpm cmd k t = (if length cmd \<le> k \<and> k < 2 ^ 64
     then ((TEEC_SUCCESS, of_nat (length cmd), rev cmd), Suc t) else ((TEEC_ERROR_SHORT_BUFFER, 0, []), t))"

lemma sim_response_fits: "response_fits sim_tpm"
  by (auto simp: response_fits_def sim_tpm_def unat_of_nat split: if_splits)

definition tpm_smc :: "ARM_SMC_ARGS \<Rightarrow> memory \<Rightarrow> nat \<Rightarrow> ARM_SMC_ARGS \<times> memory \<times> nat" where
  "tpm_smc args m t =
     (let p = address64 (Arg1 args) (Arg2 args);
          (_, pb, ps) = msg_words m p 0; (_, rb, rs) = msg_words m p 1
      in case sim_tpm (peek (unat ps) pb m) (unat rs) t of ((r, n, bytes), t') \<Rightarrow>
        (args\<lparr>Arg0 := OPTEE_SMC_RETURN_OK\<rparr>, write_u32 (p + msg_ret) r (write_u64 (p + 80) n (poke rb bytes m)), t'))"

lemma tpm_smc_serves: "serves_ftpm (sim_tee_env tpm_smc) sim_tpm"
  unfolding serves_ftpm_def
proof (intro conjI sim_response_fits allI impI)
  fix p :: u64 and m session pb ps rb rs r n bytes t t'
  assume v: "msg_view 4 p m = ftpm_view session pb ps rb rs"
    and ta: "sim_tpm (peek (unat ps) pb m) (unat rs) t = ((r, n, bytes), t')"
  have w: "\<exists>x. msg_words m p 0 = (x, pb, ps)" "\<exists>x. msg_words m p 1 = (x, rb, rs)"
    using v by (simp_all add: msg_view_def ftpm_view_def four)
  let ?m = "write_u32 (p + msg_ret) r (write_u64 (p + 80) n (poke rb bytes m))"
  have run: "ArmCallSmc (sim_tee_env tpm_smc) (call_args p) m t = ((call_args p)\<lparr>Arg0 := OPTEE_SMC_RETURN_OK\<rparr>, ?m, t')"
    using w ta by (auto simp: tpm_smc_def address_halves Let_def)
  have "read_u32 (p + msg_ret) ?m = r" by simp
  moreover have "read_u64 (p + 80) ?m = n"
    by (simp add: field_reads apart_at_def msg_offsets)
  moreover have "msg_words ?m p 1 = (read_u64 (p + 64) ?m, read_u64 (p + 72) ?m, read_u64 (p + 80) ?m)"
    by (simp add: msg_words_def param_words_def param_at_def param_offsets msg_offsets add.assoc)
  ultimately have ans: "ftpm_answer r n (msg_answer 4 p ?m)"
    by (simp add: ftpm_answer_def msg_answer_def four)
  have "?m x = poke rb bytes m x" if "x \<notin> blk p (OPTEE_MSG_GET_ARG_SIZE 4)" for x
  proof -
    have "blk (p + d) k \<subseteq> blk p (OPTEE_MSG_GET_ARG_SIZE 4)" if "unat d + unat k \<le> 160" for d k
      using that by (intro sub_block) (simp add: ARG_SIZE_unat)
    from this [of msg_ret 4] this [of 80 8] that show ?thesis
      by (subst write_u32_outside, force simp: msg_offsets) (subst write_u64_outside, force, simp)
  qed
  with run ans show "\<exists>args m'. ArmCallSmc (sim_tee_env tpm_smc) (call_args p) m t = (args, m', t') \<and>
      Arg0 args = OPTEE_SMC_RETURN_OK \<and> ftpm_answer r n (msg_answer 4 p m') \<and>
      (\<forall>x. x \<notin> blk p (OPTEE_MSG_GET_ARG_SIZE 4) \<longrightarrow> m' x = poke rb bytes m x)"
    by (intro exI [of _ "(call_args p)\<lparr>Arg0 := OPTEE_SMC_RETURN_OK\<rparr>"] exI [of _ ?m]) simp
qed

definition sim_tpm_env :: "(SimGcd, nat) Tpm2Env" where
  "sim_tpm_env = \<lparr>TpmE = sim_tee_env tpm_smc, TpmFuel = 1, PcdTpm2AcpiBufferBase = 0x80000000, PcdTpm2AcpiBufferSize = 4096,
     PhysicalPresenceRequest = (\<lambda>s. s), CreateRelinquishEvent = Pair EFI_SUCCESS\<rparr>"

definition sim_tpm_state :: "(SimGcd, nat) Tpm2State" where
  "sim_tpm_state = \<lparr>TpmTee = w_init, TpmInitialized = True, FtpmContext = \<lparr>fd = 0\<rparr>, FtpmSession = \<lparr>session_id = 7\<rparr>\<rparr>"

text \<open>A command of two bytes with room for three.\<close>

theorem Tpm2SubmitCommand_refines_witness:
  "\<exists>p s1. OpteeClientMemAlloc sim_shm 5 after_init = Ret (p, s1) \<and>
    (if p = 0 then Tpm2SubmitCommand sim_tpm_env [1, 2] 3 sim_tpm_state = Stop AssertFailed
     else \<exists>q s2 g. OpteeClientMemAlloc sim_shm (OPTEE_MSG_GET_ARG_SIZE 4) (s1\<lparr>Memory := poke p [1, 2] (Memory s1)\<rparr>) = Ret (q, s2) \<and>
       Tpm2SubmitCommand sim_tpm_env [1, 2] 3 sim_tpm_state =
         (if q = 0 then Stop AssertFailed else Ret ((EFI_SUCCESS, 2, Some [2, 1]), tpm_step g 6 sim_tpm_state)))"
proof -
  have E: "window_ok (ShmE (TpmE sim_tpm_env))" "gcd_contract (ShmE (TpmE sim_tpm_env)) sim_live"
    "serves_ftpm (TpmE sim_tpm_env) sim_tpm" "0 < TpmFuel sim_tpm_env"
    by (simp_all add: sim_tpm_env_def window_ok_sim gcd_contract_sim tpm_smc_serves)
  have s: "shm_ok (ShmE (TpmE sim_tpm_env)) sim_live (Shm (TpmTee sim_tpm_state))" "TpmInitialized sim_tpm_state"
    using reachable_shm_ok [OF sim_reachable window_ok_sim gcd_contract_sim] by (simp_all add: sim_tpm_state_def sim_tpm_env_def)
  have len: "length [1, 2 :: u8] + unat (3 :: u32) < 2 ^ 32" by simp
  have tpm: "sim_tpm [1, 2] (unat (3 :: u32)) (Rest (TpmTee sim_tpm_state)) = ((TEEC_SUCCESS, 2, [2, 1]), 6)"
    by (simp add: sim_tpm_def sim_tpm_state_def)
  have "block_size [1, 2] 3 = 5" by (simp add: block_size_def)
  moreover have "ShmE (TpmE sim_tpm_env) = sim_shm" "Shm (TpmTee sim_tpm_state) = after_init"
    by (simp_all add: sim_tpm_env_def sim_tpm_state_def)
  ultimately show ?thesis
    using Tpm2SubmitCommand_refines [OF E len s tpm] by (auto split: if_splits)
qed

end
