(* ===== verification/BdsOption.thy ===== *)
theory BdsOption
  imports AuthVar RunAxf
begin

text \<open>
  The load options of the boot device selection library (\<open>src/ARM/Library/BdsLib\<close>): environment
  variables read into pool memory (\<open>BdsHelper.c\<close>), and the packed \<open>EFI_LOAD_OPTION\<close> behind each
  \<open>Boot####\<close> variable, parsed into and built from a \<open>BDS_LOAD_OPTION\<close> whose fields point into it
  (\<open>BdsLoadOption.c\<close>).
\<close>

section \<open>State and services\<close>

record 'w BdsState =
  BdsMem :: memory
  BdsWorld :: 'w

type_synonym ('w, 'a) bds = "('w BdsState, 'a) prog"

definition service :: "('w \<Rightarrow> 'a \<times> 'w) \<Rightarrow> ('w, 'a) bds" where
  [prog_defs]: "service f = (\<lambda>s. case f (BdsWorld s) of (x, w) \<Rightarrow> Ret (x, s\<lparr>BdsWorld := w\<rparr>))"

definition put_bytes :: "u64 \<Rightarrow> u8 list \<Rightarrow> ('w, unit) bds" where
  [prog_defs]: "put_bytes a bytes = modify (\<lambda>s. s\<lparr>BdsMem := poke a bytes (BdsMem s)\<rparr>)"

definition get_bytes :: "u64 \<Rightarrow> u64 \<Rightarrow> ('w, u8 list) bds" where
  [prog_defs]: "get_bytes a n = gets (\<lambda>s. peek (unat n) a (BdsMem s))"

text \<open>
  The variable services, given the size of the buffer and whether there is one; the pool, which gives
  address 0 when it is exhausted; and what comes from the packages the library is built with:
  \<open>GetDevicePathSize\<close>, the size of the structure \<open>BDS_LOAD_OPTION\<close>, and the PCD that bounds strings.
\<close>

record 'w VarEnv =
  GetVar :: "CHAR16s \<Rightarrow> EFI_GUID \<Rightarrow> u64 \<Rightarrow> bool \<Rightarrow> 'w \<Rightarrow> (EFI_STATUS \<times> u64 \<times> u8 list) \<times> 'w"
  SetVar :: "CHAR16s \<Rightarrow> EFI_GUID \<Rightarrow> u32 \<Rightarrow> u8 list \<Rightarrow> 'w \<Rightarrow> EFI_STATUS \<times> 'w"
  AllocPool :: "u64 \<Rightarrow> 'w \<Rightarrow> u64 \<times> 'w"
  DropPool :: "u64 \<Rightarrow> 'w \<Rightarrow> unit \<times> 'w"
  GetDevicePathSize :: "u64 \<Rightarrow> memory \<Rightarrow> u64"
  sizeof_BDS_LOAD_OPTION :: u64
  MaximumUnicodeStringLength :: nat

section \<open>Environment variables\<close>

definition boot_attributes :: u32 where
  "boot_attributes = EFI_VARIABLE_NON_VOLATILE OR EFI_VARIABLE_BOOTSERVICE_ACCESS OR EFI_VARIABLE_RUNTIME_ACCESS"

text \<open>The copy of the library asserts that there is something to copy.\<close>

definition AllocateCopyPool :: "'w VarEnv \<Rightarrow> u64 \<Rightarrow> u64 \<Rightarrow> ('w, u64) bds" where
  "AllocateCopyPool E n Buffer =
     bindM (ASSERT (Buffer \<noteq> 0 \<and> unat n \<le> 2 ^ 64 - unat Buffer)) (\<lambda>_.
     bindM (service (AllocPool E n)) (\<lambda>a.
     if a = 0 then ret 0
     else bindM (get_bytes Buffer n) (\<lambda>bytes. bindM (put_bytes a bytes) (\<lambda>_. ret a))))"

text \<open>
  The status, \<open>*Size\<close> (\<open>None\<close> when \<open>Size\<close> is \<open>NULL\<close>) and \<open>*Value\<close>. \<open>DefaultValue\<close> is an address, 0 for
  \<open>NULL\<close>.
\<close>

definition GetEnvironmentVariable ::
    "'w VarEnv \<Rightarrow> CHAR16s \<Rightarrow> EFI_GUID \<Rightarrow> u64 \<Rightarrow> u64 option \<Rightarrow> ('w, EFI_STATUS \<times> u64 option \<times> u64) bds" where
  "GetEnvironmentVariable E VariableName VendorGuid DefaultValue Size =
     bindM (service (GetVar E VariableName VendorGuid 0 False)) (\<lambda>(Status, VariableSize, _).
     if Status = EFI_NOT_FOUND then
       (if DefaultValue \<noteq> 0 \<and> Size \<noteq> None \<and> Size \<noteq> Some 0 then
          bindM (get_bytes DefaultValue (the Size)) (\<lambda>bytes.
          bindM (service (SetVar E VariableName VendorGuid boot_attributes bytes)) (\<lambda>_.
          bindM (AllocateCopyPool E (the Size) DefaultValue) (\<lambda>Value. ret (EFI_SUCCESS, Size, Value))))
        else ret (EFI_NOT_FOUND, Size, 0))
     else if Status = EFI_BUFFER_TOO_SMALL then
       bindM (service (AllocPool E VariableSize)) (\<lambda>Value.
       if Value = 0 then ret (EFI_OUT_OF_RESOURCES, Size, 0)
       else
         bindM (service (GetVar E VariableName VendorGuid VariableSize True)) (\<lambda>(Status, VariableSize, bytes).
         if EFI_ERROR Status then
           bindM (service (DropPool E Value)) (\<lambda>_. ret (EFI_INVALID_PARAMETER, Size, Value))
         else
           bindM (put_bytes Value bytes) (\<lambda>_.
           ret (EFI_SUCCESS, map_option (\<lambda>_. VariableSize) Size, Value))))
     else
       case Size of
         None \<Rightarrow> stopM NullDereference
       | Some n \<Rightarrow> bindM (AllocateCopyPool E n DefaultValue) (\<lambda>Value. ret (Status, Size, Value)))"

definition GetGlobalEnvironmentVariable ::
    "'w VarEnv \<Rightarrow> CHAR16s \<Rightarrow> u64 \<Rightarrow> u64 option \<Rightarrow> ('w, EFI_STATUS \<times> u64 option \<times> u64) bds" where
  "GetGlobalEnvironmentVariable E VariableName DefaultValue Size =
     GetEnvironmentVariable E VariableName gEfiGlobalVariableGuid DefaultValue Size"

text \<open>
  The callers of the library leave \<open>Size\<close> uninitialised and give no default; its value is then not
  read before the assertion on the default.
\<close>

definition global_variable :: "'w VarEnv \<Rightarrow> CHAR16s \<Rightarrow> ('w, EFI_STATUS \<times> u64 \<times> u64) bds" where
  "global_variable E VariableName =
     bindM (GetGlobalEnvironmentVariable E VariableName 0 (Some 0)) (\<lambda>(Status, Size, Value). ret (Status, the Size, Value))"

section \<open>Parsing a load option\<close>

record BDS_LOAD_OPTION =
  LoadOptionIndex :: u16
  LoadOption :: u64
  LoadOptionSize :: u64
  OptAttributes :: u32
  FilePathListLength :: u16
  Description :: u64
  FilePathList :: u64
  OptionalDataSize :: u64
  OptionalData :: u64

definition zero_option :: BDS_LOAD_OPTION where
  "zero_option = \<lparr>LoadOptionIndex = 0, LoadOption = 0, LoadOptionSize = 0, OptAttributes = 0, FilePathListLength = 0,
     Description = 0, FilePathList = 0, OptionalDataSize = 0, OptionalData = 0\<rparr>"

text \<open>The number of characters before the terminator, when there is one among the first \<open>n\<close>.\<close>

primrec str_len :: "nat \<Rightarrow> u64 \<Rightarrow> memory \<Rightarrow> nat option" where
  "str_len 0 a m = None"
| "str_len (Suc n) a m = (if read_u16 a m = 0 then Some 0 else map_option Suc (str_len n (a + 2) m))"

text \<open>\<open>StrSize\<close> of a string in memory, with the assertions of the library.\<close>

definition StrSizeAt :: "'w VarEnv \<Rightarrow> u64 \<Rightarrow> ('w, u64) bds" where
  "StrSizeAt E String =
     bindM (ASSERT (String \<noteq> 0 \<and> String AND 1 = 0)) (\<lambda>_.
     bindM (gets (\<lambda>s. str_len (Suc (MaximumUnicodeStringLength E)) String (BdsMem s))) (\<lambda>n.
     case n of None \<Rightarrow> stopM AssertFailed | Some n \<Rightarrow> ret (2 * (of_nat n + 1))))"

text \<open>The size of the smallest load option: attributes, length, terminator and end node.\<close>

definition min_load_option :: u64 where "min_load_option = 4 + 2 + 2 + 4"

definition fill_option :: "'w VarEnv \<Rightarrow> u64 \<Rightarrow> u64 \<Rightarrow> BDS_LOAD_OPTION \<Rightarrow> ('w, BDS_LOAD_OPTION) bds" where
  "fill_option E p n Opt =
     bindM (gets BdsMem) (\<lambda>m.
     bindM (StrSizeAt E (p + 4 + 2)) (\<lambda>DescriptionLength.
     let FilePathListLen = read_u16 (p + 4) m;
         Path = p + 4 + 2 + DescriptionLength;
         Behind = Path + ucast FilePathListLen;
         none = (Behind - p = n)
     in ret (Opt\<lparr>LoadOption := p, LoadOptionSize := n, OptAttributes := read_u32 p m, FilePathListLength := FilePathListLen,
          Description := p + 4 + 2, FilePathList := Path,
          OptionalData := (if none then 0 else Behind), OptionalDataSize := (if none then 0 else n - (Behind - p))\<rparr>)))"

text \<open>\<open>*BdsLoadOption\<close> is \<open>None\<close> when it is \<open>NULL\<close>.\<close>

definition BootOptionParseLoadOption ::
    "'w VarEnv \<Rightarrow> u64 \<Rightarrow> u64 \<Rightarrow> BDS_LOAD_OPTION option \<Rightarrow> ('w, EFI_STATUS \<times> BDS_LOAD_OPTION option) bds" where
  "BootOptionParseLoadOption E EfiLoadOption EfiLoadOptionSize BdsLoadOption =
     (if EfiLoadOption = 0 then ret (EFI_INVALID_PARAMETER, BdsLoadOption)
      else if EfiLoadOptionSize < min_load_option then ret (EFI_BAD_BUFFER_SIZE, BdsLoadOption)
      else
        bindM (case BdsLoadOption of
            None \<Rightarrow> bindM (service (AllocPool E (sizeof_BDS_LOAD_OPTION E))) (\<lambda>a.
              ret (if a = 0 then None else Some zero_option))
          | Some Opt \<Rightarrow> ret (Some Opt)) (\<lambda>Opt.
        case Opt of
          None \<Rightarrow> ret (EFI_OUT_OF_RESOURCES, BdsLoadOption)
        | Some Opt \<Rightarrow> bindM (fill_option E EfiLoadOption EfiLoadOptionSize Opt) (\<lambda>Opt. ret (EFI_SUCCESS, Some Opt))))"

definition BootOptionFromLoadOptionVariable ::
    "'w VarEnv \<Rightarrow> CHAR16s \<Rightarrow> ('w, EFI_STATUS \<times> BDS_LOAD_OPTION option) bds" where
  "BootOptionFromLoadOptionVariable E BootVariableName =
     bindM (global_variable E BootVariableName) (\<lambda>(Status, EfiLoadOptionSize, EfiLoadOption).
     if EFI_ERROR Status then ret (Status, None)
     else BootOptionParseLoadOption E EfiLoadOption EfiLoadOptionSize None)"

text \<open>\<open>L"Boot%04X"\<close>\<close>

definition hex_digit :: "u16 \<Rightarrow> u16" where "hex_digit d = (if d < 10 then 0x30 + d else 0x37 + d)"

definition boot_name :: "u16 \<Rightarrow> CHAR16s" where
  "boot_name i = map (\<lambda>c. of_nat (of_char c)) ''Boot'' @
     map (\<lambda>k. hex_digit (drop_bit k i AND 0xF)) [12, 8, 4, 0]"

definition BootOptionFromLoadOptionIndex ::
    "'w VarEnv \<Rightarrow> u16 \<Rightarrow> ('w, EFI_STATUS \<times> BDS_LOAD_OPTION option) bds" where
  "BootOptionFromLoadOptionIndex E Index =
     bindM (BootOptionFromLoadOptionVariable E (boot_name Index)) (\<lambda>(Status, Opt).
     ret (Status, if EFI_ERROR Status then Opt else map_option (\<lambda>o'. o'\<lparr>LoadOptionIndex := Index\<rparr>) Opt))"

section \<open>The boot order\<close>

definition boot_order :: CHAR16s where "boot_order = map (\<lambda>c. of_nat (of_char c)) ''BootOrder''"

definition order_at :: "u64 \<Rightarrow> u64 \<Rightarrow> memory \<Rightarrow> u16 list" where
  "order_at BootOrder n m = map (\<lambda>i. read_u16 (BootOrder + 2 * of_nat i) m) [0..<unat (n div 2)]"

definition boot_indices :: "nat list" where "boot_indices = [0..<0x10000]"

text \<open>The first index that is not in use is returned without a \<open>FreePool\<close>.\<close>

definition BootOptionAllocateBootIndex :: "'w VarEnv \<Rightarrow> ('w, u16) bds" where
  "BootOptionAllocateBootIndex E =
     bindM (global_variable E boot_order) (\<lambda>(Status, BootOrderSize, BootOrder).
     if EFI_ERROR Status then ret 0
     else
       bindM (gets (\<lambda>s. order_at BootOrder BootOrderSize (BdsMem s))) (\<lambda>order.
       case find (\<lambda>BootIndex. \<not> list_ex (\<lambda>i. unat i = BootIndex) order) boot_indices of
         Some BootIndex \<Rightarrow> ret (of_nat BootIndex)
       | None \<Rightarrow> bindM (service (DropPool E BootOrder)) (\<lambda>_. ret 0)))"

text \<open>Adding an index to the variable \<open>BootOrder\<close>; the results of \<open>SetVariable\<close> are not looked at.\<close>

definition append_order :: "'w VarEnv \<Rightarrow> u16 \<Rightarrow> ('w, unit) bds" where
  "append_order E Index =
     bindM (global_variable E boot_order) (\<lambda>(Status, BootOrderSize, BootOrder).
     if EFI_ERROR Status then
       bindM (service (SetVar E boot_order gEfiGlobalVariableGuid boot_attributes (le_bytes 2 Index))) (\<lambda>_. ret ())
     else
       bindM (service (AllocPool E (BootOrderSize + 2))) (\<lambda>New.
       if New = 0 then stopM NullDereference
       else
         bindM (get_bytes BootOrder BootOrderSize) (\<lambda>old.
         bindM (put_bytes New (old @ [0, 0])) (\<lambda>_.
         bindM (service (DropPool E BootOrder)) (\<lambda>_.
         bindM (put_bytes (New + 2 * (BootOrderSize div 2)) (le_bytes 2 Index)) (\<lambda>_.
         bindM (get_bytes New (BootOrderSize + 2)) (\<lambda>order.
         bindM (service (SetVar E boot_order gEfiGlobalVariableGuid boot_attributes order)) (\<lambda>_.
         service (DropPool E New)))))))))"

section \<open>Building a load option\<close>

text \<open>A device path node in memory: type, subtype and length, then its data.\<close>

definition IsDevicePathEndType :: "u64 \<Rightarrow> memory \<Rightarrow> bool" where "IsDevicePathEndType a m \<longleftrightarrow> m a = 0x7F"
definition DevicePathNodeLength :: "u64 \<Rightarrow> memory \<Rightarrow> u16" where "DevicePathNodeLength a = read_u16 (a + 2)"

text \<open>The loop over the nodes, \<open>n\<close> of them at most; it gives the address behind the copies.\<close>

primrec copy_nodes :: "nat \<Rightarrow> u64 \<Rightarrow> u64 \<Rightarrow> ('w, u64) bds" where
  "copy_nodes 0 DevicePathNode Ptr = stopM OutOfFuel"
| "copy_nodes (Suc n) DevicePathNode Ptr =
     bindM (gets BdsMem) (\<lambda>m.
     if IsDevicePathEndType DevicePathNode m then ret Ptr
     else
       let NodeLength = ucast (DevicePathNodeLength DevicePathNode m) :: u64
       in bindM (get_bytes DevicePathNode NodeLength) (\<lambda>node.
          bindM (put_bytes Ptr node) (\<lambda>_.
          copy_nodes n (DevicePathNode + NodeLength) (Ptr + NodeLength))))"

definition end_node :: "u8 list" where "end_node = [0x7F, 0xFF, 4, 0]"

text \<open>The fields one after the other, from the address of the new block.\<close>

definition pack_option :: "BDS_LOAD_OPTION \<Rightarrow> u64 \<Rightarrow> ('w, unit) bds" where
  "pack_option Opt DescriptionSize =
     (let p = LoadOption Opt
      in bindM (put_bytes p (replicate (unat (LoadOptionSize Opt)) 0)) (\<lambda>_.
         bindM (put_bytes p (le_bytes 4 (OptAttributes Opt))) (\<lambda>_.
         bindM (put_bytes (p + 4) (le_bytes 2 (FilePathListLength Opt))) (\<lambda>_.
         bindM (get_bytes (Description Opt) DescriptionSize) (\<lambda>description.
         bindM (put_bytes (p + 4 + 2) description) (\<lambda>_.
         bindM (copy_nodes (Suc (unat (FilePathListLength Opt))) (FilePathList Opt) (p + 4 + 2 + DescriptionSize)) (\<lambda>Ptr.
         bindM (put_bytes Ptr end_node) (\<lambda>_.
         if OptionalDataSize Opt > 0 then
           bindM (get_bytes (OptionalData Opt) (OptionalDataSize Opt)) (put_bytes (Ptr + 4))
         else ret ()))))))))"

text \<open>The result of \<open>SetVariable\<close> is overwritten or dropped.\<close>

definition BootOptionToLoadOptionVariable ::
    "'w VarEnv \<Rightarrow> BDS_LOAD_OPTION \<Rightarrow> ('w, EFI_STATUS \<times> BDS_LOAD_OPTION) bds" where
  "BootOptionToLoadOptionVariable E Opt =
     (let OldLoadOption = (if LoadOptionSize Opt > 0 then LoadOption Opt else 0)
      in bindM (if LoadOptionSize Opt > 0 then ret Opt
           else bindM (BootOptionAllocateBootIndex E) (\<lambda>i. ret (Opt\<lparr>LoadOptionIndex := i\<rparr>))) (\<lambda>Opt.
         bindM (StrSizeAt E (Description Opt)) (\<lambda>DescriptionSize.
         bindM (gets BdsMem) (\<lambda>m.
         bindM (ASSERT (GetDevicePathSize E (FilePathList Opt) m = ucast (FilePathListLength Opt))) (\<lambda>_.
         let n = 4 + 2 + DescriptionSize + ucast (FilePathListLength Opt) + OptionalDataSize Opt
         in bindM (service (AllocPool E n)) (\<lambda>p.
            let Opt = Opt\<lparr>LoadOptionSize := n, LoadOption := p\<rparr>
            in if p = 0 then ret (EFI_OUT_OF_RESOURCES, Opt)
               else
                 bindM (pack_option Opt DescriptionSize) (\<lambda>_.
                 bindM (if OldLoadOption = 0 then ret Opt
                   else
                     bindM (BootOptionParseLoadOption E p n (Some Opt)) (\<lambda>(_, Opt').
                     bindM (service (DropPool E OldLoadOption)) (\<lambda>_. ret (the Opt')))) (\<lambda>Opt.
                 bindM (get_bytes (LoadOption Opt) (LoadOptionSize Opt)) (\<lambda>bytes.
                 bindM (service (SetVar E (boot_name (LoadOptionIndex Opt)) gEfiGlobalVariableGuid boot_attributes bytes)) (\<lambda>_.
                 bindM (if OldLoadOption = 0 then append_order E (LoadOptionIndex Opt) else ret ()) (\<lambda>_.
                 ret (EFI_SUCCESS, Opt))))))))))))"

section \<open>Leaving the boot services\<close>

text \<open>The same loop as in the command \<open>runaxf\<close>.\<close>

definition BdsShutdownUefiBootServices :: "nat \<Rightarrow> 'w RunEnv \<Rightarrow> ('w, EFI_STATUS) run" where
  "BdsShutdownUefiBootServices fuel E = shutdown_loop fuel E 0 False 0"

end
