(* ===== verification/BdsOptionSpec.thy ===== *)
theory BdsOptionSpec
  imports BdsOption RunAxfSpec
begin

text \<open>
  What the load options promise: an option that is stored under a new index is added to the boot
  order, reads back unchanged, and the index is the first one that is free.
\<close>

section \<open>Memory written piece by piece\<close>

lemma poke_append:
  assumes "length xs + length ys < 2 ^ 64"
  shows "poke (a + of_nat (length xs)) ys (poke a xs m) = poke a (xs @ ys) m"
proof
  fix x
  define d where "d = x - a"
  have n: "unat (of_nat (length xs) :: u64) = length xs" using assms by (simp add: unat_of_nat)
  have e: "x - (a + of_nat (length xs)) = d - of_nat (length xs)" by (simp add: d_def)
  show "poke (a + of_nat (length xs)) ys (poke a xs m) x = poke a (xs @ ys) m x"
  proof (cases "length xs \<le> unat d")
    case True
    then have "unat (d - of_nat (length xs)) = unat d - length xs"
      using n by (subst unat_sub) (simp_all add: word_le_nat_alt)
    with True show ?thesis by (auto simp: poke_def e nth_append simp flip: d_def)
  next
    case False
    then have "unat (d - of_nat (length xs)) = 2 ^ 64 + unat d - length xs"
      using n by (subst unat_sub_if_size) (simp add: word_size word_le_nat_alt)
    with False assms have "\<not> unat (d - of_nat (length xs)) < length ys" by simp
    with False show ?thesis by (simp add: poke_def e nth_append flip: d_def)
  qed
qed

lemma peek_part:
  assumes "peek (length (xs @ ys @ zs)) a m = xs @ ys @ zs"
  shows "peek (length ys) (a + of_nat (length xs)) m = ys"
  using peek_sub [of "length xs" "length ys" "length (xs @ ys @ zs)" a m] assms by simp

lemma poke_off_block:
  assumes "x \<notin> blk a (of_nat n)" and "length bs \<le> n" and "n < 2 ^ 64"
  shows "poke a bs m x = m x"
  using assms by (intro poke_outside) (simp add: blk_iff unat_of_nat)

lemma read_u16_bytes: "peek 2 a m = le_bytes 2 w \<Longrightarrow> read_u16 a m = w"
  by (simp add: read_u16_def of_nat_le_bytes16)

section \<open>Strings\<close>

lemma length_name_bytes [simp]: "length (name_bytes name) = 2 * (length name + 1)"
  by (simp add: name_bytes_def length_chars)

lemma name_bytes_Cons: "name_bytes (c # cs) = le_bytes 2 c @ name_bytes cs"
  by (simp add: name_bytes_def chars_def)

lemma str_len_name:
  assumes "peek (length (name_bytes name)) a m = name_bytes name" and "0 \<notin> set name" and "length name < n"
  shows "str_len n a m = Some (length name)"
  using assms
proof (induction name arbitrary: a n)
  case Nil
  then obtain k where "n = Suc k" by (cases n) auto
  with Nil(1) show ?case by (simp add: name_bytes_def chars_def read_u16_def numeral_2_eq_2)
next
  case (Cons c cs)
  then obtain k where n: "n = Suc k" by (cases n) auto
  have p: "peek (length ([] @ le_bytes 2 c @ name_bytes cs)) a m = [] @ le_bytes 2 c @ name_bytes cs"
    "peek (length (le_bytes 2 c @ name_bytes cs @ [])) a m = le_bytes 2 c @ name_bytes cs @ []"
    using Cons.prems(1) by (simp_all add: name_bytes_Cons)
  have "read_u16 a m = c"
    using peek_part [OF p(1)] by (intro read_u16_bytes) simp
  moreover have "str_len k (a + 2) m = Some (length cs)"
    using Cons.prems(2,3) peek_part [OF p(2)] by (intro Cons.IH) (simp_all add: n)
  ultimately show ?case
    using Cons.prems(2) by (simp add: n)
qed

definition string_at :: "'w VarEnv \<Rightarrow> u64 \<Rightarrow> CHAR16s \<Rightarrow> memory \<Rightarrow> bool" where
  "string_at E a name m \<longleftrightarrow> a \<noteq> 0 \<and> a AND 1 = 0 \<and> 0 \<notin> set name \<and> length name \<le> MaximumUnicodeStringLength E \<and>
     peek (length (name_bytes name)) a m = name_bytes name"

lemma StrSizeAt_run:
  assumes "string_at E a name (BdsMem s)"
  shows "StrSizeAt E a s = Ret (of_nat (length (name_bytes name)), s)"
  using assms str_len_name [of name a "BdsMem s" "Suc (MaximumUnicodeStringLength E)"]
  by (simp add: StrSizeAt_def bindM_ASSERT string_at_def ret_def algebra_simps)

section \<open>Device paths\<close>

text \<open>The bytes of a node, and of a path without instances: its nodes and the end node.\<close>

definition node_ok :: "u8 list \<Rightarrow> bool" where
  "node_ok n \<longleftrightarrow> 4 \<le> length n \<and> length n < 2 ^ 16 \<and> n ! 0 \<noteq> 0x7F \<and> take 2 (drop 2 n) = le_bytes 2 (of_nat (length n) :: u16)"

definition dp_bytes :: "u8 list list \<Rightarrow> u8 list" where "dp_bytes nodes = concat nodes @ end_node"

lemma dp_bytes_Cons: "dp_bytes (n # ns) = n @ dp_bytes ns"
  by (simp add: dp_bytes_def)

lemma sub_block_nat:
  assumes "d + k \<le> l" and "l < 2 ^ 64"
  shows "blk (b + of_nat d) (of_nat k) \<subseteq> blk b (of_nat l)"
  using assms by (intro sub_block) (simp add: unat_of_nat)

lemma node_in_memory:
  assumes "node_ok n" and "peek (length n) a m = n"
  shows "\<not> IsDevicePathEndType a m" and "DevicePathNodeLength a m = of_nat (length n)"
proof -
  have "0 < length n" using assms(1) by (auto simp: node_ok_def)
  then have "peek (length n) a m ! 0 = m a" by (simp add: peek_def)
  then have "m a = n ! 0" by (simp add: assms(2))
  with assms(1) show "\<not> IsDevicePathEndType a m" by (simp add: IsDevicePathEndType_def node_ok_def)
  have "peek 2 (a + of_nat 2) m = take 2 (drop 2 n)"
    using peek_sub [of 2 2 "length n" a m] assms by (simp add: node_ok_def)
  then show "DevicePathNodeLength a m = of_nat (length n)"
    using assms(1) by (simp add: DevicePathNodeLength_def node_ok_def read_u16_bytes)
qed

lemma nodes_bound: "\<forall>n\<in>set nodes. node_ok n \<Longrightarrow> 4 * length nodes \<le> length (concat nodes)"
  by (induction nodes) (auto simp: node_ok_def)

lemma copy_nodes_run:
  assumes "\<forall>n\<in>set nodes. node_ok n" and "length nodes < k"
    and "peek (length (dp_bytes nodes)) a (BdsMem s) = dp_bytes nodes"
    and "blk a (of_nat (length (dp_bytes nodes))) \<inter> blk p (of_nat (length (concat nodes))) = {}"
    and "length (dp_bytes nodes) < 2 ^ 63"
  shows "copy_nodes k a p s = Ret (p + of_nat (length (concat nodes)), s\<lparr>BdsMem := poke p (concat nodes) (BdsMem s)\<rparr>)"
  using assms
proof (induction nodes arbitrary: k a p s)
  case Nil
  then obtain j where k: "k = Suc j" by (cases k) auto
  have "BdsMem s a = 0x7F"
    using arg_cong [OF Nil(3), of "\<lambda>xs. xs ! 0"] by (simp add: peek_def dp_bytes_def end_node_def)
  then show ?case
    by (simp add: k IsDevicePathEndType_def ret_def poke_def)
next
  case (Cons n ns)
  then obtain j where k: "k = Suc j" and n: "node_ok n" by (cases k) auto
  let ?L = "length (dp_bytes ns)" and ?C = "length (concat ns)"
  let ?a = "a + of_nat (length n)" and ?p = "p + of_nat (length n)"
  let ?s = "s\<lparr>BdsMem := poke p n (BdsMem s)\<rparr>"
  have bytes: "peek (length ([] @ n @ dp_bytes ns)) a (BdsMem s) = [] @ n @ dp_bytes ns"
      "peek (length (n @ dp_bytes ns @ [])) a (BdsMem s) = n @ dp_bytes ns @ []"
    using Cons.prems(3) by (simp_all add: dp_bytes_Cons)
  have total: "length n + ?L < 2 ^ 63" "?C \<le> ?L"
    using Cons.prems(5) by (simp_all add: dp_bytes_Cons) (simp add: dp_bytes_def)
  have node: "peek (length n) a (BdsMem s) = n" and rest: "peek ?L ?a (BdsMem s) = dp_bytes ns"
    using peek_part [OF bytes(1)] peek_part [OF bytes(2)] by simp_all
  have blocks: "blk ?a (of_nat ?L) \<subseteq> blk a (of_nat (length (dp_bytes (n # ns))))"
      "blk (p + of_nat 0) (of_nat (length n)) \<subseteq> blk p (of_nat (length (concat (n # ns))))"
      "blk ?p (of_nat ?C) \<subseteq> blk p (of_nat (length (concat (n # ns))))"
    using total by (intro sub_block_nat; simp add: dp_bytes_Cons)+
  then have apart: "blk ?a (of_nat ?L) \<inter> blk p (of_nat (length n)) = {}" "blk ?a (of_nat ?L) \<inter> blk ?p (of_nat ?C) = {}"
    using Cons.prems(4) by auto
  have step: "copy_nodes j ?a ?p ?s = Ret (?p + of_nat ?C, ?s\<lparr>BdsMem := poke ?p (concat ns) (BdsMem ?s)\<rparr>)"
  proof (rule Cons.IH)
    show "peek ?L ?a (BdsMem ?s) = dp_bytes ns"
      using rest total peek_poke_apart [OF apart(1), of ?L n] by (simp add: unat_of_nat)
  qed (use Cons.prems total apart(2) in \<open>auto simp: k\<close>)
  have len: "ucast (of_nat (length n) :: u16) = (of_nat (length n) :: u64)"
    using n by (simp add: node_ok_def unsigned_of_nat take_bit_nat_eq_self)
  have "poke ?p (concat ns) (poke p n (BdsMem s)) = poke p (n @ concat ns) (BdsMem s)"
    using total by (intro poke_append) simp
  with step show ?case
    using node_in_memory [OF n node] node n
    by (simp add: k get_bytes_def put_bytes_def len node_ok_def unat_of_nat add.assoc Let_def)
qed

section \<open>Options and their bytes\<close>

text \<open>The fields of an option point to a description, the nodes of a path and optional data.\<close>

definition describes :: "'w VarEnv \<Rightarrow> memory \<Rightarrow> BDS_LOAD_OPTION \<Rightarrow> u32 \<Rightarrow> CHAR16s \<Rightarrow> u8 list list \<Rightarrow> u8 list \<Rightarrow> bool" where
  "describes E m Opt attr name nodes data \<longleftrightarrow> OptAttributes Opt = attr \<and> string_at E (Description Opt) name m \<and>
     (\<forall>n\<in>set nodes. node_ok n) \<and> length (dp_bytes nodes) < 2 ^ 16 \<and> FilePathListLength Opt = of_nat (length (dp_bytes nodes)) \<and>
     peek (length (dp_bytes nodes)) (FilePathList Opt) m = dp_bytes nodes \<and>
     length data < 2 ^ 32 \<and> OptionalDataSize Opt = of_nat (length data) \<and> peek (length data) (OptionalData Opt) m = data"

definition packed :: "u32 \<Rightarrow> CHAR16s \<Rightarrow> u8 list list \<Rightarrow> u8 list \<Rightarrow> u8 list" where
  "packed attr name nodes data = le_bytes 4 attr @ le_bytes 2 (of_nat (length (dp_bytes nodes)) :: u16) @ name_bytes name @
     dp_bytes nodes @ data"

definition pointed :: "BDS_LOAD_OPTION \<Rightarrow> nat \<Rightarrow> nat \<Rightarrow> nat \<Rightarrow> u64 set" where
  "pointed Opt k l n = blk (Description Opt) (of_nat k) \<union> blk (FilePathList Opt) (of_nat l) \<union> blk (OptionalData Opt) (of_nat n)"

definition option_sources :: "BDS_LOAD_OPTION \<Rightarrow> CHAR16s \<Rightarrow> u8 list list \<Rightarrow> u8 list \<Rightarrow> u64 set" where
  "option_sources Opt name nodes data = pointed Opt (length (name_bytes name)) (length (dp_bytes nodes)) (length data)"

lemma length_packed: "length (packed attr name nodes data) = 6 + length (name_bytes name) + length (dp_bytes nodes) + length data"
  by (simp add: packed_def)

lemma packed_bound:
  assumes "describes E m Opt attr name nodes data" and "MaximumUnicodeStringLength E < 2 ^ 32"
  shows "length (packed attr name nodes data) < 2 ^ 35" and "12 \<le> length (packed attr name nodes data)"
  using assms by (simp_all add: describes_def string_at_def length_packed dp_bytes_def end_node_def)

lemma small_nat:
  "k < 2 ^ 16 \<Longrightarrow> ucast (of_nat k :: u16) = (of_nat k :: u64)"
  by (simp add: unsigned_of_nat take_bit_nat_eq_self)

lemma put_next:
  assumes "length xs + length ys < 2 ^ 64"
  shows "put_bytes (p + of_nat (length xs)) ys (s\<lparr>BdsMem := poke p xs m\<rparr>) = Ret ((), s\<lparr>BdsMem := poke p (xs @ ys) m\<rparr>)"
  using poke_append [OF assms, of p m] by (simp add: put_bytes_def modify_def)

lemma peek_source:
  assumes "blk a (of_nat k) \<inter> blk p (of_nat n) = {}" and "k < 2 ^ 64" and "n < 2 ^ 64" and "length bs \<le> n"
  shows "peek k a (poke p bs m) = peek k a m"
  using assms by (intro peek_poke_apart [OF assms(1)]) (simp_all add: unat_of_nat)

lemma pack_option_run:
  assumes d: "describes E (BdsMem s) Opt attr name nodes data" and max: "MaximumUnicodeStringLength E < 2 ^ 32"
    and p: "LoadOption Opt = p" "LoadOptionSize Opt = of_nat n" and n: "n = length (packed attr name nodes data)"
    and apart: "option_sources Opt name nodes data \<inter> blk p (of_nat n) = {}"
  shows "pack_option Opt (of_nat (length (name_bytes name))) s
    = Ret ((), s\<lparr>BdsMem := poke p (packed attr name nodes data) (BdsMem s)\<rparr>)"
proof -
  let ?m0 = "poke p (replicate n 0) (BdsMem s)" and ?A = "le_bytes 4 attr"
  let ?B = "?A @ le_bytes 2 (of_nat (length (dp_bytes nodes)) :: u16)" and ?C = "concat nodes"
  let ?N = "name_bytes name" and ?D = "dp_bytes nodes"
  note f = d [unfolded describes_def]
  have bound: "n < 2 ^ 35" using packed_bound(1) [OF d max] n by simp
  have sizes: "n = 6 + length ?N + length ?C + 4 + length data" "length ?D = length ?C + 4" "length ?D < 2 ^ 16"
    using f by (simp_all add: n length_packed) (simp_all add: dp_bytes_def end_node_def)
  have fl: "unat (FilePathListLength Opt) = length ?D" using f by (simp add: unat_of_nat)
  have a: "blk (Description Opt) (of_nat (length ?N)) \<inter> blk p (of_nat n) = {}"
      "blk (FilePathList Opt) (of_nat (length ?D)) \<inter> blk p (of_nat n) = {}"
      "blk (OptionalData Opt) (of_nat (length data)) \<inter> blk p (of_nat n) = {}"
    using apart by (auto simp: option_sources_def pointed_def)
  have stable: "peek (length ?N) (Description Opt) (poke p xs (poke p (replicate n 0) (BdsMem s))) = ?N"
      "peek (length ?D) (FilePathList Opt) (poke p xs (poke p (replicate n 0) (BdsMem s))) = ?D"
      "peek (length data) (OptionalData Opt) (poke p xs (poke p (replicate n 0) (BdsMem s))) = data"
    if "length xs \<le> n" for xs
    using that f bound sizes a by (simp_all add: peek_source [of _ _ p n] string_at_def)
  have room: "length ?N < 2 ^ 64" "length data < 2 ^ 64" "unat (of_nat (length ?N) :: u64) = length ?N"
      "unat (of_nat (length data) :: u64) = length data" "unat (of_nat n :: u64) = n" "(0 :: u64) < of_nat (length data) \<longleftrightarrow> data \<noteq> []"
  proof -
    have un: "unat (of_nat k :: u64) = k" if "k < 2 ^ 35" for k using that by (simp add: unat_of_nat)
    have small: "length ?N < 2 ^ 35" "length data < 2 ^ 35" using bound sizes(1) by linarith+
    then show "length ?N < 2 ^ 64" "length data < 2 ^ 64" by simp_all
    show "unat (of_nat (length ?N) :: u64) = length ?N" "unat (of_nat (length data) :: u64) = length data"
      "unat (of_nat n :: u64) = n" by (rule un [OF small(1)] un [OF small(2)] un [OF bound])+
    then show "(0 :: u64) < of_nat (length data) \<longleftrightarrow> data \<noteq> []" by (simp add: word_less_nat_alt)
  qed
  let ?Q = "p + of_nat (6 + length ?N)" and ?R = "p + of_nat (6 + length ?N + length ?C)"
  have copy: "copy_nodes (Suc (unat (FilePathListLength Opt))) (FilePathList Opt) ?Q (s\<lparr>BdsMem := poke p (?B @ ?N) ?m0\<rparr>)
      = Ret (?R, s\<lparr>BdsMem := poke p ((?B @ ?N) @ ?C) ?m0\<rparr>)"
  proof -
    have k: "length nodes < Suc (unat (FilePathListLength Opt))"
      using fl sizes(2) nodes_bound [of nodes] f by simp
    have "blk ?Q (of_nat (length ?C)) \<subseteq> blk p (of_nat n)"
      using sizes bound by (intro sub_block_nat) simp_all
    then have "blk (FilePathList Opt) (of_nat (length ?D)) \<inter> blk ?Q (of_nat (length ?C)) = {}"
      using a(2) by blast
    then have "copy_nodes (Suc (unat (FilePathListLength Opt))) (FilePathList Opt) ?Q (s\<lparr>BdsMem := poke p (?B @ ?N) ?m0\<rparr>)
        = Ret (?Q + of_nat (length ?C), s\<lparr>BdsMem := poke ?Q ?C (poke p (?B @ ?N) ?m0)\<rparr>)"
      using f sizes bound k stable(2) [of "?B @ ?N"] by (subst copy_nodes_run) simp_all
    moreover have "poke ?Q ?C (poke p (?B @ ?N) ?m0) = poke p ((?B @ ?N) @ ?C) ?m0"
      using poke_append [of "?B @ ?N" ?C p ?m0] sizes bound by simp
    ultimately show ?thesis by (simp add: add.assoc)
  qed
  have pokes: "poke (p + 4) (le_bytes 2 (of_nat (length ?D) :: u16)) (poke p ?A ?m0) = poke p ?B ?m0"
      "poke (p + 6) ?N (poke p ?B ?m0) = poke p (?B @ ?N) ?m0"
      "poke ?R end_node (poke p ((?B @ ?N) @ ?C) ?m0) = poke p (((?B @ ?N) @ ?C) @ end_node) ?m0"
      "poke (?R + 4) data (poke p (((?B @ ?N) @ ?C) @ end_node) ?m0) = poke p ((((?B @ ?N) @ ?C) @ end_node) @ data) ?m0"
    using sizes bound poke_append [of ?A "le_bytes 2 (of_nat (length ?D) :: u16)" p ?m0] poke_append [of ?B ?N p ?m0]
      poke_append [of "(?B @ ?N) @ ?C" end_node p ?m0] poke_append [of "((?B @ ?N) @ ?C) @ end_node" data p ?m0]
    by (simp_all add: end_node_def add.assoc add.commute add.left_commute)
  have whole: "poke p ((((?B @ ?N) @ ?C) @ end_node) @ data) ?m0 = poke p (packed attr name nodes data) (BdsMem s)"
    by (simp add: packed_def dp_bytes_def) (rule poke_poke, simp add: n packed_def dp_bytes_def)
  have data: "peek (length data) (OptionalData Opt) (poke p (((?B @ ?N) @ ?C) @ end_node) ?m0) = data"
    using sizes by (intro stable(3)) (simp add: end_node_def)
  have name: "peek (length ?N) (Description Opt) (poke p ?B ?m0) = ?N"
    using sizes by (intro stable(1)) simp
  define q where "q = p + 4 + 2"
  define Q where "Q = q + of_nat (length ?N)"
  have q: "p + 6 = q" "?Q = Q" by (simp_all add: q_def Q_def add.assoc)
  have "OptAttributes Opt = attr" "FilePathListLength Opt = of_nat (length ?D)" "OptionalDataSize Opt = of_nat (length data)"
    using f by simp_all
  then show ?thesis
    using copy pokes data name whole
    unfolding pack_option_def Let_def p q_def [symmetric] Q_def [symmetric] q
    by (cases "data = []") (simp_all add: put_bytes_def get_bytes_def room bindM_def modify_def gets_def ret_def
        del: append_assoc of_nat_add copy_nodes.simps length_name_bytes)
qed

definition option_ok :: "'w VarEnv \<Rightarrow> CHAR16s \<Rightarrow> u8 list list \<Rightarrow> u8 list \<Rightarrow> bool" where
  "option_ok E name nodes data \<longleftrightarrow> 0 \<notin> set name \<and> length name \<le> MaximumUnicodeStringLength E \<and>
     MaximumUnicodeStringLength E < 2 ^ 32 \<and> (\<forall>n\<in>set nodes. node_ok n) \<and> length (dp_bytes nodes) < 2 ^ 16 \<and> length data < 2 ^ 32"

lemma describes_ok: "describes E m Opt attr name nodes data \<Longrightarrow> MaximumUnicodeStringLength E < 2 ^ 32 \<Longrightarrow> option_ok E name nodes data"
  by (simp add: describes_def option_ok_def string_at_def)

lemma and_one_even: "(a :: u64) AND 1 = 0 \<longleftrightarrow> even a"
  by (simp add: and_one_eq even_iff_mod_2_eq_zero)

lemma of_nat_u64_eq: "a < 2 ^ 64 \<Longrightarrow> b < 2 ^ 64 \<Longrightarrow> (of_nat a :: u64) = of_nat b \<longleftrightarrow> a = b"
  by (auto dest: arg_cong [where f = unat] simp: unat_of_nat)

lemma fill_option_run:
  assumes ok: "option_ok E name nodes data" and n: "n = length (packed attr name nodes data)"
    and mem: "peek n p (BdsMem s) = packed attr name nodes data"
    and p: "p \<noteq> 0" "p AND 1 = 0" "unat p + n < 2 ^ 64"
  shows "\<exists>Opt'. fill_option E p (of_nat n) Opt s = Ret (Opt', s) \<and> describes E (BdsMem s) Opt' attr name nodes data \<and>
    LoadOptionIndex Opt' = LoadOptionIndex Opt \<and> LoadOption Opt' = p \<and> LoadOptionSize Opt' = of_nat n"
proof -
  let ?m = "BdsMem s" and ?A = "le_bytes 4 attr" and ?L = "le_bytes 2 (of_nat (length (dp_bytes nodes)) :: u16)"
  let ?N = "name_bytes name" and ?D = "dp_bytes nodes"
  have parts: "peek n p ?m = [] @ ?A @ (?L @ ?N @ ?D @ data)" "peek n p ?m = ?A @ ?L @ (?N @ ?D @ data)"
    "peek n p ?m = (?A @ ?L) @ ?N @ (?D @ data)" "peek n p ?m = (?A @ ?L @ ?N) @ ?D @ data"
    "peek n p ?m = (?A @ ?L @ ?N @ ?D) @ data @ []"
    by (simp_all add: mem packed_def)
  have at: "peek (length ys) (p + of_nat (length xs)) ?m = ys" if "peek n p ?m = xs @ ys @ zs" for xs ys zs
  proof -
    have "n = length (xs @ ys @ zs)" using arg_cong [OF that, of length] unfolding length_peek .
    with that show ?thesis by (intro peek_part [of xs ys zs]) simp
  qed
  let ?p6 = "p + 4 + 2" and ?Q = "p + 4 + 2 + of_nat (length ?N)"
  have r: "read_u32 p ?m = attr" "read_u16 (p + 4) ?m = of_nat (length ?D)" "peek (length ?N) ?p6 ?m = ?N"
    "peek (length ?D) ?Q ?m = ?D" "peek (length data) (?Q + of_nat (length ?D)) ?m = data"
    using at [OF parts(1)] at [OF parts(2)] at [OF parts(3)] at [OF parts(4)] at [OF parts(5)]
    by (simp_all add: read_u32_def of_nat_le_bytes32 read_u16_bytes add.assoc)
  have total: "n = 6 + length ?N + length ?D + length data" by (simp add: n length_packed)
  then have "unat ?p6 = unat p + 6"
    using p(3) by (simp add: unat_word_ariths)
  then have str: "string_at E ?p6 name ?m"
    using ok p(2) r(3) by (auto simp: string_at_def option_ok_def and_one_even)
  have behind: "?Q + of_nat (length ?D) - p = of_nat (6 + length ?N + length ?D)" by simp
  have eq: "?Q + of_nat (length ?D) - p = of_nat n \<longleftrightarrow> data = []"
  proof -
    have "(of_nat (6 + length ?N + length ?D) :: u64) = of_nat n \<longleftrightarrow> 6 + length ?N + length ?D = n"
      using p(3) total by (intro of_nat_u64_eq) simp_all
    then show ?thesis unfolding behind using total by simp
  qed
  have rest: "of_nat n - (?Q + of_nat (length ?D) - p) = of_nat (length data)"
    by (simp add: behind total)
  have D: "ucast (of_nat (length ?D) :: u16) = (of_nat (length ?D) :: u64)"
    using ok by (intro small_nat) (simp add: option_ok_def)
  define q where "q = p + 4 + 2"
  define Q where "Q = q + of_nat (length ?N)"
  define B where "B = Q + of_nat (length ?D)"
  note folds = q_def [symmetric] Q_def [symmetric] B_def [symmetric]
  note facts = r [unfolded folds] str [unfolded folds] eq [unfolded folds] rest [unfolded folds]
  have "peek 0 0 ?m = []" by (simp add: peek_def)
  then show ?thesis
    using ok facts unfolding fill_option_def folds
    by (simp add: bindM_def gets_def StrSizeAt_run [OF facts(6)] Let_def ret_def D folds describes_def option_ok_def
        del: length_name_bytes)
qed

section \<open>The services\<close>

text \<open>What a state of the world says of the variables, the memory in use, and the room of the pool.\<close>

record 'w VarView =
  VarsOf :: "'w \<Rightarrow> CHAR16s \<times> EFI_GUID \<Rightarrow> u8 list option"
  UsedOf :: "'w \<Rightarrow> u64 set"
  AvailOf :: "'w \<Rightarrow> nat"

definition same_view :: "'w VarView \<Rightarrow> 'w \<Rightarrow> 'w \<Rightarrow> bool" where
  "same_view V w w' \<longleftrightarrow> VarsOf V w' = VarsOf V w \<and> UsedOf V w' = UsedOf V w \<and> AvailOf V w' = AvailOf V w"

definition reads_variables :: "'w VarEnv \<Rightarrow> 'w VarView \<Rightarrow> bool" where
  "reads_variables E V \<longleftrightarrow> (\<forall>name guid k buf w. \<exists>st n bytes w'. GetVar E name guid k buf w = ((st, n, bytes), w') \<and>
     same_view V w w' \<and> (case VarsOf V w (name, guid) of None \<Rightarrow> st = EFI_NOT_FOUND
       | Some d \<Rightarrow> d \<noteq> [] \<and> length d < 2 ^ 63 \<and> n = of_nat (length d) \<and>
           (if unat k < length d then st = EFI_BUFFER_TOO_SMALL else buf \<longrightarrow> st = EFI_SUCCESS \<and> bytes = d)))"

text \<open>Data that is stored is not empty, and of the size the platform accepts.\<close>

definition writes_variables :: "'w VarEnv \<Rightarrow> 'w VarView \<Rightarrow> nat \<Rightarrow> bool" where
  "writes_variables E V most \<longleftrightarrow> (\<forall>name guid attr d w. d \<noteq> [] \<and> length d \<le> most \<longrightarrow>
     (\<exists>w'. SetVar E name guid attr d w = (EFI_SUCCESS, w') \<and> VarsOf V w' = (VarsOf V w)((name, guid) \<mapsto> d) \<and>
        UsedOf V w' = UsedOf V w \<and> AvailOf V w' = AvailOf V w))"

definition gives_blocks :: "'w VarEnv \<Rightarrow> 'w VarView \<Rightarrow> bool" where
  "gives_blocks E V \<longleftrightarrow>
     (\<forall>n w. \<exists>a w'. AllocPool E n w = (a, w') \<and> VarsOf V w' = VarsOf V w \<and> AvailOf V w \<le> AvailOf V w' + unat n \<and>
        (unat n \<le> AvailOf V w \<longrightarrow> a \<noteq> 0 \<and> a AND 1 = 0 \<and> unat a + unat n < 2 ^ 64 \<and> blk a n \<inter> UsedOf V w = {} \<and>
           UsedOf V w \<union> blk a n \<subseteq> UsedOf V w')) \<and>
     (\<forall>a w. VarsOf V (snd (DropPool E a w)) = VarsOf V w \<and> AvailOf V w \<le> AvailOf V (snd (DropPool E a w)))"

lemma service_run: "f (BdsWorld s) = (x, w) \<Longrightarrow> bindM (service f) g s = g x (s\<lparr>BdsWorld := w\<rparr>)"
  by (simp add: service_def bindM_def)

lemma reads_variableD:
  "reads_variables E V \<Longrightarrow> \<exists>st n bytes w'. GetVar E name guid k buf w = ((st, n, bytes), w') \<and>
     same_view V w w' \<and> (case VarsOf V w (name, guid) of None \<Rightarrow> st = EFI_NOT_FOUND
       | Some d \<Rightarrow> d \<noteq> [] \<and> length d < 2 ^ 63 \<and> n = of_nat (length d) \<and>
           (if unat k < length d then st = EFI_BUFFER_TOO_SMALL else buf \<longrightarrow> st = EFI_SUCCESS \<and> bytes = d))"
  unfolding reads_variables_def by (elim allE)

lemma global_variable_missing:
  assumes "reads_variables E V" and "VarsOf V (BdsWorld s) (name, gEfiGlobalVariableGuid) = None"
  shows "\<exists>w'. global_variable E name s = Ret ((EFI_NOT_FOUND, 0, 0), s\<lparr>BdsWorld := w'\<rparr>) \<and> same_view V (BdsWorld s) w'"
proof -
  obtain st n bytes w' where "GetVar E name gEfiGlobalVariableGuid 0 False (BdsWorld s) = ((st, n, bytes), w')"
      "same_view V (BdsWorld s) w'" "st = EFI_NOT_FOUND"
    using reads_variableD [OF assms(1), of name gEfiGlobalVariableGuid 0 False "BdsWorld s"] assms(2) by auto
  then show ?thesis
    by (intro exI [of _ w']) (simp add: global_variable_def GetGlobalEnvironmentVariable_def GetEnvironmentVariable_def
        bindM_def service_def ret_def)
qed

text \<open>A variable that is there comes into a block of its own.\<close>

definition fresh_block :: "'w VarView \<Rightarrow> 'w \<Rightarrow> u64 \<Rightarrow> nat \<Rightarrow> 'w \<Rightarrow> bool" where
  "fresh_block V w a n w' \<longleftrightarrow> a \<noteq> 0 \<and> a AND 1 = 0 \<and> unat a + n < 2 ^ 64 \<and> blk a (of_nat n) \<inter> UsedOf V w = {} \<and>
     UsedOf V w \<union> blk a (of_nat n) \<subseteq> UsedOf V w' \<and> VarsOf V w' = VarsOf V w \<and> AvailOf V w \<le> AvailOf V w' + n"

lemma AllocPool_fresh:
  assumes "gives_blocks E V" and "n \<le> AvailOf V w" and "n < 2 ^ 64"
  shows "\<exists>a w'. AllocPool E (of_nat n) w = (a, w') \<and> fresh_block V w a n w'"
proof -
  have "unat (of_nat n :: u64) = n" using assms(3) by (simp add: unat_of_nat)
  with assms(2) show ?thesis
    using assms(1) [unfolded gives_blocks_def, THEN conjunct1, rule_format, of "of_nat n" w] by (auto simp: fresh_block_def)
qed

lemma global_variable_found:
  assumes r: "reads_variables E V" and g: "gives_blocks E V"
    and d: "VarsOf V (BdsWorld s) (name, gEfiGlobalVariableGuid) = Some d" and av: "length d \<le> AvailOf V (BdsWorld s)"
  shows "\<exists>a w'. global_variable E name s = Ret ((EFI_SUCCESS, of_nat (length d), a), s\<lparr>BdsWorld := w', BdsMem := poke a d (BdsMem s)\<rparr>) \<and>
    fresh_block V (BdsWorld s) a (length d) w' \<and> d \<noteq> []"
proof -
  let ?get = "GetVar E name gEfiGlobalVariableGuid"
  have get: "\<exists>st n bytes w'. ?get k buf w = ((st, n, bytes), w') \<and> same_view V w w' \<and> d \<noteq> [] \<and> length d < 2 ^ 63 \<and>
      n = of_nat (length d) \<and> (if unat k < length d then st = EFI_BUFFER_TOO_SMALL else buf \<longrightarrow> st = EFI_SUCCESS \<and> bytes = d)"
    if "VarsOf V w (name, gEfiGlobalVariableGuid) = Some d" for k buf w
    using reads_variableD [OF r, of name gEfiGlobalVariableGuid k buf w] that by auto
  obtain w1 bytes where w1: "?get 0 False (BdsWorld s) = ((EFI_BUFFER_TOO_SMALL, of_nat (length d), bytes), w1)"
      "same_view V (BdsWorld s) w1" "d \<noteq> []" "length d < 2 ^ 63"
    using get [OF d, of 0 False] by (auto split: if_splits)
  obtain a w2 where w2: "AllocPool E (of_nat (length d)) w1 = (a, w2)" "fresh_block V w1 a (length d) w2"
    using AllocPool_fresh [OF g, of "length d" w1] w1 av by (auto simp: same_view_def)
  have "VarsOf V w2 (name, gEfiGlobalVariableGuid) = Some d"
    using w1(2) w2(2) d by (simp add: same_view_def fresh_block_def)
  from get [OF this, of "of_nat (length d)" True] w1(4)
  obtain w3 where w3: "?get (of_nat (length d)) True w2 = ((EFI_SUCCESS, of_nat (length d), d), w3)" "same_view V w2 w3"
    by (auto simp: unat_of_nat)
  have "fresh_block V (BdsWorld s) a (length d) w3"
    using w1(2) w2(2) w3(2) by (simp add: same_view_def fresh_block_def)
  moreover have "a \<noteq> 0" using w2(2) by (simp add: fresh_block_def)
  ultimately show ?thesis
    using w1 w2(1) w3(1)
    by (intro exI [of _ a] exI [of _ w3]) (simp add: global_variable_def GetGlobalEnvironmentVariable_def GetEnvironmentVariable_def put_bytes_def
        bindM_def service_def ret_def modify_def)
qed

section \<open>The boot order\<close>

definition words16 :: "u8 list \<Rightarrow> u16 list" where
  "words16 d = map (\<lambda>i. of_nat (le_nat (take 2 (drop (2 * i) d)))) [0..<length d div 2]"

text \<open>The order the variable holds, empty when there is none.\<close>

definition order_of :: "u8 list option \<Rightarrow> u16 list" where
  "order_of v = (case v of None \<Rightarrow> [] | Some d \<Rightarrow> words16 d)"

definition new_index :: "u16 list \<Rightarrow> u16" where
  "new_index order = (case find (\<lambda>i. of_nat i \<notin> set order) boot_indices of Some i \<Rightarrow> of_nat i | None \<Rightarrow> 0)"

lemma find_upt:
  "find P [0..<n] = Some i \<longleftrightarrow> i < n \<and> P i \<and> (\<forall>j<i. \<not> P j)"
  by (auto simp: find_Some_iff)

lemma find_index: "find P boot_indices = Some i \<longleftrightarrow> i < 2 ^ 16 \<and> P i \<and> (\<forall>j<i. \<not> P j)"
  unfolding boot_indices_def by (subst find_upt) simp

lemma in_indices: "i \<in> set boot_indices \<longleftrightarrow> i < 2 ^ 16"
  by (simp add: boot_indices_def)

lemma new_index_first:
  assumes "set order \<noteq> UNIV"
  shows "new_index order \<notin> set order" and "j < new_index order \<Longrightarrow> j \<in> set order"
    and "find (\<lambda>i. of_nat i \<notin> set order) boot_indices \<noteq> None"
proof -
  obtain w where "w \<notin> set order" using assms by auto
  then have "of_nat (unat w) \<notin> set order" "unat w < 2 ^ 16"
    using unsigned_less [of w, where 'a = nat] by simp_all
  then obtain i where i: "find (\<lambda>i. of_nat i \<notin> set order) boot_indices = Some i"
    by (cases "find (\<lambda>i. of_nat i \<notin> set order) boot_indices") (auto simp: find_None_iff in_indices)
  then have f: "i < 2 ^ 16" "of_nat i \<notin> set order" "\<forall>k<i. of_nat k \<in> set order"
    unfolding find_index by auto
  show "new_index order \<notin> set order" using f(2) by (simp add: new_index_def i)
  show "j \<in> set order" if "j < new_index order"
  proof -
    have "unat j < i" using that f(1) by (simp add: new_index_def i word_less_nat_alt unat_of_nat)
    with f(3) have "of_nat (unat j) \<in> set order" by blast
    then show ?thesis by simp
  qed
  show "find (\<lambda>i. of_nat i \<notin> set order) boot_indices \<noteq> None" by (simp add: i)
qed

lemma order_at_poke:
  assumes "length d < 2 ^ 63"
  shows "order_at a (of_nat (length d)) (poke a d m) = words16 d"
proof -
  have "unat (of_nat (length d) div 2 :: u64) = length d div 2"
    using assms by (simp add: unat_div unat_of_nat)
  moreover have "read_u16 (a + 2 * of_nat i) (poke a d m) = of_nat (le_nat (take 2 (drop (2 * i) d)))"
    if "i < length d div 2" for i
    using that assms peek_poke [of d "2 * i" 2 a m] by (simp add: read_u16_def)
  ultimately show ?thesis by (simp add: order_at_def words16_def)
qed

lemma find_free:
  "find (\<lambda>i. \<not> list_ex (\<lambda>w. unat w = i) order) boot_indices = find (\<lambda>i. of_nat i \<notin> set (order :: u16 list)) boot_indices"
proof (rule find_cong [OF refl])
  fix i :: nat
  assume "i \<in> set boot_indices"
  then have "unat w = i \<longleftrightarrow> w = of_nat i" for w :: u16
    by (auto simp: unat_of_nat in_indices)
  then show "(\<not> list_ex (\<lambda>w. unat w = i) order) = (of_nat i \<notin> set order)"
    by (auto simp: list_ex_iff)
qed

text \<open>Reading the order and taking the first free index, with enough memory for the order.\<close>

lemma AllocateBootIndex_run:
  assumes r: "reads_variables E V" and g: "gives_blocks E V"
    and v: "VarsOf V (BdsWorld s) (boot_order, gEfiGlobalVariableGuid) = v" and free: "set (order_of v) \<noteq> UNIV"
    and av: "length (case v of None \<Rightarrow> [] | Some d \<Rightarrow> d) \<le> AvailOf V (BdsWorld s)"
  shows "\<exists>s'. BootOptionAllocateBootIndex E s = Ret (new_index (order_of v), s') \<and> VarsOf V (BdsWorld s') = VarsOf V (BdsWorld s) \<and>
    UsedOf V (BdsWorld s) \<subseteq> UsedOf V (BdsWorld s') \<and> (\<forall>x\<in>UsedOf V (BdsWorld s). BdsMem s' x = BdsMem s x) \<and>
    AvailOf V (BdsWorld s) \<le> AvailOf V (BdsWorld s') + length (case v of None \<Rightarrow> [] | Some d \<Rightarrow> d)"
proof (cases v)
  case None
  then obtain w' where "global_variable E boot_order s = Ret ((EFI_NOT_FOUND, 0, 0), s\<lparr>BdsWorld := w'\<rparr>)" "same_view V (BdsWorld s) w'"
    using global_variable_missing [OF r] v by blast
  moreover have "new_index [] = 0"
    using find_index [of "\<lambda>_. True" 0] by (simp add: new_index_def)
  ultimately show ?thesis
    using None by (simp add: BootOptionAllocateBootIndex_def bindM_def ret_def order_of_def same_view_def)
next
  case (Some d)
  then obtain a w' where var: "global_variable E boot_order s
      = Ret ((EFI_SUCCESS, of_nat (length d), a), s\<lparr>BdsWorld := w', BdsMem := poke a d (BdsMem s)\<rparr>)"
      and fresh: "fresh_block V (BdsWorld s) a (length d) w'"
    using global_variable_found [OF r g] v av by fastforce
  have l: "length d < 2 ^ 63"
    using reads_variableD [OF r, of boot_order gEfiGlobalVariableGuid 0 False "BdsWorld s"] v Some by auto
  obtain i where i: "find (\<lambda>i. of_nat i \<notin> set (words16 d)) boot_indices = Some i"
    using new_index_first(3) [OF free] Some by (auto simp: order_of_def)
  have "BdsMem s x = poke a d (BdsMem s) x" if "x \<in> UsedOf V (BdsWorld s)" for x
    using that fresh l by (intro poke_off_block [symmetric, of _ _ "length d"]) (auto simp: fresh_block_def)
  then show ?thesis
    using var fresh Some i
    by (simp add: BootOptionAllocateBootIndex_def bindM_def gets_def ret_def order_of_def order_at_poke [OF l] find_free
        new_index_def fresh_block_def)
qed

text \<open>The bytes of the variable, none when it is not there.\<close>

definition bytes_of :: "u8 list option \<Rightarrow> u8 list" where "bytes_of v = (case v of None \<Rightarrow> [] | Some d \<Rightarrow> d)"

lemma words16_append:
  assumes "even (length d)"
  shows "words16 (d @ le_bytes 2 w) = words16 d @ [w]"
proof -
  have "length (d @ le_bytes 2 w) div 2 = Suc (length d div 2)" and l: "2 * (length d div 2) = length d"
    using assms by simp_all
  moreover have "take 2 (drop (2 * i) (d @ le_bytes 2 w)) = take 2 (drop (2 * i) d)" if "i < length d div 2" for i
    using that by simp
  moreover have "of_nat (le_nat (take 2 (drop (length d) (d @ le_bytes 2 w)))) = w"
    using of_nat_le_bytes16 [of w] by simp
  ultimately show ?thesis by (simp add: words16_def del: drop_append take_append)
qed

lemma writes_variableD:
  "writes_variables E V most \<Longrightarrow> d \<noteq> [] \<Longrightarrow> length d \<le> most \<Longrightarrow>
   \<exists>w'. SetVar E name guid attr d w = (EFI_SUCCESS, w') \<and> VarsOf V w' = (VarsOf V w)((name, guid) \<mapsto> d) \<and>
        UsedOf V w' = UsedOf V w \<and> AvailOf V w' = AvailOf V w"
  by (simp add: writes_variables_def)

lemma DropPool_view:
  assumes "gives_blocks E V"
  shows "\<exists>w'. DropPool E a w = ((), w') \<and> VarsOf V w' = VarsOf V w \<and> AvailOf V w \<le> AvailOf V w'"
  using assms by (intro exI [of _ "snd (DropPool E a w)"]) (auto simp: gives_blocks_def prod_eq_iff)

lemma append_order_run:
  assumes r: "reads_variables E V" and g: "gives_blocks E V" and wr: "writes_variables E V most"
    and v: "VarsOf V (BdsWorld s) (boot_order, gEfiGlobalVariableGuid) = v" and ev: "even (length (bytes_of v))"
    and most: "length (bytes_of v) + 2 \<le> most" and av: "2 * length (bytes_of v) + 2 \<le> AvailOf V (BdsWorld s)"
  shows "\<exists>s'. append_order E i s = Ret ((), s') \<and>
    VarsOf V (BdsWorld s') = (VarsOf V (BdsWorld s))((boot_order, gEfiGlobalVariableGuid) \<mapsto> bytes_of v @ le_bytes 2 i)"
proof (cases v)
  case None
  then obtain w1 where get: "global_variable E boot_order s = Ret ((EFI_NOT_FOUND, 0, 0), s\<lparr>BdsWorld := w1\<rparr>)"
      "same_view V (BdsWorld s) w1"
    using global_variable_missing [OF r] v by blast
  have "le_bytes 2 i \<noteq> []" "length (le_bytes 2 i) \<le> most"
    using most by (simp_all flip: length_greater_0_conv)
  from writes_variableD [OF wr this, of boot_order gEfiGlobalVariableGuid boot_attributes w1]
  obtain w2 where "SetVar E boot_order gEfiGlobalVariableGuid boot_attributes (le_bytes 2 i) w1 = (EFI_SUCCESS, w2)"
      "VarsOf V w2 = (VarsOf V w1)((boot_order, gEfiGlobalVariableGuid) \<mapsto> le_bytes 2 i)" by blast
  with get None show ?thesis
    by (simp add: append_order_def bindM_def service_def ret_def bytes_of_def same_view_def)
next
  case (Some d)
  let ?n = "length d" and ?set = "SetVar E boot_order gEfiGlobalVariableGuid boot_attributes"
  have v': "bytes_of v = d" by (simp add: bytes_of_def Some)
  obtain a w1 where get: "global_variable E boot_order s
      = Ret ((EFI_SUCCESS, of_nat ?n, a), s\<lparr>BdsWorld := w1, BdsMem := poke a d (BdsMem s)\<rparr>)"
      and fresh: "fresh_block V (BdsWorld s) a ?n w1"
    using global_variable_found [OF r g] v av Some v' by fastforce
  have l: "?n < 2 ^ 63"
    using reads_variableD [OF r, of boot_order gEfiGlobalVariableGuid 0 False "BdsWorld s"] v Some by auto
  obtain b w2 where alloc: "AllocPool E (of_nat (?n + 2)) w1 = (b, w2)" "fresh_block V w1 b (?n + 2) w2"
    using AllocPool_fresh [OF g, of "?n + 2" w1] av fresh l v' by (auto simp: fresh_block_def)
  obtain w3 where drop: "DropPool E a w2 = ((), w3)" "VarsOf V w3 = VarsOf V w2"
    using DropPool_view [OF g] by blast
  have "d @ le_bytes 2 i \<noteq> []" "length (d @ le_bytes 2 i) \<le> most"
    using most v' by (simp_all flip: length_greater_0_conv)
  from writes_variableD [OF wr this, of boot_order gEfiGlobalVariableGuid boot_attributes w3]
  obtain w4 where set: "?set (d @ le_bytes 2 i) w3 = (EFI_SUCCESS, w4)"
      "VarsOf V w4 = (VarsOf V w3)((boot_order, gEfiGlobalVariableGuid) \<mapsto> d @ le_bytes 2 i)" by blast
  obtain w5 where drop2: "DropPool E b w4 = ((), w5)" "VarsOf V w5 = VarsOf V w4"
    using DropPool_view [OF g] by blast
  have "(2 :: u64) * (of_nat ?n div 2) = of_nat ?n"
  proof -
    have "of_nat ?n div (2 :: u64) = of_nat (?n div 2)" using l by (subst word_arith_nat_div) (simp add: unat_of_nat)
    also have "2 * \<dots> = of_nat (2 * (?n div 2))" by simp
    also have "2 * (?n div 2) = ?n" using ev v' by simp
    finally show ?thesis .
  qed
  moreover have "?n + 2 \<le> 2 ^ 63"
    using l ev v' by simp presburger
  then have "peek (?n + 2) b (poke (b + of_nat ?n) (le_bytes 2 i) (poke b (d @ [0, 0]) m)) = d @ le_bytes 2 i" for m
    by (subst peek_poke_splice) (simp_all add: peek_poke_here splice_def)
  moreover have "peek ?n a (poke a d m) = d" for m
    using l by (simp add: peek_poke_here)
  moreover have "b \<noteq> 0" "unat (of_nat ?n :: u64) = ?n" "unat (of_nat ?n + 2 :: u64) = ?n + 2"
    using alloc(2) l by (simp_all add: fresh_block_def unat_word_ariths unat_of_nat)
  moreover have "VarsOf V w2 = VarsOf V (BdsWorld s)" using fresh alloc(2) by (simp add: fresh_block_def)
  ultimately show ?thesis
    using get alloc(1) drop set drop2 v'
    by (simp add: append_order_def bindM_def service_def ret_def put_bytes_def get_bytes_def modify_def gets_def add.commute [of 2])
qed

section \<open>Storing an option\<close>

text \<open>\<open>GetDevicePathSize\<close> gives the size of every well-formed path.\<close>

definition sizes_paths :: "'w VarEnv \<Rightarrow> bool" where
  "sizes_paths E \<longleftrightarrow> (\<forall>a m nodes. (\<forall>n\<in>set nodes. node_ok n) \<and> peek (length (dp_bytes nodes)) a m = dp_bytes nodes \<and>
     length (dp_bytes nodes) < 2 ^ 16 \<longrightarrow> GetDevicePathSize E a m = of_nat (length (dp_bytes nodes)))"

definition option_services :: "'w VarEnv \<Rightarrow> 'w VarView \<Rightarrow> nat \<Rightarrow> bool" where
  "option_services E V most \<longleftrightarrow> reads_variables E V \<and> gives_blocks E V \<and> writes_variables E V most \<and> sizes_paths E \<and>
     MaximumUnicodeStringLength E < 2 ^ 32"

lemma describes_cong:
  assumes "describes E m Opt attr name nodes data" and "MaximumUnicodeStringLength E < 2 ^ 32"
    and "\<And>x. x \<in> option_sources Opt name nodes data \<Longrightarrow> m' x = m x"
  shows "describes E m' Opt attr name nodes data"
proof -
  note f = assms(1) [unfolded describes_def string_at_def]
  have eq: "peek k a m' = peek k a m" if "blk a (of_nat k) \<subseteq> option_sources Opt name nodes data" and "k < 2 ^ 64" for k a
    using that assms(3) by (intro peek_eq_on_blk [of a "of_nat k"]) (auto simp: unat_of_nat)
  have "peek (length (name_bytes name)) (Description Opt) m' = peek (length (name_bytes name)) (Description Opt) m"
    "peek (length (dp_bytes nodes)) (FilePathList Opt) m' = peek (length (dp_bytes nodes)) (FilePathList Opt) m"
    "peek (length data) (OptionalData Opt) m' = peek (length data) (OptionalData Opt) m"
    by (rule eq, unfold option_sources_def pointed_def, blast, use f assms(2) in simp)+
  with f show ?thesis
    by (simp add: describes_def string_at_def del: length_name_bytes)
qed

lemma boot_name_other: "boot_name i \<noteq> boot_order"
  by (auto simp: boot_name_def boot_order_def dest: arg_cong [of _ _ length])

lemma ToLoadOptionVariable_new:
  assumes S: "option_services E V most" and d: "describes E (BdsMem s) Opt attr name nodes data" and new: "LoadOptionSize Opt = 0"
    and used: "option_sources Opt name nodes data \<subseteq> UsedOf V (BdsWorld s)"
    and v: "VarsOf V (BdsWorld s) (boot_order, gEfiGlobalVariableGuid) = v" "even (length (bytes_of v))" "set (order_of v) \<noteq> UNIV"
    and most: "length (packed attr name nodes data) \<le> most" "length (bytes_of v) + 2 \<le> most"
    and av: "3 * length (bytes_of v) + 2 + length (packed attr name nodes data) \<le> AvailOf V (BdsWorld s)"
  shows "\<exists>Opt' s'. BootOptionToLoadOptionVariable E Opt s = Ret ((EFI_SUCCESS, Opt'), s') \<and>
    LoadOptionIndex Opt' = new_index (order_of v) \<and>
    VarsOf V (BdsWorld s') = (VarsOf V (BdsWorld s))
      ((boot_name (new_index (order_of v)), gEfiGlobalVariableGuid) \<mapsto> packed attr name nodes data,
       (boot_order, gEfiGlobalVariableGuid) \<mapsto> bytes_of v @ le_bytes 2 (new_index (order_of v)))"
proof -
  let ?P = "packed attr name nodes data" and ?i = "new_index (order_of v)" and ?N = "of_nat (length (name_bytes name)) :: u64"
  have r: "reads_variables E V" and g: "gives_blocks E V" and wr: "writes_variables E V most" and sz: "sizes_paths E"
    and max: "MaximumUnicodeStringLength E < 2 ^ 32"
    using S by (simp_all add: option_services_def)
  have b: "length (case v of None \<Rightarrow> [] | Some d \<Rightarrow> d) = length (bytes_of v)" by (simp add: bytes_of_def)
  obtain s1 where s1: "BootOptionAllocateBootIndex E s = Ret (?i, s1)" "VarsOf V (BdsWorld s1) = VarsOf V (BdsWorld s)"
      "UsedOf V (BdsWorld s) \<subseteq> UsedOf V (BdsWorld s1)" "\<forall>x\<in>UsedOf V (BdsWorld s). BdsMem s1 x = BdsMem s x"
      "AvailOf V (BdsWorld s) \<le> AvailOf V (BdsWorld s1) + length (bytes_of v)"
    using AllocateBootIndex_run [OF r g v(1,3)] av unfolding b by fastforce
  have d1: "describes E (BdsMem s1) (Opt\<lparr>LoadOptionIndex := ?i\<rparr>) attr name nodes data"
    using describes_cong [OF d max, of "BdsMem s1"] used s1(4) by (auto simp: describes_def)
  have n: "length ?P < 2 ^ 35" "12 \<le> length ?P" using packed_bound [OF d max] by auto
  have len: "6 + ?N + ucast (FilePathListLength Opt) + OptionalDataSize Opt = of_nat (length ?P)"
    using d by (simp add: describes_def length_packed small_nat del: length_name_bytes)
  have path: "GetDevicePathSize E (FilePathList Opt) (BdsMem s1) = ucast (FilePathListLength Opt)"
    using d1 sz by (simp add: describes_def sizes_paths_def small_nat)
  obtain p w2 where al: "AllocPool E (of_nat (length ?P)) (BdsWorld s1) = (p, w2)" "fresh_block V (BdsWorld s1) p (length ?P) w2"
    using AllocPool_fresh [OF g, of "length ?P" "BdsWorld s1"] av s1(5) n by auto
  let ?Opt = "Opt\<lparr>LoadOptionIndex := ?i, LoadOptionSize := of_nat (length ?P), LoadOption := p\<rparr>"
  let ?s2 = "s1\<lparr>BdsWorld := w2\<rparr>"
  have pack: "pack_option ?Opt ?N ?s2 = Ret ((), ?s2\<lparr>BdsMem := poke p ?P (BdsMem s1)\<rparr>)"
  proof -
    have "describes E (BdsMem ?s2) ?Opt attr name nodes data"
      using d1 by (simp add: describes_def)
    moreover have "option_sources ?Opt name nodes data \<inter> blk p (of_nat (length ?P)) = {}"
      using used s1(3) al(2) by (auto simp: fresh_block_def option_sources_def pointed_def)
    ultimately show ?thesis
      using pack_option_run [of E ?s2 ?Opt attr name nodes data p "length ?P"] max by simp
  qed
  have "?P \<noteq> []" using n(2) by auto
  from writes_variableD [OF wr this most(1), of "boot_name ?i" gEfiGlobalVariableGuid boot_attributes w2]
  obtain w3 where set: "SetVar E (boot_name ?i) gEfiGlobalVariableGuid boot_attributes ?P w2 = (EFI_SUCCESS, w3)"
      "VarsOf V w3 = (VarsOf V w2)((boot_name ?i, gEfiGlobalVariableGuid) \<mapsto> ?P)" "AvailOf V w3 = AvailOf V w2" by blast
  let ?s3 = "s1\<lparr>BdsMem := poke p ?P (BdsMem s1), BdsWorld := w3\<rparr>"
  have v3: "VarsOf V (BdsWorld ?s3) (boot_order, gEfiGlobalVariableGuid) = v"
    using set(2) al(2) s1(2) v(1) boot_name_other [of ?i] by (auto simp: fresh_block_def)
  have "2 * length (bytes_of v) + 2 \<le> AvailOf V (BdsWorld ?s3)"
    using av s1(5) al(2) set(3) by (simp add: fresh_block_def)
  from append_order_run [OF r g wr v3 v(2) most(2) this, of ?i]
  obtain s4 where ord: "append_order E ?i ?s3 = Ret ((), s4)"
      "VarsOf V (BdsWorld s4) = (VarsOf V w3)((boot_order, gEfiGlobalVariableGuid) \<mapsto> bytes_of v @ le_bytes 2 ?i)" by auto
  have vars: "VarsOf V (BdsWorld s4) = (VarsOf V (BdsWorld s))
      ((boot_name ?i, gEfiGlobalVariableGuid) \<mapsto> ?P, (boot_order, gEfiGlobalVariableGuid) \<mapsto> bytes_of v @ le_bytes 2 ?i)"
    using ord(2) set(2) al(2) s1(2) by (simp add: fresh_block_def)
  have "string_at E (Description Opt) name (BdsMem s1)" using d1 by (simp add: describes_def)
  note str = StrSizeAt_run [OF this]
  have "p \<noteq> 0" "peek (length ?P) p (poke p ?P (BdsMem s1)) = ?P" "unat (of_nat (length ?P) :: u64) = length ?P"
    using al(2) n by (simp_all add: fresh_block_def peek_poke_here unat_of_nat)
  then have "BootOptionToLoadOptionVariable E Opt s = Ret ((EFI_SUCCESS, ?Opt), s4)"
    using new s1(1) str path al(1) pack set(1) ord(1)
    by (simp add: BootOptionToLoadOptionVariable_def Let_def bindM_def gets_def ASSERT_def service_def ret_def get_bytes_def len
        del: length_name_bytes)
  with vars show ?thesis by (intro exI [of _ ?Opt] exI [of _ s4]) simp
qed

text \<open>Reading an option back from its variable.\<close>

lemma FromLoadOptionIndex_run:
  assumes S: "option_services E V most" and ok: "option_ok E name nodes data"
    and v: "VarsOf V (BdsWorld s) (boot_name i, gEfiGlobalVariableGuid) = Some (packed attr name nodes data)"
    and av: "length (packed attr name nodes data) + unat (sizeof_BDS_LOAD_OPTION E) \<le> AvailOf V (BdsWorld s)"
  shows "\<exists>Opt s'. BootOptionFromLoadOptionIndex E i s = Ret ((EFI_SUCCESS, Some Opt), s') \<and> LoadOptionIndex Opt = i \<and>
    describes E (BdsMem s') Opt attr name nodes data \<and> VarsOf V (BdsWorld s') = VarsOf V (BdsWorld s)"
proof -
  let ?P = "packed attr name nodes data"
  have r: "reads_variables E V" and g: "gives_blocks E V" using S by (simp_all add: option_services_def)
  obtain p w1 where get: "global_variable E (boot_name i) s
      = Ret ((EFI_SUCCESS, of_nat (length ?P), p), s\<lparr>BdsWorld := w1, BdsMem := poke p ?P (BdsMem s)\<rparr>)"
      and fresh: "fresh_block V (BdsWorld s) p (length ?P) w1"
    using global_variable_found [OF r g v] av by fastforce
  obtain a w2 where al: "AllocPool E (sizeof_BDS_LOAD_OPTION E) w1 = (a, w2)" "a \<noteq> 0" "VarsOf V w2 = VarsOf V w1"
    using g [unfolded gives_blocks_def, THEN conjunct1, rule_format, of "sizeof_BDS_LOAD_OPTION E" w1] av fresh
    by (auto simp: fresh_block_def)
  let ?s = "s\<lparr>BdsMem := poke p ?P (BdsMem s), BdsWorld := w2\<rparr>"
  have n: "length ?P < 2 ^ 35" "12 \<le> length ?P"
    using ok by (simp_all add: option_ok_def length_packed dp_bytes_def end_node_def)
  have "peek (length ?P) p (BdsMem ?s) = ?P" using n by (simp add: peek_poke_here)
  then obtain Opt where fill: "fill_option E p (of_nat (length ?P)) zero_option ?s = Ret (Opt, ?s)"
      "describes E (BdsMem ?s) Opt attr name nodes data"
    using fill_option_run [OF ok refl, where s = ?s and p = p and attr = attr and Opt = zero_option] fresh
    by (auto simp: fresh_block_def)
  have "\<not> (of_nat (length ?P) :: u64) < min_load_option"
    using n by (simp add: min_load_option_def word_less_nat_alt unat_of_nat)
  then have "BootOptionFromLoadOptionIndex E i s = Ret ((EFI_SUCCESS, Some (Opt\<lparr>LoadOptionIndex := i\<rparr>)), ?s)"
    using get al fill(1) fresh
    by (simp add: BootOptionFromLoadOptionIndex_def BootOptionFromLoadOptionVariable_def BootOptionParseLoadOption_def
        bindM_def service_def ret_def fresh_block_def)
  moreover have "describes E (BdsMem ?s) (Opt\<lparr>LoadOptionIndex := i\<rparr>) attr name nodes data"
    using fill(2) by (simp add: describes_def)
  ultimately show ?thesis
    using al(3) fresh by (intro exI [of _ "Opt\<lparr>LoadOptionIndex := i\<rparr>"] exI [of _ ?s]) (simp add: fresh_block_def)
qed

section \<open>Updating an option\<close>

lemma min_size: "12 \<le> n \<Longrightarrow> n < 2 ^ 64 \<Longrightarrow> \<not> (of_nat n :: u64) < min_load_option"
  by (simp add: min_load_option_def word_less_nat_alt unat_of_nat)

text \<open>The old block is dropped only after its contents were packed again and the pointers moved.\<close>

lemma ToLoadOptionVariable_update:
  assumes S: "option_services E V most" and d: "describes E (BdsMem s) Opt attr name nodes data"
    and old: "LoadOptionSize Opt > 0" "LoadOption Opt \<noteq> 0"
    and used: "option_sources Opt name nodes data \<subseteq> UsedOf V (BdsWorld s)"
    and most: "length (packed attr name nodes data) \<le> most" and av: "length (packed attr name nodes data) \<le> AvailOf V (BdsWorld s)"
  shows "\<exists>Opt' s'. BootOptionToLoadOptionVariable E Opt s = Ret ((EFI_SUCCESS, Opt'), s') \<and>
    LoadOptionIndex Opt' = LoadOptionIndex Opt \<and> describes E (BdsMem s') Opt' attr name nodes data \<and>
    VarsOf V (BdsWorld s') = (VarsOf V (BdsWorld s))((boot_name (LoadOptionIndex Opt), gEfiGlobalVariableGuid) \<mapsto> packed attr name nodes data)"
proof -
  let ?P = "packed attr name nodes data" and ?N = "of_nat (length (name_bytes name)) :: u64"
  have g: "gives_blocks E V" and wr: "writes_variables E V most" and sz: "sizes_paths E"
    and max: "MaximumUnicodeStringLength E < 2 ^ 32"
    using S by (simp_all add: option_services_def)
  have n: "length ?P < 2 ^ 35" "12 \<le> length ?P" using packed_bound [OF d max] by auto
  have len: "6 + ?N + ucast (FilePathListLength Opt) + OptionalDataSize Opt = of_nat (length ?P)"
    using d by (simp add: describes_def length_packed small_nat del: length_name_bytes)
  have path: "GetDevicePathSize E (FilePathList Opt) (BdsMem s) = ucast (FilePathListLength Opt)"
    using d sz by (simp add: describes_def sizes_paths_def small_nat)
  obtain p w1 where al: "AllocPool E (of_nat (length ?P)) (BdsWorld s) = (p, w1)" "fresh_block V (BdsWorld s) p (length ?P) w1"
    using AllocPool_fresh [OF g, of "length ?P" "BdsWorld s"] av n by auto
  let ?Opt = "Opt\<lparr>LoadOptionSize := of_nat (length ?P), LoadOption := p\<rparr>" and ?m = "poke p ?P (BdsMem s)"
  have pack: "pack_option ?Opt ?N (s\<lparr>BdsWorld := w1\<rparr>) = Ret ((), s\<lparr>BdsWorld := w1, BdsMem := ?m\<rparr>)"
  proof -
    have "describes E (BdsMem (s\<lparr>BdsWorld := w1\<rparr>)) ?Opt attr name nodes data"
      using d by (simp add: describes_def)
    moreover have "option_sources ?Opt name nodes data \<inter> blk p (of_nat (length ?P)) = {}"
      using used al(2) by (auto simp: fresh_block_def option_sources_def pointed_def)
    ultimately show ?thesis
      using pack_option_run [of E "s\<lparr>BdsWorld := w1\<rparr>" ?Opt attr name nodes data p "length ?P"] max by simp
  qed
  have peek: "peek (length ?P) p ?m = ?P" "unat (of_nat (length ?P) :: u64) = length ?P"
    using n by (simp_all add: peek_poke_here unat_of_nat)
  let ?s1 = "s\<lparr>BdsWorld := w1, BdsMem := ?m\<rparr>"
  obtain Opt' where fill: "fill_option E p (of_nat (length ?P)) ?Opt ?s1 = Ret (Opt', ?s1)" "describes E ?m Opt' attr name nodes data"
      "LoadOptionIndex Opt' = LoadOptionIndex Opt" "LoadOption Opt' = p" "LoadOptionSize Opt' = of_nat (length ?P)"
    using fill_option_run [OF describes_ok [OF d max] refl, where s = ?s1 and p = p and attr = attr and Opt = ?Opt] al(2) peek(1)
    by (auto simp: fresh_block_def)
  obtain w2 where drop: "DropPool E (LoadOption Opt) w1 = ((), w2)" "VarsOf V w2 = VarsOf V w1"
    using DropPool_view [OF g] by blast
  have "?P \<noteq> []" using n(2) by auto
  from writes_variableD [OF wr this most, of "boot_name (LoadOptionIndex Opt)" gEfiGlobalVariableGuid boot_attributes w2]
  obtain w3 where set: "SetVar E (boot_name (LoadOptionIndex Opt)) gEfiGlobalVariableGuid boot_attributes ?P w2 = (EFI_SUCCESS, w3)"
      "VarsOf V w3 = (VarsOf V w2)((boot_name (LoadOptionIndex Opt), gEfiGlobalVariableGuid) \<mapsto> ?P)" by blast
  have "string_at E (Description Opt) name (BdsMem s)" using d by (simp add: describes_def)
  note str = StrSizeAt_run [OF this]
  have min: "\<not> (of_nat (length ?P) :: u64) < min_load_option" using n by (intro min_size) simp_all
  have "p \<noteq> 0" using al(2) by (simp add: fresh_block_def)
  then have "BootOptionToLoadOptionVariable E Opt s = Ret ((EFI_SUCCESS, Opt'), s\<lparr>BdsWorld := w3, BdsMem := ?m\<rparr>)"
    using old str path al(1) pack fill drop(1) set(1) peek min
    by (simp add: BootOptionToLoadOptionVariable_def BootOptionParseLoadOption_def Let_def bindM_def gets_def ASSERT_def service_def
        ret_def get_bytes_def len del: length_name_bytes)
  moreover have "VarsOf V w3 = (VarsOf V (BdsWorld s))((boot_name (LoadOptionIndex Opt), gEfiGlobalVariableGuid) \<mapsto> ?P)"
    using set(2) drop(2) al(2) by (simp add: fresh_block_def)
  ultimately show ?thesis
    using fill by (intro exI [of _ Opt'] exI [of _ "s\<lparr>BdsWorld := w3, BdsMem := ?m\<rparr>"]) simp
qed

section \<open>Two errors\<close>

text \<open>
  Without memory for the boot order the index 0 is used, whether it is free or not: the option that
  has it is overwritten.
\<close>

lemma AllocateBootIndex_no_memory:
  assumes "reads_variables E V" and "VarsOf V (BdsWorld s) (boot_order, gEfiGlobalVariableGuid) = Some d"
    and "\<And>w. AllocPool E (of_nat (length d)) w = (0, w)"
  shows "\<exists>s'. BootOptionAllocateBootIndex E s = Ret (0, s')"
proof -
  have "d \<noteq> []" using reads_variableD [OF assms(1), of boot_order gEfiGlobalVariableGuid 0 False "BdsWorld s"] assms(2) by auto
  then obtain bytes w where "GetVar E boot_order gEfiGlobalVariableGuid 0 False (BdsWorld s)
      = ((EFI_BUFFER_TOO_SMALL, of_nat (length d), bytes), w)"
    using reads_variableD [OF assms(1), of boot_order gEfiGlobalVariableGuid 0 False "BdsWorld s"] assms(2) by (auto split: if_splits)
  then show ?thesis
    using assms(3) by (simp add: BootOptionAllocateBootIndex_def global_variable_def GetGlobalEnvironmentVariable_def
        GetEnvironmentVariable_def bindM_def service_def ret_def)
qed

text \<open>
  A variable whose \<open>FilePathListLength\<close> goes beyond its end is accepted, and the size of its optional
  data wraps.
\<close>

lemma fill_option_beyond:
  assumes "string_at E (p + 4 + 2) name (BdsMem s)" and "k = 6 + length (name_bytes name) + unat (read_u16 (p + 4) (BdsMem s))"
    and "n < k" and "k < 2 ^ 63"
  shows "\<exists>Opt'. fill_option E p (of_nat n) Opt s = Ret (Opt', s) \<and> unat (OptionalDataSize Opt') = 2 ^ 64 + n - k"
proof -
  have "p + 4 + 2 + of_nat (length (name_bytes name)) + ucast (read_u16 (p + 4) (BdsMem s)) - p = of_nat k"
    by (simp add: assms(2))
  moreover have "(of_nat k :: u64) \<noteq> of_nat n" using assms(3,4) by (subst of_nat_u64_eq) simp_all
  moreover have "unat (of_nat n - of_nat k :: u64) = 2 ^ 64 + n - k"
    using assms(3,4) by (subst unat_sub_if_size) (simp add: word_size unat_of_nat)
  ultimately show ?thesis
    using StrSizeAt_run [OF assms(1)]
    by (simp add: fill_option_def bindM_def gets_def Let_def ret_def del: length_name_bytes)
qed

section \<open>Properties\<close>

text \<open>
  Property C22. Storing a new boot option takes the first index that is not in the boot order, puts the
  packed option into the variable \<open>Boot####\<close> of that index, appends the index to \<open>BootOrder\<close>, and
  changes no other variable.
\<close>
theorem BootOption_new_entry:
  assumes "option_services E V most" and "describes E (BdsMem s) Opt attr name nodes data" and "LoadOptionSize Opt = 0"
    and "option_sources Opt name nodes data \<subseteq> UsedOf V (BdsWorld s)"
    and "VarsOf V (BdsWorld s) (boot_order, gEfiGlobalVariableGuid) = v" and "even (length (bytes_of v))" and free: "set (order_of v) \<noteq> UNIV"
    and "length (packed attr name nodes data) \<le> most" and "length (bytes_of v) + 2 \<le> most"
    and "3 * length (bytes_of v) + 2 + length (packed attr name nodes data) \<le> AvailOf V (BdsWorld s)"
  shows "\<exists>Opt' s' i order. BootOptionToLoadOptionVariable E Opt s = Ret ((EFI_SUCCESS, Opt'), s') \<and>
    LoadOptionIndex Opt' = i \<and> i \<notin> set (order_of v) \<and> (\<forall>j<i. j \<in> set (order_of v)) \<and>
    VarsOf V (BdsWorld s') = (VarsOf V (BdsWorld s))
      ((boot_name i, gEfiGlobalVariableGuid) \<mapsto> packed attr name nodes data, (boot_order, gEfiGlobalVariableGuid) \<mapsto> order) \<and>
    order_of (Some order) = order_of v @ [i]"
proof -
  let ?i = "new_index (order_of v)"
  obtain Opt' s' where run: "BootOptionToLoadOptionVariable E Opt s = Ret ((EFI_SUCCESS, Opt'), s')" "LoadOptionIndex Opt' = ?i"
      "VarsOf V (BdsWorld s') = (VarsOf V (BdsWorld s))((boot_name ?i, gEfiGlobalVariableGuid) \<mapsto> packed attr name nodes data,
        (boot_order, gEfiGlobalVariableGuid) \<mapsto> bytes_of v @ le_bytes 2 ?i)"
    using ToLoadOptionVariable_new [OF assms] by blast
  have "order_of (Some (bytes_of v @ le_bytes 2 ?i)) = order_of v @ [?i]"
    using words16_append [OF assms(6)] by (cases v) (simp_all add: order_of_def bytes_of_def words16_def)
  with run new_index_first [OF free] show ?thesis by blast
qed

text \<open>
  Property C23. A boot option that was stored reads back: as long as its variable is there, the option
  with its index has the same attributes, description, device path and optional data.
\<close>
theorem load_option_roundtrip:
  assumes S: "option_services E V most" and d: "describes E (BdsMem s) Opt attr name nodes data" and "LoadOptionSize Opt = 0"
    and "option_sources Opt name nodes data \<subseteq> UsedOf V (BdsWorld s)"
    and "VarsOf V (BdsWorld s) (boot_order, gEfiGlobalVariableGuid) = v" and "even (length (bytes_of v))" and "set (order_of v) \<noteq> UNIV"
    and "length (packed attr name nodes data) \<le> most" and "length (bytes_of v) + 2 \<le> most"
    and "3 * length (bytes_of v) + 2 + length (packed attr name nodes data) \<le> AvailOf V (BdsWorld s)"
  shows "\<exists>Opt1 s1. BootOptionToLoadOptionVariable E Opt s = Ret ((EFI_SUCCESS, Opt1), s1) \<and>
    (\<forall>s2. VarsOf V (BdsWorld s2) = VarsOf V (BdsWorld s1) \<and>
        length (packed attr name nodes data) + unat (sizeof_BDS_LOAD_OPTION E) \<le> AvailOf V (BdsWorld s2) \<longrightarrow>
      (\<exists>Opt2 s3. BootOptionFromLoadOptionIndex E (LoadOptionIndex Opt1) s2 = Ret ((EFI_SUCCESS, Some Opt2), s3) \<and>
         LoadOptionIndex Opt2 = LoadOptionIndex Opt1 \<and> describes E (BdsMem s3) Opt2 attr name nodes data))"
proof -
  obtain Opt1 s1 where run: "BootOptionToLoadOptionVariable E Opt s = Ret ((EFI_SUCCESS, Opt1), s1)"
      "VarsOf V (BdsWorld s1) (boot_name (LoadOptionIndex Opt1), gEfiGlobalVariableGuid) = Some (packed attr name nodes data)"
    using ToLoadOptionVariable_new [OF assms] boot_name_other by fastforce
  have "option_ok E name nodes data"
    using describes_ok [OF d] S by (simp add: option_services_def)
  note back_again = FromLoadOptionIndex_run [OF S this, of _ "LoadOptionIndex Opt1" attr]
  show ?thesis
  proof (rule exI [of _ Opt1], rule exI [of _ s1], intro conjI allI impI)
    show "BootOptionToLoadOptionVariable E Opt s = Ret ((EFI_SUCCESS, Opt1), s1)" by (rule run(1))
    fix s2 :: "'a BdsState"
    assume "VarsOf V (BdsWorld s2) = VarsOf V (BdsWorld s1) \<and>
        length (packed attr name nodes data) + unat (sizeof_BDS_LOAD_OPTION E) \<le> AvailOf V (BdsWorld s2)"
    then show "\<exists>Opt2 s3. BootOptionFromLoadOptionIndex E (LoadOptionIndex Opt1) s2 = Ret ((EFI_SUCCESS, Some Opt2), s3) \<and>
         LoadOptionIndex Opt2 = LoadOptionIndex Opt1 \<and> describes E (BdsMem s3) Opt2 attr name nodes data"
      using run(2) back_again [of s2] by auto
  qed
qed

end
