(* ===== verification/BdsOptionSim.thy ===== *)
theory BdsOptionSim
  imports BdsOptionSpec
begin

text \<open>
  Variable services over a finite map and a pool that hands out one block after the other, on which the
  properties of the load options are exercised.
\<close>

section \<open>A platform\<close>

text \<open>The pool has two bytes per unit; \<open>SimPool\<close> counts the units handed out.\<close>

record SimVars =
  SimStore :: "CHAR16s \<times> EFI_GUID \<Rightarrow> u8 list option"
  SimPool :: nat

definition sim_vars :: "SimVars \<Rightarrow> CHAR16s \<times> EFI_GUID \<Rightarrow> u8 list option" where
  "sim_vars w k = (case SimStore w k of None \<Rightarrow> None | Some d \<Rightarrow> if d = [] \<or> 2 ^ 63 \<le> length d then None else Some d)"

definition sim_most :: nat where "sim_most = 0x10000"
definition sim_units :: nat where "sim_units = 0x100000000"

definition pool_at :: "SimVars \<Rightarrow> nat" where "pool_at w = min (SimPool w) sim_units"

primrec walk_path :: "nat \<Rightarrow> u64 \<Rightarrow> memory \<Rightarrow> u64" where
  "walk_path 0 a m = 0"
| "walk_path (Suc n) a m = (if m a = 0x7F then 4
     else ucast (DevicePathNodeLength a m) + walk_path n (a + ucast (DevicePathNodeLength a m)) m)"

definition sim_var_env :: "SimVars VarEnv" where
  "sim_var_env = \<lparr>
     GetVar = (\<lambda>name guid k buf w. case sim_vars w (name, guid) of
         None \<Rightarrow> ((EFI_NOT_FOUND, k, []), w)
       | Some d \<Rightarrow> ((if unat k < length d then (EFI_BUFFER_TOO_SMALL, of_nat (length d), [])
           else if buf then (EFI_SUCCESS, of_nat (length d), d) else (EFI_INVALID_PARAMETER, of_nat (length d), [])), w)),
     SetVar = (\<lambda>name guid attr d w. if d = [] \<or> sim_most < length d then (EFI_OUT_OF_RESOURCES, w)
       else (EFI_SUCCESS, w\<lparr>SimStore := (SimStore w)((name, guid) \<mapsto> d)\<rparr>)),
     AllocPool = (\<lambda>n w. if pool_at w + (unat n + 1) div 2 \<le> sim_units
       then (of_nat (2 * (pool_at w + 1)), w\<lparr>SimPool := pool_at w + (unat n + 1) div 2\<rparr>) else (0, w)),
     DropPool = (\<lambda>a w. ((), w)),
     GetDevicePathSize = walk_path 0x10000,
     sizeof_BDS_LOAD_OPTION = 80,
     MaximumUnicodeStringLength = 1000000\<rparr>"

definition sim_view :: "SimVars VarView" where
  "sim_view = \<lparr>VarsOf = sim_vars, UsedOf = (\<lambda>w. {x. unat x < 2 * (pool_at w + 1)}), AvailOf = (\<lambda>w. sim_units - pool_at w)\<rparr>"

lemma sim_reads: "reads_variables sim_var_env sim_view"
  by (auto simp: reads_variables_def sim_var_env_def sim_view_def same_view_def sim_vars_def split: option.splits if_splits)

lemma sim_writes: "writes_variables sim_var_env sim_view sim_most"
  by (auto simp: writes_variables_def sim_var_env_def sim_view_def sim_vars_def pool_at_def sim_most_def fun_eq_iff split: option.splits)

lemma sim_gives: "gives_blocks sim_var_env sim_view"
proof -
  have "\<exists>a w'. AllocPool sim_var_env n w = (a, w') \<and> sim_vars w' = sim_vars w \<and>
      sim_units - pool_at w \<le> sim_units - pool_at w' + unat n \<and>
      (unat n \<le> sim_units - pool_at w \<longrightarrow> a \<noteq> 0 \<and> a AND 1 = 0 \<and> unat a + unat n < 2 ^ 64 \<and>
        blk a n \<inter> {x. unat x < 2 * (pool_at w + 1)} = {} \<and> {x. unat x < 2 * (pool_at w + 1)} \<union> blk a n \<subseteq> {x. unat x < 2 * (pool_at w' + 1)})"
    for n w
  proof (cases "pool_at w + (unat n + 1) div 2 \<le> sim_units")
    case True
    let ?k = "2 * (pool_at w + 1)" and ?w = "w\<lparr>SimPool := pool_at w + (unat n + 1) div 2\<rparr>"
    have at: "pool_at ?w = pool_at w + (unat n + 1) div 2" using True by (simp add: pool_at_def)
    have a: "unat (of_nat ?k :: u64) = ?k" and lim: "?k + unat n < 2 ^ 64"
      using True by (simp_all add: unat_of_nat sim_units_def del: of_nat_Suc)
    have in_block: "?k \<le> unat x \<and> unat x < ?k + unat n" if "unat (x - of_nat ?k :: u64) < unat n" for x :: u64
    proof -
      have "unat ((x - of_nat ?k) + of_nat ?k) = unat (x - of_nat ?k) + unat (of_nat ?k :: u64)"
        by (rule iffD1 [OF unat_add_lem]) (use that lim in \<open>simp only: a, simp\<close>)
      then have "unat x = unat (x - of_nat ?k) + ?k"
        unfolding a diff_add_cancel .
      with that show ?thesis by simp
    qed
    have "even (of_nat ?k :: u64)" by simp
    then have "(of_nat ?k :: u64) AND 1 = 0" by (simp only: and_one_even)
    moreover have "of_nat ?k \<noteq> (0 :: u64)" using a by (metis add_is_0 mult_is_0 one_neq_zero unsigned_0 zero_neq_numeral)
    moreover have "blk (of_nat ?k) n \<inter> {x. unat x < ?k} = {}"
      using in_block by (fastforce simp: blk_iff)
    moreover have "{x. unat x < ?k} \<union> blk (of_nat ?k) n \<subseteq> {x. unat x < 2 * (pool_at ?w + 1)}"
      using in_block at by (fastforce simp: blk_iff)
    moreover have "sim_vars ?w = sim_vars w" by (simp add: sim_vars_def fun_eq_iff)
    ultimately show ?thesis
      using True at a lim by (intro exI [of _ "of_nat ?k"] exI [of _ ?w]) (simp add: sim_var_env_def)
  next
    case False
    then show ?thesis
      by (intro exI [of _ 0] exI [of _ w]) (auto simp: sim_var_env_def pool_at_def)
  qed
  then show ?thesis
    by (simp add: gives_blocks_def sim_view_def) (simp add: sim_var_env_def)
qed

lemma sim_sizes: "sizes_paths sim_var_env"
proof -
  have "walk_path k a m = of_nat (length (dp_bytes nodes))"
    if "\<forall>n\<in>set nodes. node_ok n" "peek (length (dp_bytes nodes)) a m = dp_bytes nodes" "length nodes < k" for k a m nodes
    using that
  proof (induction nodes arbitrary: k a)
    case Nil
    then obtain j where k: "k = Suc j" by (cases k) auto
    have "m a = 0x7F"
      using arg_cong [OF Nil(2), of "\<lambda>xs. xs ! 0"] by (simp add: peek_def dp_bytes_def end_node_def)
    then show ?case by (simp add: k dp_bytes_def end_node_def)
  next
    case (Cons n ns)
    then obtain j where k: "k = Suc j" and n: "node_ok n" by (cases k) auto
    have bytes: "peek (length ([] @ n @ dp_bytes ns)) a m = [] @ n @ dp_bytes ns"
        "peek (length (n @ dp_bytes ns @ [])) a m = n @ dp_bytes ns @ []"
      using Cons.prems(2) by (simp_all add: dp_bytes_Cons)
    note node = node_in_memory [OF n peek_part [OF bytes(1), simplified]]
    have "walk_path j (a + of_nat (length n)) m = of_nat (length (dp_bytes ns))"
      using Cons.prems peek_part [OF bytes(2)] by (intro Cons.IH) (simp_all add: k)
    with node n show ?case
      by (simp add: k dp_bytes_Cons small_nat node_ok_def IsDevicePathEndType_def)
  qed
  moreover have "length nodes < 0x10000" if "\<forall>n\<in>set nodes. node_ok n" "length (dp_bytes nodes) < 2 ^ 16" for nodes
    using nodes_bound [OF that(1)] that(2) by (simp add: dp_bytes_def)
  ultimately show ?thesis
    by (simp add: sizes_paths_def sim_var_env_def del: walk_path.simps)
qed

lemma sim_option_services: "option_services sim_var_env sim_view sim_most"
  using sim_reads sim_writes sim_gives sim_sizes
  by (simp add: option_services_def sim_var_env_def)

section \<open>One option\<close>

text \<open>
  The option "A" with one node and one byte of data, on a platform whose boot order has the index 0.
\<close>

definition sim_name :: CHAR16s where "sim_name = [0x41]"
definition sim_nodes :: "u8 list list" where "sim_nodes = [[1, 1, 4, 0]]"
definition sim_data :: "u8 list" where "sim_data = [7]"

definition sim_option :: BDS_LOAD_OPTION where
  "sim_option = zero_option\<lparr>OptAttributes := 1, FilePathListLength := 8, Description := 16, FilePathList := 32,
     OptionalDataSize := 1, OptionalData := 48\<rparr>"

definition sim_option_state :: "SimVars BdsState" where
  "sim_option_state = \<lparr>BdsMem = poke 16 (name_bytes sim_name) (poke 32 (dp_bytes sim_nodes) (poke 48 sim_data (\<lambda>_. 0))),
     BdsWorld = \<lparr>SimStore = (\<lambda>_. None)((boot_order, gEfiGlobalVariableGuid) \<mapsto> [0, 0]), SimPool = 100\<rparr>\<rparr>"

lemmas sim_option_defs = sim_option_def sim_name_def sim_nodes_def sim_data_def dp_bytes_def end_node_def name_bytes_def chars_def

lemma le_bytes_small: "le_bytes 2 (4 :: u16) = [4, 0]" "le_bytes 2 (0x41 :: u16) = [0x41, 0]"
  by code_simp+

lemma sim_describes: "describes sim_var_env (BdsMem sim_option_state) sim_option 1 sim_name sim_nodes sim_data"
proof -
  have n: "length (name_bytes sim_name) = 4" "length (dp_bytes sim_nodes) = 8" "length sim_data = 1"
    by (simp_all add: sim_option_defs)
  have b: "blk 16 (of_nat 4) \<inter> blk 32 (of_nat 8) = {}" "blk 16 (of_nat 4) \<inter> blk 48 (of_nat 1) = {}"
      "blk 32 (of_nat 8) \<inter> blk 16 (of_nat 4) = {}" "blk 32 (of_nat 8) \<inter> blk 48 (of_nat 1) = {}"
      "blk 48 (of_nat 1) \<inter> blk 16 (of_nat 4) = {}" "blk 48 (of_nat 1) \<inter> blk 32 (of_nat 8) = {}"
    by (auto simp: blk_def word_less_nat_alt unat_sub_if_size word_size word_le_nat_alt split: if_splits)
  have "peek 4 16 (BdsMem sim_option_state) = name_bytes sim_name"
      "peek 8 32 (BdsMem sim_option_state) = dp_bytes sim_nodes" "peek 1 48 (BdsMem sim_option_state) = sim_data"
    using peek_source [OF b(3), of "name_bytes sim_name"] peek_source [OF b(5), of "name_bytes sim_name"]
      peek_source [OF b(6), of "dp_bytes sim_nodes"] n
    by (simp_all add: sim_option_state_def peek_poke_here del: length_name_bytes)
  then show ?thesis
    using n by (simp add: describes_def string_at_def sim_var_env_def sim_option_def zero_option_def node_ok_def del: length_name_bytes)
      (simp add: sim_name_def sim_nodes_def le_bytes_small)
qed

lemma sim_option_facts:
  "LoadOptionSize sim_option = 0"
  "option_sources sim_option sim_name sim_nodes sim_data \<subseteq> UsedOf sim_view (BdsWorld sim_option_state)"
  "VarsOf sim_view (BdsWorld sim_option_state) (boot_order, gEfiGlobalVariableGuid) = Some [0, 0]"
  "even (length (bytes_of (Some [0, 0 :: u8])))" "set (order_of (Some [0, 0])) \<noteq> UNIV" "order_of (Some [0, 0]) = [0]"
  "length (packed 1 sim_name sim_nodes sim_data) \<le> sim_most" "length (bytes_of (Some [0, 0 :: u8])) + 2 \<le> sim_most"
  "3 * length (bytes_of (Some [0, 0 :: u8])) + 2 + length (packed 1 sim_name sim_nodes sim_data) \<le> AvailOf sim_view (BdsWorld sim_option_state)"
proof -
  show order: "order_of (Some [0, 0]) = [0]" by (simp add: order_of_def words16_def)
  have "(1 :: u16) \<notin> set (order_of (Some [0, 0]))" by (simp add: order)
  then show "set (order_of (Some [0, 0])) \<noteq> UNIV" by blast
  have "x \<in> blk b (of_nat k) \<Longrightarrow> unat b + k \<le> 202 \<Longrightarrow> unat x < 202" for x b :: u64 and k
  proof -
    assume x: "x \<in> blk b (of_nat k)" and l: "unat b + k \<le> 202"
    have "unat (x - b) < k" using x l by (simp add: blk_iff unat_of_nat)
    moreover have "unat ((x - b) + b) \<le> unat (x - b) + unat b"
      by (metis unat_word_ariths(1) mod_less_eq_dividend)
    ultimately show "unat x < 202" using l by simp
  qed
  from this [of _ 16 4] this [of _ 32 8] this [of _ 48 1]
  show "option_sources sim_option sim_name sim_nodes sim_data \<subseteq> UsedOf sim_view (BdsWorld sim_option_state)"
    by (auto simp: option_sources_def pointed_def sim_view_def sim_option_state_def pool_at_def sim_units_def sim_option_defs)
qed (simp_all add: sim_option_def zero_option_def sim_view_def sim_option_state_def sim_vars_def bytes_of_def length_packed sim_most_def
  sim_units_def pool_at_def sim_name_def sim_nodes_def sim_data_def dp_bytes_def end_node_def)

theorem BootOption_new_entry_witness:
  "\<exists>Opt' s' i order. BootOptionToLoadOptionVariable sim_var_env sim_option sim_option_state = Ret ((EFI_SUCCESS, Opt'), s') \<and>
    LoadOptionIndex Opt' = i \<and> i \<notin> {0} \<and> (\<forall>j<i. j \<in> {0}) \<and>
    VarsOf sim_view (BdsWorld s') = (VarsOf sim_view (BdsWorld sim_option_state))
      ((boot_name i, gEfiGlobalVariableGuid) \<mapsto> packed 1 sim_name sim_nodes sim_data, (boot_order, gEfiGlobalVariableGuid) \<mapsto> order) \<and>
    order_of (Some order) = [0, i]"
  using BootOption_new_entry [OF sim_option_services sim_describes sim_option_facts(1-5,7-9)] by (simp add: sim_option_facts(6))

theorem load_option_roundtrip_witness:
  "\<exists>Opt1 s1. BootOptionToLoadOptionVariable sim_var_env sim_option sim_option_state = Ret ((EFI_SUCCESS, Opt1), s1) \<and>
    (\<exists>Opt2 s3. BootOptionFromLoadOptionIndex sim_var_env (LoadOptionIndex Opt1) (s1\<lparr>BdsWorld := (BdsWorld s1)\<lparr>SimPool := 0\<rparr>\<rparr>)
        = Ret ((EFI_SUCCESS, Some Opt2), s3) \<and>
      LoadOptionIndex Opt2 = LoadOptionIndex Opt1 \<and> describes sim_var_env (BdsMem s3) Opt2 1 sim_name sim_nodes sim_data)"
proof -
  obtain Opt1 s1 where run: "BootOptionToLoadOptionVariable sim_var_env sim_option sim_option_state = Ret ((EFI_SUCCESS, Opt1), s1)"
    and later: "\<And>s2. VarsOf sim_view (BdsWorld s2) = VarsOf sim_view (BdsWorld s1) \<and>
        length (packed 1 sim_name sim_nodes sim_data) + unat (sizeof_BDS_LOAD_OPTION sim_var_env) \<le> AvailOf sim_view (BdsWorld s2) \<Longrightarrow>
      \<exists>Opt2 s3. BootOptionFromLoadOptionIndex sim_var_env (LoadOptionIndex Opt1) s2 = Ret ((EFI_SUCCESS, Some Opt2), s3) \<and>
         LoadOptionIndex Opt2 = LoadOptionIndex Opt1 \<and> describes sim_var_env (BdsMem s3) Opt2 1 sim_name sim_nodes sim_data"
    using load_option_roundtrip [OF sim_option_services sim_describes sim_option_facts(1-5,7-9)] by blast
  have "length (packed 1 sim_name sim_nodes sim_data) + unat (sizeof_BDS_LOAD_OPTION sim_var_env) \<le> 0x10000"
    using sim_option_facts(7) by (simp add: sim_var_env_def length_packed sim_option_defs)
  then show ?thesis
    using run later [of "s1\<lparr>BdsWorld := (BdsWorld s1)\<lparr>SimPool := 0\<rparr>\<rparr>"]
    by (simp add: sim_view_def pool_at_def sim_units_def sim_vars_def fun_eq_iff)
qed

end
