(* ===== verification/BdsPath.thy ===== *)
theory BdsPath
  imports BdsOption
begin

text \<open>
  Boot devices of the boot device selection library: connecting a device path and finding removable
  devices on the way (\<open>BdsFilePath.c\<close>, \<open>BdsHelper.c\<close>), and finding applications in firmware volumes
  (\<open>BdsAppLoader.c\<close>). A device path is only read here; it is the list of its nodes before the end
  node. Handles are words, \<open>NULL\<close> is 0, and \<open>None\<close> is an output that was not written.
\<close>

section \<open>Device paths\<close>

record DevNode =
  NodeType :: u8
  NodeSubType :: u8
  NodeData :: "u8 list"

type_synonym dev_path = "DevNode list"

definition HARDWARE_DEVICE_PATH :: u8 where "HARDWARE_DEVICE_PATH = 1"
definition HW_MEMMAP_DP :: u8 where "HW_MEMMAP_DP = 3"
definition MESSAGING_DEVICE_PATH :: u8 where "MESSAGING_DEVICE_PATH = 3"
definition MSG_IPv4_DP :: u8 where "MSG_IPv4_DP = 12"
definition MSG_IPv6_DP :: u8 where "MSG_IPv6_DP = 13"
definition MSG_USB_CLASS_DP :: u8 where "MSG_USB_CLASS_DP = 15"
definition MSG_USB_WWID_DP :: u8 where "MSG_USB_WWID_DP = 16"
definition MEDIA_DEVICE_PATH :: u8 where "MEDIA_DEVICE_PATH = 4"
definition MEDIA_HARDDRIVE_DP :: u8 where "MEDIA_HARDDRIVE_DP = 1"
definition MEDIA_FILEPATH_DP :: u8 where "MEDIA_FILEPATH_DP = 4"
definition MEDIA_PIWG_FW_FILE_DP :: u8 where "MEDIA_PIWG_FW_FILE_DP = 6"

lemmas device_path_types = HARDWARE_DEVICE_PATH_def HW_MEMMAP_DP_def MESSAGING_DEVICE_PATH_def MSG_IPv4_DP_def MSG_IPv6_DP_def
  MSG_USB_CLASS_DP_def MSG_USB_WWID_DP_def MEDIA_DEVICE_PATH_def MEDIA_HARDDRIVE_DP_def MEDIA_FILEPATH_DP_def MEDIA_PIWG_FW_FILE_DP_def

definition node_types :: "dev_path \<Rightarrow> u8 \<times> u8" where
  "node_types p = (case p of [] \<Rightarrow> (0x7F, 0xFF) | n # _ \<Rightarrow> (NodeType n, NodeSubType n))"

definition IsDevicePathEnd :: "dev_path \<Rightarrow> bool" where "IsDevicePathEnd p \<longleftrightarrow> node_types p = (0x7F, 0xFF)"

definition IS_DEVICE_PATH_NODE :: "dev_path \<Rightarrow> u8 \<Rightarrow> u8 \<Rightarrow> bool" where
  "IS_DEVICE_PATH_NODE p t s \<longleftrightarrow> node_types p = (t, s)"

text \<open>The bytes from a node on; \<open>window\<close> gives some of them, and nothing when they go beyond the path.\<close>

definition node_length :: "DevNode \<Rightarrow> nat" where "node_length n = 4 + length (NodeData n)"

definition path_bytes :: "dev_path \<Rightarrow> u8 list" where
  "path_bytes p = concat (map (\<lambda>n. [NodeType n, NodeSubType n] @ le_bytes 2 (of_nat (node_length n) :: u16) @ NodeData n) p) @ end_node"

definition window :: "nat \<Rightarrow> nat \<Rightarrow> dev_path \<Rightarrow> u8 list option" where
  "window k n p = (if k + n \<le> length (path_bytes p) then Some (take n (drop k (path_bytes p))) else None)"

text \<open>Extracting the file path: the part of the text after a number of separators.\<close>

fun extract_loop :: "CHAR16s \<Rightarrow> u64 \<Rightarrow> u64 \<Rightarrow> CHAR16s" where
  "extract_loop [] Node Number = []"
| "extract_loop (c # cs) Node Number =
     (if Node < Number then extract_loop cs (if c = 0x2F \<or> c = 0x5C then Node + 1 else Node) Number else c # cs)"

definition BdsExtractFilePathFromDevicePath :: "CHAR16s \<Rightarrow> u64 \<Rightarrow> CHAR16s option" where
  "BdsExtractFilePathFromDevicePath Str Number = (case extract_loop Str 0 Number of [] \<Rightarrow> None | s \<Rightarrow> Some s)"

section \<open>Services\<close>

datatype protocol = UsbIo | DiskIo | SimpleFileSystem | FirmwareVolume2 | LoadFileProtocol | PxeBaseCode | LoadedImage
  | Dhcp4ServiceBinding | Dhcp4Protocol | Mtftp4ServiceBinding | Mtftp4Protocol

text \<open>
  The boot and DXE services, the device path library, and the firmware volumes by the handle they are
  on. \<open>HandleProtocol\<close> is \<open>PathOfHandle\<close> for device paths. A file of a volume has a GUID of 16
  bytes; \<open>NextFile\<close> takes the key of the search and gives the next one; \<open>NameSection\<close> reads the user
  interface section.
\<close>

record 'w PathEnv =
  LocateDevicePath :: "dev_path \<Rightarrow> 'w \<Rightarrow> (EFI_STATUS \<times> u64 \<times> dev_path) \<times> 'w"
  Dispatch :: "'w \<Rightarrow> EFI_STATUS \<times> 'w"
  ConnectController :: "u64 \<Rightarrow> dev_path option \<Rightarrow> bool \<Rightarrow> 'w \<Rightarrow> EFI_STATUS \<times> 'w"
  LocateHandleBuffer :: "protocol option \<Rightarrow> 'w \<Rightarrow> (EFI_STATUS \<times> u64 list) \<times> 'w"
  PathOfHandle :: "u64 \<Rightarrow> 'w \<Rightarrow> (EFI_STATUS \<times> dev_path) \<times> 'w"
  HandleProtocol :: "protocol \<Rightarrow> u64 \<Rightarrow> 'w \<Rightarrow> EFI_STATUS \<times> 'w"
  AppendDevicePath :: "dev_path \<Rightarrow> dev_path \<Rightarrow> 'w \<Rightarrow> dev_path option \<times> 'w"
  AppendDevicePathNode :: "dev_path \<Rightarrow> DevNode \<Rightarrow> 'w \<Rightarrow> dev_path option \<times> 'w"
  FileDevicePath :: "u64 \<Rightarrow> CHAR16s \<Rightarrow> 'w \<Rightarrow> dev_path option \<times> 'w"
  PoolAllocate :: "u64 \<Rightarrow> 'w \<Rightarrow> bool \<times> 'w"
  PoolFree :: "'w \<Rightarrow> unit \<times> 'w"
  KeySize :: "u64 \<Rightarrow> u64"
  NextFile :: "u64 \<Rightarrow> u8 list \<Rightarrow> 'w \<Rightarrow> (EFI_STATUS \<times> u8 list \<times> u8 list) \<times> 'w"
  NameSection :: "u64 \<Rightarrow> u8 list \<Rightarrow> 'w \<Rightarrow> (EFI_STATUS \<times> CHAR16s) \<times> 'w"
  FileExists :: "u64 \<Rightarrow> u8 list \<Rightarrow> 'w \<Rightarrow> EFI_STATUS \<times> 'w"

section \<open>Connecting everything\<close>

primrec connect_handles :: "'w PathEnv \<Rightarrow> u64 list \<Rightarrow> ('w, unit) bds" where
  "connect_handles E [] = ret ()"
| "connect_handles E (h # hs) = bindM (service (ConnectController E h None True)) (\<lambda>_. connect_handles E hs)"

text \<open>The loop goes on as long as drivers are dispatched; the first argument bounds its rounds.\<close>

primrec BdsConnectAllDrivers :: "nat \<Rightarrow> 'w PathEnv \<Rightarrow> ('w, EFI_STATUS) bds" where
  "BdsConnectAllDrivers 0 E = stopM OutOfFuel"
| "BdsConnectAllDrivers (Suc n) E =
     bindM (service (LocateHandleBuffer E None)) (\<lambda>(Status, HandleBuffer).
     if EFI_ERROR Status then ret EFI_SUCCESS
     else
       bindM (connect_handles E HandleBuffer) (\<lambda>_.
       bindM (service (PoolFree E)) (\<lambda>_.
       bindM (service (Dispatch E)) (\<lambda>Status.
       if EFI_ERROR Status then ret EFI_SUCCESS else BdsConnectAllDrivers n E))))"

section \<open>Removable devices\<close>

definition BdsIsRemovableUsb :: "dev_path \<Rightarrow> bool" where
  "BdsIsRemovableUsb p \<longleftrightarrow> fst (node_types p) = MESSAGING_DEVICE_PATH \<and>
     (snd (node_types p) = MSG_USB_CLASS_DP \<or> snd (node_types p) = MSG_USB_WWID_DP)"

definition BdsIsRemovableHd :: "dev_path \<Rightarrow> bool" where
  "BdsIsRemovableHd p \<longleftrightarrow> IS_DEVICE_PATH_NODE p MEDIA_DEVICE_PATH MEDIA_HARDDRIVE_DP"

text \<open>
  Fields are compared one after the other until two differ: their offset and size, and whether a value
  of all ones in the first node, the wild card, counts as different. \<open>None\<close>: a field outside of the path.
\<close>

primrec same_fields :: "(bool \<times> nat \<times> nat) list \<Rightarrow> dev_path \<Rightarrow> dev_path \<Rightarrow> bool option" where
  "same_fields [] p q = Some True"
| "same_fields (f # fs) p q = (case f of (wild, k, n) \<Rightarrow>
     (case window k n p of None \<Rightarrow> None
      | Some a \<Rightarrow> if wild \<and> a = replicate n 0xFF then Some False
          else case window k n q of None \<Rightarrow> None
            | Some b \<Rightarrow> if a = b then same_fields fs p q else Some False))"

text \<open>
  \<open>USB_WWID_DEVICE_PATH\<close>: vendor at 6, product at 8, the serial number from 10 to the end of the first
  node. \<open>USB_CLASS_DEVICE_PATH\<close>: vendor at 4, product at 6, class, subclass and protocol at 8 to 10. The
  subtype of the second node decides how both are read. \<open>HARDDRIVE_DEVICE_PATH\<close>: partition number at
  4, signature at 24, signature type at 41.
\<close>

definition usb_match :: "dev_path \<Rightarrow> dev_path \<Rightarrow> bool option" where
  "usb_match p q =
     (if \<not> BdsIsRemovableUsb q then Some False
      else if snd (node_types q) = MSG_USB_WWID_DP then
        same_fields [(False, 6, 2), (False, 8, 2), (False, 10, unat (of_nat (node_length (hd p)) - 10 :: u64))] p q
      else same_fields [(True, 4, 2), (True, 6, 2), (True, 8, 1), (True, 9, 1), (True, 10, 1)] p q)"

definition hd_match :: "dev_path \<Rightarrow> dev_path \<Rightarrow> bool option" where
  "hd_match p q = (if \<not> BdsIsRemovableHd q then Some False else same_fields [(False, 41, 1), (False, 24, 16), (False, 4, 4)] p q)"

text \<open>The loop over the nodes of the path of a handle.\<close>

primrec match_nodes :: "(dev_path \<Rightarrow> bool option) \<Rightarrow> dev_path \<Rightarrow> bool option" where
  "match_nodes test [] = Some False"
| "match_nodes test (n # p) =
     (if IsDevicePathEnd (n # p) then Some False
      else case test (n # p) of Some False \<Rightarrow> match_nodes test p | r \<Rightarrow> r)"

text \<open>The loop over the handles. The buffer of handles is never freed.\<close>

primrec find_device ::
    "'w PathEnv \<Rightarrow> (dev_path \<Rightarrow> bool option) \<Rightarrow> dev_path \<Rightarrow> u64 list \<Rightarrow> ('w, EFI_STATUS \<times> (u64 \<times> dev_path option) option) bds" where
  "find_device E test Removable [] = ret (EFI_NOT_FOUND, None)"
| "find_device E test Removable (h # hs) =
     bindM (service (PathOfHandle E h)) (\<lambda>(Status, p).
     if EFI_ERROR Status then find_device E test Removable hs
     else case match_nodes test p of
       None \<Rightarrow> stopM OutOfBounds
     | Some True \<Rightarrow>
         bindM (service (AppendDevicePath E p (tl Removable))) (\<lambda>New. ret (EFI_SUCCESS, Some (h, New)))
     | Some False \<Rightarrow> find_device E test Removable hs)"

definition get_device ::
    "'w PathEnv \<Rightarrow> protocol \<Rightarrow> (dev_path \<Rightarrow> bool option) \<Rightarrow> dev_path \<Rightarrow>
     ('w, EFI_STATUS \<times> (u64 \<times> dev_path option) option) bds" where
  "get_device E prot test Removable =
     bindM (service (LocateHandleBuffer E (Some prot))) (\<lambda>(Status, handles).
     if EFI_ERROR Status \<or> handles = [] then ret (Status, None) else find_device E test Removable handles)"

definition BdsGetDeviceUsb :: "'w PathEnv \<Rightarrow> dev_path \<Rightarrow> ('w, EFI_STATUS \<times> (u64 \<times> dev_path option) option) bds" where
  "BdsGetDeviceUsb E Removable = get_device E UsbIo (usb_match Removable) Removable"

definition BdsGetDeviceHd :: "'w PathEnv \<Rightarrow> dev_path \<Rightarrow> ('w, EFI_STATUS \<times> (u64 \<times> dev_path option) option) bds" where
  "BdsGetDeviceHd E Removable = get_device E DiskIo (hd_match Removable) Removable"

datatype removable = RemovableUsb | RemovableHd

text \<open>\<open>RemovableDeviceSupport\<close>: the first kind whose test holds.\<close>

definition removable_kind :: "dev_path \<Rightarrow> removable option" where
  "removable_kind p = (if BdsIsRemovableUsb p then Some RemovableUsb else if BdsIsRemovableHd p then Some RemovableHd else None)"

text \<open>The first removable node of a path, with its kind.\<close>

primrec first_removable :: "dev_path \<Rightarrow> (removable \<times> dev_path) option" where
  "first_removable [] = None"
| "first_removable (n # p) =
     (if IsDevicePathEnd (n # p) then None
      else case removable_kind (n # p) of Some k \<Rightarrow> Some (k, n # p) | None \<Rightarrow> first_removable p)"

definition IsRemovableDevice :: "dev_path \<Rightarrow> bool" where "IsRemovableDevice p \<longleftrightarrow> first_removable p \<noteq> None"

definition GetDevice ::
    "'w PathEnv \<Rightarrow> removable \<Rightarrow> dev_path \<Rightarrow> ('w, EFI_STATUS \<times> (u64 \<times> dev_path option) option) bds" where
  "GetDevice E kind p = (case kind of RemovableUsb \<Rightarrow> BdsGetDeviceUsb E p | RemovableHd \<Rightarrow> BdsGetDeviceHd E p)"

definition TryRemovableDevice ::
    "nat \<Rightarrow> 'w PathEnv \<Rightarrow> dev_path \<Rightarrow> ('w, EFI_STATUS \<times> (u64 \<times> dev_path option) option) bds" where
  "TryRemovableDevice fuel E DevicePath =
     (case first_removable DevicePath of
        None \<Rightarrow> ret (EFI_NOT_FOUND, None)
      | Some (kind, Removable) \<Rightarrow>
          bindM (GetDevice E kind Removable) (\<lambda>(Status, out).
          if Status = EFI_NOT_FOUND then
            bindM (BdsConnectAllDrivers fuel E) (\<lambda>_. GetDevice E kind Removable)
          else ret (Status, out)))"

section \<open>Connecting a device path\<close>

text \<open>
  The loop that connects the devices of a path one after the other: the status at its end, the handle
  as far as it was written, and what remains of the path.
\<close>

primrec connect_loop ::
    "nat \<Rightarrow> 'w PathEnv \<Rightarrow> dev_path \<Rightarrow> u64 \<Rightarrow> u64 option \<Rightarrow> ('w, EFI_STATUS \<times> u64 option \<times> dev_path) bds" where
  "connect_loop 0 E DevicePath PreviousHandle Handle = stopM OutOfFuel"
| "connect_loop (Suc n) E DevicePath PreviousHandle Handle =
     bindM (service (LocateDevicePath E DevicePath)) (\<lambda>(Status, h, Remaining).
     if EFI_ERROR Status then ret (Status, Handle, DevicePath)
     else
       bindM (if h = PreviousHandle then service (Dispatch E) else ret Status) (\<lambda>Status.
       if EFI_ERROR Status then ret (Status, Some h, Remaining)
       else
         bindM (service (ConnectController E h (Some Remaining) False)) (\<lambda>Status.
         if \<not> EFI_ERROR Status \<and> \<not> IsDevicePathEnd Remaining then connect_loop n E DevicePath h (Some h)
         else ret (Status, Some h, Remaining))))"

text \<open>The whole path is connected: once more, so that all drivers of the last device are.\<close>

definition connect_last ::
    "'w PathEnv \<Rightarrow> dev_path \<Rightarrow> u64 option \<Rightarrow> ('w, EFI_STATUS \<times> u64 option \<times> dev_path) bds" where
  "connect_last E DevicePath Handle =
     bindM (service (LocateDevicePath E DevicePath)) (\<lambda>(Status, h, Remaining).
     if EFI_ERROR Status then ret (Status, Handle, DevicePath)
     else
       bindM (service (ConnectController E h (Some Remaining) False)) (\<lambda>Status.
       ret (if EFI_ERROR Status \<and> IS_DEVICE_PATH_NODE Remaining HARDWARE_DEVICE_PATH HW_MEMMAP_DP then EFI_SUCCESS else Status,
         Some h, Remaining)))"

text \<open>
  \<open>DevicePath\<close> is \<open>None\<close> when the path or the pointer to it is \<open>NULL\<close>; \<open>HandleGiven\<close>: the caller
  passes a place for the handle. The result is the status, the path, the handle and the remaining path.
  The first argument bounds the nesting, the second each loop.
\<close>

primrec BdsConnectAndUpdateDevicePath ::
    "nat \<Rightarrow> nat \<Rightarrow> 'w PathEnv \<Rightarrow> dev_path option \<Rightarrow> bool \<Rightarrow> u64 option \<Rightarrow>
     ('w, EFI_STATUS \<times> dev_path option \<times> u64 option \<times> dev_path option) bds" where
  "BdsConnectAndUpdateDevicePath 0 fuel E DevicePath HandleGiven Handle = stopM OutOfFuel"
| "BdsConnectAndUpdateDevicePath (Suc n) fuel E DevicePath HandleGiven Handle =
     (case DevicePath of
        None \<Rightarrow> ret (EFI_INVALID_PARAMETER, DevicePath, Handle, None)
      | Some p \<Rightarrow>
          if \<not> HandleGiven then ret (EFI_INVALID_PARAMETER, DevicePath, Handle, None)
          else
            bindM (connect_loop fuel E p 0 Handle) (\<lambda>(Status, Handle, Remaining).
            if \<not> EFI_ERROR Status then
              bindM (connect_last E p Handle) (\<lambda>(Status, Handle, Remaining). ret (Status, DevicePath, Handle, Some Remaining))
            else if \<not> IsDevicePathEnd Remaining \<and> \<not> IsRemovableDevice Remaining then
              ret (EFI_SUCCESS, DevicePath, Handle, Some Remaining)
            else
              bindM (TryRemovableDevice fuel E p) (\<lambda>(Status, out).
              if EFI_ERROR Status then ret (Status, DevicePath, Handle, Some Remaining)
              else case out of
                None \<Rightarrow> stopM UninitializedRead
              | Some (h, New) \<Rightarrow>
                  BdsConnectAndUpdateDevicePath n fuel E New True (Some h))))"

definition BdsConnectDevicePath ::
    "nat \<Rightarrow> nat \<Rightarrow> 'w PathEnv \<Rightarrow> dev_path option \<Rightarrow> bool \<Rightarrow> ('w, EFI_STATUS \<times> u64 option \<times> dev_path option) bds" where
  "BdsConnectDevicePath depth fuel E DevicePath HandleGiven =
     bindM (BdsConnectAndUpdateDevicePath depth fuel E DevicePath HandleGiven None) (\<lambda>(Status, _, Handle, Remaining).
     ret (Status, Handle, Remaining))"

section \<open>Applications in firmware volumes\<close>

definition fv_file_node :: "u8 list \<Rightarrow> DevNode" where
  "fv_file_node guid = \<lparr>NodeType = MEDIA_DEVICE_PATH, NodeSubType = MEDIA_PIWG_FW_FILE_DP, NodeData = guid\<rparr>"

text \<open>The path of a file of the volume on a handle; the status of \<open>HandleProtocol\<close> decides whether there is one.\<close>

definition append_fv_file :: "'w PathEnv \<Rightarrow> EFI_STATUS \<times> dev_path \<Rightarrow> u8 list \<Rightarrow> ('w, dev_path) bds" where
  "append_fv_file E fv guid =
     (case fv of (Status, FvDevicePath) \<Rightarrow>
        if EFI_ERROR Status then stopM UninitializedRead
        else
          bindM (service (AppendDevicePathNode E FvDevicePath (fv_file_node guid))) (\<lambda>p.
          bindM (ASSERT (p \<noteq> None)) (\<lambda>_. ret (the p))))"

text \<open>The search through the files of a volume: the status of a match and the path, or nothing.\<close>

primrec files_loop ::
    "nat \<Rightarrow> 'w PathEnv \<Rightarrow> CHAR16s \<Rightarrow> u64 \<Rightarrow> u8 list \<Rightarrow> ('w, (EFI_STATUS \<times> dev_path) option) bds" where
  "files_loop 0 E EfiAppName h Key = stopM OutOfFuel"
| "files_loop (Suc n) E EfiAppName h Key =
     bindM (service (NextFile E h Key)) (\<lambda>(Status, Key, NameGuid).
     if EFI_ERROR Status then ret None
     else
       bindM (service (NameSection E h NameGuid)) (\<lambda>(FileStatus, UiSection).
       if EFI_ERROR FileStatus then files_loop n E EfiAppName h Key
       else if take (length EfiAppName) UiSection = EfiAppName then
         bindM (service (PathOfHandle E h)) (\<lambda>fv.
         bindM (append_fv_file E fv NameGuid) (\<lambda>p.
         bindM (service (PoolFree E)) (\<lambda>_.
         bindM (service (PoolFree E)) (\<lambda>_.
         bindM (service (PoolFree E)) (\<lambda>_. ret (Some (FileStatus, p)))))))
       else bindM (service (PoolFree E)) (\<lambda>_. files_loop n E EfiAppName h Key)))"

primrec volumes_by_name :: "nat \<Rightarrow> 'w PathEnv \<Rightarrow> CHAR16s \<Rightarrow> u64 list \<Rightarrow> ('w, EFI_STATUS \<times> dev_path option) bds" where
  "volumes_by_name fuel E EfiAppName [] = bindM (service (PoolFree E)) (\<lambda>_. ret (EFI_NOT_FOUND, None))"
| "volumes_by_name fuel E EfiAppName (h # hs) =
     bindM (service (HandleProtocol E FirmwareVolume2 h)) (\<lambda>Status.
     if EFI_ERROR Status then bindM (service (PoolFree E)) (\<lambda>_. ret (EFI_NOT_FOUND, None))
     else
       bindM (service (PoolAllocate E (KeySize E h))) (\<lambda>Key.
       bindM (ASSERT Key) (\<lambda>_.
       bindM (files_loop fuel E EfiAppName h (replicate (unat (KeySize E h)) 0)) (\<lambda>found.
       case found of
         Some (FileStatus, p) \<Rightarrow> ret (FileStatus, Some p)
       | None \<Rightarrow> bindM (service (PoolFree E)) (\<lambda>_. volumes_by_name fuel E EfiAppName hs)))))"

text \<open>The status and \<open>*DevicePath\<close>, which is not written when there are no volumes.\<close>

definition LocateEfiApplicationInFvByName ::
    "nat \<Rightarrow> 'w PathEnv \<Rightarrow> CHAR16s \<Rightarrow> ('w, EFI_STATUS \<times> dev_path option) bds" where
  "LocateEfiApplicationInFvByName fuel E EfiAppName =
     bindM (service (LocateHandleBuffer E (Some FirmwareVolume2))) (\<lambda>(Status, handles).
     if EFI_ERROR Status then ret (Status, None) else volumes_by_name fuel E EfiAppName handles)"

primrec volumes_by_guid :: "'w PathEnv \<Rightarrow> u8 list \<Rightarrow> u64 list \<Rightarrow> ('w, dev_path option) bds" where
  "volumes_by_guid E guid [] = ret None"
| "volumes_by_guid E guid (h # hs) =
     bindM (service (HandleProtocol E FirmwareVolume2 h)) (\<lambda>Status.
     if EFI_ERROR Status then ret None
     else
       bindM (service (FileExists E h guid)) (\<lambda>Status.
       if EFI_ERROR Status then volumes_by_guid E guid hs
       else
         bindM (service (NameSection E h guid)) (\<lambda>(Status, UiSection).
         if \<not> EFI_ERROR Status then service (FileDevicePath E h UiSection)
         else
           bindM (service (PathOfHandle E h)) (\<lambda>fv.
           bindM (ASSERT (\<not> EFI_ERROR (fst fv))) (\<lambda>_.
           bindM (append_fv_file E fv guid) (\<lambda>p. ret (Some p)))))))"

definition LocateEfiApplicationInFvByGuid ::
    "'w PathEnv \<Rightarrow> u8 list \<Rightarrow> ('w, EFI_STATUS \<times> dev_path option) bds" where
  "LocateEfiApplicationInFvByGuid E guid =
     bindM (service (LocateHandleBuffer E (Some FirmwareVolume2))) (\<lambda>(Status, handles).
     if EFI_ERROR Status then ret (Status, None)
     else
       bindM (volumes_by_guid E guid handles) (\<lambda>p.
       bindM (service (PoolFree E)) (\<lambda>_.
       ret (if p = None then EFI_NOT_FOUND else EFI_SUCCESS, p))))"

end
