(* ===== verification/BdsPathSpec.thy ===== *)
theory BdsPathSpec
  imports BdsPath
begin

text \<open>
  What connecting a device path and finding applications in firmware volumes promise: the loops end
  when the platform makes progress only finitely often, and the search finds the first file with a name.
\<close>

section \<open>The loop over the devices of a path\<close>

text \<open>
  For one path, what a state of the world says: the handle nearest to its end, the length of the rest
  behind it, and the number of drivers that can still be dispatched. Connecting and dispatching only
  bring devices nearer, a dispatch that reports success has used up a driver.
\<close>

record 'w PathView =
  Nearest :: "'w \<Rightarrow> u64"
  RestLength :: "'w \<Rightarrow> nat"
  Pending :: "'w \<Rightarrow> nat"

definition nearer :: "'w PathView \<Rightarrow> 'w \<Rightarrow> 'w \<Rightarrow> bool" where
  "nearer V w w' \<longleftrightarrow> RestLength V w' \<le> RestLength V w \<and> (Nearest V w' = Nearest V w \<or> RestLength V w' < RestLength V w)"

definition makes_progress :: "'w PathEnv \<Rightarrow> dev_path \<Rightarrow> 'w PathView \<Rightarrow> bool" where
  "makes_progress E p V \<longleftrightarrow>
     (\<forall>w st h r w'. LocateDevicePath E p w = ((st, h, r), w') \<longrightarrow>
        Nearest V w' = Nearest V w \<and> RestLength V w' = RestLength V w \<and> Pending V w' = Pending V w \<and>
        (\<not> EFI_ERROR st \<longrightarrow> h = Nearest V w)) \<and>
     (\<forall>w st w'. Dispatch E w = (st, w') \<longrightarrow> nearer V w w' \<and> (\<not> EFI_ERROR st \<longrightarrow> Pending V w' < Pending V w)) \<and>
     (\<forall>h r b w st w'. ConnectController E h r b w = (st, w') \<longrightarrow> nearer V w w' \<and> Pending V w' \<le> Pending V w)"

lemma nearer_trans: "nearer V w w' \<Longrightarrow> nearer V w' w'' \<Longrightarrow> nearer V w w''"
  by (auto simp: nearer_def)

lemma nearer_step:
  assumes "nearer V w w'" and "Pending V w' + a \<le> Pending V w"
  shows "RestLength V w' + Pending V w' + (if Nearest V w' = Nearest V w then 0 else 1) + a \<le> RestLength V w + Pending V w"
  using assms by (auto simp: nearer_def)

lemma connect_loop_ends:
  assumes E: "makes_progress E p V"
    and "RestLength V (BdsWorld s) + Pending V (BdsWorld s) + (if Nearest V (BdsWorld s) = Previous then 0 else 1) < fuel"
  shows "\<exists>x. connect_loop fuel E p Previous H s = Ret x"
  using assms(2)
proof (induction fuel arbitrary: Previous H s)
  case (Suc n)
  let ?w = "BdsWorld s"
  obtain st h r w1 where loc: "LocateDevicePath E p ?w = ((st, h, r), w1)" by (metis prod.exhaust)
  then have v1: "Nearest V w1 = Nearest V ?w" "RestLength V w1 = RestLength V ?w" "Pending V w1 = Pending V ?w"
      "\<not> EFI_ERROR st \<Longrightarrow> h = Nearest V ?w"
    using E by (auto simp: makes_progress_def)
  obtain st2 w2 where disp: "Dispatch E w1 = (st2, w2)" by (metis prod.exhaust)
  let ?w2 = "if h = Previous then w2 else w1" and ?st2 = "if h = Previous then st2 else st"
  have v2: "nearer V w1 ?w2" "\<not> EFI_ERROR ?st2 \<Longrightarrow> Pending V ?w2 + (if h = Previous then 1 else 0) \<le> Pending V w1"
    using E disp by (auto simp: makes_progress_def nearer_def Suc_le_eq)
  obtain st3 w3 where conn: "ConnectController E h (Some r) False ?w2 = (st3, w3)" by (metis prod.exhaust)
  have v3: "nearer V ?w2 w3" "Pending V w3 \<le> Pending V ?w2"
    using E conn by (auto simp: makes_progress_def)
  let ?s3 = "s\<lparr>BdsWorld := w3\<rparr>"
  have again: "\<exists>x. connect_loop n E p h (Some h) ?s3 = Ret x" if "\<not> EFI_ERROR st" "\<not> EFI_ERROR ?st2"
  proof (rule Suc.IH)
    have h: "h = Nearest V w1" using v1 that(1) by simp
    have "Pending V w3 + (if h = Previous then 1 else 0) \<le> Pending V w1"
      using v2(2) [OF that(2)] v3(2) by linarith
    from nearer_step [OF nearer_trans [OF v2(1) v3(1)] this]
    have "RestLength V w3 + Pending V w3 + (if Nearest V w3 = h then 0 else 1) + (if h = Previous then 1 else 0)
        \<le> RestLength V w1 + Pending V w1" by (simp only: h)
    then show "RestLength V (BdsWorld ?s3) + Pending V (BdsWorld ?s3) + (if Nearest V (BdsWorld ?s3) = h then 0 else 1) < n"
      using Suc.prems v1 h by (auto split: if_splits)
  qed
  show ?case
    using loc disp conn again
    by (auto simp: bindM_def service_def ret_def split: if_splits)
qed simp

text \<open>A handle and a rest of the path that \<open>LocateDevicePath\<close> has reported for it.\<close>

definition located :: "'w PathEnv \<Rightarrow> dev_path \<Rightarrow> u64 \<Rightarrow> dev_path \<Rightarrow> bool" where
  "located E p h r \<longleftrightarrow> (\<exists>w st w'. LocateDevicePath E p w = ((st, h, r), w') \<and> \<not> EFI_ERROR st)"

definition found_at_first :: "'w PathEnv \<Rightarrow> dev_path \<Rightarrow> 'w BdsState \<Rightarrow> bool" where
  "found_at_first E p s \<longleftrightarrow> \<not> EFI_ERROR (fst (fst (LocateDevicePath E p (BdsWorld s))))"

text \<open>The handle is one that was located, the rest of the path the one behind it, or the whole path
  when the device was no longer found afterwards.\<close>

definition reached :: "'w PathEnv \<Rightarrow> dev_path \<Rightarrow> u64 \<Rightarrow> dev_path \<Rightarrow> bool" where
  "reached E p h r \<longleftrightarrow> located E p h r \<or> r = p \<and> (\<exists>r'. located E p h r')"

lemma connect_loop_Ret:
  assumes "connect_loop fuel E p Previous H s = Ret ((st, h, r), s')"
  shows "if found_at_first E p s
    then (\<exists>k. h = Some k \<and> reached E p k r) \<and> (EFI_ERROR st \<or> IsDevicePathEnd r)
    else h = H \<and> r = p \<and> EFI_ERROR st"
  using assms
proof (induction fuel arbitrary: Previous H s)
  case (Suc n)
  obtain st1 k r1 w1 where loc: "LocateDevicePath E p (BdsWorld s) = ((st1, k, r1), w1)" by (metis prod.exhaust)
  show ?case
  proof (cases "EFI_ERROR st1")
    case True
    with Suc.prems loc show ?thesis by (auto simp: found_at_first_def bindM_def service_def ret_def)
  next
    case False
    then have k: "located E p k r1" using loc by (auto simp: located_def)
    then have ends: ?thesis if "h = Some k" "r = r1" "EFI_ERROR st \<or> IsDevicePathEnd r1"
      using that False loc by (auto simp: found_at_first_def reached_def)
    have again: ?thesis if "connect_loop n E p k (Some k) t = Ret ((st, h, r), s')" for t
      using Suc.IH [OF that] False loc k
      by (auto simp: found_at_first_def reached_def split: if_splits)
    have "(h = Some k \<and> r = r1 \<and> (EFI_ERROR st \<or> IsDevicePathEnd r1)) \<or>
        (\<exists>t. connect_loop n E p k (Some k) t = Ret ((st, h, r), s'))"
      using Suc.prems False loc
      by (auto simp: bindM_def service_def ret_def split: if_splits prod.splits outcome.splits)
    then show ?thesis using ends again by blast
  qed
qed (simp add: stopM_def)

text \<open>
  Property C26. Connecting a device path without removable devices ends, on every platform where
  connecting only brings devices nearer and only finitely many drivers can be dispatched. When a device
  of the path is found at the start, it reports a handle, one located for this path, with the remaining
  path behind it (or the whole path, when the last location failed); when none is found it writes no
  handle, leaves the whole path, and reports success all the same, unless the path is empty.
\<close>
theorem ConnectDevicePath_ends:
  assumes E: "makes_progress E p V" and fixed: "\<not> IsRemovableDevice p"
    and fuel: "RestLength V (BdsWorld s) + Pending V (BdsWorld s) + 1 < fuel"
  shows "\<exists>st h r s'. BdsConnectDevicePath (Suc n) fuel E (Some p) True s = Ret ((st, h, Some r), s') \<and>
    (if found_at_first E p s then \<exists>k. h = Some k \<and> reached E p k r
     else h = None \<and> r = p \<and> st = (if IsDevicePathEnd p then EFI_NOT_FOUND else EFI_SUCCESS))"
proof -
  have "\<exists>x. connect_loop fuel E p 0 None s = Ret x"
    using fuel by (intro connect_loop_ends [OF E]) simp
  then obtain st h r s1 where loop: "connect_loop fuel E p 0 None s = Ret ((st, h, r), s1)"
    by (metis prod.exhaust)
  have "first_removable p = None"
    using fixed by (cases "first_removable p") (auto simp: IsRemovableDevice_def)
  then have none: "TryRemovableDevice fuel E p = ret (EFI_NOT_FOUND, None)"
    by (simp add: TryRemovableDevice_def)
  obtain st2 h2 r2 w2 where last: "LocateDevicePath E p (BdsWorld s1) = ((st2, h2, r2), w2)" by (metis prod.exhaust)
  then have "\<not> EFI_ERROR st2 \<Longrightarrow> located E p h2 r2" by (auto simp: located_def)
  moreover obtain st3 w3 where "ConnectController E h2 (Some r2) False w2 = (st3, w3)" by (metis prod.exhaust)
  ultimately show ?thesis
    using loop none last connect_loop_Ret [OF loop] fixed
    by (auto simp: BdsConnectDevicePath_def connect_last_def bindM_def service_def ret_def reached_def split: if_splits)
qed

text \<open>The drivers of a platform run out.\<close>

definition drivers_run_out :: "'w PathEnv \<Rightarrow> ('w \<Rightarrow> nat) \<Rightarrow> bool" where
  "drivers_run_out E pending \<longleftrightarrow>
     (\<forall>f w. pending (snd (LocateHandleBuffer E f w)) \<le> pending w) \<and> (\<forall>w. pending (snd (PoolFree E w)) \<le> pending w) \<and>
     (\<forall>h r b w. pending (snd (ConnectController E h r b w)) \<le> pending w) \<and>
     (\<forall>w st w'. Dispatch E w = (st, w') \<and> \<not> EFI_ERROR st \<longrightarrow> pending w' < pending w)"

lemma connect_handles_run:
  assumes "drivers_run_out E pending"
  shows "\<exists>s'. connect_handles E hs s = Ret ((), s') \<and> pending (BdsWorld s') \<le> pending (BdsWorld s)"
proof (induction hs arbitrary: s)
  case (Cons h hs)
  obtain st w where c: "ConnectController E h None True (BdsWorld s) = (st, w)" by (metis prod.exhaust)
  then have "pending w \<le> pending (BdsWorld s)" using assms by (auto simp: drivers_run_out_def dest: spec) (metis snd_conv)
  moreover obtain s' where "connect_handles E hs (s\<lparr>BdsWorld := w\<rparr>) = Ret ((), s')" "pending (BdsWorld s') \<le> pending w"
    using Cons.IH [of "s\<lparr>BdsWorld := w\<rparr>"] by auto
  ultimately show ?case using c by (auto simp: bindM_def service_def)
qed (simp add: ret_def)

lemma ConnectAllDrivers_ends:
  assumes E: "drivers_run_out E pending" and "pending (BdsWorld s) < fuel"
  shows "\<exists>s'. BdsConnectAllDrivers fuel E s = Ret (EFI_SUCCESS, s')"
  using assms(2)
proof (induction fuel arbitrary: s)
  case (Suc n)
  obtain st hs w1 where loc: "LocateHandleBuffer E None (BdsWorld s) = ((st, hs), w1)" by (metis prod.exhaust)
  obtain s2 where all: "connect_handles E hs (s\<lparr>BdsWorld := w1\<rparr>) = Ret ((), s2)" "pending (BdsWorld s2) \<le> pending w1"
    using connect_handles_run [OF E, of hs "s\<lparr>BdsWorld := w1\<rparr>"] by auto
  obtain w3 where free: "PoolFree E (BdsWorld s2) = ((), w3)" by (metis old.unit.exhaust prod.exhaust)
  obtain st4 w4 where disp: "Dispatch E w3 = (st4, w4)" by (metis prod.exhaust)
  have "pending w1 \<le> pending (BdsWorld s)" "pending w3 \<le> pending (BdsWorld s2)" "\<not> EFI_ERROR st4 \<Longrightarrow> pending w4 < pending w3"
    using E [unfolded drivers_run_out_def] loc free disp by (metis snd_conv)+
  then have "\<not> EFI_ERROR st4 \<Longrightarrow> \<exists>s'. BdsConnectAllDrivers n E (s2\<lparr>BdsWorld := w4\<rparr>) = Ret (EFI_SUCCESS, s')"
    using Suc.prems all(2) by (intro Suc.IH) simp
  then show ?case
    using loc all(1) free disp by (auto simp: bindM_def service_def ret_def)
qed simp

text \<open>A class node that asks for any vendor, which is 0xFFFF, matches no device.\<close>

lemma usb_wild_card_matches_nothing:
  assumes "snd (node_types q) \<noteq> MSG_USB_WWID_DP" and "window 4 2 p = Some [0xFF, 0xFF]"
  shows "usb_match p q = Some False"
  using assms by (simp add: usb_match_def numeral_2_eq_2)

section \<open>Files of firmware volumes\<close>

text \<open>
  A volume lists its files with GUID and name, if they have one: the keys of the search stand for the
  places in the list.
\<close>

type_synonym fv_file = "u8 list \<times> CHAR16s option"

definition lists_files :: "'w PathEnv \<Rightarrow> u64 \<Rightarrow> fv_file list \<Rightarrow> bool" where
  "lists_files E h files \<longleftrightarrow> (\<exists>key. key 0 = replicate (unat (KeySize E h)) 0 \<and>
     (\<forall>w. \<forall>i<length files. NextFile E h (key i) w = ((EFI_SUCCESS, key (Suc i), fst (files ! i)), w) \<and>
        NameSection E h (fst (files ! i)) w = (case snd (files ! i) of None \<Rightarrow> (EFI_NOT_FOUND, []) | Some n \<Rightarrow> (EFI_SUCCESS, n), w)) \<and>
     (\<forall>w. \<exists>k g. NextFile E h (key (length files)) w = ((EFI_NOT_FOUND, k, g), w)))"

definition starts_with :: "CHAR16s \<Rightarrow> fv_file \<Rightarrow> bool" where
  "starts_with name f \<longleftrightarrow> (case snd f of None \<Rightarrow> False | Some n \<Rightarrow> take (length name) n = name)"

text \<open>The platform: its volumes, their device paths, and a device path library and pool with memory.\<close>

definition fv_platform :: "'w PathEnv \<Rightarrow> (u64 \<times> fv_file list) list \<Rightarrow> (u64 \<Rightarrow> dev_path) \<Rightarrow> bool" where
  "fv_platform E volumes path \<longleftrightarrow>
     (\<forall>w. LocateHandleBuffer E (Some FirmwareVolume2) w = ((EFI_SUCCESS, map fst volumes), w)) \<and>
     (\<forall>h w. HandleProtocol E FirmwareVolume2 h w = (EFI_SUCCESS, w) \<and> PathOfHandle E h w = ((EFI_SUCCESS, path h), w)) \<and>
     (\<forall>p n w. AppendDevicePathNode E p n w = (Some (p @ [n]), w)) \<and> (\<forall>n w. PoolAllocate E n w = (True, w)) \<and>
     (\<forall>w. PoolFree E w = ((), w)) \<and> (\<forall>(h, files) \<in> set volumes. lists_files E h files)"

lemma files_loop_run:
  assumes P: "fv_platform E volumes path" and key: "\<And>w i. i < length files \<Longrightarrow>
      NextFile E h (key i) w = ((EFI_SUCCESS, key (Suc i), fst (files ! i)), w) \<and>
      NameSection E h (fst (files ! i)) w = (case snd (files ! i) of None \<Rightarrow> (EFI_NOT_FOUND, []) | Some n \<Rightarrow> (EFI_SUCCESS, n), w)"
    and stop: "\<And>w. \<exists>k g. NextFile E h (key (length files)) w = ((EFI_NOT_FOUND, k, g), w)"
    and "i \<le> length files" and "length files - i < fuel"
  shows "files_loop fuel E name h (key i) s =
    Ret (case find (starts_with name) (drop i files) of None \<Rightarrow> None
         | Some f \<Rightarrow> Some (EFI_SUCCESS, path h @ [fv_file_node (fst f)]), s)"
  using assms(4,5)
proof (induction fuel arbitrary: i)
  case (Suc n)
  have lib: "PathOfHandle E h w = ((EFI_SUCCESS, path h), w)" "AppendDevicePathNode E p q w = (Some (p @ [q]), w)"
      "PoolFree E w = ((), w)" for w p q
    using P by (auto simp: fv_platform_def)
  show ?case
  proof (cases "i = length files")
    case True
    obtain k g where "NextFile E h (key (length files)) (BdsWorld s) = ((EFI_NOT_FOUND, k, g), BdsWorld s)"
      using stop by blast
    then show ?thesis by (simp add: True bindM_def service_def ret_def)
  next
    case False
    then have i: "i < length files" using Suc.prems(1) by simp
    then have d: "drop i files = files ! i # drop (Suc i) files" by (simp add: Cons_nth_drop_Suc)
    have "files_loop n E name h (key (Suc i)) s =
        Ret (case find (starts_with name) (drop (Suc i) files) of None \<Rightarrow> None
             | Some f \<Rightarrow> Some (EFI_SUCCESS, path h @ [fv_file_node (fst f)]), s)"
      using i Suc.prems(2) by (intro Suc.IH) simp_all
    then show ?thesis
      using key [OF i, of "BdsWorld s"] lib starts_with_def [of name "files ! i"]
      by (cases "snd (files ! i)") (auto simp: d bindM_def service_def ret_def append_fv_file_def ASSERT_def)
  qed
qed simp

lemma lists_files_run:
  assumes P: "fv_platform E volumes path" and "lists_files E h files" and "length files < fuel"
  shows "files_loop fuel E name h (replicate (unat (KeySize E h)) 0) s =
    Ret (case find (starts_with name) files of None \<Rightarrow> None
         | Some f \<Rightarrow> Some (EFI_SUCCESS, path h @ [fv_file_node (fst f)]), s)"
proof -
  obtain key where key: "key 0 = replicate (unat (KeySize E h)) 0"
    "\<And>w i. i < length files \<Longrightarrow> NextFile E h (key i) w = ((EFI_SUCCESS, key (Suc i), fst (files ! i)), w) \<and>
        NameSection E h (fst (files ! i)) w = (case snd (files ! i) of None \<Rightarrow> (EFI_NOT_FOUND, []) | Some n \<Rightarrow> (EFI_SUCCESS, n), w)"
    "\<And>w. \<exists>k g. NextFile E h (key (length files)) w = ((EFI_NOT_FOUND, k, g), w)"
    using assms(2) unfolding lists_files_def by blast
  show ?thesis
    using files_loop_run [OF P key(2,3), of 0 fuel name s] assms(3) by (simp add: key(1))
qed

text \<open>The files of all volumes in their order, each with the handle of its volume.\<close>

definition all_files :: "(u64 \<times> fv_file list) list \<Rightarrow> (u64 \<times> fv_file) list" where
  "all_files volumes = concat (map (\<lambda>(h, files). map (Pair h) files) volumes)"

lemma find_map_Pair: "find (\<lambda>(k, f). P f) (map (Pair h) fs @ rest) =
    (case find P fs of Some f \<Rightarrow> Some (h, f) | None \<Rightarrow> find (\<lambda>(k, f). P f) rest)"
  by (induction fs) auto

lemma volumes_by_name_run:
  assumes P: "fv_platform E volumes path" and "set vs \<subseteq> set volumes" and "\<forall>(h, files)\<in>set volumes. length files < fuel"
  shows "volumes_by_name fuel E name (map fst vs) s =
    Ret (case find (\<lambda>(h, f). starts_with name f) (all_files vs) of None \<Rightarrow> (EFI_NOT_FOUND, None)
         | Some (h, f) \<Rightarrow> (EFI_SUCCESS, Some (path h @ [fv_file_node (fst f)])), s)"
  using assms(2)
proof (induction vs)
  case Nil
  then show ?case using P by (simp add: fv_platform_def all_files_def bindM_def service_def ret_def)
next
  case (Cons v vs)
  obtain h files where v: "v = (h, files)" by fastforce
  have "lists_files E h files" "length files < fuel"
    using P Cons.prems assms(3) by (auto simp: fv_platform_def v)
  note run = lists_files_run [OF P this, of name s]
  have lib: "HandleProtocol E FirmwareVolume2 h w = (EFI_SUCCESS, w)" "PoolAllocate E n w = (True, w)" "PoolFree E w = ((), w)" for w n
    using P by (auto simp: fv_platform_def)
  show ?case
    using Cons.IH Cons.prems run lib
    by (auto simp: v all_files_def find_map_Pair bindM_def service_def ret_def ASSERT_def split: option.splits)
qed

text \<open>
  Property C27. The search for an application by name gives the path of the first file, in the order of
  the volumes and of the files in each, whose name starts with the name that is asked for, and
  \<open>EFI_NOT_FOUND\<close> when there is none. A longer name is a match as well.
\<close>
theorem LocateByName_first:
  assumes "fv_platform E volumes path" and "\<forall>(h, files)\<in>set volumes. length files < fuel"
  shows "LocateEfiApplicationInFvByName fuel E name s =
    Ret (case find (\<lambda>(h, f). starts_with name f) (all_files volumes) of None \<Rightarrow> (EFI_NOT_FOUND, None)
         | Some (h, f) \<Rightarrow> (EFI_SUCCESS, Some (path h @ [fv_file_node (fst f)])), s)"
proof -
  have "LocateHandleBuffer E (Some FirmwareVolume2) (BdsWorld s) = ((EFI_SUCCESS, map fst volumes), BdsWorld s)"
    using assms(1) by (simp add: fv_platform_def)
  then show ?thesis
    using volumes_by_name_run [OF assms(1) subset_refl assms(2), of name s]
    by (simp add: LocateEfiApplicationInFvByName_def bindM_def service_def)
qed

end
