(* ===== verification/BdsLoad.thy ===== *)
theory BdsLoad
  imports BdsPath
begin

text \<open>
  Loading images in the boot device selection library (\<open>BdsFilePath.c\<close>): the five file loaders with
  their tests, the download over TFTP with its progress line, the choice of a loader, and the start of
  an application.
\<close>

section \<open>Services\<close>

datatype EFI_ALLOCATE_TYPE = AllocateAnyPages | AllocateMaxAddress | AllocateAddress

datatype tftp_address = StationIp | SubnetMask | GatewayIp | ServerIp

record EFI_DHCP4_MODE_DATA =
  DhcpBound :: bool
  ClientAddress :: "u8 list"
  DhcpSubnetMask :: "u8 list"
  RouterAddress :: "u8 list"

record EFI_MTFTP4_CONFIG_DATA =
  UseDefaultSetting :: bool
  TimeoutValue :: u16
  TryCount :: u16
  TftpAddress :: "tftp_address \<Rightarrow> u8 list"

text \<open>
  What the loaders call beside the services for device paths. \<open>*Image\<close> goes into the allocation of pages
  and comes back from it. The file that is open and the protocols behind a handle are part of the world.
  A download also gives the packets the check function was called with, by operation code and length.
\<close>

record 'w LoadEnv =
  PathE :: "'w PathEnv"
  LoadPages :: "EFI_ALLOCATE_TYPE \<Rightarrow> u64 \<Rightarrow> u64 option \<Rightarrow> 'w \<Rightarrow> (EFI_STATUS \<times> u64 option) \<times> 'w"
  DropPages :: "u64 option \<Rightarrow> u64 \<Rightarrow> 'w \<Rightarrow> unit \<times> 'w"
  OpenProtocol :: "protocol \<Rightarrow> u64 \<Rightarrow> u64 \<Rightarrow> 'w \<Rightarrow> EFI_STATUS \<times> 'w"
  CloseProtocol :: "protocol \<Rightarrow> u64 \<Rightarrow> u64 \<Rightarrow> 'w \<Rightarrow> unit \<times> 'w"
  OpenVolume :: "u64 \<Rightarrow> 'w \<Rightarrow> EFI_STATUS \<times> 'w"
  OpenImageFile :: "u8 list \<Rightarrow> 'w \<Rightarrow> EFI_STATUS \<times> 'w"
  FileGetInfo :: "u64 \<Rightarrow> bool \<Rightarrow> 'w \<Rightarrow> (EFI_STATUS \<times> u64 \<times> u64) \<times> 'w"
  FileRead :: "u64 \<Rightarrow> 'w \<Rightarrow> (EFI_STATUS \<times> u8 list) \<times> 'w"
  FileClose :: "'w \<Rightarrow> unit \<times> 'w"
  ReadPe32 :: "u64 \<Rightarrow> u8 list \<Rightarrow> 'w \<Rightarrow> (EFI_STATUS \<times> u8 list) \<times> 'w"
  FvReadFile :: "u64 \<Rightarrow> u8 list \<Rightarrow> (u64 option \<times> u64) option \<Rightarrow> 'w \<Rightarrow> (EFI_STATUS \<times> u64 \<times> u8 list) \<times> 'w"
  LoadFile :: "u64 \<Rightarrow> dev_path \<Rightarrow> (u64 option \<times> u64) option \<Rightarrow> 'w \<Rightarrow> (EFI_STATUS \<times> u64 \<times> u8 list) \<times> 'w"
  LocatePxe :: "'w \<Rightarrow> EFI_STATUS \<times> 'w"
  PxeStop :: "'w \<Rightarrow> unit \<times> 'w"
  CreateServiceChild :: "protocol \<Rightarrow> u64 \<Rightarrow> 'w \<Rightarrow> (EFI_STATUS \<times> u64) \<times> 'w"
  DestroyServiceChild :: "protocol \<Rightarrow> u64 \<Rightarrow> u64 \<Rightarrow> 'w \<Rightarrow> unit \<times> 'w"
  DhcpConfigure :: "u8 list \<Rightarrow> 'w \<Rightarrow> EFI_STATUS \<times> 'w"
  DhcpStart :: "'w \<Rightarrow> EFI_STATUS \<times> 'w"
  DhcpGetModeData :: "'w \<Rightarrow> (EFI_STATUS \<times> EFI_DHCP4_MODE_DATA) \<times> 'w"
  DhcpStop :: "'w \<Rightarrow> unit \<times> 'w"
  TftpConfigure :: "EFI_MTFTP4_CONFIG_DATA \<Rightarrow> 'w \<Rightarrow> EFI_STATUS \<times> 'w"
  TftpGetInfo :: "u8 list \<Rightarrow> 'w \<Rightarrow> (EFI_STATUS \<times> u8 list) \<times> 'w"
  TftpParseOptions :: "u8 list \<Rightarrow> 'w \<Rightarrow> (EFI_STATUS \<times> (u8 list \<times> u8 list) list) \<times> 'w"
  TftpReadFile :: "u8 list \<Rightarrow> u64 \<Rightarrow> 'w \<Rightarrow> (EFI_STATUS \<times> u64 \<times> u8 list \<times> (u16 \<times> u16) list) \<times> 'w"
  PathToText :: "u8 list \<Rightarrow> 'w \<Rightarrow> CHAR16s \<times> 'w"
  ToAscii :: "CHAR16s \<Rightarrow> u8 list"
  DecimalToUint64 :: "u8 list \<Rightarrow> u64"
  BsLoadImage :: "u64 \<Rightarrow> dev_path \<Rightarrow> u8 list \<Rightarrow> 'w \<Rightarrow> (EFI_STATUS \<times> u64) \<times> 'w"
  SetLoadOptions :: "u64 \<Rightarrow> u64 \<Rightarrow> u64 \<Rightarrow> 'w \<Rightarrow> unit \<times> 'w"
  SetWatchdogTimer :: "u64 \<Rightarrow> 'w \<Rightarrow> EFI_STATUS \<times> 'w"
  BsStartImage :: "u64 \<Rightarrow> 'w \<Rightarrow> EFI_STATUS \<times> 'w"

text \<open>\<open>*Image\<close> and \<open>*ImageSize\<close>, as far as they were written.\<close>

type_synonym image_out = "u64 option \<times> u64 option"

definition need_handle :: "u64 option \<Rightarrow> (u64 \<Rightarrow> ('w, 'a) bds) \<Rightarrow> ('w, 'a) bds" where
  "need_handle Handle f = (case Handle of None \<Rightarrow> stopM UninitializedRead | Some h \<Rightarrow> f h)"

text \<open>Pages of the wanted type, or any pages when memory of that type is exhausted.\<close>

definition allocate_image ::
    "'w LoadEnv \<Rightarrow> EFI_ALLOCATE_TYPE \<Rightarrow> u64 \<Rightarrow> u64 option \<Rightarrow> ('w, EFI_STATUS \<times> u64 option) bds" where
  "allocate_image E Type Size ImageBase =
     bindM (service (LoadPages E Type (EFI_SIZE_TO_PAGES Size) ImageBase)) (\<lambda>(Status, ImageBase).
     if Status = EFI_OUT_OF_RESOURCES \<and> Type \<noteq> AllocateAnyPages then
       service (LoadPages E AllocateAnyPages (EFI_SIZE_TO_PAGES Size) ImageBase)
     else ret (Status, ImageBase))"

definition put_image :: "u64 option \<Rightarrow> u8 list \<Rightarrow> ('w, unit) bds" where
  "put_image ImageBase bytes = (case ImageBase of None \<Rightarrow> stopM UninitializedRead | Some a \<Rightarrow> put_bytes a bytes)"

section \<open>Files of a file system\<close>

definition BdsFileSystemSupport :: "'w LoadEnv \<Rightarrow> dev_path \<Rightarrow> u64 option \<Rightarrow> dev_path \<Rightarrow> ('w, bool) bds" where
  "BdsFileSystemSupport E DevicePath Handle Remaining = need_handle Handle (\<lambda>h.
     bindM (service (HandleProtocol (PathE E) SimpleFileSystem h)) (\<lambda>Status.
     ret (\<not> EFI_ERROR Status \<and> IS_DEVICE_PATH_NODE Remaining MEDIA_DEVICE_PATH MEDIA_FILEPATH_DP)))"

text \<open>With the file open: its size, the pages, and its bytes.\<close>

definition read_open_file ::
    "'w LoadEnv \<Rightarrow> EFI_ALLOCATE_TYPE \<Rightarrow> bool \<Rightarrow> image_out \<Rightarrow> ('w, EFI_STATUS \<times> image_out) bds" where
  "read_open_file E Type SizeWanted out =
     bindM (service (FileGetInfo E 0 False)) (\<lambda>(_, Size, _).
     bindM (service (PoolAllocate (PathE E) Size)) (\<lambda>FileInfo.
     bindM (service (FileGetInfo E Size FileInfo)) (\<lambda>(Status, _, FileSize).
     if EFI_ERROR Status then ret (Status, out)
     else if \<not> FileInfo then stopM NullDereference
     else
       let out = (if SizeWanted then (fst out, Some FileSize) else out)
       in bindM (service (PoolFree (PathE E))) (\<lambda>_.
          bindM (allocate_image E Type FileSize (fst out)) (\<lambda>(Status, ImageBase).
          if EFI_ERROR Status then ret (Status, ImageBase, snd out)
          else
            bindM (service (FileRead E FileSize)) (\<lambda>(Status, bytes).
            bindM (put_image ImageBase bytes) (\<lambda>_. ret (Status, ImageBase, snd out))))))))"

definition BdsFileSystemLoadImage ::
    "'w LoadEnv \<Rightarrow> u64 \<Rightarrow> dev_path \<Rightarrow> EFI_ALLOCATE_TYPE \<Rightarrow> bool \<Rightarrow> image_out \<Rightarrow> ('w, EFI_STATUS \<times> image_out) bds" where
  "BdsFileSystemLoadImage E h Remaining Type SizeWanted out =
     bindM (ASSERT (IS_DEVICE_PATH_NODE Remaining MEDIA_DEVICE_PATH MEDIA_FILEPATH_DP)) (\<lambda>_.
     bindM (service (OpenProtocol E SimpleFileSystem h h)) (\<lambda>Status.
     if EFI_ERROR Status then ret (Status, out)
     else
       bindM (bindM (service (OpenVolume E h)) (\<lambda>Status.
         if EFI_ERROR Status then ret (Status, out)
         else
           bindM (service (OpenImageFile E (NodeData (hd Remaining)))) (\<lambda>Status.
           if EFI_ERROR Status then ret (Status, out)
           else
             bindM (read_open_file E Type SizeWanted out) (\<lambda>result.
             bindM (service (FileClose E)) (\<lambda>_. ret result))))) (\<lambda>result.
       bindM (service (CloseProtocol E SimpleFileSystem h h)) (\<lambda>_. ret result))))"

section \<open>Memory and firmware volumes\<close>

definition BdsMemoryMapSupport :: "'w LoadEnv \<Rightarrow> dev_path \<Rightarrow> u64 option \<Rightarrow> dev_path \<Rightarrow> ('w, bool) bds" where
  "BdsMemoryMapSupport E DevicePath Handle Remaining =
     ret (IS_DEVICE_PATH_NODE DevicePath HARDWARE_DEVICE_PATH HW_MEMMAP_DP \<or> IS_DEVICE_PATH_NODE Remaining HARDWARE_DEVICE_PATH HW_MEMMAP_DP)"

text \<open>\<open>MEMMAP_DEVICE_PATH\<close>: the first address at 8, the last one at 16.\<close>

definition memmap_at :: "nat \<Rightarrow> dev_path \<Rightarrow> u64 option" where
  "memmap_at k p = map_option (\<lambda>b. of_nat (le_nat b)) (window k 8 p)"

definition BdsMemoryMapLoadImage ::
    "'w LoadEnv \<Rightarrow> dev_path \<Rightarrow> dev_path \<Rightarrow> EFI_ALLOCATE_TYPE \<Rightarrow> bool \<Rightarrow> image_out \<Rightarrow> ('w, EFI_STATUS \<times> image_out) bds" where
  "BdsMemoryMapLoadImage E DevicePath Remaining Type SizeWanted out =
     (let here = IS_DEVICE_PATH_NODE Remaining HARDWARE_DEVICE_PATH HW_MEMMAP_DP
      in bindM (ASSERT (here \<or> IS_DEVICE_PATH_NODE DevicePath HARDWARE_DEVICE_PATH HW_MEMMAP_DP)) (\<lambda>_.
         let node = (if here then Remaining else DevicePath)
         in case (memmap_at 16 node, memmap_at 8 node) of
              (Some EndingAddress, Some StartingAddress) \<Rightarrow>
                let Size = EndingAddress - StartingAddress
                in if Size = 0 then ret (EFI_INVALID_PARAMETER, out)
                   else
                     bindM (allocate_image E Type Size (fst out)) (\<lambda>(Status, ImageBase).
                     if EFI_ERROR Status then ret (Status, ImageBase, snd out)
                     else
                       bindM (get_bytes StartingAddress Size) (\<lambda>bytes.
                       bindM (put_image ImageBase bytes) (\<lambda>_.
                       ret (Status, ImageBase, if SizeWanted then Some Size else snd out))))
            | _ \<Rightarrow> stopM OutOfBounds))"

definition BdsFirmwareVolumeSupport :: "'w LoadEnv \<Rightarrow> dev_path \<Rightarrow> u64 option \<Rightarrow> dev_path \<Rightarrow> ('w, bool) bds" where
  "BdsFirmwareVolumeSupport E DevicePath Handle Remaining =
     ret (IS_DEVICE_PATH_NODE Remaining MEDIA_DEVICE_PATH MEDIA_PIWG_FW_FILE_DP)"

text \<open>
  The PE32 section of the file, or the whole file. The name of the file is in the node. \<open>ImageSize\<close>
  is used without a test.
\<close>

definition BdsFirmwareVolumeLoadImage ::
    "'w LoadEnv \<Rightarrow> u64 \<Rightarrow> dev_path \<Rightarrow> EFI_ALLOCATE_TYPE \<Rightarrow> bool \<Rightarrow> image_out \<Rightarrow> ('w, EFI_STATUS \<times> image_out) bds" where
  "BdsFirmwareVolumeLoadImage E h Remaining Type SizeWanted out =
     bindM (ASSERT (IS_DEVICE_PATH_NODE Remaining MEDIA_DEVICE_PATH MEDIA_PIWG_FW_FILE_DP)) (\<lambda>_.
     bindM (service (HandleProtocol (PathE E) FirmwareVolume2 h)) (\<lambda>Status.
     if EFI_ERROR Status then ret (Status, out)
     else if \<not> SizeWanted then stopM NullDereference
     else
       let guid = NodeData (hd Remaining)
       in bindM (service (ReadPe32 E h guid)) (\<lambda>(Status, ImageBuffer).
          if \<not> EFI_ERROR Status then
            let Size = of_nat (length ImageBuffer)
            in bindM (allocate_image E Type Size (fst out)) (\<lambda>(Status, ImageBase).
               if EFI_ERROR Status then ret (Status, ImageBase, Some Size)
               else
                 bindM (put_image ImageBase ImageBuffer) (\<lambda>_.
                 bindM (service (PoolFree (PathE E))) (\<lambda>_. ret (Status, ImageBase, Some Size))))
          else
            bindM (service (FvReadFile E h guid None)) (\<lambda>(Status, Size, _).
            if EFI_ERROR Status then ret (Status, fst out, Some Size)
            else
              bindM (allocate_image E Type Size (fst out)) (\<lambda>(Status, ImageBase).
              if EFI_ERROR Status then ret (Status, ImageBase, Some Size)
              else
                bindM (service (FvReadFile E h guid (Some (ImageBase, Size)))) (\<lambda>(Status, Size, bytes).
                bindM (put_image ImageBase bytes) (\<lambda>_. ret (Status, ImageBase, Some Size))))))))"

section \<open>PXE\<close>

definition BdsPxeSupport :: "'w LoadEnv \<Rightarrow> dev_path \<Rightarrow> u64 option \<Rightarrow> dev_path \<Rightarrow> ('w, bool) bds" where
  "BdsPxeSupport E DevicePath Handle Remaining =
     (if \<not> IsDevicePathEnd Remaining then ret False
      else need_handle Handle (\<lambda>h. bindM (service (HandleProtocol (PathE E) PxeBaseCode h)) (\<lambda>Status. ret (\<not> EFI_ERROR Status))))"

text \<open>While PXE is already started it is stopped and everything tried again, with one unit of fuel each.\<close>

primrec BdsPxeLoadImage ::
    "nat \<Rightarrow> 'w LoadEnv \<Rightarrow> u64 \<Rightarrow> dev_path \<Rightarrow> EFI_ALLOCATE_TYPE \<Rightarrow> bool \<Rightarrow> image_out \<Rightarrow> ('w, EFI_STATUS \<times> image_out) bds" where
  "BdsPxeLoadImage 0 E h Remaining Type SizeWanted out = stopM OutOfFuel"
| "BdsPxeLoadImage (Suc n) E h Remaining Type SizeWanted out =
     bindM (service (HandleProtocol (PathE E) LoadFileProtocol h)) (\<lambda>Status.
     if EFI_ERROR Status then ret (Status, out)
     else
       bindM (service (LoadFile E h Remaining None)) (\<lambda>(Status, BufferSize, _).
       bindM (if Status = EFI_BUFFER_TOO_SMALL then
           bindM (service (LoadPages E Type (EFI_SIZE_TO_PAGES BufferSize) (fst out))) (\<lambda>(Status, ImageBase).
           if EFI_ERROR Status then ret (True, Status, ImageBase, snd out)
           else
             bindM (service (LoadFile E h Remaining (Some (ImageBase, BufferSize)))) (\<lambda>(Status, BufferSize, bytes).
             bindM (put_image ImageBase bytes) (\<lambda>_.
             ret (False, Status, ImageBase, if \<not> EFI_ERROR Status \<and> SizeWanted then Some BufferSize else snd out))))
         else ret (False, Status, out)) (\<lambda>(returned, Status, out).
       if \<not> returned \<and> Status = EFI_ALREADY_STARTED then
         bindM (service (LocatePxe E)) (\<lambda>Status.
         if EFI_ERROR Status then ret (Status, out)
         else
           bindM (service (PxeStop E)) (\<lambda>_. BdsPxeLoadImage n E h Remaining Type SizeWanted out))
       else ret (Status, out))))"

section \<open>TFTP\<close>

text \<open>The path goes from an IP node to a file, and the controller offers MTFTP.\<close>

definition BdsTftpSupport :: "'w LoadEnv \<Rightarrow> dev_path \<Rightarrow> u64 option \<Rightarrow> dev_path \<Rightarrow> ('w, bool) bds" where
  "BdsTftpSupport E DevicePath Handle Remaining =
     (if IsDevicePathEnd Remaining then ret False
      else if \<not> IS_DEVICE_PATH_NODE Remaining MESSAGING_DEVICE_PATH MSG_IPv4_DP \<and>
        \<not> IS_DEVICE_PATH_NODE Remaining MESSAGING_DEVICE_PATH MSG_IPv6_DP then ret False
      else if IsDevicePathEnd (tl Remaining) then ret False
      else if \<not> IS_DEVICE_PATH_NODE (tl Remaining) MEDIA_DEVICE_PATH MEDIA_FILEPATH_DP then ret False
      else need_handle Handle (\<lambda>h.
        bindM (service (PathOfHandle (PathE E) h)) (\<lambda>(Status, _).
        if EFI_ERROR Status then ret False
        else bindM (service (HandleProtocol (PathE E) Mtftp4ServiceBinding h)) (\<lambda>Status. ret (\<not> EFI_ERROR Status)))))"

definition tsize :: "u8 list" where "tsize = map of_char ''tsize''"

text \<open>The status and the size the server announces; the packet is not freed.\<close>

definition Mtftp4GetFileSize :: "'w LoadEnv \<Rightarrow> u8 list \<Rightarrow> ('w, EFI_STATUS \<times> u64 option) bds" where
  "Mtftp4GetFileSize E FilePath =
     bindM (service (TftpGetInfo E FilePath)) (\<lambda>(Status, Packet).
     if EFI_ERROR Status then ret (Status, None)
     else
       bindM (service (TftpParseOptions E Packet)) (\<lambda>(Status, options).
       if EFI_ERROR Status then ret (Status, None)
       else
         let found = find (\<lambda>(OptionStr, ValueStr). take 5 OptionStr = tsize) options
         in bindM (service (PoolFree (PathE E))) (\<lambda>_.
            ret (case found of None \<Rightarrow> (EFI_UNSUPPORTED, None) | Some (_, ValueStr) \<Rightarrow> (Status, Some (DecimalToUint64 E ValueStr))))))"

record BDS_TFTP_CONTEXT =
  FileSize :: u64
  DownloadedNbOfBytes :: u64
  LastReportedNbOfBytes :: u64

definition EFI_MTFTP4_OPCODE_DATA :: u16 where "EFI_MTFTP4_OPCODE_DATA = 3"

text \<open>The frame has 42 characters and its terminator; the message has room for 55 characters.\<close>

definition TFTP_PROGRESS_SLIDER_STEPS :: u64 where "TFTP_PROGRESS_SLIDER_STEPS = 43 - 3"
definition TFTP_PROGRESS_MESSAGE_SIZE :: u64 where "TFTP_PROGRESS_MESSAGE_SIZE = 43 + 12"

text \<open>
  The check of one packet, which only keeps the counters and draws the slider: the mark goes to the
  place \<open>Step\<close> of the message, wherever that is. The text behind the frame fits.
\<close>

definition Mtftp4CheckPacket :: "BDS_TFTP_CONTEXT \<Rightarrow> u16 \<times> u16 \<Rightarrow> ('w, BDS_TFTP_CONTEXT) bds" where
  "Mtftp4CheckPacket Context packet = (case packet of (OpCode, PacketLen) \<Rightarrow>
     if OpCode \<noteq> EFI_MTFTP4_OPCODE_DATA then ret Context
     else
       let Downloaded = DownloadedNbOfBytes Context + (ucast PacketLen - 2 - 2);
           Context = Context\<lparr>DownloadedNbOfBytes := Downloaded\<rparr>
       in if FileSize Context > 0 then
            let LastStep = (LastReportedNbOfBytes Context * TFTP_PROGRESS_SLIDER_STEPS) div FileSize Context;
                Step = (Downloaded * TFTP_PROGRESS_SLIDER_STEPS) div FileSize Context
            in if Step > LastStep then
                 if Step \<ge> TFTP_PROGRESS_MESSAGE_SIZE then stopM OutOfBounds
                 else ret (Context\<lparr>LastReportedNbOfBytes := Downloaded\<rparr>)
               else ret Context
          else
            let LastNbOf50Kb = LastReportedNbOfBytes Context div (50 * 1024);
                NbOf50Kb = Downloaded div (50 * 1024)
            in ret (if NbOf50Kb > LastNbOf50Kb then Context\<lparr>LastReportedNbOfBytes := Downloaded\<rparr> else Context))"

primrec check_packets :: "BDS_TFTP_CONTEXT \<Rightarrow> (u16 \<times> u16) list \<Rightarrow> ('w, BDS_TFTP_CONTEXT) bds" where
  "check_packets Context [] = ret Context"
| "check_packets Context (p # ps) = bindM (Mtftp4CheckPacket Context p) (\<lambda>Context. check_packets Context ps)"

definition SIZE_16MB :: u64 where "SIZE_16MB = 0x01000000"
definition MAX_TFTP_FILE_SIZE :: u64 where "MAX_TFTP_FILE_SIZE = 0x01000000"

text \<open>The loop over the sizes of the buffer; \<open>Status\<close> is the one from before the loop when it is left at once.\<close>

primrec tftp_loop ::
    "nat \<Rightarrow> 'w LoadEnv \<Rightarrow> EFI_ALLOCATE_TYPE \<Rightarrow> u8 list \<Rightarrow> bool \<Rightarrow> BDS_TFTP_CONTEXT \<Rightarrow> u64 \<Rightarrow> EFI_STATUS \<Rightarrow> image_out \<Rightarrow>
     ('w, EFI_STATUS \<times> image_out) bds" where
  "tftp_loop 0 E Type FilePath SizeWanted Context TftpBufferSize Status out = stopM OutOfFuel"
| "tftp_loop (Suc n) E Type FilePath SizeWanted Context TftpBufferSize Status out =
     (if TftpBufferSize > MAX_TFTP_FILE_SIZE then ret (Status, out)
      else
        bindM (service (LoadPages E Type (EFI_SIZE_TO_PAGES TftpBufferSize) (fst out))) (\<lambda>(Status, ImageBase).
        if EFI_ERROR Status then ret (Status, ImageBase, snd out)
        else
          bindM (service (TftpReadFile E FilePath TftpBufferSize)) (\<lambda>(Status, BufferSize, bytes, packets).
          bindM (check_packets (Context\<lparr>DownloadedNbOfBytes := 0, LastReportedNbOfBytes := 0\<rparr>) packets) (\<lambda>Context.
          bindM (put_image ImageBase bytes) (\<lambda>_.
          if EFI_ERROR Status then
            bindM (service (DropPages E ImageBase (EFI_SIZE_TO_PAGES TftpBufferSize))) (\<lambda>_.
            if Status = EFI_BUFFER_TOO_SMALL then
              tftp_loop n E Type FilePath SizeWanted Context ((TftpBufferSize + SIZE_16MB) AND NOT (SIZE_16MB - 1)) Status (ImageBase, snd out)
            else ret (Status, ImageBase, snd out))
          else if SizeWanted then ret (Status, ImageBase, Some BufferSize)
          else stopM NullDereference)))))"

text \<open>\<open>IPv4_DEVICE_PATH\<close>: server at 8, the static flag at 18, local address at 4, gateway at 19, mask at 23.\<close>

definition ip_field :: "nat \<Rightarrow> nat \<Rightarrow> dev_path \<Rightarrow> u8 list" where "ip_field k n p = take n (drop k (path_bytes p))"

text \<open>What is to be undone at the end; a handle that is 0 was not created.\<close>

record TftpChildren =
  Dhcp4ChildHandle :: u64
  Dhcp4Open :: bool
  Dhcp4ToStop :: bool
  Mtftp4ChildHandle :: u64
  Mtftp4Open :: bool
  AsciiFilePath :: bool
  TftpContext :: bool

definition no_children :: TftpChildren where
  "no_children = \<lparr>Dhcp4ChildHandle = 0, Dhcp4Open = False, Dhcp4ToStop = False, Mtftp4ChildHandle = 0, Mtftp4Open = False,
     AsciiFilePath = False, TftpContext = False\<rparr>"

text \<open>A child of a service and its protocol: the status, the child and whether its protocol is open.\<close>

definition open_child :: "'w LoadEnv \<Rightarrow> u64 \<Rightarrow> protocol \<Rightarrow> protocol \<Rightarrow> ('w, EFI_STATUS \<times> u64 \<times> bool) bds" where
  "open_child E ControllerHandle binding prot =
     bindM (service (CreateServiceChild E binding ControllerHandle)) (\<lambda>(Status, child).
     if EFI_ERROR Status then ret (Status, child, False)
     else bindM (service (OpenProtocol E prot child ControllerHandle)) (\<lambda>Status. ret (Status, child, \<not> EFI_ERROR Status)))"

text \<open>The option that asks for net mask and router.\<close>

definition dhcp_options :: "u8 list" where "dhcp_options = [55, 2, 1, 3]"

text \<open>The status, whether DHCP is to be stopped, and its data.\<close>

definition run_dhcp :: "'w LoadEnv \<Rightarrow> ('w, EFI_STATUS \<times> bool \<times> EFI_DHCP4_MODE_DATA option) bds" where
  "run_dhcp E =
     bindM (service (DhcpConfigure E dhcp_options)) (\<lambda>Status.
     if EFI_ERROR Status \<and> Status \<noteq> EFI_ACCESS_DENIED then ret (Status, False, None)
     else
       bindM (service (DhcpStart E)) (\<lambda>Status.
       if EFI_ERROR Status \<and> Status \<noteq> EFI_ALREADY_STARTED then ret (Status, False, None)
       else
         let ToStop = (\<not> EFI_ERROR Status)
         in bindM (service (DhcpGetModeData E)) (\<lambda>(Status, Mode).
            if EFI_ERROR Status then ret (Status, ToStop, None)
            else if \<not> DhcpBound Mode then ret (EFI_TIMEOUT, ToStop, None)
            else ret (Status, ToStop, Some Mode))))"

definition tftp_config :: "dev_path \<Rightarrow> EFI_DHCP4_MODE_DATA option \<Rightarrow> EFI_MTFTP4_CONFIG_DATA" where
  "tftp_config node mode = \<lparr>UseDefaultSetting = False, TimeoutValue = 4, TryCount = 6, TftpAddress = (\<lambda>a.
     case a of
       ServerIp \<Rightarrow> ip_field 8 4 node
     | StationIp \<Rightarrow> (case mode of None \<Rightarrow> ip_field 4 4 node | Some d \<Rightarrow> ClientAddress d)
     | SubnetMask \<Rightarrow> (case mode of None \<Rightarrow> ip_field 23 4 node | Some d \<Rightarrow> DhcpSubnetMask d)
     | GatewayIp \<Rightarrow> (case mode of None \<Rightarrow> ip_field 19 4 node | Some d \<Rightarrow> RouterAddress d))\<rparr>"

text \<open>
  The download, once both services are there. The path of the file is what lies behind an
  \<open>IPv4_DEVICE_PATH\<close>, 27 bytes on; its text is not freed.
\<close>

definition tftp_download ::
    "'w LoadEnv \<Rightarrow> dev_path \<Rightarrow> EFI_ALLOCATE_TYPE \<Rightarrow> bool \<Rightarrow> image_out \<Rightarrow> EFI_DHCP4_MODE_DATA option \<Rightarrow> TftpChildren \<Rightarrow>
     ('w, EFI_STATUS \<times> image_out \<times> TftpChildren) bds" where
  "tftp_download E node Type SizeWanted out mode ch =
     bindM (service (TftpConfigure E (tftp_config node mode))) (\<lambda>Status.
     if EFI_ERROR Status then ret (Status, out, ch)
     else
       bindM (service (PathToText E (drop 27 (path_bytes node)))) (\<lambda>PathName.
       bindM (service (PoolAllocate (PathE E) (StrLen PathName + 1))) (\<lambda>AsciiPath.
       bindM (ASSERT AsciiPath) (\<lambda>_.
       let ch = ch\<lparr>AsciiFilePath := True\<rparr>; FilePath = ToAscii E PathName
       in bindM (Mtftp4GetFileSize E FilePath) (\<lambda>(SizeStatus, Announced).
          let Bytes = (case Announced of None \<Rightarrow> 0 | Some n \<Rightarrow> n);
              TftpBufferSize = (if SizeStatus = EFI_SUCCESS then Bytes else SIZE_16MB)
          in bindM (service (PoolAllocate (PathE E) 24)) (\<lambda>Context.
             if \<not> Context then ret (EFI_OUT_OF_RESOURCES, out, ch)
             else
               bindM (tftp_loop 3 E Type FilePath SizeWanted
                   \<lparr>FileSize = Bytes, DownloadedNbOfBytes = 0, LastReportedNbOfBytes = 0\<rparr> TftpBufferSize Status out)
                 (\<lambda>(Status, out). ret (Status, out, ch\<lparr>TftpContext := True\<rparr>))))))))"

text \<open>The steps before it: the addresses from DHCP unless they are static, the MTFTP child, the DHCP child.\<close>

definition tftp_addressed ::
    "'w LoadEnv \<Rightarrow> dev_path \<Rightarrow> EFI_ALLOCATE_TYPE \<Rightarrow> bool \<Rightarrow> image_out \<Rightarrow> bool \<Rightarrow> TftpChildren \<Rightarrow>
     ('w, EFI_STATUS \<times> image_out \<times> TftpChildren) bds" where
  "tftp_addressed E node Type SizeWanted out static ch =
     bindM (if static then ret (EFI_SUCCESS, False, None) else run_dhcp E) (\<lambda>(Status, ToStop, mode).
     let ch = ch\<lparr>Dhcp4ToStop := ToStop\<rparr>
     in if EFI_ERROR Status then ret (Status, out, ch)
        else tftp_download E node Type SizeWanted out mode ch)"

definition tftp_served ::
    "'w LoadEnv \<Rightarrow> u64 \<Rightarrow> dev_path \<Rightarrow> EFI_ALLOCATE_TYPE \<Rightarrow> bool \<Rightarrow> image_out \<Rightarrow> bool \<Rightarrow> TftpChildren \<Rightarrow>
     ('w, EFI_STATUS \<times> image_out \<times> TftpChildren) bds" where
  "tftp_served E ControllerHandle node Type SizeWanted out static ch =
     bindM (open_child E ControllerHandle Mtftp4ServiceBinding Mtftp4Protocol) (\<lambda>(Status, tftp, tftp_open).
     let ch = ch\<lparr>Mtftp4ChildHandle := tftp, Mtftp4Open := tftp_open\<rparr>
     in if EFI_ERROR Status then ret (Status, out, ch)
        else tftp_addressed E node Type SizeWanted out static ch)"

definition tftp_body ::
    "'w LoadEnv \<Rightarrow> u64 \<Rightarrow> dev_path \<Rightarrow> EFI_ALLOCATE_TYPE \<Rightarrow> bool \<Rightarrow> image_out \<Rightarrow> ('w, EFI_STATUS \<times> image_out \<times> TftpChildren) bds" where
  "tftp_body E ControllerHandle node Type SizeWanted out =
     (let static = (ip_field 18 1 node \<noteq> [0])
      in bindM (if static then ret (EFI_SUCCESS, 0, False) else open_child E ControllerHandle Dhcp4ServiceBinding Dhcp4Protocol)
        (\<lambda>(Status, dhcp, dhcp_open).
        let ch = no_children\<lparr>Dhcp4ChildHandle := dhcp, Dhcp4Open := dhcp_open\<rparr>
        in if EFI_ERROR Status then ret (Status, out, ch)
           else tftp_served E ControllerHandle node Type SizeWanted out static ch))"

definition when_open :: "bool \<Rightarrow> ('w \<Rightarrow> unit \<times> 'w) \<Rightarrow> ('w, unit) bds" where
  [prog_defs]: "when_open b f = (if b then service f else ret ())"

definition tftp_cleanup :: "'w LoadEnv \<Rightarrow> u64 \<Rightarrow> TftpChildren \<Rightarrow> ('w, unit) bds" where
  "tftp_cleanup E ControllerHandle ch =
     bindM (if Dhcp4ChildHandle ch \<noteq> 0 then
         bindM (when_open (Dhcp4Open ch \<and> Dhcp4ToStop ch) (DhcpStop E)) (\<lambda>_.
         bindM (when_open (Dhcp4Open ch) (CloseProtocol E Dhcp4Protocol (Dhcp4ChildHandle ch) ControllerHandle)) (\<lambda>_.
         service (DestroyServiceChild E Dhcp4ServiceBinding ControllerHandle (Dhcp4ChildHandle ch))))
       else ret ()) (\<lambda>_.
     if Mtftp4ChildHandle ch \<noteq> 0 then
       bindM (when_open (Mtftp4Open ch \<and> AsciiFilePath ch) (PoolFree (PathE E))) (\<lambda>_.
       bindM (when_open (Mtftp4Open ch \<and> TftpContext ch) (PoolFree (PathE E))) (\<lambda>_.
       bindM (when_open (Mtftp4Open ch) (CloseProtocol E Mtftp4Protocol (Mtftp4ChildHandle ch) ControllerHandle)) (\<lambda>_.
       service (DestroyServiceChild E Mtftp4ServiceBinding ControllerHandle (Mtftp4ChildHandle ch)))))
     else ret ())"

text \<open>
  A node that is too short for its type is read beyond its path: up to the static flag, or up to the
  net mask when the flag is set.
\<close>

definition BdsTftpLoadImage ::
    "'w LoadEnv \<Rightarrow> u64 \<Rightarrow> dev_path \<Rightarrow> EFI_ALLOCATE_TYPE \<Rightarrow> bool \<Rightarrow> image_out \<Rightarrow> ('w, EFI_STATUS \<times> image_out) bds" where
  "BdsTftpLoadImage E ControllerHandle Remaining Type SizeWanted out =
     bindM (ASSERT (IS_DEVICE_PATH_NODE Remaining MESSAGING_DEVICE_PATH MSG_IPv4_DP)) (\<lambda>_.
     if window 4 (if ip_field 18 1 Remaining = [0] then 15 else 23) Remaining = None then stopM OutOfBounds
     else
       bindM (tftp_body E ControllerHandle Remaining Type SizeWanted out) (\<lambda>(Status, out, ch).
       bindM (tftp_cleanup E ControllerHandle ch) (\<lambda>_.
       ret (Status, if EFI_ERROR Status then (Some 0, snd out) else out))))"

section \<open>Choosing a loader\<close>

text \<open>\<open>FileLoaders\<close>, in the order of the table.\<close>

datatype loader = FileSystemLoader | FirmwareVolumeLoader | MemoryMapLoader | PxeLoader | TftpLoader

definition FileLoaders :: "loader list" where
  "FileLoaders = [FileSystemLoader, FirmwareVolumeLoader, MemoryMapLoader, PxeLoader, TftpLoader]"

primrec Support :: "loader \<Rightarrow> 'w LoadEnv \<Rightarrow> dev_path \<Rightarrow> u64 option \<Rightarrow> dev_path \<Rightarrow> ('w, bool) bds" where
  "Support FileSystemLoader = BdsFileSystemSupport"
| "Support FirmwareVolumeLoader = BdsFirmwareVolumeSupport"
| "Support MemoryMapLoader = BdsMemoryMapSupport"
| "Support PxeLoader = BdsPxeSupport"
| "Support TftpLoader = BdsTftpSupport"

definition LoadImageBy ::
    "nat \<Rightarrow> loader \<Rightarrow> 'w LoadEnv \<Rightarrow> dev_path \<Rightarrow> u64 option \<Rightarrow> dev_path \<Rightarrow> EFI_ALLOCATE_TYPE \<Rightarrow> bool \<Rightarrow> image_out \<Rightarrow>
     ('w, EFI_STATUS \<times> image_out) bds" where
  "LoadImageBy fuel l E DevicePath Handle Remaining Type SizeWanted out = (case l of
     FileSystemLoader \<Rightarrow> need_handle Handle (\<lambda>h. BdsFileSystemLoadImage E h Remaining Type SizeWanted out)
   | FirmwareVolumeLoader \<Rightarrow> need_handle Handle (\<lambda>h. BdsFirmwareVolumeLoadImage E h Remaining Type SizeWanted out)
   | MemoryMapLoader \<Rightarrow> BdsMemoryMapLoadImage E DevicePath Remaining Type SizeWanted out
   | PxeLoader \<Rightarrow> need_handle Handle (\<lambda>h. BdsPxeLoadImage fuel E h Remaining Type SizeWanted out)
   | TftpLoader \<Rightarrow> need_handle Handle (\<lambda>h. BdsTftpLoadImage E h Remaining Type SizeWanted out))"

primrec try_loaders ::
    "nat \<Rightarrow> loader list \<Rightarrow> 'w LoadEnv \<Rightarrow> dev_path \<Rightarrow> u64 option \<Rightarrow> dev_path \<Rightarrow> EFI_ALLOCATE_TYPE \<Rightarrow> bool \<Rightarrow> image_out \<Rightarrow>
     ('w, EFI_STATUS \<times> image_out) bds" where
  "try_loaders fuel [] E DevicePath Handle Remaining Type SizeWanted out = ret (EFI_UNSUPPORTED, out)"
| "try_loaders fuel (l # ls) E DevicePath Handle Remaining Type SizeWanted out =
     bindM (Support l E DevicePath Handle Remaining) (\<lambda>supported.
     if supported then LoadImageBy fuel l E DevicePath Handle Remaining Type SizeWanted out
     else try_loaders fuel ls E DevicePath Handle Remaining Type SizeWanted out)"

text \<open>The status, the path and the image.\<close>

definition BdsLoadImageAndUpdateDevicePath ::
    "nat \<Rightarrow> 'w LoadEnv \<Rightarrow> dev_path option \<Rightarrow> EFI_ALLOCATE_TYPE \<Rightarrow> bool \<Rightarrow> image_out \<Rightarrow>
     ('w, EFI_STATUS \<times> dev_path option \<times> image_out) bds" where
  "BdsLoadImageAndUpdateDevicePath fuel E DevicePath Type SizeWanted out =
     bindM (BdsConnectAndUpdateDevicePath fuel fuel (PathE E) DevicePath True None) (\<lambda>(Status, DevicePath, Handle, Remaining).
     if EFI_ERROR Status then ret (Status, DevicePath, out)
     else
       bindM (try_loaders fuel FileLoaders E (the DevicePath) Handle (the Remaining) Type SizeWanted out) (\<lambda>(Status, out).
       ret (Status, DevicePath, out)))"

definition BdsLoadImage ::
    "nat \<Rightarrow> 'w LoadEnv \<Rightarrow> dev_path option \<Rightarrow> EFI_ALLOCATE_TYPE \<Rightarrow> bool \<Rightarrow> image_out \<Rightarrow> ('w, EFI_STATUS \<times> image_out) bds" where
  "BdsLoadImage fuel E DevicePath Type SizeWanted out =
     bindM (BdsLoadImageAndUpdateDevicePath fuel E DevicePath Type SizeWanted out) (\<lambda>(Status, _, out). ret (Status, out))"

section \<open>Starting an application\<close>

text \<open>Five minutes on the watchdog while the image runs.\<close>

definition start_loaded :: "'w LoadEnv \<Rightarrow> u64 \<Rightarrow> u64 \<Rightarrow> u64 \<Rightarrow> ('w, EFI_STATUS) bds" where
  "start_loaded E ImageHandle LoadOptionsSize LoadOptions =
     tryE (if LoadOptionsSize \<noteq> 0 then
         tryE (service (HandleProtocol (PathE E) LoadedImage ImageHandle))
           (bindM (service (SetLoadOptions E ImageHandle LoadOptionsSize LoadOptions)) (\<lambda>_. ret EFI_SUCCESS))
       else ret EFI_SUCCESS)
     (bindM (service (SetWatchdogTimer E (5 * 60))) (\<lambda>_.
      bindM (service (BsStartImage E ImageHandle)) (\<lambda>Status.
      bindM (service (SetWatchdogTimer E 0)) (\<lambda>_. ret Status))))"

definition BdsStartEfiApplication ::
    "nat \<Rightarrow> 'w LoadEnv \<Rightarrow> u64 \<Rightarrow> dev_path option \<Rightarrow> u64 \<Rightarrow> u64 \<Rightarrow> ('w, EFI_STATUS) bds" where
  "BdsStartEfiApplication fuel E ParentImageHandle DevicePath LoadOptionsSize LoadOptions =
     bindM (BdsLoadImageAndUpdateDevicePath fuel E DevicePath AllocateAnyPages True (None, None)) (\<lambda>(Status, DevicePath, BinaryBuffer, BinarySize).
     if EFI_ERROR Status then ret Status
     else case (BinaryBuffer, BinarySize) of
       (Some a, Some n) \<Rightarrow>
         bindM (get_bytes a n) (\<lambda>bytes.
         bindM (service (BsLoadImage E ParentImageHandle (the DevicePath) bytes)) (\<lambda>(Status, ImageHandle).
         if EFI_ERROR Status then ret Status
         else start_loaded E ImageHandle LoadOptionsSize LoadOptions))
     | _ \<Rightarrow> stopM UninitializedRead)"

end
