(* ===== verification/BdsLoadSpec.thy ===== *)
theory BdsLoadSpec
  imports BdsLoad "HOL-Library.Multiset"
begin

text \<open>
  What the loaders promise and where they fail: a download gives back everything it has opened, a file
  that is too big is reported as loaded, the progress line stays in its buffer as long as the server
  keeps to the size it announced, and a device that is not there goes unnoticed.
\<close>

section \<open>No device\<close>

text \<open>
  When no device is found for a path without removable devices, connecting it reports
  success without a handle, and starting an application from it goes on with the uninitialised handle.
\<close>
theorem no_device_is_success:
  assumes loc: "\<And>w. \<exists>h r w'. LocateDevicePath (PathE E) p w = ((EFI_NOT_FOUND, h, r), w')"
    and p: "\<not> IsDevicePathEnd p" "\<not> IsRemovableDevice p"
  shows "(\<exists>s'. BdsConnectDevicePath (Suc n) (Suc k) (PathE E) (Some p) True s = Ret ((EFI_SUCCESS, None, Some p), s')) \<and>
    BdsStartEfiApplication (Suc k) E parent (Some p) optsize opts s = Stop UninitializedRead"
proof -
  obtain h r w where l: "LocateDevicePath (PathE E) p (BdsWorld s) = ((EFI_NOT_FOUND, h, r), w)"
    using loc by blast
  have con: "BdsConnectAndUpdateDevicePath (Suc j) (Suc k) (PathE E) (Some p) True None s
      = Ret ((EFI_SUCCESS, Some p, None, Some p), s\<lparr>BdsWorld := w\<rparr>)" for j
    using l p by (simp add: bindM_def service_def ret_def)
  then have "BdsStartEfiApplication (Suc k) E parent (Some p) optsize opts s = Stop UninitializedRead"
    by (simp add: BdsStartEfiApplication_def BdsLoadImageAndUpdateDevicePath_def FileLoaders_def BdsFileSystemSupport_def
        need_handle_def stopM_def bindM_def del: BdsConnectAndUpdateDevicePath.simps)
  with con [of n] show ?thesis
    by (simp add: BdsConnectDevicePath_def bindM_def ret_def del: BdsConnectAndUpdateDevicePath.simps)
qed

section \<open>Programs and what they leave behind\<close>

text \<open>From \<open>P\<close> the program returns with \<open>Q\<close>, or it stops at an error of the code; its fuel is enough.\<close>

definition yields :: "('s \<Rightarrow> bool) \<Rightarrow> ('s, 'a) prog \<Rightarrow> ('a \<Rightarrow> 's \<Rightarrow> bool) \<Rightarrow> bool" where
  "yields P m Q \<longleftrightarrow> (\<forall>s. P s \<longrightarrow> (case m s of Ret (x, s') \<Rightarrow> Q x s' | Stop r \<Rightarrow> r \<noteq> OutOfFuel))"

named_theorems yields_rules \<open>rules for the outcome of programs\<close>

lemma yields_ret [yields_rules]: "(\<And>s. P s \<Longrightarrow> Q x s) \<Longrightarrow> yields P (ret x) Q"
  by (simp add: yields_def ret_def)

lemma yields_stop [yields_rules]: "r \<noteq> OutOfFuel \<Longrightarrow> yields P (stopM r) Q"
  by (simp add: yields_def stopM_def)

lemma yields_bind: "yields P m R \<Longrightarrow> (\<And>x. yields (R x) (f x) Q) \<Longrightarrow> yields P (bindM m f) Q"
  unfolding yields_def bindM_def by (fastforce split: outcome.splits prod.splits)

lemma yields_pre: "yields P' m Q \<Longrightarrow> (\<And>s. P s \<Longrightarrow> P' s) \<Longrightarrow> yields P m Q"
  by (auto simp: yields_def)

lemma yields_post: "yields P m Q' \<Longrightarrow> (\<And>x s. Q' x s \<Longrightarrow> Q x s) \<Longrightarrow> yields P m Q"
  unfolding yields_def by (fastforce split: outcome.splits prod.splits)

lemma yields_if [yields_rules]: "(b \<Longrightarrow> yields P m Q) \<Longrightarrow> (\<not> b \<Longrightarrow> yields P n Q) \<Longrightarrow> yields P (if b then m else n) Q"
  by simp

lemma yields_ASSERT [yields_rules]: "(\<And>s. P s \<Longrightarrow> b \<Longrightarrow> Q () s) \<Longrightarrow> yields P (ASSERT b) Q"
  by (auto simp: yields_def ASSERT_def ret_def stopM_def)

lemma yields_assume: "(b \<Longrightarrow> yields P m Q) \<Longrightarrow> yields (\<lambda>s. b \<and> P s) m Q"
  by (auto simp: yields_def)

lemma yields_service:
  "(\<And>w x w'. P w \<Longrightarrow> f w = (x, w') \<Longrightarrow> Q x w') \<Longrightarrow> yields (\<lambda>s. P (BdsWorld s)) (service f) (\<lambda>x s. Q x (BdsWorld s))"
  by (auto simp: yields_def service_def split: prod.splits)

section \<open>The resources of a download\<close>

datatype resource = Child protocol u64 | Opened protocol u64 | DhcpRunning | PoolBlock | ImagePages

text \<open>What a state of the world says is held, and what each service does to it.\<close>

definition keeps_books :: "'w LoadEnv \<Rightarrow> ('w \<Rightarrow> resource multiset) \<Rightarrow> bool" where
  "keeps_books E L \<longleftrightarrow>
     (\<forall>b c w st h w'. CreateServiceChild E b c w = ((st, h), w') \<longrightarrow>
        L w' = (if EFI_ERROR st then L w else add_mset (Child b h) (L w)) \<and> (h = 0 \<longleftrightarrow> EFI_ERROR st)) \<and>
     (\<forall>p h c w st w'. OpenProtocol E p h c w = (st, w') \<longrightarrow> L w' = (if EFI_ERROR st then L w else add_mset (Opened p h) (L w))) \<and>
     (\<forall>w st w'. DhcpStart E w = (st, w') \<longrightarrow> L w' = (if EFI_ERROR st then L w else add_mset DhcpRunning (L w))) \<and>
     (\<forall>f w st k w'. TftpGetInfo E f w = ((st, k), w') \<longrightarrow> L w' = (if EFI_ERROR st then L w else add_mset PoolBlock (L w))) \<and>
     (\<forall>k w st os w'. TftpParseOptions E k w = ((st, os), w') \<longrightarrow> L w' = (if EFI_ERROR st then L w else add_mset PoolBlock (L w))) \<and>
     (\<forall>n w ok w'. PoolAllocate (PathE E) n w = (ok, w') \<longrightarrow> L w' = (if ok then add_mset PoolBlock (L w) else L w)) \<and>
     (\<forall>t n a w st b' w'. LoadPages E t n a w = ((st, b'), w') \<longrightarrow> L w' = (if EFI_ERROR st then L w else add_mset ImagePages (L w))) \<and>
     (\<forall>b c h w u w'. DestroyServiceChild E b c h w = (u, w') \<longrightarrow> L w' = L w - {#Child b h#}) \<and>
     (\<forall>p h c w u w'. CloseProtocol E p h c w = (u, w') \<longrightarrow> L w' = L w - {#Opened p h#}) \<and>
     (\<forall>w u w'. DhcpStop E w = (u, w') \<longrightarrow> L w' = L w - {#DhcpRunning#}) \<and>
     (\<forall>os' w st w'. DhcpConfigure E os' w = (st, w') \<longrightarrow> L w' = L w) \<and>
     (\<forall>w md w'. DhcpGetModeData E w = (md, w') \<longrightarrow> L w' = L w) \<and>
     (\<forall>cfg w st w'. TftpConfigure E cfg w = (st, w') \<longrightarrow> L w' = L w) \<and>
     (\<forall>f m w rd w'. TftpReadFile E f m w = (rd, w') \<longrightarrow> L w' = L w) \<and>
     (\<forall>dp w tx w'. PathToText E dp w = (tx, w') \<longrightarrow> L w' = add_mset PoolBlock (L w)) \<and>
     (\<forall>w u w'. PoolFree (PathE E) w = (u, w') \<longrightarrow> L w' = L w - {#PoolBlock#}) \<and>
     (\<forall>a m w u w'. DropPages E a m w = (u, w') \<longrightarrow> L w' = L w - {#ImagePages#})"

definition has :: "('w \<Rightarrow> resource multiset) \<Rightarrow> resource multiset \<Rightarrow> 'w BdsState \<Rightarrow> bool" where
  "has L M s \<longleftrightarrow> L (BdsWorld s) = M"

lemma service_has:
  "(\<And>w x w'. L w = M \<Longrightarrow> f w = (x, w') \<Longrightarrow> L w' = N x) \<Longrightarrow> yields (has L M) (service f) (\<lambda>x. has L (N x))"
  by (auto simp: yields_def service_def has_def split: prod.splits)

lemma books:
  assumes "keeps_books E L"
  shows "CreateServiceChild E b c w = ((st, h), w') \<Longrightarrow>
      L w' = (if EFI_ERROR st then L w else add_mset (Child b h) (L w)) \<and> (h = 0 \<longleftrightarrow> EFI_ERROR st)"
    and "OpenProtocol E p h c w = (st, w') \<Longrightarrow> L w' = (if EFI_ERROR st then L w else add_mset (Opened p h) (L w))"
    and "DhcpStart E w = (st, w') \<Longrightarrow> L w' = (if EFI_ERROR st then L w else add_mset DhcpRunning (L w))"
    and "TftpGetInfo E f w = ((st, k), w') \<Longrightarrow> L w' = (if EFI_ERROR st then L w else add_mset PoolBlock (L w))"
    and "TftpParseOptions E k w = ((st, os), w') \<Longrightarrow> L w' = (if EFI_ERROR st then L w else add_mset PoolBlock (L w))"
    and "PoolAllocate (PathE E) n w = (ok, w') \<Longrightarrow> L w' = (if ok then add_mset PoolBlock (L w) else L w)"
    and "LoadPages E t n a w = ((st, b'), w') \<Longrightarrow> L w' = (if EFI_ERROR st then L w else add_mset ImagePages (L w))"
    and "DestroyServiceChild E b c h w = (u, w') \<Longrightarrow> L w' = L w - {#Child b h#}"
    and "CloseProtocol E p h c w = (u, w') \<Longrightarrow> L w' = L w - {#Opened p h#}"
    and "DhcpStop E w = (u, w') \<Longrightarrow> L w' = L w - {#DhcpRunning#}"
    and "DhcpConfigure E os' w = (st, w') \<Longrightarrow> L w' = L w"
    and "DhcpGetModeData E w = (md, w') \<Longrightarrow> L w' = L w"
    and "TftpConfigure E cfg w = (st, w') \<Longrightarrow> L w' = L w"
    and "TftpReadFile E f m w = (rd, w') \<Longrightarrow> L w' = L w"
    and "PathToText E dp w = (tx, w') \<Longrightarrow> L w' = add_mset PoolBlock (L w)"
    and "PoolFree (PathE E) w = (u, w') \<Longrightarrow> L w' = L w - {#PoolBlock#}"
    and "DropPages E a m w = (u, w') \<Longrightarrow> L w' = L w - {#ImagePages#}"
proof -
  note f1 = assms [unfolded keeps_books_def]
  note f2 = f1 [THEN conjunct2]
  note f3 = f2 [THEN conjunct2]
  note f4 = f3 [THEN conjunct2]
  note f5 = f4 [THEN conjunct2]
  note f6 = f5 [THEN conjunct2]
  note f7 = f6 [THEN conjunct2]
  note f8 = f7 [THEN conjunct2]
  note f9 = f8 [THEN conjunct2]
  note f10 = f9 [THEN conjunct2]
  note f11 = f10 [THEN conjunct2]
  note f12 = f11 [THEN conjunct2]
  note f13 = f12 [THEN conjunct2]
  note f14 = f13 [THEN conjunct2]
  note f15 = f14 [THEN conjunct2]
  note f16 = f15 [THEN conjunct2]
  note f17 = f16 [THEN conjunct2]
  show "CreateServiceChild E b c w = ((st, h), w') \<Longrightarrow>
      L w' = (if EFI_ERROR st then L w else add_mset (Child b h) (L w)) \<and> (h = 0 \<longleftrightarrow> EFI_ERROR st)"
    by (rule f1 [THEN conjunct1, rule_format])
  show "OpenProtocol E p h c w = (st, w') \<Longrightarrow> L w' = (if EFI_ERROR st then L w else add_mset (Opened p h) (L w))"
    by (rule f2 [THEN conjunct1, rule_format])
  show "DhcpStart E w = (st, w') \<Longrightarrow> L w' = (if EFI_ERROR st then L w else add_mset DhcpRunning (L w))"
    by (rule f3 [THEN conjunct1, rule_format])
  show "TftpGetInfo E f w = ((st, k), w') \<Longrightarrow> L w' = (if EFI_ERROR st then L w else add_mset PoolBlock (L w))"
    by (rule f4 [THEN conjunct1, rule_format])
  show "TftpParseOptions E k w = ((st, os), w') \<Longrightarrow> L w' = (if EFI_ERROR st then L w else add_mset PoolBlock (L w))"
    by (rule f5 [THEN conjunct1, rule_format])
  show "PoolAllocate (PathE E) n w = (ok, w') \<Longrightarrow> L w' = (if ok then add_mset PoolBlock (L w) else L w)"
    by (rule f6 [THEN conjunct1, rule_format])
  show "LoadPages E t n a w = ((st, b'), w') \<Longrightarrow> L w' = (if EFI_ERROR st then L w else add_mset ImagePages (L w))"
    by (rule f7 [THEN conjunct1, rule_format])
  show "DestroyServiceChild E b c h w = (u, w') \<Longrightarrow> L w' = L w - {#Child b h#}"
    by (rule f8 [THEN conjunct1, rule_format])
  show "CloseProtocol E p h c w = (u, w') \<Longrightarrow> L w' = L w - {#Opened p h#}"
    by (rule f9 [THEN conjunct1, rule_format])
  show "DhcpStop E w = (u, w') \<Longrightarrow> L w' = L w - {#DhcpRunning#}"
    by (rule f10 [THEN conjunct1, rule_format])
  show "DhcpConfigure E os' w = (st, w') \<Longrightarrow> L w' = L w"
    by (rule f11 [THEN conjunct1, rule_format])
  show "DhcpGetModeData E w = (md, w') \<Longrightarrow> L w' = L w"
    by (rule f12 [THEN conjunct1, rule_format])
  show "TftpConfigure E cfg w = (st, w') \<Longrightarrow> L w' = L w"
    by (rule f13 [THEN conjunct1, rule_format])
  show "TftpReadFile E f m w = (rd, w') \<Longrightarrow> L w' = L w"
    by (rule f14 [THEN conjunct1, rule_format])
  show "PathToText E dp w = (tx, w') \<Longrightarrow> L w' = add_mset PoolBlock (L w)"
    by (rule f15 [THEN conjunct1, rule_format])
  show "PoolFree (PathE E) w = (u, w') \<Longrightarrow> L w' = L w - {#PoolBlock#}"
    by (rule f16 [THEN conjunct1, rule_format])
  show "DropPages E a m w = (u, w') \<Longrightarrow> L w' = L w - {#ImagePages#}"
    by (rule f17 [rule_format])
qed

definition opened_child :: "protocol \<Rightarrow> protocol \<Rightarrow> u64 \<Rightarrow> bool \<Rightarrow> resource multiset" where
  "opened_child b p h opn = (if h = 0 then {#} else {#Child b h#}) + (if opn then {#Opened p h#} else {#})"

lemma open_child_books:
  assumes "keeps_books E L"
  shows "yields (has L M) (open_child E c b p)
    (\<lambda>(st, h, opn) s. has L (M + opened_child b p h opn) s \<and> (opn \<longleftrightarrow> \<not> EFI_ERROR st) \<and> (opn \<longrightarrow> h \<noteq> 0))"
  by (auto simp: yields_def open_child_def bindM_def service_def ret_def has_def opened_child_def split: prod.splits
      dest!: books(1,2) [OF assms])

lemma run_dhcp_books:
  assumes "keeps_books E L"
  shows "yields (has L M) (run_dhcp E) (\<lambda>(st, stop, mode). has L (M + (if stop then {#DhcpRunning#} else {#})))"
  by (auto simp: yields_def run_dhcp_def bindM_def service_def ret_def has_def Let_def split: prod.splits if_splits
      dest!: books(3,11,12) [OF assms])

lemma GetFileSize_books:
  assumes "keeps_books E L"
  shows "yields (has L M) (Mtftp4GetFileSize E f) (\<lambda>_ s. \<exists>k\<le>1. has L (M + replicate_mset k PoolBlock) s)"
  by (auto simp: yields_def Mtftp4GetFileSize_def bindM_def service_def ret_def has_def Let_def split: prod.splits if_splits
      dest!: books(4,5,16) [OF assms] intro: exI [of _ 0] exI [of _ 1])

section \<open>The loop over the buffer sizes\<close>

lemma clear_low_bits: "(x :: u64) AND NOT (mask n) = push_bit n (drop_bit n x)"
  by (rule bit_word_eqI) (auto simp: bit_simps)

lemma next_size:
  assumes "a \<le> SIZE_16MB"
  shows "(a + SIZE_16MB) AND NOT (SIZE_16MB - 1) = (if a = SIZE_16MB then 2 * SIZE_16MB else SIZE_16MB)"
proof -
  have u: "unat a \<le> 2 ^ 24" "unat (a + SIZE_16MB) = unat a + 2 ^ 24" "a = SIZE_16MB \<longleftrightarrow> unat a = 2 ^ 24"
    using assms by (auto simp: SIZE_16MB_def word_le_nat_alt unat_word_ariths word_unat_eq_iff)
  have "unat (drop_bit 24 (a + SIZE_16MB)) = (if a = SIZE_16MB then 2 else 1)"
    using u by (auto simp: unsigned_drop_bit_eq drop_bit_eq_div unat_div)
  then have "drop_bit 24 (a + SIZE_16MB) = (if a = SIZE_16MB then 2 else 1)"
    by (simp add: word_unat_eq_iff split: if_splits)
  moreover have "SIZE_16MB - 1 = mask 24" by (simp add: SIZE_16MB_def mask_eq_exp_minus_1)
  ultimately show ?thesis
    by (simp add: clear_low_bits) (simp add: SIZE_16MB_def push_bit_eq_mult)
qed

text \<open>The rounds the loop needs from a size on.\<close>

definition rounds_for :: "u64 \<Rightarrow> nat" where
  "rounds_for a = (if a > MAX_TFTP_FILE_SIZE then 1 else if a = MAX_TFTP_FILE_SIZE then 2 else 3)"

lemma rounds_for_next: "a \<le> MAX_TFTP_FILE_SIZE \<Longrightarrow> rounds_for ((a + SIZE_16MB) AND NOT (SIZE_16MB - 1)) < rounds_for a"
  using next_size [of a] by (auto simp: rounds_for_def MAX_TFTP_FILE_SIZE_def SIZE_16MB_def)

lemma check_packet_outcome:
  "case Mtftp4CheckPacket C p s of Ret (x, s') \<Rightarrow> s' = s | Stop r \<Rightarrow> r = OutOfBounds"
  by (cases p) (simp add: Mtftp4CheckPacket_def Let_def ret_def stopM_def)

lemma check_packets_outcome:
  "case check_packets C ps s of Ret (x, s') \<Rightarrow> s' = s | Stop r \<Rightarrow> r = OutOfBounds"
proof (induction ps arbitrary: C)
  case (Cons p ps)
  show ?case
  proof (cases "Mtftp4CheckPacket C p s")
    case (Ret y)
    then show ?thesis
      using check_packet_outcome [of s C p] Cons.IH [of "fst y"] by (cases y) (simp add: bindM_def)
  next
    case (Stop r)
    then show ?thesis using check_packet_outcome [of s C p] by (simp add: bindM_def)
  qed
qed (simp add: ret_def)

lemma put_image_outcome:
  "case put_image a bs s of Ret (x, s') \<Rightarrow> BdsWorld s' = BdsWorld s | Stop r \<Rightarrow> r = UninitializedRead"
  by (simp add: put_image_def put_bytes_def modify_def stopM_def split: option.splits)

definition images :: "('w \<Rightarrow> resource multiset) \<Rightarrow> resource multiset \<Rightarrow> EFI_STATUS \<Rightarrow> 'w BdsState \<Rightarrow> bool" where
  "images L M st s \<longleftrightarrow> (\<exists>j\<le>1. (EFI_ERROR st \<longrightarrow> j = 0) \<and> has L (M + replicate_mset j ImagePages) s)"

lemma tftp_loop_books:
  assumes E: "keeps_books E L" and "rounds_for a \<le> n"
  shows "yields (has L M) (tftp_loop n E Type f wanted C a st out) (\<lambda>(st, out). images L M st)"
  using assms(2)
proof (induction n arbitrary: C a st out)
  case 0
  then show ?case by (simp add: rounds_for_def split: if_splits)
next
  case (Suc n)
  show ?case
  proof (cases "a > MAX_TFTP_FILE_SIZE")
    case True
    then show ?thesis by (auto simp: yields_def ret_def images_def intro: exI [of _ 0])
  next
    case False
    have IH: "yields (has L M) (tftp_loop n E Type f wanted C' ((a + SIZE_16MB) AND NOT (SIZE_16MB - 1)) st' out')
        (\<lambda>(st, out). images L M st)" for C' st' out'
      using Suc.prems False rounds_for_next [of a] by (intro Suc.IH) (auto simp: not_less)
    show ?thesis
      unfolding yields_def
    proof (intro allI impI)
      fix s
      assume s: "has L M s"
      obtain st1 base w1 where pg: "LoadPages E Type (EFI_SIZE_TO_PAGES a) (fst out) (BdsWorld s) = ((st1, base), w1)"
        by (metis prod.exhaust)
      obtain st2 k bytes packets w2 where rd: "TftpReadFile E f a w1 = ((st2, k, bytes, packets), w2)" by (metis prod.exhaust)
      let ?C0 = "C\<lparr>DownloadedNbOfBytes := 0, LastReportedNbOfBytes := 0\<rparr>" and ?s2 = "s\<lparr>BdsWorld := w2\<rparr>"
      have L: "L w1 = (if EFI_ERROR st1 then M else add_mset ImagePages M)" "L w2 = L w1"
        using books(7) [OF E pg] books(14) [OF E rd] s by (auto simp: has_def)
      show "case tftp_loop (Suc n) E Type f wanted C a st out s of Ret (x, s') \<Rightarrow> (case x of (st, out) \<Rightarrow> images L M st) s'
          | Stop r \<Rightarrow> r \<noteq> OutOfFuel"
      proof (cases "EFI_ERROR st1")
        case True
        then show ?thesis
          using False pg L by (auto simp: bindM_def service_def ret_def images_def has_def intro: exI [of _ 0])
      next
        case ok: False
        show ?thesis
        proof (cases "check_packets ?C0 packets ?s2")
          case (Stop r)
          then show ?thesis
            using False ok pg rd check_packets_outcome [of ?s2 ?C0 packets] by (simp add: bindM_def service_def)
        next
          case chk: (Ret y)
          obtain C1 where y: "y = (C1, ?s2)"
            using chk check_packets_outcome [of ?s2 ?C0 packets] by (cases y) simp
          show ?thesis
          proof (cases "put_image base bytes ?s2")
            case (Stop r)
            then show ?thesis
              using False ok pg rd chk y put_image_outcome [of ?s2 base bytes] by (simp add: bindM_def service_def)
          next
            case put: (Ret z)
            obtain s3 where z: "z = ((), s3)" "BdsWorld s3 = w2"
              using put put_image_outcome [of ?s2 base bytes] by (cases z) simp
            obtain w4 where drop: "DropPages E base (EFI_SIZE_TO_PAGES a) w2 = ((), w4)" by (metis old.unit.exhaust prod.exhaust)
            have "has L M (s3\<lparr>BdsWorld := w4\<rparr>)"
              using books(17) [OF E drop] L ok by (simp add: has_def)
            then show ?thesis
              using False ok pg rd chk y put z drop L IH [of C1 st2 "(base, snd out)", unfolded yields_def, rule_format, of "s3\<lparr>BdsWorld := w4\<rparr>"]
              by (auto simp: bindM_def service_def ret_def stopM_def images_def has_def
                  intro: exI [of _ 0] exI [of _ 1] split: outcome.splits)
          qed
        qed
      qed
    qed
  qed
qed

section \<open>The whole download\<close>

lemma yields_ex: "(\<And>k. yields (P k) m Q) \<Longrightarrow> yields (\<lambda>s. \<exists>k. P k s) m Q"
  by (auto simp: yields_def)

lemma rounds_for_le: "rounds_for a \<le> 3"
  by (simp add: rounds_for_def)

text \<open>The blocks a download still has to free, and what it keeps for good: its image and lost blocks.\<close>

definition blocks :: "TftpChildren \<Rightarrow> resource multiset" where
  "blocks ch = replicate_mset (of_bool (AsciiFilePath ch) + of_bool (TftpContext ch)) PoolBlock"

definition kept :: "('w \<Rightarrow> resource multiset) \<Rightarrow> resource multiset \<Rightarrow> EFI_STATUS \<Rightarrow> 'w BdsState \<Rightarrow> bool" where
  "kept L M st s \<longleftrightarrow> (\<exists>j\<le>1. \<exists>k\<le>2. (EFI_ERROR st \<longrightarrow> j = 0) \<and>
     L (BdsWorld s) = M + replicate_mset j ImagePages + replicate_mset k PoolBlock)"

lemma kept_lostI: "L (BdsWorld s) = M + replicate_mset k PoolBlock \<Longrightarrow> k \<le> 2 \<Longrightarrow> kept L M st s"
  unfolding kept_def by (rule exI [of _ "0::nat"]) auto

lemma images_kept: "images L (M + replicate_mset k PoolBlock) st s \<Longrightarrow> k \<le> 2 \<Longrightarrow> kept L M st s"
  unfolding kept_def images_def has_def by (auto simp: ac_simps)

definition downloaded ::
    "('w \<Rightarrow> resource multiset) \<Rightarrow> resource multiset \<Rightarrow> TftpChildren \<Rightarrow> EFI_STATUS \<times> image_out \<times> TftpChildren \<Rightarrow> 'w BdsState \<Rightarrow> bool" where
  "downloaded L M ch = (\<lambda>(st, out, ch') s. kept L (M + blocks ch') st s \<and>
     ch'\<lparr>AsciiFilePath := False, TftpContext := False\<rparr> = ch)"

lemma tftp_download_books:
  assumes E: "keeps_books E L" and ch: "\<not> AsciiFilePath ch" "\<not> TftpContext ch"
  shows "yields (has L M) (tftp_download E node Type wanted out mode ch) (downloaded L M ch)"
proof -
  have same: "ch\<lparr>AsciiFilePath := False, TftpContext := False\<rparr> = ch" using ch by simp
  let ?M2 = "M + replicate_mset 2 PoolBlock" and ?ch1 = "ch\<lparr>AsciiFilePath := True\<rparr>"
  have loop: "yields (has L (add_mset PoolBlock (?M2 + replicate_mset k PoolBlock)))
      (bindM (tftp_loop 3 E Type f wanted C a st out) (\<lambda>(Status, out). ret (Status, out, ?ch1\<lparr>TftpContext := True\<rparr>)))
      (downloaded L M ch)" if "k \<le> 1" for k f C a st
    using that ch same
    by (intro yields_bind [OF tftp_loop_books [OF E rounds_for_le]])
       (auto simp: yields_def ret_def downloaded_def blocks_def numeral_2_eq_2 intro!: images_kept [where k = "Suc k"])
  have ctx: "yields (has L (?M2 + replicate_mset k PoolBlock))
      (bindM (service (PoolAllocate (PathE E) 24)) (\<lambda>Context.
         if \<not> Context then ret (EFI_OUT_OF_RESOURCES, out, ?ch1)
         else bindM (tftp_loop 3 E Type f wanted C a st out) (\<lambda>(Status, out). ret (Status, out, ?ch1\<lparr>TftpContext := True\<rparr>))))
      (downloaded L M ch)" if "k \<le> 1" for k f C a st
    using that ch same loop [OF that]
    by (intro yields_bind [OF service_has [where N = "\<lambda>ok. if ok then add_mset PoolBlock (?M2 + replicate_mset k PoolBlock)
          else ?M2 + replicate_mset k PoolBlock"]])
       (auto dest: books(6) [OF E] simp: yields_def ret_def has_def downloaded_def blocks_def numeral_2_eq_2
          intro!: kept_lostI [where k = "Suc k"])
  have size: "yields (has L (add_mset PoolBlock (add_mset PoolBlock M)))
      (bindM (Mtftp4GetFileSize E f) (\<lambda>(SizeStatus, Announced).
         let Bytes = (case Announced of None \<Rightarrow> 0 | Some n \<Rightarrow> n);
             TftpBufferSize = (if SizeStatus = EFI_SUCCESS then Bytes else SIZE_16MB)
         in bindM (service (PoolAllocate (PathE E) 24)) (\<lambda>Context.
            if \<not> Context then ret (EFI_OUT_OF_RESOURCES, out, ?ch1)
            else bindM (tftp_loop 3 E Type f wanted \<lparr>FileSize = Bytes, DownloadedNbOfBytes = 0, LastReportedNbOfBytes = 0\<rparr>
                TftpBufferSize st out) (\<lambda>(Status, out). ret (Status, out, ?ch1\<lparr>TftpContext := True\<rparr>)))))
      (downloaded L M ch)" for f st
  proof (rule yields_bind [OF GetFileSize_books [OF E]], intro yields_ex)
    fix x :: "EFI_STATUS \<times> u64 option" and k
    show "yields (\<lambda>s. k \<le> 1 \<and> has L (add_mset PoolBlock (add_mset PoolBlock M) + replicate_mset k PoolBlock) s)
      ((\<lambda>(SizeStatus, Announced). let Bytes = (case Announced of None \<Rightarrow> 0 | Some n \<Rightarrow> n);
             TftpBufferSize = (if SizeStatus = EFI_SUCCESS then Bytes else SIZE_16MB)
         in bindM (service (PoolAllocate (PathE E) 24)) (\<lambda>Context.
            if \<not> Context then ret (EFI_OUT_OF_RESOURCES, out, ?ch1)
            else bindM (tftp_loop 3 E Type f wanted \<lparr>FileSize = Bytes, DownloadedNbOfBytes = 0, LastReportedNbOfBytes = 0\<rparr>
                TftpBufferSize st out) (\<lambda>(Status, out). ret (Status, out, ?ch1\<lparr>TftpContext := True\<rparr>)))) x)
      (downloaded L M ch)"
      using ctx [of k] by (cases x) (simp only: prod.case Let_def, intro yields_assume, simp add: numeral_2_eq_2)
  qed
  show ?thesis
    unfolding tftp_download_def Let_def [of "ch\<lparr>AsciiFilePath := True\<rparr>"] Let_def [of "ToAscii _ _"]
  proof (rule yields_bind [OF service_has [where N = "\<lambda>_. M"]])
    show "L w' = M" if "L w = M" "TftpConfigure E (tftp_config node mode) w = (x, w')" for w x w'
      using books(13) [OF E that(2)] that(1) by simp
    fix st :: EFI_STATUS
    have no: "yields (has L M) (ret (st, out, ch)) (downloaded L M ch)"
      using ch same by (auto simp: yields_def ret_def has_def downloaded_def blocks_def intro!: kept_lostI [where k = 0])
    have path: "yields (has L (add_mset PoolBlock M)) (bindM (service (PoolAllocate (PathE E) n)) (\<lambda>AsciiPath.
        bindM (ASSERT AsciiPath) (\<lambda>_. rest))) (downloaded L M ch)"
      if "yields (has L (add_mset PoolBlock (add_mset PoolBlock M))) rest (downloaded L M ch)" for n rest
    proof (rule yields_bind [OF service_has [where N = "\<lambda>ok. if ok then add_mset PoolBlock (add_mset PoolBlock M)
          else add_mset PoolBlock M"]])
      show "L w' = (if ok then add_mset PoolBlock (add_mset PoolBlock M) else add_mset PoolBlock M)"
        if "L w = add_mset PoolBlock M" "PoolAllocate (PathE E) n w = (ok, w')" for w ok w'
        using books(6) [OF E that(2)] that(1) by simp
      show "yields (has L (if ok then add_mset PoolBlock (add_mset PoolBlock M) else add_mset PoolBlock M))
          (bindM (ASSERT ok) (\<lambda>_. rest)) (downloaded L M ch)" for ok
        using that by (intro yields_bind [OF yields_ASSERT [where Q = "\<lambda>_. has L (add_mset PoolBlock (add_mset PoolBlock M))"]]) auto
    qed
    show "yields (has L M) (if EFI_ERROR st then ret (st, out, ch) else
        bindM (service (PathToText E (drop 27 (path_bytes node)))) (\<lambda>PathName.
        bindM (service (PoolAllocate (PathE E) (StrLen PathName + 1))) (\<lambda>AsciiPath.
        bindM (ASSERT AsciiPath) (\<lambda>_.
        bindM (Mtftp4GetFileSize E (ToAscii E PathName)) (\<lambda>(SizeStatus, Announced).
          let Bytes = (case Announced of None \<Rightarrow> 0 | Some n \<Rightarrow> n);
              TftpBufferSize = (if SizeStatus = EFI_SUCCESS then Bytes else SIZE_16MB)
          in bindM (service (PoolAllocate (PathE E) 24)) (\<lambda>Context.
             if \<not> Context then ret (EFI_OUT_OF_RESOURCES, out, ?ch1)
             else bindM (tftp_loop 3 E Type (ToAscii E PathName) wanted
                   \<lparr>FileSize = Bytes, DownloadedNbOfBytes = 0, LastReportedNbOfBytes = 0\<rparr> TftpBufferSize st out)
                 (\<lambda>(Status, out). ret (Status, out, ?ch1\<lparr>TftpContext := True\<rparr>))))))))
        (downloaded L M ch)"
      by (rule yields_if, rule no, rule yields_bind [OF service_has [where N = "\<lambda>_. add_mset PoolBlock M"]],
          (auto dest: books(15) [OF E])[1], rule path, rule size)
  qed
qed

text \<open>What the children of a download hold, and when they are as the cleaning up expects them.\<close>

definition held :: "TftpChildren \<Rightarrow> resource multiset" where
  "held ch = opened_child Dhcp4ServiceBinding Dhcp4Protocol (Dhcp4ChildHandle ch) (Dhcp4Open ch) +
     (if Dhcp4ToStop ch then {#DhcpRunning#} else {#}) +
     opened_child Mtftp4ServiceBinding Mtftp4Protocol (Mtftp4ChildHandle ch) (Mtftp4Open ch) + blocks ch"

definition nested :: "TftpChildren \<Rightarrow> bool" where
  "nested ch \<longleftrightarrow> (Dhcp4Open ch \<longrightarrow> Dhcp4ChildHandle ch \<noteq> 0) \<and> (Dhcp4ToStop ch \<longrightarrow> Dhcp4Open ch) \<and>
     (Mtftp4Open ch \<longrightarrow> Mtftp4ChildHandle ch \<noteq> 0) \<and> (AsciiFilePath ch \<or> TftpContext ch \<longrightarrow> Mtftp4Open ch)"

definition loaded_with :: "('w \<Rightarrow> resource multiset) \<Rightarrow> resource multiset \<Rightarrow> EFI_STATUS \<times> image_out \<times> TftpChildren \<Rightarrow> 'w BdsState \<Rightarrow> bool" where
  "loaded_with L M = (\<lambda>(st, out, ch) s. kept L (M + held ch) st s \<and> nested ch)"

lemma loaded_withI:
  "L (BdsWorld s) = M + held ch \<Longrightarrow> nested ch \<Longrightarrow> loaded_with L M (st, out, ch) s"
  by (auto simp: loaded_with_def intro!: kept_lostI [where k = 0])

lemma downloaded_loaded:
  assumes "yields (has L (M + held ch)) m (downloaded L (M + held ch) ch)"
    and "\<not> AsciiFilePath ch" "\<not> TftpContext ch" "nested ch" "Mtftp4Open ch"
  shows "yields (has L (M + held ch)) m (loaded_with L M)"
proof (rule yields_post [OF assms(1)])
  fix x s
  assume "downloaded L (M + held ch) ch x s"
  moreover obtain st out ch' where x: "x = (st, out, ch')" by (cases x)
  ultimately have k: "kept L (M + held ch + blocks ch') st s" and c: "ch'\<lparr>AsciiFilePath := False, TftpContext := False\<rparr> = ch"
    by (simp_all add: downloaded_def)
  have "held ch' = held ch + blocks ch'" "nested ch'"
    using assms(2-5) c by (auto simp: held_def blocks_def nested_def)
  then show "loaded_with L M x s" using k x by (simp add: loaded_with_def ac_simps)
qed

lemma loaded_stop: "nested ch \<Longrightarrow> yields (has L (M + held ch)) (ret (st, out, ch)) (loaded_with L M)"
  by (auto simp: yields_def ret_def has_def intro!: loaded_withI)

lemma tftp_addressed_books:
  assumes E: "keeps_books E L" and ch: "nested ch" "Mtftp4Open ch" "\<not> AsciiFilePath ch" "\<not> TftpContext ch" "\<not> Dhcp4ToStop ch"
    and open_dhcp: "Dhcp4Open ch \<or> static"
  shows "yields (has L (M + held ch)) (tftp_addressed E node Type wanted out static ch) (loaded_with L M)"
proof -
  let ?R = "\<lambda>(st, stop, mode) s. (stop \<longrightarrow> \<not> static) \<and> has L (M + held ch + (if stop then {#DhcpRunning#} else {#})) s"
  have dhcp: "yields (has L (M + held ch)) (if static then ret (EFI_SUCCESS, False, None) else run_dhcp E) ?R"
    by (rule yields_if, simp add: yields_def ret_def, rule yields_post [OF run_dhcp_books [OF E]], auto)
  have go: "yields (\<lambda>s. (stop \<longrightarrow> \<not> static) \<and> has L (M + held ch + (if stop then {#DhcpRunning#} else {#})) s)
      (let ch = ch\<lparr>Dhcp4ToStop := stop\<rparr>
       in if EFI_ERROR st then ret (st, out, ch) else tftp_download E node Type wanted out mode ch) (loaded_with L M)" for st stop mode
  proof (rule yields_assume)
    assume "stop \<longrightarrow> \<not> static"
    then have n: "nested (ch\<lparr>Dhcp4ToStop := stop\<rparr>)" "Mtftp4Open (ch\<lparr>Dhcp4ToStop := stop\<rparr>)"
        "\<not> AsciiFilePath (ch\<lparr>Dhcp4ToStop := stop\<rparr>)" "\<not> TftpContext (ch\<lparr>Dhcp4ToStop := stop\<rparr>)"
      using ch open_dhcp by (auto simp: nested_def)
    have "M + held ch + (if stop then {#DhcpRunning#} else {#}) = M + held (ch\<lparr>Dhcp4ToStop := stop\<rparr>)"
      using ch by (simp add: held_def blocks_def)
    then show "yields (has L (M + held ch + (if stop then {#DhcpRunning#} else {#})))
      (let ch = ch\<lparr>Dhcp4ToStop := stop\<rparr>
       in if EFI_ERROR st then ret (st, out, ch) else tftp_download E node Type wanted out mode ch) (loaded_with L M)"
      unfolding Let_def
      by (simp only:) (rule yields_if, rule loaded_stop [OF n(1)], rule downloaded_loaded [OF tftp_download_books [OF E n(3,4)] n(3,4,1,2)])
  qed
  show ?thesis
    unfolding tftp_addressed_def by (rule yields_bind [OF dhcp]) (auto simp only: split: prod.split intro: go)
qed

lemma tftp_served_books:
  assumes E: "keeps_books E L" and ch: "nested ch" "Mtftp4ChildHandle ch = 0" "\<not> AsciiFilePath ch" "\<not> TftpContext ch" "\<not> Dhcp4ToStop ch"
    and open_dhcp: "Dhcp4Open ch \<or> static"
  shows "yields (has L (M + held ch)) (tftp_served E h node Type wanted out static ch) (loaded_with L M)"
proof -
  have go: "yields (\<lambda>s. has L (M + held ch + opened_child Mtftp4ServiceBinding Mtftp4Protocol t opn) s \<and>
        (opn \<longleftrightarrow> \<not> EFI_ERROR st) \<and> (opn \<longrightarrow> t \<noteq> 0))
      (let ch = ch\<lparr>Mtftp4ChildHandle := t, Mtftp4Open := opn\<rparr>
       in if EFI_ERROR st then ret (st, out, ch) else tftp_addressed E node Type wanted out static ch) (loaded_with L M)" for st t opn
  proof -
    let ?ch = "ch\<lparr>Mtftp4ChildHandle := t, Mtftp4Open := opn\<rparr>"
    have m: "M + held ch + opened_child Mtftp4ServiceBinding Mtftp4Protocol t opn = M + held ?ch"
      using ch by (auto simp: held_def blocks_def nested_def opened_child_def)
    have n: "nested ?ch" if "opn \<longrightarrow> t \<noteq> 0" using ch that by (auto simp: nested_def)
    have "yields (has L (M + held ?ch)) (if EFI_ERROR st then ret (st, out, ?ch) else tftp_addressed E node Type wanted out static ?ch)
        (loaded_with L M)" if "opn \<longleftrightarrow> \<not> EFI_ERROR st" "opn \<longrightarrow> t \<noteq> 0"
      using that ch open_dhcp by (intro yields_if loaded_stop tftp_addressed_books E n) auto
    then show ?thesis unfolding m Let_def by (auto simp: yields_def)
  qed
  show ?thesis
    unfolding tftp_served_def by (rule yields_bind [OF open_child_books [OF E]]) (auto simp only: split: prod.split intro: go)
qed

lemma tftp_body_books:
  assumes E: "keeps_books E L"
  shows "yields (has L M) (tftp_body E h node Type wanted out) (loaded_with L M)"
proof -
  let ?static = "ip_field 18 1 node \<noteq> [0]"
  let ?R = "\<lambda>(st, d, opn) s. has L (M + opened_child Dhcp4ServiceBinding Dhcp4Protocol d opn) s \<and>
     (opn \<longleftrightarrow> \<not> EFI_ERROR st \<and> \<not> ?static) \<and> (opn \<longrightarrow> d \<noteq> 0)"
  have dhcp: "yields (has L M) (if ?static then ret (EFI_SUCCESS, 0, False) else
      open_child E h Dhcp4ServiceBinding Dhcp4Protocol) ?R"
    by (rule yields_if, simp add: yields_def ret_def opened_child_def, rule yields_post [OF open_child_books [OF E]], auto)
  have go: "yields (\<lambda>s. has L (M + opened_child Dhcp4ServiceBinding Dhcp4Protocol d opn) s \<and>
        (opn \<longleftrightarrow> \<not> EFI_ERROR st \<and> \<not> ?static) \<and> (opn \<longrightarrow> d \<noteq> 0))
      (let ch = no_children\<lparr>Dhcp4ChildHandle := d, Dhcp4Open := opn\<rparr>
       in if EFI_ERROR st then ret (st, out, ch) else tftp_served E h node Type wanted out ?static ch) (loaded_with L M)" for st d opn
  proof -
    let ?ch = "no_children\<lparr>Dhcp4ChildHandle := d, Dhcp4Open := opn\<rparr>"
    have m: "M + opened_child Dhcp4ServiceBinding Dhcp4Protocol d opn = M + held ?ch"
      by (simp add: held_def blocks_def no_children_def opened_child_def)
    have n: "nested ?ch" if "opn \<longrightarrow> d \<noteq> 0" using that by (auto simp: nested_def no_children_def)
    have "yields (has L (M + held ?ch)) (if EFI_ERROR st then ret (st, out, ?ch) else tftp_served E h node Type wanted out ?static ?ch)
        (loaded_with L M)" if "opn \<longleftrightarrow> \<not> EFI_ERROR st \<and> \<not> ?static" "opn \<longrightarrow> d \<noteq> 0"
      using that by (intro yields_if loaded_stop tftp_served_books E n) (auto simp: no_children_def)
    then show ?thesis unfolding m Let_def by (auto simp: yields_def)
  qed
  show ?thesis
    unfolding tftp_body_def Let_def [of ?static] by (rule yields_bind [OF dhcp]) (auto simp only: split: prod.split intro: go)
qed

lemma give_back:
  assumes "\<And>w u w'. f w = (u, w') \<Longrightarrow> L w' = L w - {#r#}"
  shows "yields (has L (X + (if b then {#r#} else {#}))) (when_open b f) (\<lambda>_. has L X)"
    and "yields (has L (add_mset r X)) (service f) (\<lambda>_. has L X)"
  using assms by (auto simp: yields_def when_open_def service_def ret_def has_def split: prod.splits)

lemma close_dhcp_books:
  assumes E: "keeps_books E L" and h: "opn \<longrightarrow> h \<noteq> 0" "stop \<longrightarrow> opn"
  shows "yields (has L (X + opened_child Dhcp4ServiceBinding Dhcp4Protocol h opn + (if stop then {#DhcpRunning#} else {#})))
    (if h \<noteq> 0 then
       bindM (when_open (opn \<and> stop) (DhcpStop E)) (\<lambda>_.
       bindM (when_open opn (CloseProtocol E Dhcp4Protocol h c)) (\<lambda>_.
       service (DestroyServiceChild E Dhcp4ServiceBinding c h)))
     else ret ()) (\<lambda>_. has L X)" (is "yields (has L ?all) _ _")
proof (cases "h = 0")
  case True
  then show ?thesis using h by (simp add: opened_child_def yields_def ret_def)
next
  case False
  have e: "?all = add_mset (Child Dhcp4ServiceBinding h) X + (if opn then {#Opened Dhcp4Protocol h#} else {#}) +
      (if opn \<and> stop then {#DhcpRunning#} else {#})"
    using False h by (simp add: opened_child_def)
  show ?thesis
    unfolding e
    by (simp only: False not_False_eq_True if_True)
       (rule yields_bind [OF give_back(1)], erule books(10) [OF E], rule yields_bind [OF give_back(1)], erule books(9) [OF E],
        rule give_back(2), erule books(8) [OF E])
qed

lemma close_tftp_books:
  assumes E: "keeps_books E L" and h: "opn \<longrightarrow> h \<noteq> 0" "asc \<longrightarrow> opn" "ctx \<longrightarrow> opn"
  shows "yields (has L (X + opened_child Mtftp4ServiceBinding Mtftp4Protocol h opn + replicate_mset (of_bool asc + of_bool ctx) PoolBlock))
    (if h \<noteq> 0 then
       bindM (when_open (opn \<and> asc) (PoolFree (PathE E))) (\<lambda>_.
       bindM (when_open (opn \<and> ctx) (PoolFree (PathE E))) (\<lambda>_.
       bindM (when_open opn (CloseProtocol E Mtftp4Protocol h c)) (\<lambda>_.
       service (DestroyServiceChild E Mtftp4ServiceBinding c h))))
     else ret ()) (\<lambda>_. has L X)" (is "yields (has L ?all) _ _")
proof (cases "h = 0")
  case True
  then show ?thesis using h by (simp add: opened_child_def yields_def ret_def)
next
  case False
  have e: "?all = add_mset (Child Mtftp4ServiceBinding h) X + (if opn then {#Opened Mtftp4Protocol h#} else {#}) +
      (if opn \<and> ctx then {#PoolBlock#} else {#}) + (if opn \<and> asc then {#PoolBlock#} else {#})"
    using False h by (cases asc; cases ctx; cases opn) (simp_all add: opened_child_def numeral_2_eq_2)
  show ?thesis
    unfolding e
    by (simp only: False not_False_eq_True if_True)
       (rule yields_bind [OF give_back(1)], erule books(16) [OF E], rule yields_bind [OF give_back(1)], erule books(16) [OF E],
        rule yields_bind [OF give_back(1)], erule books(9) [OF E],
        rule give_back(2), erule books(8) [OF E])
qed

lemma tftp_cleanup_books:
  assumes E: "keeps_books E L" and ch: "nested ch"
  shows "yields (has L (X + held ch)) (tftp_cleanup E c ch) (\<lambda>_. has L X)"
proof -
  let ?T = "opened_child Mtftp4ServiceBinding Mtftp4Protocol (Mtftp4ChildHandle ch) (Mtftp4Open ch)"
  have e: "X + held ch = (X + ?T + blocks ch) + opened_child Dhcp4ServiceBinding Dhcp4Protocol (Dhcp4ChildHandle ch) (Dhcp4Open ch) +
      (if Dhcp4ToStop ch then {#DhcpRunning#} else {#})"
    by (simp add: held_def)
  show ?thesis
    unfolding e tftp_cleanup_def blocks_def using ch unfolding nested_def
    by (elim conjE) (rule yields_bind [OF close_dhcp_books [OF E]], assumption, assumption, rule close_tftp_books [OF E], blast+)
qed

text \<open>
  Property C25. However a download over TFTP goes, it ends with its three buffer sizes, and when it
  returns it has given back what it opened: the children of both services, their protocols and the DHCP
  exchange. What it keeps is the pages of the image, only when it succeeds, and at most two pool blocks
  it has lost.
\<close>
theorem Tftp_gives_back:
  assumes E: "keeps_books E L"
  shows "case BdsTftpLoadImage E h Remaining Type wanted out s of
      Ret ((st, out'), s') \<Rightarrow> \<exists>j\<le>1. \<exists>k\<le>2. (EFI_ERROR st \<longrightarrow> j = 0) \<and>
        L (BdsWorld s') = L (BdsWorld s) + replicate_mset j ImagePages + replicate_mset k PoolBlock
    | Stop r \<Rightarrow> r \<noteq> OutOfFuel"
proof -
  have clean: "yields (loaded_with L M (st, out', ch))
      (bindM (tftp_cleanup E h ch) (\<lambda>_. ret (st, if EFI_ERROR st then (Some 0, snd out') else out')))
      (\<lambda>(st, out) s. kept L M st s)" for M st out' ch
  proof -
    have "yields (has L (M + replicate_mset j ImagePages + replicate_mset k PoolBlock + held ch))
      (bindM (tftp_cleanup E h ch) (\<lambda>_. ret (st, if EFI_ERROR st then (Some 0, snd out') else out')))
      (\<lambda>(st, out) s. kept L M st s)" if "nested ch" "j \<le> 1" "k \<le> 2" "EFI_ERROR st \<longrightarrow> j = 0" for j k
      using that by (intro yields_bind [OF tftp_cleanup_books [OF E]]) (auto simp: yields_def ret_def kept_def has_def)
    then show ?thesis
      unfolding yields_def loaded_with_def kept_def has_def by (fastforce simp: ac_simps)
  qed
  have "yields (has L M) (BdsTftpLoadImage E h Remaining Type wanted out) (\<lambda>(st, out) s. kept L M st s)" for M
    unfolding BdsTftpLoadImage_def
    by (rule yields_bind [OF yields_ASSERT [where Q = "\<lambda>_. has L M"]], assumption, rule yields_if, rule yields_stop, simp,
        rule yields_bind [OF tftp_body_books [OF E]]) (auto simp only: split: prod.split intro: clean)
  from this [of "L (BdsWorld s)", unfolded yields_def has_def, rule_format, OF refl]
  show ?thesis by (simp add: kept_def split: outcome.splits prod.splits)
qed

section \<open>Announced sizes\<close>

text \<open>
  A file that is announced with more than 16 MB is reported as loaded: the loop ends
  before its first round, the status is still that of the configuration, and nothing was loaded.
\<close>
theorem big_file_reported_loaded:
  assumes conf: "\<And>c w. \<exists>w'. TftpConfigure E c w = (EFI_SUCCESS, w')"
    and pool: "\<And>k w. \<exists>w'. PoolAllocate (PathE E) k w = (True, w')"
    and announced: "\<And>f s. \<exists>s'. Mtftp4GetFileSize E f s = Ret ((EFI_SUCCESS, Some n), s')" "n > 0x01000000"
  shows "\<exists>ch' s'. tftp_download E node Type wanted out mode ch s = Ret ((EFI_SUCCESS, out, ch'), s')"
proof -
  let ?path = "drop 27 (path_bytes node)"
  obtain w1 where c: "TftpConfigure E (tftp_config node mode) (BdsWorld s) = (EFI_SUCCESS, w1)" using conf by blast
  obtain name w2 where t: "PathToText E ?path w1 = (name, w2)" by (metis prod.exhaust)
  obtain w3 where p: "PoolAllocate (PathE E) (StrLen name + 1) w2 = (True, w3)" using pool by blast
  obtain s4 where g: "Mtftp4GetFileSize E (ToAscii E name) (s\<lparr>BdsWorld := w3\<rparr>) = Ret ((EFI_SUCCESS, Some n), s4)"
    using announced(1) by blast
  obtain w5 where q: "PoolAllocate (PathE E) 24 (BdsWorld s4) = (True, w5)" using pool by blast
  have "\<not> EFI_ERROR EFI_SUCCESS" by (simp add: )
  then show ?thesis
    using announced(2)
    by (simp add: tftp_download_def Let_def bindM_def service_def ret_def ASSERT_def c t p g q numeral_3_eq_3 MAX_TFTP_FILE_SIZE_def)
qed

text \<open>The bytes of a file in the packets the check sees.\<close>

primrec data_bytes :: "(u16 \<times> u16) list \<Rightarrow> nat" where
  "data_bytes [] = 0"
| "data_bytes (p # ps) = (if fst p = EFI_MTFTP4_OPCODE_DATA then unat (snd p) - 4 else 0) + data_bytes ps"

lemma progress_step:
  assumes "unat (d :: u64) \<le> unat n" "unat n * 40 < 2 ^ 64"
  shows "\<not> TFTP_PROGRESS_MESSAGE_SIZE \<le> d * TFTP_PROGRESS_SLIDER_STEPS div n"
proof -
  have "unat (d * TFTP_PROGRESS_SLIDER_STEPS) = unat d * 40"
    using assms by (simp add: TFTP_PROGRESS_SLIDER_STEPS_def unat_word_ariths)
  then have "unat (d * TFTP_PROGRESS_SLIDER_STEPS div n) = unat d * 40 div unat n" by (simp add: unat_div)
  also have "\<dots> \<le> unat n * 40 div unat n" using assms(1) by (intro div_le_mono mult_right_mono) simp_all
  also have "\<dots> \<le> 40" by simp
  finally show ?thesis by (simp add: TFTP_PROGRESS_MESSAGE_SIZE_def not_le word_less_nat_alt)
qed

lemma same_report: "\<exists>l. C\<lparr>DownloadedNbOfBytes := d\<rparr> = C\<lparr>DownloadedNbOfBytes := d, LastReportedNbOfBytes := l\<rparr>"
  by (rule exI [of _ "LastReportedNbOfBytes C"]) simp

text \<open>
  Property C28. As long as a server sends no more than the size it announced (or announced none), the
  check of the packets accepts them, counts exactly the bytes of the file and draws inside its buffer.
\<close>
theorem progress_in_bounds:
  assumes packets: "\<And>len. (EFI_MTFTP4_OPCODE_DATA, len) \<in> set ps \<Longrightarrow> 4 \<le> unat len"
    and small: "FileSize C = 0 \<or> unat (DownloadedNbOfBytes C) + data_bytes ps \<le> unat (FileSize C)"
    and range: "unat (FileSize C) * 40 < 2 ^ 64" "unat (DownloadedNbOfBytes C) + data_bytes ps < 2 ^ 64"
  shows "\<exists>last. check_packets C ps s =
    Ret (C\<lparr>DownloadedNbOfBytes := DownloadedNbOfBytes C + of_nat (data_bytes ps), LastReportedNbOfBytes := last\<rparr>, s)"
  using assms
proof (induction ps arbitrary: C)
  case Nil
  show ?case by (rule exI [of _ "LastReportedNbOfBytes C"]) (simp add: ret_def)
next
  case (Cons p ps)
  obtain opc len where p: "p = (opc, len)" by (cases p)
  let ?n = "if opc = EFI_MTFTP4_OPCODE_DATA then unat len - 4 else 0"
  let ?d = "DownloadedNbOfBytes C + of_nat ?n"
  have n: "ucast len - 2 - 2 = (of_nat ?n :: u64)" if "opc = EFI_MTFTP4_OPCODE_DATA"
    using Cons.prems(1) [of len] p that by (simp add: of_nat_diff unsigned_of_nat algebra_simps)
  have d: "unat ?d = unat (DownloadedNbOfBytes C) + ?n"
  proof -
    have b: "unat (DownloadedNbOfBytes C) + ?n < 2 ^ 64" using Cons.prems(4) p by (simp split: if_splits)
    then have "unat (of_nat ?n :: u64) = ?n" by (simp add: unsigned_of_nat take_bit_nat_eq_self)
    then show ?thesis using b by (simp add: unat_word_ariths)
  qed
  have step: "\<exists>l. Mtftp4CheckPacket C p s = Ret (C\<lparr>DownloadedNbOfBytes := ?d, LastReportedNbOfBytes := l\<rparr>, s)"
  proof (cases "opc = EFI_MTFTP4_OPCODE_DATA")
    case False
    then show ?thesis by (intro exI [of _ "LastReportedNbOfBytes C"]) (simp add: p Mtftp4CheckPacket_def ret_def)
  next
    case True
    have "FileSize C = 0 \<or> unat ?d \<le> unat (FileSize C)" using Cons.prems(2) d p by (auto split: if_splits)
    then have "FileSize C = 0 \<or> \<not> TFTP_PROGRESS_MESSAGE_SIZE \<le> ?d * TFTP_PROGRESS_SLIDER_STEPS div FileSize C"
      using progress_step [of ?d "FileSize C"] Cons.prems(3) by blast
    then show ?thesis
      using True n [OF True] same_report [where C = C and d = ?d] by (auto simp: p Mtftp4CheckPacket_def Let_def ret_def word_neq_0_conv)
  qed
  then obtain l where l: "Mtftp4CheckPacket C p s = Ret (C\<lparr>DownloadedNbOfBytes := ?d, LastReportedNbOfBytes := l\<rparr>, s)" by blast
  have bytes: "data_bytes (p # ps) = ?n + data_bytes ps" by (simp add: p)
  have "\<exists>last. check_packets (C\<lparr>DownloadedNbOfBytes := d, LastReportedNbOfBytes := l\<rparr>) ps s =
    Ret (C\<lparr>DownloadedNbOfBytes := d + of_nat (data_bytes ps), LastReportedNbOfBytes := last\<rparr>, s)"
    if d: "unat d = unat (DownloadedNbOfBytes C) + ?n" for d
  proof -
    have "FileSize C = 0 \<or> unat d + data_bytes ps \<le> unat (FileSize C)" "unat d + data_bytes ps < 2 ^ 64"
      using Cons.prems(2,4) unfolding bytes by (simp_all only: d add.assoc)
    moreover have "\<And>len. (EFI_MTFTP4_OPCODE_DATA, len) \<in> set ps \<Longrightarrow> 4 \<le> unat len" using Cons.prems(1) by simp
    ultimately show ?thesis
      using Cons.IH [of "C\<lparr>DownloadedNbOfBytes := d, LastReportedNbOfBytes := l\<rparr>"] Cons.prems(3) by simp
  qed
  then obtain last where "check_packets (C\<lparr>DownloadedNbOfBytes := ?d, LastReportedNbOfBytes := l\<rparr>) ps s =
    Ret (C\<lparr>DownloadedNbOfBytes := ?d + of_nat (data_bytes ps), LastReportedNbOfBytes := last\<rparr>, s)"
    using d by blast
  then have "check_packets C (p # ps) s =
    Ret (C\<lparr>DownloadedNbOfBytes := DownloadedNbOfBytes C + of_nat (data_bytes (p # ps)), LastReportedNbOfBytes := last\<rparr>, s)"
    using l unfolding bytes by (simp add: bindM_def add.assoc)
  then show ?case by blast
qed

text \<open>A server that announces 100 bytes and sends 512 makes the check write behind its buffer.\<close>

lemma progress_overflows:
  "check_packets \<lparr>FileSize = 100, DownloadedNbOfBytes = 0, LastReportedNbOfBytes = 0\<rparr> [(EFI_MTFTP4_OPCODE_DATA, 516)] s = Stop OutOfBounds"
  by (simp add: Mtftp4CheckPacket_def EFI_MTFTP4_OPCODE_DATA_def TFTP_PROGRESS_MESSAGE_SIZE_def TFTP_PROGRESS_SLIDER_STEPS_def
      bindM_def stopM_def)

section \<open>Starting a file\<close>

text \<open>Every service a file is loaded through works and gives the bytes of the file.\<close>

definition serves_file :: "'w LoadEnv \<Rightarrow> u64 \<Rightarrow> u8 list \<Rightarrow> u8 list \<Rightarrow> bool" where
  "serves_file E h name bytes \<longleftrightarrow> length bytes \<le> 2 ^ 63 \<and>
     (\<forall>w. \<exists>w'. HandleProtocol (PathE E) SimpleFileSystem h w = (EFI_SUCCESS, w')) \<and>
     (\<forall>w. \<exists>w'. OpenProtocol E SimpleFileSystem h h w = (EFI_SUCCESS, w')) \<and>
     (\<forall>w. \<exists>w'. OpenVolume E h w = (EFI_SUCCESS, w')) \<and>
     (\<forall>w. \<exists>w'. OpenImageFile E name w = (EFI_SUCCESS, w')) \<and>
     (\<forall>n w. \<exists>w'. PoolAllocate (PathE E) n w = (True, w')) \<and>
     (\<forall>n w. \<exists>m w'. FileGetInfo E n True w = ((EFI_SUCCESS, m, of_nat (length bytes)), w')) \<and>
     (\<forall>n w. \<exists>a w'. LoadPages E AllocateAnyPages n None w = ((EFI_SUCCESS, Some a), w')) \<and>
     (\<forall>w. \<exists>w'. FileRead E (of_nat (length bytes)) w = ((EFI_SUCCESS, bytes), w'))"

lemma file_loaded:
  assumes F: "serves_file E h (NodeData (hd r)) bytes" and node: "IS_DEVICE_PATH_NODE r MEDIA_DEVICE_PATH MEDIA_FILEPATH_DP"
  shows "\<exists>a s'. BdsFileSystemLoadImage E h r AllocateAnyPages True (None, None) s =
      Ret ((EFI_SUCCESS, Some a, Some (of_nat (length bytes))), s') \<and> peek (length bytes) a (BdsMem s') = bytes"
proof -
  note f = F [unfolded serves_file_def]
  obtain w1 where 1: "OpenProtocol E SimpleFileSystem h h (BdsWorld s) = (EFI_SUCCESS, w1)" using f by blast
  obtain w2 where 2: "OpenVolume E h w1 = (EFI_SUCCESS, w2)" using f by blast
  obtain w3 where 3: "OpenImageFile E (NodeData (hd r)) w2 = (EFI_SUCCESS, w3)" using f by blast
  obtain st4 n4 k4 w4 where 4: "FileGetInfo E 0 False w3 = ((st4, n4, k4), w4)" by (metis prod.exhaust)
  obtain w5 where 5: "PoolAllocate (PathE E) n4 w4 = (True, w5)" using f by blast
  obtain m w6 where 6: "FileGetInfo E n4 True w5 = ((EFI_SUCCESS, m, of_nat (length bytes)), w6)" using f by blast
  obtain w7 where 7: "PoolFree (PathE E) w6 = ((), w7)" by (metis old.unit.exhaust prod.exhaust)
  obtain a w8 where 8: "LoadPages E AllocateAnyPages (EFI_SIZE_TO_PAGES (of_nat (length bytes))) None w7 = ((EFI_SUCCESS, Some a), w8)"
    using f by blast
  obtain w9 where 9: "FileRead E (of_nat (length bytes)) w8 = ((EFI_SUCCESS, bytes), w9)" using f by blast
  obtain w10 where 10: "FileClose E w9 = ((), w10)" by (metis old.unit.exhaust prod.exhaust)
  obtain w11 where 11: "CloseProtocol E SimpleFileSystem h h w10 = ((), w11)" by (metis old.unit.exhaust prod.exhaust)
  have "BdsFileSystemLoadImage E h r AllocateAnyPages True (None, None) s =
      Ret ((EFI_SUCCESS, Some a, Some (of_nat (length bytes))), s\<lparr>BdsMem := poke a bytes (BdsMem s), BdsWorld := w11\<rparr>)"
    using node by (simp add: Let_def BdsFileSystemLoadImage_def read_open_file_def allocate_image_def put_image_def put_bytes_def modify_def
        ASSERT_def bindM_def service_def ret_def 1 2 3 4 5 6 7 8 9 10 11)
  then show ?thesis using f by (auto intro!: peek_poke_here)
qed

text \<open>
  Property C24. An application in a file of a file system is started with exactly the bytes of its file:
  the image that is started is the one the firmware makes of them, and its status is the result.
\<close>
theorem file_application_started:
  assumes con: "BdsConnectAndUpdateDevicePath k k (PathE E) dp True None s = Ret ((EFI_SUCCESS, Some p, Some h, Some r), s1)"
    and node: "IS_DEVICE_PATH_NODE r MEDIA_DEVICE_PATH MEDIA_FILEPATH_DP"
    and F: "serves_file E h (NodeData (hd r)) bytes"
    and made: "\<And>w. \<exists>w'. BsLoadImage E parent p bytes w = ((EFI_SUCCESS, img), w')"
    and opt: "\<And>w. \<exists>w'. HandleProtocol (PathE E) LoadedImage img w = (EFI_SUCCESS, w')"
    and dog: "\<And>n w. \<exists>w'. SetWatchdogTimer E n w = (EFI_SUCCESS, w')"
  shows "\<exists>st s' w w'. BdsStartEfiApplication k E parent dp n opts s = Ret (st, s') \<and> BsStartImage E img w = (st, w')"
proof -
  obtain w2 where sup: "HandleProtocol (PathE E) SimpleFileSystem h (BdsWorld s1) = (EFI_SUCCESS, w2)"
    using F unfolding serves_file_def by blast
  obtain a s3 where ld: "BdsFileSystemLoadImage E h r AllocateAnyPages True (None, None) (s1\<lparr>BdsWorld := w2\<rparr>) =
      Ret ((EFI_SUCCESS, Some a, Some (of_nat (length bytes))), s3)" "peek (length bytes) a (BdsMem s3) = bytes"
    using file_loaded [OF F node] by blast
  have len: "unat (of_nat (length bytes) :: u64) = length bytes"
    using F unfolding serves_file_def by (simp add: unsigned_of_nat take_bit_nat_eq_self)
  obtain w4 where 4: "BsLoadImage E parent p bytes (BdsWorld s3) = ((EFI_SUCCESS, img), w4)" using made by blast
  have "\<exists>st s'. start_loaded E img n opts (s3\<lparr>BdsWorld := w4\<rparr>) = Ret (st, s') \<and> (\<exists>w w'. BsStartImage E img w = (st, w'))"
  proof -
    obtain w5 where 5: "HandleProtocol (PathE E) LoadedImage img w4 = (EFI_SUCCESS, w5)" using opt by blast
    obtain w6 where 6: "SetLoadOptions E img n opts w5 = ((), w6)" by (metis old.unit.exhaust prod.exhaust)
    let ?w = "if n \<noteq> 0 then w6 else w4"
    obtain w7 where 7: "SetWatchdogTimer E (5 * 60) ?w = (EFI_SUCCESS, w7)" using dog by blast
    obtain st w8 where 8: "BsStartImage E img w7 = (st, w8)" by (metis prod.exhaust)
    obtain w9 where 9: "SetWatchdogTimer E 0 w8 = (EFI_SUCCESS, w9)" using dog by blast
    have "start_loaded E img n opts (s3\<lparr>BdsWorld := w4\<rparr>) = Ret (st, s3\<lparr>BdsWorld := w9\<rparr>)"
      using 7 by (cases "n = 0") (simp_all add: start_loaded_def tryE_def bindM_def service_def ret_def 5 6 8 9)
    then show ?thesis using 8 by blast
  qed
  then obtain st s' w w' where st: "start_loaded E img n opts (s3\<lparr>BdsWorld := w4\<rparr>) = Ret (st, s')" "BsStartImage E img w = (st, w')"
    by blast
  have "BdsStartEfiApplication k E parent dp n opts s = Ret (st, s')"
    using con sup node ld len 4 st(1)
    by (simp add: BdsStartEfiApplication_def BdsLoadImageAndUpdateDevicePath_def FileLoaders_def BdsFileSystemSupport_def
        LoadImageBy_def need_handle_def get_bytes_def gets_def bindM_def service_def ret_def)
  then show ?thesis using st(2) by blast
qed

end
