(* ===== verification/BdsSim.thy ===== *)
theory BdsSim
  imports BdsOptionSim BdsPathSpec BdsLoadSpec
begin

text \<open>
  A small platform on which the properties of the boot device selection are exercised: a path of two
  devices that appear one behind the other, two firmware volumes, one file system with one file, and a
  network with a file server. Its world counts devices, drivers that wait, and what is held.
\<close>

section \<open>The platform\<close>

record SimPlatform =
  SimNear :: nat
  SimDrivers :: nat
  SimHeld :: "resource multiset"

definition sim_volumes :: "(u64 \<times> fv_file list) list" where
  "sim_volumes = [(8, [([1], None), ([2], Some [0x53])]), (9, [([3], Some [0x53, 0x68])])]"

definition sim_files :: "u64 \<Rightarrow> fv_file list" where
  "sim_files h = (if h = 8 then [([1], None), ([2], Some [0x53])] else if h = 9 then [([3], Some [0x53, 0x68])] else [])"

definition sim_volume_path :: "u64 \<Rightarrow> dev_path" where
  "sim_volume_path h = [\<lparr>NodeType = 1, NodeSubType = 4, NodeData = [ucast h]\<rparr>]"

definition sim_path_env :: "SimPlatform PathEnv" where
  "sim_path_env = \<lparr>
     LocateDevicePath = (\<lambda>p w. ((EFI_SUCCESS, of_nat (min 2 (SimNear w)) + 1, drop (min 2 (SimNear w)) p), w)),
     Dispatch = (\<lambda>w. if SimDrivers w = 0 then (EFI_NOT_FOUND, w) else (EFI_SUCCESS, w\<lparr>SimDrivers := SimDrivers w - 1\<rparr>)),
     ConnectController = (\<lambda>h r b w. (EFI_SUCCESS, if SimNear w < 2 then w\<lparr>SimNear := SimNear w + 1\<rparr> else w)),
     LocateHandleBuffer = (\<lambda>p w. ((EFI_SUCCESS, map fst sim_volumes), w)),
     PathOfHandle = (\<lambda>h w. ((EFI_SUCCESS, sim_volume_path h), w)),
     HandleProtocol = (\<lambda>p h w. (EFI_SUCCESS, w)),
     AppendDevicePath = (\<lambda>p q w. (Some (p @ q), w)),
     AppendDevicePathNode = (\<lambda>p n w. (Some (p @ [n]), w)),
     FileDevicePath = (\<lambda>h name w. (None, w)),
     PoolAllocate = (\<lambda>n w. (True, w\<lparr>SimHeld := add_mset PoolBlock (SimHeld w)\<rparr>)),
     PoolFree = (\<lambda>w. ((), w\<lparr>SimHeld := SimHeld w - {#PoolBlock#}\<rparr>)),
     KeySize = (\<lambda>h. 1),
     NextFile = (\<lambda>h key w. (let i = unat (hd key) in
       if i < length (sim_files h) then (EFI_SUCCESS, [of_nat (i + 1)], fst (sim_files h ! i)) else (EFI_NOT_FOUND, key, []), w)),
     NameSection = (\<lambda>h guid w. (case map_of (sim_files h) guid of Some (Some n) \<Rightarrow> (EFI_SUCCESS, n) | _ \<Rightarrow> (EFI_NOT_FOUND, []), w)),
     FileExists = (\<lambda>h guid w. (EFI_NOT_FOUND, w))\<rparr>"

text \<open>The same platform with a pool that keeps no books, for the search in the volumes.\<close>

definition sim_fv_env :: "SimPlatform PathEnv" where
  "sim_fv_env = sim_path_env\<lparr>PoolAllocate := (\<lambda>n w. (True, w)), PoolFree := (\<lambda>w. ((), w))\<rparr>"

text \<open>No device is found.\<close>

definition sim_empty_env :: "SimPlatform PathEnv" where
  "sim_empty_env = sim_path_env\<lparr>LocateDevicePath := (\<lambda>p w. ((EFI_NOT_FOUND, 0, p), w))\<rparr>"

definition sim_start :: "SimPlatform BdsState" where
  "sim_start = \<lparr>BdsMem = (\<lambda>a. 0), BdsWorld = \<lparr>SimNear = 0, SimDrivers = 1, SimHeld = {#}\<rparr>\<rparr>"

definition sim_connected :: "SimPlatform BdsState" where
  "sim_connected = \<lparr>BdsMem = (\<lambda>a. 0), BdsWorld = \<lparr>SimNear = 2, SimDrivers = 0, SimHeld = {#}\<rparr>\<rparr>"

definition sim_file_node :: DevNode where "sim_file_node = \<lparr>NodeType = 4, NodeSubType = 4, NodeData = [0x61]\<rparr>"

definition sim_path :: dev_path where
  "sim_path = [\<lparr>NodeType = 2, NodeSubType = 1, NodeData = []\<rparr>, \<lparr>NodeType = 1, NodeSubType = 1, NodeData = []\<rparr>, sim_file_node]"

definition sim_path_view :: "SimPlatform PathView" where
  "sim_path_view = \<lparr>Nearest = (\<lambda>w. of_nat (min 2 (SimNear w)) + 1), RestLength = (\<lambda>w. 2 - SimNear w), Pending = SimDrivers\<rparr>"

section \<open>Paths and files\<close>

lemma sim_progress: "makes_progress sim_path_env p sim_path_view"
  unfolding makes_progress_def nearer_def sim_path_env_def sim_path_view_def by (auto split: if_splits)

lemma sim_path_fixed: "\<not> IsRemovableDevice sim_path" "\<not> IsDevicePathEnd sim_path"
  by (simp_all add: IsRemovableDevice_def sim_path_def sim_file_node_def IsDevicePathEnd_def node_types_def removable_kind_def
      BdsIsRemovableUsb_def BdsIsRemovableHd_def IS_DEVICE_PATH_NODE_def device_path_types)

lemma ConnectDevicePath_ends_witness:
  "\<exists>st k r s'. BdsConnectDevicePath 1 5 sim_path_env (Some sim_path) True sim_start = Ret ((st, Some k, Some r), s') \<and>
    reached sim_path_env sim_path k r"
proof -
  have "found_at_first sim_path_env sim_path sim_start" by (simp add: found_at_first_def sim_path_env_def)
  then show ?thesis
    using ConnectDevicePath_ends [OF sim_progress sim_path_fixed(1), of sim_start 5 0]
    by (auto simp: sim_start_def sim_path_view_def simp del: BdsConnectAndUpdateDevicePath.simps)
qed

lemma sim_lists:
  assumes "length (sim_files h) \<le> 2" "distinct (map fst (sim_files h))"
  shows "lists_files sim_fv_env h (sim_files h)"
  unfolding lists_files_def
proof (intro exI [of _ "\<lambda>i. [of_nat i]"] conjI allI impI)
  fix i and w :: SimPlatform
  assume i: "i < length (sim_files h)"
  then have u: "unat (of_nat i :: u8) = i" using assms(1) by (simp add: unsigned_of_nat take_bit_nat_eq_self)
  show "NextFile sim_fv_env h [of_nat i] w = ((EFI_SUCCESS, [of_nat (Suc i)], fst (sim_files h ! i)), w)"
    using i u by (simp add: sim_fv_env_def sim_path_env_def add.commute)
  have "map_of (sim_files h) (fst (sim_files h ! i)) = Some (snd (sim_files h ! i))"
    using i assms(2) by (simp add: map_of_eq_Some_iff)
  then show "NameSection sim_fv_env h (fst (sim_files h ! i)) w =
      (case snd (sim_files h ! i) of None \<Rightarrow> (EFI_NOT_FOUND, []) | Some n \<Rightarrow> (EFI_SUCCESS, n), w)"
    by (simp add: sim_fv_env_def sim_path_env_def split: option.splits)
next
  fix w :: SimPlatform
  have "unat (of_nat (length (sim_files h)) :: u8) = length (sim_files h)"
    using assms(1) by (simp add: unsigned_of_nat take_bit_nat_eq_self)
  then show "\<exists>k g. NextFile sim_fv_env h [of_nat (length (sim_files h))] w = ((EFI_NOT_FOUND, k, g), w)"
    by (simp add: sim_fv_env_def sim_path_env_def)
qed (simp add: sim_fv_env_def sim_path_env_def)

lemma sim_fv_platform: "fv_platform sim_fv_env sim_volumes sim_volume_path"
proof -
  have "\<forall>(h, files) \<in> set sim_volumes. lists_files sim_fv_env h files"
    using sim_lists [of 8] sim_lists [of 9] by (simp add: sim_volumes_def sim_files_def)
  then show ?thesis by (simp add: fv_platform_def sim_fv_env_def sim_path_env_def)
qed

lemma LocateByName_first_witness:
  "LocateEfiApplicationInFvByName 5 sim_fv_env [0x53, 0x68] sim_start =
    Ret ((EFI_SUCCESS, Some (sim_volume_path 9 @ [fv_file_node [3]])), sim_start)"
  using LocateByName_first [OF sim_fv_platform, of 5 "[0x53, 0x68]" sim_start]
  by (simp add: sim_volumes_def all_files_def starts_with_def)

section \<open>Loading\<close>

text \<open>The file has three bytes; the file server announces 20000000.\<close>

definition sim_bytes :: "u8 list" where "sim_bytes = [0x4D, 0x5A, 0x90]"

definition take_book :: "resource \<Rightarrow> SimPlatform \<Rightarrow> SimPlatform" where
  "take_book r w = w\<lparr>SimHeld := add_mset r (SimHeld w)\<rparr>"

definition give_book :: "resource \<Rightarrow> SimPlatform \<Rightarrow> SimPlatform" where
  "give_book r w = w\<lparr>SimHeld := SimHeld w - {#r#}\<rparr>"

definition sim_load_env :: "SimPlatform LoadEnv" where
  "sim_load_env = \<lparr>PathE = sim_path_env,
     LoadPages = (\<lambda>t n a w. ((EFI_SUCCESS, Some 0x80000000), take_book ImagePages w)),
     DropPages = (\<lambda>a n w. ((), give_book ImagePages w)),
     OpenProtocol = (\<lambda>p h c w. (EFI_SUCCESS, take_book (Opened p h) w)),
     CloseProtocol = (\<lambda>p h c w. ((), give_book (Opened p h) w)),
     OpenVolume = (\<lambda>h w. (EFI_SUCCESS, w)),
     OpenImageFile = (\<lambda>name w. (EFI_SUCCESS, w)),
     FileGetInfo = (\<lambda>n b w. ((EFI_SUCCESS, 84, 3), w)),
     FileRead = (\<lambda>n w. ((EFI_SUCCESS, sim_bytes), w)),
     FileClose = (\<lambda>w. ((), w)),
     ReadPe32 = (\<lambda>h g w. ((EFI_NOT_FOUND, []), w)),
     FvReadFile = (\<lambda>h g b w. ((EFI_NOT_FOUND, 0, []), w)),
     LoadFile = (\<lambda>h p b w. ((EFI_NOT_FOUND, 0, []), w)),
     LocatePxe = (\<lambda>w. (EFI_NOT_FOUND, w)),
     PxeStop = (\<lambda>w. ((), w)),
     CreateServiceChild = (\<lambda>b c w. ((EFI_SUCCESS, 7), take_book (Child b 7) w)),
     DestroyServiceChild = (\<lambda>b c h w. ((), give_book (Child b h) w)),
     DhcpConfigure = (\<lambda>os w. (EFI_SUCCESS, w)),
     DhcpStart = (\<lambda>w. (EFI_SUCCESS, take_book DhcpRunning w)),
     DhcpGetModeData = (\<lambda>w. ((EFI_SUCCESS, \<lparr>DhcpBound = True, ClientAddress = [10, 0, 0, 2], DhcpSubnetMask = [255, 0, 0, 0],
        RouterAddress = [10, 0, 0, 1]\<rparr>), w)),
     DhcpStop = (\<lambda>w. ((), give_book DhcpRunning w)),
     TftpConfigure = (\<lambda>c w. (EFI_SUCCESS, w)),
     TftpGetInfo = (\<lambda>f w. ((EFI_SUCCESS, []), take_book PoolBlock w)),
     TftpParseOptions = (\<lambda>k w. ((EFI_SUCCESS, [(tsize, [0x32])]), take_book PoolBlock w)),
     TftpReadFile = (\<lambda>f n w. ((EFI_SUCCESS, 3, sim_bytes, [(3, 7)]), w)),
     PathToText = (\<lambda>p w. ([0x61], take_book PoolBlock w)),
     ToAscii = map ucast,
     DecimalToUint64 = (\<lambda>cs. 20000000),
     BsLoadImage = (\<lambda>parent p bytes w. if bytes = sim_bytes then ((EFI_SUCCESS, 5), w) else ((EFI_UNSUPPORTED, 0), w)),
     SetLoadOptions = (\<lambda>h n a w. ((), w)),
     SetWatchdogTimer = (\<lambda>n w. (EFI_SUCCESS, w)),
     BsStartImage = (\<lambda>h w. (if h = 5 then EFI_SUCCESS else EFI_NOT_FOUND, w))\<rparr>"

lemma sim_books: "keeps_books sim_load_env SimHeld"
  by (auto simp: keeps_books_def sim_load_env_def sim_path_env_def take_book_def give_book_def)

lemma sim_start_free: "SimHeld (BdsWorld sim_start) = {#}"
  by (simp add: sim_start_def)

lemma Tftp_gives_back_witness:
  "case BdsTftpLoadImage sim_load_env 3 [\<lparr>NodeType = 3, NodeSubType = 12, NodeData = replicate 23 0\<rparr>, sim_file_node]
      AllocateAnyPages True (None, None) sim_start of
    Ret ((st, out'), s') \<Rightarrow> \<exists>j\<le>1. \<exists>k\<le>2. (EFI_ERROR st \<longrightarrow> j = 0) \<and>
      SimHeld (BdsWorld s') = replicate_mset j ImagePages + replicate_mset k PoolBlock
  | Stop r \<Rightarrow> r \<noteq> OutOfFuel"
  using Tftp_gives_back [OF sim_books, where h = 3 and s = sim_start and out = "(None, None)" and Type = AllocateAnyPages
    and wanted = True and Remaining = "[\<lparr>NodeType = 3, NodeSubType = 12, NodeData = replicate 23 0\<rparr>, sim_file_node]"]
  unfolding sim_start_free add_0 .

lemma big_file_reported_loaded_witness:
  "\<exists>ch' s'. tftp_download sim_load_env [\<lparr>NodeType = 3, NodeSubType = 12, NodeData = replicate 23 0\<rparr>, sim_file_node]
     AllocateAnyPages True (None, None) None no_children sim_start = Ret ((EFI_SUCCESS, (None, None), ch'), s')"
proof (rule big_file_reported_loaded [where n = 20000000])
  show "\<exists>s'. Mtftp4GetFileSize sim_load_env f s = Ret ((EFI_SUCCESS, Some 20000000), s')" for f s
    by (simp add: Mtftp4GetFileSize_def sim_load_env_def sim_path_env_def tsize_def bindM_def service_def ret_def)
qed (simp_all add: sim_load_env_def sim_path_env_def)

lemma progress_in_bounds_witness:
  "\<exists>last. check_packets \<lparr>FileSize = 3, DownloadedNbOfBytes = 0, LastReportedNbOfBytes = 0\<rparr> [(3, 7)] sim_start =
    Ret (\<lparr>FileSize = 3, DownloadedNbOfBytes = 3, LastReportedNbOfBytes = last\<rparr>, sim_start)"
  using progress_in_bounds [of "[(3, 7)]" "\<lparr>FileSize = 3, DownloadedNbOfBytes = 0, LastReportedNbOfBytes = 0\<rparr>" sim_start]
  by (simp add: EFI_MTFTP4_OPCODE_DATA_def)

lemma no_device_is_success_witness:
  "(\<exists>s'. BdsConnectDevicePath 1 1 (PathE (sim_load_env\<lparr>PathE := sim_empty_env\<rparr>)) (Some sim_path) True sim_start =
      Ret ((EFI_SUCCESS, None, Some sim_path), s')) \<and>
    BdsStartEfiApplication 1 (sim_load_env\<lparr>PathE := sim_empty_env\<rparr>) 1 (Some sim_path) 0 0 sim_start = Stop UninitializedRead"
  using no_device_is_success [where E = "sim_load_env\<lparr>PathE := sim_empty_env\<rparr>" and p = sim_path and s = sim_start
    and n = 0 and k = 0 and parent = 1 and optsize = 0 and opts = 0] sim_path_fixed
  by (simp add: sim_empty_env_def)

lemma sim_serves: "serves_file sim_load_env 3 [0x61] sim_bytes"
  by (simp add: serves_file_def sim_load_env_def sim_path_env_def sim_bytes_def)

lemma sim_path_connected:
  "BdsConnectAndUpdateDevicePath 3 3 (PathE sim_load_env) (Some sim_path) True None sim_connected =
    Ret ((EFI_SUCCESS, Some sim_path, Some 3, Some [sim_file_node]), sim_connected)"
  by (simp add: sim_load_env_def sim_path_env_def sim_path_def sim_connected_def sim_file_node_def numeral_3_eq_3 bindM_def service_def
      ret_def IsDevicePathEnd_def node_types_def IsRemovableDevice_def removable_kind_def BdsIsRemovableUsb_def BdsIsRemovableHd_def
      IS_DEVICE_PATH_NODE_def device_path_types)

lemma file_application_started_witness:
  "\<exists>s'. BdsStartEfiApplication 3 sim_load_env 1 (Some sim_path) 0 0 sim_connected = Ret (EFI_SUCCESS, s')"
proof -
  have "\<exists>st s' w w'. BdsStartEfiApplication 3 sim_load_env 1 (Some sim_path) 0 0 sim_connected = Ret (st, s') \<and>
      BsStartImage sim_load_env 5 w = (st, w')"
  proof (rule file_application_started [OF sim_path_connected])
    show "IS_DEVICE_PATH_NODE [sim_file_node] MEDIA_DEVICE_PATH MEDIA_FILEPATH_DP"
      by (simp add: IS_DEVICE_PATH_NODE_def node_types_def sim_file_node_def device_path_types)
    show "serves_file sim_load_env 3 (NodeData (hd [sim_file_node])) sim_bytes"
      using sim_serves by (simp add: sim_file_node_def)
  qed (simp_all add: sim_load_env_def sim_path_env_def)
  then show ?thesis by (auto simp: sim_load_env_def)
qed

end
