(* ===== verification/Spec2Isabelle.thy ===== *)
theory Spec2Isabelle
  imports SdCards AuthVarSim RunAxfSim BootMonDriver Tpm2Sim BdsSim
begin

text \<open>
  A model of the platform firmware's own drivers: the SD/MMC driver
  (\<open>src/Microsoft/Drivers/SdMmcDxe\<close>), the OP-TEE client library
  (\<open>src/Microsoft/OpteeClientPkg/Library/OpteeClientApiLib\<close>), the UEFI variable services
  (\<open>src/Microsoft/OpteeClientPkg/Drivers/AuthVarOpteeRuntimeDxe\<close>), the TPM device library
  (\<open>src/Microsoft/OpteeClientPkg/Library/Tpm2DeviceLibOptee\<close>), the boot monitor file system
  (\<open>src/ARM/Drivers/BootMonFs\<close>), the shell command that runs its images
  (\<open>src/ARM/Library/ArmShellCmdRunAxf\<close>) and the library for boot options and boot devices
  (\<open>src/ARM/Library/BdsLib\<close>).

  \<^bold>\<open>How the program is put together.\<close> The SD/MMC driver binds to a host controller driver through
  \<open>EFI_SDHC_PROTOCOL\<close>. For each slot it keeps an instance that identifies the card, issues commands
  with bounded error recovery, and offers block I/O, a device path and, on MMC devices, RPMB
  I/O. The OP-TEE client owns a window of memory shared with the secure world. It hands out blocks
  of that window, writes a message into one of them for each call of a trusted application,
  enters the secure world by a secure monitor call, and serves the secure world's requests (memory,
  time, loading of trusted applications, RPMB storage) until the call is answered. The two meet in the
  RPMB request, which the OP-TEE client passes on to the RPMB protocol of the SD/MMC driver. The
  variable driver is a client of the OP-TEE library: it opens a session with the trusted application
  that keeps the variables, holds two shared buffers from its start to the end of boot services, and
  turns each UEFI variable service into one command over them. The TPM device library is another
  client: one session with the firmware TPM, and a shared buffer for each command. The boot monitor file system stands by
  itself on Disk I/O and Block I/O: it finds the images on NOR flash by the descriptions at the ends of
  blocks and offers them as the files of one directory. The command \<open>runaxf\<close> reads a file of it, or an
  ELF file from anywhere, leaves UEFI and jumps into the image. The boot device selection library keeps
  boot options in UEFI variables, connects the device a path names, loads an image from it by the first
  of five loaders that supports it, and starts it.

  \<^bold>\<open>Shared foundations.\<close>
  \<^item> \<open>Prelude\<close>: the outcome of a C function (a result with the new state, or a stop at a failed
    assertion, a division by zero, a read of freed memory or the end of the fuel), its monad, the
    \<open>EFI_STATUS\<close> codes, and the rules for passing an invariant through a program.
  \<^item> \<open>BitFields\<close>: packed bit fields of a register, read, written, and tiled.
  \<^item> \<open>ByteMem\<close>: memory as a function from 64-bit addresses to bytes, blocks of it, and
    little-endian reads and writes at 16, 32 and 64 bits.

  \<^bold>\<open>SD/MMC driver\<close> (\<open>SdMmcHw.h\<close>, \<open>SdMmc.h\<close>, \<open>Protocol.c\<close>, \<open>SdMmc.c\<close>, \<open>BlockIo.c\<close>, \<open>RpmbIo.c\<close>).
  \<^item> \<open>SdHw\<close>, \<open>SdCommands\<close>: registers, status masks, capacity and clock arithmetic at the width
    the code uses, and the command descriptors. The layouts have the sizes of their registers; the arithmetic
    is exact in the stated ranges and its wrap-around outside of them is a lemma.
  \<^item> \<open>SdHost\<close>, \<open>SdProtocol\<close>: the instance \<open>SDHC_INSTANCE\<close>, the host controller as a record of
    functions with a state of its own, and every function of \<open>Protocol.c\<close>.
  \<^item> \<open>SdReset\<close>: commands, data commands, soft reset and error recovery, which call each other. In C
    the recursion is bounded by \<open>ErrorRecoveryAttemptCount\<close>; the model unrolls it to depth
    \<open>recovery_fuel\<close> = 8: at most four nested attempts (three recoveries and the refused fourth), each
    adding a command and the status poll after it. \<open>SdRecovery\<close> proves that no run from a state
    outside a recovery reaches the end of the fuel, \<open>SdFuel\<close> that a deeper unrolling gives the same
    results, so that the functions satisfy the recursive equations of the C code.
  \<^item> \<open>SdRecovery\<close>, \<open>SdFlags\<close>, \<open>SdState\<close>, \<open>SdSpec\<close>: how each operation changes the slot, the installed
    protocols and the recovery count; what a successful initialisation, reset, command or partition
    switch guarantees. The reset may report success although a step failed; what then
    holds is part of its theorem.
  \<^item> \<open>SdBlockIo\<close>: the transfer loop. Its fuel \<open>io_fuel\<close> is the number of bytes to transfer; each round
    transfers at least one unless the transfer size has wrapped to zero, in which case no fuel is enough.
    Its reference is \<open>chunks_sent\<close>: a list of chunks with the outcome of each, failures included.
  \<^item> \<open>SdRpmb\<close>: the 512-byte frame, its codecs, and the four requests with the partition switched
    there and back.
  \<^item> \<open>SdCards\<close>: the pool of instances, driver binding start and stop, the card timer and the entry
    point as a step relation, with its invariant on every reachable state.
  \<^item> \<open>SdSim\<close>: a small simulated card, on which the witnesses run.

  \<^bold>\<open>OP-TEE client\<close> (\<open>OpteeClientMem.c\<close>, \<open>OpteeClientSMC.c\<close>, \<open>OpteeClientRPC.c\<close>, \<open>OpteeClientApiLib.c\<close>).
  \<^item> \<open>OpteeMem\<close>: the allocator over byte-addressed memory: a header before every block, a fence byte
    in all memory that is free. \<open>OpteeMemSpec\<close> proves its invariant along every sequence of
    allocations, frees and writes of honest clients, and that allocating, using and freeing a block
    restores the window.
  \<^item> \<open>OpteeMsg\<close>: the message of a call at the byte offsets of \<open>optee_msg.h\<close>, and the conversion of the
    four operation parameters into it and back; \<open>OpteeMsgSpec\<close> proves their round trip.
  \<^item> \<open>OpteeRpc\<close>: every request of the secure world, from the registers \<open>ARM_SMC_ARGS\<close> to the message
    commands. \<open>OpteeSmc\<close>: the call loop and the three calls. \<open>OpteeApi\<close>: the exported functions.
  \<^item> \<open>OpteeSpec\<close>: opening a session and invoking a command refine one direct call of the service with the
    encoded parameters; the loop terminates whenever the secure world asks finitely often.
    Its fuel bounds the entries into the secure world and has no influence above the measure.
    \<open>OpteePool\<close>: the allocator's invariant through every request. \<open>OpteeMemSim\<close>, \<open>OpteeSim\<close>: concrete windows
    and secure worlds for the witnesses.

  \<^bold>\<open>Variable services\<close> (\<open>AuthVarsDxe.c\<close>, \<open>Measurement.c\<close>, \<open>UEFIVarServices.h\<close>).
  \<^item> \<open>AuthVar\<close>: the request structures at their byte offsets, the four services with every early
    return, the measurement of secure boot variables, the secure boot variables the driver creates,
    and its start and end.
  \<^item> \<open>AuthVarSpec\<close>: the application as a function from request bytes to result bytes; one service
    amounts to one call of it. \<open>AuthVarStore\<close>, \<open>AuthVarBoot\<close>: with an application that keeps a
    variable store, reading and writing refine look-up and update of the store, and the set-up of the
    secure boot variables computes the documented state from it. \<open>AuthVarSim\<close>: such an application.

  \<^bold>\<open>TPM 2.0 device\<close> (\<open>Tpm2DeviceLibOptee.c\<close>).
  \<^item> \<open>Tpm2\<close>: the library with its three static variables, the control area for ACPI as bytes of memory.
    \<open>Tpm2Spec\<close>: submitting a command is one call of the firmware TPM, a function from command bytes to
    response bytes, and gives the shared buffer back. \<open>Tpm2Sim\<close>: a TPM that answers the reversed command.

  \<^bold>\<open>Boot monitor file system\<close> (\<open>BootMonFsImages.c\<close>, \<open>BootMonFsOpenClose.c\<close>, \<open>BootMonFsReadWrite.c\<close>,
  \<open>BootMonFsDir.c\<close>, \<open>BootMonFsEntryPoint.c\<close>).
  \<^item> \<open>BootMonFs\<close>: the image description with its bytes and its checksum, the files of a volume in the
    order of the linked list, and the file protocol. The search over the blocks has one round of fuel
    more than there are blocks; how many links a flush of the directory may follow is a parameter.
  \<^item> \<open>BootMonDriver\<close>: the driver binding with the global list of instances, and why a stopped driver
    is of no use any more.
  \<^item> \<open>BootMonSpec\<close>: the checksum as a ones' complement sum, descriptions as bytes and back, the
    contract \<open>flash\<close> of the media, and what a mount finds. \<open>BootMonWrite\<close>: the space for a new file is
    the first free one, saving a file puts its bytes and its description on the media and touches no
    other file (unless the description comes one block too far), reading returns the bytes whatever the
    file was opened for; the order of the list is lost on the way. \<open>BootMonSim\<close>: deleting, two more errors,
    and a small volume for the witnesses.

  \<^bold>\<open>Running images\<close> (\<open>RunAxf.c\<close>, \<open>ElfLoader.c\<close>, \<open>BootMonFsLoader.c\<close>).
  \<^item> \<open>RunAxf\<close>: the ELF headers as bytes of memory, the two loaders, the list of what is to be copied or
    cleared, and the command. The loop that leaves the boot services has fuel, one unit per round.
  \<^item> \<open>RunAxfSpec\<close>: the load list puts every segment where its header says; the two loaders are
    instances of one locale, in which the jump to the entry point is justified; the loop ends when
    \<open>GetMemoryMap\<close> is as documented, \<open>ExitBootServices\<close> fails finitely often and pages can be had, however
    the map grows on the way (two rounds for each refusal are enough), and never without pages.
    \<open>RunAxfSim\<close>: what happens to files that \<open>BootMonFs\<close> has written, and a small machine.

  \<^bold>\<open>Boot device selection\<close> (\<open>BdsLoadOption.c\<close>, \<open>BdsHelper.c\<close>, \<open>BdsAppLoader.c\<close>, \<open>BdsFilePath.c\<close>).
  \<^item> \<open>BdsOption\<close>: load options as structures, as bytes of memory and as variables. \<open>BdsOptionSpec\<close>:
    storing a new option is an update of two variables, and it reads back; the contract of the variable
    services and the pool. The loop over the nodes of a path has one unit of fuel more than the path
    has bytes.
  \<^item> \<open>BdsPath\<close>: connecting device paths, removable devices and the search in firmware volumes, on paths
    as lists of nodes. \<open>BdsPathSpec\<close>: the loops end when a platform makes progress only finitely often,
    with fuel above that measure, with a handle unless no device was found; the search finds the first file.
  \<^item> \<open>BdsLoad\<close>: the five loaders, the download over TFTP and starting an application; the loop over the
    buffer sizes has three units of fuel, which is enough for every announced size. \<open>BdsLoadSpec\<close>: a
    download gives back what it opened, the progress line, and the bytes an application is started with.
    \<open>BdsOptionSim\<close>, \<open>BdsSim\<close>: a variable store, and a platform with two devices and a file server.

  \<^bold>\<open>Reading the model.\<close> Integers have the width of the code; \<open>UINTN\<close> has 64 bits. \<open>ASSERT\<close> stops the
  program as in a debug build. Logging has no effect on the state and is left out. A structure a
  caller passes by address is passed by value and returned updated; it does not overlap the shared
  window. The interfaces between components are locales, interpreted on the model's own functions.

  \<^bold>\<open>Parameters.\<close> Code outside the repository is an argument of the definitions that use it: the
  host controller and its timing, the boot services for events, protocols and memory pools, the DXE
  memory services with the PCDs that place the shared window, the secure world behind the monitor
  call, the firmware volumes, the performance counter, the RPMB protocol the OP-TEE client finds, the
  media behind Disk I/O, the UEFI variable services and the protocols behind the handles of boot devices
  (files, network, firmware volumes), and the string and device path functions of the UEFI libraries.
  What a theorem needs of them is a named hypothesis, and its witness instantiates them.

  \<^bold>\<open>Not modelled.\<close> Diagnostics that only print, code compiled out by the shipped build, the board
  set-up sequences of register writes, ACPI and SMBIOS tables, and the test applications.
\<close>

end
